(* ===== verification/Prelude.thy ===== *)
theory Prelude
  imports Main "HOL-Library.AList" "HOL-Library.Char_ord" "HOL-Library.List_Lexorder"
    "HOL-Library.Sublist"
begin

text \<open>
  Shared vocabulary of the development: the exceptions the Python code raises, the
  state-and-exception actions every stateful handler is written in, the reading of Python
  dictionaries as insertion-ordered association lists (\<open>AList.update\<close> replaces in place or
  appends, exactly as a dict assignment does), the string operations used by the sources, and
  the lemmas about them that every component uses.

  Strings are lists of characters and stand for ASCII texts; the few Chinese messages of the
  sources are represented by an ASCII gloss of the same meaning.
\<close>

section \<open>Exceptions\<close>

datatype exn_class =
    NamingError | ValueError | KeyError | TypeError
  | RepositoryError | DuplicateAppError | DuplicateTechStackError | ComposeBuildContractError
  | NotFoundError | BuildInputError | InvalidBuildTransition
  | ResourceConflict | RouteCheckInputError | RouteCheckUnavailableError | RouteCheckConflict
  | AgentExecutionError | DockerServiceError | JenkinsError | JenkinsNotStartedError
  | GitLabError | GitLabNotFoundError | GitLabComposeNotFoundError | GitLabComposeAmbiguousError
  | GitLabComposeInvalidError | GitLabRepositoryCloneError | GitLabUnavailableError | TransportError
  | HarborCleanupError | WorkspaceError | TemplateError | RegistrySyncError | AdapterError
  | OtherError

text \<open>The subclasses the code tests for by a common base class.\<close>

definition gitlab_errors :: "exn_class set" where
  "gitlab_errors = {GitLabError, GitLabNotFoundError, GitLabComposeNotFoundError, GitLabComposeAmbiguousError,
     GitLabComposeInvalidError, GitLabRepositoryCloneError}"

definition adapter_errors :: "exn_class set" where
  "adapter_errors = {AdapterError, DockerServiceError, JenkinsError, JenkinsNotStartedError, RegistrySyncError,
     HarborCleanupError} \<union> gitlab_errors"

datatype exn = Exn (exn_class: exn_class) (exn_msg: string)

type_synonym 'a res = "exn + 'a"

text \<open>Sequencing of pure fallible code: the first raise wins.\<close>

definition rbind :: "'a res \<Rightarrow> ('a \<Rightarrow> 'b res) \<Rightarrow> 'b res" where
  "rbind r f = (case r of Inl e \<Rightarrow> Inl e | Inr x \<Rightarrow> f x)"

definition rguard :: "bool \<Rightarrow> exn \<Rightarrow> unit res" where
  "rguard b e = (if b then Inr () else Inl e)"

fun rmap :: "('a \<Rightarrow> 'b res) \<Rightarrow> 'a list \<Rightarrow> 'b list res" where
  "rmap f [] = Inr []"
| "rmap f (x # xs) = rbind (f x) (\<lambda>y. rbind (rmap f xs) (\<lambda>ys. Inr (y # ys)))"

fun rfor :: "'a list \<Rightarrow> ('a \<Rightarrow> unit res) \<Rightarrow> unit res" where
  "rfor [] f = Inr ()"
| "rfor (x # xs) f = rbind (f x) (\<lambda>_. rfor xs f)"

fun rfold :: "('a \<Rightarrow> 's \<Rightarrow> 's res) \<Rightarrow> 'a list \<Rightarrow> 's \<Rightarrow> 's res" where
  "rfold f [] s = Inr s"
| "rfold f (x # xs) s = rbind (f x s) (\<lambda>s'. rfold f xs s')"

definition is_ok :: "'a res \<Rightarrow> bool" where
  "is_ok r = (case r of Inl _ \<Rightarrow> False | Inr _ \<Rightarrow> True)"

lemma is_ok_simps [simp]: "is_ok (Inr x)" "\<not> is_ok (Inl e)"
  by (simp_all add: is_ok_def)

lemma rbind_simps [simp]:
  "rbind (Inr x) f = f x" "rbind (Inl e) f = Inl e"
  by (simp_all add: rbind_def)

lemma rbind_Inr_iff: "rbind r f = Inr y \<longleftrightarrow> (\<exists>x. r = Inr x \<and> f x = Inr y)"
  by (cases r) simp_all

lemma rbind_Inl_iff: "rbind r f = Inl e \<longleftrightarrow> r = Inl e \<or> (\<exists>x. r = Inr x \<and> f x = Inl e)"
  by (cases r) simp_all

lemma rguard_Inr_iff [simp]: "rguard b e = Inr u \<longleftrightarrow> b"
  by (simp add: rguard_def)

lemma rguard_Inl_iff [simp]: "rguard b e = Inl e' \<longleftrightarrow> \<not> b \<and> e' = e"
  by (auto simp: rguard_def)

lemma rguard_simps [simp]: "rguard True e = Inr ()" "rguard False e = Inl e"
  by (simp_all add: rguard_def)

lemma rmap_Inr_iff: "rmap f xs = Inr ys \<longleftrightarrow> list_all2 (\<lambda>x y. f x = Inr y) xs ys"
  by (induction xs arbitrary: ys) (auto simp: rbind_Inr_iff list_all2_Cons1)

lemma rfor_Inr_iff: "rfor xs f = Inr u \<longleftrightarrow> (\<forall>x\<in>set xs. f x = Inr ())"
  by (induction xs) (auto simp: rbind_Inr_iff)

section \<open>Actions: state passing with exceptions\<close>

text \<open>
  A stateful Python method becomes an action: it takes the state, and gives its outcome (a
  raised exception or a value) together with the state it leaves. Mutations made before a
  raise stay, as they do in Python.
\<close>

type_synonym ('w, 'a) action = "'w \<Rightarrow> 'a res \<times> 'w"

definition ret :: "'a \<Rightarrow> ('w, 'a) action" where
  "ret x = (\<lambda>w. (Inr x, w))"

definition raise :: "exn_class \<Rightarrow> string \<Rightarrow> ('w, 'a) action" where
  "raise c m = (\<lambda>w. (Inl (Exn c m), w))"

definition reraise :: "exn \<Rightarrow> ('w, 'a) action" where
  "reraise e = (\<lambda>w. (Inl e, w))"

definition bd :: "('w, 'a) action \<Rightarrow> ('a \<Rightarrow> ('w, 'b) action) \<Rightarrow> ('w, 'b) action" where
  "bd m f = (\<lambda>w. case m w of (Inl e, w') \<Rightarrow> (Inl e, w') | (Inr x, w') \<Rightarrow> f x w')"

definition andthen :: "('w, 'a) action \<Rightarrow> ('w, 'b) action \<Rightarrow> ('w, 'b) action" where
  "andthen m k = bd m (\<lambda>_. k)"

definition reading :: "('w \<Rightarrow> 'a) \<Rightarrow> ('w, 'a) action" where
  "reading f = (\<lambda>w. (Inr (f w), w))"

definition modify :: "('w \<Rightarrow> 'w) \<Rightarrow> ('w, unit) action" where
  "modify f = (\<lambda>w. (Inr (), f w))"

definition lift_res :: "'a res \<Rightarrow> ('w, 'a) action" where
  "lift_res r = (\<lambda>w. (r, w))"

definition require :: "bool \<Rightarrow> exn_class \<Rightarrow> string \<Rightarrow> ('w, unit) action" where
  "require b c m = (if b then ret () else raise c m)"

text \<open>\<open>try: m; except Exception as exc: h(exc)\<close>.\<close>

definition catching :: "('w, 'a) action \<Rightarrow> (exn \<Rightarrow> ('w, 'a) action) \<Rightarrow> ('w, 'a) action" where
  "catching m h = (\<lambda>w. case m w of (Inl e, w') \<Rightarrow> h e w' | (Inr x, w') \<Rightarrow> (Inr x, w'))"

text \<open>\<open>try: m\<close> as a value, for the blocks whose handlers continue differently.\<close>

definition attempt :: "('w, 'a) action \<Rightarrow> ('w, 'a res) action" where
  "attempt m = (\<lambda>w. case m w of (r, w') \<Rightarrow> (Inr r, w'))"

text \<open>\<open>try: m; finally: c\<close>: an exception of the clean-up replaces the outcome.\<close>

definition finally_do :: "('w, 'a) action \<Rightarrow> ('w, unit) action \<Rightarrow> ('w, 'a) action" where
  "finally_do m c = (\<lambda>w. case m w of (r, w') \<Rightarrow>
     (case c w' of (Inl e, w'') \<Rightarrow> (Inl e, w'') | (Inr _, w'') \<Rightarrow> (r, w'')))"

fun for_each :: "'a list \<Rightarrow> ('a \<Rightarrow> ('w, unit) action) \<Rightarrow> ('w, unit) action" where
  "for_each [] f = ret ()"
| "for_each (x # xs) f = andthen (f x) (for_each xs f)"

fun fold_each :: "'a list \<Rightarrow> ('a \<Rightarrow> 's \<Rightarrow> ('w, 's) action) \<Rightarrow> 's \<Rightarrow> ('w, 's) action" where
  "fold_each [] f s = ret s"
| "fold_each (x # xs) f s = bd (f x s) (\<lambda>s'. fold_each xs f s')"

named_theorems action_simps "unfolding of the action combinators on a state"

lemma ret_app [simp, action_simps]: "ret x w = (Inr x, w)"
  by (simp add: ret_def)

lemma raise_app [simp, action_simps]: "raise c m w = (Inl (Exn c m), w)"
  by (simp add: raise_def)

lemma reraise_app [simp, action_simps]: "reraise e w = (Inl e, w)"
  by (simp add: reraise_def)

lemma reading_app [simp, action_simps]: "reading f w = (Inr (f w), w)"
  by (simp add: reading_def)

lemma modify_app [simp, action_simps]: "modify f w = (Inr (), f w)"
  by (simp add: modify_def)

lemma lift_res_app [simp, action_simps]: "lift_res r w = (r, w)"
  by (simp add: lift_res_def)

lemma require_app [simp, action_simps]:
  "require b c m w = ((if b then Inr () else Inl (Exn c m)), w)"
  by (simp add: require_def)

lemma bd_app [action_simps]:
  "bd m f w = (case m w of (Inl e, w') \<Rightarrow> (Inl e, w') | (Inr x, w') \<Rightarrow> f x w')"
  by (simp add: bd_def)

lemma bd_Inr [simp]: "m w = (Inr x, w') \<Longrightarrow> bd m f w = f x w'"
  by (simp add: bd_def)

lemma bd_Inl [simp]: "m w = (Inl e, w') \<Longrightarrow> bd m f w = (Inl e, w')"
  by (simp add: bd_def)

lemma andthen_app [action_simps]:
  "andthen m k w = (case m w of (Inl e, w') \<Rightarrow> (Inl e, w') | (Inr x, w') \<Rightarrow> k w')"
  by (simp add: andthen_def bd_def)

lemma andthen_Inr [simp]: "m w = (Inr x, w') \<Longrightarrow> andthen m k w = k w'"
  by (simp add: andthen_def)

lemma andthen_Inl [simp]: "m w = (Inl e, w') \<Longrightarrow> andthen m k w = (Inl e, w')"
  by (simp add: andthen_def)

lemma catching_app [action_simps]:
  "catching m h w = (case m w of (Inl e, w') \<Rightarrow> h e w' | (Inr x, w') \<Rightarrow> (Inr x, w'))"
  by (simp add: catching_def)

lemma attempt_app [action_simps]: "attempt m w = (case m w of (r, w') \<Rightarrow> (Inr r, w'))"
  by (simp add: attempt_def)

lemma finally_do_app [action_simps]:
  "finally_do m c w = (case m w of (r, w') \<Rightarrow>
     (case c w' of (Inl e, w'') \<Rightarrow> (Inl e, w'') | (Inr _, w'') \<Rightarrow> (r, w'')))"
  by (simp add: finally_do_def)

lemma bd_InrE: "bd m f w = (Inr y, w') \<Longrightarrow> (\<And>x w1. m w = (Inr x, w1) \<Longrightarrow> f x w1 = (Inr y, w') \<Longrightarrow> thesis) \<Longrightarrow> thesis"
  by (auto simp: bd_app split: prod.splits sum.splits)

lemma andthen_InrE: "andthen m k w = (Inr y, w') \<Longrightarrow> (\<And>x w1. m w = (Inr x, w1) \<Longrightarrow> k w1 = (Inr y, w') \<Longrightarrow> thesis) \<Longrightarrow> thesis"
  unfolding andthen_def by (erule bd_InrE)

lemma bd_cong_step:
  assumes "m' w = m w" and "\<And>x w1. m w = (Inr x, w1) \<Longrightarrow> f' x w1 = f x w1"
  shows "bd m' f' w = bd m f w"
  using assms by (auto simp: bd_app split: prod.split sum.split)

lemma andthen_cong_step:
  assumes "m' w = m w" and "\<And>x w1. m w = (Inr x, w1) \<Longrightarrow> k' w1 = k w1"
  shows "andthen m' k' w = andthen m k w"
  using assms by (auto simp: andthen_app split: prod.split sum.split)

subsection \<open>Actions that respect a relation between states\<close>

text \<open>
  Guarantees of whole handlers are proved compositionally: \<open>keeps R m\<close> says that the state
  an action leaves is \<open>R\<close>-related to the one it was started in, whether it returned or
  raised. For a reflexive and transitive \<open>R\<close> the combinators preserve it; the locale
  collects these rules once and is interpreted for each guarantee.
\<close>

definition keeps :: "('w \<Rightarrow> 'w \<Rightarrow> bool) \<Rightarrow> ('w, 'a) action \<Rightarrow> bool" where
  "keeps R m \<longleftrightarrow> (\<forall>w. R w (snd (m w)))"

lemma keepsI: "(\<And>w. R w (snd (m w))) \<Longrightarrow> keeps R m"
  by (simp add: keeps_def)

lemma keepsD: "keeps R m \<Longrightarrow> R w (snd (m w))"
  by (simp add: keeps_def)

lemma keeps_run: "keeps R m \<Longrightarrow> m w = (r, w') \<Longrightarrow> R w w'"
  by (metis keepsD snd_conv)

locale step_guarantee =
  fixes R :: "'w \<Rightarrow> 'w \<Rightarrow> bool"
  assumes R_refl: "R w w"
    and R_trans: "R u v \<Longrightarrow> R v w \<Longrightarrow> R u w"
begin

lemma keeps_ret: "keeps R (ret x)"
  by (simp add: keeps_def R_refl)

lemma keeps_raise: "keeps R (raise c m)"
  by (simp add: keeps_def R_refl)

lemma keeps_reraise: "keeps R (reraise e)"
  by (simp add: keeps_def R_refl)

lemma keeps_reading: "keeps R (reading f)"
  by (simp add: keeps_def R_refl)

lemma keeps_lift_res: "keeps R (lift_res r)"
  by (simp add: keeps_def R_refl)

lemma keeps_require: "keeps R (require b c m)"
  by (simp add: keeps_def R_refl)

lemma keeps_bd: "keeps R m \<Longrightarrow> (\<And>x. keeps R (f x)) \<Longrightarrow> keeps R (bd m f)"
  unfolding keeps_def bd_def
  by (auto split: prod.splits sum.splits) (metis R_trans snd_conv)+

lemma keeps_andthen: "keeps R m \<Longrightarrow> keeps R k \<Longrightarrow> keeps R (andthen m k)"
  by (simp add: andthen_def keeps_bd)

lemma keeps_catching: "keeps R m \<Longrightarrow> (\<And>e. keeps R (h e)) \<Longrightarrow> keeps R (catching m h)"
  unfolding keeps_def catching_def
  by (auto split: prod.splits sum.splits) (metis R_trans snd_conv)+

lemma keeps_finally: "keeps R m \<Longrightarrow> keeps R c \<Longrightarrow> keeps R (finally_do m c)"
  unfolding keeps_def finally_do_def
  by (auto split: prod.splits sum.splits) (metis R_trans snd_conv)+

lemma keeps_attempt: "keeps R m \<Longrightarrow> keeps R (attempt m)"
  unfolding keeps_def attempt_def by (auto split: prod.splits) (metis snd_conv)

lemma keeps_case_sum:
  "(\<And>e. keeps R (f e)) \<Longrightarrow> (\<And>x. keeps R (g x)) \<Longrightarrow> keeps R (case s of Inl e \<Rightarrow> f e | Inr x \<Rightarrow> g x)"
  by (cases s) simp_all

lemma keeps_case_prod: "(\<And>a b. keeps R (f a b)) \<Longrightarrow> keeps R (case p of (a, b) \<Rightarrow> f a b)"
  by (cases p) simp

lemma keeps_for_each: "(\<And>x. keeps R (f x)) \<Longrightarrow> keeps R (for_each xs f)"
  by (induction xs) (simp_all add: keeps_ret keeps_andthen)

lemma keeps_fold_each: "(\<And>x s. keeps R (f x s)) \<Longrightarrow> keeps R (fold_each xs f s)"
  by (induction xs arbitrary: s) (simp_all add: keeps_ret keeps_bd)

lemma keeps_if: "(b \<Longrightarrow> keeps R m) \<Longrightarrow> (\<not> b \<Longrightarrow> keeps R k) \<Longrightarrow> keeps R (if b then m else k)"
  by simp

lemma keeps_case_option:
  "(x = None \<Longrightarrow> keeps R m) \<Longrightarrow> (\<And>y. x = Some y \<Longrightarrow> keeps R (f y)) \<Longrightarrow>
   keeps R (case x of None \<Rightarrow> m | Some y \<Rightarrow> f y)"
  by (cases x) simp_all

lemma keeps_let: "keeps R (f x) \<Longrightarrow> keeps R (let y = x in f y)"
  by simp

lemmas keeps_rules = keeps_ret keeps_raise keeps_reraise keeps_reading keeps_lift_res
  keeps_require keeps_bd keeps_andthen keeps_catching keeps_finally keeps_for_each
  keeps_fold_each keeps_if keeps_case_option keeps_let keeps_attempt keeps_case_sum keeps_case_prod

end

section \<open>Dictionaries\<close>

type_synonym ('k, 'v) dict = "('k \<times> 'v) list"

abbreviation dget :: "('k, 'v) dict \<Rightarrow> 'k \<Rightarrow> 'v option" where
  "dget d k \<equiv> map_of d k"

abbreviation dset :: "('k, 'v) dict \<Rightarrow> 'k \<Rightarrow> 'v \<Rightarrow> ('k, 'v) dict" where
  "dset d k v \<equiv> AList.update k v d"

abbreviation ddel :: "('k, 'v) dict \<Rightarrow> 'k \<Rightarrow> ('k, 'v) dict" where
  "ddel d k \<equiv> AList.delete k d"

abbreviation keys :: "('k, 'v) dict \<Rightarrow> 'k list" where
  "keys d \<equiv> map fst d"

abbreviation vals :: "('k, 'v) dict \<Rightarrow> 'v list" where
  "vals d \<equiv> map snd d"

text \<open>\<open>{**d, **e}\<close>: the entries of \<open>e\<close> are assigned into \<open>d\<close> from left to right.\<close>

definition dmerge :: "('k, 'v) dict \<Rightarrow> ('k, 'v) dict \<Rightarrow> ('k, 'v) dict" where
  "dmerge d e = foldl (\<lambda>acc (k, v). dset acc k v) d e"

text \<open>\<open>dict.setdefault\<close>.\<close>

definition dsetdefault :: "('k, 'v) dict \<Rightarrow> 'k \<Rightarrow> 'v \<Rightarrow> ('k, 'v) dict" where
  "dsetdefault d k v = (case dget d k of None \<Rightarrow> dset d k v | Some _ \<Rightarrow> d)"

lemma dget_dset [simp]: "dget (dset d k v) k' = (if k' = k then Some v else dget d k')"
  by (simp add: update_conv')

lemma dget_ddel [simp]: "dget (ddel d k) k' = (if k' = k then None else dget d k')"
  by (simp add: delete_conv')

lemma keys_dset_set [simp]: "fst ` set (dset d k v) = insert k (fst ` set d)"
  by (simp add: dom_update)

lemma distinct_keys_dset [simp]: "distinct (keys d) \<Longrightarrow> distinct (keys (dset d k v))"
  by (rule distinct_update)

lemma distinct_keys_ddel [simp]: "distinct (keys d) \<Longrightarrow> distinct (keys (ddel d k))"
  by (rule distinct_delete)

lemma dget_SomeD: "dget d k = Some v \<Longrightarrow> (k, v) \<in> set d"
  by (rule map_of_SomeD)

lemma dget_in: "distinct (keys d) \<Longrightarrow> (k, v) \<in> set d \<Longrightarrow> dget d k = Some v"
  by (rule map_of_is_SomeI)

lemma in_dset_cases:
  "(k', v') \<in> set (dset d k v) \<Longrightarrow> distinct (keys d) \<Longrightarrow>
   (k' = k \<and> v' = v) \<or> (k' \<noteq> k \<and> (k', v') \<in> set d)"
  by (metis dget_dset dget_in distinct_keys_dset dget_SomeD option.inject)

lemma dget_dmerge:
  "dget (dmerge d e) k = (case dget (rev e) k of None \<Rightarrow> dget d k | Some v \<Rightarrow> Some v)"
  unfolding dmerge_def
proof (induction e arbitrary: d)
  case Nil
  then show ?case by simp
next
  case (Cons p e)
  then show ?case by (cases p) (auto simp: map_add_def split: option.splits)
qed

section \<open>Strings\<close>

definition starts_with :: "string \<Rightarrow> string \<Rightarrow> bool" where
  "starts_with s p = prefix p s"

definition ends_with :: "string \<Rightarrow> string \<Rightarrow> bool" where
  "ends_with s p = suffix p s"

definition code :: "char \<Rightarrow> nat" where
  "code c = of_char c"

definition in_range :: "nat \<Rightarrow> nat \<Rightarrow> char \<Rightarrow> bool" where
  "in_range lo hi c \<longleftrightarrow> lo \<le> code c \<and> code c \<le> hi"

definition is_upper :: "char \<Rightarrow> bool" where "is_upper = in_range 65 90"
definition is_lower :: "char \<Rightarrow> bool" where "is_lower = in_range 97 122"
definition is_digit :: "char \<Rightarrow> bool" where "is_digit = in_range 48 57"

definition is_alpha :: "char \<Rightarrow> bool" where
  "is_alpha c \<longleftrightarrow> is_upper c \<or> is_lower c"

definition is_alnum :: "char \<Rightarrow> bool" where
  "is_alnum c \<longleftrightarrow> is_alpha c \<or> is_digit c"

text \<open>The ASCII white space \<open>str.strip\<close> removes: tab to carriage return, the four separators, blank.\<close>

definition is_space :: "char \<Rightarrow> bool" where
  "is_space c \<longleftrightarrow> (9 \<le> code c \<and> code c \<le> 13) \<or> (28 \<le> code c \<and> code c \<le> 32)"

lemmas char_class_defs = is_alnum_def is_alpha_def is_upper_def is_lower_def is_digit_def
  is_space_def in_range_def code_def

definition lower_char :: "char \<Rightarrow> char" where
  "lower_char c = (if is_upper c then char_of (code c + 32) else c)"

definition upper_char :: "char \<Rightarrow> char" where
  "upper_char c = (if is_lower c then char_of (code c - 32) else c)"

definition lower :: "string \<Rightarrow> string" where "lower = map lower_char"
definition upper :: "string \<Rightarrow> string" where "upper = map upper_char"

definition lstrip :: "string \<Rightarrow> string" where "lstrip = dropWhile is_space"

definition strip :: "string \<Rightarrow> string" where
  "strip s = rev (lstrip (rev (lstrip s)))"

fun join :: "string \<Rightarrow> string list \<Rightarrow> string" where
  "join sep [] = []"
| "join sep [x] = x"
| "join sep (x # y # ys) = x @ sep @ join sep (y # ys)"

text \<open>\<open>s.split(sep)\<close> for a one-character separator: never empty, keeps empty parts.\<close>

fun split_on :: "char \<Rightarrow> string \<Rightarrow> string list" where
  "split_on c [] = [[]]"
| "split_on c (x # xs) =
     (if x = c then [] # split_on c xs
      else (case split_on c xs of [] \<Rightarrow> [[x]] | p # ps \<Rightarrow> (x # p) # ps))"

text \<open>\<open>s.split(sep, 1)\<close>: the text before the first separator and, if there is one, the rest.\<close>

fun split_once :: "char \<Rightarrow> string \<Rightarrow> string \<times> string option" where
  "split_once c [] = ([], None)"
| "split_once c (x # xs) =
     (if x = c then ([], Some xs)
      else (case split_once c xs of (a, b) \<Rightarrow> (x # a, b)))"

text \<open>\<open>s.rsplit(sep, 1)\<close>: split at the last separator.\<close>

definition rsplit_once :: "char \<Rightarrow> string \<Rightarrow> string option \<times> string" where
  "rsplit_once c s = (case split_once c (rev s) of (a, b) \<Rightarrow> (map_option rev b, rev a))"

text \<open>The characters \<open>str.splitlines\<close> breaks at, and the pieces between them. Python breaks once at a
  carriage return and line feed, where there is an empty piece here, and has no empty last piece.\<close>

definition line_break :: "char \<Rightarrow> bool" where
  "line_break c \<longleftrightarrow> (10 \<le> code c \<and> code c \<le> 13) \<or> (28 \<le> code c \<and> code c \<le> 30)"

fun line_pieces :: "string \<Rightarrow> string list" where
  "line_pieces [] = [[]]"
| "line_pieces (c # s) =
     (if line_break c then [] # line_pieces s
      else (case line_pieces s of [] \<Rightarrow> [[c]] | p # ps \<Rightarrow> (c # p) # ps))"

text \<open>\<open>s.removesuffix(t)\<close> and \<open>s.removeprefix(t)\<close>.\<close>

definition without_suffix :: "string \<Rightarrow> string \<Rightarrow> string" where
  "without_suffix t s = (if ends_with s t then take (length s - length t) s else s)"

definition without_prefix :: "string \<Rightarrow> string \<Rightarrow> string" where
  "without_prefix t s = (if starts_with s t then drop (length t) s else s)"

definition contains :: "string \<Rightarrow> string \<Rightarrow> bool" where
  "contains s p = sublist p s"

lemma split_on_not_Nil [simp]: "split_on c s \<noteq> []"
  by (cases s) (auto split: list.splits)

lemma split_once_None: "snd (split_once c s) = None \<longleftrightarrow> c \<notin> set s"
  by (induction s) (auto split: prod.splits)

lemma split_once_Some: "split_once c s = (a, Some b) \<Longrightarrow> s = a @ c # b \<and> c \<notin> set a"
  by (induction s arbitrary: a b) (auto split: prod.splits if_splits)

lemma split_once_append: "c \<notin> set a \<Longrightarrow> split_once c (a @ c # b) = (a, Some b)"
  by (induction a) auto

lemma join_split_on: "join [c] (split_on c s) = s"
proof (induction s)
  case Nil
  show ?case by simp
next
  case (Cons x s)
  obtain p ps where ps: "split_on c s = p # ps"
    by (cases "split_on c s") auto
  show ?case
    using Cons by (cases ps) (auto simp: ps)
qed

lemma prefix_append_cancel [simp]: "starts_with (p @ s) p"
  by (simp add: starts_with_def)

lemma length_lower [simp]: "length (lower s) = length s"
  by (simp add: lower_def)

subsection \<open>Numbers as text\<close>

fun digits_of_nat :: "nat \<Rightarrow> string" where
  "digits_of_nat n =
     (if n < 10 then [char_of (48 + n)] else digits_of_nat (n div 10) @ [char_of (48 + n mod 10)])"

declare digits_of_nat.simps [simp del]

definition str_nat :: "nat \<Rightarrow> string" where "str_nat = digits_of_nat"

definition str_int :: "int \<Rightarrow> string" where
  "str_int i = (if i < 0 then ''-'' @ str_nat (nat (- i)) else str_nat (nat i))"

definition digit_val :: "char \<Rightarrow> nat" where
  "digit_val c = code c - 48"

definition nat_of_digits :: "string \<Rightarrow> nat" where
  "nat_of_digits s = foldl (\<lambda>acc c. 10 * acc + digit_val c) 0 s"

lemma code_char_of [simp]: "n < 256 \<Longrightarrow> code (char_of n) = n"
  by (simp add: code_def)

lemma digits_of_nat_digits: "\<forall>c\<in>set (digits_of_nat n). is_digit c"
proof (induction n rule: digits_of_nat.induct)
  case (1 n)
  then show ?case
    by (subst digits_of_nat.simps) (auto simp: is_digit_def in_range_def)
qed

lemma nat_of_digits_append: "nat_of_digits (s @ [c]) = 10 * nat_of_digits s + digit_val c"
  by (simp add: nat_of_digits_def)

lemma nat_of_digits_digits_of_nat [simp]: "nat_of_digits (digits_of_nat n) = n"
proof (induction n rule: digits_of_nat.induct)
  case (1 n)
  show ?case
  proof (cases "n < 10")
    case True
    then show ?thesis
      by (subst digits_of_nat.simps) (simp add: nat_of_digits_def digit_val_def)
  next
    case False
    with 1 show ?thesis
      by (subst digits_of_nat.simps) (simp add: nat_of_digits_append digit_val_def)
  qed
qed

lemma str_nat_inject: "str_nat m = str_nat n \<longleftrightarrow> m = n"
  by (metis nat_of_digits_digits_of_nat str_nat_def)

subsection \<open>Hexadecimal text\<close>

definition hex_digit :: "nat \<Rightarrow> char" where
  "hex_digit n = (if n < 10 then char_of (48 + n) else char_of (87 + n))"

definition hex_byte :: "nat \<Rightarrow> string" where
  "hex_byte n = [hex_digit (n div 16), hex_digit (n mod 16)]"

text \<open>\<open>s.encode('utf-8').hex()\<close> of an ASCII text.\<close>

definition hex_of_string :: "string \<Rightarrow> string" where
  "hex_of_string s = concat (map (\<lambda>c. hex_byte (code c)) s)"

definition is_hex :: "char \<Rightarrow> bool" where
  "is_hex c \<longleftrightarrow> is_digit c \<or> in_range 97 102 c"

lemma code_less [simp]: "code c < 256"
  by (simp add: code_def)

lemma code_inject [simp]: "code c = code d \<longleftrightarrow> c = d"
  by (simp add: code_def)

lemma hex_digit_inject: "m < 16 \<Longrightarrow> n < 16 \<Longrightarrow> hex_digit m = hex_digit n \<longleftrightarrow> m = n"
  unfolding hex_digit_def
  by (auto simp: code_inject [symmetric] simp del: code_inject split: if_splits)

lemma is_hex_hex_digit [simp]: "n < 16 \<Longrightarrow> is_hex (hex_digit n)"
  by (auto simp: is_hex_def hex_digit_def is_digit_def in_range_def)

lemma hex_byte_inject: "m < 256 \<Longrightarrow> n < 256 \<Longrightarrow> hex_byte m = hex_byte n \<longleftrightarrow> m = n"
  unfolding hex_byte_def
  by (auto simp: hex_digit_inject) (metis div_mult_mod_eq)

lemma hex_of_string_inject: "hex_of_string s = hex_of_string t \<longleftrightarrow> s = t"
proof (induction s arbitrary: t)
  case Nil
  then show ?case by (cases t) (auto simp: hex_of_string_def hex_byte_def)
next
  case (Cons c s)
  show ?case
  proof (cases t)
    case Nil
    then show ?thesis by (simp add: hex_of_string_def hex_byte_def)
  next
    case (Cons d t')
    have len: "length (hex_byte (code c)) = length (hex_byte (code d))"
      by (simp add: hex_byte_def)
    have "hex_of_string (c # s) = hex_of_string (d # t') \<longleftrightarrow>
        hex_byte (code c) = hex_byte (code d) \<and> hex_of_string s = hex_of_string t'"
      using len by (simp add: hex_of_string_def)
    then show ?thesis
      using Cons Cons.IH by (simp add: hex_byte_inject)
  qed
qed

lemma hex_byte_hex: "n < 256 \<Longrightarrow> c \<in> set (hex_byte n) \<Longrightarrow> is_hex c"
  by (auto simp: hex_byte_def intro!: is_hex_hex_digit)

lemma hex_of_string_hex: "\<forall>c\<in>set (hex_of_string s). is_hex c"
  by (auto simp: hex_of_string_def intro: hex_byte_hex [OF code_less])

lemma hex_of_string_Nil_iff [simp]: "hex_of_string s = [] \<longleftrightarrow> s = []"
  by (cases s) (auto simp: hex_of_string_def hex_byte_def)

end
