(* ===== verification/Regex.thy ===== *)
theory Regex
  imports Prelude
begin

text \<open>
  The part of Python's \<open>re\<close> the sources use with \<open>fullmatch\<close>: character classes,
  concatenation, alternation, \<open>*\<close>, \<open>+\<close>, \<open>?\<close> and bounded repetition. \<open>fullmatch\<close> is
  the executable matcher (by derivatives); \<open>lang\<close> is what the pattern denotes, and
  \<open>fullmatch_iff\<close> proves that they agree, so that a pattern of the source is copied
  literally and reasoned about as a set of strings.
\<close>

datatype rx =
    Never
  | Eps
  | Cls "char \<Rightarrow> bool"
  | Cat rx rx
  | Alt rx rx
  | Star rx

definition Plus :: "rx \<Rightarrow> rx" where "Plus r = Cat r (Star r)"
definition Opt :: "rx \<Rightarrow> rx" where "Opt r = Alt r Eps"
definition Chr :: "char \<Rightarrow> rx" where "Chr c = Cls (\<lambda>d. d = c)"
definition Lit :: "string \<Rightarrow> rx" where "Lit s = foldr (\<lambda>c r. Cat (Chr c) r) s Eps"

fun Seqs :: "rx list \<Rightarrow> rx" where
  "Seqs [] = Eps"
| "Seqs (r # rs) = Cat r (Seqs rs)"

fun Alts :: "rx list \<Rightarrow> rx" where
  "Alts [] = Never"
| "Alts (r # rs) = Alt r (Alts rs)"

fun Rep :: "nat \<Rightarrow> rx \<Rightarrow> rx" where
  "Rep 0 r = Eps"
| "Rep (Suc n) r = Cat r (Rep n r)"

fun UpTo :: "nat \<Rightarrow> rx \<Rightarrow> rx" where
  "UpTo 0 r = Eps"
| "UpTo (Suc n) r = Alt (Cat r (UpTo n r)) Eps"

text \<open>\<open>r{m,n}\<close>.\<close>

definition Between :: "nat \<Rightarrow> nat \<Rightarrow> rx \<Rightarrow> rx" where
  "Between m n r = Cat (Rep m r) (UpTo (n - m) r)"

fun nullable :: "rx \<Rightarrow> bool" where
  "nullable Never = False"
| "nullable Eps = True"
| "nullable (Cls p) = False"
| "nullable (Cat r s) = (nullable r \<and> nullable s)"
| "nullable (Alt r s) = (nullable r \<or> nullable s)"
| "nullable (Star r) = True"

text \<open>Simplifying constructors keep the derivatives small during evaluation.\<close>

fun cat :: "rx \<Rightarrow> rx \<Rightarrow> rx" where
  "cat Never s = Never"
| "cat Eps s = s"
| "cat r s = Cat r s"

fun alt :: "rx \<Rightarrow> rx \<Rightarrow> rx" where
  "alt Never s = s"
| "alt r Never = r"
| "alt r s = Alt r s"

fun deriv :: "char \<Rightarrow> rx \<Rightarrow> rx" where
  "deriv c Never = Never"
| "deriv c Eps = Never"
| "deriv c (Cls p) = (if p c then Eps else Never)"
| "deriv c (Cat r s) =
     (if nullable r then alt (cat (deriv c r) s) (deriv c s) else cat (deriv c r) s)"
| "deriv c (Alt r s) = alt (deriv c r) (deriv c s)"
| "deriv c (Star r) = cat (deriv c r) (Star r)"

fun fullmatch :: "rx \<Rightarrow> string \<Rightarrow> bool" where
  "fullmatch r [] = nullable r"
| "fullmatch r (c # s) = fullmatch (deriv c r) s"

section \<open>What a pattern denotes\<close>

definition conc :: "string set \<Rightarrow> string set \<Rightarrow> string set" where
  "conc A B = {u @ v | u v. u \<in> A \<and> v \<in> B}"

inductive_set star :: "string set \<Rightarrow> string set" for A where
  star_Nil: "[] \<in> star A"
| star_append: "u \<in> A \<Longrightarrow> v \<in> star A \<Longrightarrow> u @ v \<in> star A"

fun lang :: "rx \<Rightarrow> string set" where
  "lang Never = {}"
| "lang Eps = {[]}"
| "lang (Cls p) = {[c] | c. p c}"
| "lang (Cat r s) = conc (lang r) (lang s)"
| "lang (Alt r s) = lang r \<union> lang s"
| "lang (Star r) = star (lang r)"

lemma concI: "u \<in> A \<Longrightarrow> v \<in> B \<Longrightarrow> u @ v \<in> conc A B"
  by (auto simp: conc_def)

lemma conc_empty [simp]: "conc {} B = {}" "conc A {} = {}" "conc {[]} B = B" "conc A {[]} = A"
  by (auto simp: conc_def)

lemma conc_assoc: "conc (conc A B) C = conc A (conc B C)"
  unfolding conc_def by (auto, metis append_assoc, metis append_assoc)

lemma lang_cat [simp]: "lang (cat r s) = conc (lang r) (lang s)"
  by (cases r) simp_all

lemma lang_alt [simp]: "lang (alt r s) = lang r \<union> lang s"
  by (induction r s rule: alt.induct) simp_all

lemma nullable_iff: "nullable r \<longleftrightarrow> [] \<in> lang r"
  by (induction r) (auto simp: conc_def star_Nil)

lemma Cons_conc_iff:
  "c # w \<in> conc A B \<longleftrightarrow>
   (\<exists>u v. w = u @ v \<and> c # u \<in> A \<and> v \<in> B) \<or> ([] \<in> A \<and> c # w \<in> B)"
  by (auto simp: conc_def Cons_eq_append_conv)

lemma star_ConsD: "w \<in> star A \<Longrightarrow> w = c # v \<Longrightarrow> \<exists>x y. v = x @ y \<and> c # x \<in> A \<and> y \<in> star A"
  by (induction arbitrary: v rule: star.induct) (auto simp: append_eq_Cons_conv)

lemma Cons_star_iff: "c # w \<in> star A \<longleftrightarrow> (\<exists>u v. w = u @ v \<and> c # u \<in> A \<and> v \<in> star A)"
  by (auto dest: star_ConsD) (metis append_Cons star.star_append)

lemma deriv_iff: "w \<in> lang (deriv c r) \<longleftrightarrow> c # w \<in> lang r"
proof (induction r arbitrary: w)
  case (Cat r s)
  then show ?case
    by (auto simp: Cons_conc_iff nullable_iff) (auto simp: conc_def)
next
  case (Star r)
  then show ?case by (auto simp: Cons_star_iff conc_def)
qed auto

theorem fullmatch_iff: "fullmatch r s \<longleftrightarrow> s \<in> lang r"
  by (induction s arbitrary: r) (simp_all add: nullable_iff deriv_iff)

section \<open>Derived patterns\<close>

named_theorems rx_lang "membership in the derived patterns"

lemma lang_Chr [simp]: "lang (Chr c) = {[c]}"
  by (auto simp: Chr_def)

lemma lang_Lit [simp]: "lang (Lit s) = {s}"
  by (induction s) (auto simp: Lit_def conc_def)

lemma lang_Opt [simp]: "lang (Opt r) = insert [] (lang r)"
  by (auto simp: Opt_def)

lemma lang_Plus: "lang (Plus r) = conc (lang r) (star (lang r))"
  by (simp add: Plus_def)

lemma star_Cls_iff [simp]: "w \<in> star {[c] | c. p c} \<longleftrightarrow> (\<forall>c\<in>set w. p c)"
proof
  show "w \<in> star {[c] | c. p c} \<Longrightarrow> \<forall>c\<in>set w. p c"
    by (induction rule: star.induct) auto
  show "\<forall>c\<in>set w. p c \<Longrightarrow> w \<in> star {[c] | c. p c}"
  proof (induction w)
    case Nil
    show ?case by (rule star_Nil)
  next
    case (Cons c w)
    then have "[c] @ w \<in> star {[c] | c. p c}" by (intro star.star_append) auto
    then show ?case by simp
  qed
qed

lemma conc_Cls_iff [simp]:
  "[] \<notin> conc {[c] | c. p c} B" "a # v \<in> conc {[c] | c. p c} B \<longleftrightarrow> p a \<and> v \<in> B"
proof -
  show "[] \<notin> conc {[c] | c. p c} B" by (auto simp: conc_def)
  have "p a \<Longrightarrow> v \<in> B \<Longrightarrow> [a] @ v \<in> conc {[c] | c. p c} B"
    by (rule concI) auto
  then show "a # v \<in> conc {[c] | c. p c} B \<longleftrightarrow> p a \<and> v \<in> B"
    by (auto simp: conc_def)
qed

lemma lang_Plus_Cls [simp]: "w \<in> lang (Plus (Cls p)) \<longleftrightarrow> w \<noteq> [] \<and> (\<forall>c\<in>set w. p c)"
  by (cases w) (simp_all add: lang_Plus)

lemma lang_Cls_Star_iff:
  "w \<in> lang (Cat (Cls p) (Star (Cls q))) \<longleftrightarrow>
   (case w of [] \<Rightarrow> False | c # v \<Rightarrow> p c \<and> (\<forall>d\<in>set v. q d))"
  by (cases w) simp_all

lemma lang_Rep_Cls [simp]: "w \<in> lang (Rep n (Cls p)) \<longleftrightarrow> length w = n \<and> (\<forall>c\<in>set w. p c)"
proof (induction n arbitrary: w)
  case (Suc n)
  then show ?case by (cases w) auto
qed auto

lemma lang_UpTo_Cls [simp]: "w \<in> lang (UpTo n (Cls p)) \<longleftrightarrow> length w \<le> n \<and> (\<forall>c\<in>set w. p c)"
proof (induction n arbitrary: w)
  case (Suc n)
  then show ?case by (cases w) auto
qed auto

lemma lang_Between_Cls:
  "m \<le> n \<Longrightarrow> w \<in> lang (Between m n (Cls p)) \<longleftrightarrow> m \<le> length w \<and> length w \<le> n \<and> (\<forall>c\<in>set w. p c)"
proof (induction m arbitrary: n w)
  case 0
  then show ?case by (simp add: Between_def)
next
  case (Suc m)
  then obtain n' where n: "n = Suc n'" and le: "m \<le> n'" by (cases n) auto
  have "lang (Between (Suc m) n (Cls p)) = conc {[c] | c. p c} (lang (Between m n' (Cls p)))"
    unfolding Between_def n by (simp add: conc_assoc)
  then show ?case
    using Suc.IH [OF le] unfolding n by (cases w) auto
qed

lemma star_mono_append: "u \<in> star A \<Longrightarrow> v \<in> star A \<Longrightarrow> u @ v \<in> star A"
  by (induction rule: star.induct) (auto intro: star.star_append)

lemma star_one: "u \<in> A \<Longrightarrow> u \<in> star A"
  using star.star_append [OF _ star.star_Nil, of u A] by simp

text \<open>Every character of a matched string satisfies a predicate all classes of the pattern imply.\<close>

fun rx_all :: "(char \<Rightarrow> bool) \<Rightarrow> rx \<Rightarrow> bool" where
  "rx_all q Never = True"
| "rx_all q Eps = True"
| "rx_all q (Cls p) = (\<forall>c. p c \<longrightarrow> q c)"
| "rx_all q (Cat r s) = (rx_all q r \<and> rx_all q s)"
| "rx_all q (Alt r s) = (rx_all q r \<and> rx_all q s)"
| "rx_all q (Star r) = rx_all q r"

lemma star_all: "w \<in> star A \<Longrightarrow> (\<And>u. u \<in> A \<Longrightarrow> \<forall>c\<in>set u. q c) \<Longrightarrow> \<forall>c\<in>set w. q c"
  by (induction rule: star.induct) auto

lemma lang_all: "w \<in> lang r \<Longrightarrow> rx_all q r \<Longrightarrow> \<forall>c\<in>set w. q c"
proof (induction r arbitrary: w)
  case (Star r)
  from Star.prems(1) have "w \<in> star (lang r)" by simp
  then show ?case by (rule star_all) (use Star in auto)
next
  case (Cat r s)
  then obtain u v where "w = u @ v" "u \<in> lang r" "v \<in> lang s" by (auto simp: conc_def)
  with Cat.IH Cat.prems(2) show ?case by fastforce
qed auto

end
