(* ===== verification/Sha256.thy ===== *)
theory Sha256
  imports Prelude "HOL-Library.Word"
begin

unbundle bit_operations_syntax

text \<open>
  Python's \<open>hashlib.sha256(text.encode()).hexdigest()\<close> for an ASCII text, after FIPS 180-4:
  padding, message schedule and compression over 32-bit words whose addition wraps. The
  naming scheme relies only on the digest being 64 lower-case hexadecimal characters; that
  is proved here for every input.
\<close>

type_synonym u32 = "32 word"

definition sha_k :: "u32 list" where
  "sha_k = [
    1116352408, 1899447441, 3049323471, 3921009573, 961987163, 1508970993, 2453635748, 2870763221,
    3624381080, 310598401, 607225278, 1426881987, 1925078388, 2162078206, 2614888103, 3248222580,
    3835390401, 4022224774, 264347078, 604807628, 770255983, 1249150122, 1555081692, 1996064986,
    2554220882, 2821834349, 2952996808, 3210313671, 3336571891, 3584528711, 113926993, 338241895,
    666307205, 773529912, 1294757372, 1396182291, 1695183700, 1986661051, 2177026350, 2456956037,
    2730485921, 2820302411, 3259730800, 3345764771, 3516065817, 3600352804, 4094571909, 275423344,
    430227734, 506948616, 659060556, 883997877, 958139571, 1322822218, 1537002063, 1747873779,
    1955562222, 2024104815, 2227730452, 2361852424, 2428436474, 2756734187, 3204031479, 3329325298]"

datatype sha_state = Sha u32 u32 u32 u32 u32 u32 u32 u32

definition sha_init :: sha_state where
  "sha_init = Sha 1779033703 3144134277 1013904242 2773480762 1359893119 2600822924 528734635 1541459225"

definition rotr :: "nat \<Rightarrow> u32 \<Rightarrow> u32" where
  "rotr n x = drop_bit n x OR push_bit (32 - n) x"

definition big_sigma0 :: "u32 \<Rightarrow> u32" where
  "big_sigma0 x = rotr 2 x XOR rotr 13 x XOR rotr 22 x"

definition big_sigma1 :: "u32 \<Rightarrow> u32" where
  "big_sigma1 x = rotr 6 x XOR rotr 11 x XOR rotr 25 x"

definition small_sigma0 :: "u32 \<Rightarrow> u32" where
  "small_sigma0 x = rotr 7 x XOR rotr 18 x XOR drop_bit 3 x"

definition small_sigma1 :: "u32 \<Rightarrow> u32" where
  "small_sigma1 x = rotr 17 x XOR rotr 19 x XOR drop_bit 10 x"

definition sha_ch :: "u32 \<Rightarrow> u32 \<Rightarrow> u32 \<Rightarrow> u32" where
  "sha_ch x y z = (x AND y) XOR (NOT x AND z)"

definition sha_maj :: "u32 \<Rightarrow> u32 \<Rightarrow> u32 \<Rightarrow> u32" where
  "sha_maj x y z = (x AND y) XOR (x AND z) XOR (y AND z)"

text \<open>
  The message schedule as a sliding window of the last sixteen words: each round consumes the
  oldest word and appends the next one.
\<close>

fun sha_round :: "sha_state \<Rightarrow> u32 \<Rightarrow> u32 \<Rightarrow> sha_state" where
  "sha_round (Sha a b c d e f g h) k w =
     (let t1 = h + big_sigma1 e + sha_ch e f g + k + w;
          t2 = big_sigma0 a + sha_maj a b c
      in Sha (t1 + t2) a b c (d + t1) e f g)"

definition sha_next_word :: "u32 list \<Rightarrow> u32" where
  "sha_next_word ws = small_sigma1 (ws ! 14) + ws ! 9 + small_sigma0 (ws ! 1) + ws ! 0"

fun sha_rounds :: "u32 list \<Rightarrow> u32 list \<Rightarrow> sha_state \<Rightarrow> sha_state" where
  "sha_rounds [] ws s = s"
| "sha_rounds (k # ks) ws s =
     (let s' = sha_round s k (ws ! 0); ws' = tl ws @ [sha_next_word ws] in sha_rounds ks ws' s')"

fun sha_add :: "sha_state \<Rightarrow> sha_state \<Rightarrow> sha_state" where
  "sha_add (Sha a b c d e f g h) (Sha a' b' c' d' e' f' g' h') =
     Sha (a + a') (b + b') (c + c') (d + d') (e + e') (f + f') (g + g') (h + h')"

definition sha_block :: "sha_state \<Rightarrow> u32 list \<Rightarrow> sha_state" where
  "sha_block s ws = sha_add s (sha_rounds sha_k ws s)"

fun be_bytes :: "nat \<Rightarrow> int \<Rightarrow> int list" where
  "be_bytes 0 v = []"
| "be_bytes (Suc n) v = be_bytes n (v div 256) @ [v mod 256]"

definition sha_pad :: "int list \<Rightarrow> int list" where
  "sha_pad bs = bs @ 128 # replicate ((119 - length bs mod 64) mod 64) 0 @ be_bytes 8 (8 * int (length bs))"

fun be_words :: "int list \<Rightarrow> u32 list" where
  "be_words (a # b # c # d # bs) =
     word_of_int (((a * 256 + b) * 256 + c) * 256 + d) # be_words bs"
| "be_words bs = []"

function sha_blocks :: "u32 list \<Rightarrow> sha_state \<Rightarrow> sha_state" where
  "sha_blocks ws s = (if length ws < 16 then s else sha_blocks (drop 16 ws) (sha_block s (take 16 ws)))"
  by pat_completeness auto
termination
  by (relation "measure (\<lambda>(ws, s). length ws)") auto

declare sha_blocks.simps [simp del]

definition hex_word :: "u32 \<Rightarrow> string" where
  "hex_word w = concat (map (\<lambda>b. hex_byte (nat b)) (be_bytes 4 (uint w)))"

fun sha_digest :: "sha_state \<Rightarrow> string" where
  "sha_digest (Sha a b c d e f g h) = concat (map hex_word [a, b, c, d, e, f, g, h])"

definition sha256_hex :: "string \<Rightarrow> string" where
  "sha256_hex s = sha_digest (sha_blocks (be_words (sha_pad (map of_char s))) sha_init)"

lemma be_bytes_less: "b \<in> set (be_bytes n v) \<Longrightarrow> nat b < 256"
  by (induction n arbitrary: v) auto

lemma length_be_bytes [simp]: "length (be_bytes n v) = n"
  by (induction n arbitrary: v) auto

lemma length_hex_word [simp]: "length (hex_word w) = 8"
proof -
  have "length (concat (map (\<lambda>b. hex_byte (nat b)) bs)) = 2 * length bs" for bs
    by (induction bs) (auto simp: hex_byte_def)
  then show ?thesis by (simp add: hex_word_def)
qed

lemma hex_word_hex: "c \<in> set (hex_word w) \<Longrightarrow> is_hex c"
  by (auto simp: hex_word_def dest: be_bytes_less intro: hex_byte_hex)

lemma length_sha256_hex [simp]: "length (sha256_hex s) = 64"
proof -
  have "length (sha_digest st) = 64" for st by (cases st) simp
  then show ?thesis by (simp add: sha256_hex_def)
qed

lemma sha256_hex_hex: "c \<in> set (sha256_hex s) \<Longrightarrow> is_hex c"
proof -
  have "c \<in> set (sha_digest st) \<Longrightarrow> is_hex c" for st
    by (cases st) (auto dest: hex_word_hex)
  then show "c \<in> set (sha256_hex s) \<Longrightarrow> is_hex c" by (simp add: sha256_hex_def)
qed

lemma sha256_hex_nonempty [simp]: "sha256_hex s \<noteq> []"
  by (metis length_sha256_hex list.size(3) zero_neq_numeral)

text \<open>The length of the padded message is a multiple of the block size, so no byte is dropped.\<close>

lemma length_sha_pad: "64 dvd length (sha_pad bs)"
proof -
  have "64 dvd n + (1 + ((119 - n mod 64) mod 64 + 8))" for n :: nat
  proof -
    define r where "r = n mod 64"
    have r: "r < 64" and n: "n = 64 * (n div 64) + r"
      by (simp_all add: r_def)
    have "64 dvd r + (1 + ((119 - r) mod 64 + 8))"
    proof (cases "r \<le> 55")
      case True
      then have "(119 - r) mod 64 = 55 - r" by (simp add: mod_if)
      with True show ?thesis by simp
    next
      case False
      with r have "(119 - r) mod 64 = 119 - r" by simp
      with False r show ?thesis by simp
    qed
    then have "64 dvd 64 * (n div 64) + (r + (1 + ((119 - r) mod 64 + 8)))"
      by (rule dvd_add [OF dvd_triv_left])
    moreover have "n mod 64 = r" by (simp add: r_def)
    moreover have "64 * (n div 64) + (r + (1 + ((119 - r) mod 64 + 8))) =
        n + (1 + ((119 - r) mod 64 + 8))" using n by simp
    ultimately show ?thesis by (simp only:)
  qed
  from this [of "length bs"] show ?thesis
    by (simp add: sha_pad_def ac_simps)
qed

end
