(* ===== verification/Naming.thy ===== *)
theory Naming
  imports Prelude Regex Sha256
begin

text \<open>
  \<open>orchestrator/naming.py\<close>: validation of business identifiers and the deterministic names
  of Docker and registry resources derived from them. The patterns are the source's regular
  expressions; the digests are computed by \<open>Sha256\<close>; the identity pairs are serialised by
  \<open>json.dumps\<close>, whose injectivity on string lists is proved here, so that two names can
  coincide only when two SHA-256 digests do.
\<close>

section \<open>Constants and patterns\<close>

definition APPID_MAX_LENGTH :: nat where "APPID_MAX_LENGTH = 64"
definition NAMESPACE_PREFIX :: string where "NAMESPACE_PREFIX = ''appid-v1-''"
definition MAX_DOCKER_RESOURCE_NAME_LENGTH :: nat where "MAX_DOCKER_RESOURCE_NAME_LENGTH = 63"

definition lower_num :: "char \<Rightarrow> bool" where
  "lower_num c \<longleftrightarrow> is_lower c \<or> is_digit c"

definition one_of :: "string \<Rightarrow> char \<Rightarrow> bool" where
  "one_of s c \<longleftrightarrow> c \<in> set s"

definition APPID_PATTERN :: rx where
  "APPID_PATTERN = Cat (Cls is_alnum) (Star (Cls (\<lambda>c. is_alnum c \<or> one_of ''_-'' c)))"

definition separator_rx :: rx where
  "separator_rx = Alts [Cls (one_of ''._''), Lit ''__'', Plus (Cls (one_of ''-''))]"

definition DOCKER_COMPONENT_PATTERN :: rx where
  "DOCKER_COMPONENT_PATTERN =
     Cat (Plus (Cls lower_num)) (Star (Cat separator_rx (Plus (Cls lower_num))))"

definition REGISTRY_HOST_COMPONENT :: rx where
  "REGISTRY_HOST_COMPONENT =
     Cat (Cls is_alnum)
       (Opt (Cat (Between 0 61 (Cls (\<lambda>c. is_alnum c \<or> one_of ''-'' c))) (Cls is_alnum)))"

definition REGISTRY_HOST_PATTERN :: rx where
  "REGISTRY_HOST_PATTERN =
     Cat (Alts [Lit ''localhost'',
                Cat REGISTRY_HOST_COMPONENT (Star (Cat (Lit ''.'') REGISTRY_HOST_COMPONENT)),
                Seqs [Lit ''['', Plus (Cls (\<lambda>c. is_digit c \<or> in_range 65 70 c \<or> in_range 97 102 c
                        \<or> one_of '':'' c)), Lit '']'']])
         (Opt (Cat (Lit '':'') (Between 1 5 (Cls is_digit))))"

definition REPOSITORY_PATH_PATTERN :: rx where
  "REPOSITORY_PATH_PATTERN =
     Cat DOCKER_COMPONENT_PATTERN (Star (Cat (Lit ''/'') DOCKER_COMPONENT_PATTERN))"

definition DOCKER_NAME_RX :: rx where
  "DOCKER_NAME_RX = Cat (Cls is_alnum) (Star (Cls (\<lambda>c. is_alnum c \<or> one_of ''_.-'' c)))"

definition BUILD_ID_RX :: rx where
  "BUILD_ID_RX = Rep 32 (Cls is_hex)"

section \<open>Identifiers\<close>

definition validate_appid :: "string \<Rightarrow> string res" where
  "validate_appid value =
     (if \<not> (1 \<le> length value \<and> length value \<le> APPID_MAX_LENGTH)
      then Inl (Exn NamingError ''appid must be between 1 and 64 characters'')
      else if \<not> fullmatch APPID_PATTERN value
      then Inl (Exn NamingError ''appid must start with a letter or number and contain only letters, numbers, underscores, and hyphens'')
      else Inr value)"

definition is_docker_repository_component :: "string \<Rightarrow> bool" where
  "is_docker_repository_component value = fullmatch DOCKER_COMPONENT_PATTERN value"

definition external_namespace :: "string \<Rightarrow> string res" where
  "external_namespace appid =
     rbind (validate_appid appid) (\<lambda>raw.
       if \<not> starts_with raw NAMESPACE_PREFIX \<and> is_docker_repository_component raw then Inr raw
       else Inr (NAMESPACE_PREFIX @ hex_of_string raw))"

definition validate_build_id :: "string \<Rightarrow> string res" where
  "validate_build_id build_id =
     (if \<not> fullmatch BUILD_ID_RX build_id
      then Inl (Exn NamingError ''Build identifier must contain 32 lowercase hexadecimal characters'')
      else Inr build_id)"

section \<open>Serialised identities\<close>

text \<open>\<open>json.dumps\<close> of a string with \<open>ensure_ascii\<close>, and of a list of strings.\<close>

definition json_char :: "char \<Rightarrow> string" where
  "json_char c =
     (if c = CHR 0x22 then [CHR 0x5C, CHR 0x22]
      else if c = CHR 0x5C then [CHR 0x5C, CHR 0x5C]
      else if c = CHR 0x0A then [CHR 0x5C, CHR ''n'']
      else if c = CHR 0x0D then [CHR 0x5C, CHR ''r'']
      else if c = CHR 0x09 then [CHR 0x5C, CHR ''t'']
      else if c = CHR 0x0C then [CHR 0x5C, CHR ''f'']
      else if c = CHR 0x08 then [CHR 0x5C, CHR ''b'']
      else if 32 \<le> code c \<and> code c \<le> 126 then [c]
      else CHR 0x5C # ''u00'' @ hex_byte (code c))"

definition json_body :: "string \<Rightarrow> string" where
  "json_body s = concat (map json_char s)"

definition json_string :: "string \<Rightarrow> string" where
  "json_string s = CHR 0x22 # json_body s @ [CHR 0x22]"

definition json_strings :: "string \<Rightarrow> string list \<Rightarrow> string" where
  "json_strings sep xs = ''['' @ join sep (map json_string xs) @ '']''"

definition build_namespace :: "string \<Rightarrow> string \<Rightarrow> string res" where
  "build_namespace appid build_id =
     rbind (validate_appid appid) (\<lambda>a.
     rbind (validate_build_id build_id) (\<lambda>b.
       Inr (''build-v1-'' @ take 32 (sha256_hex (json_strings '','' [a, b])))))"

section \<open>Bounded names\<close>

definition raw_resource_name :: "string \<Rightarrow> string option \<Rightarrow> string" where
  "raw_resource_name pre suf = (case suf of None \<Rightarrow> pre | Some s \<Rightarrow> pre @ ''-'' @ s)"

definition bounded_resource_name :: "string \<Rightarrow> string option \<Rightarrow> int \<Rightarrow> string res" where
  "bounded_resource_name pre suf max_length =
     (if pre = [] then Inl (Exn NamingError ''resource name prefix must be a non-empty string'')
      else if suf = Some [] then Inl (Exn NamingError ''resource name suffix must be a non-empty string'')
      else if max_length < 1 then Inl (Exn NamingError ''resource name max_length must be a positive integer'')
      else
        (let raw = raw_resource_name pre suf;
             m = nat max_length
         in if length raw \<le> m then Inr raw
            else
              (let digest = take 10 (sha256_hex raw)
               in if m \<le> length digest + 1 then Inr (take m digest)
                  else
                    (let prefix_length = m - length digest - 1;
                         name = take prefix_length raw @ ''-'' @ digest
                     in Inr (drop (length name - m) name)))))"

definition volume_identity_name :: "string \<Rightarrow> string \<Rightarrow> string \<Rightarrow> string" where
  "volume_identity_name kind first second =
     (let digest = take 32 (sha256_hex (json_strings '','' [first, second]));
          readable = lower (kind @ ''-'' @ first @ ''-'' @ second);
          prefix_budget = MAX_DOCKER_RESOURCE_NAME_LENGTH - length digest - 1
      in take prefix_budget readable @ ''-'' @ digest)"

definition managed_volume_name :: "string \<Rightarrow> string \<Rightarrow> string res" where
  "managed_volume_name namespace alias =
     (if \<not> is_docker_repository_component namespace
      then Inl (Exn NamingError ''managed volume namespace must be a Docker repository component'')
      else if \<not> fullmatch DOCKER_NAME_RX alias
      then Inl (Exn NamingError ''managed volume alias must be a Docker resource name'')
      else Inr (volume_identity_name ''vol-v1'' namespace alias))"

definition template_volume_alias :: "string \<Rightarrow> string \<Rightarrow> string res" where
  "template_volume_alias component source =
     rbind (rfor [component, source] (\<lambda>value.
         rguard (fullmatch DOCKER_NAME_RX value)
           (Exn NamingError ''template volume component and source must be Docker resource names'')))
       (\<lambda>_. Inr (volume_identity_name ''tplvol-v1'' component source))"

section \<open>Image repositories\<close>

text \<open>\<open>ipaddress.IPv6Address\<close> on a text of hexadecimal digits and colons: does it parse?\<close>

definition hextet_ok :: "string \<Rightarrow> bool" where
  "hextet_ok s \<longleftrightarrow> s \<noteq> [] \<and> length s \<le> 4 \<and> (\<forall>c\<in>set s. is_digit c \<or> in_range 65 70 c \<or> in_range 97 102 c)"

definition ipv6_ok :: "string \<Rightarrow> bool" where
  "ipv6_ok s =
     (let parts = split_on (CHR '':'') s; n = length parts;
          empties = filter (\<lambda>i. parts ! i = []) [1..<n - 1]
      in s \<noteq> [] \<and> 3 \<le> n \<and> n \<le> 9 \<and>
         (case empties of
            [] \<Rightarrow> n = 8 \<and> hd parts \<noteq> [] \<and> last parts \<noteq> [] \<and> list_all hextet_ok parts
          | [k] \<Rightarrow>
              (let hi = (if hd parts = [] then k - 1 else k);
                   lo = (if last parts = [] then n - k - 2 else n - k - 1)
               in \<not> (hd parts = [] \<and> hi \<noteq> 0) \<and> \<not> (last parts = [] \<and> lo \<noteq> 0)
                  \<and> hi + lo \<le> 7
                  \<and> list_all hextet_ok (take hi parts) \<and> list_all hextet_ok (drop (n - lo) parts))
          | _ \<Rightarrow> False))"

fun index_of :: "char \<Rightarrow> string \<Rightarrow> nat" where
  "index_of c [] = 0"
| "index_of c (x # xs) = (if x = c then 0 else Suc (index_of c xs))"

definition port_text_ok :: "string \<Rightarrow> bool" where
  "port_text_ok p \<longleftrightarrow> 1 \<le> nat_of_digits p \<and> nat_of_digits p \<le> 65535"

definition validate_registry_host :: "string \<Rightarrow> string res" where
  "validate_registry_host host =
     (if host = [] \<or> \<not> fullmatch REGISTRY_HOST_PATTERN host
      then Inl (Exn NamingError ''image repository registry host is invalid'')
      else if starts_with host ''['' then
        (let closing = index_of (CHR '']'') host;
             port = drop (closing + 1) host;
             address = drop 1 (take closing host)
         in if \<not> ipv6_ok address
            then Inl (Exn NamingError ''image repository registry IPv6 address is invalid'')
            else if port \<noteq> [] \<and> (\<not> starts_with port '':'' \<or> tl port = [] \<or>
                    \<not> (\<forall>c\<in>set (tl port). is_digit c) \<or> \<not> port_text_ok (tl port))
            then Inl (Exn NamingError ''image repository registry port is invalid'')
            else Inr host)
      else if CHR '':'' \<in> set host then
        (if \<not> port_text_ok (snd (rsplit_once (CHR '':'') host))
         then Inl (Exn NamingError ''image repository registry port is invalid'')
         else Inr host)
      else if lower host \<noteq> ''localhost'' \<and> CHR ''.'' \<notin> set host
      then Inl (Exn NamingError ''image repository registry host must be qualified or include a port'')
      else Inr host)"

definition image_repository_error :: exn where
  "image_repository_error = Exn NamingError ''IMAGE_REPOSITORY must be a registry/repository reference''"

definition validate_image_repository :: "string \<Rightarrow> string res" where
  "validate_image_repository value =
     (if value = [] \<or> value \<noteq> strip value then Inl image_repository_error
      else if list_ex (contains value) [''://'', ''?'', ''#'', ''@''] then Inl image_repository_error
      else if starts_with value ''/'' \<or> contains value ''//'' then Inl image_repository_error
      else
        (let parts = split_on (CHR ''/'') value
         in if length parts < 2 \<or> [] \<in> set parts then Inl image_repository_error
            else
              rbind (validate_registry_host (hd parts)) (\<lambda>_.
                let repository = join ''/'' (tl parts)
                in if length repository > 255 \<or> \<not> fullmatch REPOSITORY_PATH_PATTERN repository
                   then Inl (Exn NamingError ''IMAGE_REPOSITORY repository path is invalid'')
                   else Inr value)))"

definition registry_from_image_repository :: "string \<Rightarrow> string res" where
  "registry_from_image_repository value =
     rbind (validate_image_repository value) (\<lambda>validated. Inr (fst (split_once (CHR ''/'') validated)))"

section \<open>Facts about identifiers and names\<close>

lemma lang_APPID: "w \<in> lang APPID_PATTERN \<longleftrightarrow>
  (case w of [] \<Rightarrow> False | c # v \<Rightarrow> is_alnum c \<and> (\<forall>d\<in>set v. is_alnum d \<or> one_of ''_-'' d))"
  unfolding APPID_PATTERN_def by (rule lang_Cls_Star_iff)

lemma validate_appid_Inr_iff:
  "validate_appid a = Inr b \<longleftrightarrow> b = a \<and> 1 \<le> length a \<and> length a \<le> 64 \<and> a \<in> lang APPID_PATTERN"
  by (auto simp: validate_appid_def fullmatch_iff APPID_MAX_LENGTH_def)

lemma validate_build_id_Inr_iff:
  "validate_build_id b = Inr c \<longleftrightarrow> c = b \<and> length b = 32 \<and> (\<forall>x\<in>set b. is_hex x)"
  by (auto simp: validate_build_id_def fullmatch_iff BUILD_ID_RX_def)

subsection \<open>Docker components\<close>

lemma lower_num_hex: "is_hex c \<Longrightarrow> lower_num c"
  by (auto simp: is_hex_def lower_num_def is_lower_def in_range_def)

lemma lang_component_run: "w \<noteq> [] \<Longrightarrow> \<forall>c\<in>set w. lower_num c \<Longrightarrow> w \<in> lang DOCKER_COMPONENT_PATTERN"
proof -
  assume "w \<noteq> []" "\<forall>c\<in>set w. lower_num c"
  then have "w @ [] \<in> lang DOCKER_COMPONENT_PATTERN"
    unfolding DOCKER_COMPONENT_PATTERN_def lang.simps by (intro concI star.star_Nil) simp_all
  then show ?thesis by simp
qed

lemma lang_component_dash:
  assumes u: "u \<in> lang DOCKER_COMPONENT_PATTERN" and v: "v \<noteq> []" "\<forall>c\<in>set v. lower_num c"
  shows "u @ ''-'' @ v \<in> lang DOCKER_COMPONENT_PATTERN"
proof -
  let ?S = "lang (Cat separator_rx (Plus (Cls lower_num)))"
  from u obtain x y where xy: "u = x @ y" "x \<in> lang (Plus (Cls lower_num))" "y \<in> star ?S"
    unfolding DOCKER_COMPONENT_PATTERN_def by (auto simp: conc_def)
  have "''-'' \<in> lang separator_rx"
    by (simp add: separator_rx_def one_of_def)
  then have "''-'' @ v \<in> ?S"
    unfolding lang.simps by (rule concI) (use v in simp)
  then have "y @ ''-'' @ v \<in> star ?S"
    using xy(3) by (blast intro: star_mono_append star_one)
  then have "x @ (y @ ''-'' @ v) \<in> lang DOCKER_COMPONENT_PATTERN"
    unfolding DOCKER_COMPONENT_PATTERN_def lang.simps using xy(2) by (intro concI) simp_all
  then show ?thesis by (simp add: xy)
qed

lemma namespace_prefix_split: "NAMESPACE_PREFIX @ h = (''appid'' @ ''-'' @ ''v1'') @ ''-'' @ h"
  by (simp add: NAMESPACE_PREFIX_def)

lemma lower_num_simps: "lower_num c \<longleftrightarrow> (97 \<le> code c \<and> code c \<le> 122) \<or> (48 \<le> code c \<and> code c \<le> 57)"
  by (simp add: lower_num_def is_lower_def is_digit_def in_range_def)

lemma encoded_namespace_component:
  assumes "raw \<noteq> []"
  shows "NAMESPACE_PREFIX @ hex_of_string raw \<in> lang DOCKER_COMPONENT_PATTERN"
proof -
  have "''appid'' \<in> lang DOCKER_COMPONENT_PATTERN"
    by (rule lang_component_run) (simp_all add: lower_num_simps code_def)
  then have "''appid'' @ ''-'' @ ''v1'' \<in> lang DOCKER_COMPONENT_PATTERN"
    by (rule lang_component_dash) (simp_all add: lower_num_simps code_def)
  then have "(''appid'' @ ''-'' @ ''v1'') @ ''-'' @ hex_of_string raw \<in> lang DOCKER_COMPONENT_PATTERN"
    by (rule lang_component_dash) (use assms hex_of_string_hex lower_num_hex in auto)
  then show ?thesis by (simp only: namespace_prefix_split)
qed

lemma build_v1_component:
  assumes "h \<noteq> []" "\<forall>c\<in>set h. is_hex c"
  shows "''build-v1-'' @ h \<in> lang DOCKER_COMPONENT_PATTERN"
proof -
  have "''build'' \<in> lang DOCKER_COMPONENT_PATTERN"
    by (rule lang_component_run) (simp_all add: lower_num_simps code_def)
  then have "''build'' @ ''-'' @ ''v1'' \<in> lang DOCKER_COMPONENT_PATTERN"
    by (rule lang_component_dash) (simp_all add: lower_num_simps code_def)
  then have "(''build'' @ ''-'' @ ''v1'') @ ''-'' @ h \<in> lang DOCKER_COMPONENT_PATTERN"
    by (rule lang_component_dash) (use assms lower_num_hex in auto)
  then show ?thesis by simp
qed

lemma validate_appid_nonempty: "validate_appid a = Inr b \<Longrightarrow> a \<noteq> []"
  by (auto simp: validate_appid_Inr_iff)

lemma external_namespace_cases:
  assumes "external_namespace a = Inr n"
  obtains (plain) "n = a" "\<not> starts_with a NAMESPACE_PREFIX" "a \<in> lang DOCKER_COMPONENT_PATTERN" "a \<noteq> []"
  | (encoded) "n = NAMESPACE_PREFIX @ hex_of_string a" "a \<noteq> []"
  using assms validate_appid_nonempty
  by (auto simp: external_namespace_def rbind_Inr_iff validate_appid_Inr_iff fullmatch_iff
      is_docker_repository_component_def split: if_splits)

subsection \<open>Injectivity of the serialised identities\<close>

text \<open>A decoder of one escaped character; that it inverts \<open>json_char\<close> makes it a prefix code.\<close>

definition hex_val :: "char \<Rightarrow> nat" where
  "hex_val c = (if is_digit c then code c - 48 else code c - 87)"

definition unjson_char :: "string \<Rightarrow> char \<times> string" where
  "unjson_char s =
     (if hd s \<noteq> CHR 0x5C then (hd s, tl s)
      else let k = s ! 1 in
        if k = CHR ''u'' then (char_of (16 * hex_val (s ! 4) + hex_val (s ! 5)), drop 6 s)
        else ((if k = CHR ''n'' then CHR 0x0A else if k = CHR ''r'' then CHR 0x0D
               else if k = CHR ''t'' then CHR 0x09 else if k = CHR ''f'' then CHR 0x0C
               else if k = CHR ''b'' then CHR 0x08 else k), drop 2 s))"

lemma hex_val_hex_digit: "n < 16 \<Longrightarrow> hex_val (hex_digit n) = n"
  by (auto simp: hex_val_def hex_digit_def is_digit_def in_range_def)

lemma char_of_code: "char_of (code c) = c"
  by (simp add: code_def)

lemma unjson_hex: "16 * hex_val (hex_digit (code c div 16)) + hex_val (hex_digit (code c mod 16)) = code c"
proof -
  have "code c div 16 < 16" using code_less [of c] by (simp add: less_mult_imp_div_less)
  then show ?thesis by (simp add: hex_val_hex_digit)
qed

lemma unjson_json_char: "unjson_char (json_char c @ x) = (c, x)"
proof -
  let ?escaped = "c = CHR 0x22 \<or> c = CHR 0x5C \<or> c = CHR 0x0A \<or> c = CHR 0x0D \<or> c = CHR 0x09
    \<or> c = CHR 0x0C \<or> c = CHR 0x08"
  show ?thesis
  proof (cases ?escaped)
    case True
    then show ?thesis by (elim disjE) (simp_all add: json_char_def unjson_char_def)
  next
    case False
    then have "json_char c = (if 32 \<le> code c \<and> code c \<le> 126 then [c]
        else CHR 0x5C # ''u00'' @ hex_byte (code c))" and "c \<noteq> CHR 0x5C"
      by (simp_all add: json_char_def)
    then show ?thesis
      by (simp add: unjson_char_def hex_byte_def unjson_hex char_of_code)
  qed
qed

lemma json_char_prefix_code: "json_char c @ x = json_char d @ y \<Longrightarrow> c = d \<and> x = y"
  by (metis unjson_json_char prod.inject)

lemma json_char_not_quote: "json_char c @ x \<noteq> CHR 0x22 # y"
  unfolding json_char_def by auto

lemma json_body_unique:
  "json_body s @ CHR 0x22 # x = json_body t @ CHR 0x22 # y \<Longrightarrow> s = t \<and> x = y"
proof (induction s arbitrary: t)
  case Nil
  then show ?case
    using json_char_not_quote [of _ _ x] by (cases t) (auto simp: json_body_def dest: sym)
next
  case (Cons c s)
  show ?case
  proof (cases t)
    case Nil
    with Cons.prems have "json_char c @ (json_body s @ CHR 0x22 # x) = CHR 0x22 # y"
      by (simp add: json_body_def)
    then show ?thesis using json_char_not_quote by blast
  next
    case (Cons d t')
    with Cons.prems have
      "json_char c @ (json_body s @ CHR 0x22 # x) = json_char d @ (json_body t' @ CHR 0x22 # y)"
      by (simp add: json_body_def)
    from json_char_prefix_code [OF this] Cons.IH [of t'] Cons show ?thesis by simp
  qed
qed

lemma json_string_unique: "json_string s @ x = json_string t @ y \<Longrightarrow> s = t \<and> x = y"
  using json_body_unique [of s x t y] by (simp add: json_string_def)

lemma json_string_inject: "json_string s = json_string t \<longleftrightarrow> s = t"
  using json_string_unique [of s "[]" t "[]"] by auto

lemma json_pair_inject:
  "json_strings sep [a, b] = json_strings sep [c, d] \<longleftrightarrow> a = c \<and> b = d"
  unfolding json_strings_def by (auto dest!: json_string_unique simp: json_string_inject)

lemma json_triple_inject:
  "json_strings sep [a, b, c] = json_strings sep [a', b', c'] \<longleftrightarrow> a = a' \<and> b = b' \<and> c = c'"
  unfolding json_strings_def by (auto dest!: json_string_unique simp: json_string_inject)

subsection \<open>Bounded names\<close>

lemma volume_identity_name_parts:
  "volume_identity_name kind a b =
     take 30 (lower (kind @ ''-'' @ a @ ''-'' @ b)) @ ''-'' @ take 32 (sha256_hex (json_strings '','' [a, b]))"
  by (simp add: volume_identity_name_def MAX_DOCKER_RESOURCE_NAME_LENGTH_def)

lemma length_volume_identity_name: "length (volume_identity_name kind a b) \<le> 63"
  by (simp add: volume_identity_name_parts)

lemma suffix_take_eq:
  "u @ v = u' @ v' \<Longrightarrow> length v = length v' \<Longrightarrow> u = u' \<and> v = v'"
  by (simp add: append_eq_append_conv)

lemma volume_identity_name_digest:
  assumes "volume_identity_name k a b = volume_identity_name k' c d"
  shows "take 32 (sha256_hex (json_strings '','' [a, b])) = take 32 (sha256_hex (json_strings '','' [c, d]))"
  using suffix_take_eq [of "take 30 (lower (k @ ''-'' @ a @ ''-'' @ b)) @ ''-''"
      "take 32 (sha256_hex (json_strings '','' [a, b]))"]
    assms by (simp add: volume_identity_name_parts)

lemma length_bounded_resource_name:
  assumes "bounded_resource_name pre suf m = Inr n"
  shows "int (length n) \<le> m"
  using assms unfolding bounded_resource_name_def Let_def
  by (auto split: if_splits option.splits)

lemma build_namespace_Inr_iff:
  "build_namespace a b = Inr n \<longleftrightarrow>
   validate_appid a = Inr a \<and> validate_build_id b = Inr b \<and>
   n = ''build-v1-'' @ take 32 (sha256_hex (json_strings '','' [a, b]))"
  by (auto simp: build_namespace_def rbind_Inr_iff validate_appid_Inr_iff validate_build_id_Inr_iff)

lemma build_namespace_component:
  "''build-v1-'' @ take 32 (sha256_hex s) \<in> lang DOCKER_COMPONENT_PATTERN"
  by (rule build_v1_component) (auto dest: in_set_takeD sha256_hex_hex)

lemma split_on_head: "c \<notin> set (hd (split_on c s))"
  by (induction s) (auto split: list.splits)

lemma split_on_two:
  assumes "2 \<le> length (split_on c s)"
  shows "s = hd (split_on c s) @ c # join [c] (tl (split_on c s)) \<and>
    split_once c s = (hd (split_on c s), Some (join [c] (tl (split_on c s))))"
proof -
  obtain p q ps where pq: "split_on c s = p # q # ps"
    using assms by (cases "split_on c s"; cases "tl (split_on c s)") auto
  then have "s = p @ c # join [c] (q # ps)"
    using join_split_on [of c s] by simp
  moreover have "c \<notin> set p"
    using split_on_head [of c s] pq by simp
  ultimately show ?thesis using pq split_once_append [of c p] by simp
qed

section \<open>Properties\<close>

text \<open>
  C29: no two applications share a registry namespace. Identifiers that are accepted and get the
  same external namespace are the same identifier, although some are used as they are and
  others are encoded behind a reserved prefix.
\<close>

theorem external_namespace_injective:
  assumes "external_namespace a = Inr n" and "external_namespace b = Inr n"
  shows "a = b"
  using assms
  by (elim external_namespace_cases) (auto simp: starts_with_def hex_of_string_inject)

theorem external_namespace_injective_witness:
  "external_namespace ''Shop_1'' = Inr ''appid-v1-53686f705f31'' \<and> ''Shop_1'' = ''Shop_1''"
  using external_namespace_injective [of "''Shop_1''" "''appid-v1-53686f705f31''" "''Shop_1''"]
  by code_simp

text \<open>
  every valid application identifier has an external namespace, which is a repository path
  component Docker accepts; it is the identifier itself or the prefix followed by its bytes in
  hexadecimal.
\<close>

lemma external_namespace_total:
  assumes "validate_appid a = Inr a"
  shows "\<exists>n. external_namespace a = Inr n \<and> is_docker_repository_component n \<and>
    (n = a \<or> n = NAMESPACE_PREFIX @ hex_of_string a)"
proof -
  have "a \<noteq> []" using assms validate_appid_nonempty by blast
  then show ?thesis
    using assms encoded_namespace_component [of a]
    by (auto simp: external_namespace_def is_docker_repository_component_def fullmatch_iff)
qed

text \<open>
  the Swarm namespace of a build exists for every valid pair of identifiers, is a 41
  character component Docker accepts, and two pairs share it only if the truncated SHA-256
  digests of their distinct serialisations coincide.
\<close>

lemma build_namespace_shape:
  assumes "validate_appid a = Inr a" and "validate_build_id b = Inr b"
    and "validate_appid a' = Inr a'" and "validate_build_id b' = Inr b'"
  shows "\<exists>n. build_namespace a b = Inr n \<and> length n = 41 \<and> is_docker_repository_component n \<and>
    (build_namespace a' b' = Inr n \<longleftrightarrow>
       (a, b) = (a', b') \<or>
       (json_strings '','' [a, b] \<noteq> json_strings '','' [a', b'] \<and>
        take 32 (sha256_hex (json_strings '','' [a, b])) = take 32 (sha256_hex (json_strings '','' [a', b']))))"
proof -
  let ?n = "''build-v1-'' @ take 32 (sha256_hex (json_strings '','' [a, b]))"
  have "build_namespace a b = Inr ?n"
    using assms by (simp add: build_namespace_Inr_iff)
  moreover have "is_docker_repository_component ?n"
    using build_namespace_component by (simp only: is_docker_repository_component_def fullmatch_iff)
  moreover have "build_namespace a' b' = Inr ?n \<longleftrightarrow>
      take 32 (sha256_hex (json_strings '','' [a, b])) = take 32 (sha256_hex (json_strings '','' [a', b']))"
    using assms by (auto simp: build_namespace_Inr_iff)
  ultimately show ?thesis
    by (intro exI [of _ ?n]) (auto simp: json_pair_inject)
qed

text \<open>
  a bounded resource name exists for every non-empty prefix and suffix, respects the bound,
  is the readable name itself whenever that fits, and otherwise ends with the digest of the
  whole readable name.
\<close>

lemma bounded_resource_name_total:
  assumes "pre \<noteq> []" and "suf \<noteq> Some []" and "1 \<le> m"
  shows "\<exists>n. bounded_resource_name pre suf m = Inr n \<and> n \<noteq> [] \<and> int (length n) \<le> m \<and>
     (if int (length (raw_resource_name pre suf)) \<le> m then n = raw_resource_name pre suf
      else if m \<le> 11 then n = take (nat m) (take 10 (sha256_hex (raw_resource_name pre suf)))
      else n = take (nat m - 11) (raw_resource_name pre suf) @ ''-'' @
             take 10 (sha256_hex (raw_resource_name pre suf)))"
proof -
  have "raw_resource_name pre suf \<noteq> []"
    using assms(1) by (simp add: raw_resource_name_def split: option.split)
  then show ?thesis
    using assms unfolding bounded_resource_name_def Let_def by auto
qed

text \<open>
  the volume of a namespace and alias has a name of at most 63 characters, and two of them
  are given one volume only if the truncated digests of their distinct serialisations coincide.
\<close>

lemma managed_volume_name_collision:
  assumes "is_docker_repository_component ns" and "fullmatch DOCKER_NAME_RX al"
  shows "\<exists>n. managed_volume_name ns al = Inr n \<and> length n \<le> 63 \<and>
    (managed_volume_name ns' al' = Inr n \<longrightarrow>
      (ns, al) = (ns', al') \<or>
      json_strings '','' [ns, al] \<noteq> json_strings '','' [ns', al'] \<and>
      take 32 (sha256_hex (json_strings '','' [ns, al])) = take 32 (sha256_hex (json_strings '','' [ns', al'])))"
  using assms volume_identity_name_digest [of "''vol-v1''" ns al "''vol-v1''" ns' al'] length_volume_identity_name
  by (auto simp: managed_volume_name_def json_pair_inject)

text \<open>
  an accepted image repository reference is a registry host that is accepted on its own,
  a slash, and a repository path of at most 255 characters whose components Docker accepts;
  the registry read from the reference is that host.
\<close>

lemma image_repository_parts:
  assumes "validate_image_repository v = Inr u"
  shows "u = v \<and> (\<exists>host path. v = host @ CHR ''/'' # path \<and> CHR ''/'' \<notin> set host \<and>
     registry_from_image_repository v = Inr host \<and> validate_registry_host host = Inr host \<and>
     path \<in> lang REPOSITORY_PATH_PATTERN \<and> length path \<le> 255)"
proof -
  let ?parts = "split_on (CHR ''/'') v"
  let ?path = "join ''/'' (tl ?parts)"
  have u: "u = v" and two: "2 \<le> length ?parts" and host: "is_ok (validate_registry_host (hd ?parts))"
    and path: "?path \<in> lang REPOSITORY_PATH_PATTERN" "length ?path \<le> 255"
    using assms
    by (auto simp: validate_image_repository_def rbind_Inr_iff fullmatch_iff Let_def split: if_splits)
  have "validate_registry_host h = Inr h" if "is_ok (validate_registry_host h)" for h
    using that by (auto simp: validate_registry_host_def Let_def split: if_splits)
  then have "validate_registry_host (hd ?parts) = Inr (hd ?parts)" using host by blast
  moreover have "registry_from_image_repository v = Inr (hd ?parts)"
    using assms u split_on_two [OF two] by (simp add: registry_from_image_repository_def)
  ultimately show ?thesis
    using u path split_on_two [OF two] split_on_head [of "CHR ''/''" v] by metis
qed

end
