(* ===== verification/Values.thy ===== *)
theory Values
  imports Prelude
begin

text \<open>
  The dynamically typed values of Compose documents and of the JSON payloads stored with a
  build: what \<open>yaml.safe_load\<close> and \<open>json.loads\<close> produce. A dict keeps its insertion order and
  has values as keys, so the sources' \<open>isinstance(key, str)\<close> checks are real checks here. The
  operations are Python's: truth, \<open>==\<close> (under which \<open>True == 1 == 1.0\<close>), \<open>str\<close>, \<open>repr\<close>
  and \<open>int\<close>.
\<close>

text \<open>
  A float is known by what the sources can observe of it: its truncation \<open>int(x)\<close>, whether
  it is integral, and its \<open>repr\<close>.
\<close>

datatype pyfloat = Finite int bool string | Infinite bool | NotANumber

datatype "value" =
    VNull
  | VBool bool
  | VInt int
  | VFloat pyfloat
  | VStr string
  | VList "value list"
  | VDict "(value \<times> value) list"

type_synonym mapping = "(value \<times> value) list"

section \<open>Type tests\<close>

fun is_str :: "value \<Rightarrow> bool" where "is_str (VStr _) = True" | "is_str _ = False"
fun is_bool :: "value \<Rightarrow> bool" where "is_bool (VBool _) = True" | "is_bool _ = False"
fun is_mapping :: "value \<Rightarrow> bool" where "is_mapping (VDict _) = True" | "is_mapping _ = False"
fun is_list :: "value \<Rightarrow> bool" where "is_list (VList _) = True" | "is_list _ = False"

text \<open>In Python a bool is an int.\<close>

fun is_int :: "value \<Rightarrow> bool" where
  "is_int (VInt _) = True" | "is_int (VBool _) = True" | "is_int _ = False"

fun the_str :: "value \<Rightarrow> string" where "the_str (VStr s) = s" | "the_str _ = []"
fun the_list :: "value \<Rightarrow> value list" where "the_list (VList xs) = xs" | "the_list _ = []"
fun the_dict :: "value \<Rightarrow> mapping" where "the_dict (VDict d) = d" | "the_dict _ = []"

definition nonempty_str :: "value \<Rightarrow> bool" where
  "nonempty_str v \<longleftrightarrow> is_str v \<and> the_str v \<noteq> []"

text \<open>\<open>d.get(k)\<close> of a mapping with a text key; a missing key reads as \<open>None\<close>.\<close>

definition mget :: "mapping \<Rightarrow> string \<Rightarrow> value" where
  "mget d k = (case map_of d (VStr k) of None \<Rightarrow> VNull | Some v \<Rightarrow> v)"

definition mget_default :: "mapping \<Rightarrow> string \<Rightarrow> value \<Rightarrow> value" where
  "mget_default d k v = (case map_of d (VStr k) of None \<Rightarrow> v | Some w \<Rightarrow> w)"

definition mhas :: "mapping \<Rightarrow> string \<Rightarrow> bool" where
  "mhas d k \<longleftrightarrow> map_of d (VStr k) \<noteq> None"

text \<open>\<open>d[k] = v\<close>.\<close>

definition mput :: "mapping \<Rightarrow> string \<Rightarrow> value \<Rightarrow> mapping" where
  "mput d k v = dset d (VStr k) v"

section \<open>Truth and equality\<close>

fun truthy :: "value \<Rightarrow> bool" where
  "truthy VNull = False"
| "truthy (VBool b) = b"
| "truthy (VInt i) = (i \<noteq> 0)"
| "truthy (VFloat (Finite t integral _)) = (\<not> (t = 0 \<and> integral))"
| "truthy (VFloat _) = True"
| "truthy (VStr s) = (s \<noteq> [])"
| "truthy (VList xs) = (xs \<noteq> [])"
| "truthy (VDict d) = (d \<noteq> [])"

text \<open>The integer a number equals, if it equals one.\<close>

fun as_integer :: "value \<Rightarrow> int option" where
  "as_integer (VBool b) = Some (if b then 1 else 0)"
| "as_integer (VInt i) = Some i"
| "as_integer (VFloat (Finite t True _)) = Some t"
| "as_integer _ = None"

fun py_eq :: "value \<Rightarrow> value \<Rightarrow> bool"
  and py_eq_list :: "value list \<Rightarrow> value list \<Rightarrow> bool"
  and py_eq_items :: "mapping \<Rightarrow> mapping \<Rightarrow> bool" where
  "py_eq (VList xs) w = (case w of VList ys \<Rightarrow> py_eq_list xs ys | _ \<Rightarrow> False)"
| "py_eq (VDict d) w = (case w of VDict e \<Rightarrow> length d = length e \<and> py_eq_items d e | _ \<Rightarrow> False)"
| "py_eq (VStr s) w = (w = VStr s)"
| "py_eq VNull w = (w = VNull)"
| "py_eq v w =
     (case (as_integer v, as_integer w) of
        (Some i, Some j) \<Rightarrow> i = j
      | (None, None) \<Rightarrow> v = w \<and> v \<noteq> VFloat NotANumber
      | _ \<Rightarrow> False)"
| "py_eq_list [] ys = (ys = [])"
| "py_eq_list (x # xs) ys = (case ys of [] \<Rightarrow> False | y # ys' \<Rightarrow> py_eq x y \<and> py_eq_list xs ys')"
| "py_eq_items [] e = True"
| "py_eq_items ((k, v) # d) e =
     ((case map_of e k of None \<Rightarrow> False | Some w \<Rightarrow> py_eq v w) \<and> py_eq_items d e)"

section \<open>Texts of values\<close>

definition repr_char :: "char \<Rightarrow> char \<Rightarrow> string" where
  "repr_char q c =
     (if c = CHR 0x5C then [CHR 0x5C, CHR 0x5C]
      else if c = q then [CHR 0x5C, c]
      else if c = CHR 0x0A then [CHR 0x5C, CHR ''n'']
      else if c = CHR 0x0D then [CHR 0x5C, CHR ''r'']
      else if c = CHR 0x09 then [CHR 0x5C, CHR ''t'']
      else if 32 \<le> code c \<and> code c \<le> 126 then [c]
      else CHR 0x5C # ''x'' @ hex_byte (code c))"

definition repr_str :: "string \<Rightarrow> string" where
  "repr_str s =
     (let q = (if CHR 0x27 \<in> set s \<and> CHR 0x22 \<notin> set s then CHR 0x22 else CHR 0x27)
      in q # concat (map (repr_char q) s) @ [q])"

fun repr_float :: "pyfloat \<Rightarrow> string" where
  "repr_float (Finite _ _ r) = r"
| "repr_float (Infinite neg) = (if neg then ''-inf'' else ''inf'')"
| "repr_float NotANumber = ''nan''"

function py_repr :: "value \<Rightarrow> string"
  and py_reprs :: "value list \<Rightarrow> string list"
  and py_repr_items :: "mapping \<Rightarrow> string list" where
  "py_repr VNull = ''None''"
| "py_repr (VBool b) = (if b then ''True'' else ''False'')"
| "py_repr (VInt i) = str_int i"
| "py_repr (VFloat f) = repr_float f"
| "py_repr (VStr s) = repr_str s"
| "py_repr (VList xs) = ''['' @ join '', '' (py_reprs xs) @ '']''"
| "py_repr (VDict d) = ''{'' @ join '', '' (py_repr_items d) @ ''}''"
| "py_reprs [] = []"
| "py_reprs (x # xs) = py_repr x # py_reprs xs"
| "py_repr_items [] = []"
| "py_repr_items ((k, v) # d) = (py_repr k @ '': '' @ py_repr v) # py_repr_items d"
  by pat_completeness auto
termination
  by (relation "measure (case_sum size (case_sum (size_list size) (size_list (size_prod size size))))")
     auto

definition py_str :: "value \<Rightarrow> string" where
  "py_str v = (case v of VStr s \<Rightarrow> s | _ \<Rightarrow> py_repr v)"

text \<open>\<open>str(value).lower() if isinstance(value, bool) else str(value)\<close>.\<close>

definition scalar_text :: "value \<Rightarrow> string" where
  "scalar_text v = (case v of VBool b \<Rightarrow> (if b then ''true'' else ''false'') | _ \<Rightarrow> py_str v)"

section \<open>\<open>int(value)\<close>\<close>

text \<open>Digits with single underscores between them.\<close>

fun digit_groups :: "bool \<Rightarrow> string \<Rightarrow> bool" where
  "digit_groups after_digit [] = after_digit"
| "digit_groups after_digit (c # s) =
     (if is_digit c then digit_groups True s else c = CHR ''_'' \<and> after_digit \<and> digit_groups False s)"

definition int_of_text :: "string \<Rightarrow> int option" where
  "int_of_text s =
     (let t = strip s;
          neg = starts_with t ''-'';
          body = (if neg \<or> starts_with t ''+'' then tl t else t)
      in if digit_groups False body
         then Some ((if neg then -1 else 1) * int (nat_of_digits (filter is_digit body)))
         else None)"

text \<open>\<open>int(x)\<close>: \<open>TypeError\<close> for None and containers, \<open>ValueError\<close> for a text that is no
  number and for \<open>nan\<close>, \<open>OverflowError\<close> (here \<open>OtherError\<close>) for an infinity.\<close>

fun py_int :: "value \<Rightarrow> int res" where
  "py_int (VBool b) = Inr (if b then 1 else 0)"
| "py_int (VInt i) = Inr i"
| "py_int (VFloat (Finite t _ _)) = Inr t"
| "py_int (VFloat (Infinite _)) = Inl (Exn OtherError ''cannot convert float infinity to integer'')"
| "py_int (VFloat NotANumber) = Inl (Exn ValueError ''cannot convert float NaN to integer'')"
| "py_int (VStr s) =
     (case int_of_text s of Some i \<Rightarrow> Inr i | None \<Rightarrow> Inl (Exn ValueError ''invalid literal for int()''))"
| "py_int _ = Inl (Exn TypeError ''int() argument must be a string or a number'')"

section \<open>Lemmas\<close>

lemma mget_Some [simp]: "map_of d (VStr k) = Some v \<Longrightarrow> mget d k = v"
  by (simp add: mget_def)

lemma mget_None [simp]: "map_of d (VStr k) = None \<Longrightarrow> mget d k = VNull"
  by (simp add: mget_def)

lemma mget_mput [simp]: "mget (mput d k v) k' = (if k' = k then v else mget d k')"
  by (simp add: mget_def mput_def)

lemma is_str_iff: "is_str v \<longleftrightarrow> v = VStr (the_str v)" by (cases v) simp_all
lemma is_list_iff: "is_list v \<longleftrightarrow> v = VList (the_list v)" by (cases v) simp_all
lemma is_mapping_iff: "is_mapping v \<longleftrightarrow> v = VDict (the_dict v)" by (cases v) simp_all

lemma py_int_str_nat: "py_int (VStr s) = Inr i \<longleftrightarrow> int_of_text s = Some i"
  by (auto split: option.splits)

end
