(* ===== verification/Models.thy ===== *)
theory Models
  imports Naming Values
begin

text \<open>
  \<open>orchestrator/models.py\<close>: the enumerations and documents the repository stores, one record
  per pydantic model with the fields in the source's order, and the \<open>world\<close> the handlers
  run in: the repository's collections together with the clock, the supply of \<open>uuid4().hex\<close>
  values, the log of requests sent to other systems and \<open>w_external\<close>, the state of those
  systems, which only the parameters standing for them read and write.

  Instants are integers (UTC); the naive/aware distinction that the sources normalise away
  is not represented. A role snapshot is kept as the role it was dumped from.
\<close>

section \<open>Enumerations\<close>

datatype build_status =
  QUEUED | VALIDATING | TRIGGERING | BUILDING | DEPLOYING | SUCCEEDED | FAILED | CANCELLED

definition TERMINAL_BUILD_STATUSES :: "build_status set" where
  "TERMINAL_BUILD_STATUSES = {SUCCEEDED, FAILED, CANCELLED}"

abbreviation terminal :: "build_status \<Rightarrow> bool" where
  "terminal s \<equiv> s \<in> TERMINAL_BUILD_STATUSES"

fun status_value :: "build_status \<Rightarrow> string" where
  "status_value QUEUED = ''queued''"
| "status_value VALIDATING = ''validating''"
| "status_value TRIGGERING = ''triggering''"
| "status_value BUILDING = ''building''"
| "status_value DEPLOYING = ''deploying''"
| "status_value SUCCEEDED = ''succeeded''"
| "status_value FAILED = ''failed''"
| "status_value CANCELLED = ''cancelled''"

datatype cleanup_status = NotStarted | CleanupQueued | CleanupRunning | CleanupSucceeded | PartialFailed

fun cleanup_value :: "cleanup_status \<Rightarrow> string" where
  "cleanup_value NotStarted = ''not_started''"
| "cleanup_value CleanupQueued = ''queued''"
| "cleanup_value CleanupRunning = ''running''"
| "cleanup_value CleanupSucceeded = ''succeeded''"
| "cleanup_value PartialFailed = ''partial_failed''"

datatype resource_state = Planned | Present | Removed | Blocked | ErrorState

datatype resource_kind =
    KService | KContainer | KNetwork | KVolume | KWorkspace | KRuntimeDirectory
  | KLocalImage | KRegistryImage | KPort | KBuilderCache

fun kind_value :: "resource_kind \<Rightarrow> string" where
  "kind_value KService = ''service''"
| "kind_value KContainer = ''container''"
| "kind_value KNetwork = ''network''"
| "kind_value KVolume = ''volume''"
| "kind_value KWorkspace = ''workspace''"
| "kind_value KRuntimeDirectory = ''runtime_directory''"
| "kind_value KLocalImage = ''local_image''"
| "kind_value KRegistryImage = ''registry_image''"
| "kind_value KPort = ''port''"
| "kind_value KBuilderCache = ''builder_cache''"

lemma kind_value_inject: "kind_value k = kind_value l \<longleftrightarrow> k = l"
  by (cases k; cases l) simp_all

text \<open>The literals of the static and dynamic check states.\<close>

datatype check_status = CkPending | CkQueued | CkRunning | CkSucceeded | CkFailed | CkSkipped

datatype teardown_status = TdPending | TdRunning | TdSucceeded | TdPartialFailed

datatype event_level = INFO | WARNING | ERROR

datatype role_key = StaticRole | DynamicRole

section \<open>Documents\<close>

type_synonym instant = int

record build_resource =
  rs_key :: string
  rs_kind :: resource_kind
  rs_name :: string
  rs_target :: string
  rs_native_id :: "string option"
  rs_managed :: bool
  rs_state :: resource_state
  rs_metadata :: mapping
  rs_error :: "string option"
  rs_created_at :: instant
  rs_updated_at :: instant

record build_resources =
  br_build_id :: string
  br_appid :: string
  br_ownership_version :: int
  br_namespace :: "string option"
  br_repository_url :: "string option"
  br_environment_ciphertext :: "string option"
  br_jenkins_trigger_pending :: bool
  br_resources :: "(string, build_resource) dict"
  br_cleanup_status :: cleanup_status
  br_cleanup_generation :: int
  br_lease_owner :: "string option"
  br_lease_expires_at :: "instant option"
  br_cleanup_requested_at :: "instant option"
  br_started_at :: "instant option"
  br_finished_at :: "instant option"
  br_last_error :: "string option"
  br_registry_storage_status :: string
  br_updated_at :: instant

record user_app =
  ap_appid :: string
  ap_name :: string
  ap_repository_url :: string
  ap_git_ref :: string
  ap_environment_ciphertext :: string
  ap_environment_keys :: "string list"
  ap_compose :: "value option"
  ap_compose_source_file :: "string option"
  ap_compose_source_commit :: "string option"
  ap_components :: "string list"
  ap_require_route :: "string option"
  ap_created_at :: instant
  ap_updated_at :: instant

record agent_role =
  ar_role_key :: role_key
  ar_prompt :: string
  ar_output_schema :: "value"
  ar_runtime_config :: mapping
  ar_version :: int
  ar_created_at :: instant
  ar_updated_at :: instant

record build_job =
  bj_build_id :: string
  bj_appid :: string
  bj_git_ref :: string
  bj_inputs_ready :: bool
  bj_git_commit_sha :: "string option"
  bj_compose_snapshot :: "value option"
  bj_workspace_snapshot :: "string option"
  bj_workspace_file_count :: int
  bj_workspace_archive_sha256 :: "string option"
  bj_status :: build_status
  bj_celery_task_id :: "string option"
  bj_jenkins_queue_url :: "string option"
  bj_jenkins_build_number :: "int option"
  bj_images :: "string list"
  bj_service_ids :: "string list"
  bj_route_check_id :: "string option"
  bj_route_check_generation :: "int option"
  bj_require_route_snapshot :: "string option"
  bj_static_agent_role_version :: "int option"
  bj_dynamic_agent_role_version :: "int option"
  bj_route_probe_payload :: "value option"
  bj_route_dynamic_role_snapshot :: "agent_role option"
  bj_static_check_passed :: "bool option"
  bj_dynamic_check_passed :: "bool option"
  bj_dynamic_status :: check_status
  bj_dynamic_run_id :: "string option"
  bj_dynamic_initial_started :: bool
  bj_dynamic_debug_started :: bool
  bj_dynamic_retry_started :: bool
  bj_dynamic_retry_payload :: "value option"
  bj_dynamic_dispatch_error :: "string option"
  bj_teardown_required :: bool
  bj_teardown_status :: "teardown_status option"
  bj_dynamic_report_text :: "string option"
  bj_probe_result :: "value option"
  bj_error :: "string option"
  bj_error_detail :: "value option"
  bj_raw_log_excerpt :: "string option"
  bj_failure_logs :: "value option"
  bj_failure_site :: "string option"
  bj_stage :: "string option"
  bj_stage_history :: "string list"
  bj_started_at :: "instant option"
  bj_finished_at :: "instant option"
  bj_last_polled_at :: "instant option"
  bj_created_at :: instant
  bj_updated_at :: instant

record build_identifier =
  bi_build_id :: string
  bi_status :: build_status
  bi_git_commit_sha :: "string option"

record app_event =
  ev_event_id :: string
  ev_appid :: string
  ev_build_id :: "string option"
  ev_kind :: string
  ev_level :: event_level
  ev_message :: string
  ev_details :: mapping
  ev_created_at :: instant

record user_image =
  ui_image_id :: string
  ui_appid :: string
  ui_build_id :: string
  ui_reference :: string
  ui_digest :: "string option"
  ui_created_at :: instant

record base_image =
  bm_source_image :: string
  bm_harbor_reference :: string
  bm_digest :: "string option"
  bm_status :: string
  bm_error :: "string option"
  bm_synced_at :: "instant option"
  bm_updated_at :: instant

record tech_stack =
  ts_id :: string
  ts_name :: string
  ts_yaml_original :: string
  ts_json_data :: "value"
  ts_line_comments :: "(string, string) dict"
  ts_created_at :: instant
  ts_updated_at :: instant

record route_check =
  rc_id :: int
  rc_check_id :: string
  rc_app_id :: string
  rc_commit_id :: string
  rc_require_route :: string
  rc_static_agent_role_version :: int
  rc_dynamic_agent_role_version :: int
  rc_generation :: int
  rc_repository_url :: string
  rc_git_ref :: string
  rc_static_role_snapshot :: "agent_role option"
  rc_dynamic_role_snapshot :: "agent_role option"
  rc_static_task_id :: "string option"
  rc_static_run_token :: "string option"
  rc_static_lease_expires_at :: "instant option"
  rc_dispatch_error :: "string option"
  rc_dynamic_build_id :: "string option"
  rc_dynamic_run_id :: "string option"
  rc_static_status :: check_status
  rc_dynamic_status :: check_status
  rc_diff_list :: "string list"
  rc_probe_payload :: "value option"
  rc_static_report_text :: "string option"
  rc_static_check_passed :: "bool option"
  rc_probe_result :: "value option"
  rc_dynamic_report_text :: "string option"
  rc_dynamic_check_passed :: "bool option"
  rc_created_at :: instant
  rc_updated_at :: instant

record published_port =
  pp_target_port :: int
  pp_published_port :: "int option"
  pp_protocol :: string
  pp_mode :: string

record deployment_service =
  sv_service_id :: string
  sv_appid :: string
  sv_build_id :: string
  sv_service_name :: string
  sv_image :: string
  sv_status :: string
  sv_endpoint :: "string option"
  sv_published_ports :: "published_port list"
  sv_created_at :: instant
  sv_updated_at :: instant

record alert =
  al_alert_id :: string
  al_appid :: string
  al_build_id :: "string option"
  al_severity :: string
  al_message :: string
  al_resolved_at :: "instant option"
  al_created_at :: instant

section \<open>The world\<close>

text \<open>Requests to other systems, in the order in which they were made.\<close>

datatype request =
    DispatchBuild string
  | DispatchPoll string int
  | DispatchCleanup string
  | DispatchStatic string int
  | DispatchDynamic string "string option"
  | TriggerJenkins string
  | RunProbe string bool
  | RunDebugAgent string
  | RunStaticAgent string

text \<open>The Docker clean-up client of the running worker: the control target it works on, that
  target's node, and the endpoint of every target it has connected to.\<close>

record docker_session =
  ds_target :: string
  ds_node :: "string option"
  ds_clients :: "(string, string) dict"

record world =
  w_apps :: "(string, user_app) dict"
  w_builds :: "(string, build_job) dict"
  w_events :: "app_event list"
  w_user_images :: "(string, user_image) dict"
  w_base_images :: "(string, base_image) dict"
  w_tech_stacks :: "(string, tech_stack) dict"
  w_services :: "(string, deployment_service) dict"
  w_alerts :: "(string, alert) dict"
  w_build_resources :: "(string, build_resources) dict"
  w_port_allocations :: "(string \<times> string \<times> int, string \<times> string) dict"
  w_agent_roles :: "(role_key, agent_role) dict"
  w_codex_provider_config :: "value option"
  w_route_checks :: "(string, route_check) dict"
  w_clock :: instant
  w_uuid :: "nat \<Rightarrow> string"
  w_uuid_next :: nat
  w_requests :: "request list"
  w_docker :: docker_session
  w_external :: "value"

definition empty_world :: "(nat \<Rightarrow> string) \<Rightarrow> instant \<Rightarrow> world" where
  "empty_world uuids now = \<lparr>
     w_apps = [], w_builds = [], w_events = [], w_user_images = [], w_base_images = [],
     w_tech_stacks = [], w_services = [], w_alerts = [], w_build_resources = [],
     w_port_allocations = [], w_agent_roles = [], w_codex_provider_config = None,
     w_route_checks = [], w_clock = now, w_uuid = uuids, w_uuid_next = 0, w_requests = [],
     w_docker = \<lparr>ds_target = [], ds_node = None, ds_clients = []\<rparr>,
     w_external = VNull\<rparr>"

definition utc_now :: "(world, instant) action" where
  "utc_now = reading w_clock"

definition uuid4_hex :: "(world, string) action" where
  "uuid4_hex = (\<lambda>w. (Inr (w_uuid w (w_uuid_next w)), w\<lparr>w_uuid_next := Suc (w_uuid_next w)\<rparr>))"

definition emit :: "request \<Rightarrow> (world, unit) action" where
  "emit r = modify (\<lambda>w. w\<lparr>w_requests := w_requests w @ [r]\<rparr>)"

section \<open>Defaults of the models\<close>

definition new_build_job :: "string \<Rightarrow> string \<Rightarrow> string \<Rightarrow> instant \<Rightarrow> build_job" where
  "new_build_job build_id appid git_ref now = \<lparr>
     bj_build_id = build_id, bj_appid = appid, bj_git_ref = git_ref, bj_inputs_ready = True,
     bj_git_commit_sha = None, bj_compose_snapshot = None, bj_workspace_snapshot = None,
     bj_workspace_file_count = 0, bj_workspace_archive_sha256 = None, bj_status = QUEUED,
     bj_celery_task_id = None, bj_jenkins_queue_url = None, bj_jenkins_build_number = None,
     bj_images = [], bj_service_ids = [], bj_route_check_id = None, bj_route_check_generation = None,
     bj_require_route_snapshot = None, bj_static_agent_role_version = None,
     bj_dynamic_agent_role_version = None, bj_route_probe_payload = None,
     bj_route_dynamic_role_snapshot = None, bj_static_check_passed = None,
     bj_dynamic_check_passed = None, bj_dynamic_status = CkPending, bj_dynamic_run_id = None,
     bj_dynamic_initial_started = False, bj_dynamic_debug_started = False,
     bj_dynamic_retry_started = False, bj_dynamic_retry_payload = None,
     bj_dynamic_dispatch_error = None, bj_teardown_required = False, bj_teardown_status = None,
     bj_dynamic_report_text = None, bj_probe_result = None, bj_error = None, bj_error_detail = None,
     bj_raw_log_excerpt = None, bj_failure_logs = None, bj_failure_site = None, bj_stage = None,
     bj_stage_history = [], bj_started_at = None, bj_finished_at = None, bj_last_polled_at = None,
     bj_created_at = now, bj_updated_at = now\<rparr>"

definition new_build_resources :: "string \<Rightarrow> string \<Rightarrow> int \<Rightarrow> instant \<Rightarrow> build_resources" where
  "new_build_resources build_id appid ownership_version now = \<lparr>
     br_build_id = build_id, br_appid = appid, br_ownership_version = ownership_version,
     br_namespace = None, br_repository_url = None, br_environment_ciphertext = None,
     br_jenkins_trigger_pending = False, br_resources = [], br_cleanup_status = NotStarted,
     br_cleanup_generation = 0, br_lease_owner = None, br_lease_expires_at = None,
     br_cleanup_requested_at = None, br_started_at = None, br_finished_at = None,
     br_last_error = None, br_registry_storage_status = ''not_applicable'', br_updated_at = now\<rparr>"

definition new_build_resource ::
  "string \<Rightarrow> resource_kind \<Rightarrow> string \<Rightarrow> string \<Rightarrow> instant \<Rightarrow> build_resource" where
  "new_build_resource key kind name target now = \<lparr>
     rs_key = key, rs_kind = kind, rs_name = name, rs_target = target, rs_native_id = None,
     rs_managed = True, rs_state = Planned, rs_metadata = [], rs_error = None,
     rs_created_at = now, rs_updated_at = now\<rparr>"

section \<open>Validators of the request models\<close>

text \<open>\<open>UserAppCreate.route_is_a_single_path\<close>.\<close>

definition route_is_a_single_path :: "string option \<Rightarrow> string option res" where
  "route_is_a_single_path value =
     (case value of
        None \<Rightarrow> Inr None
      | Some v \<Rightarrow>
          if \<not> starts_with v ''/'' \<or> starts_with v ''//''
             \<or> (\<exists>c\<in>set v. c \<in> set [CHR ''?'', CHR ''#'', CHR 0x5C])
             \<or> (\<exists>c\<in>set v. code c \<le> 32 \<or> code c = 127)
          then Inl (Exn ValueError ''require_route must be a single absolute route path without query or fragment'')
          else Inr (Some v))"

definition repository_url_is_supported :: "string \<Rightarrow> string res" where
  "repository_url_is_supported value =
     (if value = [] then Inr value
      else if \<not> list_ex (starts_with value) [''https://'', ''http://'', ''ssh://'', ''git@'']
      then Inl (Exn ValueError ''repository_url must be an HTTP(S), SSH, or git@ URL'')
      else Inr value)"

text \<open>
  \<open>key.replace("_", "").isalnum()\<close> is false on the empty text, so a key of underscores only
  is refused.
\<close>

definition environment_key_ok :: "string \<Rightarrow> bool" where
  "environment_key_ok key \<longleftrightarrow>
     key \<noteq> [] \<and> (is_alpha (hd key) \<or> hd key = CHR ''_'') \<and>
     (let bare = filter (\<lambda>c. c \<noteq> CHR ''_'') key in bare \<noteq> [] \<and> (\<forall>c\<in>set bare. is_alnum c))"

definition environment_is_valid :: "(string, string) dict \<Rightarrow> (string, string) dict res" where
  "environment_is_valid value =
     rbind (rfor (keys value) (\<lambda>key. rguard (environment_key_ok key)
        (Exn ValueError (''invalid environment variable name: '' @ key))))
       (\<lambda>_. Inr value)"

text \<open>\<open>_json_paths\<close>: every object and array path of a JSON document, parents first.\<close>

function json_paths :: "value \<Rightarrow> string \<Rightarrow> string list"
  and json_item_paths :: "mapping \<Rightarrow> string \<Rightarrow> string list"
  and json_list_paths :: "value list \<Rightarrow> nat \<Rightarrow> string \<Rightarrow> string list" where
  "json_paths v path =
     path # (case v of
               VDict d \<Rightarrow> json_item_paths d path
             | VList xs \<Rightarrow> json_list_paths xs 0 path
             | _ \<Rightarrow> [])"
| "json_item_paths [] path = []"
| "json_item_paths ((k, v) # d) path = json_paths v (path @ ''.'' @ py_str k) @ json_item_paths d path"
| "json_list_paths [] i path = []"
| "json_list_paths (v # xs) i path =
     json_paths v (path @ ''['' @ str_nat i @ '']'') @ json_list_paths xs (Suc i) path"
  by pat_completeness auto
termination
  by (relation "measure (case_sum (\<lambda>(v, _). size v)
        (case_sum (\<lambda>(d, _). size_list (size_prod size size) d) (\<lambda>(xs, _). size_list size xs)))")
     (auto)

definition commit_is_full_sha_rx :: rx where
  "commit_is_full_sha_rx =
     (let h = Cls (\<lambda>c. is_digit c \<or> in_range 97 102 c \<or> in_range 65 70 c)
      in Cat (Rep 40 h) (Opt (Rep 24 h)))"

text \<open>\<open>StaticCheckRequest.commit_is_full_sha\<close>.\<close>

definition commit_is_full_sha :: "string option \<Rightarrow> string option res" where
  "commit_is_full_sha value =
     (case value of
        None \<Rightarrow> Inr None
      | Some v \<Rightarrow>
          if \<not> fullmatch commit_is_full_sha_rx v
          then Inl (Exn ValueError ''commit_id must be a full immutable Git commit SHA'')
          else Inr (if v = [] then None else Some (lower v)))"

lemma terminal_simps [simp]:
  "terminal SUCCEEDED" "terminal FAILED" "terminal CANCELLED"
  "\<not> terminal QUEUED" "\<not> terminal VALIDATING" "\<not> terminal TRIGGERING" "\<not> terminal BUILDING"
  "\<not> terminal DEPLOYING"
  by (simp_all add: TERMINAL_BUILD_STATUSES_def)

lemma utc_now_app [simp, action_simps]: "utc_now w = (Inr (w_clock w), w)"
  by (simp add: utc_now_def)

lemma uuid4_hex_app [action_simps]:
  "uuid4_hex w = (Inr (w_uuid w (w_uuid_next w)), w\<lparr>w_uuid_next := Suc (w_uuid_next w)\<rparr>)"
  by (simp add: uuid4_hex_def)

lemma emit_app [simp, action_simps]: "emit r w = (Inr (), w\<lparr>w_requests := w_requests w @ [r]\<rparr>)"
  by (simp add: emit_def)

end
