(* ===== verification/Store.thy ===== *)
theory Store
  imports Prelude
begin

text \<open>
  The contract between the services and a document store: documents are read and replaced by
  key, and every update of the sources is a compare-and-swap, a replacement made atomically
  when the stored document satisfies a condition. The locale \<open>store\<close> states the two laws a
  provider owes; \<open>document_history\<close> adds a reflexive and transitive relation along which
  documents may evolve, and gives the rules by which handlers are shown to respect it. Both
  are interpreted on the repository's collections.
\<close>

definition cas_doc ::
  "('w \<Rightarrow> 'k \<Rightarrow> 'v option) \<Rightarrow> ('k \<Rightarrow> 'v \<Rightarrow> 'w \<Rightarrow> 'w) \<Rightarrow> 'k \<Rightarrow> ('v \<Rightarrow> bool) \<Rightarrow> ('v \<Rightarrow> 'v)
     \<Rightarrow> ('w, 'v option) action" where
  "cas_doc look put k p f = (\<lambda>w.
     case look w k of
       None \<Rightarrow> (Inr None, w)
     | Some v \<Rightarrow> if p v then (Inr (Some (f v)), put k (f v) w) else (Inr None, w))"

text \<open>Every document of the first state is still there, related to what it was.\<close>

definition evolves :: "('w \<Rightarrow> 'k \<Rightarrow> 'v option) \<Rightarrow> ('v \<Rightarrow> 'v \<Rightarrow> bool) \<Rightarrow> 'w \<Rightarrow> 'w \<Rightarrow> bool" where
  "evolves look Q w w' \<longleftrightarrow> (\<forall>k v. look w k = Some v \<longrightarrow> (\<exists>v'. look w' k = Some v' \<and> Q v v'))"

lemma evolvesD: "evolves look Q w w' \<Longrightarrow> look w k = Some v \<Longrightarrow> \<exists>v'. look w' k = Some v' \<and> Q v v'"
  by (simp add: evolves_def)

locale store =
  fixes look :: "'w \<Rightarrow> 'k \<Rightarrow> 'v option"
    and put :: "'k \<Rightarrow> 'v \<Rightarrow> 'w \<Rightarrow> 'w"
  assumes look_put: "look (put k v w) k = Some v"
    and look_put_other: "k' \<noteq> k \<Longrightarrow> look (put k v w) k' = look w k'"
begin

lemma look_put_if: "look (put k v w) k' = (if k' = k then Some v else look w k')"
  by (simp add: look_put look_put_other)

lemma cas_None: "look w k = None \<Longrightarrow> cas_doc look put k p f w = (Inr None, w)"
  by (simp add: cas_doc_def)

lemma cas_hit:
  "look w k = Some v \<Longrightarrow> p v \<Longrightarrow> cas_doc look put k p f w = (Inr (Some (f v)), put k (f v) w)"
  by (simp add: cas_doc_def)

lemma cas_miss: "look w k = Some v \<Longrightarrow> \<not> p v \<Longrightarrow> cas_doc look put k p f w = (Inr None, w)"
  by (simp add: cas_doc_def)

lemma cas_never_raises: "\<exists>r. fst (cas_doc look put k p f w) = Inr r"
  by (simp add: cas_doc_def split: option.splits)

lemma cas_result:
  "cas_doc look put k p f w = (Inr r, w') \<Longrightarrow>
   (case r of None \<Rightarrow> w' = w
            | Some v' \<Rightarrow> (\<exists>v. look w k = Some v \<and> p v \<and> v' = f v) \<and> look w' k = Some v')"
  by (auto simp: cas_doc_def look_put split: option.splits if_splits)

lemma cas_frame: "k' \<noteq> k \<Longrightarrow> look (snd (cas_doc look put k p f w)) k' = look w k'"
  by (simp add: cas_doc_def look_put_other split: option.splits)

text \<open>A successful swap that invalidates the condition of another one makes that one fail.\<close>

lemma cas_excludes:
  assumes "cas_doc look put k p f w = (Inr (Some v'), w')" and "\<not> q v'"
  shows "cas_doc look put k q g w' = (Inr None, w')"
  using cas_result [OF assms(1)] assms(2) by (simp add: cas_miss)

end

locale document_history = store look put
  for look :: "'w \<Rightarrow> 'k \<Rightarrow> 'v option" and put :: "'k \<Rightarrow> 'v \<Rightarrow> 'w \<Rightarrow> 'w" +
  fixes Q :: "'v \<Rightarrow> 'v \<Rightarrow> bool"
  assumes Q_refl: "Q v v"
    and Q_trans: "Q u v \<Longrightarrow> Q v x \<Longrightarrow> Q u x"
begin

lemma evolves_refl: "evolves look Q w w"
  by (simp add: evolves_def Q_refl)

lemma evolves_trans: "evolves look Q u v \<Longrightarrow> evolves look Q v w \<Longrightarrow> evolves look Q u w"
  unfolding evolves_def by (meson Q_trans)

lemma evolves_unchanged: "(\<And>k. look w' k = look w k) \<Longrightarrow> evolves look Q w w'"
  by (simp add: evolves_def Q_refl)

lemma evolves_put: "(\<And>v. look w k = Some v \<Longrightarrow> Q v v') \<Longrightarrow> evolves look Q w (put k v' w)"
  by (simp add: evolves_def look_put_if Q_refl)

lemma keeps_cas: "(\<And>v. p v \<Longrightarrow> Q v (f v)) \<Longrightarrow> keeps (evolves look Q) (cas_doc look put k p f)"
  by (rule keepsI) (auto simp: cas_doc_def evolves_refl intro!: evolves_put split: option.splits)

lemma keeps_other: "(\<And>w k. look (snd (m w)) k = look w k) \<Longrightarrow> keeps (evolves look Q) m"
  by (rule keepsI) (rule evolves_unchanged)

end

sublocale document_history \<subseteq> step_guarantee "evolves look Q"
  by unfold_locales (rule evolves_refl, rule evolves_trans)

end
