(* ===== verification/Repository.thy ===== *)
theory Repository
  imports Models Store "HOL-Library.Product_Lexorder"
begin

text \<open>
  \<open>orchestrator/repository.py\<close>: the module's helpers and \<open>InMemoryRepository\<close>. Every method
  runs under the repository's lock, so each one is a single atomic action on the world. A
  field dict handed to an update is the function that performs the update; for route checks,
  whose updates and expectations are validated by field name, it is a list of typed assignments. \<open>deepcopy\<close> and \<open>model_copy(deep=True)\<close> are the identity on HOL values.

  The lemmas at the end are the contract the services rely on: what each operation changes,
  the field-by-field frame of the others, and the laws of leases and port reservations. Two
  locales state what a compare-and-swap store promises; they are interpreted on builds and
  route checks.
\<close>

section \<open>Orders used by the listings\<close>

text \<open>Role keys are ordered as their texts \<open>dynamic_debug_agent\<close> and \<open>static_build_agent\<close> are.\<close>

fun role_key_value :: "role_key \<Rightarrow> string" where
  "role_key_value StaticRole = ''static_build_agent''"
| "role_key_value DynamicRole = ''dynamic_debug_agent''"

instantiation role_key :: linorder
begin

definition less_eq_role_key :: "role_key \<Rightarrow> role_key \<Rightarrow> bool" where
  "less_eq_role_key a b \<longleftrightarrow> a = DynamicRole \<or> b = StaticRole"

definition less_role_key :: "role_key \<Rightarrow> role_key \<Rightarrow> bool" where
  "less_role_key a b \<longleftrightarrow> a = DynamicRole \<and> b = StaticRole"

instance
proof
  fix x y z :: role_key
  show "x < y \<longleftrightarrow> x \<le> y \<and> \<not> y \<le> x"
    by (cases x; cases y) (simp_all add: less_eq_role_key_def less_role_key_def)
  show "x \<le> x"
    by (cases x) (simp_all add: less_eq_role_key_def)
  show "x \<le> y \<Longrightarrow> y \<le> z \<Longrightarrow> x \<le> z"
    by (cases x; cases y; cases z) (simp_all add: less_eq_role_key_def)
  show "x \<le> y \<Longrightarrow> y \<le> x \<Longrightarrow> x = y"
    by (cases x; cases y) (simp_all add: less_eq_role_key_def)
  show "x \<le> y \<or> y \<le> x"
    by (cases x; cases y) (simp_all add: less_eq_role_key_def)
qed

end

text \<open>\<open>sorted(key=k, reverse=True)\<close> keeps the order of equal elements.\<close>

definition sort_desc :: "('a \<Rightarrow> 'k::linorder) \<Rightarrow> 'a list \<Rightarrow> 'a list" where
  "sort_desc k xs = rev (sort_key k (rev xs))"

lemma set_sort_desc [simp]: "set (sort_desc k xs) = set xs"
  by (simp add: sort_desc_def)

lemma length_sort_desc [simp]: "length (sort_desc k xs) = length xs"
  by (simp add: sort_desc_def)

lemma sorted_sort_desc: "sorted (rev (map k (sort_desc k xs)))"
  by (simp add: sort_desc_def rev_map [symmetric])

section \<open>Helpers of the module\<close>

text \<open>\<open>_app_update_fields\<close>: the update with the identity it names, if it names one.\<close>

definition app_update_fields ::
  "string \<Rightarrow> string option \<times> (user_app \<Rightarrow> user_app) \<Rightarrow> (user_app \<Rightarrow> user_app) res" where
  "app_update_fields appid upd =
     (case fst upd of
        Some a \<Rightarrow> if a \<noteq> appid then Inl (Exn ValueError ''appid is immutable'') else Inr (snd upd)
      | None \<Rightarrow> Inr (snd upd))"

definition lease_expired :: "instant option \<Rightarrow> instant \<Rightarrow> bool" where
  "lease_expired value now = (case value of None \<Rightarrow> True | Some v \<Rightarrow> v \<le> now)"

definition resource_key_rx :: rx where
  "resource_key_rx = Rep 64 (Cls is_hex)"

definition validate_resource_key :: "string \<Rightarrow> unit res" where
  "validate_resource_key key =
     rguard (fullmatch resource_key_rx key) (Exn ValueError ''Invalid resource key'')"

type_synonym route_check_key = "string \<times> string \<times> string \<times> int"

definition route_check_key :: "route_check \<Rightarrow> route_check_key" where
  "route_check_key r = (rc_app_id r, rc_commit_id r, rc_require_route r, rc_static_agent_role_version r)"

definition route_check_identity :: "route_check \<Rightarrow> string \<times> route_check_key \<times> int" where
  "route_check_identity r = (rc_check_id r, route_check_key r, rc_id r)"

definition ROUTE_CHECK_IDENTITY_FIELDS :: "string list" where
  "ROUTE_CHECK_IDENTITY_FIELDS = [''check_id'', ''id'', ''app_id'', ''commit_id'', ''require_route'',
     ''static_agent_role_version'']"

definition route_check_model_fields :: "string list" where
  "route_check_model_fields = ROUTE_CHECK_IDENTITY_FIELDS @
     [''dynamic_agent_role_version'', ''generation'', ''repository_url'', ''git_ref'',
      ''static_role_snapshot'', ''dynamic_role_snapshot'', ''static_task_id'', ''static_run_token'',
      ''static_lease_expires_at'', ''dispatch_error'', ''dynamic_build_id'', ''dynamic_run_id'',
      ''static_status'', ''dynamic_status'', ''diff_list'', ''probe_payload'', ''static_report_text'',
      ''static_check_passed'', ''probe_result'', ''dynamic_report_text'', ''dynamic_check_passed'',
      ''created_at'', ''updated_at'']"

text \<open>
  A field dict is a list of assignments, one constructor per model field and \<open>FOther\<close> for a
  name the model does not have; an expectation is an assignment too, met when the assignment
  would change nothing.
\<close>

datatype route_check_field =
    FCheckId string
  | FId int
  | FAppId string
  | FCommitId string
  | FRequireRoute string
  | FStaticAgentRoleVersion int
  | FDynamicAgentRoleVersion int
  | FGeneration int
  | FRepositoryUrl string
  | FGitRef string
  | FStaticRoleSnapshot "agent_role option"
  | FDynamicRoleSnapshot "agent_role option"
  | FStaticTaskId "string option"
  | FStaticRunToken "string option"
  | FStaticLeaseExpiresAt "instant option"
  | FDispatchError "string option"
  | FDynamicBuildId "string option"
  | FDynamicRunId "string option"
  | FStaticStatus check_status
  | FDynamicStatus check_status
  | FDiffList "string list"
  | FProbePayload "value option"
  | FStaticReportText "string option"
  | FStaticCheckPassed "bool option"
  | FProbeResult "value option"
  | FDynamicReportText "string option"
  | FDynamicCheckPassed "bool option"
  | FCreatedAt instant
  | FUpdatedAt instant
  | FOther string

fun route_check_field_name :: "route_check_field \<Rightarrow> string" where
  "route_check_field_name (FCheckId _) = ''check_id''"
| "route_check_field_name (FId _) = ''id''"
| "route_check_field_name (FAppId _) = ''app_id''"
| "route_check_field_name (FCommitId _) = ''commit_id''"
| "route_check_field_name (FRequireRoute _) = ''require_route''"
| "route_check_field_name (FStaticAgentRoleVersion _) = ''static_agent_role_version''"
| "route_check_field_name (FDynamicAgentRoleVersion _) = ''dynamic_agent_role_version''"
| "route_check_field_name (FGeneration _) = ''generation''"
| "route_check_field_name (FRepositoryUrl _) = ''repository_url''"
| "route_check_field_name (FGitRef _) = ''git_ref''"
| "route_check_field_name (FStaticRoleSnapshot _) = ''static_role_snapshot''"
| "route_check_field_name (FDynamicRoleSnapshot _) = ''dynamic_role_snapshot''"
| "route_check_field_name (FStaticTaskId _) = ''static_task_id''"
| "route_check_field_name (FStaticRunToken _) = ''static_run_token''"
| "route_check_field_name (FStaticLeaseExpiresAt _) = ''static_lease_expires_at''"
| "route_check_field_name (FDispatchError _) = ''dispatch_error''"
| "route_check_field_name (FDynamicBuildId _) = ''dynamic_build_id''"
| "route_check_field_name (FDynamicRunId _) = ''dynamic_run_id''"
| "route_check_field_name (FStaticStatus _) = ''static_status''"
| "route_check_field_name (FDynamicStatus _) = ''dynamic_status''"
| "route_check_field_name (FDiffList _) = ''diff_list''"
| "route_check_field_name (FProbePayload _) = ''probe_payload''"
| "route_check_field_name (FStaticReportText _) = ''static_report_text''"
| "route_check_field_name (FStaticCheckPassed _) = ''static_check_passed''"
| "route_check_field_name (FProbeResult _) = ''probe_result''"
| "route_check_field_name (FDynamicReportText _) = ''dynamic_report_text''"
| "route_check_field_name (FDynamicCheckPassed _) = ''dynamic_check_passed''"
| "route_check_field_name (FCreatedAt _) = ''created_at''"
| "route_check_field_name (FUpdatedAt _) = ''updated_at''"
| "route_check_field_name (FOther n) = n"

fun assign_field :: "route_check_field \<Rightarrow> route_check \<Rightarrow> route_check" where
  "assign_field (FCheckId x) r = r\<lparr>rc_check_id := x\<rparr>"
| "assign_field (FId x) r = r\<lparr>rc_id := x\<rparr>"
| "assign_field (FAppId x) r = r\<lparr>rc_app_id := x\<rparr>"
| "assign_field (FCommitId x) r = r\<lparr>rc_commit_id := x\<rparr>"
| "assign_field (FRequireRoute x) r = r\<lparr>rc_require_route := x\<rparr>"
| "assign_field (FStaticAgentRoleVersion x) r = r\<lparr>rc_static_agent_role_version := x\<rparr>"
| "assign_field (FDynamicAgentRoleVersion x) r = r\<lparr>rc_dynamic_agent_role_version := x\<rparr>"
| "assign_field (FGeneration x) r = r\<lparr>rc_generation := x\<rparr>"
| "assign_field (FRepositoryUrl x) r = r\<lparr>rc_repository_url := x\<rparr>"
| "assign_field (FGitRef x) r = r\<lparr>rc_git_ref := x\<rparr>"
| "assign_field (FStaticRoleSnapshot x) r = r\<lparr>rc_static_role_snapshot := x\<rparr>"
| "assign_field (FDynamicRoleSnapshot x) r = r\<lparr>rc_dynamic_role_snapshot := x\<rparr>"
| "assign_field (FStaticTaskId x) r = r\<lparr>rc_static_task_id := x\<rparr>"
| "assign_field (FStaticRunToken x) r = r\<lparr>rc_static_run_token := x\<rparr>"
| "assign_field (FStaticLeaseExpiresAt x) r = r\<lparr>rc_static_lease_expires_at := x\<rparr>"
| "assign_field (FDispatchError x) r = r\<lparr>rc_dispatch_error := x\<rparr>"
| "assign_field (FDynamicBuildId x) r = r\<lparr>rc_dynamic_build_id := x\<rparr>"
| "assign_field (FDynamicRunId x) r = r\<lparr>rc_dynamic_run_id := x\<rparr>"
| "assign_field (FStaticStatus x) r = r\<lparr>rc_static_status := x\<rparr>"
| "assign_field (FDynamicStatus x) r = r\<lparr>rc_dynamic_status := x\<rparr>"
| "assign_field (FDiffList x) r = r\<lparr>rc_diff_list := x\<rparr>"
| "assign_field (FProbePayload x) r = r\<lparr>rc_probe_payload := x\<rparr>"
| "assign_field (FStaticReportText x) r = r\<lparr>rc_static_report_text := x\<rparr>"
| "assign_field (FStaticCheckPassed x) r = r\<lparr>rc_static_check_passed := x\<rparr>"
| "assign_field (FProbeResult x) r = r\<lparr>rc_probe_result := x\<rparr>"
| "assign_field (FDynamicReportText x) r = r\<lparr>rc_dynamic_report_text := x\<rparr>"
| "assign_field (FDynamicCheckPassed x) r = r\<lparr>rc_dynamic_check_passed := x\<rparr>"
| "assign_field (FCreatedAt x) r = r\<lparr>rc_created_at := x\<rparr>"
| "assign_field (FUpdatedAt x) r = r\<lparr>rc_updated_at := x\<rparr>"
| "assign_field (FOther _) r = r"

definition field_is :: "route_check_field \<Rightarrow> route_check \<Rightarrow> bool" where
  "field_is a r \<longleftrightarrow> assign_field a r = r"

text \<open>\<open>isinstance(value, (Mapping, list, tuple))\<close>.\<close>

fun compound_field :: "route_check_field \<Rightarrow> bool" where
  "compound_field (FStaticRoleSnapshot _) = True"
| "compound_field (FDynamicRoleSnapshot _) = True"
| "compound_field (FDiffList _) = True"
| "compound_field (FProbePayload p) = (p \<noteq> None)"
| "compound_field (FProbeResult p) = (p \<noteq> None)"
| "compound_field _ = False"

definition route_check_updates ::
  "route_check_field list \<Rightarrow> route_check_field list \<Rightarrow> instant \<Rightarrow> route_check_field list res" where
  "route_check_updates upd expected now =
     rbind (rfor (map route_check_field_name upd) (\<lambda>field.
        rbind (rguard (field \<notin> set ROUTE_CHECK_IDENTITY_FIELDS) (Exn ValueError (field @ '' is immutable'')))
          (\<lambda>_. rguard (field \<in> set route_check_model_fields)
                 (Exn ValueError (''Unknown route check field: '' @ field)))))
     (\<lambda>_. rbind (rfor (map route_check_field_name expected) (\<lambda>field.
        rguard (field \<in> set route_check_model_fields)
          (Exn ValueError (''Unknown route check expectation: '' @ field))))
     (\<lambda>_. rbind (rguard (\<not> list_ex compound_field expected)
        (Exn ValueError ''Route check expectations must be scalar values''))
     (\<lambda>_. Inr (if ''updated_at'' \<in> set (map route_check_field_name upd) then upd
               else upd @ [FUpdatedAt now]))))"

definition apply_fields :: "route_check_field list \<Rightarrow> route_check \<Rightarrow> route_check" where
  "apply_fields upd r = fold assign_field upd r"

section \<open>Applications and agent roles\<close>

definition get_codex_provider_config :: "(world, value option) action" where
  "get_codex_provider_config = reading w_codex_provider_config"

definition save_codex_provider_config :: "value \<Rightarrow> (world, unit) action" where
  "save_codex_provider_config config = modify (\<lambda>w. w\<lparr>w_codex_provider_config := Some config\<rparr>)"

definition create_app :: "user_app \<Rightarrow> (world, user_app) action" where
  "create_app app = (\<lambda>w.
     if dget (w_apps w) (ap_appid app) \<noteq> None then (Inl (Exn DuplicateAppError (ap_appid app)), w)
     else (Inr app, w\<lparr>w_apps := dset (w_apps w) (ap_appid app) app\<rparr>))"

definition get_app :: "string \<Rightarrow> (world, user_app option) action" where
  "get_app appid = reading (\<lambda>w. dget (w_apps w) appid)"

definition list_apps :: "(world, user_app list) action" where
  "list_apps = reading (\<lambda>w. sort_key (\<lambda>app. (lower (ap_name app), ap_appid app)) (vals (w_apps w)))"

definition update_app ::
  "string \<Rightarrow> string option \<times> (user_app \<Rightarrow> user_app) \<Rightarrow> (world, user_app option) action" where
  "update_app appid upd =
     bd (lift_res (app_update_fields appid upd)) (\<lambda>u w.
       case dget (w_apps w) appid of
         None \<Rightarrow> (Inr None, w)
       | Some existing \<Rightarrow> (Inr (Some (u existing)), w\<lparr>w_apps := dset (w_apps w) appid (u existing)\<rparr>))"

definition list_agent_roles :: "(world, agent_role list) action" where
  "list_agent_roles = reading (\<lambda>w. sort_key ar_role_key (vals (w_agent_roles w)))"

definition get_agent_role :: "role_key \<Rightarrow> (world, agent_role option) action" where
  "get_agent_role k = reading (\<lambda>w. dget (w_agent_roles w) k)"

definition save_agent_role :: "agent_role \<Rightarrow> int option \<Rightarrow> (world, agent_role option) action" where
  "save_agent_role role expected_version = (\<lambda>w.
     let current = dget (w_agent_roles w) (ar_role_key role);
         store = (Inr (Some role), w\<lparr>w_agent_roles := dset (w_agent_roles w) (ar_role_key role) role\<rparr>)
     in case (expected_version, current) of
          (None, Some c) \<Rightarrow> (Inr (Some c), w)
        | (Some v, None) \<Rightarrow> (Inr None, w)
        | (Some v, Some c) \<Rightarrow> if ar_version c \<noteq> v then (Inr None, w) else store
        | (None, None) \<Rightarrow> store)"

section \<open>Route checks\<close>

definition get_route_check :: "string \<Rightarrow> (world, route_check option) action" where
  "get_route_check check_id = reading (\<lambda>w. dget (w_route_checks w) check_id)"

definition lookup_route_check :: "world \<Rightarrow> route_check_key \<Rightarrow> route_check option" where
  "lookup_route_check w key = find (\<lambda>item. route_check_key item = key) (vals (w_route_checks w))"

definition find_route_check ::
  "string \<Rightarrow> string \<Rightarrow> string \<Rightarrow> int \<Rightarrow> (world, route_check option) action" where
  "find_route_check app_id commit_id require_route static_role_version =
     reading (\<lambda>w. lookup_route_check w (app_id, commit_id, require_route, static_role_version))"

definition validate_route_check_identity :: "route_check \<Rightarrow> (world, unit) action" where
  "validate_route_check_identity r = (\<lambda>w.
     if (case dget (w_route_checks w) (rc_check_id r) of
           None \<Rightarrow> False | Some c \<Rightarrow> route_check_identity c \<noteq> route_check_identity r)
     then (Inl (Exn ValueError ''Route check identity is immutable''), w)
     else if list_ex (\<lambda>item. rc_id item = rc_id r \<and> rc_check_id item \<noteq> rc_check_id r)
               (vals (w_route_checks w))
     then (Inl (Exn RepositoryError ''Duplicate route check id''), w)
     else (Inr (), w))"

definition store_route_check :: "route_check \<Rightarrow> (world, unit) action" where
  "store_route_check r = modify (\<lambda>w. w\<lparr>w_route_checks := dset (w_route_checks w) (rc_check_id r) r\<rparr>)"

definition ensure_route_check :: "route_check \<Rightarrow> (world, route_check \<times> bool) action" where
  "ensure_route_check r =
     bd (find_route_check (rc_app_id r) (rc_commit_id r) (rc_require_route r)
           (rc_static_agent_role_version r)) (\<lambda>existing.
       case existing of
         Some e \<Rightarrow> ret (e, False)
       | None \<Rightarrow> andthen (validate_route_check_identity r)
                   (andthen (store_route_check r) (ret (r, True))))"

definition save_route_check :: "route_check \<Rightarrow> (world, route_check) action" where
  "save_route_check r =
     bd (get_route_check (rc_check_id r)) (\<lambda>current.
     if (case current of None \<Rightarrow> False | Some c \<Rightarrow> route_check_identity c \<noteq> route_check_identity r)
     then raise ValueError ''Route check identity is immutable''
     else bd (find_route_check (rc_app_id r) (rc_commit_id r) (rc_require_route r)
               (rc_static_agent_role_version r)) (\<lambda>existing.
       case (case existing of Some e \<Rightarrow> if rc_check_id e \<noteq> rc_check_id r then Some e else None
                            | None \<Rightarrow> None) of
         Some e \<Rightarrow> ret e
       | None \<Rightarrow> andthen (validate_route_check_identity r)
                   (andthen (store_route_check r) (ret r))))"

definition update_route_check ::
  "string \<Rightarrow> route_check_field list \<Rightarrow> route_check_field list \<Rightarrow> (world, route_check option) action" where
  "update_route_check check_id upd expected =
     bd utc_now (\<lambda>now.
     bd (lift_res (route_check_updates upd expected now)) (\<lambda>updates w.
       case dget (w_route_checks w) check_id of
         None \<Rightarrow> (Inr None, w)
       | Some current \<Rightarrow>
           if list_ex (\<lambda>a. \<not> field_is a current) expected then (Inr None, w)
           else (let updated = apply_fields updates current
                 in (Inr (Some updated), w\<lparr>w_route_checks := dset (w_route_checks w) check_id updated\<rparr>))))"

definition delete_route_check :: "string \<Rightarrow> string \<Rightarrow> string \<Rightarrow> int \<Rightarrow> (world, bool) action" where
  "delete_route_check app_id commit_id require_route static_role_version = (\<lambda>w.
     let matches = map fst (filter (\<lambda>(_, item).
           route_check_key item = (app_id, commit_id, require_route, static_role_version)) (w_route_checks w))
     in if matches = [] then (Inr False, w)
        else (Inr True, w\<lparr>w_route_checks := fold AList.delete matches (w_route_checks w)\<rparr>))"

definition list_route_checks :: "string \<Rightarrow> string \<Rightarrow> (world, route_check list) action" where
  "list_route_checks app_id commit_id = reading (\<lambda>w.
     sort_desc (\<lambda>item. (rc_created_at item, rc_check_id item))
       (filter (\<lambda>item. rc_app_id item = app_id \<and> rc_commit_id item = commit_id) (vals (w_route_checks w))))"

definition list_route_checks_for_app :: "string \<Rightarrow> (world, route_check list) action" where
  "list_route_checks_for_app app_id = reading (\<lambda>w.
     sort_desc (\<lambda>item. (rc_created_at item, rc_check_id item))
       (filter (\<lambda>item. rc_app_id item = app_id) (vals (w_route_checks w))))"

definition list_route_check_commits :: "string \<Rightarrow> (world, string list) action" where
  "list_route_check_commits app_id = reading (\<lambda>w.
     rev (sort (remdups (map rc_commit_id
       (filter (\<lambda>item. rc_app_id item = app_id) (vals (w_route_checks w)))))))"

definition list_pending_route_checks :: "(world, route_check list) action" where
  "list_pending_route_checks = reading (\<lambda>w.
     sort_key (\<lambda>item. (rc_updated_at item, rc_check_id item))
       (filter (\<lambda>item. rc_static_status item \<in> {CkQueued, CkRunning}) (vals (w_route_checks w))))"

section \<open>Builds\<close>

definition create_build :: "build_job \<Rightarrow> (world, build_job) action" where
  "create_build b = (\<lambda>w. (Inr b, w\<lparr>w_builds := dset (w_builds w) (bj_build_id b) b\<rparr>))"

definition get_build :: "string \<Rightarrow> (world, build_job option) action" where
  "get_build build_id = reading (\<lambda>w. dget (w_builds w) build_id)"

definition list_builds ::
  "string option \<Rightarrow> build_status option \<Rightarrow> int \<Rightarrow> int \<Rightarrow> (world, build_job list \<times> nat) action" where
  "list_builds appid status skip limit =
     (if skip < 0 \<or> limit < 1
      then raise ValueError ''skip must be non-negative and limit must be positive''
      else reading (\<lambda>w.
        let values = sort_desc (\<lambda>b. (bj_created_at b, bj_build_id b))
              (filter (\<lambda>b. (appid = None \<or> appid = Some (bj_appid b)) \<and>
                           (status = None \<or> status = Some (bj_status b))) (vals (w_builds w)))
        in (take (nat limit) (drop (nat skip) values), length values)))"

definition list_build_identifiers :: "string \<Rightarrow> (world, build_identifier list) action" where
  "list_build_identifiers appid = reading (\<lambda>w.
     map (\<lambda>b. \<lparr>bi_build_id = bj_build_id b, bi_status = bj_status b, bi_git_commit_sha = bj_git_commit_sha b\<rparr>)
       (sort_desc (\<lambda>b. (bj_created_at b, bj_build_id b))
         (filter (\<lambda>b. bj_appid b = appid) (vals (w_builds w)))))"

definition list_pending_dynamic_builds :: "(world, build_job list) action" where
  "list_pending_dynamic_builds = reading (\<lambda>w.
     sort_key (\<lambda>b. (bj_updated_at b, bj_build_id b))
       (filter (\<lambda>b. bj_dynamic_status b \<in> {CkQueued, CkRunning} \<or> bj_teardown_required b)
         (vals (w_builds w))))"

definition list_active_builds :: "(world, build_job list) action" where
  "list_active_builds = reading (\<lambda>w.
     sort_key bj_updated_at (filter (\<lambda>b. \<not> terminal (bj_status b)) (vals (w_builds w))))"

definition update_build :: "string \<Rightarrow> (build_job \<Rightarrow> build_job) \<Rightarrow> (world, build_job option) action" where
  "update_build build_id upd = (\<lambda>w.
     case dget (w_builds w) build_id of
       None \<Rightarrow> (Inr None, w)
     | Some existing \<Rightarrow>
         (Inr (Some (upd existing)), w\<lparr>w_builds := dset (w_builds w) build_id (upd existing)\<rparr>))"

definition transition_build ::
  "string \<Rightarrow> build_status list \<Rightarrow> build_status \<Rightarrow> (build_job \<Rightarrow> build_job) \<Rightarrow> (world, build_job option) action" where
  "transition_build build_id expected_statuses status upd = (\<lambda>w.
     case dget (w_builds w) build_id of
       None \<Rightarrow> (Inr None, w)
     | Some existing \<Rightarrow>
         if bj_status existing \<notin> set expected_statuses then (Inr None, w)
         else (let updated = (upd existing)\<lparr>bj_status := status\<rparr>
               in (Inr (Some updated), w\<lparr>w_builds := dset (w_builds w) build_id updated\<rparr>)))"

section \<open>Events, images, stacks, services and alerts\<close>

definition append_event :: "app_event \<Rightarrow> (world, app_event) action" where
  "append_event e = (\<lambda>w. (Inr e, w\<lparr>w_events := w_events w @ [e]\<rparr>))"

definition list_events :: "string \<Rightarrow> nat \<Rightarrow> (world, app_event list) action" where
  "list_events appid limit = reading (\<lambda>w.
     take limit (sort_desc ev_created_at (filter (\<lambda>e. ev_appid e = appid) (w_events w))))"

definition save_user_image :: "user_image \<Rightarrow> (world, user_image) action" where
  "save_user_image i = (\<lambda>w. (Inr i, w\<lparr>w_user_images := dset (w_user_images w) (ui_image_id i) i\<rparr>))"

definition list_user_images :: "string \<Rightarrow> (world, user_image list) action" where
  "list_user_images appid = reading (\<lambda>w. filter (\<lambda>i. ui_appid i = appid) (vals (w_user_images w)))"

definition save_base_image :: "base_image \<Rightarrow> (world, base_image) action" where
  "save_base_image i = (\<lambda>w. (Inr i, w\<lparr>w_base_images := dset (w_base_images w) (bm_source_image i) i\<rparr>))"

definition list_base_images :: "(world, base_image list) action" where
  "list_base_images = reading (\<lambda>w. vals (w_base_images w))"

definition create_tech_stack :: "tech_stack \<Rightarrow> (world, tech_stack) action" where
  "create_tech_stack s = (\<lambda>w.
     if dget (w_tech_stacks w) (ts_id s) \<noteq> None then (Inl (Exn DuplicateTechStackError (ts_id s)), w)
     else (Inr s, w\<lparr>w_tech_stacks := dset (w_tech_stacks w) (ts_id s) s\<rparr>))"

definition get_tech_stack :: "string \<Rightarrow> (world, tech_stack option) action" where
  "get_tech_stack i = reading (\<lambda>w. dget (w_tech_stacks w) i)"

definition list_tech_stacks :: "(world, tech_stack list) action" where
  "list_tech_stacks = reading (\<lambda>w. sort_key (\<lambda>s. (lower (ts_name s), ts_id s)) (vals (w_tech_stacks w)))"

definition update_tech_stack :: "string \<Rightarrow> (tech_stack \<Rightarrow> tech_stack) \<Rightarrow> (world, tech_stack option) action" where
  "update_tech_stack i upd = (\<lambda>w.
     case dget (w_tech_stacks w) i of
       None \<Rightarrow> (Inr None, w)
     | Some s \<Rightarrow> (Inr (Some (upd s)), w\<lparr>w_tech_stacks := dset (w_tech_stacks w) i (upd s)\<rparr>))"

definition delete_tech_stack :: "string \<Rightarrow> (world, bool) action" where
  "delete_tech_stack i = (\<lambda>w.
     (Inr (dget (w_tech_stacks w) i \<noteq> None), w\<lparr>w_tech_stacks := ddel (w_tech_stacks w) i\<rparr>))"

definition save_service :: "deployment_service \<Rightarrow> (world, deployment_service) action" where
  "save_service s = (\<lambda>w. (Inr s, w\<lparr>w_services := dset (w_services w) (sv_service_id s) s\<rparr>))"

definition list_services :: "string \<Rightarrow> (world, deployment_service list) action" where
  "list_services appid = reading (\<lambda>w. filter (\<lambda>s. sv_appid s = appid) (vals (w_services w)))"

definition create_alert :: "alert \<Rightarrow> (world, alert) action" where
  "create_alert a = (\<lambda>w. (Inr a, w\<lparr>w_alerts := dset (w_alerts w) (al_alert_id a) a\<rparr>))"

definition list_alerts :: "string \<Rightarrow> (world, alert list) action" where
  "list_alerts appid = reading (\<lambda>w. filter (\<lambda>a. al_appid a = appid) (vals (w_alerts w)))"

section \<open>Build resources, leases and ports\<close>

definition put_resources_doc :: "string \<Rightarrow> build_resources \<Rightarrow> world \<Rightarrow> world" where
  "put_resources_doc k d w = w\<lparr>w_build_resources := dset (w_build_resources w) k d\<rparr>"

definition ensure_build_resources :: "build_resources \<Rightarrow> (world, build_resources) action" where
  "ensure_build_resources r = (\<lambda>w.
     let docs = dsetdefault (w_build_resources w) (br_build_id r) r;
         existing = (case dget docs (br_build_id r) of Some e \<Rightarrow> e | None \<Rightarrow> r);
         w' = w\<lparr>w_build_resources := docs\<rparr>
     in if br_appid existing \<noteq> br_appid r
        then (Inl (Exn RepositoryError ''Build resource owner mismatch''), w')
        else (Inr existing, w'))"

definition get_build_resources :: "string \<Rightarrow> (world, build_resources option) action" where
  "get_build_resources build_id = reading (\<lambda>w. dget (w_build_resources w) build_id)"

definition put_build_resource ::
  "string \<Rightarrow> build_resource \<Rightarrow> string option \<Rightarrow> (world, build_resources) action" where
  "put_build_resource build_id r owner =
     andthen (lift_res (validate_resource_key (rs_key r))) (\<lambda>w.
       case dget (w_build_resources w) build_id of
         None \<Rightarrow> (Inl (Exn RepositoryError ''Build resources not found''), w)
       | Some d \<Rightarrow>
           if owner \<noteq> None \<and> (br_lease_owner d \<noteq> owner \<or> lease_expired (br_lease_expires_at d) (w_clock w))
           then (Inl (Exn RepositoryError ''Build resource lease lost''), w)
           else (let d' = d\<lparr>br_resources := dset (br_resources d) (rs_key r) r, br_updated_at := w_clock w\<rparr>
                 in (Inr d', put_resources_doc build_id d' w)))"

text \<open>An expectation: the lease owner it names, if it does, and the test of the other fields.\<close>

type_synonym resources_expected = "string option option \<times> (build_resources \<Rightarrow> bool)"

definition resources_expected_hold :: "resources_expected \<Rightarrow> build_resources \<Rightarrow> instant \<Rightarrow> bool" where
  "resources_expected_hold expected d now \<longleftrightarrow>
     (case fst expected of
        None \<Rightarrow> True
      | Some owner \<Rightarrow> br_lease_owner d = owner \<and> \<not> (owner \<noteq> None \<and> lease_expired (br_lease_expires_at d) now))
     \<and> snd expected d"

definition update_build_resources ::
  "string \<Rightarrow> (build_resources \<Rightarrow> build_resources) \<Rightarrow> resources_expected
     \<Rightarrow> (world, build_resources option) action" where
  "update_build_resources build_id upd expected = (\<lambda>w.
     case dget (w_build_resources w) build_id of
       None \<Rightarrow> (Inr None, w)
     | Some d \<Rightarrow>
         if \<not> resources_expected_hold expected d (w_clock w) then (Inr None, w)
         else (let d' = (upd d)\<lparr>br_updated_at := w_clock w\<rparr>
               in (Inr (Some d'), put_resources_doc build_id d' w)))"

definition claim_build_lease ::
  "string \<Rightarrow> string \<Rightarrow> instant \<Rightarrow> cleanup_status list \<Rightarrow> (world, build_resources option) action" where
  "claim_build_lease build_id owner expires_at statuses = (\<lambda>w.
     case dget (w_build_resources w) build_id of
       None \<Rightarrow> (Inr None, w)
     | Some d \<Rightarrow>
         if br_cleanup_status d \<notin> set statuses then (Inr None, w)
         else if br_lease_owner d \<noteq> None \<and> \<not> lease_expired (br_lease_expires_at d) (w_clock w)
         then (Inr None, w)
         else (let d' = d\<lparr>br_lease_owner := Some owner, br_lease_expires_at := Some expires_at,
                          br_updated_at := w_clock w\<rparr>
               in (Inr (Some d'), put_resources_doc build_id d' w)))"

definition renew_build_lease :: "string \<Rightarrow> string \<Rightarrow> instant \<Rightarrow> (world, bool) action" where
  "renew_build_lease build_id owner expires_at =
     bd (update_build_resources build_id (\<lambda>d. d\<lparr>br_lease_expires_at := Some expires_at\<rparr>)
          (Some (Some owner), \<lambda>_. True))
        (\<lambda>r. ret (r \<noteq> None))"

definition release_build_lease :: "string \<Rightarrow> string \<Rightarrow> (world, unit) action" where
  "release_build_lease build_id owner = (\<lambda>w.
     case dget (w_build_resources w) build_id of
       None \<Rightarrow> (Inr (), w)
     | Some d \<Rightarrow>
         if br_lease_owner d = Some owner
         then (Inr (), put_resources_doc build_id (d\<lparr>br_lease_owner := None, br_lease_expires_at := None\<rparr>) w)
         else (Inr (), w))"

definition list_cleanup_resources :: "(world, build_resources list) action" where
  "list_cleanup_resources = reading (\<lambda>w.
     filter (\<lambda>d. br_cleanup_status d \<in> {CleanupQueued, CleanupRunning}) (vals (w_build_resources w)))"

text \<open>An allocation maps (target, protocol, port) to its owner (build, service).\<close>

definition reserve_port ::
  "string \<Rightarrow> string \<Rightarrow> int \<Rightarrow> string \<Rightarrow> string \<Rightarrow> (world, bool) action" where
  "reserve_port target protocol port build_id service_name = (\<lambda>w.
     let owner = (build_id, service_name);
         allocations = dsetdefault (w_port_allocations w) (target, protocol, port) owner
     in (Inr (dget allocations (target, protocol, port) = Some owner),
         w\<lparr>w_port_allocations := allocations\<rparr>))"

definition release_port :: "string \<Rightarrow> string \<Rightarrow> int \<Rightarrow> string \<Rightarrow> (world, bool) action" where
  "release_port target protocol port build_id = (\<lambda>w.
     case dget (w_port_allocations w) (target, protocol, port) of
       None \<Rightarrow> (Inr True, w)
     | Some (b, s) \<Rightarrow>
         if b \<noteq> build_id then (Inr False, w)
         else (Inr True, w\<lparr>w_port_allocations := ddel (w_port_allocations w) (target, protocol, port)\<rparr>))"

definition list_build_ports ::
  "string \<Rightarrow> (world, ((string \<times> string \<times> int) \<times> (string \<times> string)) list) action" where
  "list_build_ports build_id = reading (\<lambda>w. filter (\<lambda>(_, owner). fst owner = build_id) (w_port_allocations w))"

section \<open>The collections as stores\<close>

definition look_build :: "world \<Rightarrow> string \<Rightarrow> build_job option" where
  "look_build w k = dget (w_builds w) k"

definition put_build :: "string \<Rightarrow> build_job \<Rightarrow> world \<Rightarrow> world" where
  "put_build k b w = w\<lparr>w_builds := dset (w_builds w) k b\<rparr>"

definition look_check :: "world \<Rightarrow> string \<Rightarrow> route_check option" where
  "look_check w k = dget (w_route_checks w) k"

definition put_check :: "string \<Rightarrow> route_check \<Rightarrow> world \<Rightarrow> world" where
  "put_check k r w = w\<lparr>w_route_checks := dset (w_route_checks w) k r\<rparr>"

definition look_resources :: "world \<Rightarrow> string \<Rightarrow> build_resources option" where
  "look_resources w k = dget (w_build_resources w) k"

interpretation builds: store look_build put_build
  by unfold_locales (simp_all add: look_build_def put_build_def)

interpretation checks: store look_check put_check
  by unfold_locales (simp_all add: look_check_def put_check_def)

interpretation resources: store look_resources put_resources_doc
  by unfold_locales (simp_all add: look_resources_def put_resources_doc_def)

lemma update_build_cas: "update_build k f = cas_doc look_build put_build k (\<lambda>_. True) f"
  by (rule ext) (simp add: update_build_def cas_doc_def look_build_def put_build_def split: option.split)

lemma transition_build_cas:
  "transition_build k ss s f =
     cas_doc look_build put_build k (\<lambda>b. bj_status b \<in> set ss) (\<lambda>b. (f b)\<lparr>bj_status := s\<rparr>)"
  by (rule ext)
     (auto simp: transition_build_def cas_doc_def look_build_def put_build_def Let_def split: option.splits)

lemma update_resources_cas:
  "update_build_resources k f e w =
     cas_doc look_resources put_resources_doc k (\<lambda>d. resources_expected_hold e d (w_clock w))
       (\<lambda>d. (f d)\<lparr>br_updated_at := w_clock w\<rparr>) w"
  by (auto simp: update_build_resources_def cas_doc_def look_resources_def Let_def split: option.splits)

lemma claim_lease_cas:
  "claim_build_lease k owner until ss w =
     cas_doc look_resources put_resources_doc k
       (\<lambda>d. br_cleanup_status d \<in> set ss \<and>
            (br_lease_owner d = None \<or> lease_expired (br_lease_expires_at d) (w_clock w)))
       (\<lambda>d. d\<lparr>br_lease_owner := Some owner, br_lease_expires_at := Some until, br_updated_at := w_clock w\<rparr>) w"
  by (auto simp: claim_build_lease_def cas_doc_def look_resources_def Let_def split: option.splits)

lemma list_ex_not: "list_ex (\<lambda>a. \<not> p a) xs \<longleftrightarrow> \<not> list_all p xs"
  by (induction xs) auto

lemma update_check_cas:
  "update_route_check k upd e w =
     (case route_check_updates upd e (w_clock w) of
        Inl x \<Rightarrow> (Inl x, w)
      | Inr u \<Rightarrow> cas_doc look_check put_check k (\<lambda>r. list_all (\<lambda>a. field_is a r) e) (apply_fields u) w)"
  by (auto simp: update_route_check_def bd_app cas_doc_def look_check_def put_check_def Let_def list_ex_not
      split: option.splits sum.splits)

section \<open>Laws of the route check collection\<close>

text \<open>Stored under their own id, at most one per business key and per numeric id.\<close>

definition checks_wf :: "world \<Rightarrow> bool" where
  "checks_wf w \<longleftrightarrow> distinct (keys (w_route_checks w)) \<and>
     (\<forall>(k, r)\<in>set (w_route_checks w). rc_check_id r = k \<and>
        (\<forall>(k', r')\<in>set (w_route_checks w).
           route_check_key r = route_check_key r' \<or> rc_id r = rc_id r' \<longrightarrow> k = k'))"

lemma checks_wf_cong: "w_route_checks w' = w_route_checks w \<Longrightarrow> checks_wf w' = checks_wf w"
  by (simp add: checks_wf_def)

lemma checks_wf_id: "checks_wf w \<Longrightarrow> (k, r) \<in> set (w_route_checks w) \<Longrightarrow> rc_check_id r = k"
  by (auto simp: checks_wf_def)

lemma checks_wf_unique:
  "checks_wf w \<Longrightarrow> (k, r) \<in> set (w_route_checks w) \<Longrightarrow> (k', r') \<in> set (w_route_checks w) \<Longrightarrow>
   route_check_key r = route_check_key r' \<or> rc_id r = rc_id r' \<Longrightarrow> k = k'"
  unfolding checks_wf_def by blast

lemma identity_field_name:
  "route_check_field_name a \<notin> set ROUTE_CHECK_IDENTITY_FIELDS \<Longrightarrow>
   route_check_identity (assign_field a r) = route_check_identity r"
  by (cases a) (simp_all add: ROUTE_CHECK_IDENTITY_FIELDS_def route_check_identity_def route_check_key_def)

lemma route_check_updates_Inr:
  "route_check_updates upd e now = Inr u \<Longrightarrow>
   (\<forall>a\<in>set u. route_check_field_name a \<notin> set ROUTE_CHECK_IDENTITY_FIELDS) \<and>
   u = upd @ (if ''updated_at'' \<in> route_check_field_name ` set upd then [] else [FUpdatedAt now])"
  by (auto simp: route_check_updates_def rbind_Inr_iff rfor_Inr_iff ROUTE_CHECK_IDENTITY_FIELDS_def
      split: if_splits)

lemma apply_fields_identity:
  "\<forall>a\<in>set u. route_check_field_name a \<notin> set ROUTE_CHECK_IDENTITY_FIELDS \<Longrightarrow>
   route_check_identity (apply_fields u r) = route_check_identity r"
  unfolding apply_fields_def by (induction u arbitrary: r) (simp_all add: identity_field_name)

lemma updates_keep_identity:
  "route_check_updates upd e now = Inr u \<Longrightarrow>
   route_check_identity (apply_fields u r) = route_check_identity r"
  using route_check_updates_Inr apply_fields_identity by blast

lemma lookup_route_check_None:
  "lookup_route_check w key = None \<longleftrightarrow> (\<forall>(k, r)\<in>set (w_route_checks w). route_check_key r \<noteq> key)"
  by (auto simp: lookup_route_check_def find_None_iff)

lemma lookup_route_check_Some:
  "lookup_route_check w key = Some r \<Longrightarrow>
   \<exists>k. (k, r) \<in> set (w_route_checks w) \<and> route_check_key r = key"
  by (auto simp: lookup_route_check_def find_Some_iff) (metis nth_mem prod.collapse)

lemma checks_wf_look:
  "checks_wf w \<Longrightarrow> look_check w k = Some r \<longleftrightarrow> (k, r) \<in> set (w_route_checks w)"
  by (auto simp: checks_wf_def look_check_def)

lemma checks_wf_put:
  assumes "checks_wf w"
    and "\<And>k r'. (k, r') \<in> set (w_route_checks w) \<Longrightarrow> k \<noteq> rc_check_id r \<Longrightarrow>
           route_check_key r' \<noteq> route_check_key r \<and> rc_id r' \<noteq> rc_id r"
  shows "checks_wf (put_check (rc_check_id r) r w)"
proof -
  have d: "distinct (keys (w_route_checks w))"
    using assms(1) by (simp add: checks_wf_def)
  have elem: "(k, x) \<in> set (dset (w_route_checks w) (rc_check_id r) r) \<Longrightarrow>
      (k = rc_check_id r \<and> x = r) \<or> (k \<noteq> rc_check_id r \<and> (k, x) \<in> set (w_route_checks w))" for k x
    using in_dset_cases d by fast
  have "rc_check_id x = k \<and> (route_check_key x = route_check_key x' \<or> rc_id x = rc_id x' \<longrightarrow> k = k')"
    if "(k, x) \<in> set (dset (w_route_checks w) (rc_check_id r) r)"
      and "(k', x') \<in> set (dset (w_route_checks w) (rc_check_id r) r)" for k x k' x'
    using elem [OF that(1)] elem [OF that(2)] assms unfolding checks_wf_def
    by (elim disjE conjE) (fastforce+)
  then show ?thesis
    using d unfolding checks_wf_def put_check_def
    by (auto simp: distinct_update)
qed

lemma store_route_check_put: "store_route_check r w = (Inr (), put_check (rc_check_id r) r w)"
  by (simp add: store_route_check_def put_check_def)

lemma validate_identity_Inr:
  "validate_route_check_identity r w = (Inr u, w') \<Longrightarrow> w' = w \<and>
   (\<forall>(k, x)\<in>set (w_route_checks w). rc_id x = rc_id r \<longrightarrow> rc_check_id x = rc_check_id r)"
  by (auto simp: validate_route_check_identity_def list_ex_iff split: if_splits option.splits)

lemma validate_identity_state: "snd (validate_route_check_identity r w) = w"
  by (simp add: validate_route_check_identity_def)

lemma checks_wf_store_new:
  assumes "checks_wf w" and "lookup_route_check w (route_check_key r) = None"
    and "validate_route_check_identity r w = (Inr u, w')"
  shows "checks_wf (put_check (rc_check_id r) r w)"
proof (rule checks_wf_put [OF assms(1)])
  fix k x
  assume kx: "(k, x) \<in> set (w_route_checks w)" "k \<noteq> rc_check_id r"
  then have "rc_check_id x = k"
    using assms(1) by (auto simp: checks_wf_def)
  then show "route_check_key x \<noteq> route_check_key r \<and> rc_id x \<noteq> rc_id r"
    using kx assms(2) validate_identity_Inr [OF assms(3)] by (auto simp: lookup_route_check_None)
qed

lemma ensure_route_check_wf:
  assumes "checks_wf w"
  shows "checks_wf (snd (ensure_route_check r w))"
  using assms checks_wf_store_new [OF assms] validate_identity_state [of r w]
  by (cases "validate_route_check_identity r w")
     (auto simp: ensure_route_check_def find_route_check_def bd_app andthen_app store_route_check_put
       route_check_key_def split: option.splits sum.splits)

lemma save_route_check_wf:
  assumes wf: "checks_wf w"
  shows "checks_wf (snd (save_route_check r w))"
proof -
  have put: "checks_wf (put_check (rc_check_id r) r w)"
    if v: "validate_route_check_identity r w = (Inr u, w')"
      and l: "\<And>e. lookup_route_check w (route_check_key r) = Some e \<Longrightarrow> rc_check_id e = rc_check_id r"
    for u w'
  proof (rule checks_wf_put [OF wf])
    fix k x
    assume kx: "(k, x) \<in> set (w_route_checks w)" "k \<noteq> rc_check_id r"
    then have id: "rc_check_id x = k"
      using wf by (auto simp: checks_wf_def)
    have "route_check_key x \<noteq> route_check_key r"
    proof
      assume same: "route_check_key x = route_check_key r"
      obtain e where e: "lookup_route_check w (route_check_key r) = Some e"
        using kx(1) same lookup_route_check_None [of w "route_check_key r"] by fastforce
      with lookup_route_check_Some obtain k' where
        k': "(k', e) \<in> set (w_route_checks w)" "route_check_key e = route_check_key r"
        by blast
      have "k' = k" using wf kx(1) k' same by (fastforce simp: checks_wf_def)
      moreover have "k' = rc_check_id e" using wf k' by (auto simp: checks_wf_def)
      ultimately show False using l [OF e] kx(2) by simp
    qed
    then show "route_check_key x \<noteq> route_check_key r \<and> rc_id x \<noteq> rc_id r"
      using kx id validate_identity_Inr [OF v] by auto
  qed
  show ?thesis
    using wf put validate_identity_state [of r w]
    by (cases "validate_route_check_identity r w")
       (auto simp: save_route_check_def get_route_check_def find_route_check_def bd_app andthen_app
         store_route_check_put route_check_key_def split: option.splits sum.splits if_splits)
qed

lemma update_route_check_wf:
  assumes wf: "checks_wf w"
  shows "checks_wf (snd (update_route_check k upd e w))"
proof (cases "route_check_updates upd e (w_clock w)")
  case (Inl x)
  then show ?thesis using wf by (simp add: update_check_cas)
next
  case (Inr u)
  have put: "checks_wf (put_check k (apply_fields u r) w)" if l: "look_check w k = Some r" for r
  proof -
    have id: "route_check_identity (apply_fields u r) = route_check_identity r"
      by (rule updates_keep_identity [OF Inr])
    have kr: "(k, r) \<in> set (w_route_checks w)"
      using l wf checks_wf_look by blast
    then have k: "k = rc_check_id r" using wf by (auto simp: checks_wf_def)
    have "checks_wf (put_check (rc_check_id (apply_fields u r)) (apply_fields u r) w)"
    proof (rule checks_wf_put [OF wf])
      fix k' x
      assume "(k', x) \<in> set (w_route_checks w)" "k' \<noteq> rc_check_id (apply_fields u r)"
      then show "route_check_key x \<noteq> route_check_key (apply_fields u r) \<and> rc_id x \<noteq> rc_id (apply_fields u r)"
        using wf kr id k unfolding checks_wf_def route_check_identity_def by fastforce
    qed
    then show ?thesis using id k by (simp add: route_check_identity_def)
  qed
  then show ?thesis
    using wf by (simp add: update_check_cas Inr cas_doc_def split: option.splits)
qed

lemma ddel_subset: "set (ddel d k) \<subseteq> set d"
  by (auto simp: AList.delete_eq)

lemma fold_ddel_subset: "set (fold AList.delete ks d) \<subseteq> set d"
proof (induction ks arbitrary: d)
  case (Cons k ks)
  then show ?case using ddel_subset [of k d] by (metis fold_simps(2) subset_trans)
qed simp

lemma fold_ddel_distinct: "distinct (keys d) \<Longrightarrow> distinct (keys (fold AList.delete ks d))"
  by (induction ks arbitrary: d) (simp_all del: distinct_map)

lemma checks_wf_subset:
  assumes "checks_wf w" "distinct (keys d)" "set d \<subseteq> set (w_route_checks w)"
  shows "checks_wf (w\<lparr>w_route_checks := d\<rparr>)"
proof -
  have "rc_check_id r = k \<and> (route_check_key r = route_check_key r' \<or> rc_id r = rc_id r' \<longrightarrow> k = k')"
    if "(k, r) \<in> set d" "(k', r') \<in> set d" for k r k' r'
    using checks_wf_id [OF assms(1), of k r] checks_wf_unique [OF assms(1), of k r k' r'] that assms(3)
    by blast
  then show ?thesis using assms(2) by (fastforce simp: checks_wf_def)
qed

lemma delete_route_check_wf:
  assumes "checks_wf w"
  shows "checks_wf (snd (delete_route_check a c r v w))"
  using assms checks_wf_subset [OF assms fold_ddel_distinct fold_ddel_subset]
  by (simp add: delete_route_check_def Let_def checks_wf_def)

end
