(* ===== verification/Builds.thy ===== *)
theory Builds
  imports Repository
begin

text \<open>
  \<open>orchestrator/services.py\<close>: the build state machine of \<open>BuildService\<close> (\<open>get_build\<close>,
  \<open>transition\<close>, \<open>fail\<close>, \<open>record_event\<close>). The status lattice is a step relation on
  \<open>build_status\<close>; \<open>build_evolves\<close> is the promise that a stored build keeps its identity,
  moves only along that relation and keeps a bounded stage history, and every handler of the
  development is shown to respect it.
\<close>

section \<open>The status machine\<close>

fun ALLOWED_BUILD_TRANSITIONS :: "build_status \<Rightarrow> build_status set" where
  "ALLOWED_BUILD_TRANSITIONS QUEUED = {VALIDATING, FAILED, CANCELLED}"
| "ALLOWED_BUILD_TRANSITIONS VALIDATING = {TRIGGERING, FAILED, CANCELLED}"
| "ALLOWED_BUILD_TRANSITIONS TRIGGERING = {BUILDING, FAILED, CANCELLED}"
| "ALLOWED_BUILD_TRANSITIONS BUILDING = {DEPLOYING, FAILED, CANCELLED}"
| "ALLOWED_BUILD_TRANSITIONS DEPLOYING = {SUCCEEDED, FAILED, CANCELLED}"
| "ALLOWED_BUILD_TRANSITIONS SUCCEEDED = {}"
| "ALLOWED_BUILD_TRANSITIONS FAILED = {}"
| "ALLOWED_BUILD_TRANSITIONS CANCELLED = {}"

inductive status_step :: "build_status \<Rightarrow> build_status \<Rightarrow> bool" where
  "t \<in> ALLOWED_BUILD_TRANSITIONS s \<Longrightarrow> status_step s t"

inductive_simps status_step_iff: "status_step s t"

abbreviation status_reaches :: "build_status \<Rightarrow> build_status \<Rightarrow> bool" where
  "status_reaches \<equiv> status_step\<^sup>*\<^sup>*"

lemma terminal_no_step: "terminal s \<Longrightarrow> \<not> status_step s t"
  by (cases s) (auto simp: status_step_iff)

lemma terminal_reaches: "status_reaches s t \<Longrightarrow> terminal s \<Longrightarrow> t = s"
  by (induction rule: converse_rtranclp_induct) (auto dest: terminal_no_step)

text \<open>A status never comes back: the rank of a status grows along every step.\<close>

fun status_rank :: "build_status \<Rightarrow> nat" where
  "status_rank QUEUED = 0" | "status_rank VALIDATING = 1" | "status_rank TRIGGERING = 2"
| "status_rank BUILDING = 3" | "status_rank DEPLOYING = 4" | "status_rank SUCCEEDED = 5"
| "status_rank FAILED = 5" | "status_rank CANCELLED = 5"

lemma status_step_rank: "status_step s t \<Longrightarrow> status_rank s < status_rank t"
  by (cases s) (auto simp: status_step_iff)

lemma status_reaches_rank: "status_reaches s t \<Longrightarrow> s = t \<or> status_rank s < status_rank t"
  by (induction rule: rtranclp_induct) (auto dest: status_step_rank)

lemma status_reaches_antisym: "status_reaches s t \<Longrightarrow> status_reaches t s \<Longrightarrow> s = t"
  using status_reaches_rank [of s t] status_reaches_rank [of t s] by auto

section \<open>Events\<close>

definition record_event ::
  "string \<Rightarrow> string option \<Rightarrow> string \<Rightarrow> string \<Rightarrow> event_level \<Rightarrow> mapping \<Rightarrow> (world, unit) action" where
  "record_event appid build_id kind message level details =
     bd uuid4_hex (\<lambda>event_id.
     bd utc_now (\<lambda>now.
     andthen (append_event \<lparr>ev_event_id = event_id, ev_appid = appid, ev_build_id = build_id,
                ev_kind = kind, ev_level = level, ev_message = message, ev_details = details,
                ev_created_at = now\<rparr>) (ret ())))"

section \<open>Operations\<close>

definition require_build :: "string \<Rightarrow> (world, build_job) action" where
  "require_build build_id =
     bd (get_build build_id) (\<lambda>b. case b of
       None \<Rightarrow> raise NotFoundError ''Build not found'' | Some b \<Rightarrow> ret b)"

text \<open>The stage history with the new stage, cut to its last 32 entries.\<close>

definition STAGE_HISTORY_LIMIT :: nat where "STAGE_HISTORY_LIMIT = 32"

definition next_history :: "build_job \<Rightarrow> string \<Rightarrow> string list" where
  "next_history b stage =
     (let seed = (case bj_stage b of Some s \<Rightarrow> if s = [] then [] else [s] | None \<Rightarrow> []);
          history = (if bj_stage_history b = [] then seed else bj_stage_history b);
          extended = (if history = [] \<or> last history \<noteq> stage then history @ [stage] else history)
      in drop (length extended - STAGE_HISTORY_LIMIT) extended)"

text \<open>The keyword fields of a transition: an explicit stage, if one is given, and the rest.\<close>

type_synonym build_fields = "string option \<times> (build_job \<Rightarrow> build_job)"

definition transition_fields :: "build_job \<Rightarrow> build_status \<Rightarrow> build_fields \<Rightarrow> instant \<Rightarrow> build_job \<Rightarrow> build_job" where
  "transition_fields b target flds now = (\<lambda>x.
     let stage = (case fst flds of Some s \<Rightarrow> s | None \<Rightarrow> status_value target);
         x1 = (snd flds x)\<lparr>bj_updated_at := now\<rparr>;
         x2 = (if target = VALIDATING \<and> bj_started_at b = None then x1\<lparr>bj_started_at := Some now\<rparr> else x1);
         x3 = (if terminal target then x2\<lparr>bj_finished_at := Some now\<rparr> else x2)
     in x3\<lparr>bj_stage := Some stage, bj_stage_history := next_history b stage\<rparr>)"

definition build_transition :: "string \<Rightarrow> build_status \<Rightarrow> build_fields \<Rightarrow> (world, build_job) action" where
  "build_transition build_id target flds =
     bd (require_build build_id) (\<lambda>b.
     if bj_status b = target then ret b
     else if terminal (bj_status b) \<or> target \<notin> ALLOWED_BUILD_TRANSITIONS (bj_status b)
     then raise InvalidBuildTransition (''Cannot transition build from '' @ status_value (bj_status b)
            @ '' to '' @ status_value target)
     else
       bd utc_now (\<lambda>now.
       bd (transition_build build_id [bj_status b] target (transition_fields b target flds now)) (\<lambda>updated.
         case updated of
           None \<Rightarrow>
             bd (require_build build_id) (\<lambda>current.
               if bj_status current = target then ret current
               else raise InvalidBuildTransition ''Concurrent build status update'')
         | Some u \<Rightarrow>
             andthen (record_event (bj_appid u) (Some build_id) (''build.'' @ status_value target)
                        (''Build is '' @ status_value target)
                        (if target = FAILED then ERROR else INFO) [])
               (ret u))))"

text \<open>The keyword arguments of \<open>fail\<close>.\<close>

record failure =
  fl_error_detail :: "mapping option"
  fl_raw_log_excerpt :: "string option"
  fl_failure_logs :: "mapping option"
  fl_failure_site :: "string option"

definition no_detail :: failure where
  "no_detail = \<lparr>fl_error_detail = None, fl_raw_log_excerpt = None, fl_failure_logs = None,
     fl_failure_site = None\<rparr>"

definition failure_site_of :: "failure \<Rightarrow> string option" where
  "failure_site_of f =
     (case fl_failure_site f of
        Some s \<Rightarrow> Some s
      | None \<Rightarrow>
          (case fl_error_detail f of
             Some d \<Rightarrow> if truthy (mget d ''failure_site'') then Some (py_str (mget d ''failure_site'')) else None
           | None \<Rightarrow> None))"

definition failure_fields :: "string \<Rightarrow> failure \<Rightarrow> build_fields" where
  "failure_fields message f = (Some ''failed'', \<lambda>x.
     let x1 = x\<lparr>bj_error := Some message\<rparr>;
         x2 = (case fl_error_detail f of Some d \<Rightarrow> x1\<lparr>bj_error_detail := Some (VDict d)\<rparr> | None \<Rightarrow> x1);
         x3 = (case fl_raw_log_excerpt f of Some s \<Rightarrow> x2\<lparr>bj_raw_log_excerpt := Some s\<rparr> | None \<Rightarrow> x2);
         x4 = (case fl_failure_logs f of Some d \<Rightarrow> x3\<lparr>bj_failure_logs := Some (VDict d)\<rparr> | None \<Rightarrow> x3)
     in (case failure_site_of f of Some s \<Rightarrow> x4\<lparr>bj_failure_site := Some s\<rparr> | None \<Rightarrow> x4))"

definition truthy_text :: "string option \<Rightarrow> bool" where
  "truthy_text s \<longleftrightarrow> (case s of Some t \<Rightarrow> t \<noteq> [] | None \<Rightarrow> False)"

definition text_item :: "string \<Rightarrow> string option \<Rightarrow> mapping" where
  "text_item k s = (if truthy_text s then [(VStr k, VStr (the s))] else [])"

definition failure_event_details :: "failure \<Rightarrow> build_job \<Rightarrow> mapping" where
  "failure_event_details f failed =
     (case fl_error_detail f of Some d \<Rightarrow> [(VStr ''error_detail'', VDict d)] | None \<Rightarrow> [])
     @ (case fl_raw_log_excerpt f of
          Some s \<Rightarrow> [(VStr ''raw_log_excerpt_preview'', VStr (take 500 s))] | None \<Rightarrow> [])
     @ (case fl_failure_logs f of
          Some d \<Rightarrow> [(VStr ''failure_logs_source'', mget d ''source'')] | None \<Rightarrow> [])
     @ text_item ''failure_site'' (bj_failure_site failed)
     @ text_item ''stage'' (bj_stage failed)"

definition build_fail :: "string \<Rightarrow> string \<Rightarrow> failure \<Rightarrow> (world, build_job) action" where
  "build_fail build_id message f =
     bd (require_build build_id) (\<lambda>b.
     if bj_status b = FAILED then ret b
     else if terminal (bj_status b) then ret b
     else
       bd (build_transition build_id FAILED (failure_fields message f)) (\<lambda>failed.
       bd uuid4_hex (\<lambda>alert_id.
       bd utc_now (\<lambda>now.
       andthen (create_alert \<lparr>al_alert_id = alert_id, al_appid = bj_appid failed,
                  al_build_id = Some (bj_build_id failed), al_severity = ''error'', al_message = message,
                  al_resolved_at = None, al_created_at = now\<rparr>)
       (andthen (record_event (bj_appid failed) (Some (bj_build_id failed)) ''build.alert'' message ERROR
                   (failure_event_details f failed))
         (ret failed))))))"

section \<open>How stored builds evolve\<close>

definition build_evolves :: "build_job \<Rightarrow> build_job \<Rightarrow> bool" where
  "build_evolves b b' \<longleftrightarrow>
     bj_build_id b' = bj_build_id b \<and> bj_appid b' = bj_appid b \<and>
     status_reaches (bj_status b) (bj_status b') \<and>
     (length (bj_stage_history b) \<le> STAGE_HISTORY_LIMIT \<longrightarrow> length (bj_stage_history b') \<le> STAGE_HISTORY_LIMIT)"

abbreviation builds_evolve :: "world \<Rightarrow> world \<Rightarrow> bool" where
  "builds_evolve \<equiv> evolves look_build build_evolves"

interpretation bh: document_history look_build put_build build_evolves
  by unfold_locales (auto simp: build_evolves_def)

named_theorems build_keeps "actions under which stored builds only evolve"

lemma same_builds: "w_builds w' = w_builds w \<Longrightarrow> look_build w' k = look_build w k"
  by (simp add: look_build_def)

lemma keeps_builds_other: "(\<And>w. w_builds (snd (m w)) = w_builds w) \<Longrightarrow> keeps builds_evolve m"
  by (rule bh.keeps_other) (rule same_builds)

lemma keeps_get_build [build_keeps]: "keeps builds_evolve (get_build i)"
  by (rule keeps_builds_other) (simp add: get_build_def)

lemma keeps_utc_now [build_keeps]: "keeps builds_evolve utc_now"
  by (rule keeps_builds_other) simp

lemma keeps_uuid4 [build_keeps]: "keeps builds_evolve uuid4_hex"
  by (rule keeps_builds_other) (simp add: uuid4_hex_app)

lemma keeps_record_event [build_keeps]: "keeps builds_evolve (record_event a b k m l d)"
  by (rule keeps_builds_other) (simp add: record_event_def bd_app andthen_app append_event_def uuid4_hex_app)

lemma keeps_create_alert [build_keeps]: "keeps builds_evolve (create_alert a)"
  by (rule keeps_builds_other) (simp add: create_alert_def)

lemma keeps_require_build [build_keeps]: "keeps builds_evolve (require_build i)"
  unfolding require_build_def by (intro bh.keeps_rules build_keeps)

text \<open>The condition under which a field update respects the evolution: it leaves alone what
  only the state machine may change.\<close>

definition frame_fields :: "(build_job \<Rightarrow> build_job) \<Rightarrow> bool" where
  "frame_fields f \<longleftrightarrow> (\<forall>b. bj_build_id (f b) = bj_build_id b \<and> bj_appid (f b) = bj_appid b \<and>
     bj_status (f b) = bj_status b \<and> bj_stage_history (f b) = bj_stage_history b)"

lemma keeps_update_build: "frame_fields f \<Longrightarrow> keeps builds_evolve (update_build i f)"
  unfolding update_build_cas by (rule bh.keeps_cas) (simp add: build_evolves_def frame_fields_def)

lemma length_next_history: "length (next_history b s) \<le> STAGE_HISTORY_LIMIT"
  by (simp add: next_history_def Let_def)

lemma last_next_history: "last (next_history b s) = s"
  by (auto simp: next_history_def Let_def STAGE_HISTORY_LIMIT_def last_drop split: option.splits)

lemma keeps_transition_build:
  assumes "frame_fields (snd flds)" "target \<in> ALLOWED_BUILD_TRANSITIONS s"
  shows "keeps builds_evolve (transition_build i [s] target (transition_fields b target flds now))"
  unfolding transition_build_cas
proof (rule bh.keeps_cas)
  fix v :: build_job
  assume "bj_status v \<in> set [s]"
  then show "build_evolves v ((transition_fields b target flds now v)\<lparr>bj_status := target\<rparr>)"
    using assms length_next_history
    by (auto simp: build_evolves_def frame_fields_def transition_fields_def Let_def status_step.simps
        intro!: r_into_rtranclp)
qed

lemma keeps_build_transition:
  assumes "frame_fields (snd flds)"
  shows "keeps builds_evolve (build_transition i target flds)"
proof -
  have "keeps builds_evolve (transition_build i [bj_status b] target (transition_fields b target flds now))"
    if "\<not> (terminal (bj_status b) \<or> target \<notin> ALLOWED_BUILD_TRANSITIONS (bj_status b))" for b now
    using keeps_transition_build assms that by blast
  then show ?thesis
    unfolding build_transition_def
    by (intro bh.keeps_rules build_keeps) blast+
qed

lemma frame_failure_fields: "frame_fields (snd (failure_fields m f))"
  by (auto simp: frame_fields_def failure_fields_def Let_def split: option.splits)

lemma keeps_build_fail [build_keeps]: "keeps builds_evolve (build_fail i m f)"
  unfolding build_fail_def
  by (intro bh.keeps_rules build_keeps keeps_build_transition frame_failure_fields)

section \<open>Outcomes\<close>

lemma require_build_app:
  "require_build i w =
     (case look_build w i of None \<Rightarrow> (Inl (Exn NotFoundError ''Build not found''), w) | Some b \<Rightarrow> (Inr b, w))"
  by (simp add: require_build_def get_build_def bd_app look_build_def split: option.split)

lemma record_event_app:
  "record_event a b k m l d w =
     (Inr (), w\<lparr>w_uuid_next := Suc (w_uuid_next w),
        w_events := w_events w @ [\<lparr>ev_event_id = w_uuid w (w_uuid_next w), ev_appid = a, ev_build_id = b,
          ev_kind = k, ev_level = l, ev_message = m, ev_details = d, ev_created_at = w_clock w\<rparr>]\<rparr>)"
  by (simp add: record_event_def bd_app andthen_app append_event_def uuid4_hex_app)

lemma build_transition_same:
  "look_build w i = Some b \<Longrightarrow> bj_status b = target \<Longrightarrow> build_transition i target flds w = (Inr b, w)"
  by (simp add: build_transition_def bd_app require_build_app)

lemma build_transition_refused:
  "look_build w i = Some b \<Longrightarrow> bj_status b \<noteq> target \<Longrightarrow> target \<notin> ALLOWED_BUILD_TRANSITIONS (bj_status b) \<Longrightarrow>
   \<exists>m. build_transition i target flds w = (Inl (Exn InvalidBuildTransition m), w)"
  by (simp add: build_transition_def bd_app require_build_app)

definition transitioned :: "build_job \<Rightarrow> build_status \<Rightarrow> build_fields \<Rightarrow> instant \<Rightarrow> build_job" where
  "transitioned b target flds now = (transition_fields b target flds now b)\<lparr>bj_status := target\<rparr>"

definition transition_event :: "world \<Rightarrow> build_job \<Rightarrow> string \<Rightarrow> build_status \<Rightarrow> app_event" where
  "transition_event w u i target = \<lparr>ev_event_id = w_uuid w (w_uuid_next w), ev_appid = bj_appid u,
     ev_build_id = Some i, ev_kind = ''build.'' @ status_value target,
     ev_level = (if target = FAILED then ERROR else INFO),
     ev_message = ''Build is '' @ status_value target, ev_details = [], ev_created_at = w_clock w\<rparr>"

lemma allowed_not_terminal: "target \<in> ALLOWED_BUILD_TRANSITIONS s \<Longrightarrow> \<not> terminal s \<and> s \<noteq> target"
  by (cases s; cases target) simp_all

lemma build_transition_accepted:
  assumes "look_build w i = Some b" and "target \<in> ALLOWED_BUILD_TRANSITIONS (bj_status b)"
  shows "let u = transitioned b target flds (w_clock w) in build_transition i target flds w =
    (Inr u, (put_build i u w)\<lparr>w_uuid_next := Suc (w_uuid_next w),
       w_events := w_events w @ [transition_event w u i target]\<rparr>)"
proof -
  have "transition_build i [bj_status b] target (transition_fields b target flds (w_clock w)) w =
      (Inr (Some (transitioned b target flds (w_clock w))), put_build i (transitioned b target flds (w_clock w)) w)"
    using builds.cas_hit [OF assms(1)] by (simp add: transition_build_cas transitioned_def)
  then show ?thesis
    using assms(1,2) allowed_not_terminal [OF assms(2)]
    by (simp add: build_transition_def bd_app andthen_app require_build_app record_event_app
        transition_event_def put_build_def Let_def)
qed

lemma transitioned_fields:
  assumes "frame_fields (snd flds)"
  shows "bj_status (transitioned b target flds now) = target"
    and "bj_build_id (transitioned b target flds now) = bj_build_id b"
    and "bj_appid (transitioned b target flds now) = bj_appid b"
    and "bj_updated_at (transitioned b target flds now) = now"
    and "bj_stage (transitioned b target flds now) =
           Some (case fst flds of Some s \<Rightarrow> s | None \<Rightarrow> status_value target)"
    and "last (bj_stage_history (transitioned b target flds now)) =
           (case fst flds of Some s \<Rightarrow> s | None \<Rightarrow> status_value target)"
    and "length (bj_stage_history (transitioned b target flds now)) \<le> STAGE_HISTORY_LIMIT"
    and "terminal target \<Longrightarrow> bj_finished_at (transitioned b target flds now) = Some now"
  using assms
  by (auto simp: transitioned_def transition_fields_def Let_def frame_fields_def last_next_history
      length_next_history)

section \<open>Properties\<close>


definition sample_build :: "build_status \<Rightarrow> build_job" where
  "sample_build s = (new_build_job ''b1'' ''shop'' ''main'' 5)\<lparr>bj_status := s\<rparr>"

definition sample_world :: "build_job \<Rightarrow> world" where
  "sample_world b = (empty_world str_nat 7)\<lparr>w_builds := [(''b1'', b)]\<rparr>"


text \<open>
  two workers that act on the same reading of a build cannot both win. Whatever fields the
  two carry, once one of them has moved the build on, the compare-and-swap of the other finds
  another status and changes nothing.
\<close>

lemma transition_race_single_winner:
  assumes "transition_build i [s] t f w = (Inr (Some u), w')" and "t \<noteq> s"
  shows "transition_build i [s] t' g w' = (Inr None, w')"
proof -
  obtain b where "look_build w i = Some b" "u = (f b)\<lparr>bj_status := t\<rparr>"
    using builds.cas_result [OF assms(1) [unfolded transition_build_cas]] by auto
  then have "\<not> bj_status u \<in> set [s]" using assms(2) by simp
  then show ?thesis
    using builds.cas_excludes [OF assms(1) [unfolded transition_build_cas]]
    by (simp add: transition_build_cas)
qed

text \<open>
  failing a build is final and happens once. On a build that has ended nothing changes and
  the build is returned as it is; on any other one the build ends as failed with the message,
  exactly one alert carries the message and the last event is the alert event; failing it again
  then changes nothing.
\<close>

lemma build_fail_outcome:
  assumes "look_build w i = Some b" and "bj_build_id b = i"
  shows "if terminal (bj_status b) then build_fail i m f w = (Inr b, w)
    else (\<exists>u w' a. build_fail i m f w = (Inr u, w') \<and> look_build w' i = Some u \<and>
            bj_status u = FAILED \<and> bj_error u = Some m \<and> bj_stage u = Some ''failed'' \<and>
            bj_finished_at u = Some (w_clock w) \<and>
            w_alerts w' = dset (w_alerts w) (al_alert_id a) a \<and> al_message a = m \<and>
            al_build_id a = Some i \<and>
            (\<exists>e e'. w_events w' = w_events w @ [e, e'] \<and> ev_kind e = ''build.failed'' \<and>
                    ev_kind e' = ''build.alert'' \<and> ev_message e' = m) \<and>
            (\<forall>m' f'. build_fail i m' f' w' = (Inr u, w')))"
proof (cases "terminal (bj_status b)")
  case True
  then show ?thesis using assms(1) by (auto simp: build_fail_def bd_app require_build_app)
next
  case False
  let ?flds = "failure_fields m f"
  let ?u = "transitioned b FAILED ?flds (w_clock w)"
  have allowed: "FAILED \<in> ALLOWED_BUILD_TRANSITIONS (bj_status b)"
    using False by (cases "bj_status b") simp_all
  have u: "bj_status ?u = FAILED" "bj_build_id ?u = i" "bj_stage ?u = Some ''failed''"
    "bj_finished_at ?u = Some (w_clock w)"
    using transitioned_fields [OF frame_failure_fields, where b = b and target = FAILED and now = "w_clock w"] assms(2)
    by (simp_all add: failure_fields_def)
  have err: "bj_error ?u = Some m"
    by (simp add: transitioned_def transition_fields_def failure_fields_def Let_def split: option.split)
  have look: "look_build (w'\<lparr>w_uuid_next := n, w_alerts := al, w_events := es\<rparr>) j = look_build w' j"
    for w' n al es j by (simp add: look_build_def)
  have again: "build_fail i m' f' w' = (Inr ?u, w')" if "look_build w' i = Some ?u" for w' m' f'
    using that u(1) by (simp add: build_fail_def bd_app require_build_app)
  have kind: "ev_kind (transition_event w ?u i FAILED) = ''build.failed''"
    by (simp add: transition_event_def)
  have nf: "bj_status b \<noteq> FAILED" using False by auto
  let ?a = "\<lparr>al_alert_id = w_uuid w (Suc (w_uuid_next w)), al_appid = bj_appid ?u, al_build_id = Some i,
    al_severity = ''error'', al_message = m, al_resolved_at = None, al_created_at = w_clock w\<rparr>"
  obtain w' e' where w': "build_fail i m f w = (Inr ?u, w')" "look_build w' i = Some ?u"
    "w_alerts w' = dset (w_alerts w) (al_alert_id ?a) ?a"
    "w_events w' = w_events w @ [transition_event w ?u i FAILED, e']"
    "ev_kind e' = ''build.alert''" "ev_message e' = m"
    using assms(1) False nf u build_transition_accepted [OF assms(1) allowed, of ?flds, unfolded Let_def]
    by (simp add: build_fail_def bd_app andthen_app require_build_app create_alert_def
        record_event_app uuid4_hex_app look_build_def put_build_def)
  have "\<exists>e e'. w_events w' = w_events w @ [e, e'] \<and> ev_kind e = ''build.failed'' \<and>
      ev_kind e' = ''build.alert'' \<and> ev_message e' = m"
    using w'(4-6) kind by blast
  moreover have "al_message ?a = m" "al_build_id ?a = Some i" by simp_all
  moreover have "\<forall>m' f'. build_fail i m' f' w' = (Inr ?u, w')"
    using again [OF w'(2)] by blast
  ultimately show ?thesis
    using False w'(1-3) u err by (metis (no_types, lifting))
qed

end
