(* ===== verification/RouteProbes.thy ===== *)
theory RouteProbes
  imports Models
begin

text \<open>
  \<open>orchestrator/route_probes.py\<close>: validation of a probe request an agent proposes, the
  assertions evaluated on a response, and the order in which the endpoints of a deployment are
  tried. The Protobuf descriptor pool is a third-party library: \<open>pool\<close> says whether the bytes of
  a descriptor set define a method, and whether it is unary. The transport is a parameter of
  the client as well: it gives the status, headers and body of one exchange.
\<close>

section \<open>JSON texts\<close>

text \<open>\<open>json.dumps(value, ensure_ascii=False, allow_nan=False)\<close>: None where it raises.\<close>

definition json_char_raw :: "char \<Rightarrow> string" where
  "json_char_raw c = (if code c = 127 then [c] else json_char c)"

definition json_raw_string :: "string \<Rightarrow> string" where
  "json_raw_string s = CHR 0x22 # concat (map json_char_raw s) @ [CHR 0x22]"

fun json_float :: "pyfloat \<Rightarrow> string option" where
  "json_float (Finite _ _ r) = Some r"
| "json_float _ = None"

fun json_key :: "value \<Rightarrow> string option" where
  "json_key (VStr s) = Some s"
| "json_key (VBool b) = Some (if b then ''true'' else ''false'')"
| "json_key VNull = Some ''null''"
| "json_key (VInt i) = Some (str_int i)"
| "json_key (VFloat f) = json_float f"
| "json_key _ = None"

fun all_some :: "'a option list \<Rightarrow> 'a list option" where
  "all_some [] = Some []"
| "all_some (x # xs) = (case x of None \<Rightarrow> None | Some y \<Rightarrow> map_option (\<lambda>ys. y # ys) (all_some xs))"

function json_text :: "value \<Rightarrow> string option"
  and json_texts :: "value list \<Rightarrow> string option list"
  and json_item_texts :: "mapping \<Rightarrow> string option list" where
  "json_text VNull = Some ''null''"
| "json_text (VBool b) = Some (if b then ''true'' else ''false'')"
| "json_text (VInt i) = Some (str_int i)"
| "json_text (VFloat f) = json_float f"
| "json_text (VStr s) = Some (json_raw_string s)"
| "json_text (VList xs) = map_option (\<lambda>ts. ''['' @ join '', '' ts @ '']'') (all_some (json_texts xs))"
| "json_text (VDict d) = map_option (\<lambda>ts. ''{'' @ join '', '' ts @ ''}'') (all_some (json_item_texts d))"
| "json_texts [] = []"
| "json_texts (x # xs) = json_text x # json_texts xs"
| "json_item_texts [] = []"
| "json_item_texts ((k, v) # d) =
     (case (json_key k, json_text v) of
        (Some a, Some b) \<Rightarrow> Some (json_raw_string a @ '': '' @ b) | _ \<Rightarrow> None) # json_item_texts d"
  by pat_completeness auto
termination
  by (relation "measure (case_sum size (case_sum (size_list size) (size_list (size_prod size size))))")
     auto

text \<open>What \<open>json.loads\<close> gives back for such a text: keys become texts, a repeated key keeps its
  last value.\<close>

function json_reload :: "value \<Rightarrow> value"
  and json_reloads :: "value list \<Rightarrow> value list"
  and json_reload_items :: "mapping \<Rightarrow> mapping \<Rightarrow> mapping" where
  "json_reload (VList xs) = VList (json_reloads xs)"
| "json_reload (VDict d) = VDict (json_reload_items d [])"
| "json_reload VNull = VNull"
| "json_reload (VBool b) = VBool b"
| "json_reload (VInt i) = VInt i"
| "json_reload (VFloat f) = VFloat f"
| "json_reload (VStr s) = VStr s"
| "json_reloads [] = []"
| "json_reloads (x # xs) = json_reload x # json_reloads xs"
| "json_reload_items [] acc = acc"
| "json_reload_items ((k, v) # d) acc =
     json_reload_items d (dset acc (VStr (case json_key k of Some s \<Rightarrow> s | None \<Rightarrow> [])) (json_reload v))"
  by pat_completeness auto
termination
  by (relation "measure (case_sum size (case_sum (size_list size) (\<lambda>(d, _). size_list (size_prod size size) d)))")
     auto

section \<open>Endpoints\<close>

record probe_endpoint =
  pe_service_name :: string
  pe_host :: string
  pe_port :: int
  pe_scheme :: string
  pe_target_port :: "int option"

definition HOST_NAME_RX :: rx where
  "HOST_NAME_RX = Cat (Cls (\<lambda>c. is_alnum c \<or> one_of ''_'' c))
     (Star (Cls (\<lambda>c. is_alnum c \<or> one_of ''_.-'' c)))"

text \<open>\<open>ProbeEndpoint.__post_init__\<close>; \<open>is_ip\<close> is \<open>ipaddress.ip_address\<close> succeeding. An IPv4
  address also matches the host name pattern, so only the IPv6 form matters.\<close>

definition make_probe_endpoint ::
  "string \<Rightarrow> string \<Rightarrow> int \<Rightarrow> string \<Rightarrow> int option \<Rightarrow> probe_endpoint res" where
  "make_probe_endpoint service_name host port scheme target_port =
     (if service_name = [] \<or> length service_name > 256
      then Inl (Exn ValueError ''Probe endpoint service name is invalid'')
      else if length host > 253 \<or> \<not> (ipv6_ok host \<or> fullmatch HOST_NAME_RX host)
      then Inl (Exn ValueError ''Probe endpoint host is invalid'')
      else if \<not> (1 \<le> port \<and> port \<le> 65535)
      then Inl (Exn ValueError ''Probe endpoint port is invalid'')
      else if scheme \<notin> set [''http'', ''https'', ''grpc'', ''grpcs'']
      then Inl (Exn ValueError ''Probe endpoint scheme is invalid'')
      else if (case target_port of None \<Rightarrow> False | Some p \<Rightarrow> \<not> (1 \<le> p \<and> p \<le> 65535))
      then Inl (Exn ValueError ''Probe endpoint target port is invalid'')
      else Inr \<lparr>pe_service_name = service_name, pe_host = host, pe_port = port, pe_scheme = scheme,
                pe_target_port = target_port\<rparr>)"

definition endpoint_authority :: "probe_endpoint \<Rightarrow> string" where
  "endpoint_authority e =
     (if CHR '':'' \<in> set (pe_host e) then ''['' @ pe_host e @ '']'' else pe_host e)
     @ '':'' @ str_int (pe_port e)"

section \<open>Routes, headers and paths\<close>

definition probe_invalid :: "string \<Rightarrow> 'a res" where
  "probe_invalid message = Inl (Exn ValueError (''Invalid probe payload: '' @ message))"

definition hex_digit_value :: "char \<Rightarrow> nat option" where
  "hex_digit_value c =
     (if is_digit c then Some (code c - 48)
      else if in_range 97 102 c then Some (code c - 87)
      else if in_range 65 70 c then Some (code c - 55) else None)"

text \<open>\<open>urllib.parse.unquote\<close>. A byte outside ASCII becomes a character outside ASCII, which no
  test below distinguishes.\<close>

fun unquote :: "string \<Rightarrow> string" where
  "unquote (CHR ''%'' # a # b # s) =
     (case (hex_digit_value a, hex_digit_value b) of
        (Some x, Some y) \<Rightarrow> char_of (16 * x + y) # unquote s
      | _ \<Rightarrow> CHR ''%'' # unquote (a # b # s))"
| "unquote (c # s) = c # unquote s"
| "unquote [] = []"

definition unsafe_path :: "string \<Rightarrow> bool" where
  "unsafe_path s \<longleftrightarrow> starts_with s ''//'' \<or> CHR 0x5C \<in> set s \<or> CHR ''?'' \<in> set s \<or> CHR ''#'' \<in> set s
     \<or> (\<exists>c\<in>set s. code c < 32 \<or> code c = 127)
     \<or> (\<exists>p\<in>set (split_on (CHR ''/'') s). p = ''.'' \<or> p = ''..'')"

fun route_rounds :: "nat \<Rightarrow> string \<Rightarrow> unit res" where
  "route_rounds 0 s = Inr ()"
| "route_rounds (Suc n) s =
     (if unsafe_path s then probe_invalid ''require_route contains an unsafe path''
      else if unquote s = s then Inr () else route_rounds n (unquote s))"

definition GRPC_PATH_RX :: rx where
  "GRPC_PATH_RX = Seqs [Lit ''/'', Cls (\<lambda>c. is_alpha c \<or> one_of ''_'' c),
     Star (Cls (\<lambda>c. is_alnum c \<or> one_of ''_.'' c)), Lit ''/'', Cls (\<lambda>c. is_alpha c \<or> one_of ''_'' c),
     Star (Cls (\<lambda>c. is_alnum c \<or> one_of ''_'' c))]"

definition validate_route :: "value \<Rightarrow> bool \<Rightarrow> unit res" where
  "validate_route route grpc =
     (if \<not> is_str route \<or> \<not> starts_with (the_str route) ''/'' \<or> length (the_str route) > 4096
      then probe_invalid ''require_route must be an absolute path, not a URL''
      else rbind (route_rounds 3 (the_str route)) (\<lambda>_.
        if grpc \<and> \<not> fullmatch GRPC_PATH_RX (the_str route)
        then probe_invalid ''gRPC require_route must be /package.Service/Method''
        else Inr ()))"

definition FORBIDDEN_HEADERS :: "string list" where
  "FORBIDDEN_HEADERS = [''host'', ''connection'', ''content-length'', ''transfer-encoding'', ''upgrade'',
     ''proxy-authorization'', ''proxy-connection'', ''te'', ''trailer'']"

definition HEADER_NAME_RX :: rx where
  "HEADER_NAME_RX = Plus (Cls (\<lambda>c. is_alnum c \<or> one_of (CHR 0x27 # ''!#$%&*+.^_`|~-'') c))"

definition header_ok :: "value \<Rightarrow> value \<Rightarrow> bool" where
  "header_ok name content \<longleftrightarrow>
     is_str name \<and> fullmatch HEADER_NAME_RX (the_str name) \<and> is_str content \<and> length (the_str content) \<le> 8192 \<and>
     (\<forall>c\<in>set (the_str content). 32 \<le> code c \<and> code c < 127)"

fun collect_headers :: "bool \<Rightarrow> mapping \<Rightarrow> mapping \<Rightarrow> mapping res" where
  "collect_headers request [] acc = Inr acc"
| "collect_headers request ((name, content) # rest) acc =
     (if \<not> header_ok name content then probe_invalid ''headers contain an invalid name or value''
      else let lower_name = lower (the_str name) in
        if request \<and> (lower_name \<in> set FORBIDDEN_HEADERS \<or> starts_with lower_name '':''
             \<or> starts_with lower_name ''grpc-'')
        then probe_invalid (''header '' @ lower_name @ '' cannot override transport authority or framing'')
        else if mhas acc lower_name then probe_invalid ''headers contain a duplicate name''
        else collect_headers request rest (dset acc (VStr lower_name) content))"

definition validate_headers :: "value \<Rightarrow> bool \<Rightarrow> mapping res" where
  "validate_headers v request =
     (if \<not> is_mapping v \<or> length (the_dict v) > 100 then probe_invalid ''headers must be a bounded object''
      else collect_headers request (the_dict v) [])"

datatype path_token = Index nat | Field string

definition path_invalid :: "'a res" where
  "path_invalid = probe_invalid ''json_path_equals contains an invalid path''"

definition path_name_char :: "char \<Rightarrow> bool" where
  "path_name_char c \<longleftrightarrow> is_alnum c \<or> one_of ''_-'' c"

text \<open>After a token: the rest starts a subscript, or a dot and a name.\<close>

fun after_token :: "string \<Rightarrow> string res" where
  "after_token [] = Inr []"
| "after_token (c # s) =
     (if c = CHR ''.'' then (if s = [] \<or> starts_with s ''['' then path_invalid else Inr s)
      else if c = CHR ''['' then Inr (c # s) else path_invalid)"

definition take_index :: "string \<Rightarrow> (path_token \<times> string) res" where
  "take_index s =
     (let ds = takeWhile is_digit s; rest = dropWhile is_digit s
      in if ds \<noteq> [] \<and> starts_with rest '']'' then Inr (Index (nat_of_digits ds), tl rest) else path_invalid)"

definition take_name :: "string \<Rightarrow> (path_token \<times> string) res" where
  "take_name s =
     (let cs = takeWhile path_name_char s
      in if cs \<noteq> [] then Inr (Field cs, dropWhile path_name_char s) else path_invalid)"

definition take_token :: "string \<Rightarrow> (path_token \<times> string) res" where
  "take_token s = (if starts_with s ''['' then take_index (tl s) else take_name s)"

lemma take_token_shorter:
  "take_token s = Inr (t, rest) \<Longrightarrow> length rest < length s"
proof (cases "starts_with s ''[''")
  case True
  then obtain u where s: "s = CHR ''['' # u"
    by (auto simp: starts_with_def prefix_def)
  assume a: "take_token s = Inr (t, rest)"
  moreover have "starts_with (CHR ''['' # u) ''[''" by (simp add: starts_with_def)
  ultimately have "rest = tl (dropWhile is_digit u)"
    by (auto simp: s take_token_def take_index_def path_invalid_def probe_invalid_def Let_def split: if_splits)
  then show ?thesis
    using s length_dropWhile_le [of is_digit u] by simp
next
  case False
  assume "take_token s = Inr (t, rest)"
  then have rest: "rest = dropWhile path_name_char s" and ne: "takeWhile path_name_char s \<noteq> []"
    using False by (auto simp: take_token_def take_name_def path_invalid_def probe_invalid_def Let_def split: if_splits)
  have "length s = length (takeWhile path_name_char s) + length rest"
    unfolding rest by (metis length_append takeWhile_dropWhile_id)
  moreover have "0 < length (takeWhile path_name_char s)" using ne by simp
  ultimately show ?thesis by linarith
qed

lemma after_token_length [dest]: "after_token s = Inr u \<Longrightarrow> length u \<le> length s"
  by (cases s) (auto simp: path_invalid_def probe_invalid_def split: if_splits)

function path_tokens :: "string \<Rightarrow> path_token list res" where
  "path_tokens s =
     (if s = [] then Inr []
      else case take_token s of
        Inl e \<Rightarrow> Inl e
      | Inr (t, rest) \<Rightarrow>
          (case after_token rest of
             Inl e \<Rightarrow> Inl e
           | Inr u \<Rightarrow> rbind (path_tokens u) (\<lambda>ts. Inr (t # ts))))"
  by pat_completeness auto
termination
  by (relation "measure length") (auto dest!: take_token_shorter after_token_length)

declare path_tokens.simps [simp del]

definition json_path_tokens :: "value \<Rightarrow> path_token list res" where
  "json_path_tokens path =
     (if \<not> is_str path \<or> the_str path = [] \<or> length (the_str path) > 512 then path_invalid
      else
        (let p = the_str path; dollar = starts_with p ''$'';
             remaining = (if dollar then tl p else p)
         in if starts_with remaining ''.'' then path_tokens (tl remaining)
            else if dollar \<and> remaining \<noteq> [] \<and> \<not> starts_with remaining ''['' then path_invalid
            else path_tokens remaining))"

section \<open>Base64\<close>

definition base64_value :: "char \<Rightarrow> nat option" where
  "base64_value c =
     (if is_upper c then Some (code c - 65)
      else if is_lower c then Some (code c - 71)
      else if is_digit c then Some (code c + 4)
      else if c = CHR ''+'' then Some 62
      else if c = CHR ''/'' then Some 63 else None)"

fun base64_groups :: "nat list \<Rightarrow> nat list" where
  "base64_groups (a # b # c # d # r) =
     [a * 4 + b div 16, (b mod 16) * 16 + c div 4, (c mod 4) * 64 + d] @ base64_groups r"
| "base64_groups [a, b, c] = [a * 4 + b div 16, (b mod 16) * 16 + c div 4]"
| "base64_groups [a, b] = [a * 4 + b div 16]"
| "base64_groups _ = []"

text \<open>\<open>base64.b64decode(value, validate=True)\<close>: full quanta, padding only at the end.\<close>

definition b64decode :: "string \<Rightarrow> string option" where
  "b64decode s =
     (let body = takeWhile (\<lambda>c. c \<noteq> CHR ''='') s; pad = dropWhile (\<lambda>c. c \<noteq> CHR ''='') s
      in if length s mod 4 = 0 \<and> length pad \<le> 2 \<and> (\<forall>c\<in>set pad. c = CHR ''='')
         then map_option (\<lambda>vs. map char_of (base64_groups vs)) (all_some (map base64_value body))
         else None)"

definition MAX_PAYLOAD_BYTES :: int where "MAX_PAYLOAD_BYTES = 1048576"
definition MAX_DESCRIPTOR_BYTES :: int where "MAX_DESCRIPTOR_BYTES = 1048576"

definition decode_base64 :: "value \<Rightarrow> string \<Rightarrow> int \<Rightarrow> string res" where
  "decode_base64 v field limit =
     (if \<not> is_str v \<or> int (length (the_str v)) > (limit + 2) div 3 * 4
      then probe_invalid (field @ '' is invalid or exceeds the size limit'')
      else case b64decode (the_str v) of
        None \<Rightarrow> probe_invalid (field @ '' must be valid Base64'')
      | Some bytes \<Rightarrow> if int (length bytes) > limit then probe_invalid (field @ '' exceeds the size limit'')
                      else Inr bytes)"

section \<open>Validation of a request\<close>

definition mkeys_in :: "mapping \<Rightarrow> string list \<Rightarrow> bool" where
  "mkeys_in d ks \<longleftrightarrow> list_all (\<lambda>(k, _). is_str k \<and> the_str k \<in> set ks) d"

definition COMMON_FIELDS :: "string list" where
  "COMMON_FIELDS = [''protocol'', ''path'', ''service_name'', ''target_port'', ''headers'', ''body'', ''assertions'']"

definition HTTP_FIELDS :: "string list" where
  "HTTP_FIELDS = COMMON_FIELDS @ [''method'', ''query_params'']"

definition GRPC_FIELDS :: "string list" where
  "GRPC_FIELDS = COMMON_FIELDS @ [''method'', ''query_params'', ''body_base64'', ''descriptor_set_base64'', ''reflection'']"

definition ASSERTION_FIELDS :: "string list" where
  "ASSERTION_FIELDS = [''expected_headers'', ''body_equals'', ''body_contains'', ''json_equals'',
     ''json_contains'', ''json_path_equals'']"

definition HTTP_METHODS :: "string list" where
  "HTTP_METHODS = [''GET'', ''POST'', ''PUT'', ''PATCH'', ''DELETE'', ''HEAD'', ''OPTIONS'']"

definition GRPC_CODES :: "string list" where
  "GRPC_CODES = [''OK'', ''CANCELLED'', ''UNKNOWN'', ''INVALID_ARGUMENT'', ''DEADLINE_EXCEEDED'',
     ''NOT_FOUND'', ''ALREADY_EXISTS'', ''PERMISSION_DENIED'', ''RESOURCE_EXHAUSTED'',
     ''FAILED_PRECONDITION'', ''ABORTED'', ''OUT_OF_RANGE'', ''UNIMPLEMENTED'',
     ''INTERNAL'', ''UNAVAILABLE'', ''DATA_LOSS'', ''UNAUTHENTICATED'']"

definition bounded_json :: "value \<Rightarrow> mapping res" where
  "bounded_json payload =
     (if \<not> is_mapping payload \<or> \<not> list_all (\<lambda>(k, _). is_str k) (the_dict payload)
      then probe_invalid ''request must be an object''
      else case json_text payload of
        None \<Rightarrow> probe_invalid ''request must be bounded JSON''
      | Some t \<Rightarrow>
          if int (length t) > MAX_PAYLOAD_BYTES then probe_invalid ''request must be bounded JSON''
          else Inr (the_dict (json_reload payload)))"

definition check_destination :: "mapping \<Rightarrow> value \<Rightarrow> bool \<Rightarrow> unit res" where
  "check_destination r route grpc =
     rbind (if route \<noteq> VNull then validate_route route grpc else Inr ()) (\<lambda>_.
     rbind (rguard (\<not> (mhas r ''path'' \<and> \<not> py_eq (mget r ''path'') route))
              (Exn ValueError ''Invalid probe payload: path must equal require_route'')) (\<lambda>_.
     rbind (if mhas r ''path'' then validate_route (mget r ''path'') grpc else Inr ()) (\<lambda>_.
     rbind (rguard (\<not> (mhas r ''service_name'' \<and> \<not> (nonempty_str (mget r ''service_name'') \<and>
                          length (the_str (mget r ''service_name'')) \<le> 256)))
              (Exn ValueError ''Invalid probe payload: service_name is invalid'')) (\<lambda>_.
     rguard (\<not> (mhas r ''target_port'' \<and>
                \<not> (case mget r ''target_port'' of VInt i \<Rightarrow> 1 \<le> i \<and> i \<le> 65535 | _ \<Rightarrow> False)))
       (Exn ValueError ''Invalid probe payload: target_port is invalid'')))))"

fun query_scalar :: "value \<Rightarrow> bool" where
  "query_scalar (VList _) = False" | "query_scalar (VDict _) = False" | "query_scalar _ = True"

definition query_param_ok :: "value \<times> value \<Rightarrow> bool" where
  "query_param_ok p \<longleftrightarrow> is_str (fst p) \<and>
     list_all query_scalar (case snd p of VList xs \<Rightarrow> xs | v \<Rightarrow> [v])"

fun http_status_ok :: "value \<Rightarrow> bool" where
  "http_status_ok (VInt i) = (100 \<le> i \<and> i \<le> 599)" | "http_status_ok _ = False"

definition check_http :: "mapping \<Rightarrow> value list \<Rightarrow> mapping res" where
  "check_http r expected =
     (if \<not> list_all http_status_ok expected
      then probe_invalid ''expected_status_list must contain HTTP status integers''
      else if \<not> (mhas r ''method'' \<and> mhas r ''query_params'' \<and> mhas r ''body'')
      then probe_invalid ''HTTP method, query_params and body are required''
      else if \<not> is_str (mget r ''method'') \<or> upper (the_str (mget r ''method'')) \<notin> set HTTP_METHODS
      then probe_invalid ''HTTP method is unsupported''
      else
        (let r' = mput r ''method'' (VStr (upper (the_str (mget r ''method'')))); params = mget r' ''query_params''
         in if \<not> is_mapping params \<or> length (the_dict params) > 200
            then probe_invalid ''query_params must be a bounded object''
            else if \<not> list_all query_param_ok (the_dict params)
            then probe_invalid ''query_params contain unsupported values''
            else Inr r'))"

definition grpc_code :: "value \<Rightarrow> value res" where
  "grpc_code v =
     (case v of
        VInt i \<Rightarrow> if 0 \<le> i \<and> i < int (length GRPC_CODES) then Inr (VStr (GRPC_CODES ! nat i))
                  else probe_invalid ''expected_grpc_status_list must contain gRPC code names or integers''
      | VStr s \<Rightarrow> if upper s \<in> set GRPC_CODES then Inr (VStr (upper s))
                  else probe_invalid ''expected_grpc_status_list must contain gRPC code names or integers''
      | _ \<Rightarrow> probe_invalid ''expected_grpc_status_list must contain gRPC code names or integers'')"

text \<open>The descriptor library: None when the bytes are no descriptor set, else the unary methods
  it defines.\<close>

type_synonym descriptor_pool = "string \<Rightarrow> (string \<Rightarrow> bool) option"

definition grpc_method_name :: "string \<Rightarrow> string" where
  "grpc_method_name route =
     (case rsplit_once (CHR ''/'') (tl route) of (a, b) \<Rightarrow> (case a of Some s \<Rightarrow> s @ ''.'' @ b | None \<Rightarrow> b))"

definition check_descriptors :: "descriptor_pool \<Rightarrow> mapping \<Rightarrow> value \<Rightarrow> unit res" where
  "check_descriptors pool r route =
     (if \<not> mhas r ''descriptor_set_base64'' then Inr ()
      else rbind (decode_base64 (mget r ''descriptor_set_base64'') ''descriptor_set_base64'' MAX_DESCRIPTOR_BYTES)
        (\<lambda>bytes. case pool bytes of
           None \<Rightarrow> probe_invalid ''descriptor_set_base64 must contain complete valid Protobuf descriptors''
         | Some unary \<Rightarrow>
             if route \<noteq> VNull \<and> \<not> unary (grpc_method_name (the_str route))
             then probe_invalid ''descriptor_set_base64 must define the required unary gRPC method''
             else Inr ()))"

definition check_grpc_body :: "mapping \<Rightarrow> unit res" where
  "check_grpc_body r =
     (if mhas r ''body_base64'' then
        (if mget r ''body'' \<noteq> VNull then probe_invalid ''body and body_base64 are mutually exclusive''
         else rbind (decode_base64 (mget r ''body_base64'') ''body_base64'' MAX_PAYLOAD_BYTES) (\<lambda>_. Inr ()))
      else if \<not> mhas r ''body'' then probe_invalid ''gRPC body or body_base64 is required''
      else if \<not> truthy (mget_default r ''reflection'' (VBool True)) \<and> \<not> mhas r ''descriptor_set_base64''
      then probe_invalid ''gRPC JSON body requires descriptors or reflection''
      else Inr ())"

definition check_grpc :: "descriptor_pool \<Rightarrow> mapping \<Rightarrow> value \<Rightarrow> value list \<Rightarrow> value list res" where
  "check_grpc pool r route expected =
     (if list_ex (\<lambda>(k, _). ends_with (the_str k) ''-bin'') (the_dict (mget r ''headers''))
      then probe_invalid ''binary gRPC request metadata is unsupported''
      else rbind (rmap grpc_code expected) (\<lambda>codes.
        if \<not> py_eq (mget_default r ''method'' (VStr ''POST'')) (VStr ''POST'')
           \<or> \<not> py_eq (mget_default r ''query_params'' (VDict [])) (VDict [])
        then probe_invalid ''gRPC does not support HTTP method overrides or query parameters''
        else if mhas r ''reflection'' \<and> \<not> is_bool (mget r ''reflection'')
        then probe_invalid ''reflection must be a boolean''
        else rbind (check_descriptors pool r route) (\<lambda>_.
             rbind (check_grpc_body r) (\<lambda>_. Inr codes))))"

definition check_expected_headers :: "mapping \<Rightarrow> mapping res" where
  "check_expected_headers a =
     (if mhas a ''expected_headers''
      then rbind (validate_headers (mget a ''expected_headers'') False)
             (\<lambda>h. Inr (mput a ''expected_headers'' (VDict h)))
      else Inr a)"

definition check_body_contains :: "mapping \<Rightarrow> mapping res" where
  "check_body_contains a =
     (if \<not> mhas a ''body_contains'' then Inr a
      else if is_str (mget a ''body_contains'')
      then Inr (mput a ''body_contains'' (VList [mget a ''body_contains'']))
      else if is_list (mget a ''body_contains'') \<and> list_all is_str (the_list (mget a ''body_contains''))
      then Inr a
      else probe_invalid ''body_contains must be a string or list of strings'')"

definition check_json_paths :: "mapping \<Rightarrow> unit res" where
  "check_json_paths a =
     (let paths = mget a ''json_path_equals'' in
      if \<not> mhas a ''json_path_equals'' then Inr ()
      else if \<not> is_mapping paths \<or> length (the_dict paths) > 100
      then probe_invalid ''json_path_equals must be a bounded object''
      else rfor (keys (the_dict paths)) (\<lambda>k. rbind (json_path_tokens k) (\<lambda>_. Inr ())))"

definition check_assertions :: "mapping \<Rightarrow> mapping res" where
  "check_assertions a =
     rbind (check_expected_headers a) (\<lambda>a1.
     rbind (rguard (\<not> (mhas a1 ''body_equals'' \<and> \<not> is_str (mget a1 ''body_equals'')))
              (Exn ValueError ''Invalid probe payload: body_equals must be a string'')) (\<lambda>_.
     rbind (check_body_contains a1) (\<lambda>a2.
     rbind (check_json_paths a2) (\<lambda>_. Inr a2))))"

definition expected_key :: "bool \<Rightarrow> string" where
  "expected_key grpc = (if grpc then ''expected_grpc_status_list'' else ''expected_status_list'')"

definition check_protocol_fields ::
  "descriptor_pool \<Rightarrow> bool \<Rightarrow> mapping \<Rightarrow> value \<Rightarrow> mapping \<Rightarrow> value list \<Rightarrow> (mapping \<times> mapping) res" where
  "check_protocol_fields pool grpc r route assertions expected =
     (if grpc
      then rbind (check_grpc pool r route expected)
             (\<lambda>codes. Inr (r, mput assertions (expected_key grpc) (VList codes)))
      else rbind (check_http r expected) (\<lambda>r'. Inr (r', assertions)))"

definition check_request_body :: "descriptor_pool \<Rightarrow> bool \<Rightarrow> mapping \<Rightarrow> value \<Rightarrow> mapping res" where
  "check_request_body pool grpc r route =
     (let assertions = mget r ''assertions'' in
      if \<not> is_mapping assertions \<or> \<not> mkeys_in (the_dict assertions) (expected_key grpc # ASSERTION_FIELDS)
      then probe_invalid ''assertions contain unsupported fields''
      else
        (let expected = mget (the_dict assertions) (expected_key grpc) in
         if \<not> is_list expected \<or> the_list expected = [] \<or> length (the_list expected) > 500
         then probe_invalid (expected_key grpc @ '' must be a nonempty list'')
         else
           rbind (check_protocol_fields pool grpc r route (the_dict assertions) (the_list expected)) (\<lambda>(r', a).
           rbind (check_assertions a) (\<lambda>a'. Inr (mput r' ''assertions'' (VDict a'))))))"

definition validate_probe_payload :: "descriptor_pool \<Rightarrow> value \<Rightarrow> string option \<Rightarrow> mapping res" where
  "validate_probe_payload pool payload require_route =
     rbind (bounded_json payload) (\<lambda>r0.
     let protocol = mget_default r0 ''protocol'' (VStr ''http'') in
     if protocol \<noteq> VStr ''http'' \<and> protocol \<noteq> VStr ''grpc'' then probe_invalid ''protocol must be http or grpc''
     else
       let grpc = (protocol = VStr ''grpc'');
           r1 = mput r0 ''protocol'' protocol;
           route = (case require_route of Some s \<Rightarrow> VStr s | None \<Rightarrow> mget r1 ''path'')
       in if \<not> mkeys_in r1 (if grpc then GRPC_FIELDS else HTTP_FIELDS)
          then probe_invalid ''request contains unsupported fields or an explicit destination''
          else
            rbind (check_destination r1 route grpc) (\<lambda>_.
            rbind (validate_headers (mget_default r1 ''headers'' (VDict [])) True) (\<lambda>headers.
            check_request_body pool grpc (mput r1 ''headers'' (VDict headers)) route)))"

section \<open>Assertions on a response\<close>

fun is_number :: "value \<Rightarrow> bool" where
  "is_number (VInt _) = True" | "is_number (VFloat _) = True" | "is_number _ = False"

definition json_scalar_equal :: "value \<Rightarrow> value \<Rightarrow> bool" where
  "json_scalar_equal actual expected \<longleftrightarrow>
     (if is_number actual \<and> is_number expected then py_eq actual expected
      else \<not> is_number actual \<and> \<not> is_number expected \<and> actual = expected)"

definition same_keys :: "mapping \<Rightarrow> mapping \<Rightarrow> bool" where
  "same_keys d e \<longleftrightarrow> set (keys d) = set (keys e)"

function json_equal :: "value \<Rightarrow> value \<Rightarrow> bool"
  and json_equal_list :: "value list \<Rightarrow> value list \<Rightarrow> bool"
  and json_equal_items :: "mapping \<Rightarrow> mapping \<Rightarrow> bool" where
  "json_equal actual (VDict e) = (case actual of VDict d \<Rightarrow> same_keys d e \<and> json_equal_items d e | _ \<Rightarrow> False)"
| "json_equal actual (VList ys) =
     (case actual of VList xs \<Rightarrow> length xs = length ys \<and> json_equal_list xs ys | _ \<Rightarrow> False)"
| "json_equal actual VNull = json_scalar_equal actual VNull"
| "json_equal actual (VBool b) = json_scalar_equal actual (VBool b)"
| "json_equal actual (VInt i) = json_scalar_equal actual (VInt i)"
| "json_equal actual (VFloat f) = json_scalar_equal actual (VFloat f)"
| "json_equal actual (VStr s) = json_scalar_equal actual (VStr s)"
| "json_equal_list xs [] = True"
| "json_equal_list xs (y # ys) =
     (case xs of [] \<Rightarrow> True | x # xs' \<Rightarrow> json_equal x y \<and> json_equal_list xs' ys)"
| "json_equal_items d [] = True"
| "json_equal_items d ((k, v) # e) =
     ((case map_of d k of None \<Rightarrow> False | Some a \<Rightarrow> json_equal a v) \<and> json_equal_items d e)"
  by pat_completeness auto
termination
  by (relation "measure (case_sum (\<lambda>(_, e). size e)
        (case_sum (\<lambda>(_, ys). size_list size ys) (\<lambda>(_, e). size_list (size_prod size size) e)))") auto

function json_contains :: "value \<Rightarrow> value \<Rightarrow> bool"
  and json_contains_list :: "value list \<Rightarrow> value list \<Rightarrow> bool"
  and json_contains_items :: "mapping \<Rightarrow> mapping \<Rightarrow> bool" where
  "json_contains actual (VDict e) = (case actual of VDict d \<Rightarrow> json_contains_items d e | _ \<Rightarrow> False)"
| "json_contains actual (VList ys) =
     (case actual of VList xs \<Rightarrow> length ys \<le> length xs \<and> json_contains_list xs ys | _ \<Rightarrow> False)"
| "json_contains actual VNull = json_scalar_equal actual VNull"
| "json_contains actual (VBool b) = json_scalar_equal actual (VBool b)"
| "json_contains actual (VInt i) = json_scalar_equal actual (VInt i)"
| "json_contains actual (VFloat f) = json_scalar_equal actual (VFloat f)"
| "json_contains actual (VStr s) = json_scalar_equal actual (VStr s)"
| "json_contains_list xs [] = True"
| "json_contains_list xs (y # ys) =
     (case xs of [] \<Rightarrow> True | x # xs' \<Rightarrow> json_contains x y \<and> json_contains_list xs' ys)"
| "json_contains_items d [] = True"
| "json_contains_items d ((k, v) # e) =
     ((case map_of d k of None \<Rightarrow> False | Some a \<Rightarrow> json_contains a v) \<and> json_contains_items d e)"
  by pat_completeness auto
termination
  by (relation "measure (case_sum (\<lambda>(_, e). size e)
        (case_sum (\<lambda>(_, ys). size_list size ys) (\<lambda>(_, e). size_list (size_prod size size) e)))") auto

text \<open>Following a path: None where the source raises \<open>KeyError\<close>, \<open>IndexError\<close> or \<open>TypeError\<close>.\<close>

fun follow_path :: "value \<Rightarrow> path_token list \<Rightarrow> value option" where
  "follow_path v [] = Some v"
| "follow_path v (Index n # ts) =
     (case v of VList xs \<Rightarrow> if n < length xs then follow_path (xs ! n) ts else None | _ \<Rightarrow> None)"
| "follow_path v (Field k # ts) =
     (case v of VDict d \<Rightarrow> (case map_of d (VStr k) of Some x \<Rightarrow> follow_path x ts | None \<Rightarrow> None) | _ \<Rightarrow> None)"

definition path_assertion :: "value option \<Rightarrow> value \<times> value \<Rightarrow> bool" where
  "path_assertion decoded p \<longleftrightarrow>
     (case (decoded, json_path_tokens (fst p)) of
        (Some j, Inr ts) \<Rightarrow> (case follow_path j ts of Some a \<Rightarrow> json_equal a (snd p) | None \<Rightarrow> False)
      | _ \<Rightarrow> False)"

text \<open>\<open>_assert_response\<close>; \<open>decoded\<close> is the JSON of the body when it is available.\<close>

definition assert_response :: "mapping \<Rightarrow> string \<Rightarrow> value option \<Rightarrow> mapping \<Rightarrow> string list" where
  "assert_response a body decoded headers =
     (if mhas a ''expected_headers'' \<and>
         list_ex (\<lambda>(k, v). \<not> py_eq (mget headers (the_str k)) v) (the_dict (mget a ''expected_headers''))
      then [''Response header assertion failed''] else []) @
     (if mhas a ''body_equals'' \<and> VStr body \<noteq> mget a ''body_equals''
      then [''Response body equality assertion failed''] else []) @
     (if mhas a ''body_contains'' \<and> list_ex (\<lambda>x. \<not> contains body (the_str x)) (the_list (mget a ''body_contains''))
      then [''Response body content assertion failed''] else []) @
     (if mhas a ''json_equals'' \<and>
         \<not> (case decoded of Some j \<Rightarrow> json_equal j (mget a ''json_equals'') | None \<Rightarrow> False)
      then [''Response JSON equality assertion failed''] else []) @
     (if mhas a ''json_contains'' \<and>
         \<not> (case decoded of Some j \<Rightarrow> json_contains j (mget a ''json_contains'') | None \<Rightarrow> False)
      then [''Response JSON subset assertion failed''] else []) @
     map (\<lambda>_. ''Response JSON path assertion failed'')
       (filter (\<lambda>p. \<not> path_assertion decoded p) (the_dict (mget_default a ''json_path_equals'' (VDict []))))"

section \<open>The client\<close>

text \<open>
  One HTTP exchange as the transport reports it: the status, the headers, the text of the body,
  its JSON when it is finite JSON, whether the body was cut, and the redacted response object
  that is kept with the result.
\<close>

record exchange =
  xc_status :: int
  xc_headers :: mapping
  xc_text :: string
  xc_json :: "value option"
  xc_oversized :: bool
  xc_response :: mapping

definition http_result :: "mapping \<Rightarrow> exchange \<Rightarrow> mapping" where
  "http_result payload x =
     (let a = the_dict (mget payload ''assertions'');
          errors = assert_response a (xc_text x) (if xc_oversized x then None else xc_json x) (xc_headers x);
          statuses = the_list (mget a ''expected_status_list'');
          all_errors = (if list_ex (py_eq (VInt (xc_status x))) statuses then errors
                        else ''HTTP response status assertion failed'' # errors)
      in [(VStr ''passed'', VBool (all_errors = [] \<and> \<not> xc_oversized x)),
          (VStr ''response'', VDict (xc_response x)),
          (VStr ''assertion_errors'', VList (map VStr all_errors))] @
         (if xc_oversized x
          then [(VStr ''error_type'', VStr ''response_too_large''),
                (VStr ''error'', VStr ''HTTP response exceeded the configured size limit'')]
          else if all_errors \<noteq> []
          then [(VStr ''error_type'', VStr ''assertion_failed''),
                (VStr ''error'', VStr ''HTTP response did not satisfy probe assertions'')]
          else []))"

definition probe_failure :: "string \<Rightarrow> string \<Rightarrow> mapping" where
  "probe_failure kind message = [(VStr ''passed'', VBool False), (VStr ''error_type'', VStr kind),
     (VStr ''error'', VStr message)]"

definition int_value :: "int option \<Rightarrow> value" where
  "int_value i = (case i of Some n \<Rightarrow> VInt n | None \<Rightarrow> VNull)"

text \<open>
  The outcome of \<open>execute\<close> on one endpoint: a result, a \<open>_ProbeFailure\<close> with its kind and
  message, or any other exception.
\<close>

datatype probe_attempt = Completed mapping | ProbeFailure string string | TransportCrash

type_synonym probe_transport = "mapping \<Rightarrow> string \<Rightarrow> probe_endpoint \<Rightarrow> (world, probe_attempt) action"

definition attempt_result :: "mapping \<Rightarrow> string \<Rightarrow> probe_endpoint \<Rightarrow> probe_attempt \<Rightarrow> mapping" where
  "attempt_result payload route e outcome =
     dmerge [(VStr ''protocol'', mget payload ''protocol''), (VStr ''service_name'', VStr (pe_service_name e)),
             (VStr ''target_port'', int_value (pe_target_port e)), (VStr ''path'', VStr route)]
       (case outcome of
          Completed r \<Rightarrow> r
        | ProbeFailure kind message \<Rightarrow> probe_failure kind message
        | TransportCrash \<Rightarrow> probe_failure ''transport_error'' ''Probe transport could not complete the request'')"

definition probe_candidate :: "mapping \<Rightarrow> probe_endpoint \<Rightarrow> bool" where
  "probe_candidate payload e \<longleftrightarrow>
     (mhas payload ''service_name'' \<longrightarrow> mget payload ''service_name'' = VStr (pe_service_name e)) \<and>
     (mhas payload ''target_port'' \<longrightarrow> py_eq (int_value (pe_target_port e)) (mget payload ''target_port'')) \<and>
     (mget payload ''protocol'' = VStr ''grpc'' \<or> pe_scheme e \<in> {''http'', ''https''})"

definition passed :: "mapping \<Rightarrow> bool" where
  "passed r \<longleftrightarrow> mget r ''passed'' = VBool True"

fun try_endpoints ::
  "probe_transport \<Rightarrow> mapping \<Rightarrow> string \<Rightarrow> probe_endpoint list \<Rightarrow> (world, mapping list) action" where
  "try_endpoints execute payload route [] = ret []"
| "try_endpoints execute payload route (e # es) =
     bd (catching (execute payload route e) (\<lambda>_. ret TransportCrash)) (\<lambda>outcome.
     let result = attempt_result payload route e outcome in
     if truthy (mget result ''passed'') then ret [result]
     else bd (try_endpoints execute payload route es) (\<lambda>rest. ret (result # rest)))"

text \<open>\<open>ProbeClient.run\<close>.\<close>

definition run_probe ::
  "descriptor_pool \<Rightarrow> probe_transport \<Rightarrow> value \<Rightarrow> string \<Rightarrow> probe_endpoint list \<Rightarrow> (world, mapping) action" where
  "run_probe pool execute payload route endpoints =
     (case rbind (validate_route (VStr route) False) (\<lambda>_. validate_probe_payload pool payload (Some route)) of
        Inl _ \<Rightarrow> ret (probe_failure ''invalid_payload'' ''Probe request validation failed'' @
                       [(VStr ''attempts'', VList [])])
      | Inr normalized \<Rightarrow>
          (let candidates = filter (probe_candidate normalized) endpoints
           in if candidates = []
              then ret ([(VStr ''passed'', VBool False), (VStr ''protocol'', mget normalized ''protocol''),
                         (VStr ''error_type'', VStr ''no_endpoint''),
                         (VStr ''error'', VStr ''No matching deployment-owned probe endpoint is available''),
                         (VStr ''attempts'', VList [])])
              else bd (try_endpoints execute normalized route candidates) (\<lambda>attempts.
                     ret (mput (last attempts) ''attempts'' (VList (map VDict attempts))))))"

section \<open>Lemmas\<close>

lemma probe_invalid_Inr [simp]: "probe_invalid m \<noteq> Inr x"
  by (simp add: probe_invalid_def)

lemma mhas_mput [simp]: "mhas (mput d k v) k' \<longleftrightarrow> k' = k \<or> mhas d k'"
  by (simp add: mhas_def mput_def)

lemma mget_default_mput [simp]: "mget_default (mput d k v) k' w = (if k' = k then v else mget_default d k' w)"
  by (simp add: mget_default_def mput_def)

lemma mkeys_in_iff: "mkeys_in d ks \<longleftrightarrow> (\<forall>k\<in>fst ` set d. is_str k \<and> the_str k \<in> set ks)"
  by (force simp: mkeys_in_def list_all_iff)

lemma mkeys_in_mput: "mkeys_in d ks \<Longrightarrow> k \<in> set ks \<Longrightarrow> mkeys_in (mput d k v) ks"
  by (simp add: mkeys_in_iff mput_def)

lemma route_rounds_safe: "route_rounds n s = Inr () \<Longrightarrow> k < n \<Longrightarrow> \<not> unsafe_path ((unquote ^^ k) s)"
proof (induction n arbitrary: s k)
  case (Suc n)
  have safe: "\<not> unsafe_path s" using Suc.prems(1) by (auto split: if_splits)
  show ?case
  proof (cases k)
    case 0
    then show ?thesis using safe by simp
  next
    case (Suc j)
    show ?thesis
    proof (cases "unquote s = s")
      case True
      then have "(unquote ^^ k) s = s" by (induction k) simp_all
      then show ?thesis using safe by simp
    next
      case False
      then have "route_rounds n (unquote s) = Inr ()" using Suc.prems(1) safe by simp
      then have "\<not> unsafe_path ((unquote ^^ j) (unquote s))"
        using Suc.IH Suc.prems(2) Suc by simp
      then show ?thesis by (simp add: Suc funpow_swap1)
    qed
  qed
qed simp

lemma validate_route_Inr:
  "validate_route v g = Inr () \<Longrightarrow>
   \<exists>s. v = VStr s \<and> starts_with s ''/'' \<and> length s \<le> 4096 \<and> (\<forall>k<3. \<not> unsafe_path ((unquote ^^ k) s))"
  by (auto simp: validate_route_def rbind_Inr_iff is_str_iff route_rounds_safe split: if_splits)

definition header_safe :: "value \<Rightarrow> bool" where
  "header_safe k \<longleftrightarrow> is_str k \<and> the_str k \<notin> set FORBIDDEN_HEADERS \<and> \<not> starts_with (the_str k) ''grpc-''"

lemma collect_headers_Cons:
  "collect_headers True ((n, c) # d) acc = Inr h \<Longrightarrow>
   header_safe (VStr (lower (the_str n))) \<and> collect_headers True d (dset acc (VStr (lower (the_str n))) c) = Inr h"
  by (simp add: Let_def header_safe_def split: if_splits)

lemma collect_headers_safe:
  "collect_headers True d acc = Inr h \<Longrightarrow> (\<forall>k\<in>fst ` set acc. header_safe k) \<Longrightarrow>
   (\<forall>k\<in>fst ` set h. header_safe k)"
proof (induction d arbitrary: acc)
  case (Cons p d)
  obtain n c where p: "p = (n, c)" by (cases p)
  note step = collect_headers_Cons [OF Cons.prems(1) [unfolded p]]
  show ?case
  proof (rule Cons.IH)
    show "collect_headers True d (dset acc (VStr (lower (the_str n))) c) = Inr h"
      using step by blast
    show "\<forall>k\<in>fst ` set (dset acc (VStr (lower (the_str n))) c). header_safe k"
      unfolding keys_dset_set using step Cons.prems(2) by blast
  qed
qed simp

lemma try_endpoints_app:
  "try_endpoints execute payload route (e # es) w =
     (let outcome = (case fst (execute payload route e w) of Inl _ \<Rightarrow> TransportCrash | Inr x \<Rightarrow> x);
          w1 = snd (execute payload route e w); result = attempt_result payload route e outcome
      in if truthy (mget result ''passed'') then (Inr [result], w1)
         else (case try_endpoints execute payload route es w1 of
                 (Inl x, w2) \<Rightarrow> (Inl x, w2) | (Inr rest, w2) \<Rightarrow> (Inr (result # rest), w2)))"
  by (auto simp: bd_app catching_app Let_def split: prod.splits sum.splits)

lemma try_endpoints_total:
  "\<exists>rs w'. try_endpoints execute payload route es w = (Inr rs, w') \<and> length rs \<le> length es \<and>
     (es \<noteq> [] \<longrightarrow> rs \<noteq> []) \<and> (\<forall>r\<in>set (butlast rs). \<not> truthy (mget r ''passed'')) \<and>
     (length rs < length es \<longrightarrow> truthy (mget (last rs) ''passed''))"
proof (induction es arbitrary: w)
  case (Cons e es)
  let ?o = "case fst (execute payload route e w) of Inl _ \<Rightarrow> TransportCrash | Inr x \<Rightarrow> x"
  let ?r = "attempt_result payload route e ?o"
  let ?w1 = "snd (execute payload route e w)"
  show ?case
  proof (cases "truthy (mget ?r ''passed'')")
    case True
    then have "try_endpoints execute payload route (e # es) w = (Inr [?r], ?w1)"
      by (simp only: try_endpoints_app Let_def if_True)
    then show ?thesis using True by simp
  next
    case False
    obtain rs w' where rs: "try_endpoints execute payload route es ?w1 = (Inr rs, w')"
      "length rs \<le> length es" "es \<noteq> [] \<longrightarrow> rs \<noteq> []" "\<forall>r\<in>set (butlast rs). \<not> truthy (mget r ''passed'')"
      "length rs < length es \<longrightarrow> truthy (mget (last rs) ''passed'')"
      using Cons.IH by blast
    have "try_endpoints execute payload route (e # es) w = (Inr (?r # rs), w')"
      using False rs(1) by (simp only: try_endpoints_app Let_def if_False prod.case sum.case)
    then show ?thesis using False rs(2-5) by auto
  qed
qed simp

lemma py_eq_VStr: "py_eq v (VStr s) \<longleftrightarrow> v = VStr s"
proof (cases v)
  case (VFloat f)
  then show ?thesis by (cases f) (auto split: option.splits)
qed (auto split: option.splits)

lemma check_http_Inr:
  "check_http r expected = Inr r' \<Longrightarrow>
   (\<exists>m. m \<in> set HTTP_METHODS \<and> r' = mput r ''method'' (VStr m)) \<and> (\<forall>c\<in>set expected. http_status_ok c)"
  by (auto simp: check_http_def Let_def list_all_iff split: if_splits)

lemma check_assertions_keeps:
  assumes "check_assertions a = Inr a'" and "k \<noteq> ''expected_headers''" "k \<noteq> ''body_contains''"
  shows "mget a' k = mget a k"
proof -
  obtain a1 where a1: "check_expected_headers a = Inr a1" "check_body_contains a1 = Inr a'"
    using assms(1) by (auto simp: check_assertions_def rbind_Inr_iff)
  have "mget a1 k = mget a k"
    using a1(1) assms(2) by (auto simp: check_expected_headers_def rbind_Inr_iff split: if_splits)
  moreover have "mget a' k = mget a1 k"
    using a1(2) assms(3) by (auto simp: check_body_contains_def split: if_splits)
  ultimately show ?thesis by simp
qed

lemma validate_probe_payload_InrE:
  assumes "validate_probe_payload pool payload (Some route) = Inr r"
  obtains grpc req headers where
    "mkeys_in req (if grpc then GRPC_FIELDS else HTTP_FIELDS)"
    "mget req ''protocol'' = VStr (if grpc then ''grpc'' else ''http'')"
    "check_destination req (VStr route) grpc = Inr ()"
    "validate_headers (mget_default req ''headers'' (VDict [])) True = Inr headers"
    "check_request_body pool grpc (mput req ''headers'' (VDict headers)) (VStr route) = Inr r"
proof -
  obtain r0 where r0: "bounded_json payload = Inr r0"
    using assms by (auto simp: validate_probe_payload_def rbind_Inr_iff)
  define p where "p = mget_default r0 ''protocol'' (VStr ''http'')"
  have p: "p = VStr ''http'' \<or> p = VStr ''grpc''"
    using assms r0 by (auto simp: validate_probe_payload_def p_def Let_def split: if_splits)
  define req where "req = mput r0 ''protocol'' p"
  define grpc where "grpc \<longleftrightarrow> p = VStr ''grpc''"
  have keys: "mkeys_in req (if grpc then GRPC_FIELDS else HTTP_FIELDS)"
    and run: "rbind (check_destination req (VStr route) grpc) (\<lambda>_.
       rbind (validate_headers (mget_default req ''headers'' (VDict [])) True) (\<lambda>headers.
       check_request_body pool grpc (mput req ''headers'' (VDict headers)) (VStr route))) = Inr r"
    using assms r0 p
    by (auto simp: validate_probe_payload_def Let_def p_def [symmetric] req_def grpc_def split: if_splits)
  obtain headers where
    "check_destination req (VStr route) grpc = Inr ()"
    "validate_headers (mget_default req ''headers'' (VDict [])) True = Inr headers"
    "check_request_body pool grpc (mput req ''headers'' (VDict headers)) (VStr route) = Inr r"
    using run by (auto simp: rbind_Inr_iff)
  moreover have "mget req ''protocol'' = VStr (if grpc then ''grpc'' else ''http'')"
    using p by (auto simp: req_def grpc_def)
  ultimately show ?thesis using keys that by blast
qed

lemma check_grpc_Inr: "check_grpc pool r route expected = Inr codes \<Longrightarrow> rmap grpc_code expected = Inr codes"
  unfolding check_grpc_def by (auto simp: rbind_Inr_iff split: if_split_asm)

lemma check_protocol_fields_expected:
  assumes "check_protocol_fields pool grpc r route as expected = Inr (r', a)"
    and "mget as (expected_key grpc) = VList expected" and "expected \<noteq> []"
  shows "the_list (mget a (expected_key grpc)) \<noteq> []"
proof (cases grpc)
  case True
  then obtain codes where "a = mput as (expected_key grpc) (VList codes)" "rmap grpc_code expected = Inr codes"
    using assms(1) check_grpc_Inr by (fastforce simp: check_protocol_fields_def rbind_Inr_iff)
  then show ?thesis
    using assms(3) list_all2_lengthD [of _ expected codes] by (auto simp: rmap_Inr_iff)
next
  case False
  then show ?thesis
    using assms by (auto simp: check_protocol_fields_def rbind_Inr_iff)
qed

lemma check_request_body_InrE:
  assumes "check_request_body pool grpc req route = Inr r"
  obtains req' a expected where
    "mkeys_in (the_dict (mget req ''assertions'')) (expected_key grpc # ASSERTION_FIELDS)"
    "mget (the_dict (mget req ''assertions'')) (expected_key grpc) = VList expected" "expected \<noteq> []"
    "check_protocol_fields pool grpc req route (the_dict (mget req ''assertions'')) expected = Inr (req', a)"
    "check_assertions a = Inr (the_dict (mget r ''assertions''))"
    "r = mput req' ''assertions'' (mget r ''assertions'')"
proof -
  let ?as = "the_dict (mget req ''assertions'')"
  have ok: "mkeys_in ?as (expected_key grpc # ASSERTION_FIELDS)"
    "is_list (mget ?as (expected_key grpc))" "the_list (mget ?as (expected_key grpc)) \<noteq> []"
    using assms by (auto simp: check_request_body_def Let_def split: if_splits)
  obtain req' a a' where c: "check_protocol_fields pool grpc req route ?as (the_list (mget ?as (expected_key grpc))) = Inr (req', a)"
    "check_assertions a = Inr a'" "r = mput req' ''assertions'' (VDict a')"
    using assms by (auto simp: check_request_body_def Let_def rbind_Inr_iff split: if_splits prod.splits)
  show ?thesis
    by (rule that [OF ok(1) _ _ c(1)]) (use ok c in \<open>simp_all add: is_list_iff\<close>)
qed

section \<open>Properties\<close>

text \<open>
  C11: a request that validation accepts for a route is confined. It has only the fields of its
  protocol, so it cannot name a host or URL; a path it carries is the required route; the route
  is absolute and stays free of traversal, query, fragment and control characters through three
  rounds of percent-decoding; none of its headers overrides the destination or the framing; and
  its success criteria list at least one expected status.
\<close>

theorem probe_payload_confined:
  assumes "validate_probe_payload pool payload (Some route) = Inr r"
  shows "\<exists>grpc. mget r ''protocol'' = VStr (if grpc then ''grpc'' else ''http'') \<and>
    mkeys_in r (if grpc then GRPC_FIELDS else HTTP_FIELDS) \<and>
    (mhas r ''path'' \<longrightarrow> mget r ''path'' = VStr route) \<and>
    starts_with route ''/'' \<and> (\<forall>k<3. \<not> unsafe_path ((unquote ^^ k) route)) \<and>
    (\<forall>k\<in>fst ` set (the_dict (mget r ''headers'')). header_safe k) \<and>
    the_list (mget (the_dict (mget r ''assertions'')) (expected_key grpc)) \<noteq> []"
proof -
  obtain grpc req headers where v:
    "mkeys_in req (if grpc then GRPC_FIELDS else HTTP_FIELDS)"
    "mget req ''protocol'' = VStr (if grpc then ''grpc'' else ''http'')"
    "check_destination req (VStr route) grpc = Inr ()"
    "validate_headers (mget_default req ''headers'' (VDict [])) True = Inr headers"
    "check_request_body pool grpc (mput req ''headers'' (VDict headers)) (VStr route) = Inr r"
    using validate_probe_payload_InrE [OF assms] by metis
  let ?req = "mput req ''headers'' (VDict headers)"
  obtain req' a expected where b:
    "mget (the_dict (mget ?req ''assertions'')) (expected_key grpc) = VList expected" "expected \<noteq> []"
    "check_protocol_fields pool grpc ?req (VStr route) (the_dict (mget ?req ''assertions'')) expected = Inr (req', a)"
    "check_assertions a = Inr (the_dict (mget r ''assertions''))"
    "r = mput req' ''assertions'' (mget r ''assertions'')"
    using check_request_body_InrE [OF v(5)] by metis
  define A where "A = mget r ''assertions''"
  have r: "r = mput req' ''assertions'' A" using b(5) by (simp add: A_def)
  have keys: "''headers'' \<in> set (if grpc then GRPC_FIELDS else HTTP_FIELDS)"
    "''assertions'' \<in> set (if grpc then GRPC_FIELDS else HTTP_FIELDS)" "''method'' \<in> set HTTP_FIELDS"
    by (simp_all add: GRPC_FIELDS_def HTTP_FIELDS_def COMMON_FIELDS_def)
  have req': "req' = ?req \<or> (\<not> grpc \<and> (\<exists>m. req' = mput ?req ''method'' (VStr m)))"
    using b(3) check_http_Inr [of ?req expected req']
    by (auto simp: check_protocol_fields_def rbind_Inr_iff split: if_splits)
  have path: "mhas r ''path'' \<longrightarrow> mget r ''path'' = VStr route"
    using v(3) req' r by (auto simp: check_destination_def rbind_Inr_iff py_eq_VStr)
  have route: "starts_with route ''/''" "\<forall>k<3. \<not> unsafe_path ((unquote ^^ k) route)"
    using v(3) validate_route_Inr [of "VStr route" grpc] by (auto simp: check_destination_def rbind_Inr_iff)
  have "mkeys_in req' (if grpc then GRPC_FIELDS else HTTP_FIELDS)"
    using req' v(1) keys by (auto intro!: mkeys_in_mput)
  then have fields: "mkeys_in r (if grpc then GRPC_FIELDS else HTTP_FIELDS)"
    using keys(2) r by (simp add: mkeys_in_mput)
  have "\<forall>k\<in>fst ` set headers. header_safe k"
    using v(4) collect_headers_safe by (fastforce simp: validate_headers_def split: if_splits)
  moreover have "mget r ''headers'' = VDict headers" "mget r ''protocol'' = mget req ''protocol''"
    using req' r by auto
  moreover have "the_list (mget (the_dict (mget r ''assertions'')) (expected_key grpc)) \<noteq> []"
  proof -
    have "mget (the_dict (mget r ''assertions'')) (expected_key grpc) = mget a (expected_key grpc)"
      by (rule check_assertions_keeps [OF b(4)]) (simp_all add: expected_key_def)
    then show ?thesis
      using check_protocol_fields_expected [OF b(3,1,2)] by simp
  qed
  ultimately show ?thesis using v(2) path route fields by (intro exI [of _ grpc] conjI) simp_all
qed

definition sample_payload :: "value" where
  "sample_payload = VDict [(VStr ''method'', VStr ''get''), (VStr ''query_params'', VDict []),
     (VStr ''body'', VNull),
     (VStr ''assertions'', VDict [(VStr ''expected_status_list'', VList [VInt 200])])]"

lemma sample_payload_valid: "is_ok (validate_probe_payload (\<lambda>_. None) sample_payload (Some ''/up''))"
  by code_simp

theorem probe_payload_confined_witness:
  "\<exists>r grpc. validate_probe_payload (\<lambda>_. None) sample_payload (Some ''/up'') = Inr r \<and>
    mget r ''protocol'' = VStr (if grpc then ''grpc'' else ''http'') \<and>
    the_list (mget (the_dict (mget r ''assertions'')) (expected_key grpc)) \<noteq> []"
proof -
  obtain r where r: "validate_probe_payload (\<lambda>_. None) sample_payload (Some ''/up'') = Inr r"
    using sample_payload_valid
    by (cases "validate_probe_payload (\<lambda>_. None) sample_payload (Some ''/up'')") simp_all
  from r probe_payload_confined [OF r] show ?thesis by blast
qed

text \<open>
  running a probe always gives a result, whatever the transport does. A request that is not
  valid for the route, or that no endpoint of the deployment matches, is reported without any
  exchange; otherwise the matching endpoints are tried in order until one passes, the attempts
  are all reported and the verdict is that of the last one, so the probe passes exactly when
  some attempt did, and only endpoints the deployment owns are contacted.
\<close>

lemma run_probe_outcome:
  "\<exists>r w'. run_probe pool execute payload route endpoints w = (Inr r, w') \<and>
     (case rbind (validate_route (VStr route) False) (\<lambda>_. validate_probe_payload pool payload (Some route)) of
        Inl _ \<Rightarrow> w' = w \<and> \<not> truthy (mget r ''passed'') \<and> mget r ''error_type'' = VStr ''invalid_payload''
      | Inr p \<Rightarrow>
          (let candidates = filter (probe_candidate p) endpoints
           in if candidates = []
              then w' = w \<and> \<not> truthy (mget r ''passed'') \<and> mget r ''error_type'' = VStr ''no_endpoint''
              else (\<exists>as. try_endpoints execute p route candidates w = (Inr as, w') \<and>
                      mget r ''attempts'' = VList (map VDict as) \<and> as \<noteq> [] \<and> length as \<le> length candidates \<and>
                      (truthy (mget r ''passed'') \<longleftrightarrow> (\<exists>a\<in>set as. truthy (mget a ''passed''))) \<and>
                      (length as < length candidates \<longrightarrow> truthy (mget r ''passed'')))))"
proof (cases "rbind (validate_route (VStr route) False) (\<lambda>_. validate_probe_payload pool payload (Some route))")
  case (Inl e)
  then show ?thesis by (simp add: run_probe_def probe_failure_def mget_def)
next
  case (Inr p)
  let ?c = "filter (probe_candidate p) endpoints"
  show ?thesis
  proof (cases "?c = []")
    case True
    then show ?thesis using Inr by (simp add: run_probe_def mget_def)
  next
    case False
    obtain as w' where as: "try_endpoints execute p route ?c w = (Inr as, w')" "length as \<le> length ?c"
      "as \<noteq> []" "\<forall>r\<in>set (butlast as). \<not> truthy (mget r ''passed'')"
      "length as < length ?c \<longrightarrow> truthy (mget (last as) ''passed'')"
      using try_endpoints_total [of execute p route ?c w] False by blast
    let ?r = "mput (last as) ''attempts'' (VList (map VDict as))"
    have run: "run_probe pool execute payload route endpoints w = (Inr ?r, w')"
      using Inr False as(1) by (simp add: run_probe_def Let_def)
    have "set as = insert (last as) (set (butlast as))"
      using as(3) by (metis append_butlast_last_id list.simps(15) rotate1.simps(2) set_rotate1)
    then have "truthy (mget ?r ''passed'') \<longleftrightarrow> (\<exists>a\<in>set as. truthy (mget a ''passed''))"
      using as(4) by auto
    moreover have "mget ?r ''attempts'' = VList (map VDict as)" by simp
    moreover have "length as < length ?c \<longrightarrow> truthy (mget ?r ''passed'')" using as(5) by simp
    ultimately show ?thesis
      using Inr False as(1-3) run by (simp only: sum.case Let_def if_False) blast
  qed
qed

end
