(* ===== verification/Leases.thy ===== *)
theory Leases
  imports Repository
begin

text \<open>
  The first part of \<open>orchestrator/build_resources.py\<close>: resource keys, the \<open>ResourceTracker\<close>
  through which every worker records what it creates, and the \<open>build_lease\<close> context manager.
  The lemmas show that a lease cannot be lost to other owners before it expires, whatever
  repository operations they interleave, and that the identities a manifest has recorded
  never change.
\<close>

section \<open>Keys, tracker and lease\<close>

text \<open>\<open>json.dumps([kind, target, name])\<close> uses the separator \<open>", "\<close>.\<close>

definition resource_key :: "resource_kind \<Rightarrow> string \<Rightarrow> string \<Rightarrow> string" where
  "resource_key kind target name = sha256_hex (json_strings '', '' [kind_value kind, target, name])"

record tracker =
  tr_build_id :: string
  tr_owner :: "string option"

text \<open>\<open>a or b\<close> on optional texts.\<close>

definition str_or :: "string option \<Rightarrow> string option \<Rightarrow> string option" where
  "str_or a b = (case a of Some s \<Rightarrow> if s = [] then b else a | None \<Rightarrow> b)"

definition identity_conflict :: "build_resource \<Rightarrow> string option \<Rightarrow> bool" where
  "identity_conflict e native_id \<longleftrightarrow>
     native_id \<noteq> None \<and> rs_native_id e \<noteq> None \<and> rs_native_id e \<noteq> native_id"

definition creation_conflict :: "resource_kind \<Rightarrow> build_resource \<Rightarrow> mapping \<Rightarrow> bool" where
  "creation_conflict kind e metadata \<longleftrightarrow>
     kind = KVolume \<and> truthy (mget (rs_metadata e) ''creation_token'') \<and> mhas metadata ''creation_token'' \<and>
     \<not> py_eq (mget metadata ''creation_token'') (mget (rs_metadata e) ''creation_token'')"

definition digest_conflict :: "resource_kind \<Rightarrow> build_resource \<Rightarrow> mapping \<Rightarrow> bool" where
  "digest_conflict kind e metadata \<longleftrightarrow>
     kind = KRegistryImage \<and> truthy (mget (rs_metadata e) ''digest'') \<and> truthy (mget metadata ''digest'') \<and>
     \<not> py_eq (mget metadata ''digest'') (mget (rs_metadata e) ''digest'')"

definition tracker_record ::
  "tracker \<Rightarrow> resource_kind \<Rightarrow> string \<Rightarrow> string \<Rightarrow> string option \<Rightarrow> resource_state \<Rightarrow> bool \<Rightarrow> mapping
     \<Rightarrow> string option \<Rightarrow> (world, build_resource) action" where
  "tracker_record t kind name target native_id state managed metadata err =
     bd (get_build_resources (tr_build_id t)) (\<lambda>manifest.
     case manifest of
       None \<Rightarrow> raise RepositoryError ''Build resources not found''
     | Some m \<Rightarrow>
         bd utc_now (\<lambda>now.
         let key = resource_key kind target name in
         case dget (br_resources m) key of
           Some e \<Rightarrow>
             if identity_conflict e native_id then raise ResourceConflict ''Resource identity changed''
             else if creation_conflict kind e metadata
             then raise ResourceConflict ''Volume creation identity changed''
             else if digest_conflict kind e metadata
             then raise ResourceConflict ''Build image digest changed''
             else
               (let r = e\<lparr>rs_native_id := str_or native_id (rs_native_id e), rs_state := state,
                          rs_managed := managed, rs_metadata := dmerge (rs_metadata e) metadata,
                          rs_error := err, rs_updated_at := now\<rparr>
                in andthen (put_build_resource (tr_build_id t) r (tr_owner t)) (ret r))
         | None \<Rightarrow>
             (let r = (new_build_resource key kind name target now)
                        \<lparr>rs_native_id := native_id, rs_state := state, rs_managed := managed,
                         rs_metadata := metadata, rs_error := err\<rparr>
              in andthen (put_build_resource (tr_build_id t) r (tr_owner t)) (ret r))))"

definition tracker_update ::
  "tracker \<Rightarrow> build_resource \<Rightarrow> resource_state \<Rightarrow> string option \<Rightarrow> (world, unit) action" where
  "tracker_update t r state err =
     bd utc_now (\<lambda>now.
     andthen (put_build_resource (tr_build_id t)
                (r\<lparr>rs_state := state, rs_error := err, rs_updated_at := now\<rparr>) (tr_owner t))
       (ret ()))"

definition tracker_guard :: "tracker \<Rightarrow> (world, unit) action" where
  "tracker_guard t =
     bd (get_build_resources (tr_build_id t)) (\<lambda>manifest.
     case manifest of
       None \<Rightarrow> raise ResourceConflict ''Build resource state is unavailable''
     | Some m \<Rightarrow>
         if tr_owner t = None then ret ()
         else bd utc_now (\<lambda>now.
           if br_lease_owner m \<noteq> tr_owner t \<or> lease_expired (br_lease_expires_at m) now
           then raise ResourceConflict ''Build resource lease lost''
           else ret ()))"

text \<open>
  \<open>with build_lease(repository, build_id, statuses, seconds=s) as tracker\<close>. The renewal thread
  is one of the interleaved steps below, not part of this sequential reading.
\<close>

definition build_lease ::
  "string \<Rightarrow> cleanup_status list \<Rightarrow> int \<Rightarrow> (tracker option \<Rightarrow> (world, 'a) action) \<Rightarrow> (world, 'a) action" where
  "build_lease build_id statuses seconds body =
     bd uuid4_hex (\<lambda>owner.
     bd utc_now (\<lambda>now.
     bd (claim_build_lease build_id owner (now + seconds) statuses) (\<lambda>manifest.
       case manifest of
         None \<Rightarrow> body None
       | Some _ \<Rightarrow> finally_do (body (Some \<lparr>tr_build_id = build_id, tr_owner = Some owner\<rparr>))
                     (release_build_lease build_id owner))))"

section \<open>Holding a lease\<close>

text \<open>The lease fields of a manifest, and the owner a guard accepts.\<close>

definition lease_of :: "world \<Rightarrow> string \<Rightarrow> (string option \<times> instant option) option" where
  "lease_of w b = map_option (\<lambda>d. (br_lease_owner d, br_lease_expires_at d)) (look_resources w b)"

definition holds_lease :: "world \<Rightarrow> string \<Rightarrow> string \<Rightarrow> bool" where
  "holds_lease w b owner \<longleftrightarrow>
     (case lease_of w b of Some (Some x, Some e) \<Rightarrow> x = owner \<and> w_clock w < e | _ \<Rightarrow> False)"

lemma holds_lease_iff:
  "holds_lease w b owner \<longleftrightarrow> (\<exists>e. lease_of w b = Some (Some owner, Some e) \<and> w_clock w < e)"
  by (auto simp: holds_lease_def split: option.splits)

lemma lease_of_cong:
  "w_build_resources w' = w_build_resources w \<Longrightarrow> lease_of w' b = lease_of w b"
  by (simp add: lease_of_def look_resources_def)

lemma lease_of_put:
  "lease_of (put_resources_doc k d w) b =
     (if b = k then Some (br_lease_owner d, br_lease_expires_at d) else lease_of w b)"
  by (simp add: lease_of_def resources.look_put_if)

lemma put_resources_clock [simp]: "w_clock (put_resources_doc k d w) = w_clock w"
  by (simp add: put_resources_doc_def)

lemma tracker_guard_Inr_iff:
  "tr_owner t = Some owner \<Longrightarrow> fst (tracker_guard t w) = Inr () \<longleftrightarrow> holds_lease w (tr_build_id t) owner"
  by (auto simp: tracker_guard_def get_build_resources_def bd_app holds_lease_def lease_of_def
      look_resources_def lease_expired_def split: option.splits)

lemma tracker_guard_state [simp]: "snd (tracker_guard t w) = w"
  by (auto simp: tracker_guard_def get_build_resources_def bd_app split: option.splits)

subsection \<open>What each operation does to the lease\<close>

lemma claim_result:
  "claim_build_lease k owner until ss w = (Inr (Some d'), w') \<Longrightarrow>
   lease_of w' k = Some (Some owner, Some until) \<and> w_clock w' = w_clock w \<and>
   br_cleanup_status d' \<in> set ss"
  by (auto simp: claim_build_lease_def lease_of_put Let_def split: option.splits if_splits)

lemma claim_keeps_live_lease:
  assumes "holds_lease w b owner"
  shows "claim_build_lease b other until ss w = (Inr None, w)"
  using assms
  by (auto simp: claim_build_lease_def holds_lease_iff lease_of_def look_resources_def lease_expired_def)

lemma claim_lease_of:
  assumes "holds_lease w b me"
  shows "lease_of (snd (claim_build_lease k other until ss w)) b = lease_of w b"
proof (cases "b = k")
  case True
  then show ?thesis using claim_keeps_live_lease [OF assms] by simp
next
  case False
  then show ?thesis by (simp add: lease_of_def claim_lease_cas resources.cas_frame)
qed

lemma update_lease_of:
  assumes "\<And>d. br_lease_owner (f d) = br_lease_owner d \<and> br_lease_expires_at (f d) = br_lease_expires_at d"
  shows "lease_of (snd (update_build_resources k f e w)) b = lease_of w b"
  using assms
  by (auto simp: update_build_resources_def lease_of_put Let_def lease_of_def look_resources_def
      put_resources_doc_def split: option.splits)

lemma put_resource_lease_of: "lease_of (snd (put_build_resource k r o' w)) b = lease_of w b"
  by (auto simp: put_build_resource_def andthen_app lease_of_put Let_def lease_of_def look_resources_def
      put_resources_doc_def split: option.splits sum.splits)

lemma renew_lease_of:
  "owner \<noteq> other \<Longrightarrow> lease_of w b = Some (Some owner, e) \<Longrightarrow>
   lease_of (snd (renew_build_lease k other until w)) b = lease_of w b"
  by (auto simp: renew_build_lease_def update_build_resources_def bd_app lease_of_put Let_def
      lease_of_def look_resources_def resources_expected_hold_def put_resources_doc_def split: option.splits)

lemma release_lease_of:
  "owner \<noteq> other \<Longrightarrow> lease_of w b = Some (Some owner, e) \<Longrightarrow>
   lease_of (snd (release_build_lease k other w)) b = lease_of w b"
  by (auto simp: release_build_lease_def lease_of_put lease_of_def look_resources_def
      put_resources_doc_def split: option.splits)

lemma ensure_lease_of:
  "lease_of w b \<noteq> None \<Longrightarrow> lease_of (snd (ensure_build_resources r w)) b = lease_of w b"
  by (auto simp: ensure_build_resources_def Let_def dsetdefault_def lease_of_def look_resources_def
      split: option.splits)

subsection \<open>Interleaving\<close>

text \<open>
  A step of the system seen by the holder \<open>me\<close> of the lease of build \<open>b\<close>: another owner, or
  code without a lease, performs one repository operation on any manifest, anything else
  changes, or time passes. Manifest updates never carry the lease fields: only the three lease
  operations assign them.
\<close>

inductive other_step :: "string \<Rightarrow> world \<Rightarrow> world \<Rightarrow> bool" for me where
  claim: "x \<noteq> me \<Longrightarrow> other_step me w (snd (claim_build_lease k x until ss w))"
| renew: "x \<noteq> me \<Longrightarrow> other_step me w (snd (renew_build_lease k x until w))"
| release: "x \<noteq> me \<Longrightarrow> other_step me w (snd (release_build_lease k x w))"
| ensure: "other_step me w (snd (ensure_build_resources r w))"
| put: "other_step me w (snd (put_build_resource k s own w))"
| update: "(\<And>d. br_lease_owner (f d) = br_lease_owner d \<and> br_lease_expires_at (f d) = br_lease_expires_at d) \<Longrightarrow>
     other_step me w (snd (update_build_resources k f e w))"
| other: "w_build_resources w' = w_build_resources w \<Longrightarrow> w_clock w \<le> w_clock w' \<Longrightarrow> other_step me w w'"

inductive_cases other_stepE: "other_step me w w'"

lemma claim_clock: "w_clock (snd (claim_build_lease k x until ss w)) = w_clock w"
  by (auto simp: claim_build_lease_def Let_def split: option.splits)

lemma update_clock: "w_clock (snd (update_build_resources k f e w)) = w_clock w"
  by (auto simp: update_build_resources_def Let_def split: option.splits)

lemma renew_clock: "w_clock (snd (renew_build_lease k x until w)) = w_clock w"
  using update_clock [of k _ _ w]
  by (auto simp: renew_build_lease_def bd_app split: prod.splits sum.splits) (metis snd_conv)+

lemma release_clock: "w_clock (snd (release_build_lease k x w)) = w_clock w"
  by (auto simp: release_build_lease_def split: option.splits)

lemma ensure_clock: "w_clock (snd (ensure_build_resources r w)) = w_clock w"
  by (auto simp: ensure_build_resources_def Let_def)

lemma put_clock: "w_clock (snd (put_build_resource k s own w)) = w_clock w"
  by (auto simp: put_build_resource_def andthen_app Let_def split: option.splits sum.splits)

lemmas lease_clock = claim_clock update_clock renew_clock release_clock ensure_clock put_clock

lemma other_step_clock: "other_step me w w' \<Longrightarrow> w_clock w \<le> w_clock w'"
  by (induction rule: other_step.induct) (simp_all add: lease_clock)

lemma other_step_lease:
  assumes "other_step me w w'" and "lease_of w b = Some (Some me, Some e)" and "w_clock w < e"
  shows "lease_of w' b = Some (Some me, Some e)"
  using assms
proof (induction rule: other_step.induct)
  case (claim x w k until ss)
  then show ?case using claim_lease_of [of w b me] by (simp add: holds_lease_iff)
next
  case (renew x w k until)
  then show ?case using renew_lease_of [of me x w b "Some e" k until] by simp
next
  case (release x w k)
  then show ?case using release_lease_of [of me x w b "Some e" k] by simp
next
  case (ensure w r)
  then show ?case using ensure_lease_of [of w b r] by simp
next
  case (put w k s own)
  then show ?case by (simp add: put_resource_lease_of)
next
  case (update f w k e)
  then show ?case by (subst update_lease_of) auto
next
  case (other w' w)
  then show ?case using lease_of_cong [of w' w b] by simp
qed

lemma other_steps_lease:
  assumes "(other_step me)\<^sup>*\<^sup>* w w'" and "lease_of w b = Some (Some me, Some e)"
  shows "w_clock w' < e \<longrightarrow> lease_of w' b = Some (Some me, Some e)"
  using assms(1)
proof (induction rule: rtranclp_induct)
  case base
  then show ?case using assms(2) by simp
next
  case (step u v)
  then show ?case using other_step_lease [of me u v b e] other_step_clock [of me u v] by fastforce
qed

section \<open>What a lease excludes\<close>

lemma renew_by_other:
  "holds_lease w b me \<Longrightarrow> x \<noteq> me \<Longrightarrow> renew_build_lease b x until w = (Inr False, w)"
  by (auto simp: renew_build_lease_def update_build_resources_def bd_app holds_lease_iff lease_of_def
      look_resources_def resources_expected_hold_def)

lemma put_by_other:
  assumes "holds_lease w b me" "x \<noteq> me"
  shows "\<exists>e. put_build_resource b r (Some x) w = (Inl e, w)"
  using assms
  by (auto simp: put_build_resource_def andthen_app holds_lease_iff lease_of_def look_resources_def
      split: sum.split)

lemma update_by_other:
  assumes "holds_lease w b me" "x \<noteq> me"
  shows "update_build_resources b f (Some (Some x), p) w = (Inr None, w)"
  using assms
  by (auto simp: update_build_resources_def holds_lease_iff lease_of_def look_resources_def
      resources_expected_hold_def)

lemma build_lease_app:
  "build_lease b ss sec body w =
     (let owner = w_uuid w (w_uuid_next w); w1 = w\<lparr>w_uuid_next := Suc (w_uuid_next w)\<rparr> in
      case claim_build_lease b owner (w_clock w + sec) ss w1 of
        (Inl e, w2) \<Rightarrow> (Inl e, w2)
      | (Inr None, w2) \<Rightarrow> body None w2
      | (Inr (Some d), w2) \<Rightarrow>
          finally_do (body (Some \<lparr>tr_build_id = b, tr_owner = Some owner\<rparr>)) (release_build_lease b owner) w2)"
  by (auto simp: build_lease_def bd_app uuid4_hex_app Let_def split: prod.splits sum.splits option.splits)

lemma release_clears: "\<not> holds_lease (snd (release_build_lease b owner w)) b owner"
  by (auto simp: release_build_lease_def holds_lease_iff lease_of_put put_resources_doc_def
      lease_of_def look_resources_def split: option.splits if_splits)

lemma release_never_raises: "fst (release_build_lease b owner w) = Inr ()"
  by (simp add: release_build_lease_def split: option.splits)

section \<open>Properties\<close>

text \<open>
  C1: a build lease excludes. Let one owner hold the lease of a build and let any sequence of
  claims, renewals, releases, recordings and updates by others, on any build, and any passing of
  time happen. As long as the lease has not expired, its owner still passes the guard, while
  every attempt of another owner to claim it, renew it, record a resource under it or update the
  manifest under it is refused and changes nothing.
\<close>

theorem lease_excludes_others:
  assumes "lease_of w b = Some (Some me, Some e)" and "(other_step me)\<^sup>*\<^sup>* w w'" and "w_clock w' < e"
    and "x \<noteq> me"
  shows "fst (tracker_guard \<lparr>tr_build_id = b, tr_owner = Some me\<rparr> w') = Inr () \<and>
    (\<exists>err. fst (tracker_guard \<lparr>tr_build_id = b, tr_owner = Some x\<rparr> w') = Inl err) \<and>
    claim_build_lease b x until ss w' = (Inr None, w') \<and>
    renew_build_lease b x until w' = (Inr False, w') \<and>
    update_build_resources b f (Some (Some x), p) w' = (Inr None, w') \<and>
    (\<exists>err. put_build_resource b r (Some x) w' = (Inl err, w'))"
proof -
  have held: "holds_lease w' b me"
    using other_steps_lease [OF assms(2,1)] assms(3) by (simp add: holds_lease_iff)
  then have "\<not> holds_lease w' b x" using assms(4) by (auto simp: holds_lease_iff)
  then have "\<exists>err. fst (tracker_guard \<lparr>tr_build_id = b, tr_owner = Some x\<rparr> w') = Inl err"
    using tracker_guard_Inr_iff [of "\<lparr>tr_build_id = b, tr_owner = Some x\<rparr>" x w']
    by (cases "fst (tracker_guard \<lparr>tr_build_id = b, tr_owner = Some x\<rparr> w')") auto
  then show ?thesis
    using held assms(4) tracker_guard_Inr_iff [of "\<lparr>tr_build_id = b, tr_owner = Some me\<rparr>" me w']
    by (simp add: claim_keeps_live_lease renew_by_other update_by_other put_by_other)
qed

definition leased_world :: "string \<Rightarrow> instant \<Rightarrow> world" where
  "leased_world owner until = (empty_world str_nat 10)\<lparr>w_build_resources :=
     [(''b1'', (new_build_resources ''b1'' ''shop'' 1 5)
        \<lparr>br_lease_owner := Some owner, br_lease_expires_at := Some until\<rparr>)]\<rparr>"

theorem lease_excludes_others_witness:
  "let w' = snd (release_build_lease ''b1'' ''other'' (leased_world ''me'' 20)) in
   fst (tracker_guard \<lparr>tr_build_id = ''b1'', tr_owner = Some ''me''\<rparr> w') = Inr () \<and>
   claim_build_lease ''b1'' ''other'' 99 [NotStarted] w' = (Inr None, w')"
proof -
  let ?w = "leased_world ''me'' 20"
  let ?w' = "snd (release_build_lease ''b1'' ''other'' ?w)"
  have lease: "lease_of ?w ''b1'' = Some (Some ''me'', Some 20)"
    by (simp add: leased_world_def lease_of_def look_resources_def)
  have "w_clock ?w' = 10"
    by (simp add: release_clock leased_world_def empty_world_def)
  then have "w_clock ?w' < 20" by simp
  moreover have "(other_step ''me'')\<^sup>*\<^sup>* ?w ?w'"
    by (intro r_into_rtranclp other_step.release) simp
  ultimately show ?thesis
    using lease_excludes_others [OF lease, of ?w' "''other''" 99 "[NotStarted]"] by simp
qed

text \<open>
  the block of a \<open>with build_lease\<close> runs either without a tracker, when another owner has a
  live lease, the manifest does not exist or its clean-up status is not one of those asked for,
  and then the claim has changed nothing; or with a tracker whose guard passes when it is
  entered. Whether the block returns or raises, its outcome is the outcome of the statement and
  its owner no longer holds the lease.
\<close>

lemma build_lease_scope:
  assumes "0 < sec"
  shows "let owner = w_uuid w (w_uuid_next w); w1 = w\<lparr>w_uuid_next := Suc (w_uuid_next w)\<rparr>;
             t = \<lparr>tr_build_id = b, tr_owner = Some owner\<rparr>
    in (build_lease b ss sec body w = body None w1 \<and>
        (look_resources w b = None \<or>
         (\<exists>d. look_resources w b = Some d \<and>
            (br_cleanup_status d \<notin> set ss \<or>
             (br_lease_owner d \<noteq> None \<and> \<not> lease_expired (br_lease_expires_at d) (w_clock w)))))) \<or>
       (\<exists>w2. fst (tracker_guard t w2) = Inr () \<and> lease_of w2 b = Some (Some owner, Some (w_clock w + sec)) \<and>
          w_builds w2 = w_builds w \<and>
          fst (build_lease b ss sec body w) = fst (body (Some t) w2) \<and>
          \<not> holds_lease (snd (build_lease b ss sec body w)) b owner)"
proof -
  let ?owner = "w_uuid w (w_uuid_next w)"
  let ?w1 = "w\<lparr>w_uuid_next := Suc (w_uuid_next w)\<rparr>"
  let ?t = "\<lparr>tr_build_id = b, tr_owner = Some ?owner\<rparr>"
  obtain r w2 where claim: "claim_build_lease b ?owner (w_clock w + sec) ss ?w1 = (r, w2)"
    by (cases "claim_build_lease b ?owner (w_clock w + sec) ss ?w1")
  show ?thesis
  proof (cases r)
    case (Inl e)
    with claim show ?thesis
      by (simp add: claim_build_lease_def Let_def split: option.splits if_splits)
  next
    case (Inr m)
    show ?thesis
    proof (cases m)
      case None
      then have "w2 = ?w1" and "look_resources w b = None \<or> (\<exists>d. look_resources w b = Some d \<and>
          (br_cleanup_status d \<notin> set ss \<or>
           (br_lease_owner d \<noteq> None \<and> \<not> lease_expired (br_lease_expires_at d) (w_clock w))))"
        using claim Inr
        by (auto simp: claim_build_lease_def look_resources_def Let_def split: option.splits if_splits)
      then show ?thesis
        using claim Inr None by (auto simp: build_lease_app Let_def)
    next
      case (Some d)
      have c: "claim_build_lease b ?owner (w_clock w + sec) ss ?w1 = (Inr (Some d), w2)"
        using claim Inr Some by simp
      have lease: "lease_of w2 b = Some (Some ?owner, Some (w_clock w + sec))" "w_clock w2 = w_clock w"
        using claim_result [OF c] by simp_all
      have builds: "w_builds w2 = w_builds w"
        using c by (auto simp: claim_build_lease_def put_resources_doc_def Let_def split: option.splits if_splits)
      have guard: "fst (tracker_guard ?t w2) = Inr ()"
        using tracker_guard_Inr_iff [of ?t ?owner w2] lease assms by (simp add: holds_lease_iff)
      have run: "build_lease b ss sec body w = finally_do (body (Some ?t)) (release_build_lease b ?owner) w2"
        using c by (simp add: build_lease_app Let_def)
      obtain r3 w3 where body: "body (Some ?t) w2 = (r3, w3)"
        by (cases "body (Some ?t) w2")
      have "fst (build_lease b ss sec body w) = r3 \<and> \<not> holds_lease (snd (build_lease b ss sec body w)) b ?owner"
        unfolding run finally_do_app body
        using release_never_raises [of b ?owner w3] release_clears [of b ?owner w3]
        by (cases "release_build_lease b ?owner w3") simp
      then show ?thesis using lease guard builds body by (auto simp: Let_def)
    qed
  qed
qed

text \<open>
  recording a resource under a lease that is held. A recording that contradicts what the
  manifest already knows, another native id, another creation token of a volume or another
  digest of an image, raises and changes nothing. Any other one is stored under the key of its
  kind, target and name, keeps the kind, target, name and native id recorded before, and leaves
  every other resource of the manifest, and every other manifest, as it was.
\<close>

lemma tracker_record_outcome:
  assumes "look_resources w (tr_build_id t) = Some d" and "tr_owner t = Some me"
    and "holds_lease w (tr_build_id t) me"
    and "\<And>e. dget (br_resources d) (resource_key kind target name) = Some e \<Longrightarrow>
           rs_key e = resource_key kind target name"
  shows "let key = resource_key kind target name in
    case tracker_record t kind name target nid st mgd md err w of (res, w') \<Rightarrow>
    (case dget (br_resources d) key of
       Some e \<Rightarrow>
         if identity_conflict e nid \<or> creation_conflict kind e md \<or> digest_conflict kind e md
         then (\<exists>m. res = Inl (Exn ResourceConflict m)) \<and> w' = w
         else (\<exists>r. res = Inr r \<and> rs_key r = key \<and> rs_kind r = rs_kind e \<and> rs_name r = rs_name e \<and>
                 rs_target r = rs_target e \<and> rs_state r = st \<and> rs_native_id r = str_or nid (rs_native_id e) \<and>
                 map_option br_resources (look_resources w' (tr_build_id t)) = Some (dset (br_resources d) key r))
     | None \<Rightarrow> (\<exists>r. res = Inr r \<and> rs_key r = key \<and> rs_kind r = kind \<and> rs_name r = name \<and>
                 rs_target r = target \<and> rs_state r = st \<and> rs_native_id r = nid \<and>
                 map_option br_resources (look_resources w' (tr_build_id t)) = Some (dset (br_resources d) key r)))
    \<and> (\<forall>j. j \<noteq> tr_build_id t \<longrightarrow> look_resources w' j = look_resources w j)"
proof -
  define key where "key = resource_key kind target name"
  have valid: "validate_resource_key key = Inr ()"
    by (simp add: validate_resource_key_def key_def resource_key_def fullmatch_iff resource_key_rx_def)
       (auto dest: sha256_hex_hex)
  have lease: "br_lease_owner d = Some me" "\<not> lease_expired (br_lease_expires_at d) (w_clock w)"
    using assms(1,3) by (auto simp: holds_lease_iff lease_of_def lease_expired_def)
  have put: "put_build_resource (tr_build_id t) r (Some me) w =
      (let d' = d\<lparr>br_resources := dset (br_resources d) (rs_key r) r, br_updated_at := w_clock w\<rparr>
       in (Inr d', put_resources_doc (tr_build_id t) d' w))" if "rs_key r = key" for r
    using assms(1) lease valid that
    by (simp add: put_build_resource_def andthen_app look_resources_def)
  show ?thesis
  proof (cases "dget (br_resources d) key")
    case None
    then show ?thesis
      using assms(1,2) put
      by (simp add: tracker_record_def bd_app andthen_app get_build_resources_def look_resources_def
          Let_def key_def [symmetric] new_build_resource_def put_resources_doc_def)
  next
    case (Some e)
    then have "rs_key e = key" using assms(4) by (simp add: key_def)
    then show ?thesis
      using Some assms(1,2) put
      by (simp add: tracker_record_def bd_app andthen_app get_build_resources_def look_resources_def
          Let_def key_def [symmetric] put_resources_doc_def)
  qed
qed

end
