(* ===== verification/RouteChecks.thy ===== *)
theory RouteChecks
  imports Builds RouteProbes Leases
begin

text \<open>
  \<open>orchestrator/route_checks.py\<close>: versioned agent roles, static route checks and the gate a
  build must pass. GitLab, the checkout, git, the agent and the broker are parameters, actions
  that may raise and may change the world in any way their hypotheses allow; the heartbeat
  thread that renews a static lease is such an interference. Submissions and outcomes carry the
  message texts of the source as glosses.

  The invariant \<open>checks_ok\<close> says what the gate relies on: at most one check per application,
  commit, route and role version, and a check that has passed carries a probe request that
  validation accepted for its route. Every operation preserves it.
\<close>

section \<open>Agent roles\<close>

definition require_role :: "role_key \<Rightarrow> (world, agent_role) action" where
  "require_role k = bd (get_agent_role k) (\<lambda>r. case r of
     None \<Rightarrow> raise KeyError ''Agent role not found'' | Some role \<Rightarrow> ret role)"

record role_update =
  ru_prompt :: "string option"
  ru_output_schema :: "value option"
  ru_runtime_config :: "mapping option"

definition patched_role :: "role_update \<Rightarrow> instant \<Rightarrow> agent_role \<Rightarrow> agent_role" where
  "patched_role u now r =
     (let r1 = (case ru_prompt u of Some p \<Rightarrow> r\<lparr>ar_prompt := p\<rparr> | None \<Rightarrow> r);
          r2 = (case ru_output_schema u of Some s \<Rightarrow> r1\<lparr>ar_output_schema := s\<rparr> | None \<Rightarrow> r1);
          r3 = (case ru_runtime_config u of
                  Some c \<Rightarrow> r2\<lparr>ar_runtime_config := dmerge (ar_runtime_config r2) c\<rparr> | None \<Rightarrow> r2)
      in r3\<lparr>ar_version := ar_version r + 1, ar_updated_at := now\<rparr>)"

text \<open>At most ten compare-and-swap attempts; \<open>validate\<close> is \<open>AgentRole.model_validate\<close>.\<close>

fun update_role_attempts ::
  "nat \<Rightarrow> (agent_role \<Rightarrow> agent_role res) \<Rightarrow> role_key \<Rightarrow> role_update \<Rightarrow> (world, agent_role) action" where
  "update_role_attempts 0 validate k u =
     raise RouteCheckConflict ''Agent role changed concurrently; retry the update''"
| "update_role_attempts (Suc n) validate k u =
     bd (require_role k) (\<lambda>current.
     bd utc_now (\<lambda>now.
     bd (lift_res (validate (patched_role u now current))) (\<lambda>updated.
     bd (save_agent_role updated (Some (ar_version current))) (\<lambda>saved.
       case saved of Some r \<Rightarrow> ret r | None \<Rightarrow> update_role_attempts n validate k u))))"

definition update_role ::
  "(value \<Rightarrow> bool) \<Rightarrow> (agent_role \<Rightarrow> agent_role res) \<Rightarrow> role_key \<Rightarrow> role_update \<Rightarrow> (world, agent_role) action" where
  "update_role schema_ok validate k u =
     (case ru_output_schema u of
        Some s \<Rightarrow>
          if \<not> schema_ok s then raise RouteCheckInputError ''output_schema must be a valid JSON Schema''
          else if mget (the_dict s) ''type'' \<noteq> VStr ''object''
          then raise RouteCheckInputError ''Agent output_schema must describe a JSON object''
          else update_role_attempts 10 validate k u
      | None \<Rightarrow> update_role_attempts 10 validate k u)"

section \<open>Commits and submissions\<close>

definition SHA_RX :: rx where
  "SHA_RX = commit_is_full_sha_rx"

definition BUILD_GATE_ERROR :: string where
  "BUILD_GATE_ERROR = ''no static route check was made; the build task cannot be delivered''"

text \<open>\<open>resolve_ref url ref\<close> is \<open>self.gitlab().validate_repository_ref(url, ref).commit_sha\<close>.\<close>

type_synonym ref_resolver = "string \<Rightarrow> string \<Rightarrow> (world, string) action"

definition resolve_commit :: "ref_resolver \<Rightarrow> user_app \<Rightarrow> string option \<Rightarrow> (world, string) action" where
  "resolve_commit resolve_ref app git_ref =
     (if ap_repository_url app = []
      then raise RouteCheckInputError ''Route checks require an associated Git repository''
      else
        bd (resolve_ref (ap_repository_url app) (case str_or git_ref None of Some r \<Rightarrow> r | None \<Rightarrow> ap_git_ref app))
          (\<lambda>sha.
          if \<not> fullmatch SHA_RX sha
          then raise RouteCheckInputError ''GitLab did not resolve an immutable full commit SHA''
          else if (case str_or git_ref None of Some r \<Rightarrow> fullmatch SHA_RX r \<and> lower sha \<noteq> lower r | None \<Rightarrow> False)
          then raise RouteCheckInputError ''GitLab returned a different commit than requested''
          else ret (lower sha)))"

definition require_check :: "string \<Rightarrow> (world, route_check) action" where
  "require_check check_id = bd (get_route_check check_id) (\<lambda>r. case r of
     None \<Rightarrow> raise KeyError ''Route check not found'' | Some c \<Rightarrow> ret c)"

text \<open>\<open>uuid4().int & ((1 << 63) - 1)\<close>: the low 63 bits of the value of the 32 hex digits.\<close>

definition uuid_int63 :: "(world, int) action" where
  "uuid_int63 = bd uuid4_hex (\<lambda>h. ret (foldl (\<lambda>acc c. 16 * acc +
     int (case hex_digit_value c of Some d \<Rightarrow> d | None \<Rightarrow> 0)) 0 h mod 2 ^ 63))"

definition new_route_check ::
  "int \<Rightarrow> string \<Rightarrow> user_app \<Rightarrow> string \<Rightarrow> string \<Rightarrow> agent_role \<Rightarrow> agent_role \<Rightarrow> instant \<Rightarrow> route_check" where
  "new_route_check i check_id app route commit static_role dynamic_role now = \<lparr>
     rc_id = i, rc_check_id = check_id, rc_app_id = ap_appid app, rc_commit_id = lower commit,
     rc_require_route = route, rc_static_agent_role_version = ar_version static_role,
     rc_dynamic_agent_role_version = ar_version dynamic_role, rc_generation = 1,
     rc_repository_url = ap_repository_url app, rc_git_ref = ap_git_ref app,
     rc_static_role_snapshot = Some static_role, rc_dynamic_role_snapshot = Some dynamic_role,
     rc_static_task_id = None, rc_static_run_token = None, rc_static_lease_expires_at = None,
     rc_dispatch_error = None, rc_dynamic_build_id = None, rc_dynamic_run_id = None,
     rc_static_status = CkQueued, rc_dynamic_status = CkPending, rc_diff_list = [],
     rc_probe_payload = None, rc_static_report_text = None, rc_static_check_passed = None,
     rc_probe_result = None, rc_dynamic_report_text = None, rc_dynamic_check_passed = None,
     rc_created_at = now, rc_updated_at = now\<rparr>"

text \<open>The dump of a candidate without its identity and creation time, as a field dict.\<close>

definition reset_fields :: "route_check \<Rightarrow> int \<Rightarrow> instant \<Rightarrow> route_check_field list" where
  "reset_fields c generation now =
     [FDynamicAgentRoleVersion (rc_dynamic_agent_role_version c), FGeneration generation,
      FRepositoryUrl (rc_repository_url c), FGitRef (rc_git_ref c),
      FStaticRoleSnapshot (rc_static_role_snapshot c), FDynamicRoleSnapshot (rc_dynamic_role_snapshot c),
      FStaticTaskId (rc_static_task_id c), FStaticRunToken (rc_static_run_token c),
      FStaticLeaseExpiresAt (rc_static_lease_expires_at c), FDispatchError (rc_dispatch_error c),
      FDynamicBuildId (rc_dynamic_build_id c), FDynamicRunId (rc_dynamic_run_id c),
      FStaticStatus (rc_static_status c), FDynamicStatus (rc_dynamic_status c), FDiffList (rc_diff_list c),
      FProbePayload (rc_probe_payload c), FStaticReportText (rc_static_report_text c),
      FStaticCheckPassed (rc_static_check_passed c), FProbeResult (rc_probe_result c),
      FDynamicReportText (rc_dynamic_report_text c), FDynamicCheckPassed (rc_dynamic_check_passed c),
      FUpdatedAt now]"

fun force_reset :: "nat \<Rightarrow> route_check \<Rightarrow> route_check \<Rightarrow> (world, route_check) action" where
  "force_reset 0 candidate r = raise RouteCheckConflict ''Static check changed concurrently; retry submission''"
| "force_reset (Suc n) candidate r =
     bd utc_now (\<lambda>now.
     bd (update_route_check (rc_check_id r) (reset_fields candidate (rc_generation r + 1) now)
           [FGeneration (rc_generation r)]) (\<lambda>updated.
       case updated of
         Some u \<Rightarrow> ret u
       | None \<Rightarrow> bd (require_check (rc_check_id r)) (\<lambda>current. force_reset n candidate current)))"

record submission =
  ss_check_id :: string
  ss_task_id :: "string option"
  ss_queued :: bool
  ss_cache_hit :: bool
  ss_message :: string
  ss_result :: route_check

definition pending_static :: "check_status \<Rightarrow> bool" where
  "pending_static s \<longleftrightarrow> s = CkQueued \<or> s = CkRunning"

definition cached_submission :: "route_check \<Rightarrow> submission" where
  "cached_submission r = \<lparr>ss_check_id = rc_check_id r, ss_task_id = rc_static_task_id r,
     ss_queued = pending_static (rc_static_status r), ss_cache_hit = (rc_static_check_passed r \<noteq> None),
     ss_message = (case rc_static_check_passed r of
        Some True \<Rightarrow> ''a successful result was cached; succeeded and skipped''
      | Some False \<Rightarrow> ''a failed result was cached; no static check was run''
      | None \<Rightarrow> ''static check task submitted''),
     ss_result = r\<rparr>"

type_synonym static_dispatcher = "string \<Rightarrow> int \<Rightarrow> (world, string option) action"

definition dispatch_submission :: "static_dispatcher \<Rightarrow> route_check \<Rightarrow> (world, submission) action" where
  "dispatch_submission dispatch r =
     bd (catching (dispatch (rc_check_id r) (rc_generation r)) (\<lambda>_.
           andthen (update_route_check (rc_check_id r) [FDispatchError (Some ''Unable to enqueue static check'')]
                      [FGeneration (rc_generation r)])
             (raise RouteCheckUnavailableError
                ''Unable to enqueue static check; the saved task will be recovered''))) (\<lambda>task_id.
     bd (update_route_check (rc_check_id r) [FStaticTaskId task_id, FDispatchError None]
           [FGeneration (rc_generation r)]) (\<lambda>saved.
     bd (case saved of Some s \<Rightarrow> ret s | None \<Rightarrow> require_check (rc_check_id r)) (\<lambda>final.
       ret \<lparr>ss_check_id = rc_check_id final, ss_task_id = task_id, ss_queued = True, ss_cache_hit = False,
            ss_message = ''static check task submitted'', ss_result = final\<rparr>)))"

definition create_or_reuse ::
  "static_dispatcher \<Rightarrow> user_app \<Rightarrow> string \<Rightarrow> bool \<Rightarrow> (world, submission) action" where
  "create_or_reuse dispatch app commit_id force =
     (case str_or (ap_require_route app) None of
        None \<Rightarrow> raise RouteCheckInputError ''A route, repository and full immutable commit SHA are required''
      | Some route \<Rightarrow>
          if ap_repository_url app = [] \<or> \<not> fullmatch SHA_RX commit_id
          then raise RouteCheckInputError ''A route, repository and full immutable commit SHA are required''
          else
            bd (require_role StaticRole) (\<lambda>static_role.
            bd (require_role DynamicRole) (\<lambda>dynamic_role.
            bd uuid4_hex (\<lambda>check_id.
            bd uuid_int63 (\<lambda>i.
            bd utc_now (\<lambda>now.
            let candidate = new_route_check i check_id app route commit_id static_role dynamic_role now in
            bd (ensure_route_check candidate) (\<lambda>(r, created).
              if \<not> created \<and> \<not> force then ret (cached_submission r)
              else bd (if force \<and> \<not> created then force_reset 10 candidate r else ret r)
                     (dispatch_submission dispatch))))))))"

definition submit_static ::
  "ref_resolver \<Rightarrow> static_dispatcher \<Rightarrow> user_app \<Rightarrow> string option \<Rightarrow> bool \<Rightarrow> (world, submission) action" where
  "submit_static resolve_ref dispatch app commit_id force =
     (if str_or (ap_require_route app) None = None
      then raise RouteCheckInputError ''App require_route is not configured''
      else bd (resolve_commit resolve_ref app commit_id) (\<lambda>c. create_or_reuse dispatch app c force))"

definition schedule_for_app ::
  "ref_resolver \<Rightarrow> static_dispatcher \<Rightarrow> user_app \<Rightarrow> string option \<Rightarrow> (world, submission option) action" where
  "schedule_for_app resolve_ref dispatch app commit_id =
     (if str_or (ap_require_route app) None = None then ret None
      else bd (case str_or commit_id None of Some c \<Rightarrow> ret c | None \<Rightarrow> resolve_commit resolve_ref app None)
             (\<lambda>c. bd (create_or_reuse dispatch app c False) (\<lambda>s. ret (Some s))))"

section \<open>The build gate\<close>

definition gate_refused :: "(world, 'a) action" where
  "gate_refused = raise RouteCheckInputError BUILD_GATE_ERROR"

definition require_static_pass ::
  "user_app \<Rightarrow> string \<Rightarrow> int option \<Rightarrow> (world, route_check) action" where
  "require_static_pass app commit_id generation =
     (case str_or (ap_require_route app) None of
        None \<Rightarrow> gate_refused
      | Some route \<Rightarrow>
          bd (require_role StaticRole) (\<lambda>role.
          bd (find_route_check (ap_appid app) commit_id route (ar_version role)) (\<lambda>result.
            case result of
              None \<Rightarrow> gate_refused
            | Some r \<Rightarrow>
                if rc_static_check_passed r \<noteq> Some True \<or> rc_static_status r \<noteq> CkSucceeded
                   \<or> (case generation of None \<Rightarrow> False | Some g \<Rightarrow> rc_generation r \<noteq> g)
                then gate_refused else ret r)))"

definition verify_build_gate :: "build_job \<Rightarrow> user_app \<Rightarrow> (world, route_check) action" where
  "verify_build_gate b app =
     (case (bj_route_check_generation b, str_or (bj_git_commit_sha b) None) of
        (Some g, Some commit) \<Rightarrow>
          if bj_appid b \<noteq> ap_appid app \<or> bj_require_route_snapshot b \<noteq> ap_require_route app
             \<or> bj_static_check_passed b \<noteq> Some True
          then gate_refused
          else bd (require_static_pass app commit (Some g)) (\<lambda>check.
                 if Some (rc_check_id check) \<noteq> bj_route_check_id b
                    \<or> Some (rc_static_agent_role_version check) \<noteq> bj_static_agent_role_version b
                 then gate_refused else ret check)
      | _ \<Rightarrow> gate_refused)"

definition check_results :: "string \<Rightarrow> string \<Rightarrow> (world, route_check list) action" where
  "check_results app_id commit_id = bd (get_app app_id) (\<lambda>a. case a of
     None \<Rightarrow> raise KeyError ''App not found'' | Some _ \<Rightarrow> list_route_checks app_id commit_id)"

definition check_results_for_app :: "string \<Rightarrow> (world, route_check list) action" where
  "check_results_for_app app_id = bd (get_app app_id) (\<lambda>a. case a of
     None \<Rightarrow> raise KeyError ''App not found'' | Some _ \<Rightarrow> list_route_checks_for_app app_id)"

definition delete_latest :: "string \<Rightarrow> string \<Rightarrow> (world, bool) action" where
  "delete_latest app_id commit_id = bd (get_app app_id) (\<lambda>a. case a of
     None \<Rightarrow> raise KeyError ''App not found''
   | Some app \<Rightarrow>
       (case str_or (ap_require_route app) None of
          None \<Rightarrow> ret False
        | Some route \<Rightarrow> bd (require_role StaticRole) (\<lambda>role.
            delete_route_check app_id commit_id route (ar_version role))))"

section \<open>Execution of a static check\<close>

record static_env =
  se_lease_seconds :: int
  se_pool :: descriptor_pool
  se_resolve :: ref_resolver
  se_checkout :: "string \<Rightarrow> string \<Rightarrow> (world, unit) action"
  se_head :: "(world, string) action"
  se_agent :: "agent_role \<Rightarrow> route_check \<Rightarrow> (world, mapping) action"
  se_diff :: "string \<Rightarrow> (world, string) action"

fun check_status_value :: "check_status \<Rightarrow> string" where
  "check_status_value CkPending = ''pending''"
| "check_status_value CkQueued = ''queued''"
| "check_status_value CkRunning = ''running''"
| "check_status_value CkSucceeded = ''succeeded''"
| "check_status_value CkFailed = ''failed''"
| "check_status_value CkSkipped = ''skipped''"

definition live_static_lease :: "route_check \<Rightarrow> instant \<Rightarrow> bool" where
  "live_static_lease c now \<longleftrightarrow> rc_static_status c = CkRunning \<and>
     (case rc_static_lease_expires_at c of Some e \<Rightarrow> e > now | None \<Rightarrow> False)"

text \<open>\<open>_lease\<close>: the owned check with its token, or None; the body receives either.\<close>

definition static_lease ::
  "int \<Rightarrow> route_check \<Rightarrow> ((route_check \<times> string) option \<Rightarrow> (world, 'a) action) \<Rightarrow> (world, 'a) action" where
  "static_lease seconds check body =
     bd utc_now (\<lambda>now.
     if \<not> pending_static (rc_static_status check) \<or> live_static_lease check now then body None
     else
       bd uuid4_hex (\<lambda>token.
       bd (update_route_check (rc_check_id check)
             [FStaticStatus CkRunning, FStaticRunToken (Some token),
              FStaticLeaseExpiresAt (Some (now + seconds)), FUpdatedAt now]
             [FGeneration (rc_generation check), FStaticStatus (rc_static_status check),
              FStaticRunToken (rc_static_run_token check),
              FStaticLeaseExpiresAt (rc_static_lease_expires_at check)]) (\<lambda>owned.
         body (map_option (\<lambda>c. (c, token)) owned))))"

definition static_guard :: "route_check \<Rightarrow> string \<Rightarrow> (world, unit) action" where
  "static_guard check token =
     bd (require_check (rc_check_id check)) (\<lambda>current.
       if rc_generation current \<noteq> rc_generation check \<or> rc_static_run_token current \<noteq> Some token
       then raise RouteCheckConflict ''Static check was superseded'' else ret ())"

definition static_input_error :: "string \<Rightarrow> 'a res" where
  "static_input_error m = Inl (Exn RouteCheckInputError m)"

text \<open>The verdict from the agent's output, the actual diff and whether HEAD moved.\<close>

definition static_verdict ::
  "descriptor_pool \<Rightarrow> route_check \<Rightarrow> mapping \<Rightarrow> string \<Rightarrow> bool \<Rightarrow> route_check_field list res" where
  "static_verdict pool check out actual_diff head_changed =
     (let diff_list = mget out ''diff_list''; report = mget out ''report_text'' in
      if \<not> is_bool (mget out ''route_found'') \<or> \<not> is_bool (mget out ''patch_available'')
      then static_input_error ''Static agent must return boolean route_found and patch_available''
      else if \<not> is_list diff_list \<or> \<not> list_all is_str (the_list diff_list) \<or> \<not> is_str report
      then static_input_error ''Static agent returned invalid diff or report output''
      else
        (let diffs = take 20 (if actual_diff \<noteq> [] then [actual_diff] else map the_str (the_list diff_list)) in
         if sum_list (map (int \<circ> length) diffs) > 1048576
         then static_input_error ''Static patch exceeds the one MiB review limit''
         else
           (let passes = mget out ''route_found'' = VBool True \<and> diffs = [] \<and> \<not> head_changed;
                text = the_str report;
                shown = (if \<not> passes \<and> strip text = []
                         then (if diffs \<noteq> [] then ''the route needs changes; review the diff, commit and check again''
                               else ''the route was not found and no small patch could be made'')
                         else text)
            in rbind (if passes
                      then (case validate_probe_payload pool (mget out ''probe_payload'') (Some (rc_require_route check)) of
                              Inl e \<Rightarrow> static_input_error (exn_msg e)
                            | Inr p \<Rightarrow> Inr (Some (VDict p)))
                      else Inr None) (\<lambda>payload.
               Inr [FStaticStatus (if passes then CkSucceeded else CkFailed), FStaticCheckPassed (Some passes),
                    FProbePayload payload, FDiffList (if passes then [] else diffs),
                    FStaticReportText (if passes then None else Some (take 4000 shown))]))))"

definition static_run :: "static_env \<Rightarrow> route_check \<Rightarrow> string \<Rightarrow> (world, route_check_field list) action" where
  "static_run env check token =
     (case rc_static_role_snapshot check of
        None \<Rightarrow> raise ValueError ''invalid role snapshot''
      | Some role \<Rightarrow>
          if ar_version role \<noteq> rc_static_agent_role_version check
          then raise RouteCheckInputError ''Static agent role snapshot version does not match the job''
          else
            bd (se_resolve env (rc_repository_url check) (rc_commit_id check)) (\<lambda>sha.
            if lower sha \<noteq> rc_commit_id check
            then raise RouteCheckInputError ''Static checkout commit does not match the queued immutable commit''
            else
              andthen (se_checkout env (rc_repository_url check) sha)
              (bd (se_head env) (\<lambda>head.
               if lower (strip head) \<noteq> rc_commit_id check
               then raise RouteCheckInputError ''Static checkout is not pinned to the requested commit''
               else
                 andthen (static_guard check token)
                 (bd (se_agent env role check) (\<lambda>out.
                  andthen (static_guard check token)
                  (bd (se_diff env (rc_commit_id check)) (\<lambda>actual_diff.
                   bd (se_head env) (\<lambda>head'.
                   lift_res (static_verdict (se_pool env) check out actual_diff
                     (lower (strip head') \<noteq> rc_commit_id check)))))))))))"

definition static_failure_text :: "exn \<Rightarrow> string" where
  "static_failure_text e =
     (if exn_class e \<in> gitlab_errors \<union> {AgentExecutionError, RouteCheckInputError} then exn_msg e
      else ''the static check failed; inspect the agent output and the environment'')"

definition save_static_result ::
  "route_check \<Rightarrow> route_check_field list \<Rightarrow> (world, string) action" where
  "save_static_result check upd =
     bd utc_now (\<lambda>now.
     bd (update_route_check (rc_check_id check)
           (upd @ [FStaticRunToken None, FStaticLeaseExpiresAt None, FUpdatedAt now])
           [FGeneration (rc_generation check), FStaticRunToken (rc_static_run_token check),
            FStaticStatus CkRunning]) (\<lambda>saved.
       ret (case saved of Some s \<Rightarrow> check_status_value (rc_static_status s) | None \<Rightarrow> ''superseded'')))"

definition finish_static :: "static_env \<Rightarrow> route_check \<Rightarrow> string \<Rightarrow> (world, string) action" where
  "finish_static env owned token = (\<lambda>w. case static_run env owned token w of
     (Inr upd, w') \<Rightarrow> save_static_result owned upd w'
   | (Inl e, w') \<Rightarrow>
       if exn_class e \<in> {KeyError, RouteCheckConflict} then (Inr ''superseded'', w')
       else save_static_result owned
              [FStaticStatus CkFailed, FStaticCheckPassed (Some False),
               FStaticReportText (Some (take 4000 (static_failure_text e)))] w')"

definition execute_static :: "static_env \<Rightarrow> string \<Rightarrow> int option \<Rightarrow> (world, string) action" where
  "execute_static env check_id generation =
     bd (get_route_check check_id) (\<lambda>found.
     case found of
       None \<Rightarrow> ret ''deleted''
     | Some check \<Rightarrow>
         if (case generation of None \<Rightarrow> False | Some g \<Rightarrow> rc_generation check \<noteq> g) then ret ''superseded''
         else static_lease (se_lease_seconds env) check (\<lambda>lease.
           case lease of
             None \<Rightarrow> bd (require_check check_id) (\<lambda>c. ret (check_status_value (rc_static_status c)))
           | Some (owned, token) \<Rightarrow> finish_static env owned token))"

fun recover_checks :: "static_dispatcher \<Rightarrow> route_check list \<Rightarrow> (world, nat) action" where
  "recover_checks dispatch [] = ret 0"
| "recover_checks dispatch (c # cs) =
     bd utc_now (\<lambda>now.
     if live_static_lease c now then recover_checks dispatch cs
     else
       bd (catching (bd (dispatch (rc_check_id c) (rc_generation c)) (\<lambda>_. ret 1)) (\<lambda>_. ret 0)) (\<lambda>n.
       bd (recover_checks dispatch cs) (\<lambda>m. ret (n + m))))"

definition recover_static :: "static_dispatcher \<Rightarrow> (world, nat) action" where
  "recover_static dispatch = bd list_pending_route_checks (recover_checks dispatch)"

section \<open>The invariant\<close>

text \<open>A check that has passed has succeeded, needs no change and carries a request validation
  accepted for its route.\<close>

definition check_sound :: "descriptor_pool \<Rightarrow> route_check \<Rightarrow> bool" where
  "check_sound pool r \<longleftrightarrow> (rc_static_check_passed r = Some True \<longrightarrow>
     rc_static_status r = CkSucceeded \<and> rc_diff_list r = [] \<and>
     (\<exists>v p. validate_probe_payload pool v (Some (rc_require_route r)) = Inr p \<and>
            rc_probe_payload r = Some (VDict p)))"

definition checks_ok :: "descriptor_pool \<Rightarrow> world \<Rightarrow> bool" where
  "checks_ok pool w \<longleftrightarrow> checks_wf w \<and> (\<forall>r\<in>set (vals (w_route_checks w)). check_sound pool r)"

text \<open>
  The guarantee of every operation: the invariant is preserved and no check loses its
  identity. Deletion is the one operation outside it, and is treated on its own.
\<close>

definition same_identity :: "route_check \<Rightarrow> route_check \<Rightarrow> bool" where
  "same_identity r r' \<longleftrightarrow> route_check_identity r' = route_check_identity r"

definition checks_step :: "descriptor_pool \<Rightarrow> world \<Rightarrow> world \<Rightarrow> bool" where
  "checks_step pool w w' \<longleftrightarrow>
     (checks_ok pool w \<longrightarrow> checks_ok pool w') \<and> evolves look_check same_identity w w'"

interpretation ih: document_history look_check put_check same_identity
  by unfold_locales (simp_all add: same_identity_def)

interpretation ck: step_guarantee "checks_step pool" for pool
  by unfold_locales (auto simp: checks_step_def intro: ih.evolves_refl ih.evolves_trans)

abbreviation keeps_checks :: "descriptor_pool \<Rightarrow> (world, 'a) action \<Rightarrow> bool" where
  "keeps_checks pool \<equiv> keeps (checks_step pool)"

named_theorems check_keeps "actions under which the checks stay in order"

lemma checks_step_unchanged: "w_route_checks w' = w_route_checks w \<Longrightarrow> checks_step pool w w'"
  by (simp add: checks_step_def checks_ok_def checks_wf_def evolves_def look_check_def same_identity_def)

lemma keeps_checks_other:
  "(\<And>w. w_route_checks (snd (m w)) = w_route_checks w) \<Longrightarrow> keeps_checks pool m"
  by (rule keepsI) (rule checks_step_unchanged)

lemma keeps_checks_utc_now [check_keeps]: "keeps_checks pool utc_now"
  by (rule keeps_checks_other) simp

lemma keeps_checks_uuid4 [check_keeps]: "keeps_checks pool uuid4_hex"
  by (rule keeps_checks_other) (simp add: uuid4_hex_app)

lemma keeps_checks_uuid_int63 [check_keeps]: "keeps_checks pool uuid_int63"
  unfolding uuid_int63_def by (intro ck.keeps_rules check_keeps)

lemma keeps_checks_get [check_keeps]: "keeps_checks pool (get_route_check i)"
  by (rule keeps_checks_other) (simp add: get_route_check_def)

lemma keeps_checks_require [check_keeps]: "keeps_checks pool (require_check i)"
  unfolding require_check_def by (intro ck.keeps_rules check_keeps)

lemma keeps_checks_role [check_keeps]: "keeps_checks pool (require_role k)"
  unfolding require_role_def get_agent_role_def by (intro ck.keeps_rules)

lemma keeps_checks_guard [check_keeps]: "keeps_checks pool (static_guard c t)"
  unfolding static_guard_def by (intro ck.keeps_rules check_keeps)

lemma check_sound_vals:
  assumes "checks_ok pool w" and "check_sound pool r"
  shows "\<forall>x\<in>set (vals (dset (w_route_checks w) k r)). check_sound pool x"
proof
  fix x assume "x \<in> set (vals (dset (w_route_checks w) k r))"
  then obtain k' where "(k', x) \<in> set (dset (w_route_checks w) k r)" by auto
  then have "x = r \<or> x \<in> set (vals (w_route_checks w))"
    using in_dset_cases [of k' x k r "w_route_checks w"] assms(1)
    by (force simp: checks_ok_def checks_wf_def)
  then show "check_sound pool x" using assms by (auto simp: checks_ok_def)
qed

lemma checks_ok_look: "checks_ok pool w \<Longrightarrow> look_check w i = Some r \<Longrightarrow> check_sound pool r"
  using checks_wf_look [of w i r] by (force simp: checks_ok_def)

text \<open>An update is such a step when it keeps the soundness of the check it changes.\<close>

definition full_update :: "route_check_field list \<Rightarrow> instant \<Rightarrow> route_check_field list" where
  "full_update upd now = upd @ (if ''updated_at'' \<in> route_check_field_name ` set upd then [] else [FUpdatedAt now])"

lemma update_check_step:
  assumes "\<And>r. look_check w i = Some r \<Longrightarrow> check_sound pool r \<Longrightarrow> \<forall>a\<in>set expected. field_is a r \<Longrightarrow>
     check_sound pool (apply_fields (full_update upd (w_clock w)) r)"
  shows "checks_step pool w (snd (update_route_check i upd expected w))"
proof (cases "route_check_updates upd expected (w_clock w)")
  case (Inl x)
  then show ?thesis by (simp add: update_check_cas ck.R_refl)
next
  case (Inr u)
  have u: "u = full_update upd (w_clock w)"
    using route_check_updates_Inr [OF Inr] by (simp add: full_update_def)
  have "evolves look_check same_identity w (snd (cas_doc look_check put_check i p (apply_fields u) w))" for p
    by (rule keepsD, rule ih.keeps_cas) (simp add: same_identity_def updates_keep_identity [OF Inr])
  moreover have "checks_ok pool (snd (update_route_check i upd expected w))" if ok: "checks_ok pool w"
  proof -
    have "\<forall>x\<in>set (vals (w_route_checks (snd (update_route_check i upd expected w)))). check_sound pool x"
      using ok check_sound_vals [OF ok] assms checks_ok_look [OF ok]
      by (auto simp: update_check_cas Inr cas_doc_def put_check_def checks_ok_def u list_all_iff split: option.splits)
    then show ?thesis using ok update_route_check_wf by (simp add: checks_ok_def)
  qed
  ultimately show ?thesis
    by (simp add: checks_step_def update_check_cas Inr)
qed

lemma keeps_checks_update:
  assumes "\<And>r now. check_sound pool r \<Longrightarrow> \<forall>a\<in>set expected. field_is a r \<Longrightarrow>
     check_sound pool (apply_fields (full_update upd now) r)"
  shows "keeps_checks pool (update_route_check i upd expected)"
  by (rule keepsI, rule update_check_step) (rule assms)

lemma check_sound_unpassed: "rc_static_check_passed r \<noteq> Some True \<Longrightarrow> check_sound pool r"
  by (simp add: check_sound_def)

lemma keeps_checks_ensure:
  assumes "check_sound pool c"
  shows "keeps_checks pool (ensure_route_check c)"
proof (rule keepsI)
  fix w
  have ok: "checks_ok pool (snd (ensure_route_check c w))" if "checks_ok pool w"
    using that check_sound_vals [OF that assms] ensure_route_check_wf [of w c] validate_identity_state [of c w]
    by (cases "validate_route_check_identity c w")
       (auto simp: checks_ok_def ensure_route_check_def find_route_check_def bd_app andthen_app
         store_route_check_put put_check_def split: option.splits sum.splits)
  have "evolves look_check same_identity w (put_check (rc_check_id c) c w)"
    if "validate_route_check_identity c w = (Inr u, w1)" for u w1
    by (rule ih.evolves_put)
       (use that in \<open>auto simp: validate_route_check_identity_def look_check_def same_identity_def split: if_splits\<close>)
  then have "evolves look_check same_identity w (snd (ensure_route_check c w))"
    using validate_identity_state [of c w] ih.evolves_refl
    by (cases "validate_route_check_identity c w")
       (auto simp: ensure_route_check_def find_route_check_def bd_app andthen_app store_route_check_put
         split: option.splits sum.splits)
  then show "checks_step pool w (snd (ensure_route_check c w))"
    using ok by (simp add: checks_step_def)
qed

subsection \<open>Submission\<close>

lemma reset_sound: "check_sound pool (apply_fields (full_update (reset_fields (new_route_check i c a r m s d n) g now) t) x)"
  by (rule check_sound_unpassed) (simp add: apply_fields_def full_update_def reset_fields_def new_route_check_def)

lemma keeps_force_reset:
  "keeps_checks pool (force_reset n (new_route_check i c a route m s d t) r)"
  by (induction n arbitrary: r)
     (auto intro!: ck.keeps_rules check_keeps keeps_checks_update reset_sound)

lemma keeps_dispatch_submission:
  assumes "\<And>i g. keeps_checks pool (dispatch i g)"
  shows "keeps_checks pool (dispatch_submission dispatch r)"
  unfolding dispatch_submission_def
  by (intro ck.keeps_rules check_keeps keeps_checks_update assms)
     (auto simp: apply_fields_def full_update_def check_sound_def split: if_splits)

lemma keeps_create_or_reuse [check_keeps]:
  assumes "\<And>i g. keeps_checks pool (dispatch i g)"
  shows "keeps_checks pool (create_or_reuse dispatch app c force)"
  unfolding create_or_reuse_def
  by (auto intro!: ck.keeps_rules check_keeps keeps_force_reset keeps_dispatch_submission assms
        keeps_checks_ensure check_sound_unpassed simp: new_route_check_def Let_def split: prod.splits)

subsection \<open>Execution\<close>

text \<open>The parts of the environment are free to change the world along \<open>checks_step\<close>: other
  workers may submit, force, lease and finish checks meanwhile.\<close>

definition static_env_ok :: "static_env \<Rightarrow> bool" where
  "static_env_ok env \<longleftrightarrow>
     (\<forall>a b. keeps_checks (se_pool env) (se_resolve env a b)) \<and>
     (\<forall>a b. keeps_checks (se_pool env) (se_checkout env a b)) \<and>
     keeps_checks (se_pool env) (se_head env) \<and>
     (\<forall>r c. keeps_checks (se_pool env) (se_agent env r c)) \<and>
     (\<forall>c. keeps_checks (se_pool env) (se_diff env c))"

lemma keeps_static_run:
  assumes "static_env_ok env"
  shows "keeps_checks (se_pool env) (static_run env check token)"
  using assms unfolding static_run_def static_env_ok_def
  by (intro ck.keeps_rules check_keeps) blast+

lemma static_verdict_Inr:
  assumes "static_verdict pool check out diff moved = Inr upd"
  shows "(\<exists>p. upd = [FStaticStatus CkSucceeded, FStaticCheckPassed (Some True), FProbePayload (Some (VDict p)),
            FDiffList [], FStaticReportText None] \<and> mget out ''route_found'' = VBool True \<and> diff = [] \<and> \<not> moved \<and>
            validate_probe_payload pool (mget out ''probe_payload'') (Some (rc_require_route check)) = Inr p) \<or>
         (\<exists>ds rp. upd = [FStaticStatus CkFailed, FStaticCheckPassed (Some False), FProbePayload None,
            FDiffList ds, FStaticReportText rp])"
  using assms
  by (auto simp: static_verdict_def static_input_error_def Let_def rbind_Inr_iff split: if_splits sum.splits)

lemma static_verdict_sound:
  assumes "static_verdict pool check out diff moved = Inr upd" and "rc_require_route r = rc_require_route check"
  shows "check_sound pool (apply_fields (full_update (upd @ [FStaticRunToken None, FStaticLeaseExpiresAt None, FUpdatedAt n]) t) r)"
  using static_verdict_Inr [OF assms(1)] assms(2)
  by (auto simp: apply_fields_def full_update_def check_sound_def)

lemma static_failure_sound:
  "check_sound pool (apply_fields (full_update ([FStaticStatus CkFailed, FStaticCheckPassed (Some False),
     FStaticReportText x] @ [FStaticRunToken None, FStaticLeaseExpiresAt None, FUpdatedAt n]) t) r)"
  by (rule check_sound_unpassed) (simp add: apply_fields_def full_update_def)

lemma save_static_result_app:
  "save_static_result check upd w =
     (case update_route_check (rc_check_id check)
             (upd @ [FStaticRunToken None, FStaticLeaseExpiresAt None, FUpdatedAt (w_clock w)])
             [FGeneration (rc_generation check), FStaticRunToken (rc_static_run_token check), FStaticStatus CkRunning] w of
        (Inl e, w') \<Rightarrow> (Inl e, w')
      | (Inr s, w') \<Rightarrow> (Inr (case s of Some c \<Rightarrow> check_status_value (rc_static_status c) | None \<Rightarrow> ''superseded''), w'))"
  by (simp add: save_static_result_def bd_app split: prod.split sum.split)

lemma save_static_result_step:
  assumes "\<And>r n t. look_check w (rc_check_id check) = Some r \<Longrightarrow> check_sound pool (apply_fields
     (full_update (upd @ [FStaticRunToken None, FStaticLeaseExpiresAt None, FUpdatedAt n]) t) r)"
  shows "checks_step pool w (snd (save_static_result check upd w))"
proof -
  let ?u = "update_route_check (rc_check_id check)
      (upd @ [FStaticRunToken None, FStaticLeaseExpiresAt None, FUpdatedAt (w_clock w)])
      [FGeneration (rc_generation check), FStaticRunToken (rc_static_run_token check), FStaticStatus CkRunning] w"
  have "checks_step pool w (snd ?u)" by (rule update_check_step) (rule assms)
  then show ?thesis
    by (auto simp: save_static_result_app split: prod.split sum.split)
qed

lemma static_run_verdict:
  assumes "static_run env check token w = (Inr upd, w')"
  shows "\<exists>out diff moved. static_verdict (se_pool env) check out diff moved = Inr upd"
  using assms unfolding static_run_def
  by (auto simp: bd_app andthen_app split: option.splits if_splits prod.splits sum.splits)

lemma finish_static_step:
  assumes env: "static_env_ok env" and owned: "look_check w (rc_check_id owned) = Some owned"
  shows "checks_step (se_pool env) w (snd (finish_static env owned token w))"
proof -
  obtain r w1 where run: "static_run env owned token w = (r, w1)"
    by (cases "static_run env owned token w")
  have step: "checks_step (se_pool env) w w1"
    using keeps_run [OF keeps_static_run [OF env] run] .
  have route: "rc_require_route c = rc_require_route owned" if "look_check w1 (rc_check_id owned) = Some c" for c
  proof -
    obtain c' where "look_check w1 (rc_check_id owned) = Some c'" "same_identity owned c'"
      using step owned evolvesD unfolding checks_step_def by metis
    then show ?thesis
      using that by (auto simp: same_identity_def route_check_identity_def route_check_key_def)
  qed
  have "checks_step (se_pool env) w1 (snd (finish_static env owned token w))"
  proof (cases r)
    case (Inl e)
    have "checks_step (se_pool env) w1 (snd (save_static_result owned
        [FStaticStatus CkFailed, FStaticCheckPassed (Some False), FStaticReportText x] w1))" for x
      by (rule save_static_result_step) (rule static_failure_sound)
    then show ?thesis using run Inl ck.R_refl by (auto simp: finish_static_def)
  next
    case (Inr upd)
    then obtain out diff moved where v: "static_verdict (se_pool env) owned out diff moved = Inr upd"
      using static_run_verdict run by blast
    have "checks_step (se_pool env) w1 (snd (save_static_result owned upd w1))"
      by (rule save_static_result_step, rule static_verdict_sound [OF v]) (rule route)
    then show ?thesis using run Inr by (simp add: finish_static_def)
  qed
  then show ?thesis using step ck.R_trans by blast
qed

lemma lease_update_sound:
  assumes "check_sound pool r" "field_is (FStaticStatus s) r" "pending_static s"
  shows "check_sound pool (apply_fields (full_update [FStaticStatus CkRunning, FStaticRunToken x,
     FStaticLeaseExpiresAt y, FUpdatedAt z] t) r)"
proof (rule check_sound_unpassed)
  have "rc_static_status (assign_field (FStaticStatus s) r) = s" by simp
  then have "rc_static_status r = s" using assms(2) by (simp only: field_is_def)
  then have "rc_static_check_passed r \<noteq> Some True"
    using assms(1,3) by (auto simp: check_sound_def pending_static_def)
  then show "rc_static_check_passed (apply_fields (full_update [FStaticStatus CkRunning, FStaticRunToken x,
      FStaticLeaseExpiresAt y, FUpdatedAt z] t) r) \<noteq> Some True"
    by (simp add: apply_fields_def full_update_def)
qed

lemma static_lease_app:
  "static_lease sec check body w =
     (if \<not> pending_static (rc_static_status check) \<or> live_static_lease check (w_clock w) then body None w
      else
        (let token = w_uuid w (w_uuid_next w); w1 = w\<lparr>w_uuid_next := Suc (w_uuid_next w)\<rparr> in
         case update_route_check (rc_check_id check)
                [FStaticStatus CkRunning, FStaticRunToken (Some token),
                 FStaticLeaseExpiresAt (Some (w_clock w + sec)), FUpdatedAt (w_clock w)]
                [FGeneration (rc_generation check), FStaticStatus (rc_static_status check),
                 FStaticRunToken (rc_static_run_token check),
                 FStaticLeaseExpiresAt (rc_static_lease_expires_at check)] w1 of
           (Inl e, w2) \<Rightarrow> (Inl e, w2)
         | (Inr owned, w2) \<Rightarrow> body (map_option (\<lambda>c. (c, token)) owned) w2))"
  by (simp add: static_lease_def bd_app uuid4_hex_app Let_def)

lemma execute_static_app:
  "execute_static env i g w =
     (case look_check w i of
        None \<Rightarrow> (Inr ''deleted'', w)
      | Some check \<Rightarrow>
          if (case g of None \<Rightarrow> False | Some g \<Rightarrow> rc_generation check \<noteq> g) then (Inr ''superseded'', w)
          else static_lease (se_lease_seconds env) check (\<lambda>lease.
            case lease of
              None \<Rightarrow> bd (require_check i) (\<lambda>c. ret (check_status_value (rc_static_status c)))
            | Some (owned, token) \<Rightarrow> finish_static env owned token) w)"
  by (simp add: execute_static_def bd_app get_route_check_def look_check_def split: option.split)

lemma apply_fields_check_id:
  "route_check_updates upd e now = Inr u \<Longrightarrow> rc_check_id (apply_fields u r) = rc_check_id r"
  using updates_keep_identity [of upd e now u r] by (simp add: route_check_identity_def)

lemma keeps_execute_static:
  assumes env: "static_env_ok env" and wf: "checks_wf w"
  shows "checks_step (se_pool env) w (snd (execute_static env i g w))"
proof -
  let ?body = "\<lambda>lease. case lease of
      None \<Rightarrow> bd (require_check i) (\<lambda>c. ret (check_status_value (rc_static_status c)))
    | Some (owned, token) \<Rightarrow> finish_static env owned token"
  have none: "checks_step (se_pool env) v (snd (?body None v))" for v
    using keepsD [of "checks_step (se_pool env)" "?body None" v]
    by (simp add: ck.keeps_rules check_keeps)
  have "checks_step (se_pool env) w (snd (static_lease (se_lease_seconds env) check ?body w))"
    if l: "look_check w i = Some check" for check
  proof (cases "\<not> pending_static (rc_static_status check) \<or> live_static_lease check (w_clock w)")
    case True
    then show ?thesis using none by (simp add: static_lease_app)
  next
    case False
    let ?w1 = "w\<lparr>w_uuid_next := Suc (w_uuid_next w)\<rparr>"
    let ?upd = "[FStaticStatus CkRunning, FStaticRunToken (Some (w_uuid w (w_uuid_next w))),
         FStaticLeaseExpiresAt (Some (w_clock w + se_lease_seconds env)), FUpdatedAt (w_clock w)]"
    let ?exp = "[FGeneration (rc_generation check), FStaticStatus (rc_static_status check),
         FStaticRunToken (rc_static_run_token check), FStaticLeaseExpiresAt (rc_static_lease_expires_at check)]"
    have cid: "rc_check_id check = i"
      using l wf checks_wf_look checks_wf_id by blast
    obtain r w2 where u: "update_route_check i ?upd ?exp ?w1 = (r, w2)"
      by (cases "update_route_check i ?upd ?exp ?w1")
    have step1: "checks_step (se_pool env) w ?w1"
      by (rule checks_step_unchanged) simp
    have step2: "checks_step (se_pool env) ?w1 w2"
      using update_check_step [of ?w1 i "se_pool env" ?exp ?upd] lease_update_sound [of "se_pool env"] False u
      by (metis list.set_intros(1,2) snd_conv)
    have own: "look_check w2 (rc_check_id c) = Some c" if r: "r = Inr (Some c)" for c
    proof -
      obtain us where us: "route_check_updates ?upd ?exp (w_clock ?w1) = Inr us"
        "cas_doc look_check put_check i (\<lambda>r. list_all (\<lambda>a. field_is a r) ?exp) (apply_fields us) ?w1 = (Inr (Some c), w2)"
        using u r by (auto simp: update_check_cas split: sum.splits)
      obtain v where "look_check ?w1 i = Some v" "c = apply_fields us v" "look_check w2 i = Some c"
        using checks.cas_result [OF us(2)] by auto
      then have "v = check" "rc_check_id c = rc_check_id v"
        using l apply_fields_check_id [OF us(1)] by (auto simp: look_check_def)
      then show ?thesis using cid \<open>look_check w2 i = Some c\<close> by simp
    qed
    have "checks_step (se_pool env) w2 (snd (static_lease (se_lease_seconds env) check ?body w))"
    proof (cases r)
      case (Inl e)
      then show ?thesis using u False cid ck.R_refl by (simp add: static_lease_app Let_def)
    next
      case (Inr c)
      show ?thesis
      proof (cases c)
        case None
        then show ?thesis using u False cid Inr none [of w2] by (simp add: static_lease_app Let_def)
      next
        case (Some owned)
        then show ?thesis
          using u False cid Inr finish_static_step [OF env own] by (simp add: static_lease_app Let_def)
      qed
    qed
    then show ?thesis using step1 step2 ck.R_trans by blast
  qed
  then show ?thesis
    using ck.R_refl by (auto simp: execute_static_app split: option.split)
qed

section \<open>The gate\<close>

lemma require_role_app:
  "require_role k w = (case dget (w_agent_roles w) k of
     None \<Rightarrow> (Inl (Exn KeyError ''Agent role not found''), w) | Some r \<Rightarrow> (Inr r, w))"
  by (simp add: require_role_def get_agent_role_def bd_app split: option.split)

lemma require_static_pass_state: "snd (require_static_pass app c g w) = w"
  by (simp add: require_static_pass_def gate_refused_def bd_app require_role_app find_route_check_def
      split: option.splits)

lemma require_static_pass_Inr:
  "fst (require_static_pass app c g w) = Inr r \<longleftrightarrow>
   (\<exists>route role. str_or (ap_require_route app) None = Some route \<and> dget (w_agent_roles w) StaticRole = Some role \<and>
      lookup_route_check w (ap_appid app, c, route, ar_version role) = Some r \<and>
      rc_static_check_passed r = Some True \<and> rc_static_status r = CkSucceeded \<and>
      (g = None \<or> g = Some (rc_generation r)))"
  by (auto simp: require_static_pass_def gate_refused_def bd_app require_role_app find_route_check_def
      split: option.splits if_splits)

lemma verify_build_gate_state: "snd (verify_build_gate b app w) = w"
  using require_static_pass_state [of app _ _ w]
  by (auto simp: verify_build_gate_def gate_refused_def bd_app split: option.splits prod.splits sum.splits)
     (metis snd_conv)+

lemma verify_build_gate_Inr:
  assumes "fst (verify_build_gate b app w) = Inr r"
  shows "bj_appid b = ap_appid app \<and> bj_require_route_snapshot b = ap_require_route app \<and>
    bj_static_check_passed b = Some True \<and> bj_route_check_id b = Some (rc_check_id r) \<and>
    bj_static_agent_role_version b = Some (rc_static_agent_role_version r) \<and>
    (\<exists>c g. bj_git_commit_sha b = Some c \<and> bj_route_check_generation b = Some g \<and>
       fst (require_static_pass app c (Some g) w) = Inr r)"
proof -
  obtain g c where gc: "bj_route_check_generation b = Some g" "str_or (bj_git_commit_sha b) None = Some c"
    using assms by (auto simp: verify_build_gate_def gate_refused_def split: option.splits)
  then have c: "bj_git_commit_sha b = Some c"
    by (auto simp: str_or_def split: option.splits if_splits)
  show ?thesis
    using assms gc c
    by (cases "require_static_pass app c (Some g) w"; cases "fst (require_static_pass app c (Some g) w)")
       (auto simp: verify_build_gate_def gate_refused_def bd_app split: if_splits)
qed

lemma lookup_route_check_look:
  assumes "checks_wf w" "lookup_route_check w key = Some r"
  shows "look_check w (rc_check_id r) = Some r \<and> route_check_key r = key"
proof -
  obtain k where k: "(k, r) \<in> set (w_route_checks w)" "route_check_key r = key"
    using lookup_route_check_Some [OF assms(2)] by blast
  then have "rc_check_id r = k" using checks_wf_id [OF assms(1)] by blast
  then show ?thesis using k checks_wf_look [OF assms(1)] by blast
qed

section \<open>Properties\<close>

text \<open>
  C9: what a build that passes the gate can rely on. The gate changes nothing, and the check it
  returns is stored, belongs to the build's application, commit and required route and to the
  current version of the static role, is of the generation and id the build froze, has passed,
  and carries a probe request validation accepted for that route.
\<close>

theorem build_gate_sound:
  assumes "checks_ok pool w" and "fst (verify_build_gate b app w) = Inr r"
  shows "snd (verify_build_gate b app w) = w \<and> look_check w (rc_check_id r) = Some r \<and>
    rc_app_id r = bj_appid b \<and> Some (rc_commit_id r) = bj_git_commit_sha b \<and>
    Some (rc_require_route r) = bj_require_route_snapshot b \<and>
    (\<exists>role. dget (w_agent_roles w) StaticRole = Some role \<and> rc_static_agent_role_version r = ar_version role) \<and>
    Some (rc_generation r) = bj_route_check_generation b \<and> Some (rc_check_id r) = bj_route_check_id b \<and>
    rc_static_check_passed r = Some True \<and> rc_static_status r = CkSucceeded \<and>
    (\<exists>v p. validate_probe_payload pool v (Some (rc_require_route r)) = Inr p \<and> rc_probe_payload r = Some (VDict p))"
proof -
  obtain c g where b: "bj_appid b = ap_appid app" "bj_require_route_snapshot b = ap_require_route app"
    "bj_route_check_id b = Some (rc_check_id r)" "bj_git_commit_sha b = Some c"
    "bj_route_check_generation b = Some g" "fst (require_static_pass app c (Some g) w) = Inr r"
    using verify_build_gate_Inr [OF assms(2)] by blast
  obtain route role where p: "str_or (ap_require_route app) None = Some route"
    "dget (w_agent_roles w) StaticRole = Some role"
    "lookup_route_check w (ap_appid app, c, route, ar_version role) = Some r"
    "rc_static_check_passed r = Some True" "rc_static_status r = CkSucceeded" "g = rc_generation r"
    using b(6) by (auto simp: require_static_pass_Inr)
  have l: "look_check w (rc_check_id r) = Some r" "route_check_key r = (ap_appid app, c, route, ar_version role)"
    using lookup_route_check_look p(3) assms(1) by (auto simp: checks_ok_def)
  have "ap_require_route app = Some route"
    using p(1) by (auto simp: str_or_def split: option.splits if_splits)
  moreover have "check_sound pool r" using checks_ok_look [OF assms(1) l(1)] .
  ultimately show ?thesis
    using b p l verify_build_gate_state [of b app w] by (auto simp: route_check_key_def check_sound_def)
qed

definition sample_role :: "role_key \<Rightarrow> agent_role" where
  "sample_role k = \<lparr>ar_role_key = k, ar_prompt = ''p'', ar_output_schema = VDict [], ar_runtime_config = [],
     ar_version = 2, ar_created_at = 0, ar_updated_at = 0\<rparr>"

definition sample_app :: user_app where
  "sample_app = \<lparr>ap_appid = ''shop'', ap_name = ''Shop'', ap_repository_url = ''https://git/x'', ap_git_ref = ''main'',
     ap_environment_ciphertext = [], ap_environment_keys = [], ap_compose = None, ap_compose_source_file = None,
     ap_compose_source_commit = None, ap_components = [], ap_require_route = Some ''/up'', ap_created_at = 0,
     ap_updated_at = 0\<rparr>"

definition sample_check :: route_check where
  "sample_check = (new_route_check 1 ''c1'' sample_app ''/up'' ''abc'' (sample_role StaticRole) (sample_role DynamicRole) 0)
     \<lparr>rc_static_status := CkSucceeded, rc_static_check_passed := Some True,
      rc_probe_payload := Some (VDict (projr (validate_probe_payload (\<lambda>_. None) sample_payload (Some ''/up''))))\<rparr>"

definition gate_world :: "route_check \<Rightarrow> world" where
  "gate_world c = (empty_world str_nat 7)\<lparr>w_route_checks := [(rc_check_id c, c)],
     w_agent_roles := [(StaticRole, sample_role StaticRole), (DynamicRole, sample_role DynamicRole)]\<rparr>"

definition gated_build :: build_job where
  "gated_build = (sample_build QUEUED)\<lparr>bj_git_commit_sha := Some ''abc'', bj_route_check_id := Some ''c1'',
     bj_route_check_generation := Some 1, bj_require_route_snapshot := Some ''/up'',
     bj_static_agent_role_version := Some 2, bj_static_check_passed := Some True\<rparr>"

lemma sample_check_key: "route_check_key sample_check = (''shop'', ''abc'', ''/up'', 2)"
  by (simp add: sample_check_def new_route_check_def route_check_key_def sample_app_def sample_role_def
      lower_def lower_char_def is_upper_def in_range_def code_def)

lemma sample_check_sound: "check_sound (\<lambda>_. None) sample_check"
proof -
  obtain p where "validate_probe_payload (\<lambda>_. None) sample_payload (Some ''/up'') = Inr p"
    using sample_payload_valid by (cases "validate_probe_payload (\<lambda>_. None) sample_payload (Some ''/up'')") simp_all
  then show ?thesis by (auto simp: check_sound_def sample_check_def new_route_check_def)
qed

lemma gate_world_ok: "checks_ok (\<lambda>_. None) (gate_world sample_check)"
  using sample_check_sound by (simp add: checks_ok_def checks_wf_def gate_world_def)

theorem build_gate_sound_witness:
  "fst (verify_build_gate gated_build sample_app (gate_world sample_check)) = Inr sample_check \<and>
   (\<exists>v p. validate_probe_payload (\<lambda>_. None) v (Some ''/up'') = Inr p)"
proof -
  have "fst (verify_build_gate gated_build sample_app (gate_world sample_check)) = Inr sample_check"
    using sample_check_key
    by (simp add: verify_build_gate_def gated_build_def sample_build_def new_build_job_def str_or_def
        require_static_pass_def bd_app require_role_app gate_world_def find_route_check_def lookup_route_check_def
        sample_app_def sample_role_def sample_check_def new_route_check_def)
  moreover have "rc_require_route sample_check = ''/up''"
    by (simp add: sample_check_def new_route_check_def)
  ultimately show ?thesis using build_gate_sound [OF gate_world_ok] by metis
qed

lemma keeps_recover_checks:
  assumes "\<And>i g. keeps_checks pool (dispatch i g)"
  shows "keeps_checks pool (recover_checks dispatch cs)"
proof (induction cs)
  case Nil
  show ?case unfolding recover_checks.simps by (rule ck.keeps_ret)
next
  case (Cons c cs)
  show ?case unfolding recover_checks.simps by (intro ck.keeps_rules check_keeps assms Cons.IH)
qed

lemma delete_latest_ok:
  assumes "checks_ok pool w"
  shows "checks_ok pool (snd (delete_latest a c w))"
proof -
  have "checks_ok pool (snd (delete_route_check a c r v w))" for r v
  proof -
    have "set (w_route_checks (snd (delete_route_check a c r v w))) \<subseteq> set (w_route_checks w)"
      by (auto simp: delete_route_check_def Let_def dest: subsetD [OF fold_ddel_subset])
    then show ?thesis
      using assms delete_route_check_wf [of w a c r v] by (fastforce simp: checks_ok_def)
  qed
  then show ?thesis
    using assms by (simp add: delete_latest_def get_app_def bd_app require_role_app split: option.split)
qed


definition quiet_env :: static_env where
  "quiet_env = \<lparr>se_lease_seconds = 60, se_pool = (\<lambda>_. None), se_resolve = (\<lambda>_ r. ret r),
     se_checkout = (\<lambda>_ _. ret ()), se_head = ret ''abc'', se_agent = (\<lambda>_ _. ret []), se_diff = (\<lambda>_. ret [])\<rparr>"


text \<open>
  a superseded execution cannot overwrite a newer one. When the stored check has another
  generation, another run token or is no longer running, saving the result of an old run reports
  it as superseded and changes nothing.
\<close>

lemma superseded_result_is_dropped:
  assumes "look_check w (rc_check_id old) = Some c"
    and "rc_generation c \<noteq> rc_generation old \<or> rc_static_run_token c \<noteq> rc_static_run_token old \<or>
         rc_static_status c \<noteq> CkRunning"
    and "set (map route_check_field_name upd) \<subseteq> set route_check_model_fields - set ROUTE_CHECK_IDENTITY_FIELDS"
  shows "save_static_result old upd w = (Inr ''superseded'', w)"
proof -
  let ?upd = "upd @ [FStaticRunToken None, FStaticLeaseExpiresAt None, FUpdatedAt (w_clock w)]"
  let ?exp = "[FGeneration (rc_generation old), FStaticRunToken (rc_static_run_token old), FStaticStatus CkRunning]"
  have miss: "\<not> list_all (\<lambda>a. field_is a c) ?exp"
  proof
    assume "list_all (\<lambda>a. field_is a c) ?exp"
    then have e: "\<forall>a\<in>set ?exp. assign_field a c = c" by (simp only: list_all_iff field_is_def)
    then have "rc_generation (assign_field (FGeneration (rc_generation old)) c) = rc_generation c"
      "rc_static_run_token (assign_field (FStaticRunToken (rc_static_run_token old)) c) = rc_static_run_token c"
      "rc_static_status (assign_field (FStaticStatus CkRunning) c) = rc_static_status c"
      by (simp_all del: assign_field.simps)
    then show False using assms(2) by simp
  qed
  have "\<exists>u. route_check_updates ?upd ?exp (w_clock w) = Inr u"
    using assms(3)
    by (auto simp: route_check_updates_def rbind_Inr_iff rfor_Inr_iff route_check_model_fields_def
        ROUTE_CHECK_IDENTITY_FIELDS_def subset_iff)
  then have "update_route_check (rc_check_id old) ?upd ?exp w = (Inr None, w)"
    using checks.cas_miss [of w "rc_check_id old" c "\<lambda>r. list_all (\<lambda>a. field_is a r) ?exp", OF assms(1) miss]
    by (auto simp: update_check_cas)
  then show ?thesis by (simp add: save_static_result_app)
qed

text \<open>
  submitting the same commit again without force reuses the stored check. Nothing is
  dispatched and nothing but the supply of identifiers changes; the answer is the stored check
  with its cached verdict.
\<close>

lemma submission_is_idempotent:
  assumes "str_or (ap_require_route app) None = Some route" and "ap_repository_url app \<noteq> []"
    and "fullmatch SHA_RX c"
    and "dget (w_agent_roles w) StaticRole = Some sr" and "dget (w_agent_roles w) DynamicRole = Some dr"
    and "lookup_route_check w (ap_appid app, lower c, route, ar_version sr) = Some r"
  shows "create_or_reuse dispatch app c False w =
    (Inr (cached_submission r), w\<lparr>w_uuid_next := Suc (Suc (w_uuid_next w))\<rparr>)"
proof -
  have "ensure_route_check (new_route_check i ci app route c sr dr n) (w\<lparr>w_uuid_next := k\<rparr>) =
      (Inr (r, False), w\<lparr>w_uuid_next := k\<rparr>)" for i ci n k
    using assms(6)
    by (simp add: ensure_route_check_def bd_app find_route_check_def new_route_check_def lookup_route_check_def)
  then show ?thesis
    using assms(1-5)
    by (simp add: create_or_reuse_def bd_app require_role_app uuid4_hex_app uuid_int63_def Let_def)
qed

end
