(* ===== verification/Redaction.thy ===== *)
theory Redaction
  imports RouteProbes
begin

text \<open>
  The text processing of \<open>orchestrator/dynamic_checks.py\<close>: the secrets of a probe request, the
  redaction of results and logs, the canonical JSON by which a retried request is compared with
  the original one, and \<open>failure_logs_payload\<close> of \<open>jenkins_diagnostics.py\<close>. Texts are ASCII.
\<close>

section \<open>Text replacement\<close>

text \<open>\<open>s.replace(old, new)\<close> for a non-empty \<open>old\<close>: matches from the left, without overlap.\<close>

function replace_all :: "string \<Rightarrow> string \<Rightarrow> string \<Rightarrow> string" where
  "replace_all old new s =
     (if old = [] then s
      else case s of
        [] \<Rightarrow> []
      | c # rest \<Rightarrow> if starts_with s old then new @ replace_all old new (drop (length old) s)
                     else c # replace_all old new rest)"
  by pat_completeness auto
termination
  by (relation "measure (\<lambda>(_, _, s). length s)") auto

declare replace_all.simps [simp del]

definition REDACTED :: string where "REDACTED = ''[REDACTED]''"

text \<open>The length of the key part of a match of
  \<open>(?i)(bearer\s+)[A-Za-z0-9._~+/=-]+\<close> at the start of the text, and of the whole match.\<close>

definition bearer_match :: "string \<Rightarrow> (nat \<times> nat) option" where
  "bearer_match s =
     (let rest = drop 6 s; blanks = takeWhile is_space rest;
          token = takeWhile (\<lambda>c. is_alnum c \<or> one_of ''._~+/=-'' c) (drop (length blanks) rest)
      in if lower (take 6 s) = ''bearer'' \<and> blanks \<noteq> [] \<and> token \<noteq> []
         then Some (6 + length blanks, 6 + length blanks + length token) else None)"

definition secret_words :: "string list" where
  "secret_words = [''password'', ''passwd'', ''secret'', ''api_key'', ''api-key'', ''apikey'',
     ''access_token'', ''access-token'', ''accesstoken'']"

text \<open>\<open>(?i)((?:password|passwd|secret|api[_-]?key|access[_-]?token)\s*[=:]\s*)[^\s,;]+\<close>.\<close>

definition assignment_match :: "string \<Rightarrow> (nat \<times> nat) option" where
  "assignment_match s =
     (case find (\<lambda>w. starts_with (lower s) w) secret_words of
        None \<Rightarrow> None
      | Some w \<Rightarrow>
          (let b1 = takeWhile is_space (drop (length w) s);
               r1 = drop (length w + length b1) s
           in case r1 of
                [] \<Rightarrow> None
              | c # r2 \<Rightarrow>
                  (let b2 = takeWhile is_space r2;
                       v = takeWhile (\<lambda>c. \<not> is_space c \<and> c \<noteq> CHR '','' \<and> c \<noteq> CHR '';'') (drop (length b2) r2);
                       k = length w + length b1 + 1 + length b2
                   in if (c = CHR ''='' \<or> c = CHR '':'') \<and> v \<noteq> [] then Some (k, k + length v) else None)))"

text \<open>\<open>re.sub(pattern, r"\1[REDACTED]", s)\<close>.\<close>

function sub_matches :: "(string \<Rightarrow> (nat \<times> nat) option) \<Rightarrow> string \<Rightarrow> string" where
  "sub_matches m s =
     (case s of
        [] \<Rightarrow> []
      | c # rest \<Rightarrow>
          (case m s of
             None \<Rightarrow> c # sub_matches m rest
           | Some (k, n) \<Rightarrow> take k s @ REDACTED @ sub_matches m (drop (max 1 n) s)))"
  by pat_completeness auto
termination
  by (relation "measure (\<lambda>(_, s). length s)") auto

declare sub_matches.simps [simp del]

section \<open>The secrets of a request\<close>

definition sensitive_key :: "string \<Rightarrow> bool" where
  "sensitive_key k \<longleftrightarrow> list_ex (contains (lower k))
     [''authorization'', ''cookie'', ''token'', ''key'', ''secret'', ''password'', ''credential'']"

definition ascii_text :: "string \<Rightarrow> bool" where
  "ascii_text s \<longleftrightarrow> (\<forall>c\<in>set s. code c < 128)"

definition authorization_secrets :: "string \<Rightarrow> string list" where
  "authorization_secrets v =
     (case split_once (CHR '' '') v of
        (kind, Some credential) \<Rightarrow>
          credential #
          (if lower kind = ''basic'' then
             (case b64decode credential of
                Some decoded \<Rightarrow>
                  if \<not> ascii_text decoded then []
                  else decoded # (case split_once (CHR '':'') decoded of (_, Some p) \<Rightarrow> [p] | _ \<Rightarrow> [])
              | None \<Rightarrow> [])
           else [])
      | _ \<Rightarrow> [])"

definition item_secrets :: "value \<Rightarrow> value \<Rightarrow> string list" where
  "item_secrets k v =
     (if \<not> is_str k \<or> \<not> sensitive_key (the_str k) then []
      else case v of
        VStr s \<Rightarrow> s # (if lower (the_str k) = ''authorization'' then authorization_secrets s else [])
      | VInt i \<Rightarrow> [str_int i]
      | VFloat f \<Rightarrow> [repr_float f]
      | _ \<Rightarrow> [])"

function secrets_in :: "value \<Rightarrow> string list"
  and secrets_in_list :: "value list \<Rightarrow> string list"
  and secrets_in_items :: "mapping \<Rightarrow> string list" where
  "secrets_in (VDict d) = secrets_in_items d"
| "secrets_in (VList xs) = secrets_in_list xs"
| "secrets_in VNull = []"
| "secrets_in (VBool _) = []"
| "secrets_in (VInt _) = []"
| "secrets_in (VFloat _) = []"
| "secrets_in (VStr _) = []"
| "secrets_in_list [] = []"
| "secrets_in_list (x # xs) = secrets_in x @ secrets_in_list xs"
| "secrets_in_items [] = []"
| "secrets_in_items ((k, v) # d) = item_secrets k v @ secrets_in v @ secrets_in_items d"
  by pat_completeness auto
termination
  by (relation "measure (case_sum size (case_sum (size_list size) (size_list (size_prod size size))))")
     auto

definition payload_secrets :: "value \<Rightarrow> string list" where
  "payload_secrets v = remdups (filter (\<lambda>s. s \<noteq> []) (secrets_in v))"

section \<open>Redaction\<close>

definition base64_char :: "nat \<Rightarrow> char" where
  "base64_char n =
     (if n < 26 then char_of (65 + n) else if n < 52 then char_of (71 + n)
      else if n < 62 then char_of (n - 4) else if n = 62 then CHR ''+'' else CHR ''/'')"

fun b64_quanta :: "nat list \<Rightarrow> string" where
  "b64_quanta (a # b # c # r) =
     [base64_char (a div 4), base64_char (a mod 4 * 16 + b div 16), base64_char (b mod 16 * 4 + c div 64),
      base64_char (c mod 64)] @ b64_quanta r"
| "b64_quanta [a, b] =
     [base64_char (a div 4), base64_char (a mod 4 * 16 + b div 16), base64_char (b mod 16 * 4), CHR ''='']"
| "b64_quanta [a] = [base64_char (a div 4), base64_char (a mod 4 * 16), CHR ''='', CHR ''='']"
| "b64_quanta [] = []"

definition b64encode :: "string \<Rightarrow> string" where
  "b64encode s = b64_quanta (map code s)"

definition redact_bytes :: "string list \<Rightarrow> string \<Rightarrow> string" where
  "redact_bytes secrets decoded =
     fold (\<lambda>secret d. if 4 \<le> length secret then replace_all secret REDACTED d
                      else if d = secret then REDACTED else d) secrets decoded"

definition scrub_base64 :: "string list \<Rightarrow> string \<Rightarrow> string" where
  "scrub_base64 secrets item =
     (case b64decode item of None \<Rightarrow> item | Some decoded \<Rightarrow> b64encode (redact_bytes secrets decoded))"

definition scrub_text :: "string list \<Rightarrow> string \<Rightarrow> string" where
  "scrub_text secrets item =
     sub_matches assignment_match (sub_matches bearer_match
       (fold (\<lambda>secret s. if secret \<noteq> [] then replace_all secret REDACTED s else s) secrets item))"

function scrub :: "string list \<Rightarrow> value \<Rightarrow> value"
  and scrub_list :: "string list \<Rightarrow> value list \<Rightarrow> value list"
  and scrub_items :: "string list \<Rightarrow> mapping \<Rightarrow> mapping \<Rightarrow> mapping" where
  "scrub ss (VStr s) = VStr (scrub_text ss s)"
| "scrub ss (VDict d) = VDict (scrub_items ss d [])"
| "scrub ss (VList xs) = VList (scrub_list ss xs)"
| "scrub ss VNull = VNull"
| "scrub ss (VBool b) = VBool b"
| "scrub ss (VInt i) = VInt i"
| "scrub ss (VFloat f) = VFloat f"
| "scrub_list ss [] = []"
| "scrub_list ss (x # xs) = scrub ss x # scrub_list ss xs"
| "scrub_items ss [] acc = acc"
| "scrub_items ss ((k, v) # d) acc =
     scrub_items ss d (dset acc (VStr (py_str k))
       (if k = VStr ''body_base64'' \<and> is_str v then VStr (scrub_base64 ss (the_str v)) else scrub ss v))"
  by pat_completeness auto
termination
  by (relation "measure (case_sum (\<lambda>(_, v). size v) (case_sum (\<lambda>(_, xs). size_list size xs)
        (\<lambda>(_, d, _). size_list (size_prod size size) d)))") auto

text \<open>\<open>sorted(set(secrets), key=len, reverse=True)\<close>; secrets of one length come in the order
  given.\<close>

definition secret_order :: "string list \<Rightarrow> string list" where
  "secret_order ss = sort_key (\<lambda>s. - int (length s)) (remdups ss)"

section \<open>Canonical JSON\<close>

text \<open>\<open>sort_keys=True\<close>: every object with its keys in order.\<close>

function sorted_keys :: "value \<Rightarrow> value"
  and sorted_keys_list :: "value list \<Rightarrow> value list"
  and sorted_keys_items :: "mapping \<Rightarrow> mapping" where
  "sorted_keys (VDict d) = VDict (sort_key (\<lambda>(k, _). the_str k) (sorted_keys_items d))"
| "sorted_keys (VList xs) = VList (sorted_keys_list xs)"
| "sorted_keys VNull = VNull"
| "sorted_keys (VBool b) = VBool b"
| "sorted_keys (VInt i) = VInt i"
| "sorted_keys (VFloat f) = VFloat f"
| "sorted_keys (VStr s) = VStr s"
| "sorted_keys_list [] = []"
| "sorted_keys_list (x # xs) = sorted_keys x # sorted_keys_list xs"
| "sorted_keys_items [] = []"
| "sorted_keys_items ((k, v) # d) = (k, sorted_keys v) # sorted_keys_items d"
  by pat_completeness auto
termination
  by (relation "measure (case_sum size (case_sum (size_list size) (size_list (size_prod size size))))")
     auto

definition canonical_json :: "value \<Rightarrow> string option" where
  "canonical_json v = json_text (sorted_keys v)"

section \<open>Failure logs\<close>

definition DEFAULT_EXCERPT_MAX_CHARS :: nat where "DEFAULT_EXCERPT_MAX_CHARS = 8000"

text \<open>The one-character ellipsis, represented by a character outside ASCII.\<close>

definition ellipsis :: char where "ellipsis = CHR 0x85"

definition clip :: "nat \<Rightarrow> string \<Rightarrow> string" where
  "clip n s = (if length s \<le> n then s else take (n - 1) s @ [ellipsis])"

fun trim_logs :: "nat \<Rightarrow> mapping \<Rightarrow> mapping \<Rightarrow> mapping" where
  "trim_logs remaining [] acc = acc"
| "trim_logs remaining ((k, v) # d) acc =
     (if remaining = 0 then acc
      else (let chunk = clip remaining (the_str v)
            in trim_logs (remaining - length chunk) d (mput acc (py_str k) (VStr chunk))))"

definition failure_logs_payload :: "string \<Rightarrow> string option \<Rightarrow> mapping \<Rightarrow> nat \<Rightarrow> mapping" where
  "failure_logs_payload source raw_log_excerpt container_logs max_chars =
     (let p1 = [(VStr ''source'', VStr source)];
          p2 = (case raw_log_excerpt of
                  Some (c # s) \<Rightarrow> mput p1 ''raw_log_excerpt'' (VStr (clip max_chars (c # s)))
                | _ \<Rightarrow> p1)
      in if container_logs \<noteq> [] then mput p2 ''container_logs'' (VDict (trim_logs max_chars container_logs [])) else p2)"

section \<open>Lemmas\<close>

lemma base64_value_char: "n < 64 \<Longrightarrow> base64_value (base64_char n) = Some n"
proof -
  assume "n < 64"
  moreover have "code (CHR ''+'') = 43" "code (CHR ''/'') = 47" by (simp_all add: code_def)
  ultimately show ?thesis
    unfolding base64_value_def base64_char_def
    by (auto simp: is_upper_def is_lower_def is_digit_def in_range_def)
qed

lemma base64_char_not_pad: "n < 64 \<Longrightarrow> base64_char n \<noteq> CHR ''=''"
  using base64_value_char [of n] by (auto simp: base64_value_def is_upper_def is_lower_def is_digit_def in_range_def code_def)

lemma b64_quanta_shape:
  assumes "\<forall>x\<in>set xs. x < 256"
  shows "\<exists>vs pad. b64_quanta xs = map base64_char vs @ pad \<and> (\<forall>v\<in>set vs. v < 64) \<and>
    set pad \<subseteq> {CHR ''=''} \<and> length pad \<le> 2 \<and> base64_groups vs = xs \<and> length (b64_quanta xs) mod 4 = 0"
  using assms
proof (induction xs rule: b64_quanta.induct)
  case (1 a b c r)
  then obtain vs pad where IH: "b64_quanta r = map base64_char vs @ pad" "\<forall>v\<in>set vs. v < 64"
    "set pad \<subseteq> {CHR ''=''}" "length pad \<le> 2" "base64_groups vs = r" "length (b64_quanta r) mod 4 = 0"
    by auto
  let ?vs = "a div 4 # (a mod 4 * 16 + b div 16) # (b mod 16 * 4 + c div 64) # (c mod 64) # vs"
  have "a < 256" "b < 256" "c < 256" using 1 by auto
  then have "\<forall>v\<in>set ?vs. v < 64" "base64_groups ?vs = a # b # c # r"
    using IH by (auto simp: mod_mult_self3)
  then show ?case using IH by (intro exI [of _ ?vs] exI [of _ pad]) auto
next
  case (2 a b)
  let ?vs = "[a div 4, a mod 4 * 16 + b div 16, b mod 16 * 4]"
  have "a < 256" "b < 256" using 2 by auto
  then show ?case by (intro exI [of _ ?vs] exI [of _ "''=''"]) auto
next
  case (3 a)
  let ?vs = "[a div 4, a mod 4 * 16]"
  have "a < 256" using 3 by auto
  then show ?case by (intro exI [of _ ?vs] exI [of _ "''==''"]) auto
qed simp

lemma all_some_base64: "\<forall>v\<in>set vs. v < 64 \<Longrightarrow> all_some (map base64_value (map base64_char vs)) = Some vs"
  by (induction vs) (simp_all add: base64_value_char)

lemma base64_roundtrip: "b64decode (b64encode s) = Some s"
proof -
  have "\<forall>x\<in>set (map code s). x < 256" by simp
  then obtain vs pad where sh: "b64_quanta (map code s) = map base64_char vs @ pad" "\<forall>v\<in>set vs. v < 64"
    "set pad \<subseteq> {CHR ''=''}" "length pad \<le> 2" "base64_groups vs = map code s"
    "length (b64_quanta (map code s)) mod 4 = 0"
    by (insert b64_quanta_shape [OF \<open>\<forall>x\<in>set (map code s). x < 256\<close>]) (elim exE conjE, rule that)
  have nopad: "\<forall>c\<in>set (map base64_char vs). c \<noteq> CHR ''=''" using sh(2) base64_char_not_pad by auto
  have pad: "takeWhile (\<lambda>c. c \<noteq> CHR ''='') pad = []" "dropWhile (\<lambda>c. c \<noteq> CHR ''='') pad = pad"
    using sh(3) by (cases pad; auto)+
  have "takeWhile (\<lambda>c. c \<noteq> CHR ''='') (map base64_char vs @ pad) = map base64_char vs"
    "dropWhile (\<lambda>c. c \<noteq> CHR ''='') (map base64_char vs @ pad) = pad"
    using nopad pad by (simp_all add: takeWhile_append dropWhile_append)
  moreover have "all_some (map base64_value (map base64_char vs)) = Some vs"
    using all_some_base64 sh(2) by blast
  moreover have "map char_of (map code s) = s" by (simp add: code_def map_idI)
  ultimately show ?thesis
    using sh(1,3-6) by (auto simp: b64decode_def b64encode_def)
qed

text \<open>
  scrubbing a Base64 body keeps it a Base64 body. A text that is no strict Base64 is left
  alone; any other one becomes a text that decodes, strictly, to exactly the redacted bytes.
\<close>

lemma scrub_base64_decodes:
  "case b64decode item of
     None \<Rightarrow> scrub_base64 secrets item = item
   | Some bytes \<Rightarrow> b64decode (scrub_base64 secrets item) = Some (redact_bytes secrets bytes)"
  by (simp add: scrub_base64_def base64_roundtrip split: option.split)

definition log_size :: "mapping \<Rightarrow> nat" where
  "log_size d = sum_list (map (\<lambda>(_, v). length (the_str v)) d)"

lemma length_clip: "0 < n \<Longrightarrow> length (clip n s) \<le> n"
  by (auto simp: clip_def)

lemma log_size_mput: "log_size (mput d k (VStr s)) \<le> log_size d + length s"
  by (induction d) (auto simp: log_size_def mput_def)

text \<open>
  the container logs stored with a failure are bounded: however many containers there are
  and however much they wrote, the stored texts together have at most the given number of
  characters, the ellipses included.
\<close>

lemma failure_logs_bounded:
  "log_size (the_dict (mget (failure_logs_payload source excerpt logs n) ''container_logs'')) \<le> n"
proof -
  have trim: "log_size (trim_logs n d acc) \<le> log_size acc + n" for n d acc
  proof (induction n d acc rule: trim_logs.induct)
    case (2 n k v d acc)
    show ?case
    proof (cases "n = 0")
      case False
      let ?c = "clip n (the_str v)"
      have "log_size (trim_logs n ((k, v) # d) acc) \<le> log_size (mput acc (py_str k) (VStr ?c)) + (n - length ?c)"
        using 2 False by (simp add: Let_def)
      also have "\<dots> \<le> log_size acc + n"
        using log_size_mput [of acc "py_str k" ?c] length_clip [of n "the_str v"] False by simp
      finally show ?thesis .
    qed simp
  qed simp
  have "mget (failure_logs_payload source excerpt logs n) ''container_logs'' =
      (if logs \<noteq> [] then VDict (trim_logs n logs []) else VNull)"
    by (auto simp: failure_logs_payload_def mget_def mput_def Let_def split: option.split list.split)
  then show ?thesis
    using trim [of n logs "[]"] by (simp add: log_size_def)
qed

end
