(* ===== verification/Polling.thy ===== *)
theory Polling
  imports Models
begin

text \<open>
  The polling loops of the sources: look, stop if what was waited for is there, give up when the
  deadline has passed, sleep, look again. The locale states the shape once; its lemmas say that the
  loop ends within the rounds its timeout allows, and that it notices in time what it waits for.
\<close>

section \<open>A clock that does not go back\<close>

definition clock_grows :: "(world, 'a) action \<Rightarrow> bool" where
  "clock_grows = keeps (\<lambda>w w'. w_clock w \<le> w_clock w')"

interpretation clock: step_guarantee "\<lambda>w w'. w_clock w \<le> w_clock w'"
  by unfold_locales auto

section \<open>The loop\<close>

locale polling =
  fixes poll :: "(world, bool) action"
    and sleep :: "(world, unit) action"
    and expired :: exn
    and rounds :: "nat \<Rightarrow> instant \<Rightarrow> (world, unit option) action"
  assumes rounds_0: "rounds 0 deadline = ret None"
    and rounds_Suc: "rounds (Suc n) deadline =
      bd poll (\<lambda>ready.
      if ready then ret (Some ())
      else bd utc_now (\<lambda>now. if deadline \<le> now then reraise expired else andthen sleep (rounds n deadline)))"
begin

lemma round_app: "rounds (Suc n) deadline w =
   (case poll w of
      (Inl e, w1) \<Rightarrow> (Inl e, w1)
    | (Inr ready, w1) \<Rightarrow>
        if ready then (Inr (Some ()), w1)
        else if deadline \<le> w_clock w1 then (Inl expired, w1)
        else (case sleep w1 of (Inl e, w2) \<Rightarrow> (Inl e, w2) | (Inr _, w2) \<Rightarrow> rounds n deadline w2))"
proof -
  obtain r w1 q w2 where run: "poll w = (r, w1)" "sleep w1 = (q, w2)" by fastforce
  then show ?thesis
    unfolding rounds_Suc by (cases r; cases q) simp_all
qed

lemma rounds_enough:
  assumes "clock_grows poll" and sleeping: "\<And>w. w_clock w < w_clock (snd (sleep w))"
    and "deadline - w_clock w < int n" "0 < n"
  shows "fst (rounds n deadline w) \<noteq> Inr None"
  using assms(3,4)
proof (induction n arbitrary: w)
  case (Suc n)
  obtain r w1 q w2 where r: "poll w = (r, w1)" and q: "sleep w1 = (q, w2)" by fastforce
  have "w_clock w \<le> w_clock w1" by (rule keeps_run [OF assms(1) [unfolded clock_grows_def] r])
  moreover have "w_clock w1 < w_clock w2" using sleeping [of w1] q by simp
  ultimately have "deadline \<le> w_clock w1 \<or> deadline - w_clock w2 < int n \<and> 0 < n"
    using Suc.prems(1) by linarith
  then show ?case
    using Suc.IH [of w2] r q by (auto simp: round_app split: sum.split)
qed simp

lemma rounds_more:
  "fst (rounds n deadline w) \<noteq> Inr None \<Longrightarrow> rounds (n + k) deadline w = rounds n deadline w"
proof (induction n arbitrary: w)
  case (Suc n)
  obtain r w1 q w2 where "poll w = (r, w1)" "sleep w1 = (q, w2)" by fastforce
  then show ?case using Suc by (auto simp: round_app split: sum.split sum.split_asm if_split_asm)
qed (simp add: rounds_0)

text \<open>Looks that change nothing: the loop returns in the first round that sees what it waits for.\<close>

lemma rounds_notice:
  assumes "\<And>j. j \<le> k \<Longrightarrow> poll ((tick ^^ j) w) = (Inr (j = k), (tick ^^ j) w)"
    and "\<And>w. sleep w = (Inr (), tick w)"
    and "\<And>j. j < k \<Longrightarrow> w_clock ((tick ^^ j) w) < deadline" and "k < n"
  shows "rounds n deadline w = (Inr (Some ()), (tick ^^ k) w)"
  using assms
proof (induction k arbitrary: n w)
  case 0
  from 0(1) [of 0] 0(4) show ?case by (cases n) (simp_all add: round_app)
next
  case (Suc k)
  obtain m where m: "n = Suc m" "k < m" using Suc.prems(4) by (cases n) auto
  have "poll ((tick ^^ j) (tick w)) = (Inr (j = k), (tick ^^ j) (tick w))" if "j \<le> k" for j
    using Suc.prems(1) [of "Suc j"] that by (simp add: funpow_swap1)
  moreover have "w_clock ((tick ^^ j) (tick w)) < deadline" if "j < k" for j
    using Suc.prems(3) [of "Suc j"] that by (simp add: funpow_swap1)
  ultimately have "rounds m deadline (tick w) = (Inr (Some ()), (tick ^^ k) (tick w))"
    using Suc.IH Suc.prems(2) m(2) by blast
  moreover have "poll w = (Inr False, w)" "w_clock w < deadline"
    using Suc.prems(1) [of 0] Suc.prems(3) [of 0] by simp_all
  ultimately show ?case using m(1) Suc.prems(2) by (simp add: round_app funpow_swap1)
qed

end

end
