(* ===== verification/Urls.thy ===== *)
theory Urls
  imports Prelude
begin

text \<open>
  The parts of Python's \<open>urllib.parse\<close> the sources use, on ASCII texts: \<open>urlsplit\<close> and the
  \<open>username\<close>, \<open>password\<close>, \<open>hostname\<close> and \<open>port\<close> of its result, \<open>quote\<close>, \<open>urlencode\<close> and \<open>urljoin\<close>.
  \<open>urlsplit\<close> raises only on unbalanced brackets, \<open>port\<close> on a port that is not a number of 16
  bits. The address check of a bracketed host, which newer Python versions add, is left out.

  The lemmas show what appending a path to a base URL does to its origin, which is what the
  clients of Jenkins, GitLab and Harbor rely on.
\<close>

section \<open>Splitting\<close>

record url =
  url_scheme :: string
  url_netloc :: string
  url_path :: string
  url_query :: string
  url_fragment :: string

definition c0_or_space :: "char \<Rightarrow> bool" where
  "c0_or_space c \<longleftrightarrow> code c \<le> 32"

definition unsafe_url_char :: "char \<Rightarrow> bool" where
  "unsafe_url_char c \<longleftrightarrow> c \<in> {CHR 0x09, CHR 0x0A, CHR 0x0D}"

definition clean_url :: "string \<Rightarrow> string" where
  "clean_url s = filter (\<lambda>c. \<not> unsafe_url_char c) (dropWhile c0_or_space s)"

definition scheme_char :: "char \<Rightarrow> bool" where
  "scheme_char c \<longleftrightarrow> is_alnum c \<or> c = CHR ''+'' \<or> c = CHR ''-'' \<or> c = CHR ''.''"

text \<open>The scheme in lower case, if the text before the first colon is one, and what follows.\<close>

definition split_scheme :: "string \<Rightarrow> string \<times> string" where
  "split_scheme s =
     (case split_once (CHR '':'') s of
        (a, Some b) \<Rightarrow> if a \<noteq> [] \<and> is_alpha (hd a) \<and> list_all scheme_char a then (lower a, b) else ([], s)
      | (_, None) \<Rightarrow> ([], s))"

definition netloc_char :: "char \<Rightarrow> bool" where
  "netloc_char c \<longleftrightarrow> c \<notin> {CHR ''/'', CHR ''?'', CHR ''#''}"

definition split_netloc :: "string \<Rightarrow> string \<times> string" where
  "split_netloc s =
     (if starts_with s ''//'' then (takeWhile netloc_char (drop 2 s), dropWhile netloc_char (drop 2 s)) else ([], s))"

definition brackets_balanced :: "string \<Rightarrow> bool" where
  "brackets_balanced netloc \<longleftrightarrow> (CHR ''['' \<in> set netloc \<longleftrightarrow> CHR '']'' \<in> set netloc)"

definition tail_text :: "string option \<Rightarrow> string" where
  "tail_text t = (case t of Some s \<Rightarrow> s | None \<Rightarrow> [])"

definition urlsplit :: "string \<Rightarrow> url res" where
  "urlsplit s =
     (let sr = split_scheme (clean_url s); nr = split_netloc (snd sr);
          pf = split_once (CHR ''#'') (snd nr); pq = split_once (CHR ''?'') (fst pf)
      in if \<not> brackets_balanced (fst nr) then Inl (Exn ValueError ''Invalid IPv6 URL'')
         else Inr \<lparr>url_scheme = fst sr, url_netloc = fst nr, url_path = fst pq,
                   url_query = tail_text (snd pq), url_fragment = tail_text (snd pf)\<rparr>)"

definition url_username :: "url \<Rightarrow> string option" where
  "url_username u = map_option (\<lambda>info. fst (split_once (CHR '':'') info)) (fst (rsplit_once (CHR ''@'') (url_netloc u)))"

definition url_password :: "url \<Rightarrow> string option" where
  "url_password u =
     (case fst (rsplit_once (CHR ''@'') (url_netloc u)) of
        Some info \<Rightarrow> snd (split_once (CHR '':'') info) | None \<Rightarrow> None)"

text \<open>The host and the port as they are written.\<close>

definition url_hostinfo :: "url \<Rightarrow> string \<times> string option" where
  "url_hostinfo u =
     (let info = snd (rsplit_once (CHR ''@'') (url_netloc u)) in
      case split_once (CHR ''['') info of
        (_, Some bracketed) \<Rightarrow>
          (case split_once (CHR '']'') bracketed of
             (host, after) \<Rightarrow> (host, snd (split_once (CHR '':'') (tail_text after))))
      | (_, None) \<Rightarrow> split_once (CHR '':'') info)"

definition url_hostname :: "url \<Rightarrow> string option" where
  "url_hostname u =
     (let host = fst (url_hostinfo u) in
      if host = [] then None
      else
        (case split_once (CHR ''%'') host of
           (name, Some zone) \<Rightarrow> Some (lower name @ CHR ''%'' # zone)
         | (name, None) \<Rightarrow> Some (lower name)))"

definition url_port :: "url \<Rightarrow> int option res" where
  "url_port u =
     (case snd (url_hostinfo u) of
        None \<Rightarrow> Inr None
      | Some p \<Rightarrow>
          if p = [] then Inr None
          else if \<not> list_all is_digit p then Inl (Exn ValueError ''Port could not be cast to integer value'')
          else if nat_of_digits p > 65535 then Inl (Exn ValueError ''Port out of range 0-65535'')
          else Inr (Some (int (nat_of_digits p))))"

text \<open>Credentials are present when either part is not empty.\<close>

definition truthy_opt :: "string option \<Rightarrow> bool" where
  "truthy_opt s \<longleftrightarrow> (case s of Some t \<Rightarrow> t \<noteq> [] | None \<Rightarrow> False)"

definition has_credentials :: "url \<Rightarrow> bool" where
  "has_credentials u \<longleftrightarrow> truthy_opt (url_username u) \<or> truthy_opt (url_password u)"

definition http_scheme :: "url \<Rightarrow> bool" where
  "http_scheme u \<longleftrightarrow> url_scheme u = ''http'' \<or> url_scheme u = ''https''"

section \<open>Quoting\<close>

definition unreserved :: "char \<Rightarrow> bool" where
  "unreserved c \<longleftrightarrow> is_alnum c \<or> c \<in> {CHR ''_'', CHR ''.'', CHR ''-'', CHR ''~''}"

definition quote_char :: "string \<Rightarrow> char \<Rightarrow> string" where
  "quote_char safe c =
     (if unreserved c \<or> c \<in> set safe then [c] else CHR ''%'' # upper (hex_byte (code c)))"

definition quote :: "string \<Rightarrow> string \<Rightarrow> string" where
  "quote safe s = concat (map (quote_char safe) s)"

definition quote_plus :: "string \<Rightarrow> string" where
  "quote_plus s = map (\<lambda>c. if c = CHR '' '' then CHR ''+'' else c) (quote '' '' s)"

definition urlencode :: "(string, string) dict \<Rightarrow> string" where
  "urlencode d = join ''&'' (map (\<lambda>(k, v). quote_plus k @ CHR ''='' # quote_plus v) d)"

section \<open>Joining\<close>

text \<open>\<open>urlparse\<close> takes the parameters off the last segment of the path.\<close>

definition split_params :: "string \<Rightarrow> string \<times> string" where
  "split_params path =
     (case rsplit_once (CHR ''/'') path of
        (front, last_segment) \<Rightarrow>
          (case split_once (CHR '';'') last_segment of
             (a, Some params) \<Rightarrow> ((case front of Some f \<Rightarrow> f @ CHR ''/'' # a | None \<Rightarrow> a), params)
           | (_, None) \<Rightarrow> (path, [])))"

fun resolve_dots :: "string list \<Rightarrow> string list \<Rightarrow> string list" where
  "resolve_dots done [] = done"
| "resolve_dots done (x # xs) =
     (if x = ''..'' then resolve_dots (butlast done) xs
      else if x = ''.'' then resolve_dots done xs
      else resolve_dots (done @ [x]) xs)"

definition drop_inner_empty :: "string list \<Rightarrow> string list" where
  "drop_inner_empty xs =
     (if length xs \<le> 2 then xs else hd xs # filter (\<lambda>x. x \<noteq> []) (butlast (tl xs)) @ [last xs])"

definition join_path :: "string \<Rightarrow> string \<Rightarrow> string" where
  "join_path base_path path =
     (let base_parts = split_on (CHR ''/'') base_path;
          kept = (if last base_parts \<noteq> [] then butlast base_parts else base_parts);
          segments = drop_inner_empty
            (if starts_with path ''/'' then split_on (CHR ''/'') path else kept @ split_on (CHR ''/'') path);
          resolved = resolve_dots [] segments @ (if last segments \<in> {''.'', ''..''} then [[]] else []);
          joined = join ''/'' resolved
      in if joined = [] then ''/'' else joined)"

text \<open>\<open>urlunparse\<close> for a URL with a scheme and a network location.\<close>

definition unparse :: "string \<Rightarrow> string \<Rightarrow> string \<Rightarrow> string \<Rightarrow> string \<Rightarrow> string \<Rightarrow> string" where
  "unparse scheme netloc path params query fragment =
     (let located = path @ (if params = [] then [] else CHR '';'' # params) in
      scheme @ ''://'' @ netloc @ (if located \<noteq> [] \<and> hd located \<noteq> CHR ''/'' then CHR ''/'' # located else located)
      @ (if query = [] then [] else CHR ''?'' # query) @ (if fragment = [] then [] else CHR ''#'' # fragment))"

text \<open>\<open>urljoin(base, url)\<close> for a base with an HTTP scheme and a network location.\<close>

definition urljoin :: "string \<Rightarrow> string \<Rightarrow> string res" where
  "urljoin base s =
     (if s = [] then Inr base
      else
        rbind (urlsplit base) (\<lambda>b.
        rbind (urlsplit s) (\<lambda>u.
        if url_scheme u \<noteq> [] \<and> url_scheme u \<noteq> url_scheme b then Inr s
        else
          (case (split_params (url_path u), split_params (url_path b)) of
             ((path, params), (bpath, bparams)) \<Rightarrow>
               if url_netloc u \<noteq> []
               then Inr (unparse (url_scheme b) (url_netloc u) path params (url_query u) (url_fragment u))
               else if path = [] \<and> params = []
               then Inr (unparse (url_scheme b) (url_netloc b) bpath bparams
                      (if url_query u = [] then url_query b else url_query u) (url_fragment u))
               else Inr (unparse (url_scheme b) (url_netloc b) (join_path bpath path) params
                      (url_query u) (url_fragment u))))))"

section \<open>Slashes\<close>

definition rstrip_slashes :: "string \<Rightarrow> string" where
  "rstrip_slashes s = rev (dropWhile (\<lambda>c. c = CHR ''/'') (rev s))"

definition lstrip_slashes :: "string \<Rightarrow> string" where
  "lstrip_slashes s = dropWhile (\<lambda>c. c = CHR ''/'') s"

definition strip_slashes :: "string \<Rightarrow> string" where
  "strip_slashes s = rstrip_slashes (lstrip_slashes s)"

lemma split_once_whole: "split_once c s = (a, None) \<Longrightarrow> a = s"
  by (induction s arbitrary: a) (auto split: if_splits prod.splits)

section \<open>Origins\<close>

text \<open>Two URLs that split have the same origin when scheme and network location agree.\<close>

definition origin :: "string \<Rightarrow> (string \<times> string) option" where
  "origin s = (case urlsplit s of Inr u \<Rightarrow> Some (url_scheme u, url_netloc u) | Inl _ \<Rightarrow> None)"

lemma takeWhile_slash: "takeWhile (\<lambda>c. c = x) xs = replicate (length (takeWhile (\<lambda>c. c = x) xs)) x"
  by (rule replicate_length_same [symmetric]) (auto dest: set_takeWhileD)

lemma rstrip_slashes_split: obtains k where "s = rstrip_slashes s @ replicate k (CHR ''/'')"
proof
  let ?p = "\<lambda>c. c = CHR ''/''"
  have "s = rev (dropWhile ?p (rev s)) @ rev (takeWhile ?p (rev s))"
    by (simp flip: rev_append)
  also have "rev (takeWhile ?p (rev s)) = replicate (length (takeWhile ?p (rev s))) (CHR ''/'')"
    by (subst takeWhile_slash) (simp only: rev_replicate)
  finally show "s = rstrip_slashes s @ replicate (length (takeWhile ?p (rev s))) (CHR ''/'')"
    by (simp add: rstrip_slashes_def)
qed

lemma split_scheme_append:
  assumes "split_scheme s = (a, r)" "a \<noteq> []"
  shows "split_scheme (s @ t) = (a, r @ t)"
proof -
  obtain b c where bc: "split_once (CHR '':'') s = (b, Some c)" and ok: "b \<noteq> []" "is_alpha (hd b)" "list_all scheme_char b"
    and eq: "a = lower b" "r = c"
    using assms by (auto simp: split_scheme_def split: prod.splits option.splits if_splits)
  have "s = b @ CHR '':'' # c" "CHR '':'' \<notin> set b"
    using split_once_Some [OF bc] by auto
  then have "split_once (CHR '':'') (s @ t) = (b, Some (c @ t))"
    by (simp add: split_once_append)
  then show ?thesis using ok eq by (simp add: split_scheme_def)
qed

lemma starts_with_append: "starts_with s p \<Longrightarrow> starts_with (s @ t) p"
  by (auto simp: starts_with_def)

lemma split_netloc_append:
  assumes "fst (split_netloc r) \<noteq> []" "\<not> netloc_char c"
  shows "fst (split_netloc (r @ c # t)) = fst (split_netloc r)"
proof -
  have s: "starts_with r ''//''" using assms(1) by (auto simp: split_netloc_def split: if_splits)
  have "length r \<ge> 2" using s by (auto simp: starts_with_def prefix_def)
  then have d: "drop 2 (r @ c # t) = drop 2 r @ c # t" by simp
  have "takeWhile netloc_char (xs @ c # t) = takeWhile netloc_char xs" for xs
    using assms(2) by (induction xs) simp_all
  then show ?thesis using s starts_with_append [OF s] d by (simp add: split_netloc_def)
qed

lemma clean_url_append:
  "\<exists>c\<in>set s. \<not> c0_or_space c \<Longrightarrow> clean_url (s @ t) = clean_url s @ filter (\<lambda>c. \<not> unsafe_url_char c) t"
  by (auto simp: clean_url_def dropWhile_append)

lemma origin_scheme_netloc:
  "origin s = Some (a, n) \<longleftrightarrow> fst (split_scheme (clean_url s)) = a \<and>
     fst (split_netloc (snd (split_scheme (clean_url s)))) = n \<and> brackets_balanced n"
  by (auto simp: origin_def urlsplit_def Let_def)

lemma clean_nonempty: "clean_url s \<noteq> [] \<Longrightarrow> \<exists>c\<in>set s. \<not> c0_or_space c"
  by (metis clean_url_def dropWhile_eq_Nil_conv filter.simps(1))

text \<open>A path appended to a URL with a scheme and a network location leaves its origin alone.\<close>

lemma origin_append_path:
  assumes "origin s = Some (a, n)" "a \<noteq> []" "n \<noteq> []" "\<not> netloc_char c" "\<not> unsafe_url_char c"
  shows "origin (s @ c # t) = Some (a, n)"
proof -
  have parts: "fst (split_scheme (clean_url s)) = a" "fst (split_netloc (snd (split_scheme (clean_url s)))) = n"
    "brackets_balanced n"
    using assms(1) by (simp_all add: origin_scheme_netloc)
  have "clean_url s \<noteq> []"
    using parts(1) assms(2) by (auto simp: split_scheme_def split: prod.splits option.splits if_splits)
  then have cl: "clean_url (s @ c # t) = clean_url s @ c # filter (\<lambda>c. \<not> unsafe_url_char c) t"
    using clean_url_append [OF clean_nonempty] assms(5) by simp
  obtain r where r: "split_scheme (clean_url s) = (a, r)" using parts(1) by (cases "split_scheme (clean_url s)") auto
  have nr: "fst (split_netloc r) = n" using parts(2) r by simp
  have "fst (split_netloc (r @ c # filter (\<lambda>c. \<not> unsafe_url_char c) t)) = n"
    using split_netloc_append [of r c] nr assms(3,4) by simp
  then show ?thesis
    using split_scheme_append [OF r assms(2)] parts(3) by (simp add: origin_scheme_netloc cl)
qed

text \<open>Removing the slashes at the end does not either.\<close>

lemma takeWhile_netloc_slashes:
  "takeWhile netloc_char (r @ replicate k (CHR ''/'')) = takeWhile netloc_char r"
proof (induction r)
  case Nil
  show ?case by (cases k) (simp_all add: netloc_char_def)
next
  case (Cons a r)
  then show ?case by simp
qed

lemma split_once_slashes:
  "split_once (CHR '':'') (s @ replicate k (CHR ''/'')) =
     (case split_once (CHR '':'') s of
        (a, Some b) \<Rightarrow> (a, Some (b @ replicate k (CHR ''/'')))
      | (a, None) \<Rightarrow> (a @ replicate k (CHR ''/''), None))"
proof (induction s)
  case Nil
  show ?case by (induction k) simp_all
next
  case (Cons c s)
  then show ?case by (simp split: prod.splits option.splits)
qed

lemma split_netloc_slashes:
  assumes "fst (split_netloc (r @ replicate k (CHR ''/''))) \<noteq> []"
  shows "fst (split_netloc r) = fst (split_netloc (r @ replicate k (CHR ''/'')))"
proof -
  let ?s = "replicate k (CHR ''/'')"
  have st: "starts_with (r @ ?s) ''//''" and ne: "takeWhile netloc_char (drop 2 (r @ ?s)) \<noteq> []"
    using assms by (auto simp: split_netloc_def split: if_splits)
  have "length r \<ge> 2"
  proof (rule ccontr)
    assume "\<not> 2 \<le> length r"
    then have "drop 2 (r @ ?s) = replicate (k - (2 - length r)) (CHR ''/'')" by simp
    then show False
      using ne takeWhile_netloc_slashes [of "[]" "k - (2 - length r)"] by simp
  qed
  then obtain x y r' where "r = x # y # r'" by (cases r; cases "tl r") auto
  then show ?thesis
    using st takeWhile_netloc_slashes [of r' k] by (auto simp: split_netloc_def starts_with_def)
qed

lemma origin_rstrip_slashes:
  assumes "origin s = Some (a, n)" "a \<noteq> []" "n \<noteq> []"
  shows "origin (rstrip_slashes s) = Some (a, n)"
proof -
  obtain k where k: "s = rstrip_slashes s @ replicate k (CHR ''/'')" by (rule rstrip_slashes_split)
  let ?r = "rstrip_slashes s" and ?s = "replicate k (CHR ''/'')"
  have parts: "fst (split_scheme (clean_url s)) = a" "fst (split_netloc (snd (split_scheme (clean_url s)))) = n"
    "brackets_balanced n"
    using assms(1) by (simp_all add: origin_scheme_netloc)
  have keep: "filter (\<lambda>c. \<not> unsafe_url_char c) ?s = ?s" by (simp add: unsafe_url_char_def)
  have "\<exists>c\<in>set ?r. \<not> c0_or_space c"
  proof (rule ccontr)
    assume "\<not> (\<exists>c\<in>set ?r. \<not> c0_or_space c)"
    then have "clean_url s = clean_url ?s"
      by (subst k) (simp add: clean_url_def dropWhile_append)
    also have "clean_url ?s = ?s"
      by (cases k) (simp_all add: clean_url_def c0_or_space_def unsafe_url_char_def code_def)
    finally show False
      using parts(1) assms(2) split_once_slashes [of "[]" k] by (simp add: split_scheme_def)
  qed
  then have cl: "clean_url s = clean_url ?r @ ?s"
    using clean_url_append [of ?r ?s] keep k by metis
  obtain b c where bc: "split_once (CHR '':'') (clean_url ?r) = (b, Some c)"
    and ok: "b \<noteq> []" "is_alpha (hd b)" "list_all scheme_char b" "lower b = a"
    using parts(1) assms(2) by (auto simp: split_scheme_def cl split_once_slashes split: prod.splits option.splits if_splits)
  have "snd (split_scheme (clean_url s)) = c @ ?s"
    using bc ok by (simp add: split_scheme_def cl split_once_slashes)
  then have "fst (split_netloc c) = n"
    using split_netloc_slashes [of c k] parts(2) assms(3) by simp
  then show ?thesis
    using bc ok parts(3) by (simp add: origin_scheme_netloc split_scheme_def)
qed

end
