(* ===== verification/Cleanup.thy ===== *)
theory Cleanup
  imports RouteChecks Urls
begin

text \<open>
  The rest of \<open>orchestrator/build_resources.py\<close>: \<open>BuildResourceService\<close>, which admits and
  schedules the clean-up of a build, and \<open>BuildCleanupRunner\<close>, which performs it. Jenkins,
  Harbor and the workspace store are parameters; the Docker side is the interface
  \<open>docker_cleaner\<close>, which \<open>DockerCleanup\<close> implements. The lemmas at the end show when a
  clean-up may be recorded as successful and what a request for one does.
\<close>

section \<open>The environment\<close>

record jenkins_api =
  jk_terminal :: "int \<Rightarrow> (world, bool) action"
  jk_queue_item :: "string \<Rightarrow> (world, int option \<times> bool) action"
  jk_artifact :: "int \<Rightarrow> (world, mapping) action"

record docker_cleaner =
  dc_discover :: "build_resources \<Rightarrow> tracker \<Rightarrow> (world, unit) action"
  dc_wait_stopped :: "build_resources \<Rightarrow> tracker \<Rightarrow> (world, unit) action"
  dc_remove :: "build_resources \<Rightarrow> build_resource \<Rightarrow> tracker \<Rightarrow> (world, unit) action"
  dc_verify_empty :: "build_resources \<Rightarrow> tracker \<Rightarrow> (world, unit) action"
  dc_assert_directory_unused :: "string \<Rightarrow> tracker \<Rightarrow> (world, unit) action"

record cleanup_env =
  ce_jenkins :: "jenkins_api option"
  ce_docker :: "(world, docker_cleaner) action"
  ce_harbor_url :: string
  ce_harbor_project :: string
  ce_remove_tag :: "string \<Rightarrow> string \<Rightarrow> string \<Rightarrow> value \<Rightarrow> (world, string) action"
  ce_snapshot_path :: "string \<Rightarrow> string \<Rightarrow> string"
  ce_host_path :: "string \<Rightarrow> string \<Rightarrow> string"
  ce_delete_snapshot :: "string \<Rightarrow> string \<Rightarrow> string \<Rightarrow> (world, unit) action"
  ce_dispatch :: "string \<Rightarrow> (world, unit) action"

section \<open>\<open>BuildResourceService\<close>\<close>

text \<open>The protected entries of a manifest made up for a build older than resource tracking.\<close>

definition protect ::
  "resource_kind \<Rightarrow> string \<Rightarrow> string \<Rightarrow> string option \<Rightarrow> bool \<Rightarrow> string option \<Rightarrow> instant
     \<Rightarrow> build_resources \<Rightarrow> build_resources" where
  "protect kind name target native_id managed err now m =
     (let key = resource_key kind target name
      in m\<lparr>br_resources := dset (br_resources m) key
           ((new_build_resource key kind name target now)
              \<lparr>rs_native_id := native_id, rs_managed := managed,
               rs_state := (if managed then Present else Blocked), rs_error := err\<rparr>)\<rparr>)"

definition compose_names :: "value option \<Rightarrow> string \<Rightarrow> string list" where
  "compose_names snapshot section =
     (case snapshot of
        Some (VDict d) \<Rightarrow> map (py_str \<circ> fst) (the_dict (mget d section))
      | _ \<Rightarrow> [])"

definition legacy_manifest :: "cleanup_env \<Rightarrow> build_job \<Rightarrow> world \<Rightarrow> build_resources" where
  "legacy_manifest env b w =
     (let i = bj_build_id b; now = w_clock w;
          m0 = new_build_resources i (bj_appid b) 0 now;
          m1 = (case str_or (bj_workspace_snapshot b) None of
                  Some s \<Rightarrow> protect KWorkspace (ce_snapshot_path env (bj_appid b) s) ''workspace'' None True None now m0
                | None \<Rightarrow> m0);
          m2 = fold (\<lambda>s. protect KService (sv_service_name s) ''docker'' (Some (sv_service_id s)) False
                       (Some ''Legacy APP-scoped service is not proven build-exclusive'') now)
                 (filter (\<lambda>s. sv_appid s = bj_appid b \<and> sv_build_id s = i) (vals (w_services w))) m1;
          m3 = fold (\<lambda>im. protect KRegistryImage (ui_reference im) ''harbor'' None False
                       (Some ''Legacy image ownership requires explicit verification'') now)
                 (filter (\<lambda>im. ui_appid im = bj_appid b \<and> ui_build_id im = i) (vals (w_user_images w))) m2;
          m4 = fold (\<lambda>name. protect KVolume name ''docker'' None False
                       (Some ''Legacy APP-scoped volume is protected'') now)
                 (compose_names (bj_compose_snapshot b) ''volumes'') m3
      in if compose_names (bj_compose_snapshot b) ''services'' \<noteq> []
         then protect KNetwork ''legacy-app-network'' ''docker'' None False
                (Some ''Legacy APP-scoped network is protected'') now m4
         else m4)"

definition manifest_of :: "cleanup_env \<Rightarrow> string \<Rightarrow> (world, build_resources) action" where
  "manifest_of env build_id =
     bd (require_build build_id) (\<lambda>b.
     bd (get_build_resources build_id) (\<lambda>m.
       case m of
         Some d \<Rightarrow> ret d
       | None \<Rightarrow> bd (reading (legacy_manifest env b)) ensure_build_resources))"

definition conflict :: "string \<Rightarrow> (world, 'a) action" where
  "conflict m = raise ResourceConflict m"

definition assert_quiescent :: "cleanup_env \<Rightarrow> string \<Rightarrow> (world, unit) action" where
  "assert_quiescent env build_id =
     bd (require_build build_id) (\<lambda>b.
     if \<not> terminal (bj_status b) then conflict ''Build is still queued, building or deploying''
     else
       bd (get_build_resources build_id) (\<lambda>m.
       if (case m of Some d \<Rightarrow> br_jenkins_trigger_pending d | None \<Rightarrow> False) \<and> \<not> truthy_text (bj_jenkins_queue_url b)
       then conflict ''Jenkins trigger outcome is unknown; external execution must be verified''
       else if truthy_text (bj_jenkins_queue_url b) \<or> bj_jenkins_build_number b \<noteq> None then
         (case ce_jenkins env of
            None \<Rightarrow> conflict ''Jenkins execution state cannot be verified''
          | Some jk \<Rightarrow>
              (case bj_jenkins_build_number b of
                 Some n \<Rightarrow> bd (jk_terminal jk n) (\<lambda>t.
                   if t then ret () else conflict ''Jenkins execution has not finished'')
               | None \<Rightarrow> bd (jk_queue_item jk (the (bj_jenkins_queue_url b))) (\<lambda>(number, cancelled).
                   case number of
                     Some n \<Rightarrow> bd (jk_terminal jk n) (\<lambda>t.
                       if t then ret () else conflict ''Jenkins execution has not finished'')
                   | None \<Rightarrow> if cancelled then ret () else conflict ''Jenkins queue item has not finished'')))
       else ret ()))"

definition cleanup_code :: "cleanup_status \<Rightarrow> nat" where
  "cleanup_code s = (if s = CleanupSucceeded then 200 else 202)"

definition queue_cleanup :: "cleanup_env \<Rightarrow> string \<Rightarrow> string option \<Rightarrow> (world, build_resources) action" where
  "queue_cleanup env build_id owner =
     bd (manifest_of env build_id) (\<lambda>current.
     bd utc_now (\<lambda>now.
     bd (update_build_resources build_id
           (\<lambda>d. d\<lparr>br_cleanup_status := CleanupQueued, br_cleanup_generation := br_cleanup_generation current + 1,
                  br_cleanup_requested_at := Some now, br_finished_at := None, br_last_error := None\<rparr>)
           (Some owner, \<lambda>d. br_cleanup_status d = br_cleanup_status current)) (\<lambda>queued.
       case queued of None \<Rightarrow> conflict ''Concurrent cleanup state change'' | Some q \<Rightarrow> ret q)))"

text \<open>Inl is an early answer of the lease block, Inr the queued manifest.\<close>

definition request_cleanup ::
  "cleanup_env \<Rightarrow> string \<Rightarrow> bool \<Rightarrow> (world, build_resources \<times> nat) action" where
  "request_cleanup env build_id dispatch =
     bd (manifest_of env build_id) (\<lambda>m.
     if br_cleanup_status m = CleanupSucceeded then ret (m, 200)
     else if br_cleanup_status m \<in> {CleanupQueued, CleanupRunning} then ret (m, 202)
     else
       andthen (assert_quiescent env build_id)
       (bd (build_lease build_id [NotStarted, PartialFailed] 120 (\<lambda>t.
              case t of
                None \<Rightarrow> bd (manifest_of env build_id) (\<lambda>current.
                  if br_cleanup_status current \<in> {CleanupQueued, CleanupRunning, CleanupSucceeded}
                  then ret (Inl (current, cleanup_code (br_cleanup_status current)))
                  else conflict ''Build resource operation is still running'')
              | Some tr \<Rightarrow> bd (queue_cleanup env build_id (tr_owner tr)) (\<lambda>q. ret (Inr q)))) (\<lambda>r.
        case r of
          Inl answer \<Rightarrow> ret answer
        | Inr queued \<Rightarrow>
            if \<not> dispatch then bd (manifest_of env build_id) (\<lambda>d. ret (d, 202))
            else
              andthen (catching (ce_dispatch env build_id) (\<lambda>_.
                 andthen (update_build_resources build_id
                   (\<lambda>d. d\<lparr>br_cleanup_status := PartialFailed, br_last_error := Some ''Unable to enqueue cleanup task''\<rparr>)
                   (None, \<lambda>d. br_cleanup_status d = CleanupQueued \<and>
                              br_cleanup_generation d = br_cleanup_generation queued))
                 (raise RepositoryError ''Unable to enqueue cleanup task'')))
              (bd (manifest_of env build_id) (\<lambda>d. ret (d, 202))))))"

definition lease_is_live :: "build_resources \<Rightarrow> instant \<Rightarrow> bool" where
  "lease_is_live m now \<longleftrightarrow> truthy_text (br_lease_owner m) \<and>
     (case br_lease_expires_at m of Some e \<Rightarrow> e > now | None \<Rightarrow> False)"

definition recover_cleanups :: "cleanup_env \<Rightarrow> (world, nat) action" where
  "recover_cleanups env =
     bd list_cleanup_resources (\<lambda>ms.
     fold_each ms (\<lambda>m n. bd utc_now (\<lambda>now.
       if lease_is_live m now then ret n
       else andthen (ce_dispatch env (br_build_id m)) (ret (Suc n)))) 0)"

section \<open>\<open>BuildCleanupRunner\<close>\<close>

definition expected_repository :: "cleanup_env \<Rightarrow> string \<Rightarrow> string res" where
  "expected_repository env appid =
     (let raw = ce_harbor_url env in
      rbind (urlsplit (if contains raw ''://'' then raw else ''//'' @ raw)) (\<lambda>parsed.
      rbind (external_namespace appid) (\<lambda>ns.
      Inr (url_netloc parsed @ ''/'' @ ce_harbor_project env @ ''/'' @ ns))))"

definition safe_error :: "exn \<Rightarrow> string" where
  "safe_error e =
     (if exn_class e \<in> adapter_errors \<union>
          {ResourceConflict, WorkspaceError, RepositoryError, DuplicateAppError, DuplicateTechStackError}
      then exn_msg e
      else ''Cleanup operation failed; inspect the protected resource or execution target'')"

definition image_item_ok :: "value \<Rightarrow> bool" where
  "image_item_ok v \<longleftrightarrow> is_mapping v \<and> is_bool (mget (the_dict v) ''local_removed'')"

definition item_reference :: "value \<Rightarrow> value" where
  "item_reference v = mget_default (the_dict v) ''reference'' (VStr [])"

definition record_builder_image ::
  "tracker \<Rightarrow> string \<Rightarrow> string \<Rightarrow> value \<Rightarrow> value \<Rightarrow> (world, unit) action" where
  "record_builder_image tr build_id expected builder_target item =
     (let ref = item_reference item; name = the_str ref in
      if \<not> is_str ref \<or> \<not> starts_with name (expected @ '':'' @ build_id @ ''-'')
      then conflict ''Jenkins resource artifact contains a non-build image reference''
      else
        bd (get_build_resources build_id) (\<lambda>current.
        let known = (\<lambda>key. case current of Some d \<Rightarrow> dget (br_resources d) key | None \<Rightarrow> None);
            gone = (\<lambda>key. case known key of Some r \<Rightarrow> rs_state r = Removed | None \<Rightarrow> False) in
        andthen
          (if gone (resource_key KRegistryImage ''harbor'' name) then ret ()
           else bd (tracker_record tr KRegistryImage name ''harbor'' None Present True [] None) (\<lambda>_. ret ()))
          (if truthy (mget (the_dict item) ''local_removed'') then ret ()
           else if \<not> is_str builder_target \<or> \<not> starts_with (the_str builder_target) ''docker:''
           then conflict ''Jenkins builder execution target is missing''
           else if gone (resource_key KLocalImage (the_str builder_target) name) then ret ()
           else bd (tracker_record tr KLocalImage name (the_str builder_target)
                      (case mget (the_dict item) ''native_id'' of VStr s \<Rightarrow> Some s | _ \<Rightarrow> None)
                      Present True [] None) (\<lambda>_. ret ()))))"

text \<open>The checks on Jenkins' report, in their order; the result is the repository prefix of the
  build's images and the images the builder made.\<close>

definition check_artifact ::
  "build_job \<Rightarrow> string res \<Rightarrow> mapping \<Rightarrow> (string \<times> value list) res" where
  "check_artifact b expected_repo report =
     (let bad = (\<lambda>m. Inl (Exn ResourceConflict m)) in
      if mget report ''build_id'' \<noteq> VStr (bj_build_id b)
      then bad ''Jenkins resource artifact has a different build owner''
      else if mget report ''verification_complete'' \<noteq> VBool True
      then bad ''Jenkins builder resource discovery is incomplete''
      else if mget report ''workspace_removed'' \<noteq> VBool True
      then bad ''Jenkins build-private workspace cleanup has not been verified''
      else
        rbind expected_repo (\<lambda>expected.
        let images = mget report ''images''; items = the_list images;
            references = map the_str (filter is_str (map (\<lambda>v. mget (the_dict v) ''reference'') items));
            planned = map (\<lambda>name. expected @ '':'' @ bj_build_id b @ ''-'' @ name)
                        (compose_names (bj_compose_snapshot b) ''services'')
        in if \<not> is_bool (mget report ''plan_created'')
           then bad ''Jenkins builder resource plan verification is missing''
           else if \<not> is_list images \<or> \<not> list_all image_item_ok items
           then bad ''Jenkins resource artifact image inventory is invalid''
           else if mget report ''plan_created'' = VBool True then
             (if set references \<noteq> set planned \<or> length items \<noteq> length (remdups planned)
              then bad ''Jenkins builder resource inventory is incomplete'' else Inr (expected, items))
           else if items \<noteq> [] then bad ''Jenkins builder resource plan is unavailable''
           else Inr (expected, items)))"

definition collect_builder_resources ::
  "cleanup_env \<Rightarrow> build_resources \<Rightarrow> tracker \<Rightarrow> (world, unit) action" where
  "collect_builder_resources env m tr =
     bd (require_build (br_build_id m)) (\<lambda>b.
     if br_ownership_version m \<noteq> 1 \<or> \<not> (truthy_text (bj_jenkins_queue_url b) \<or> bj_jenkins_build_number b \<noteq> None)
     then ret ()
     else
       (case ce_jenkins env of
          None \<Rightarrow> raise TypeError ''NoneType object is not callable''
        | Some jk \<Rightarrow>
            bd (case bj_jenkins_build_number b of
                  Some n \<Rightarrow> ret (Some n)
                | None \<Rightarrow> bd (jk_queue_item jk (the (bj_jenkins_queue_url b))) (\<lambda>(number, _). ret number)) (\<lambda>number.
            case number of
              None \<Rightarrow> ret ()
            | Some n \<Rightarrow>
                bd (jk_artifact jk n) (\<lambda>report.
                bd (lift_res (check_artifact b (expected_repository env (bj_appid b)) report)) (\<lambda>(expected, items).
                for_each items
                  (record_builder_image tr (bj_build_id b) expected (mget report ''builder_target'')))))))"

text \<open>What the runner's loops carry: the errors so far, the Docker cleaner once there is one,
  whether discovery is complete and the storage states Harbor reported.\<close>

record run_state =
  rn_errors :: "string list"
  rn_docker :: "docker_cleaner option"
  rn_discovered :: bool
  rn_registry :: "value list"

definition current_resources :: "string \<Rightarrow> (world, build_resources) action" where
  "current_resources build_id = bd (get_build_resources build_id) (\<lambda>m. case m of
     None \<Rightarrow> raise OtherError ''NoneType object has no attribute resources'' | Some d \<Rightarrow> ret d)"

definition CLEANUP_ORDER :: "resource_kind list" where
  "CLEANUP_ORDER = [KService, KContainer, KVolume, KWorkspace, KRuntimeDirectory, KNetwork, KPort,
     KLocalImage, KRegistryImage]"

definition runtime_kind :: "resource_kind \<Rightarrow> bool" where
  "runtime_kind k \<longleftrightarrow> k = KService \<or> k = KContainer"

definition runtime_outstanding :: "build_resources \<Rightarrow> bool" where
  "runtime_outstanding d \<longleftrightarrow> (\<exists>r\<in>set (vals (br_resources d)). runtime_kind (rs_kind r) \<and> rs_state r \<noteq> Removed)"

text \<open>The removal of one managed resource: the resource as it is then, and the storage state
  Harbor reports for an image.\<close>

definition remove_resource ::
  "cleanup_env \<Rightarrow> build_resources \<Rightarrow> tracker \<Rightarrow> run_state \<Rightarrow> build_resource
     \<Rightarrow> (world, build_resource \<times> value list) action" where
  "remove_resource env m tr st r =
     bd (current_resources (br_build_id m)) (\<lambda>latest.
     if \<not> runtime_kind (rs_kind r) \<and> (runtime_outstanding latest \<or> \<not> rn_discovered st)
     then conflict ''Build runtime resources have not been fully removed''
     else if rs_kind r = KWorkspace \<or> rs_kind r = KRuntimeDirectory then
       (if rs_kind r \<noteq> KWorkspace \<or> rs_target r \<noteq> ''workspace''
        then conflict ''Unregistered directory cleanup target''
        else
          andthen (case rn_docker st of
                     None \<Rightarrow> ret ()
                   | Some dc \<Rightarrow> dc_assert_directory_unused dc (ce_host_path env (br_appid m) (br_build_id m)) tr)
          (andthen (tracker_guard tr)
          (andthen (ce_delete_snapshot env (br_appid m) (br_build_id m) (rs_name r)) (ret (r, [])))))
     else if rs_kind r = KRegistryImage then
       bd (lift_res (expected_repository env (br_appid m))) (\<lambda>repo.
       bd (ce_remove_tag env (rs_name r) repo (br_build_id m) (mget (rs_metadata r) ''digest'')) (\<lambda>s.
       ret (r\<lparr>rs_metadata := mput (rs_metadata r) ''registry_storage_status'' (VStr s)\<rparr>, [VStr s])))
     else
       (case rn_docker st of
          None \<Rightarrow> conflict ''Docker cleanup target is unavailable''
        | Some dc \<Rightarrow> andthen (dc_remove dc m r tr) (ret (r, []))))"

definition cleanup_resource ::
  "cleanup_env \<Rightarrow> build_resources \<Rightarrow> tracker \<Rightarrow> resource_kind \<Rightarrow> build_resource \<Rightarrow> run_state
     \<Rightarrow> (world, run_state) action" where
  "cleanup_resource env m tr kind r st =
     (if rs_kind r \<noteq> kind \<or> rs_state r = Removed then ret st
      else
        andthen (tracker_guard tr)
        (if \<not> rs_managed r then
           andthen (tracker_update tr r Blocked
                      (case str_or (rs_error r) None of
                         Some e \<Rightarrow> Some e | None \<Rightarrow> Some ''Resource ownership is not exclusive''))
             (ret st)
         else
           bd (attempt (remove_resource env m tr st r)) (\<lambda>res.
             case res of
               Inl e \<Rightarrow> andthen (tracker_update tr r ErrorState (Some (safe_error e))) (ret st)
             | Inr (r', states) \<Rightarrow>
                 bd (attempt (tracker_update tr r' Removed None)) (\<lambda>saved.
                 andthen (case saved of
                            Inr _ \<Rightarrow> ret ()
                          | Inl e \<Rightarrow> tracker_update tr r' ErrorState (Some (safe_error e)))
                   (ret (st\<lparr>rn_registry := rn_registry st @ states\<rparr>))))))"

definition before_containers ::
  "build_resources \<Rightarrow> tracker \<Rightarrow> run_state \<Rightarrow> (world, run_state) action" where
  "before_containers m tr st =
     (case rn_docker st of
        None \<Rightarrow> ret st
      | Some dc \<Rightarrow>
          if \<not> rn_discovered st then ret st
          else
            bd (attempt (andthen (tracker_guard tr)
                  (bd (current_resources (br_build_id m)) (\<lambda>current.
                   andthen (dc_discover dc current tr) (dc_wait_stopped dc m tr))))) (\<lambda>res.
              case res of
                Inr _ \<Rightarrow> ret st
              | Inl e \<Rightarrow> ret (st\<lparr>rn_errors := rn_errors st @ [safe_error e], rn_discovered := False\<rparr>)))"

definition cleanup_kind ::
  "cleanup_env \<Rightarrow> build_resources \<Rightarrow> tracker \<Rightarrow> resource_kind \<Rightarrow> run_state \<Rightarrow> (world, run_state) action" where
  "cleanup_kind env m tr kind st =
     bd (if kind = KContainer then before_containers m tr st else ret st) (\<lambda>st1.
     bd (current_resources (br_build_id m)) (\<lambda>current.
     fold_each (vals (br_resources current)) (\<lambda>r s. cleanup_resource env m tr kind r s) st1))"

definition collect_phase :: "cleanup_env \<Rightarrow> build_resources \<Rightarrow> tracker \<Rightarrow> (world, string list) action" where
  "collect_phase env m tr =
     bd (attempt (collect_builder_resources env m tr)) (\<lambda>res.
       case res of
         Inl e \<Rightarrow> bd (tracker_record tr KBuilderCache ''jenkins-resource-verification'' ''jenkins'' None ErrorState
                       True [] (Some (safe_error e))) (\<lambda>_. ret [safe_error e])
       | Inr _ \<Rightarrow>
           bd (current_resources (br_build_id m)) (\<lambda>prior.
           andthen (for_each (vals (br_resources prior)) (\<lambda>r.
               if rs_kind r = KBuilderCache \<and> rs_name r = ''jenkins-resource-verification''
               then tracker_update tr r Removed None else ret ())) (ret [])))"

definition discovery_phase ::
  "cleanup_env \<Rightarrow> build_resources \<Rightarrow> tracker \<Rightarrow> string list \<Rightarrow> (world, run_state) action" where
  "discovery_phase env m tr errors =
     (if br_ownership_version m \<noteq> 1
      then ret \<lparr>rn_errors = errors, rn_docker = None, rn_discovered = (br_ownership_version m = 0), rn_registry = []\<rparr>
      else
        bd (attempt (ce_docker env)) (\<lambda>made.
          case made of
            Inl e \<Rightarrow> ret \<lparr>rn_errors = errors @ [safe_error e], rn_docker = None, rn_discovered = False, rn_registry = []\<rparr>
          | Inr dc \<Rightarrow>
              bd (attempt (bd (current_resources (br_build_id m)) (\<lambda>current. dc_discover dc current tr))) (\<lambda>res.
                case res of
                  Inl e \<Rightarrow> ret \<lparr>rn_errors = errors @ [safe_error e], rn_docker = Some dc, rn_discovered = False, rn_registry = []\<rparr>
                | Inr _ \<Rightarrow> ret \<lparr>rn_errors = errors, rn_docker = Some dc, rn_discovered = True, rn_registry = []\<rparr>)))"

definition verify_phase :: "build_resources \<Rightarrow> tracker \<Rightarrow> run_state \<Rightarrow> (world, string list) action" where
  "verify_phase m tr st =
     bd (current_resources (br_build_id m)) (\<lambda>current.
     case rn_docker st of
       None \<Rightarrow> ret (rn_errors st)
     | Some dc \<Rightarrow>
         bd (attempt (andthen (dc_discover dc current tr)
               (bd (current_resources (br_build_id m)) (\<lambda>again. dc_verify_empty dc again tr)))) (\<lambda>res.
           case res of Inr _ \<Rightarrow> ret (rn_errors st) | Inl e \<Rightarrow> ret (rn_errors st @ [safe_error e])))"

definition remaining_resources :: "build_resources \<Rightarrow> build_resource list" where
  "remaining_resources d = filter (\<lambda>r. rs_state r \<noteq> Removed) (vals (br_resources d))"

definition final_cleanup_status :: "build_resources \<Rightarrow> string list \<Rightarrow> cleanup_status" where
  "final_cleanup_status d errors =
     (if remaining_resources d \<noteq> [] \<or> errors \<noteq> [] then PartialFailed else CleanupSucceeded)"

definition recorded_storage :: "build_resources \<Rightarrow> value list" where
  "recorded_storage d = filter truthy (map (\<lambda>r. mget (rs_metadata r) ''registry_storage_status'')
     (filter (\<lambda>r. rs_kind r = KRegistryImage \<and> rs_state r = Removed) (vals (br_resources d))))"

definition final_storage_status :: "build_resources \<Rightarrow> value list \<Rightarrow> string" where
  "final_storage_status d states =
     (if VStr ''shared_retained'' \<in> set states then ''shared_retained''
      else if states \<noteq> [] then ''waiting_gc'' else br_registry_storage_status d)"

definition mark_service_cleaned ::
  "build_resources \<Rightarrow> tracker \<Rightarrow> deployment_service \<Rightarrow> (world, unit) action" where
  "mark_service_cleaned current tr s =
     (let associated = filter (\<lambda>r. rs_kind r = KService \<and> rs_native_id r = Some (sv_service_id s))
            (vals (br_resources current))
      in if sv_build_id s \<noteq> br_build_id current then ret ()
         else if associated \<noteq> [] \<and> list_all (\<lambda>r. rs_state r = Removed) associated
         then andthen (tracker_guard tr)
                (bd utc_now (\<lambda>now.
                 bd (save_service (s\<lparr>sv_status := ''cleaned'', sv_updated_at := now\<rparr>)) (\<lambda>_. ret ())))
         else ret ())"

definition save_cleanup_result ::
  "build_resources \<Rightarrow> tracker \<Rightarrow> value list \<Rightarrow> string list \<Rightarrow> (world, cleanup_status) action" where
  "save_cleanup_result m tr registry errors =
     bd (current_resources (br_build_id m)) (\<lambda>current.
     let status = final_cleanup_status current errors;
         storage = final_storage_status current (registry @ recorded_storage current);
         last_error = (if errors \<noteq> [] then Some (join ''; '' errors)
                       else if remaining_resources current \<noteq> []
                       then Some ''Some build resources could not be removed'' else None)
     in andthen (tracker_guard tr)
        (bd utc_now (\<lambda>now.
         bd (update_build_resources (br_build_id m)
               (\<lambda>d. d\<lparr>br_cleanup_status := status, br_finished_at := Some now, br_last_error := last_error,
                      br_registry_storage_status := storage\<rparr>)
               (Some (tr_owner tr), \<lambda>d. br_cleanup_status d = CleanupRunning)) (\<lambda>updated.
           case updated of
             None \<Rightarrow> conflict ''Build cleanup lease lost before saving result''
           | Some _ \<Rightarrow>
               bd (list_services (br_appid m)) (\<lambda>services.
               andthen (for_each services (mark_service_cleaned current tr)) (ret status))))))"

definition cleanup_under_lease ::
  "cleanup_env \<Rightarrow> build_resources \<Rightarrow> tracker \<Rightarrow> (world, cleanup_status) action" where
  "cleanup_under_lease env m tr =
     bd utc_now (\<lambda>now.
     andthen (update_build_resources (br_build_id m)
       (\<lambda>d. d\<lparr>br_cleanup_status := CleanupRunning,
              br_started_at := (case br_started_at m of Some t \<Rightarrow> Some t | None \<Rightarrow> Some now),
              br_last_error := None\<rparr>)
       (Some (tr_owner tr), \<lambda>_. True))
     (bd (attempt (assert_quiescent env (br_build_id m))) (\<lambda>quiet.
       case quiet of
         Inl e \<Rightarrow>
           bd utc_now (\<lambda>now'.
           andthen (update_build_resources (br_build_id m)
             (\<lambda>d. d\<lparr>br_cleanup_status := PartialFailed, br_finished_at := Some now',
                    br_last_error := Some (safe_error e)\<rparr>)
             (Some (tr_owner tr), \<lambda>_. True)) (ret PartialFailed))
       | Inr _ \<Rightarrow>
           bd (collect_phase env m tr) (\<lambda>errors.
           bd (discovery_phase env m tr errors) (\<lambda>st0.
           bd (fold_each CLEANUP_ORDER (cleanup_kind env m tr) st0) (\<lambda>st.
           bd (verify_phase m tr st) (\<lambda>all_errors.
           save_cleanup_result m tr (rn_registry st) all_errors)))))))"

definition run_cleanup :: "cleanup_env \<Rightarrow> string \<Rightarrow> (world, cleanup_status) action" where
  "run_cleanup env build_id =
     bd (manifest_of env build_id) (\<lambda>m.
     if br_cleanup_status m \<notin> {CleanupQueued, CleanupRunning} then ret (br_cleanup_status m)
     else build_lease build_id [CleanupQueued, CleanupRunning] 120 (\<lambda>t.
       case t of
         None \<Rightarrow> bd (manifest_of env build_id) (\<lambda>d. ret (br_cleanup_status d))
       | Some tr \<Rightarrow> cleanup_under_lease env m tr))"

section \<open>When a clean-up succeeds\<close>

lemma current_resources_app:
  "current_resources i w = (case look_resources w i of
     None \<Rightarrow> (Inl (Exn OtherError ''NoneType object has no attribute resources''), w) | Some d \<Rightarrow> (Inr d, w))"
  by (simp add: current_resources_def get_build_resources_def look_resources_def bd_app split: option.split)


definition manifest_done :: "build_resources \<Rightarrow> bool" where
  "manifest_done d \<longleftrightarrow> br_cleanup_status d = CleanupSucceeded \<and> br_last_error d = None \<and>
     (\<forall>r\<in>set (vals (br_resources d)). rs_state r = Removed)"

abbreviation same_resources :: "world \<Rightarrow> world \<Rightarrow> bool" where
  "same_resources w w' \<equiv> w_build_resources w' = w_build_resources w"

interpretation sr: step_guarantee same_resources
  by unfold_locales simp_all

lemma keeps_sr_guard: "keeps same_resources (tracker_guard t)"
  by (rule keepsI) simp

lemma sr_run: "keeps same_resources m \<Longrightarrow> m w = (r, w') \<Longrightarrow> w_build_resources w' = w_build_resources w"
  by (drule keepsD [where w = w]) simp

lemma mark_service_resources: "keeps same_resources (mark_service_cleaned c tr s)"
  unfolding mark_service_cleaned_def
  by (intro sr.keeps_rules keeps_sr_guard) (simp_all add: keeps_def save_service_def)

lemma tracker_guard_split: obtains g where "tracker_guard t w = (g, w)"
  by (metis prod.collapse tracker_guard_state)

lemma save_cleanup_result_success:
  assumes "save_cleanup_result m tr reg errs w = (Inr CleanupSucceeded, w')"
  shows "\<exists>d. look_resources w' (br_build_id m) = Some d \<and> manifest_done d"
proof -
  obtain c where c: "look_resources w (br_build_id m) = Some c"
    using assms by (cases "look_resources w (br_build_id m)")
      (simp_all add: save_cleanup_result_def bd_app current_resources_app)
  define s where "s = final_storage_status c (reg @ recorded_storage c)"
  define le where "le = (if errs \<noteq> [] then Some (join ''; '' errs) else if remaining_resources c \<noteq> []
                       then Some ''Some build resources could not be removed'' else None)"
  define f where "f = (\<lambda>d :: build_resources. d\<lparr>br_cleanup_status := final_cleanup_status c errs, br_finished_at := Some (w_clock w),
      br_last_error := le, br_registry_storage_status := s\<rparr>)"
  define upd where "upd = update_build_resources (br_build_id m) f
      (Some (tr_owner tr), \<lambda>d. br_cleanup_status d = CleanupRunning) w"
  obtain g where g: "tracker_guard tr w = (g, w)" by (rule tracker_guard_split)
  have run: "save_cleanup_result m tr reg errs w =
     (case g of Inl e \<Rightarrow> (Inl e, w) | Inr _ \<Rightarrow>
       bd (\<lambda>_. upd) (\<lambda>updated. case updated of
             None \<Rightarrow> conflict ''Build cleanup lease lost before saving result''
           | Some _ \<Rightarrow> bd (list_services (br_appid m)) (\<lambda>services.
               andthen (for_each services (mark_service_cleaned c tr)) (ret (final_cleanup_status c errs)))) w)"
    unfolding upd_def f_def s_def le_def
    by (cases g) (simp_all add: save_cleanup_result_def bd_app andthen_app c g current_resources_app Let_def)
  define rest where "rest = bd (list_services (br_appid m)) (\<lambda>services.
      andthen (for_each services (mark_service_cleaned c tr)) (ret (final_cleanup_status c errs)))"
  obtain ures w1 where upd: "upd = (ures, w1)" by (cases upd)
  obtain u where u: "upd = (Inr (Some u), w1)" and r: "rest w1 = (Inr CleanupSucceeded, w')"
    using assms unfolding run rest_def [symmetric] upd
    by (cases g; cases ures) (auto simp: bd_app conflict_def split: option.splits)
  have ok: "final_cleanup_status c errs = CleanupSucceeded"
    using r by (auto simp: rest_def bd_app andthen_app list_services_def split: prod.splits sum.splits)
  have "keeps same_resources rest"
    unfolding rest_def by (intro sr.keeps_rules mark_service_resources) (simp add: keeps_def list_services_def)
  then have w': "w_build_resources w' = w_build_resources w1"
    using sr_run [where m = rest and w = w1, OF _ r] by simp
  have "look_resources w1 (br_build_id m) = Some u" "u = (f c)\<lparr>br_updated_at := w_clock w\<rparr>"
    using u c by (auto simp: upd_def update_build_resources_def look_resources_def Let_def put_resources_doc_def
        split: option.splits if_splits)
  moreover have "remaining_resources c = []" "errs = []"
    using ok by (simp_all add: final_cleanup_status_def split: if_splits)
  then have "manifest_done ((f c)\<lparr>br_updated_at := w_clock w\<rparr>)"
    using ok by (simp add: manifest_done_def f_def le_def remaining_resources_def filter_empty_conv)
  ultimately show ?thesis using w' by (simp add: look_resources_def)
qed

lemma manifest_of_present:
  "look_resources w i = Some m \<Longrightarrow> manifest_of env i w =
     (case look_build w i of None \<Rightarrow> (Inl (Exn NotFoundError ''Build not found''), w) | Some b \<Rightarrow> (Inr m, w))"
  by (simp add: manifest_of_def bd_app require_build_app get_build_resources_def look_resources_def split: option.split)

text \<open>A manifest made up for an older build protects everything but the workspace snapshot.\<close>

definition legacy_entry :: "build_resource \<Rightarrow> bool" where
  "legacy_entry r \<longleftrightarrow> (rs_managed r \<longleftrightarrow> rs_kind r = KWorkspace) \<and>
     rs_state r = (if rs_managed r then Present else Blocked)"

definition legacy_ok :: "build_job \<Rightarrow> build_resources \<Rightarrow> bool" where
  "legacy_ok b m \<longleftrightarrow> br_build_id m = bj_build_id b \<and> br_appid m = bj_appid b \<and>
     br_cleanup_status m = NotStarted \<and> br_ownership_version m = 0 \<and> br_lease_owner m = None \<and>
     list_all legacy_entry (vals (br_resources m))"

lemma legacy_ok_new: "legacy_ok b (new_build_resources (bj_build_id b) (bj_appid b) 0 now)"
  by (simp add: legacy_ok_def new_build_resources_def)

lemma list_all_dset: "list_all P (vals d) \<Longrightarrow> P v \<Longrightarrow> list_all P (vals (dset d k v))"
  by (induction d) auto

lemma legacy_ok_protect:
  assumes "legacy_ok b m" and "mgd = (kind = KWorkspace)"
  shows "legacy_ok b (protect kind name target nid mgd err now m)"
proof -
  have "legacy_entry ((new_build_resource (resource_key kind target name) kind name target now)
      \<lparr>rs_native_id := nid, rs_managed := mgd, rs_state := (if mgd then Present else Blocked), rs_error := err\<rparr>)"
    using assms(2) by (simp add: legacy_entry_def new_build_resource_def)
  with assms(1) show ?thesis
    by (simp add: legacy_ok_def protect_def Let_def list_all_dset)
qed

lemma legacy_ok_fold:
  "legacy_ok b m \<Longrightarrow> (\<And>x m. legacy_ok b m \<Longrightarrow> legacy_ok b (f x m)) \<Longrightarrow> legacy_ok b (fold f xs m)"
  by (induction xs arbitrary: m) simp_all

lemma legacy_manifest_ok: "legacy_ok b (legacy_manifest env b w)"
  unfolding legacy_manifest_def Let_def
  by (auto intro!: legacy_ok_protect legacy_ok_fold legacy_ok_new split: option.splits)

lemma manifest_of_absent:
  "look_resources w i = None \<Longrightarrow> look_build w i = Some b \<Longrightarrow> bj_build_id b = i \<Longrightarrow>
   manifest_of env i w = (Inr (legacy_manifest env b w), put_resources_doc i (legacy_manifest env b w) w)"
  using legacy_manifest_ok [of b env w]
  by (simp add: manifest_of_def bd_app require_build_app get_build_resources_def look_resources_def
      ensure_build_resources_def Let_def dsetdefault_def legacy_ok_def put_resources_doc_def)

lemma cleanup_under_lease_success:
  assumes "cleanup_under_lease env m tr w = (Inr CleanupSucceeded, w')"
  shows "\<exists>w1 tr reg errs. save_cleanup_result m tr reg errs w1 = (Inr CleanupSucceeded, w')"
  using assms unfolding cleanup_under_lease_def
  by (auto simp: bd_app andthen_app attempt_app split: prod.splits sum.splits)

lemma claim_state:
  "claim_build_lease k owner until ss w = (Inr None, w') \<Longrightarrow> w' = w"
  by (auto simp: claim_build_lease_def Let_def split: option.splits if_splits)

lemma release_done:
  "look_resources w i = Some d \<Longrightarrow> manifest_done d \<Longrightarrow>
   \<exists>d'. look_resources (snd (release_build_lease k owner w)) i = Some d' \<and> manifest_done d'"
  by (auto simp: release_build_lease_def look_resources_def put_resources_doc_def manifest_done_def
      split: option.splits)

text \<open>
  C2: a clean-up reports success only when there is nothing left. Whatever Jenkins, Docker,
  Harbor and the workspace store answer or do to the stored documents meanwhile, a run that
  returns \<open>succeeded\<close> either found the manifest already so and changed nothing, or left a manifest
  that is marked as succeeded, carries no error and has no resource that is not removed.
\<close>

theorem cleanup_success_is_complete:
  assumes "run_cleanup env i w = (Inr CleanupSucceeded, w')"
    and "\<And>m. look_resources w i = Some m \<Longrightarrow> br_build_id m = i"
    and "\<And>b. look_build w i = Some b \<Longrightarrow> bj_build_id b = i"
  shows "(\<exists>d. look_resources w i = Some d \<and> br_cleanup_status d = CleanupSucceeded \<and> w' = w) \<or>
    (\<exists>d. look_resources w' i = Some d \<and> br_cleanup_status d = CleanupSucceeded \<and>
         br_last_error d = None \<and> (\<forall>r\<in>set (vals (br_resources d)). rs_state r = Removed))"
proof -
  obtain b where b: "look_build w i = Some b"
    using assms(1) by (cases "look_build w i") (simp_all add: run_cleanup_def bd_app manifest_of_def require_build_app)
  show ?thesis
  proof (cases "look_resources w i")
    case None
    then show ?thesis
      using assms(1) manifest_of_absent [OF None b assms(3) [OF b], of env] legacy_manifest_ok [of b env w]
      by (simp add: run_cleanup_def bd_app legacy_ok_def)
  next
    case (Some m)
    note m = manifest_of_present [OF Some, of env]
    show ?thesis
    proof (cases "br_cleanup_status m \<in> {CleanupQueued, CleanupRunning}")
      case False
      then show ?thesis
        using assms(1) m Some b by (simp add: run_cleanup_def bd_app)
    next
      case True
      let ?w1 = "w\<lparr>w_uuid_next := Suc (w_uuid_next w)\<rparr>" and ?o = "w_uuid w (w_uuid_next w)"
      let ?body = "\<lambda>t. case t of None \<Rightarrow> bd (manifest_of env i) (\<lambda>d. ret (br_cleanup_status d))
                      | Some tr \<Rightarrow> cleanup_under_lease env m tr"
      have run: "build_lease i [CleanupQueued, CleanupRunning] 120 ?body w = (Inr CleanupSucceeded, w')"
        using assms(1) m b True by (auto simp: run_cleanup_def bd_app)
      obtain r w2 where c: "claim_build_lease i ?o (w_clock w + 120) [CleanupQueued, CleanupRunning] ?w1 = (r, w2)"
        by fastforce
      have "r \<noteq> Inr None"
      proof
        assume r: "r = Inr None"
        then have "w2 = ?w1" using claim_state c by blast
        moreover have "manifest_of env i ?w1 = (Inr m, ?w1)"
          using manifest_of_present [of ?w1 i m env] Some b by (simp add: look_resources_def look_build_def)
        ultimately show False
          using run c r True by (auto simp: build_lease_app Let_def bd_app)
      qed
      then obtain d where r: "r = Inr (Some d)"
        using run c by (cases r) (auto simp: build_lease_app Let_def)
      let ?t = "\<lparr>tr_build_id = i, tr_owner = Some ?o\<rparr>"
      obtain q w3 where q: "cleanup_under_lease env m ?t w2 = (q, w3)" by fastforce
      obtain w4 where rel: "release_build_lease i ?o w3 = (Inr (), w4)"
        using release_never_raises by (metis prod.collapse)
      have "q = Inr CleanupSucceeded" "w' = w4"
        using run c r q rel by (simp_all add: build_lease_app Let_def finally_do_app)
      then have "\<exists>d. look_resources w3 i = Some d \<and> manifest_done d"
        using cleanup_under_lease_success [of env m ?t w2 w3] q save_cleanup_result_success [of m]
          assms(2) [OF Some] by metis
      then obtain d' where "look_resources w' i = Some d'" "manifest_done d'"
        using release_done [of w3 i _ i ?o] rel \<open>w' = w4\<close> by (metis snd_conv)
      then show ?thesis by (auto simp: manifest_done_def)
    qed
  qed
qed

definition quiet_cleanup_env :: cleanup_env where
  "quiet_cleanup_env = \<lparr>
     ce_jenkins = None,
     ce_docker = ret \<lparr>dc_discover = \<lambda>_ _. ret (), dc_wait_stopped = \<lambda>_ _. ret (), dc_remove = \<lambda>_ _ _. ret (),
                     dc_verify_empty = \<lambda>_ _. ret (), dc_assert_directory_unused = \<lambda>_ _. ret ()\<rparr>,
     ce_harbor_url = ''https://harbor.local'', ce_harbor_project = ''builds'',
     ce_remove_tag = \<lambda>_ _ _ _. ret ''waiting_gc'', ce_snapshot_path = \<lambda>a s. a @ ''/'' @ s,
     ce_host_path = \<lambda>a b. ''/srv/'' @ a @ ''/'' @ b, ce_delete_snapshot = \<lambda>_ _ _. ret (),
     ce_dispatch = \<lambda>i. emit (DispatchCleanup i)\<rparr>"

definition cleanup_world :: "build_status \<Rightarrow> cleanup_status \<Rightarrow> resource_kind \<Rightarrow> world" where
  "cleanup_world s c k = (empty_world str_nat 10)\<lparr>
     w_builds := [(''b1'', (new_build_job ''b1'' ''shop'' ''main'' 5)\<lparr>bj_status := s\<rparr>)],
     w_build_resources := [(''b1'', (new_build_resources ''b1'' ''shop'' 1 5)
        \<lparr>br_cleanup_status := c,
         br_resources := [(''k1'', (new_build_resource ''k1'' k ''img'' ''docker'' 5)\<lparr>rs_state := Removed\<rparr>)]\<rparr>)]\<rparr>"

lemma cleanup_world_run:
  "fst (run_cleanup quiet_cleanup_env ''b1'' (cleanup_world SUCCEEDED CleanupQueued KLocalImage)) = Inr CleanupSucceeded"
  unfolding cleanup_world_def quiet_cleanup_env_def
  by (simp add: run_cleanup_def manifest_of_def require_build_app look_build_def bd_app get_build_resources_def
      new_build_job_def new_build_resources_def empty_world_def build_lease_app Let_def claim_build_lease_def
      put_resources_doc_def finally_do_app release_build_lease_def cleanup_under_lease_def andthen_app
      update_build_resources_def resources_expected_hold_def lease_expired_def attempt_app
      assert_quiescent_def truthy_text_def collect_phase_def collect_builder_resources_def current_resources_app
      look_resources_def new_build_resource_def discovery_phase_def CLEANUP_ORDER_def cleanup_kind_def
      cleanup_resource_def before_containers_def tracker_guard_def verify_phase_def save_cleanup_result_def
      final_cleanup_status_def remaining_resources_def final_storage_status_def recorded_storage_def
      list_services_def)

theorem cleanup_success_is_complete_witness:
  "\<exists>d. look_resources (snd (run_cleanup quiet_cleanup_env ''b1'' (cleanup_world SUCCEEDED CleanupQueued KLocalImage)))
        ''b1'' = Some d \<and> br_cleanup_status d = CleanupSucceeded"
proof -
  let ?w = "cleanup_world SUCCEEDED CleanupQueued KLocalImage"
  obtain w' where w': "run_cleanup quiet_cleanup_env ''b1'' ?w = (Inr CleanupSucceeded, w')"
    using cleanup_world_run by (metis prod.collapse)
  have "br_build_id m = ''b1''" if "look_resources ?w ''b1'' = Some m" for m
    using that by (auto simp: cleanup_world_def look_resources_def new_build_resources_def)
  moreover have "bj_build_id b = ''b1''" if "look_build ?w ''b1'' = Some b" for b
    using that by (auto simp: cleanup_world_def look_build_def new_build_job_def)
  ultimately show ?thesis
    using cleanup_success_is_complete [OF w'] w' by auto
qed

section \<open>Requests\<close>

lemma assert_quiescent_running:
  assumes "look_build w i = Some b" and "\<not> terminal (bj_status b)"
  shows "assert_quiescent env i w = (Inl (Exn ResourceConflict ''Build is still queued, building or deploying''), w)"
  using assms by (simp add: assert_quiescent_def bd_app require_build_app conflict_def)

text \<open>
  asking for a clean-up is idempotent and safe to repeat. A manifest whose clean-up has
  succeeded, is queued or is running answers 200 or 202 and nothing changes; a build that has not
  ended refuses it and nothing changes. Otherwise, if the external systems are quiescent and
  nobody holds a live lease, the manifest becomes queued in the next generation with its error and
  finishing time cleared, and the lease taken for it is given back.
\<close>

lemma request_cleanup_outcome:
  assumes "look_build w i = Some b" and "look_resources w i = Some m" and "br_build_id m = i"
  shows "if br_cleanup_status m = CleanupSucceeded then request_cleanup env i d w = (Inr (m, 200), w)
    else if br_cleanup_status m \<in> {CleanupQueued, CleanupRunning} then request_cleanup env i d w = (Inr (m, 202), w)
    else if \<not> terminal (bj_status b) then
      request_cleanup env i d w = (Inl (Exn ResourceConflict ''Build is still queued, building or deploying''), w)
    else assert_quiescent env i w = (Inr (), w) \<and> (br_lease_owner m = None \<or> lease_expired (br_lease_expires_at m) (w_clock w)) \<longrightarrow>
      (\<exists>q w'. request_cleanup env i False w = (Inr (q, 202), w') \<and> look_resources w' i = Some q \<and>
         br_cleanup_status q = CleanupQueued \<and> br_cleanup_generation q = br_cleanup_generation m + 1 \<and>
         br_cleanup_requested_at q = Some (w_clock w) \<and> br_finished_at q = None \<and> br_last_error q = None \<and>
         br_lease_owner q = None \<and> br_resources q = br_resources m)"
proof -
  note man = manifest_of_present [OF assms(2), of env]
  show ?thesis
  proof (cases "br_cleanup_status m \<in> {CleanupSucceeded, CleanupQueued, CleanupRunning} \<or> \<not> terminal (bj_status b)")
    case True
    then show ?thesis
      using man assms(1) assert_quiescent_running [OF assms(1), of env]
      by (auto simp: request_cleanup_def)
  next
    case False
    let ?w1 = "w\<lparr>w_uuid_next := Suc (w_uuid_next w)\<rparr>" and ?o = "w_uuid w (w_uuid_next w)"
    let ?m1 = "m\<lparr>br_lease_owner := Some ?o, br_lease_expires_at := Some (w_clock w + 120), br_updated_at := w_clock w\<rparr>"
    let ?w2 = "put_resources_doc i ?m1 ?w1"
    let ?q = "?m1\<lparr>br_cleanup_status := CleanupQueued, br_cleanup_generation := br_cleanup_generation m + 1,
       br_cleanup_requested_at := Some (w_clock w), br_finished_at := None, br_last_error := None, br_updated_at := w_clock w\<rparr>"
    let ?w3 = "put_resources_doc i ?q ?w2"
    let ?q' = "?q\<lparr>br_lease_owner := None, br_lease_expires_at := None\<rparr>"
    let ?w4 = "put_resources_doc i ?q' ?w3"
    have st: "br_cleanup_status m \<in> {NotStarted, PartialFailed}"
      using False by (cases "br_cleanup_status m") auto
    have goal: "request_cleanup env i False w = (Inr (?q', 202), ?w4)"
      if quiet: "assert_quiescent env i w = (Inr (), w)"
        and free: "br_lease_owner m = None \<or> lease_expired (br_lease_expires_at m) (w_clock w)"
    proof -
      have c: "claim_build_lease i ?o (w_clock w + 120) [NotStarted, PartialFailed] ?w1 = (Inr (Some ?m1), ?w2)"
        using st free assms(2) by (auto simp: claim_build_lease_def look_resources_def Let_def)
      have man2: "manifest_of env i ?w2 = (Inr ?m1, ?w2)" "manifest_of env i ?w4 = (Inr ?q', ?w4)"
        using manifest_of_present [of ?w2 i ?m1 env] manifest_of_present [of ?w4 i ?q' env] assms(1)
        by (simp_all add: resources.look_put_if) (simp_all add: look_build_def put_resources_doc_def)
      have u: "queue_cleanup env i (Some ?o) ?w2 = (Inr ?q, ?w3)"
        using man2(1)
        by (simp add: queue_cleanup_def bd_app update_build_resources_def resources_expected_hold_def
            lease_expired_def put_resources_doc_def Let_def)
      have r: "release_build_lease i ?o ?w3 = (Inr (), ?w4)"
        by (simp add: release_build_lease_def put_resources_doc_def)
      show ?thesis
        using man assms(1) quiet c u r man2 False st
        by (simp add: request_cleanup_def build_lease_app Let_def finally_do_app)
    qed
    show ?thesis
      using False goal by (auto simp: resources.look_put_if)
  qed
qed

end
