(* ===== verification/CleanupSafety.thy ===== *)
theory CleanupSafety
  imports Cleanup
begin

text \<open>
  What \<open>BuildCleanupRunner.run\<close> never does, as equations between runs: the run is the same
  when the calls it must not make are replaced by arbitrary ones. \<open>DockerSafety\<close> instantiates
  them with the Docker cleaner.
\<close>

section \<open>What a clean-up leaves alone\<close>

text \<open>
  Two runs that differ only in what they would do to resources the first one never removes:
  the second uses a cleaner that does something else, \<open>stray\<close>, to the resources outside \<open>P\<close>, a relation between the
  manifest cleaned up and its resources.
\<close>

definition stray_cleaner ::
  "(build_resources \<Rightarrow> build_resource \<Rightarrow> bool) \<Rightarrow> (build_resources \<Rightarrow> build_resource \<Rightarrow> tracker \<Rightarrow> (world, unit) action)
     \<Rightarrow> docker_cleaner \<Rightarrow> docker_cleaner" where
  "stray_cleaner P stray dc = dc\<lparr>dc_remove := \<lambda>m r t. if P m r then dc_remove dc m r t else stray m r t\<rparr>"

definition stray_state ::
  "(build_resources \<Rightarrow> build_resource \<Rightarrow> bool) \<Rightarrow> (build_resources \<Rightarrow> build_resource \<Rightarrow> tracker \<Rightarrow> (world, unit) action)
     \<Rightarrow> run_state \<Rightarrow> run_state" where
  "stray_state P stray st = st\<lparr>rn_docker := map_option (stray_cleaner P stray) (rn_docker st)\<rparr>"

definition mapped :: "('a \<Rightarrow> 'b) \<Rightarrow> 'a res \<times> 'w \<Rightarrow> 'b res \<times> 'w" where
  "mapped g p = (map_sum id g (fst p), snd p)"

lemma mapped_simps [simp]: "mapped g (Inl e, w) = (Inl e, w)" "mapped g (Inr x, w) = (Inr (g x), w)"
  by (simp_all add: mapped_def)

lemma bd_mapped:
  assumes "m' w = mapped g (m w)" and "\<And>x w1. m w = (Inr x, w1) \<Longrightarrow> f' (g x) w1 = h (f x w1)"
    and "\<And>e w1. h (Inl e, w1) = (Inl e, w1)"
  shows "bd m' f' w = h (bd m f w)"
  using assms by (auto simp: bd_app split: prod.splits sum.splits)

lemma fold_each_mapped:
  assumes "\<And>x s w. P s \<Longrightarrow> f' x (g s) w = mapped g (f x s w)"
    and "\<And>x s w s' w'. P s \<Longrightarrow> f x s w = (Inr s', w') \<Longrightarrow> P s'"
    and "P s"
  shows "fold_each xs f' (g s) w = mapped g (fold_each xs f s w)"
  using assms(3)
proof (induction xs arbitrary: s w)
  case (Cons x xs)
  show ?case
    unfolding fold_each.simps
    by (rule bd_mapped) (use Cons assms(1,2) in auto)
qed simp

lemma fold_each_inv:
  assumes "\<And>x s w s' w'. P s \<Longrightarrow> f x s w = (Inr s', w') \<Longrightarrow> P s'"
    and "P s" and "fold_each xs f s w = (Inr s', w')"
  shows "P s'"
  using assms(2,3)
proof (induction xs arbitrary: s w)
  case (Cons x xs)
  then obtain s1 w1 where 1: "f x s w = (Inr s1, w1)" "fold_each xs f s1 w1 = (Inr s', w')"
    by (auto simp: bd_app split: prod.splits sum.splits)
  then show ?case using Cons.IH assms(1) Cons.prems(1) by blast
qed simp

lemma stray_state_sel [simp]:
  "rn_errors (stray_state P s st) = rn_errors st" "rn_discovered (stray_state P s st) = rn_discovered st"
  "rn_registry (stray_state P s st) = rn_registry st"
  "rn_docker (stray_state P s st) = map_option (stray_cleaner P s) (rn_docker st)"
  by (simp_all add: stray_state_def)

lemma stray_cleaner_sel [simp]:
  "dc_discover (stray_cleaner P s dc) = dc_discover dc" "dc_wait_stopped (stray_cleaner P s dc) = dc_wait_stopped dc"
  "dc_verify_empty (stray_cleaner P s dc) = dc_verify_empty dc"
  "dc_assert_directory_unused (stray_cleaner P s dc) = dc_assert_directory_unused dc"
  by (simp_all add: stray_cleaner_def)

lemma stray_state_upd [simp]:
  "stray_state P s (st\<lparr>rn_registry := x\<rparr>) = (stray_state P s st)\<lparr>rn_registry := x\<rparr>"
  "stray_state P s (st\<lparr>rn_errors := e, rn_discovered := d\<rparr>) = (stray_state P s st)\<lparr>rn_errors := e, rn_discovered := d\<rparr>"
  by (simp_all add: stray_state_def)

lemma attempt_split: obtains r w' where "attempt m w = (Inr r, w')"
  by (cases "m w") (simp add: attempt_app)

lemma before_containers_stray:
  "before_containers m tr (stray_state P s st) w = mapped (stray_state P s) (before_containers m tr st w)"
proof (cases "rn_docker st = None \<or> \<not> rn_discovered st")
  case True
  then show ?thesis by (auto simp: before_containers_def split: option.split)
next
  case False
  then obtain dc where dc: "rn_docker st = Some dc" "rn_discovered st" by auto
  let ?x = "attempt (andthen (tracker_guard tr) (bd (current_resources (br_build_id m)) (\<lambda>current.
      andthen (dc_discover dc current tr) (dc_wait_stopped dc m tr))))"
  obtain res w1 where x: "?x w = (Inr res, w1)" by (rule attempt_split)
  show ?thesis using x dc by (cases res) (simp_all add: before_containers_def)
qed

lemma cleanup_resource_stray:
  assumes "rs_managed r \<Longrightarrow> remove_resource env' m tr (stray_state P s st) r = remove_resource env m tr st r"
  shows "cleanup_resource env' m tr k r (stray_state P s st) w =
    mapped (stray_state P s) (cleanup_resource env m tr k r st w)"
proof -
  obtain g where g: "tracker_guard tr w = (g, w)" by (rule tracker_guard_split)
  obtain res w1 where x: "attempt (remove_resource env m tr st r) w = (Inr res, w1)" by (rule attempt_split)
  obtain sv w2 where y: "attempt (tracker_update tr (fst (projr res)) Removed None) w1 = (Inr sv, w2)" by (rule attempt_split)
  show ?thesis
  proof (cases "rs_managed r")
    case True
    show ?thesis
    proof (cases res)
      case (Inl e)
      obtain q w3 where "tracker_update tr r ErrorState (Some (safe_error e)) w1 = (q, w3)" by fastforce
      then show ?thesis
        using Inl True g x assms by (cases g; cases q) (simp_all add: cleanup_resource_def)
    next
      case (Inr p)
      obtain a c where p: "p = (a, c)" by fastforce
      obtain q w3 where q: "(case sv of Inr _ \<Rightarrow> ret () | Inl e \<Rightarrow>
          tracker_update tr a ErrorState (Some (safe_error e))) w2 = (q, w3)" by fastforce
      have y': "attempt (tracker_update tr a Removed None) w1 = (Inr sv, w2)" using y Inr p by simp
      show ?thesis
        using Inr p True g x y' q assms by (cases g; cases q) (simp_all add: cleanup_resource_def)
    qed
  next
    case False
    obtain q w3 where "tracker_update tr r Blocked (case str_or (rs_error r) None of Some e \<Rightarrow> Some e
        | None \<Rightarrow> Some ''Resource ownership is not exclusive'') w = (q, w3)" by fastforce
    then show ?thesis
      using False g by (cases g; cases q) (simp_all add: cleanup_resource_def)
  qed
qed

lemma cleanup_resource_discovered:
  "cleanup_resource env m tr k r st w = (Inr st', w') \<Longrightarrow> rn_discovered st' = rn_discovered st"
  unfolding cleanup_resource_def
  by (auto elim!: bd_InrE andthen_InrE split: sum.splits if_splits)

lemma before_containers_discovered:
  "before_containers m tr st w = (Inr st', w') \<Longrightarrow> rn_discovered st' \<longrightarrow> rn_discovered st"
  unfolding before_containers_def
  by (cases "rn_docker st") (auto elim!: bd_InrE split: sum.splits if_splits)

lemma cleanup_kind_discovered:
  assumes "cleanup_kind env m tr k st w = (Inr st', w')"
  shows "rn_discovered st' \<longrightarrow> rn_discovered st"
  using assms unfolding cleanup_kind_def
proof (elim bd_InrE)
  fix st1 w1 cur w2
  assume 1: "(if k = KContainer then before_containers m tr st else ret st) w = (Inr st1, w1)"
    and 2: "fold_each (vals (br_resources cur)) (\<lambda>r s. cleanup_resource env m tr k r s) st1 w2 = (Inr st', w')"
  have "rn_discovered st' = rn_discovered st1"
    by (rule fold_each_inv [where P = "\<lambda>s. rn_discovered s = rn_discovered st1", OF _ _ 2])
       (auto dest: cleanup_resource_discovered)
  then show ?thesis using 1 before_containers_discovered by (auto split: if_splits)
qed

lemma cleanup_kind_stray:
  assumes "\<And>r st. rs_managed r \<Longrightarrow> Q (rn_discovered st) \<Longrightarrow>
      remove_resource env' m tr (stray_state P s st) r = remove_resource env m tr st r"
    and "Q (rn_discovered st)" "Q False"
  shows "cleanup_kind env' m tr k (stray_state P s st) w = mapped (stray_state P s) (cleanup_kind env m tr k st w)"
  unfolding cleanup_kind_def
proof (rule bd_mapped [where g = "stray_state P s"])
  show "(if k = KContainer then before_containers m tr (stray_state P s st) else ret (stray_state P s st)) w =
    mapped (stray_state P s) ((if k = KContainer then before_containers m tr st else ret st) w)"
    by (simp add: before_containers_stray)
next
  fix st1 w1
  assume 1: "(if k = KContainer then before_containers m tr st else ret st) w = (Inr st1, w1)"
  then have "rn_discovered st1 \<longrightarrow> rn_discovered st"
    using before_containers_discovered by (auto split: if_splits)
  then have Q: "Q (rn_discovered st1)" using assms(2,3) by (cases "rn_discovered st1") auto
  have fold: "fold_each (vals (br_resources c)) (\<lambda>r st. cleanup_resource env' m tr k r st) (stray_state P s st1) w1 =
      mapped (stray_state P s) (fold_each (vals (br_resources c)) (\<lambda>r st. cleanup_resource env m tr k r st) st1 w1)" for c
    by (rule fold_each_mapped [where P = "\<lambda>st. Q (rn_discovered st)"])
       (use assms(1) Q in \<open>auto simp: cleanup_resource_stray dest: cleanup_resource_discovered\<close>)
  show "bd (current_resources (br_build_id m)) (\<lambda>current.
          fold_each (vals (br_resources current)) (\<lambda>r s. cleanup_resource env' m tr k r s) (stray_state P s st1)) w1 =
        mapped (stray_state P s) (bd (current_resources (br_build_id m)) (\<lambda>current.
          fold_each (vals (br_resources current)) (\<lambda>r s. cleanup_resource env m tr k r s) st1) w1)"
    by (simp add: bd_app current_resources_app fold split: option.split)
qed simp

lemma cleanup_order_stray:
  assumes "\<And>r st. rs_managed r \<Longrightarrow> Q (rn_discovered st) \<Longrightarrow>
      remove_resource env' m tr (stray_state P s st) r = remove_resource env m tr st r"
    and "Q (rn_discovered st)" "Q False"
  shows "fold_each ks (cleanup_kind env' m tr) (stray_state P s st) w =
    mapped (stray_state P s) (fold_each ks (cleanup_kind env m tr) st w)"
proof (rule fold_each_mapped [where P = "\<lambda>st. Q (rn_discovered st)"])
  show "cleanup_kind env' m tr k (stray_state P s st) w = mapped (stray_state P s) (cleanup_kind env m tr k st w)"
    if "Q (rn_discovered st)" for k st w
    using assms(1,3) that by (intro cleanup_kind_stray [where Q = Q])
  show "Q (rn_discovered st')" if "Q (rn_discovered st)" "cleanup_kind env m tr k st w = (Inr st', w')" for k st w st' w'
    using cleanup_kind_discovered [OF that(2)] that(1) assms(3) by (cases "rn_discovered st'") auto
qed (rule assms(2))

text \<open>
  as long as the build's services and containers have not been found completely, nothing
  but services and containers is removed. If discovery failed, the whole removal loop behaves the
  same, down to the errors recorded, whatever the workspace store, the registry and the
  Docker cleaner would do when asked to delete snapshots, tags or any resource that is not a
  service or a container.
\<close>

lemma failed_discovery_protects_data:
  "fold_each CLEANUP_ORDER
      (cleanup_kind (env\<lparr>ce_delete_snapshot := del, ce_remove_tag := tag, ce_host_path := hp\<rparr>) m tr)
      (stray_state (\<lambda>_ r. runtime_kind (rs_kind r)) stray (st\<lparr>rn_discovered := False\<rparr>)) w =
    mapped (stray_state (\<lambda>_ r. runtime_kind (rs_kind r)) stray)
      (fold_each CLEANUP_ORDER (cleanup_kind env m tr) (st\<lparr>rn_discovered := False\<rparr>) w)"
proof (rule cleanup_order_stray [where Q = Not])
  show "remove_resource (env\<lparr>ce_delete_snapshot := del, ce_remove_tag := tag, ce_host_path := hp\<rparr>) m tr
      (stray_state (\<lambda>_ r. runtime_kind (rs_kind r)) stray st) r = remove_resource env m tr st r"
    if "\<not> rn_discovered st" for r st
  proof (cases "runtime_kind (rs_kind r)")
    case True
    then have "rs_kind r \<noteq> KWorkspace" "rs_kind r \<noteq> KRuntimeDirectory" "rs_kind r \<noteq> KRegistryImage"
      by (auto simp: runtime_kind_def)
    with True show ?thesis
      by (cases "rn_docker st") (simp_all add: remove_resource_def stray_cleaner_def)
  next
    case False
    with that show ?thesis by (simp add: remove_resource_def)
  qed
qed simp_all

lemma assert_quiescent_cong: "ce_jenkins e' = ce_jenkins e \<Longrightarrow> assert_quiescent e' b = assert_quiescent e b"
  by (simp only: assert_quiescent_def)

lemma expected_repository_docker [simp]: "expected_repository (e\<lparr>ce_docker := x\<rparr>) a = expected_repository e a"
  by (simp add: expected_repository_def)

lemma manifest_of_cong: "ce_snapshot_path e' = ce_snapshot_path e \<Longrightarrow> manifest_of e' b = manifest_of e b"
proof -
  assume a: "ce_snapshot_path e' = ce_snapshot_path e"
  have "legacy_manifest e' = legacy_manifest e"
    by (intro ext) (simp only: legacy_manifest_def a)
  then show ?thesis by (simp only: manifest_of_def)
qed

lemma collect_phase_cong:
  "ce_jenkins e' = ce_jenkins e \<Longrightarrow> expected_repository e' = expected_repository e \<Longrightarrow>
   collect_phase e' m tr = collect_phase e m tr"
  by (simp only: collect_phase_def collect_builder_resources_def)

abbreviation stray_env ::
  "(build_resources \<Rightarrow> build_resource \<Rightarrow> bool) \<Rightarrow> (build_resources \<Rightarrow> build_resource \<Rightarrow> tracker \<Rightarrow> (world, unit) action)
     \<Rightarrow> cleanup_env \<Rightarrow> cleanup_env" where
  "stray_env P stray env \<equiv> env\<lparr>ce_docker := bd (ce_docker env) (\<lambda>dc. ret (stray_cleaner P stray dc))\<rparr>"

lemma discovery_phase_stray:
  "discovery_phase (stray_env P stray env) m tr errs w =
   mapped (stray_state P stray) (discovery_phase env m tr errs w)"
  by (auto simp: discovery_phase_def bd_app attempt_app stray_state_def split: prod.split sum.split)

lemma verify_phase_stray: "verify_phase m tr (stray_state P stray st) = verify_phase m tr st"
  by (cases "rn_docker st") (simp_all add: verify_phase_def)

lemma remove_resource_stray:
  "P m r \<Longrightarrow> remove_resource (stray_env P stray env) m tr (stray_state P stray st) r = remove_resource env m tr st r"
  by (cases "rn_docker st") (simp_all add: remove_resource_def stray_cleaner_def cong: if_cong)

definition removal_phases ::
  "cleanup_env \<Rightarrow> build_resources \<Rightarrow> tracker \<Rightarrow> string list \<Rightarrow> (world, cleanup_status) action" where
  "removal_phases env m tr errors =
     bd (discovery_phase env m tr errors) (\<lambda>st0.
     bd (fold_each CLEANUP_ORDER (cleanup_kind env m tr) st0) (\<lambda>st.
     bd (verify_phase m tr st) (\<lambda>errs. save_cleanup_result m tr (rn_registry st) errs)))"

lemma removal_phases_stray:
  assumes "\<And>r. rs_managed r \<Longrightarrow> P m r"
  shows "removal_phases (stray_env P stray env) m tr errs = removal_phases env m tr errs"
proof
  fix w
  let ?e = "stray_env P stray env" and ?G = "stray_state P stray"
  have order: "fold_each CLEANUP_ORDER (cleanup_kind ?e m tr) (?G st) w =
      mapped ?G (fold_each CLEANUP_ORDER (cleanup_kind env m tr) st w)" for st w
    by (rule cleanup_order_stray [where Q = "\<lambda>_. True"]) (simp_all add: remove_resource_stray assms)
  have "removal_phases ?e m tr errs w = id (removal_phases env m tr errs w)"
    unfolding removal_phases_def
  proof (rule bd_mapped [OF discovery_phase_stray])
    fix st0 w1
    show "bd (fold_each CLEANUP_ORDER (cleanup_kind ?e m tr) (?G st0))
         (\<lambda>st. bd (verify_phase m tr st) (\<lambda>errs. save_cleanup_result m tr (rn_registry st) errs)) w1 =
       id (bd (fold_each CLEANUP_ORDER (cleanup_kind env m tr) st0)
         (\<lambda>st. bd (verify_phase m tr st) (\<lambda>errs. save_cleanup_result m tr (rn_registry st) errs)) w1)"
      by (rule bd_mapped [OF order]) (simp_all add: verify_phase_stray)
  qed simp
  then show "removal_phases ?e m tr errs w = removal_phases env m tr errs w" by simp
qed

lemma cleanup_under_lease_stray:
  assumes "\<And>r. rs_managed r \<Longrightarrow> P m r"
  shows "cleanup_under_lease (stray_env P stray env) m = cleanup_under_lease env m"
proof
  fix tr
  let ?e = "stray_env P stray env"
  have quiet: "assert_quiescent ?e b = assert_quiescent env b" for b by (rule assert_quiescent_cong) simp
  have coll: "collect_phase ?e m tr = collect_phase env m tr"
    by (rule collect_phase_cong) (simp_all add: fun_eq_iff)
  have ph: "removal_phases ?e m tr errs = removal_phases env m tr errs" for errs
    using removal_phases_stray assms by blast
  show "cleanup_under_lease ?e m tr = cleanup_under_lease env m tr"
    unfolding cleanup_under_lease_def removal_phases_def [symmetric] quiet coll ph ..
qed

lemma run_cleanup_stray:
  assumes "\<And>m w' r. manifest_of env i w = (Inr m, w') \<Longrightarrow> rs_managed r \<Longrightarrow> P m r"
  shows "run_cleanup (stray_env P stray env) i w = run_cleanup env i w"
proof -
  let ?e = "stray_env P stray env"
  have man: "manifest_of ?e i = manifest_of env i" by (rule manifest_of_cong) simp
  have "cleanup_under_lease ?e m = cleanup_under_lease env m" if "manifest_of env i w = (Inr m, w')" for m w'
    using cleanup_under_lease_stray [where P = P and m = m] assms [OF that] by blast
  then show ?thesis
    by (auto simp: run_cleanup_def man bd_app split: prod.split sum.split)
qed

text \<open>
  a resource the build does not own exclusively is never removed. A whole clean-up run
  behaves the same, whatever the Docker cleaner would do when asked to remove an unmanaged
  resource.
\<close>

lemma unmanaged_resources_are_kept:
  "run_cleanup (env\<lparr>ce_docker := bd (ce_docker env) (\<lambda>dc. ret (stray_cleaner (\<lambda>_. rs_managed) stray dc))\<rparr>) i w =
   run_cleanup env i w"
  by (rule run_cleanup_stray)

end
