(* ===== verification/DockerCleanup.thy ===== *)
theory DockerCleanup
  imports Cleanup
begin

text \<open>
  \<open>orchestrator/docker_cleanup.py\<close>: \<open>DockerBuildCleaner\<close>, which finds and removes the Docker
  objects of a build, with the two attribute readers it takes from \<open>docker_services.py\<close>. The
  Docker daemons are a parameter: a client is known by its endpoint, and every call names it.
  Attributes are the JSON documents the daemon returns. The calls that remove something are kept
  apart from the calls that only look, so that the theorems can say what is never removed.
\<close>

section \<open>Reading attributes\<close>

text \<open>Reading a key of something that is not an object raises \<open>AttributeError\<close>.\<close>

definition attr_error :: exn where
  "attr_error = Exn OtherError ''object has no such attribute''"

fun as_map :: "value \<Rightarrow> mapping res" where
  "as_map (VDict d) = Inr d"
| "as_map _ = Inl attr_error"

fun as_items :: "value \<Rightarrow> value list res" where
  "as_items (VList xs) = Inr xs"
| "as_items _ = Inl (Exn TypeError ''object is not a list'')"

text \<open>\<open>d.get(k, {})\<close>, chained along a path of keys.\<close>

fun nested :: "mapping \<Rightarrow> string list \<Rightarrow> mapping res" where
  "nested d [] = Inr d"
| "nested d (k # ks) = rbind (as_map (mget_default d k (VDict []))) (\<lambda>e. nested e ks)"

text \<open>\<open>d.get(k) or {}\<close>.\<close>

definition map_or_empty :: "mapping \<Rightarrow> string \<Rightarrow> mapping res" where
  "map_or_empty d k = (let v = mget d k in if truthy v then as_map v else Inr [])"

definition list_at :: "mapping \<Rightarrow> string \<Rightarrow> value list res" where
  "list_at d k = as_items (mget_default d k (VList []))"

section \<open>Docker\<close>

datatype docker_collection = Services | Containers | Networks | Volumes | Images

record docker_object =
  ob_id :: "string option"
  ob_name :: "string option"
  ob_status :: string
  ob_tags :: "string list"
  ob_attrs :: mapping

text \<open>A filter is a key with its values; \<open>all=True\<close> is the flag.\<close>

type_synonym docker_filter = "bool \<times> (string \<times> string list) list"

record docker_env =
  dx_base_url :: string
  dx_connect :: "string \<Rightarrow> (world, unit) action"
  dx_info :: "string \<Rightarrow> (world, mapping) action"
  dx_list :: "string \<Rightarrow> docker_collection \<Rightarrow> docker_filter \<Rightarrow> (world, docker_object list) action"
  dx_get :: "string \<Rightarrow> docker_collection \<Rightarrow> string \<Rightarrow> (world, docker_object option) action"
  dx_tasks :: "string \<Rightarrow> docker_object \<Rightarrow> (world, mapping list) action"
  dx_sleep :: "(world, unit) action"
  dx_set_order :: "string list \<Rightarrow> string list"
  dx_targets :: "(string, string) dict"
  dx_timeout :: int
  dx_worker_name :: string
  dx_host_root :: string
  dx_workspace_root :: string

record docker_remover =
  dr_object :: "string \<Rightarrow> docker_collection \<Rightarrow> docker_object \<Rightarrow> (world, unit) action"
  dr_image :: "string \<Rightarrow> string \<Rightarrow> (world, unit) action"

definition BUILD_LABEL :: string where "BUILD_LABEL = ''io.docker-jenkins-orchestrator.build-id''"
definition APP_LABEL :: string where "APP_LABEL = ''io.docker-jenkins-orchestrator.appid''"
definition NAMESPACE_LABEL :: string where "NAMESPACE_LABEL = ''io.docker-jenkins-orchestrator.namespace''"
definition MANAGED_LABEL :: string where "MANAGED_LABEL = ''io.docker-jenkins-orchestrator.managed''"
definition SERVICE_ID_LABEL :: string where "SERVICE_ID_LABEL = ''com.docker.swarm.service.id''"

section \<open>Two readers of \<open>docker_services.py\<close>\<close>

definition volume_creation_token :: "docker_object \<Rightarrow> string res" where
  "volume_creation_token v =
     (let created = mget (ob_attrs v) ''CreatedAt''
      in if \<not> nonempty_str created
         then Inl (Exn DockerServiceError ''Build volume creation identity is unavailable'')
         else Inr (sha256_hex (the_str created)))"

text \<open>\<open>int(address.get("HostPort", ""))\<close>, where a number that cannot be read is skipped.\<close>

definition host_port :: "mapping \<Rightarrow> int option res" where
  "host_port address =
     (case py_int (mget_default address ''HostPort'' (VStr [])) of
        Inr i \<Rightarrow> Inr (Some i)
      | Inl e \<Rightarrow> if exn_class e \<in> {TypeError, ValueError} then Inr None else Inl e)"

definition binding_ports :: "value \<times> value \<Rightarrow> (int \<times> string) list res" where
  "binding_ports entry =
     (if \<not> is_str (fst entry) then Inl attr_error
      else
        (let protocol = snd (rsplit_once (CHR ''/'') (the_str (fst entry)))
         in rbind (if truthy (snd entry) then as_items (snd entry) else Inr []) (\<lambda>addresses.
            rbind (rmap (\<lambda>a. rbind (as_map a) host_port) addresses) (\<lambda>numbers.
            Inr (map (\<lambda>n. (n, protocol)) (filter (\<lambda>n. 1 \<le> n \<and> n \<le> 65535) (List.map_filter id numbers)))))))"

definition container_bound_ports :: "docker_object \<Rightarrow> (int \<times> string) list res" where
  "container_bound_ports c =
     rbind (nested (ob_attrs c) [''HostConfig'']) (\<lambda>h.
     rbind (map_or_empty h ''PortBindings'') (\<lambda>b1.
     rbind (nested (ob_attrs c) [''NetworkSettings'']) (\<lambda>n.
     rbind (map_or_empty n ''Ports'') (\<lambda>b2.
     rbind (rmap binding_ports (b1 @ b2)) (\<lambda>ps. Inr (remdups (concat ps)))))))"

section \<open>Targets\<close>

definition swarm_node :: "mapping \<Rightarrow> value res" where
  "swarm_node info = rbind (nested info [''Swarm'']) (\<lambda>s. Inr (mget s ''NodeID''))"

definition info_identity :: "mapping \<Rightarrow> value res" where
  "info_identity info = (if truthy (mget info ''ID'') then Inr (mget info ''ID'') else swarm_node info)"

definition text_value :: "value \<Rightarrow> string option" where
  "text_value v = (case v of VStr s \<Rightarrow> Some s | _ \<Rightarrow> None)"

text \<open>The endpoint of the controlling client, \<open>self.client\<close>.\<close>

definition control_endpoint :: "docker_env \<Rightarrow> (world, string) action" where
  "control_endpoint env = reading (\<lambda>w.
     case dget (ds_clients (w_docker w)) (ds_target (w_docker w)) of Some e \<Rightarrow> e | None \<Rightarrow> dx_base_url env)"

definition open_cleaner :: "docker_env \<Rightarrow> (world, unit) action" where
  "open_cleaner env =
     andthen (dx_connect env (dx_base_url env))
     (bd (dx_info env (dx_base_url env)) (\<lambda>info.
      bd (lift_res (info_identity info)) (\<lambda>identity.
      if \<not> truthy identity then conflict ''Docker cleanup target has no verifiable identity''
      else
        bd (lift_res (swarm_node info)) (\<lambda>node.
        let target = ''docker:'' @ py_str identity
        in modify (\<lambda>w. w\<lparr>w_docker := \<lparr>ds_target = target, ds_node = text_value node,
                                     ds_clients = [(target, dx_base_url env)]\<rparr>\<rparr>)))))"

definition node_matches :: "string \<Rightarrow> mapping \<Rightarrow> bool res" where
  "node_matches target info =
     (if \<not> starts_with target ''docker-node:'' then Inr False
      else rbind (swarm_node info) (\<lambda>node. Inr (node = VStr (drop (length ''docker-node:'') target))))"

definition target_client :: "docker_env \<Rightarrow> string \<Rightarrow> (world, string) action" where
  "target_client env target =
     bd (reading (\<lambda>w. dget (ds_clients (w_docker w)) target)) (\<lambda>known.
     case known of
       Some endpoint \<Rightarrow> ret endpoint
     | None \<Rightarrow>
         (case dget (dx_targets env) target of
            None \<Rightarrow> conflict ''Resource execution target is unavailable; configure its controlled Docker endpoint''
          | Some endpoint \<Rightarrow>
              andthen (dx_connect env endpoint)
              (bd (dx_info env endpoint) (\<lambda>info.
               bd (lift_res (info_identity info)) (\<lambda>identity.
               bd (lift_res (if ''docker:'' @ py_str identity = target then Inr True else node_matches target info)) (\<lambda>ok.
               if \<not> ok then conflict ''Configured Docker endpoint identity does not match resource target''
               else
                 andthen (modify (\<lambda>w. w\<lparr>w_docker := (w_docker w)
                            \<lparr>ds_clients := dset (ds_clients (w_docker w)) target endpoint\<rparr>\<rparr>))
                   (ret endpoint)))))))"

section \<open>Ownership\<close>

definition object_labels :: "mapping \<Rightarrow> mapping res" where
  "object_labels attrs =
     rbind (nested attrs [''Spec'']) (\<lambda>spec.
     if truthy (mget spec ''Labels'') then as_map (mget spec ''Labels'')
     else if truthy (mget attrs ''Labels'') then as_map (mget attrs ''Labels'')
     else rbind (nested attrs [''Config'']) (\<lambda>config. map_or_empty config ''Labels''))"

definition object_identifier :: "docker_object \<Rightarrow> value" where
  "object_identifier ob =
     (case str_or (ob_id ob) None of
        Some i \<Rightarrow> VStr i
      | None \<Rightarrow>
          (if truthy (mget (ob_attrs ob) ''Id'') then mget (ob_attrs ob) ''Id''
           else if truthy (mget (ob_attrs ob) ''ID'') then mget (ob_attrs ob) ''ID''
           else mget (ob_attrs ob) ''Name''))"

definition rconflict :: "string \<Rightarrow> 'a res" where
  "rconflict m = Inl (Exn ResourceConflict m)"

definition label_owner :: "docker_object \<Rightarrow> build_resources \<Rightarrow> unit res" where
  "label_owner ob m =
     rbind (object_labels (ob_attrs ob)) (\<lambda>labels.
     if mget labels APP_LABEL \<noteq> VStr (br_appid m) \<or> mget labels BUILD_LABEL \<noteq> VStr (br_build_id m)
        \<or> mget labels MANAGED_LABEL \<noteq> VStr ''true''
     then rconflict ''Resource ownership could not be verified''
     else
       rbind (build_namespace (br_appid m) (br_build_id m)) (\<lambda>ns.
       if mget labels NAMESPACE_LABEL \<noteq> VStr ns then rconflict ''Resource ownership could not be verified''
       else Inr ()))"

definition assert_owner :: "docker_object \<Rightarrow> build_resources \<Rightarrow> build_resource option \<Rightarrow> unit res" where
  "assert_owner ob m resource =
     rbind (label_owner ob m) (\<lambda>_.
     case resource of
       None \<Rightarrow> Inr ()
     | Some r \<Rightarrow>
         if (case rs_native_id r of Some i \<Rightarrow> object_identifier ob \<noteq> VStr i | None \<Rightarrow> False)
         then rconflict ''Resource identity changed; refusing deletion''
         else if rs_kind r = KVolume then
           rbind (volume_creation_token ob) (\<lambda>token.
             if mget (rs_metadata r) ''creation_token'' \<noteq> VStr token
             then rconflict ''Volume creation identity changed; refusing deletion'' else Inr ())
         else Inr ())"

text \<open>\<open>_get\<close>: a missing object is \<open>None\<close>, any other failure is wrapped.\<close>

definition docker_get ::
  "docker_env \<Rightarrow> string \<Rightarrow> docker_collection \<Rightarrow> string \<Rightarrow> (world, docker_object option) action" where
  "docker_get env e c identifier =
     catching (dx_get env e c identifier)
       (\<lambda>_. raise DockerServiceError ''Unable to inspect cleanup resource'')"

definition docker_find ::
  "docker_env \<Rightarrow> string \<Rightarrow> docker_collection \<Rightarrow> build_resource \<Rightarrow> (world, docker_object option) action" where
  "docker_find env e c r =
     (let native = str_or (rs_native_id r) None in
      bd (docker_get env e c (case native of Some i \<Rightarrow> i | None \<Rightarrow> rs_name r)) (\<lambda>first.
      bd (if first = None \<and> native \<noteq> None \<and> native \<noteq> Some (rs_name r)
          then docker_get env e c (rs_name r) else ret first) (\<lambda>ob.
      case ob of
        Some b \<Rightarrow> if native \<noteq> None \<and> ob_id b \<noteq> native
                  then conflict ''Resource identity changed; refusing deletion'' else ret (Some b)
      | None \<Rightarrow> ret None)))"

section \<open>References of services and containers\<close>

definition service_spec_path :: "docker_object \<Rightarrow> string list \<Rightarrow> mapping res" where
  "service_spec_path s path = nested (ob_attrs s) (''Spec'' # path)"

definition service_mounts :: "docker_object \<Rightarrow> value list res" where
  "service_mounts s =
     rbind (service_spec_path s [''TaskTemplate'', ''ContainerSpec'']) (\<lambda>c. list_at c ''Mounts'')"

definition service_image :: "docker_object \<Rightarrow> value res" where
  "service_image s =
     rbind (service_spec_path s [''TaskTemplate'', ''ContainerSpec'']) (\<lambda>c.
       Inr (mget_default c ''Image'' (VStr [])))"

text \<open>\<open>reference.split("@", 1)[0]\<close>; only a text can be split.\<close>

definition without_digest :: "value \<Rightarrow> string res" where
  "without_digest v = (if is_str v then Inr (fst (split_once (CHR ''@'') (the_str v))) else Inl attr_error)"

definition no_item :: "(mapping \<Rightarrow> bool) \<Rightarrow> string \<Rightarrow> value list \<Rightarrow> unit res" where
  "no_item p message items =
     rfor items (\<lambda>v. rbind (as_map v) (\<lambda>d. rguard (\<not> p d) (Exn ResourceConflict message)))"

definition mounts_volume :: "string \<Rightarrow> mapping \<Rightarrow> bool" where
  "mounts_volume name d \<longleftrightarrow> mget d ''Type'' = VStr ''volume'' \<and> mget d ''Source'' = VStr name"

definition service_keeps_volume :: "string \<Rightarrow> docker_object \<Rightarrow> unit res" where
  "service_keeps_volume name s =
     rbind (service_mounts s) (no_item (mounts_volume name) ''Volume is still referenced by a service'')"

definition service_keeps_network :: "docker_object \<Rightarrow> string \<Rightarrow> docker_object \<Rightarrow> unit res" where
  "service_keeps_network network name s =
     rbind (service_spec_path s [''TaskTemplate'']) (\<lambda>t. rbind (list_at t ''Networks'')
       (no_item (\<lambda>d. mget d ''Target'' = VStr name \<or>
                     (case ob_id network of Some i \<Rightarrow> mget d ''Target'' = VStr i
                      | None \<Rightarrow> mget d ''Target'' = VNull))
          ''Network is still used by a service''))"

definition container_keeps_image :: "string \<Rightarrow> docker_object \<Rightarrow> unit res" where
  "container_keeps_image name c =
     rbind (nested (ob_attrs c) [''Config'']) (\<lambda>config.
     rbind (without_digest (mget_default config ''Image'' (VStr []))) (\<lambda>img.
     rguard (img \<noteq> name) (Exn ResourceConflict ''Image reference is still used by a container'')))"

definition service_keeps_image :: "string \<Rightarrow> docker_object \<Rightarrow> unit res" where
  "service_keeps_image name s =
     rbind (service_image s) (\<lambda>reference. rbind (without_digest reference) (\<lambda>img.
     rguard (img \<noteq> name) (Exn ResourceConflict ''Image reference is still used by a service'')))"

definition port_taken :: "value \<Rightarrow> value \<Rightarrow> mapping \<Rightarrow> bool" where
  "port_taken number protocol d \<longleftrightarrow>
     py_eq (mget d ''PublishedPort'') number \<and> py_eq (mget_default d ''Protocol'' (VStr ''tcp'')) protocol"

definition service_keeps_port :: "value \<Rightarrow> value \<Rightarrow> docker_object \<Rightarrow> unit res" where
  "service_keeps_port number protocol s =
     rbind (nested (ob_attrs s) [''Endpoint'']) (\<lambda>a. rbind (list_at a ''Ports'') (\<lambda>ps1.
     rbind (service_spec_path s [''EndpointSpec'']) (\<lambda>b. rbind (list_at b ''Ports'') (\<lambda>ps2.
     no_item (port_taken number protocol) ''Published port is still occupied'' (ps1 @ ps2)))))"

definition container_keeps_port :: "value \<Rightarrow> value \<Rightarrow> docker_object \<Rightarrow> unit res" where
  "container_keeps_port number protocol c =
     rbind (container_bound_ports c) (\<lambda>ps.
     rguard (\<not> list_ex (\<lambda>(n, p). py_eq (VInt n) number \<and> VStr p = protocol) ps)
       (Exn ResourceConflict ''Published port is still bound by a container''))"

definition check_each :: "(world, 'a list) action \<Rightarrow> ('a \<Rightarrow> unit res) \<Rightarrow> (world, unit) action" where
  "check_each listing check = bd listing (\<lambda>obs. lift_res (rfor obs check))"

definition list_all_of :: "docker_env \<Rightarrow> string \<Rightarrow> docker_collection \<Rightarrow> (world, docker_object list) action" where
  "list_all_of env e c = dx_list env e c (c = Containers, [])"

section \<open>\<open>remove\<close>\<close>

text \<open>An object that is found must belong to the build before anything else is looked at.\<close>

definition owned_object ::
  "docker_env \<Rightarrow> string \<Rightarrow> docker_collection \<Rightarrow> build_resources \<Rightarrow> build_resource
     \<Rightarrow> (world, docker_object option) action" where
  "owned_object env e c m r =
     bd (docker_find env e c r) (\<lambda>ob.
     case ob of
       None \<Rightarrow> ret None
     | Some b \<Rightarrow> bd (lift_res (assert_owner b m (Some r))) (\<lambda>_. ret (Some b)))"

definition remove_service ::
  "docker_env \<Rightarrow> docker_remover \<Rightarrow> string \<Rightarrow> build_resources \<Rightarrow> build_resource \<Rightarrow> tracker
     \<Rightarrow> (world, unit) action" where
  "remove_service env rm e m r t =
     bd (owned_object env e Services m r) (\<lambda>ob.
     case ob of
       None \<Rightarrow> ret ()
     | Some b \<Rightarrow> andthen (tracker_guard t) (dr_object rm e Services b))"

definition running_status :: "string \<Rightarrow> bool" where
  "running_status s \<longleftrightarrow> s \<in> {''running'', ''restarting'', ''paused''}"

definition service_label :: "docker_object \<Rightarrow> value res" where
  "service_label b =
     rbind (nested (ob_attrs b) [''Config'', ''Labels'']) (\<lambda>l. Inr (mget l SERVICE_ID_LABEL))"

definition remove_container ::
  "docker_env \<Rightarrow> docker_remover \<Rightarrow> string \<Rightarrow> build_resources \<Rightarrow> build_resource \<Rightarrow> tracker
     \<Rightarrow> (world, unit) action" where
  "remove_container env rm e m r t =
     bd (owned_object env e Containers m r) (\<lambda>ob.
     case ob of
       None \<Rightarrow> ret ()
     | Some b \<Rightarrow>
         bd (lift_res (service_label b)) (\<lambda>service_id.
         if service_id \<noteq> mget (rs_metadata r) ''service_id'' \<or> \<not> truthy service_id
         then conflict ''Container service ownership is unavailable''
         else
           bd (control_endpoint env) (\<lambda>control.
           bd (docker_get env control Services (py_str service_id)) (\<lambda>service.
           if service \<noteq> None then conflict ''Container service is still present''
           else if running_status (ob_status b)
           then conflict ''Container has not stopped after service removal''
           else andthen (tracker_guard t) (dr_object rm e Containers b)))))"

definition remove_volume ::
  "docker_env \<Rightarrow> docker_remover \<Rightarrow> string \<Rightarrow> build_resources \<Rightarrow> build_resource \<Rightarrow> tracker
     \<Rightarrow> (world, unit) action" where
  "remove_volume env rm e m r t =
     bd (owned_object env e Volumes m r) (\<lambda>ob.
     case ob of
       None \<Rightarrow> ret ()
     | Some b \<Rightarrow>
         bd (dx_list env e Containers (True, [(''volume'', [rs_name r])])) (\<lambda>users.
         if users \<noteq> [] then conflict ''Volume is still used by a container''
         else
           bd (control_endpoint env) (\<lambda>control.
           andthen (check_each (list_all_of env control Services) (service_keeps_volume (rs_name r)))
           (andthen (tracker_guard t) (dr_object rm e Volumes b)))))"

definition detached_containers :: "docker_env \<Rightarrow> string \<Rightarrow> docker_object \<Rightarrow> (world, unit) action" where
  "detached_containers env e b =
     bd (lift_res (map_or_empty (ob_attrs b) ''Containers'')) (\<lambda>attached.
     for_each (keys attached) (\<lambda>identifier.
       bd (docker_get env e Containers (py_str identifier)) (\<lambda>c.
       if c \<noteq> None then conflict ''Network still has container attachments'' else ret ())))"

definition remove_network ::
  "docker_env \<Rightarrow> docker_remover \<Rightarrow> string \<Rightarrow> build_resources \<Rightarrow> build_resource \<Rightarrow> tracker
     \<Rightarrow> (world, unit) action" where
  "remove_network env rm e m r t =
     bd (owned_object env e Networks m r) (\<lambda>ob.
     case ob of
       None \<Rightarrow> ret ()
     | Some b \<Rightarrow>
         andthen (check_each (list_all_of env e Services) (service_keeps_network b (rs_name r)))
         (andthen (detached_containers env e b)
         (andthen (tracker_guard t) (dr_object rm e Networks b))))"

text \<open>Services that refer to the same image by another name, when the build's name is its last one.\<close>

definition same_image_services ::
  "docker_env \<Rightarrow> string \<Rightarrow> docker_object \<Rightarrow> docker_object list \<Rightarrow> (world, unit) action" where
  "same_image_services env e img services =
     for_each services (\<lambda>s.
       bd (lift_res (service_image s)) (\<lambda>reference.
       if \<not> truthy reference then ret ()
       else
         bd (docker_get env e Images (py_str reference)) (\<lambda>other.
         case other of
           Some o' \<Rightarrow> if ob_id o' = ob_id img
                      then conflict ''Image layers are still referenced by a service'' else ret ()
         | None \<Rightarrow> ret ())))"

definition build_tag :: "string \<Rightarrow> string \<Rightarrow> bool" where
  "build_tag build_id name \<longleftrightarrow> starts_with (snd (rsplit_once (CHR '':'') name)) (build_id @ ''-'')"

definition remove_local_image ::
  "docker_env \<Rightarrow> docker_remover \<Rightarrow> string \<Rightarrow> build_resources \<Rightarrow> build_resource \<Rightarrow> tracker
     \<Rightarrow> (world, unit) action" where
  "remove_local_image env rm e m r t =
     bd (docker_get env e Images (rs_name r)) (\<lambda>found.
     case found of
       None \<Rightarrow> ret ()
     | Some img \<Rightarrow>
         if str_or (rs_native_id r) None \<noteq> None \<and> ob_id img \<noteq> rs_native_id r
         then conflict ''Local image identity changed''
         else if \<not> build_tag (br_build_id m) (rs_name r)
         then conflict ''Local image reference is not build-exclusive''
         else
           andthen (check_each (list_all_of env e Containers) (container_keeps_image (rs_name r)))
           (bd (control_endpoint env) (\<lambda>control.
           andthen (check_each (list_all_of env control Services) (service_keeps_image (rs_name r)))
           (andthen
             (if filter (\<lambda>tag. tag \<noteq> rs_name r) (ob_tags img) \<noteq> [] then ret ()
              else
                andthen (bd (list_all_of env control Services) (same_image_services env e img))
                (bd (dx_list env e Containers (True, [(''ancestor'', [case ob_id img of Some i \<Rightarrow> i | None \<Rightarrow> []])]))
                   (\<lambda>users. if users \<noteq> [] then conflict ''Image layers are still used by a container'' else ret ())))
           (andthen (tracker_guard t) (dr_image rm e (rs_name r)))))))"

text \<open>Allocations are keyed by a text and an integer, so only such a pair can name one.\<close>

definition release_reserved :: "string \<Rightarrow> value \<Rightarrow> value \<Rightarrow> string \<Rightarrow> (world, bool) action" where
  "release_reserved target protocol number build_id =
     (case (text_value protocol, as_integer number) of
        (Some p, Some n) \<Rightarrow> release_port target p n build_id
      | _ \<Rightarrow> ret True)"

definition remove_port ::
  "docker_env \<Rightarrow> string \<Rightarrow> build_resources \<Rightarrow> build_resource \<Rightarrow> tracker \<Rightarrow> (world, unit) action" where
  "remove_port env e m r t =
     (if \<not> mhas (rs_metadata r) ''port'' \<or> \<not> mhas (rs_metadata r) ''protocol''
      then raise KeyError ''port''
      else
        (let number = mget (rs_metadata r) ''port''; protocol = mget (rs_metadata r) ''protocol'' in
         andthen (check_each (list_all_of env e Services) (service_keeps_port number protocol))
         (andthen (check_each (list_all_of env e Containers) (container_keeps_port number protocol))
         (andthen (tracker_guard t)
         (bd (release_reserved (rs_target r) protocol number (br_build_id m)) (\<lambda>released.
          if released then ret () else conflict ''Port reservation belongs to another build''))))))"

definition docker_remove ::
  "docker_env \<Rightarrow> docker_remover \<Rightarrow> build_resources \<Rightarrow> build_resource \<Rightarrow> tracker \<Rightarrow> (world, unit) action" where
  "docker_remove env rm m r t =
     andthen (tracker_guard t)
     (bd (target_client env (rs_target r)) (\<lambda>e.
      case rs_kind r of
        KService \<Rightarrow> remove_service env rm e m r t
      | KContainer \<Rightarrow> remove_container env rm e m r t
      | KVolume \<Rightarrow> remove_volume env rm e m r t
      | KNetwork \<Rightarrow> remove_network env rm e m r t
      | KLocalImage \<Rightarrow> remove_local_image env rm e m r t
      | KPort \<Rightarrow> remove_port env e m r t
      | _ \<Rightarrow> conflict ''Unsupported Docker cleanup resource''))"

section \<open>\<open>discover\<close>\<close>

definition build_filter :: "bool \<Rightarrow> build_resources \<Rightarrow> docker_filter" where
  "build_filter all m =
     (all, [(''label'', [BUILD_LABEL @ ''='' @ br_build_id m, APP_LABEL @ ''='' @ br_appid m])])"

definition runtime_targets :: "build_resources \<Rightarrow> string list" where
  "runtime_targets m = remdups (map rs_target
     (filter (\<lambda>r. (rs_kind r = KService \<or> rs_kind r = KNetwork) \<and> rs_managed r) (vals (br_resources m))))"

definition follow_control_target :: "docker_env \<Rightarrow> build_resources \<Rightarrow> (world, unit) action" where
  "follow_control_target env m =
     bd (reading (\<lambda>w. ds_target (w_docker w))) (\<lambda>own.
     case runtime_targets m of
       [] \<Rightarrow> ret ()
     | [target] \<Rightarrow>
         if target = own then ret ()
         else
           bd (target_client env target) (\<lambda>endpoint.
           andthen (modify (\<lambda>w. w\<lparr>w_docker := (w_docker w)\<lparr>ds_target := target\<rparr>\<rparr>))
           (bd (dx_info env endpoint) (\<lambda>info.
            bd (lift_res (swarm_node info)) (\<lambda>node.
            modify (\<lambda>w. w\<lparr>w_docker := (w_docker w)\<lparr>ds_node := text_value node\<rparr>\<rparr>)))))
     | _ \<Rightarrow> conflict ''Build runtime control target is inconsistent'')"

definition record_ports :: "build_resources \<Rightarrow> tracker \<Rightarrow> (world, unit) action" where
  "record_ports m t =
     bd (list_build_ports (br_build_id m)) (\<lambda>allocations.
     for_each allocations (\<lambda>((target, protocol, port), (_, service)).
       bd (tracker_record t KPort (str_int port @ ''/'' @ protocol) target None Present True
             [(VStr ''port'', VInt port), (VStr ''protocol'', VStr protocol), (VStr ''service_name'', VStr service)]
             None) (\<lambda>_. ret ())))"

text \<open>A resource without a textual name cannot be recorded: the model refuses it.\<close>

definition record_named ::
  "tracker \<Rightarrow> resource_kind \<Rightarrow> value \<Rightarrow> string \<Rightarrow> string option \<Rightarrow> mapping \<Rightarrow> (world, unit) action" where
  "record_named t kind name target native_id metadata =
     (if \<not> is_str name then raise ValueError ''name: input should be a valid string''
      else bd (tracker_record t kind (the_str name) target native_id Present True metadata None) (\<lambda>_. ret ()))"

definition object_name :: "docker_object \<Rightarrow> value res" where
  "object_name ob =
     (case str_or (ob_name ob) None of
        Some n \<Rightarrow> Inr (VStr n)
      | None \<Rightarrow>
          rbind (nested (ob_attrs ob) [''Spec'']) (\<lambda>spec.
          Inr (if truthy (mget spec ''Name'') then mget spec ''Name'' else mget (ob_attrs ob) ''Name'')))"

definition option_value :: "string option \<Rightarrow> value" where
  "option_value s = (case s of Some t \<Rightarrow> VStr t | None \<Rightarrow> VNull)"

definition discover_control ::
  "docker_env \<Rightarrow> build_resources \<Rightarrow> tracker \<Rightarrow> resource_kind \<Rightarrow> docker_collection \<Rightarrow> (world, unit) action" where
  "discover_control env m t kind c =
     bd (control_endpoint env) (\<lambda>e.
     bd (dx_list env e c (build_filter False m)) (\<lambda>obs.
     for_each obs (\<lambda>ob.
       bd (lift_res (assert_owner ob m None)) (\<lambda>_.
       bd (lift_res (object_name ob)) (\<lambda>name.
       bd (reading (\<lambda>w. ds_target (w_docker w))) (\<lambda>target.
       record_named t kind name target (ob_id ob) []))))))"

definition discover_volumes ::
  "docker_env \<Rightarrow> build_resources \<Rightarrow> tracker \<Rightarrow> string \<Rightarrow> string \<Rightarrow> (world, unit) action" where
  "discover_volumes env m t target e =
     bd (dx_list env e Volumes (build_filter False m)) (\<lambda>obs.
     for_each obs (\<lambda>ob.
       bd (lift_res (assert_owner ob m None)) (\<lambda>_.
       bd (lift_res (volume_creation_token ob)) (\<lambda>token.
       record_named t KVolume (option_value (ob_name ob)) target (ob_id ob) [(VStr ''creation_token'', VStr token)]))))"

definition discover_containers ::
  "docker_env \<Rightarrow> build_resources \<Rightarrow> tracker \<Rightarrow> string \<Rightarrow> string \<Rightarrow> (world, unit) action" where
  "discover_containers env m t target e =
     bd (dx_list env e Containers (build_filter True m)) (\<lambda>obs.
     for_each obs (\<lambda>ob.
       bd (lift_res (assert_owner ob m None)) (\<lambda>_.
       bd (lift_res (service_label ob)) (\<lambda>service_id.
       record_named t KContainer (option_value (ob_name ob)) target (ob_id ob) [(VStr ''service_id'', service_id)]))))"

definition docker_target :: "string \<Rightarrow> bool" where
  "docker_target target \<longleftrightarrow> starts_with target ''docker:'' \<or> starts_with target ''docker-node:''"

definition discover_nodes :: "docker_env \<Rightarrow> build_resources \<Rightarrow> tracker \<Rightarrow> (world, unit) action" where
  "discover_nodes env m t =
     bd (reading (\<lambda>w. ds_target (w_docker w))) (\<lambda>own.
     let targets = remdups (own # filter docker_target (map rs_target (vals (br_resources m)))) in
     for_each (dx_set_order env targets) (\<lambda>target.
       bd (target_client env target) (\<lambda>e.
       andthen (discover_volumes env m t target e) (discover_containers env m t target e))))"

definition task_target :: "docker_session \<Rightarrow> value \<Rightarrow> string res" where
  "task_target s node_id =
     (if node_id = VNull \<or> Some node_id = map_option VStr (ds_node s) then Inr (ds_target s)
      else if is_str node_id then Inr (''docker-node:'' @ the_str node_id)
      else Inl (Exn TypeError ''can only concatenate str''))"

definition record_task :: "tracker \<Rightarrow> docker_object \<Rightarrow> mapping \<Rightarrow> (world, unit) action" where
  "record_task t service task =
     bd (lift_res (nested task [''Status'', ''ContainerStatus''])) (\<lambda>status.
     let container = mget status ''ContainerID''; node_id = mget task ''NodeID'' in
     if \<not> truthy container then ret ()
     else
       bd (reading w_docker) (\<lambda>s.
       bd (lift_res (task_target s node_id)) (\<lambda>target.
       record_named t KContainer container target (text_value container)
         [(VStr ''service_id'', option_value (ob_id service)), (VStr ''node_id'', node_id)])))"

definition discover_tasks ::
  "docker_env \<Rightarrow> build_resources \<Rightarrow> tracker \<Rightarrow> build_resource \<Rightarrow> (world, unit) action" where
  "discover_tasks env m t r =
     (if rs_kind r \<noteq> KService \<or> \<not> rs_managed r \<or> rs_state r = Removed then ret ()
      else
        bd (control_endpoint env) (\<lambda>e.
        bd (docker_find env e Services r) (\<lambda>service.
        case service of
          None \<Rightarrow> ret ()
        | Some s \<Rightarrow>
            bd (lift_res (assert_owner s m (Some r))) (\<lambda>_.
            bd (dx_tasks env e s) (\<lambda>tasks. for_each tasks (record_task t s))))))"

definition docker_discover :: "docker_env \<Rightarrow> build_resources \<Rightarrow> tracker \<Rightarrow> (world, unit) action" where
  "docker_discover env m t =
     andthen (follow_control_target env m)
     (andthen (record_ports m t)
     (andthen (discover_control env m t KService Services)
     (andthen (discover_control env m t KNetwork Networks)
     (andthen (discover_nodes env m t)
     (bd (current_resources (br_build_id m)) (\<lambda>current.
      for_each (vals (br_resources current)) (discover_tasks env m t)))))))"

section \<open>Waiting and verifying\<close>

definition still_running :: "docker_env \<Rightarrow> build_resource \<Rightarrow> (world, bool) action" where
  "still_running env r =
     (if rs_kind r \<noteq> KContainer \<or> \<not> rs_managed r \<or> rs_state r = Removed then ret False
      else
        bd (target_client env (rs_target r)) (\<lambda>e.
        bd (docker_find env e Containers r) (\<lambda>c.
        ret (case c of Some b \<Rightarrow> running_status (ob_status b) | None \<Rightarrow> False))))"

definition running_containers :: "docker_env \<Rightarrow> build_resources \<Rightarrow> tracker \<Rightarrow> (world, nat) action" where
  "running_containers env m t =
     andthen (tracker_guard t)
     (bd (current_resources (br_build_id m)) (\<lambda>current.
      fold_each (vals (br_resources current)) (\<lambda>r n.
        bd (still_running env r) (\<lambda>running. ret (if running then Suc n else n))) 0))"

text \<open>The polling loop; the rounds are fuel, and \<open>None\<close> says that they were not enough.\<close>

fun wait_rounds :: "nat \<Rightarrow> docker_env \<Rightarrow> build_resources \<Rightarrow> tracker \<Rightarrow> instant \<Rightarrow> (world, unit option) action" where
  "wait_rounds 0 env m t deadline = ret None"
| "wait_rounds (Suc n) env m t deadline =
     bd (running_containers env m t) (\<lambda>running.
     if running = 0 then ret (Some ())
     else
       bd utc_now (\<lambda>now.
       if deadline \<le> now then conflict ''Build containers have not stopped within cleanup timeout''
       else andthen (dx_sleep env) (wait_rounds n env m t deadline)))"

definition wait_containers_stopped :: "docker_env \<Rightarrow> build_resources \<Rightarrow> tracker \<Rightarrow> (world, unit option) action" where
  "wait_containers_stopped env m t =
     bd utc_now (\<lambda>now. wait_rounds (Suc (nat (dx_timeout env))) env m t (now + dx_timeout env))"

definition verified_collection :: "resource_kind \<Rightarrow> docker_collection option" where
  "verified_collection k =
     (case k of KService \<Rightarrow> Some Services | KContainer \<Rightarrow> Some Containers | KNetwork \<Rightarrow> Some Networks
      | KVolume \<Rightarrow> Some Volumes | KLocalImage \<Rightarrow> Some Images | _ \<Rightarrow> None)"

definition verify_removed :: "docker_env \<Rightarrow> tracker \<Rightarrow> build_resource \<Rightarrow> (world, unit) action" where
  "verify_removed env t r =
     (case verified_collection (rs_kind r) of
        None \<Rightarrow> ret ()
      | Some c \<Rightarrow>
          if \<not> rs_managed r \<or> rs_state r \<noteq> Removed then ret ()
          else
            andthen (tracker_guard t)
            (bd (target_client env (rs_target r)) (\<lambda>e.
             catching
               (bd (if rs_kind r = KLocalImage then docker_get env e c (rs_name r) else docker_find env e c r) (\<lambda>ob.
                if ob \<noteq> None then conflict ''Registered build resource still exists after cleanup'' else ret ()))
               (\<lambda>_. andthen (tracker_update t r ErrorState (Some ''Registered resource removal could not be verified''))
                      (conflict ''Registered resource removal could not be verified'')))))"

definition docker_verify_empty :: "docker_env \<Rightarrow> build_resources \<Rightarrow> tracker \<Rightarrow> (world, unit) action" where
  "docker_verify_empty env m t =
     andthen (for_each (vals (br_resources m)) (verify_removed env t))
     (bd (reading (\<lambda>w. vals (ds_clients (w_docker w)))) (\<lambda>endpoints.
      andthen (for_each endpoints (\<lambda>e.
        andthen (tracker_guard t)
        (bd (dx_list env e Containers (build_filter True m)) (\<lambda>cs.
         if cs \<noteq> [] then conflict ''Build still has containers or volumes after cleanup''
         else bd (dx_list env e Volumes (build_filter False m)) (\<lambda>vs.
           if vs \<noteq> [] then conflict ''Build still has containers or volumes after cleanup'' else ret ())))))
      (bd (control_endpoint env) (\<lambda>e.
       bd (dx_list env e Services (build_filter False m)) (\<lambda>ss.
       if ss \<noteq> [] then conflict ''Build still has services or networks after cleanup''
       else bd (dx_list env e Networks (build_filter False m)) (\<lambda>ns.
         if ns \<noteq> [] then conflict ''Build still has services or networks after cleanup'' else ret ()))))))"

section \<open>\<open>assert_directory_unused\<close>\<close>

text \<open>The parts of a \<open>PurePosixPath\<close>: its root, if any, and its components without empty ones and dots.\<close>

definition path_parts :: "string \<Rightarrow> string list" where
  "path_parts s =
     (if starts_with s ''//'' \<and> \<not> starts_with s ''///'' then [''//'']
      else if starts_with s ''/'' then [''/''] else [])
     @ filter (\<lambda>p. p \<noteq> [] \<and> p \<noteq> ''.'') (split_on (CHR ''/'') s)"

definition is_relative_to :: "string \<Rightarrow> string \<Rightarrow> bool" where
  "is_relative_to a b \<longleftrightarrow> prefix (path_parts b) (path_parts a)"

definition bind_overlaps :: "string \<Rightarrow> mapping \<Rightarrow> bool" where
  "bind_overlaps path mount \<longleftrightarrow>
     (let source = mget_default mount ''Source'' (VStr []) in
      mget mount ''Type'' = VStr ''bind'' \<and> truthy source \<and>
      (is_relative_to (the_str source) path \<or> is_relative_to path (the_str source)))"

text \<open>The workspace manager's own containers mount the whole workspace root and are let through.\<close>

definition workspace_manager :: "docker_env \<Rightarrow> mapping \<Rightarrow> mapping \<Rightarrow> bool" where
  "workspace_manager env labels mount \<longleftrightarrow>
     (let manager = mget labels ''io.docker-jenkins-orchestrator.workspace-manager'' in
      (manager = VStr ''api'' \<or> manager = VStr ''worker'') \<and>
      mget labels ''com.docker.compose.service'' = manager \<and>
      mget labels ''io.docker-jenkins-orchestrator.worker-name'' = VStr (dx_worker_name env) \<and>
      path_parts (the_str (mget_default mount ''Source'' (VStr []))) = path_parts (dx_host_root env) \<and>
      mget mount ''Destination'' = VStr (dx_workspace_root env))"

definition container_keeps_directory :: "docker_env \<Rightarrow> string \<Rightarrow> docker_object \<Rightarrow> unit res" where
  "container_keeps_directory env path c =
     rbind (list_at (ob_attrs c) ''Mounts'') (\<lambda>mounts.
     rfor mounts (\<lambda>v. rbind (as_map v) (\<lambda>mount.
       if \<not> bind_overlaps path mount then Inr ()
       else
         rbind (nested (ob_attrs c) [''Config'']) (\<lambda>config.
         rbind (map_or_empty config ''Labels'') (\<lambda>labels.
         if workspace_manager env labels mount then Inr ()
         else rconflict ''Build directory is still mounted by a container'')))))"

definition service_keeps_directory :: "string \<Rightarrow> docker_object \<Rightarrow> unit res" where
  "service_keeps_directory path s =
     rbind (service_mounts s) (no_item (bind_overlaps path) ''Build directory is still mounted by a service'')"

definition assert_directory_unused :: "docker_env \<Rightarrow> string \<Rightarrow> tracker \<Rightarrow> (world, unit) action" where
  "assert_directory_unused env path t =
     bd (reading (\<lambda>w. vals (ds_clients (w_docker w)))) (\<lambda>endpoints.
     andthen (for_each endpoints (\<lambda>e.
       andthen (tracker_guard t)
         (check_each (list_all_of env e Containers) (container_keeps_directory env path))))
     (bd (control_endpoint env) (\<lambda>e.
      check_each (list_all_of env e Services) (service_keeps_directory path))))"

section \<open>The cleaner\<close>

definition docker_build_cleaner :: "docker_env \<Rightarrow> docker_remover \<Rightarrow> docker_cleaner" where
  "docker_build_cleaner env rm = \<lparr>
     dc_discover = docker_discover env,
     dc_wait_stopped = (\<lambda>m t. bd (wait_containers_stopped env m t) (\<lambda>_. ret ())),
     dc_remove = docker_remove env rm,
     dc_verify_empty = docker_verify_empty env,
     dc_assert_directory_unused = assert_directory_unused env\<rparr>"

definition docker_factory :: "docker_env \<Rightarrow> docker_remover \<Rightarrow> (world, docker_cleaner) action" where
  "docker_factory env rm = andthen (open_cleaner env) (ret (docker_build_cleaner env rm))"

end
