(* ===== verification/DockerSafety.thy ===== *)
theory DockerSafety
  imports Polling CleanupSafety DockerCleanup
begin

text \<open>
  What the Docker side of a clean-up never touches, and that its polling loop ends. The
  ownership argument of \<open>DockerBuildCleaner.remove\<close> is lifted to whole runs through
  \<open>run_cleanup_stray\<close>.
\<close>

section \<open>Only owned objects are removed\<close>

text \<open>
  A remover that does the right thing only to objects carrying the labels of the manifest's
  build and to image names tagged for it, and anything at all to the rest.
\<close>

definition confined_remover :: "build_resources \<Rightarrow> docker_remover \<Rightarrow> docker_remover \<Rightarrow> docker_remover" where
  "confined_remover m stray rm = \<lparr>
     dr_object = (\<lambda>e c b. if label_owner b m = Inr () then dr_object rm e c b else dr_object stray e c b),
     dr_image = (\<lambda>e n. if build_tag (br_build_id m) n then dr_image rm e n else dr_image stray e n)\<rparr>"

lemma bd_cong_result:
  "(\<And>x w1. m w = (Inr x, w1) \<Longrightarrow> f x w1 = g x w1) \<Longrightarrow> bd m f w = bd m g w"
  by (auto simp: bd_app split: prod.split sum.split)

lemma owned_object_labels:
  "owned_object env e c m r w = (Inr (Some b), w1) \<Longrightarrow> label_owner b m = Inr ()"
  unfolding owned_object_def
  by (erule bd_InrE) (auto elim!: bd_InrE simp: assert_owner_def rbind_Inr_iff split: option.splits)

lemma confined_owned:
  assumes "\<And>b. label_owner b m = Inr () \<Longrightarrow> f b = g b"
  shows "bd (owned_object env e c m r) (\<lambda>ob. case ob of None \<Rightarrow> k | Some b \<Rightarrow> f b) w =
         bd (owned_object env e c m r) (\<lambda>ob. case ob of None \<Rightarrow> k | Some b \<Rightarrow> g b) w"
  by (rule bd_cong_result) (auto dest: owned_object_labels simp: assms split: option.split)

lemma confined_remover_object:
  "label_owner b m = Inr () \<Longrightarrow> dr_object (confined_remover m stray rm) e c b = dr_object rm e c b"
  by (simp add: confined_remover_def)

lemma confined_remover_image:
  "build_tag (br_build_id m) n \<Longrightarrow> dr_image (confined_remover m stray rm) e n = dr_image rm e n"
  by (simp add: confined_remover_def)

lemma remove_service_confined:
  "remove_service env (confined_remover m stray rm) e m r t = remove_service env rm e m r t"
  unfolding remove_service_def by (rule ext, rule confined_owned) (simp add: confined_remover_object)

lemma remove_container_confined:
  "remove_container env (confined_remover m stray rm) e m r t = remove_container env rm e m r t"
  unfolding remove_container_def by (rule ext, rule confined_owned) (simp only: confined_remover_object)

lemma remove_volume_confined:
  "remove_volume env (confined_remover m stray rm) e m r t = remove_volume env rm e m r t"
  unfolding remove_volume_def by (rule ext, rule confined_owned) (simp only: confined_remover_object)

lemma remove_network_confined:
  "remove_network env (confined_remover m stray rm) e m r t = remove_network env rm e m r t"
  unfolding remove_network_def by (rule ext, rule confined_owned) (simp only: confined_remover_object)

lemma remove_local_image_confined:
  "remove_local_image env (confined_remover m stray rm) e m r t = remove_local_image env rm e m r t"
proof (cases "build_tag (br_build_id m) (rs_name r)")
  case True
  then show ?thesis by (simp only: remove_local_image_def confined_remover_image)
next
  case False
  then show ?thesis by (simp add: remove_local_image_def cong: if_cong option.case_cong)
qed

lemma docker_remove_confined:
  "docker_remove env (confined_remover m stray rm) m r t = docker_remove env rm m r t"
  unfolding docker_remove_def remove_service_confined remove_container_confined remove_volume_confined
    remove_network_confined remove_local_image_confined ..

lemma docker_factory_stray:
  "docker_factory dx (confined_remover m stray rm) =
   bd (docker_factory dx rm) (\<lambda>dc. ret (stray_cleaner (\<lambda>m' _. m' = m)
     (docker_remove dx (confined_remover m stray rm)) dc))"
proof -
  have "docker_build_cleaner dx (confined_remover m stray rm) =
      stray_cleaner (\<lambda>m' _. m' = m) (docker_remove dx (confined_remover m stray rm)) (docker_build_cleaner dx rm)"
    by (auto simp: docker_build_cleaner_def stray_cleaner_def docker_remove_confined fun_eq_iff)
  then show ?thesis
    by (auto simp: docker_factory_def fun_eq_iff bd_app andthen_app split: prod.split sum.split)
qed

text \<open>
  C3: cleaning up a build removes nothing that belongs to anybody else. For the manifest the run
  works on, a whole run with the Docker cleaner is the same whatever the Docker daemons would
  do when asked to remove a service, container, volume or network that does not carry the
  labels of exactly this build, application and namespace, or an image whose tag is not this build's.
\<close>

theorem cleanup_removes_only_owned_objects:
  assumes "look_resources w i = Some m"
  shows "run_cleanup (env\<lparr>ce_docker := docker_factory dx (confined_remover m stray rm)\<rparr>) i w =
         run_cleanup (env\<lparr>ce_docker := docker_factory dx rm\<rparr>) i w"
proof -
  let ?env = "env\<lparr>ce_docker := docker_factory dx rm\<rparr>"
  let ?stray = "docker_remove dx (confined_remover m stray rm)"
  have "env\<lparr>ce_docker := docker_factory dx (confined_remover m stray rm)\<rparr> =
      stray_env (\<lambda>m' _. m' = m) ?stray ?env"
    by (simp add: docker_factory_stray [of dx m stray rm])
  also have "run_cleanup \<dots> i w = run_cleanup ?env i w"
    by (rule run_cleanup_stray) (simp add: manifest_of_present [OF assms] split: option.splits)
  finally show ?thesis .
qed

definition docker_sample_world :: world where
  "docker_sample_world = cleanup_world SUCCEEDED CleanupQueued KVolume"

definition docker_sample_env :: docker_env where
  "docker_sample_env = \<lparr>dx_base_url = ''unix:///var/run/docker.sock'', dx_connect = \<lambda>_. ret (),
     dx_info = \<lambda>_. ret [(VStr ''ID'', VStr ''n1'')], dx_list = \<lambda>_ _ _. ret [], dx_get = \<lambda>_ _ _. ret None,
     dx_tasks = \<lambda>_ _. ret [], dx_sleep = modify (\<lambda>w. w\<lparr>w_clock := w_clock w + 1\<rparr>), dx_set_order = id,
     dx_targets = [], dx_timeout = 3, dx_worker_name = ''w1'', dx_host_root = ''/srv'', dx_workspace_root = ''/ws''\<rparr>"

definition logging_remover :: docker_remover where
  "logging_remover = \<lparr>dr_object = \<lambda>e _ _. emit (DispatchCleanup e), dr_image = \<lambda>_ n. emit (DispatchCleanup n)\<rparr>"

theorem cleanup_removes_only_owned_objects_witness:
  "\<exists>m. look_resources docker_sample_world ''b1'' = Some m \<and>
     run_cleanup (quiet_cleanup_env\<lparr>ce_docker := docker_factory docker_sample_env
         (confined_remover m \<lparr>dr_object = \<lambda>_ _ _. raise OtherError ''stray'', dr_image = \<lambda>_ _. raise OtherError ''stray''\<rparr>
            logging_remover)\<rparr>) ''b1'' docker_sample_world =
     run_cleanup (quiet_cleanup_env\<lparr>ce_docker := docker_factory docker_sample_env logging_remover\<rparr>) ''b1'' docker_sample_world"
proof -
  obtain m where "look_resources docker_sample_world ''b1'' = Some m"
    by (simp add: docker_sample_world_def cleanup_world_def look_resources_def)
  then show ?thesis using cleanup_removes_only_owned_objects by blast
qed

section \<open>Waiting ends\<close>

text \<open>The daemons' answers take time but never turn the clock back.\<close>

definition docker_reads_ok :: "docker_env \<Rightarrow> bool" where
  "docker_reads_ok env \<longleftrightarrow> (\<forall>e. clock_grows (dx_connect env e)) \<and> (\<forall>e. clock_grows (dx_info env e)) \<and>
     (\<forall>e c i. clock_grows (dx_get env e c i))"

lemma clock_conflict: "clock_grows (conflict m)"
  unfolding clock_grows_def conflict_def by (rule clock.keeps_raise)

lemma clock_target_client: "docker_reads_ok env \<Longrightarrow> clock_grows (target_client env target)"
  unfolding clock_grows_def target_client_def
  by (intro clock.keeps_rules clock_conflict [unfolded clock_grows_def])
     (auto simp: docker_reads_ok_def clock_grows_def keeps_def)

lemma clock_docker_find: "docker_reads_ok env \<Longrightarrow> clock_grows (docker_find env e c r)"
  unfolding clock_grows_def docker_find_def docker_get_def
  by (intro clock.keeps_rules clock_conflict [unfolded clock_grows_def])
     (auto simp: docker_reads_ok_def clock_grows_def)

lemma clock_running_containers:
  assumes "docker_reads_ok env"
  shows "clock_grows (running_containers env m t)"
proof -
  have "keeps (\<lambda>w w'. w_clock w \<le> w_clock w') (tracker_guard t)"
    by (simp add: keeps_def)
  moreover have "keeps (\<lambda>w w'. w_clock w \<le> w_clock w') (current_resources i)" for i
    by (simp add: keeps_def current_resources_app split: option.split)
  ultimately show ?thesis
    using clock_target_client [OF assms] clock_docker_find [OF assms]
    unfolding clock_grows_def running_containers_def still_running_def
    by (intro clock.keeps_rules)
qed

interpretation stopping: polling "bd (running_containers env m t) (\<lambda>running. ret (running = 0))" "dx_sleep env"
    "Exn ResourceConflict ''Build containers have not stopped within cleanup timeout''"
    "\<lambda>n. wait_rounds n env m t" for env m t
  by unfold_locales (simp_all add: fun_eq_iff bd_app andthen_app conflict_def split: prod.split sum.split)

text \<open>
  waiting for the containers of a build to stop ends. If the daemons' answers never turn the
  clock back and sleeping moves it on, the polling loop finishes within the rounds the timeout
  allows: it returns because no managed container of the manifest runs any more, or raises, and
  more rounds would not change the result.
\<close>

lemma wait_containers_stopped_ends:
  assumes "docker_reads_ok env" and "\<And>w. w_clock w < w_clock (snd (dx_sleep env w))"
  shows "fst (wait_containers_stopped env m t w) \<noteq> Inr None \<and>
    (\<forall>k. wait_rounds (Suc (nat (dx_timeout env)) + k) env m t (w_clock w + dx_timeout env) w =
         wait_containers_stopped env m t w)"
proof -
  have "clock_grows (bd (running_containers env m t) (\<lambda>running. ret (running = 0)))"
    using clock_running_containers [OF assms(1)] unfolding clock_grows_def by (intro clock.keeps_rules)
  then have enough: "fst (wait_rounds (Suc (nat (dx_timeout env))) env m t (w_clock w + dx_timeout env) w) \<noteq> Inr None"
    by (rule stopping.rounds_enough [OF _ assms(2)]) auto
  then show ?thesis
    using stopping.rounds_more [OF enough] by (simp add: wait_containers_stopped_def del: wait_rounds.simps)
qed

end
