(* ===== verification/DynamicChecks.thy ===== *)
theory DynamicChecks
  imports Redaction DockerSafety
begin

text \<open>
  \<open>orchestrator/dynamic_checks.py\<close>: \<open>DynamicCheckService\<close>, the probes a deployment must pass
  and the single retry a debug agent may propose. The probe transport, the log collector, the
  agent, the decryption of the environment and the broker are parameters. Chinese report texts
  are represented by English glosses.

  \<open>execute\<close> works on two Python variables, \<open>result\<close> and \<open>report\<close>, that its exception handlers
  read; its body therefore runs on the world together with these locals.
\<close>

section \<open>Environment\<close>

record dynamic_env =
  dy_pool :: descriptor_pool
  dy_transport :: probe_transport
  dy_public_host :: "string option"
  dy_public_scheme :: string
  dy_collect :: "string \<Rightarrow> (world, mapping) action"
  dy_agent :: "agent_role \<Rightarrow> mapping \<Rightarrow> (world, value) action"
  dy_decrypt :: "string option \<Rightarrow> (string, string) dict res"
  dy_dispatch :: "string \<Rightarrow> string option \<Rightarrow> (world, unit) action"
  dy_cleanup :: cleanup_env

type_synonym guard = "(world, unit) action"

definition dynamic_save :: "string \<Rightarrow> (build_job \<Rightarrow> build_job) \<Rightarrow> guard \<Rightarrow> (world, build_job) action" where
  "dynamic_save i upd guard =
     andthen guard
     (bd utc_now (\<lambda>now.
      bd (update_build i (\<lambda>b. (upd b)\<lparr>bj_updated_at := now\<rparr>)) (\<lambda>saved.
      case saved of None \<Rightarrow> raise NotFoundError ''Build not found'' | Some b \<Rightarrow> ret b)))"

section \<open>The shared result of a static check\<close>

definition frozen_check :: "build_job \<Rightarrow> route_check \<Rightarrow> bool" where
  "frozen_check b c \<longleftrightarrow>
     Some (rc_generation c) = bj_route_check_generation b \<and> rc_static_check_passed c = Some True \<and>
     rc_app_id c = bj_appid b \<and> Some (rc_commit_id c) = bj_git_commit_sha b \<and>
     Some (rc_require_route c) = bj_require_route_snapshot b \<and>
     Some (rc_static_agent_role_version c) = bj_static_agent_role_version b"

definition superseded :: "(world, 'a) action" where
  "superseded = raise RouteCheckInputError ''The frozen static check is unavailable or superseded''"

text \<open>A missing role version is never stored: the gate that froze the build demands one.\<close>

definition role_version_field :: "build_job \<Rightarrow> route_check_field list" where
  "role_version_field b =
     (case bj_dynamic_agent_role_version b of Some v \<Rightarrow> [FDynamicAgentRoleVersion v] | None \<Rightarrow> [])"

definition claim_result :: "build_job \<Rightarrow> guard \<Rightarrow> bool \<Rightarrow> (world, unit) action" where
  "claim_result b guard allow_claim =
     bd (case str_or (bj_route_check_id b) None of Some c \<Rightarrow> get_route_check c | None \<Rightarrow> ret None) (\<lambda>found.
     case found of
       None \<Rightarrow> superseded
     | Some c \<Rightarrow>
         if \<not> frozen_check b c then superseded
         else
           andthen guard
           (if (rc_dynamic_build_id c, rc_dynamic_run_id c) \<noteq> (Some (bj_build_id b), bj_dynamic_run_id b)
               \<and> \<not> allow_claim
            then ret ()
            else
              bd utc_now (\<lambda>now.
              bd (update_route_check (rc_check_id c)
                    (role_version_field b @
                     [FDynamicBuildId (Some (bj_build_id b)), FDynamicRunId (bj_dynamic_run_id b),
                      FDynamicRoleSnapshot (bj_route_dynamic_role_snapshot b),
                      FDynamicStatus (if bj_dynamic_status b = CkQueued then CkQueued else CkRunning),
                      FDynamicCheckPassed None, FDynamicReportText None, FProbeResult None, FUpdatedAt now])
                    [FGeneration (rc_generation c), FDynamicBuildId (rc_dynamic_build_id c),
                     FDynamicRunId (rc_dynamic_run_id c)]) (\<lambda>saved.
              if saved \<noteq> None then ret ()
              else
                bd (get_route_check (rc_check_id c)) (\<lambda>current.
                case current of
                  None \<Rightarrow> superseded
                | Some x \<Rightarrow> if frozen_check b x then ret () else superseded)))))"

definition sync_result :: "build_job \<Rightarrow> guard \<Rightarrow> (world, unit) action" where
  "sync_result b guard =
     (case str_or (bj_route_check_id b) None of
        None \<Rightarrow> ret ()
      | Some check_id \<Rightarrow>
          andthen guard
          (case bj_route_check_generation b of
             None \<Rightarrow> ret ()
           | Some g \<Rightarrow>
               bd utc_now (\<lambda>now.
               bd (update_route_check check_id
                     (role_version_field b @
                      [FDynamicStatus (bj_dynamic_status b), FDynamicCheckPassed (bj_dynamic_check_passed b),
                       FDynamicReportText (bj_dynamic_report_text b), FProbeResult (bj_probe_result b), FUpdatedAt now])
                     [FGeneration g, FDynamicBuildId (Some (bj_build_id b)), FDynamicRunId (bj_dynamic_run_id b)])
                 (\<lambda>_. ret ()))))"

section \<open>Submission\<close>

definition fresh_run :: "string \<Rightarrow> agent_role \<Rightarrow> instant \<Rightarrow> build_job \<Rightarrow> build_job" where
  "fresh_run run_id role now = (\<lambda>b. b\<lparr>
     bj_dynamic_run_id := Some run_id, bj_dynamic_status := CkQueued, bj_dynamic_check_passed := None,
     bj_dynamic_initial_started := False, bj_dynamic_debug_started := False,
     bj_dynamic_retry_started := False, bj_dynamic_retry_payload := None,
     bj_dynamic_dispatch_error := None, bj_dynamic_report_text := None, bj_probe_result := None,
     bj_dynamic_agent_role_version := Some (ar_version role), bj_route_dynamic_role_snapshot := Some role,
     bj_error := None, bj_finished_at := None, bj_updated_at := now\<rparr>)"

definition deployable :: "build_status \<Rightarrow> bool" where
  "deployable s \<longleftrightarrow> s = DEPLOYING \<or> s = SUCCEEDED"

text \<open>The block under the lease: Inl is the early answer, Inr the queued build.\<close>

definition start_run :: "string \<Rightarrow> tracker option \<Rightarrow> (world, build_job + build_job) action" where
  "start_run i tracker =
     (case tracker of
        None \<Rightarrow> raise RouteCheckConflict ''A build operation is already running''
      | Some t \<Rightarrow>
          bd (require_build i) (\<lambda>b.
          if bj_dynamic_status b \<in> {CkQueued, CkRunning} then ret (Inl b)
          else if \<not> deployable (bj_status b) \<or> bj_teardown_required b
          then raise RouteCheckConflict ''Build is no longer available for a dynamic check''
          else
            bd (require_role DynamicRole) (\<lambda>role.
            bd uuid4_hex (\<lambda>run_id.
            andthen (tracker_guard t)
            (bd utc_now (\<lambda>now.
             bd (transition_build i [bj_status b] DEPLOYING (fresh_run run_id role now)) (\<lambda>changed.
             case changed of
               None \<Rightarrow> raise RouteCheckConflict ''Build changed concurrently''
             | Some b' \<Rightarrow> andthen (claim_result b' (tracker_guard t) True) (ret (Inr b')))))))))"

definition dynamic_submit :: "dynamic_env \<Rightarrow> string \<Rightarrow> string \<Rightarrow> (world, build_job) action" where
  "dynamic_submit env app_id i =
     bd (get_app app_id) (\<lambda>app.
     bd (require_build i) (\<lambda>b.
     case app of
       None \<Rightarrow> raise NotFoundError ''Build not found for this application''
     | Some a \<Rightarrow>
         if bj_appid b \<noteq> app_id then raise NotFoundError ''Build not found for this application''
         else if \<not> deployable (bj_status b)
         then raise RouteCheckConflict ''Dynamic checks require a running deployment''
         else
           bd (get_build_resources i) (\<lambda>manifest.
           if (case manifest of None \<Rightarrow> True | Some m \<Rightarrow> br_cleanup_status m \<noteq> NotStarted) \<or> bj_teardown_required b
           then raise RouteCheckConflict ''Build resources are unavailable or being cleaned up''
           else if bj_service_ids b = []
           then raise RouteCheckConflict ''Build deployment has not started its services''
           else
             bd (verify_build_gate b a) (\<lambda>_.
             bd (build_lease i [NotStarted] 120 (start_run i)) (\<lambda>started.
             case started of
               Inl early \<Rightarrow> ret early
             | Inr queued \<Rightarrow>
                 andthen (catching (dy_dispatch env i (bj_dynamic_run_id queued)) (\<lambda>_.
                   bd (update_build i (\<lambda>x. x\<lparr>bj_dynamic_dispatch_error := Some ''Unable to enqueue dynamic check''\<rparr>))
                     (\<lambda>_. raise RouteCheckUnavailableError
                        ''Unable to enqueue dynamic check; the saved run will be recovered'')))
                 (require_build i))))))"

section \<open>Endpoints\<close>

definition owned_services :: "build_resources \<Rightarrow> (string, build_resource) dict" where
  "owned_services m = fold (\<lambda>r d. case str_or (rs_native_id r) None of
       Some i \<Rightarrow> if rs_kind r = KService \<and> rs_managed r \<and> rs_state r = Present then dset d i r else d
     | None \<Rightarrow> d) (vals (br_resources m)) []"

definition bare_host :: "string \<Rightarrow> string" where
  "bare_host h = (if starts_with h ''['' \<and> ends_with h '']'' then butlast (tl h) else h)"

definition endpoint_scheme :: "dynamic_env \<Rightarrow> mapping \<Rightarrow> string" where
  "endpoint_scheme env payload =
     (if mget_default payload ''protocol'' (VStr ''http'') = VStr ''grpc''
      then (if dy_public_scheme env = ''https'' then ''grpcs'' else ''grpc'')
      else dy_public_scheme env)"

definition published_endpoint ::
  "dynamic_env \<Rightarrow> string \<Rightarrow> string \<Rightarrow> deployment_service \<Rightarrow> published_port \<Rightarrow> probe_endpoint list res" where
  "published_endpoint env scheme name s p =
     (if pp_protocol p \<noteq> ''tcp'' then Inr []
      else
        (let public_host = map_option bare_host (str_or (dy_public_host env) None) in
         rbind (case (str_or public_host None, pp_published_port p) of
                  (Some h, Some n) \<Rightarrow>
                    if n \<noteq> 0 then make_probe_endpoint name h n scheme (Some (pp_target_port p))
                    else make_probe_endpoint name (sv_service_name s) (pp_target_port p) scheme (Some (pp_target_port p))
                | _ \<Rightarrow> make_probe_endpoint name (sv_service_name s) (pp_target_port p) scheme (Some (pp_target_port p)))
           (\<lambda>e. Inr [e])))"

text \<open>\<open>value[0].isdigit() and 1 <= int(value[0]) <= 65535\<close>; the other part must be \<open>tcp\<close>.\<close>

definition exposed_port :: "value \<Rightarrow> int option" where
  "exposed_port exposed =
     (case split_once (CHR ''/'') (py_str exposed) of
        (number, protocol) \<Rightarrow>
          if (case protocol of Some p \<Rightarrow> p \<noteq> ''tcp'' | None \<Rightarrow> False) then None
          else if number \<noteq> [] \<and> list_all is_digit number \<and> 1 \<le> nat_of_digits number \<and> nat_of_digits number \<le> 65535
          then Some (int (nat_of_digits number)) else None)"

definition exposed_endpoints ::
  "string \<Rightarrow> string \<Rightarrow> deployment_service \<Rightarrow> value list \<Rightarrow> probe_endpoint list res" where
  "exposed_endpoints scheme name s exposed =
     (let declared = map pp_target_port (sv_published_ports s)
      in rmap (\<lambda>n. make_probe_endpoint name (sv_service_name s) n scheme (Some n))
           (filter (\<lambda>n. n \<notin> set declared) (List.map_filter exposed_port exposed)))"

definition compose_expose :: "build_job \<Rightarrow> string \<Rightarrow> value list res" where
  "compose_expose b name =
     rbind (case bj_compose_snapshot b of Some v \<Rightarrow> if truthy v then as_map v else Inr [] | None \<Rightarrow> Inr []) (\<lambda>snapshot.
     rbind (nested snapshot [''services'']) (\<lambda>services.
     case mget_default services name (VDict []) of
       VDict source \<Rightarrow> list_at source ''expose''
     | _ \<Rightarrow> Inr []))"

definition service_endpoints ::
  "dynamic_env \<Rightarrow> build_job \<Rightarrow> string \<Rightarrow> (string, build_resource) dict \<Rightarrow> deployment_service
     \<Rightarrow> probe_endpoint list res" where
  "service_endpoints env b scheme owned s =
     (case dget owned (sv_service_id s) of
        None \<Rightarrow> Inr []
      | Some r \<Rightarrow>
          if sv_build_id s \<noteq> bj_build_id b \<or> sv_service_id s \<notin> set (bj_service_ids b) then Inr []
          else
            (let compose_name = mget (rs_metadata r) ''compose_service'';
                 name = (if truthy compose_name then py_str compose_name else sv_service_name s)
             in rbind (rmap (published_endpoint env scheme name s) (sv_published_ports s)) (\<lambda>published.
                rbind (compose_expose b name) (\<lambda>ports.
                rbind (exposed_endpoints scheme name s ports) (\<lambda>exposed.
                Inr (concat published @ exposed))))))"

definition dynamic_endpoints :: "dynamic_env \<Rightarrow> build_job \<Rightarrow> mapping \<Rightarrow> (world, probe_endpoint list) action" where
  "dynamic_endpoints env b payload =
     bd (get_build_resources (bj_build_id b)) (\<lambda>manifest.
     case manifest of
       None \<Rightarrow> ret []
     | Some m \<Rightarrow>
         if br_appid m \<noteq> bj_appid b then ret []
         else
           bd (list_services (bj_appid b)) (\<lambda>services.
           bd (lift_res (rmap (service_endpoints env b (endpoint_scheme env payload) (owned_services m)) services))
             (\<lambda>es. ret (concat es))))"

section \<open>Redaction and the retried request\<close>

definition environment_secrets :: "dynamic_env \<Rightarrow> string \<Rightarrow> world \<Rightarrow> string list" where
  "environment_secrets env i w =
     (let encrypted = (case look_resources w i of Some m \<Rightarrow> br_environment_ciphertext m | None \<Rightarrow> None)
      in case dy_decrypt env encrypted of
           Inl _ \<Rightarrow> []
         | Inr environment \<Rightarrow> filter (\<lambda>s. 4 \<le> length s) (vals environment))"

definition or_empty :: "value option \<Rightarrow> value" where
  "or_empty v = (case v of Some x \<Rightarrow> if truthy x then x else VDict [] | None \<Rightarrow> VDict [])"

definition build_secrets :: "dynamic_env \<Rightarrow> build_job \<Rightarrow> string list \<Rightarrow> world \<Rightarrow> string list" where
  "build_secrets env b extra w =
     secret_order (environment_secrets env (bj_build_id b) w
       @ payload_secrets (or_empty (bj_route_probe_payload b))
       @ payload_secrets (or_empty (bj_dynamic_retry_payload b)) @ extra)"

definition redact :: "dynamic_env \<Rightarrow> build_job \<Rightarrow> string list \<Rightarrow> value \<Rightarrow> (world, value) action" where
  "redact env b extra v = reading (\<lambda>w. scrub (build_secrets env b extra w) v)"

definition PINNED_KEYS :: "string list" where
  "PINNED_KEYS = [''protocol'', ''path'', ''service_name'', ''target_port'', ''assertions'',
     ''descriptor_set_base64'', ''reflection'']"

definition same_encoding :: "mapping \<Rightarrow> mapping \<Rightarrow> string \<Rightarrow> unit res" where
  "same_encoding candidate original k =
     (case (canonical_json (mget candidate k), canonical_json (mget original k)) of
        (Some x, Some y) \<Rightarrow> rguard (x = y)
          (Exn RouteCheckInputError ''Debug Agent cannot change the route, target or original assertions'')
      | _ \<Rightarrow> Inl (Exn ValueError ''Out of range float values are not JSON compliant''))"

definition retry_payload :: "descriptor_pool \<Rightarrow> mapping \<Rightarrow> value \<Rightarrow> string option \<Rightarrow> mapping res" where
  "retry_payload pool original retry route =
     (if \<not> is_mapping retry
      then Inl (Exn RouteCheckInputError ''Debug Agent retry_payload must be an object or null'')
      else
        rbind (validate_probe_payload pool (VDict (dmerge original (the_dict retry))) route) (\<lambda>candidate.
        rbind (rfor PINNED_KEYS (same_encoding candidate original)) (\<lambda>_. Inr candidate)))"

section \<open>\<open>_finish\<close>\<close>

definition default_report :: string where "default_report = ''dynamic route check failed''"

definition report_or :: "string option \<Rightarrow> string \<Rightarrow> string" where
  "report_or r d = (case str_or r None of Some s \<Rightarrow> s | None \<Rightarrow> d)"

definition redact_report :: "dynamic_env \<Rightarrow> build_job \<Rightarrow> string list \<Rightarrow> string option \<Rightarrow> (world, string option) action" where
  "redact_report env b extra report =
     (case str_or report None of
        None \<Rightarrow> ret None
      | Some s \<Rightarrow> bd (redact env b extra (VStr s)) (\<lambda>v. ret (Some (take 4000 (the_str v)))))"

definition log_excerpt :: "mapping \<Rightarrow> string" where
  "log_excerpt logs =
     take 8000 (join [CHR 0x0A, CHR 0x0A]
       (map (\<lambda>(name, body). ''['' @ py_str name @ '']'' @ [CHR 0x0A] @ py_str body) (take 4 logs)))"

definition dynamic_failure :: "string \<Rightarrow> string option \<Rightarrow> mapping \<Rightarrow> failure" where
  "dynamic_failure i report result =
     (let logs = the_dict (mget result ''container_logs'');
          detail = [(VStr ''build_id'', VStr i), (VStr ''source'', VStr ''dynamic_route_check''),
                    (VStr ''failure_site'', VStr ''dynamic_check''), (VStr ''recognized'', VBool True),
                    (VStr ''summary'', VStr (report_or report default_report)),
                    (VStr ''probe_final'', mget result ''final'')]
      in \<lparr>fl_error_detail = Some (if logs = [] then detail
                               else detail @ [(VStr ''log_services'', VList (map fst logs))]),
          fl_raw_log_excerpt = (if logs = [] then None else Some (log_excerpt logs)),
          fl_failure_logs = Some (failure_logs_payload ''container_logs'' None logs DEFAULT_EXCERPT_MAX_CHARS),
          fl_failure_site = Some ''dynamic_check''\<rparr>)"

definition finish_fields :: "bool \<Rightarrow> value \<Rightarrow> string option \<Rightarrow> build_job \<Rightarrow> build_job" where
  "finish_fields ok result report = (\<lambda>b.
     let b1 = b\<lparr>bj_dynamic_status := (if ok then CkSucceeded else CkFailed), bj_dynamic_check_passed := Some ok,
                bj_probe_result := Some result, bj_dynamic_report_text := (if ok then None else report),
                bj_dynamic_dispatch_error := None\<rparr>
     in if ok then b1 else b1\<lparr>bj_teardown_required := True, bj_teardown_status := Some TdPending\<rparr>)"

definition dynamic_finish ::
  "dynamic_env \<Rightarrow> string \<Rightarrow> guard \<Rightarrow> bool \<Rightarrow> mapping \<Rightarrow> string option \<Rightarrow> (world, build_job) action" where
  "dynamic_finish env i guard ok result report =
     bd (require_build i) (\<lambda>b.
     bd (redact_report env b [] report) (\<lambda>safe.
     bd (redact env b [] (VDict result)) (\<lambda>kept.
     bd (dynamic_save i (finish_fields ok kept safe) guard) (\<lambda>saved.
     bd (if ok then ret saved
         else andthen guard (build_fail i (report_or safe default_report) (dynamic_failure i safe result)))
       (\<lambda>final. andthen (sync_result final guard) (ret final))))))"

section \<open>\<open>execute\<close>\<close>

record locals =
  lc_result :: mapping
  lc_report :: "string option"

definition on_world :: "(world, 'a) action \<Rightarrow> (world \<times> locals, 'a) action" where
  "on_world m = (\<lambda>(w, l). case m w of (r, w') \<Rightarrow> (r, (w', l)))"

definition get_locals :: "(world \<times> locals, locals) action" where
  "get_locals = reading snd"

definition set_locals :: "(locals \<Rightarrow> locals) \<Rightarrow> (world \<times> locals, unit) action" where
  "set_locals f = modify (\<lambda>(w, l). (w, f l))"

definition with_locals ::
  "(world \<times> locals, 'a) action \<Rightarrow> locals \<Rightarrow> (exn \<Rightarrow> locals \<Rightarrow> (world, 'a) action) \<Rightarrow> (world, 'a) action" where
  "with_locals body l0 handler = (\<lambda>w.
     case body (w, l0) of
       (Inr x, (w', _)) \<Rightarrow> (Inr x, w')
     | (Inl e, (w', l)) \<Rightarrow> handler e l w')"

text \<open>\<open>self.probe_client.run\<close>; without a route the request is invalid.\<close>

definition call_probe ::
  "dynamic_env \<Rightarrow> mapping \<Rightarrow> string option \<Rightarrow> probe_endpoint list \<Rightarrow> (world, mapping) action" where
  "call_probe env payload route endpoints =
     (case route of
        Some r \<Rightarrow> run_probe (dy_pool env) (dy_transport env) (VDict payload) r endpoints
      | None \<Rightarrow> ret (probe_failure ''invalid_payload'' ''Probe request validation failed'' @ [(VStr ''attempts'', VList [])]))"

text \<open>The stages of the body give the finished build, or what the next stage continues with.\<close>

definition finish_now ::
  "dynamic_env \<Rightarrow> string \<Rightarrow> guard \<Rightarrow> bool \<Rightarrow> string option \<Rightarrow> (world \<times> locals, build_job) action" where
  "finish_now env i guard ok report =
     bd get_locals (\<lambda>l. on_world (dynamic_finish env i guard ok (lc_result l) report))"

definition initial_probe ::
  "dynamic_env \<Rightarrow> string \<Rightarrow> guard \<Rightarrow> build_job \<Rightarrow> mapping \<Rightarrow> probe_endpoint list
     \<Rightarrow> (world \<times> locals, build_job + build_job) action" where
  "initial_probe env i guard b original endpoints =
     bd get_locals (\<lambda>l.
     if mget (lc_result l) ''initial'' \<noteq> VNull then ret (Inr b)
     else if bj_dynamic_initial_started b then
       bd (finish_now env i guard False (Some ''the initial probe was interrupted; delivery was stopped to avoid a repeated request''))
         (\<lambda>f. ret (Inl f))
     else
       bd (on_world (dynamic_save i (\<lambda>x. x\<lparr>bj_dynamic_initial_started := True\<rparr>) guard)) (\<lambda>b1.
       bd (on_world (call_probe env original (bj_require_route_snapshot b1) endpoints)) (\<lambda>initial.
       bd (on_world (redact env b1 [] (VDict initial))) (\<lambda>kept.
       andthen (set_locals (\<lambda>l. l\<lparr>lc_result := mput (mput (lc_result l) ''initial'' kept) ''final'' kept\<rparr>))
       (bd get_locals (\<lambda>l1.
        bd (on_world (dynamic_save i (\<lambda>x. x\<lparr>bj_probe_result := Some (VDict (lc_result l1))\<rparr>) guard)) (\<lambda>b2.
        andthen (on_world (sync_result b2 guard)) (ret (Inr b2)))))))))"

definition retry_probe ::
  "dynamic_env \<Rightarrow> string \<Rightarrow> guard \<Rightarrow> mapping \<Rightarrow> probe_endpoint list \<Rightarrow> (world \<times> locals, build_job) action" where
  "retry_probe env i guard retry endpoints =
     bd (on_world (dynamic_save i (\<lambda>x. x\<lparr>bj_dynamic_retry_started := True\<rparr>) guard)) (\<lambda>b.
     bd (on_world (call_probe env retry (bj_require_route_snapshot b) endpoints)) (\<lambda>retried.
     bd (on_world (redact env b [] (VDict retried))) (\<lambda>kept.
     andthen (set_locals (\<lambda>l. l\<lparr>lc_result := mput (mput (lc_result l) ''retry'' kept) ''final'' kept\<rparr>))
     (if mget retried ''passed'' = VBool True
      then bd get_locals (\<lambda>l. finish_now env i guard True (lc_report l))
      else
        andthen (set_locals (\<lambda>l. l\<lparr>lc_report := Some (report_or (lc_report l) default_report
                   @ ''; the only probe retry did not pass either'')\<rparr>))
        (bd get_locals (\<lambda>l. finish_now env i guard False (lc_report l)))))))"

definition agent_field :: "value \<Rightarrow> string \<Rightarrow> value" where
  "agent_field output k = (case output of VDict d \<Rightarrow> mget d k | _ \<Rightarrow> VNull)"

definition debug_task :: "build_job \<Rightarrow> string \<Rightarrow> value \<Rightarrow> mapping \<Rightarrow> value \<Rightarrow> mapping" where
  "debug_task b i payload result logs =
     [(VStr ''task'', VStr ''dynamic_route_debug''), (VStr ''app_id'', VStr (bj_appid b)),
      (VStr ''build_id'', VStr i), (VStr ''commit_id'', option_value (bj_git_commit_sha b)),
      (VStr ''require_route'', option_value (bj_require_route_snapshot b)),
      (VStr ''probe_payload'', payload), (VStr ''probe_result'', VDict result),
      (VStr ''container_logs'', logs), (VStr ''retry_budget'', VInt 1)]"

definition snapshot_role :: "build_job \<Rightarrow> (world, agent_role) action" where
  "snapshot_role b =
     (case bj_route_dynamic_role_snapshot b of
        None \<Rightarrow> raise ValueError ''validation error for AgentRole''
      | Some role \<Rightarrow>
          if ar_role_key role \<noteq> DynamicRole \<or> Some (ar_version role) \<noteq> bj_dynamic_agent_role_version b
          then raise RouteCheckInputError ''Dynamic agent role snapshot does not match this build''
          else ret role)"

definition ask_agent ::
  "dynamic_env \<Rightarrow> string \<Rightarrow> guard \<Rightarrow> build_job \<Rightarrow> mapping \<Rightarrow> (world \<times> locals, build_job \<times> value) action" where
  "ask_agent env i guard b original =
     bd (on_world (bd (dy_collect env i) (\<lambda>logs. redact env b [] (VDict logs)))) (\<lambda>logs.
     andthen (set_locals (\<lambda>l. l\<lparr>lc_result := mput (lc_result l) ''container_logs'' logs\<rparr>))
     (bd get_locals (\<lambda>l.
      bd (on_world (dynamic_save i (\<lambda>x. x\<lparr>bj_dynamic_debug_started := True,
            bj_probe_result := Some (VDict (lc_result l))\<rparr>) guard)) (\<lambda>b1.
      andthen (on_world (sync_result b1 guard))
      (bd (on_world (snapshot_role b1)) (\<lambda>role.
       bd (on_world (redact env b1 [] (VDict original))) (\<lambda>payload.
       bd (on_world (dy_agent env role (debug_task b1 i payload (lc_result l) logs))) (\<lambda>output.
       andthen (on_world guard) (ret (b1, output))))))))))"

definition diagnose ::
  "dynamic_env \<Rightarrow> string \<Rightarrow> guard \<Rightarrow> build_job \<Rightarrow> mapping \<Rightarrow> probe_endpoint list \<Rightarrow> (world \<times> locals, build_job) action" where
  "diagnose env i guard b original endpoints =
     bd (ask_agent env i guard b original) (\<lambda>(b1, output).
     let agent_report = agent_field output ''report_text''; proposal = agent_field output ''retry_payload'' in
     andthen
       (if is_str agent_report then
          bd (on_world (redact env b1 (payload_secrets proposal) agent_report)) (\<lambda>safe.
          andthen (set_locals (\<lambda>l. l\<lparr>lc_report := Some (take 4000 (the_str safe))\<rparr>))
          (bd get_locals (\<lambda>l.
           bd (on_world (dynamic_save i (\<lambda>x. x\<lparr>bj_dynamic_report_text := lc_report l\<rparr>) guard)) (\<lambda>_. ret ()))))
        else ret ())
       (bd get_locals (\<lambda>l.
        if \<not> is_str agent_report \<or> \<not> mhas (the_dict output) ''retry_payload''
        then raise RouteCheckInputError ''Debug Agent must return retry_payload and report_text''
        else if proposal = VNull
        then finish_now env i guard False (Some (report_or (lc_report l) ''the debug agent could not build a request that recovers''))
        else
          bd (on_world (lift_res (retry_payload (dy_pool env) original proposal (bj_require_route_snapshot b1)))) (\<lambda>retry.
          bd (on_world (dynamic_save i (\<lambda>x. x\<lparr>bj_dynamic_retry_payload := Some (VDict retry),
                bj_dynamic_report_text := lc_report l\<rparr>) guard)) (\<lambda>_.
          retry_probe env i guard retry endpoints)))))"

definition after_initial ::
  "dynamic_env \<Rightarrow> string \<Rightarrow> guard \<Rightarrow> build_job \<Rightarrow> mapping \<Rightarrow> probe_endpoint list \<Rightarrow> (world \<times> locals, build_job) action" where
  "after_initial env i guard b original endpoints =
     bd get_locals (\<lambda>l.
     let result = lc_result l; report = bj_dynamic_report_text b in
     if mget (the_dict (mget result ''initial'')) ''passed'' = VBool True
     then finish_now env i guard True None
     else if mget result ''retry'' \<noteq> VNull
     then finish_now env i guard (mget (the_dict (mget result ''retry'')) ''passed'' = VBool True) report
     else if bj_dynamic_retry_started b
     then finish_now env i guard False (Some ''the only probe retry was interrupted and is not repeated'')
     else
       andthen (set_locals (\<lambda>l. l\<lparr>lc_report := report\<rparr>))
       (case bj_dynamic_retry_payload b of
          Some payload \<Rightarrow>
            bd (on_world (lift_res (retry_payload (dy_pool env) original payload (bj_require_route_snapshot b))))
              (\<lambda>retry. retry_probe env i guard retry endpoints)
        | None \<Rightarrow>
            if bj_dynamic_debug_started b
            then finish_now env i guard False (Some (case str_or report None of
                   Some r \<Rightarrow> r @ ''; the debug agent was interrupted and is not called again''
                 | None \<Rightarrow> ''the debug agent was interrupted and is not called again''))
            else diagnose env i guard b original endpoints))"

definition begin_run :: "string \<Rightarrow> guard \<Rightarrow> build_job \<Rightarrow> (world, build_job) action" where
  "begin_run i guard b0 =
     bd (if truthy_text (bj_dynamic_run_id b0) then ret b0
         else bd uuid4_hex (\<lambda>run_id. dynamic_save i (\<lambda>x. x\<lparr>bj_dynamic_run_id := Some run_id\<rparr>) guard)) (\<lambda>b1.
     andthen (claim_result b1 guard (bj_dynamic_status b1 = CkPending))
       (dynamic_save i (\<lambda>x. x\<lparr>bj_dynamic_status := CkRunning, bj_dynamic_dispatch_error := None\<rparr>) guard))"

definition execute_body ::
  "dynamic_env \<Rightarrow> string \<Rightarrow> guard \<Rightarrow> build_job \<Rightarrow> (world \<times> locals, build_job) action" where
  "execute_body env i guard b0 =
     bd (on_world (begin_run i guard b0)) (\<lambda>b2.
     bd (on_world (lift_res (validate_probe_payload (dy_pool env)
           (case bj_route_probe_payload b2 of Some v \<Rightarrow> v | None \<Rightarrow> VNull) (bj_require_route_snapshot b2)))) (\<lambda>original.
     bd (on_world (dynamic_endpoints env b2 original)) (\<lambda>endpoints.
     bd (initial_probe env i guard b2 original endpoints) (\<lambda>stage.
     case stage of
       Inl finished \<Rightarrow> ret finished
     | Inr b3 \<Rightarrow> after_initial env i guard b3 original endpoints))))"

text \<open>The exceptions that derive from \<open>ValueError\<close>.\<close>

definition value_errors :: "exn_class set" where
  "value_errors = {ValueError, NamingError, BuildInputError, InvalidBuildTransition, ResourceConflict,
     RouteCheckInputError, WorkspaceError, TemplateError, ComposeBuildContractError}"

definition execute_failure :: "exn \<Rightarrow> string option \<Rightarrow> string" where
  "execute_failure e report =
     (if exn_class e \<in> value_errors \<union> {RouteCheckConflict, AgentExecutionError} then
        (let safe = (if exn_class e \<in> {RouteCheckInputError, AgentExecutionError} then exn_msg e
                     else ''the dynamic check input or the role configuration is invalid'')
         in case str_or report None of
              Some r \<Rightarrow> r @ ''; the debug agent's retry could not be made safely: '' @ safe
            | None \<Rightarrow> safe)
      else
        (let safe = ''the dynamic check or the debug agent failed; check the probe and the agent runtime''
         in case str_or report None of Some r \<Rightarrow> r @ ''; '' @ safe | None \<Rightarrow> safe))"

definition settled_failure :: "string \<Rightarrow> string option \<Rightarrow> failure" where
  "settled_failure i report = no_detail\<lparr>
     fl_failure_site := Some ''dynamic_check'',
     fl_error_detail := Some [(VStr ''failure_site'', VStr ''dynamic_check''),
       (VStr ''summary'', VStr (report_or report default_report)), (VStr ''recognized'', VBool True),
       (VStr ''build_id'', VStr i), (VStr ''source'', VStr ''dynamic_route_check'')]\<rparr>"

definition initial_result :: "build_job \<Rightarrow> mapping" where
  "initial_result b =
     (case bj_probe_result b of
        Some v \<Rightarrow> if truthy v then the_dict v
                   else [(VStr ''initial'', VNull), (VStr ''retry'', VNull), (VStr ''final'', VNull)]
      | None \<Rightarrow> [(VStr ''initial'', VNull), (VStr ''retry'', VNull), (VStr ''final'', VNull)])"

definition dynamic_execute :: "dynamic_env \<Rightarrow> string \<Rightarrow> guard \<Rightarrow> (world, build_job) action" where
  "dynamic_execute env i guard =
     bd (require_build i) (\<lambda>b.
     if bj_dynamic_status b = CkSucceeded \<or> bj_dynamic_status b = CkFailed then
       bd (if bj_dynamic_status b = CkFailed \<and> bj_status b = DEPLOYING
           then andthen guard (build_fail i (report_or (bj_dynamic_report_text b) default_report)
                                 (settled_failure i (bj_dynamic_report_text b)))
           else ret b) (\<lambda>final.
       andthen (sync_result final guard) (ret final))
     else if bj_status b \<noteq> DEPLOYING
     then raise RouteCheckConflict ''Dynamic checks must run before delivery succeeds''
     else
       with_locals (execute_body env i guard b)
         \<lparr>lc_result = initial_result b, lc_report = bj_dynamic_report_text b\<rparr>
         (\<lambda>e l. if exn_class e = ResourceConflict then reraise e
                 else dynamic_finish env i guard False (lc_result l) (Some (execute_failure e (lc_report l)))))"

section \<open>Teardown and recovery\<close>

definition teardown_of :: "cleanup_status \<Rightarrow> teardown_status" where
  "teardown_of s =
     (case s of CleanupSucceeded \<Rightarrow> TdSucceeded | PartialFailed \<Rightarrow> TdPartialFailed
      | CleanupRunning \<Rightarrow> TdRunning | _ \<Rightarrow> TdPending)"

text \<open>\<open>None\<close> is the answer \<open>not_required\<close>.\<close>

definition sync_teardown :: "string \<Rightarrow> (world, teardown_status option) action" where
  "sync_teardown i =
     bd (require_build i) (\<lambda>b.
     bd (get_build_resources i) (\<lambda>manifest.
     if \<not> bj_teardown_required b \<and> bj_teardown_status b = None then ret None
     else
       (let status = (case manifest of None \<Rightarrow> TdPartialFailed | Some m \<Rightarrow> teardown_of (br_cleanup_status m)) in
        bd utc_now (\<lambda>now.
        bd (update_build i (\<lambda>x. x\<lparr>bj_teardown_status := Some status,
              bj_teardown_required := (status \<noteq> TdSucceeded), bj_updated_at := now\<rparr>)) (\<lambda>_.
        ret (Some status))))))"

definition set_teardown :: "string \<Rightarrow> (build_job \<Rightarrow> build_job) \<Rightarrow> (world, unit) action" where
  "set_teardown i upd =
     bd utc_now (\<lambda>now. bd (update_build i (\<lambda>x. (upd x)\<lparr>bj_updated_at := now\<rparr>)) (\<lambda>_. ret ()))"

definition teardown :: "dynamic_env \<Rightarrow> string \<Rightarrow> (world, unit) action option \<Rightarrow> (world, teardown_status option) action" where
  "teardown env i cleanup =
     bd (require_build i) (\<lambda>b.
     if \<not> bj_teardown_required b then sync_teardown i
     else
       bd (attempt
            (andthen (bd (request_cleanup (dy_cleanup env) i False) (\<lambda>_. ret ()))
            (andthen (set_teardown i (\<lambda>x. x\<lparr>bj_teardown_status := Some TdRunning\<rparr>))
              (case cleanup of
                 Some c \<Rightarrow> c
               | None \<Rightarrow> bd (run_cleanup (dy_cleanup env) i) (\<lambda>_. ret ()))))) (\<lambda>outcome.
       case outcome of
         Inr _ \<Rightarrow> sync_teardown i
       | Inl _ \<Rightarrow>
           andthen (set_teardown i (\<lambda>x. x\<lparr>bj_teardown_status := Some TdPartialFailed, bj_teardown_required := True\<rparr>))
             (ret (Some TdPartialFailed))))"

text \<open>The result is whether the loop goes on to the teardown of this build.\<close>

definition settle_failed :: "string \<Rightarrow> (world, bool) action" where
  "settle_failed i =
     build_lease i [NotStarted, PartialFailed] 120 (\<lambda>tracker.
       case tracker of
         None \<Rightarrow> ret False
       | Some t \<Rightarrow>
           bd (require_build i) (\<lambda>current.
           bd (if bj_dynamic_status current = CkFailed \<and> bj_status current = DEPLOYING
               then andthen (tracker_guard t)
                      (build_fail i (report_or (bj_dynamic_report_text current) default_report)
                        (settled_failure i (bj_dynamic_report_text current)))
               else ret current) (\<lambda>final.
           andthen (if bj_dynamic_status final = CkFailed then sync_result final (tracker_guard t) else ret ())
             (ret True))))"

definition recover_dynamic_build :: "dynamic_env \<Rightarrow> build_job \<Rightarrow> nat \<times> nat \<Rightarrow> (world, nat \<times> nat) action" where
  "recover_dynamic_build env b counts =
     bd (get_build_resources (bj_build_id b)) (\<lambda>manifest.
     bd utc_now (\<lambda>now.
     if (case manifest of Some m \<Rightarrow> lease_is_live m now | None \<Rightarrow> False) then ret counts
     else if bj_teardown_required b then
       bd (if bj_dynamic_status b = CkFailed then settle_failed (bj_build_id b) else ret True) (\<lambda>go.
       if \<not> go then ret counts
       else bd (teardown env (bj_build_id b) None) (\<lambda>_. ret (fst counts, Suc (snd counts))))
     else if bj_dynamic_status b \<in> {CkQueued, CkRunning} \<and> bj_status b = DEPLOYING then
       bd (attempt (dy_dispatch env (bj_build_id b) (bj_dynamic_run_id b))) (\<lambda>sent.
       ret (if is_ok sent then (Suc (fst counts), snd counts) else counts))
     else ret counts))"

definition recover_dynamic :: "dynamic_env \<Rightarrow> (world, nat \<times> nat) action" where
  "recover_dynamic env =
     bd list_pending_dynamic_builds (\<lambda>builds. fold_each builds (recover_dynamic_build env) (0, 0))"

end
