(* ===== verification/DynamicSafety.thy ===== *)
theory DynamicSafety
  imports DynamicChecks
begin

text \<open>
  What a dynamic check promises around its external calls: each is reserved in the stored build
  before it is made, a run that is resumed never repeats one, the retried request keeps what the
  original asserted, and every run that returns has decided the check.
\<close>

section \<open>What the steps leave alone\<close>

abbreviation same_builds_step :: "world \<Rightarrow> world \<Rightarrow> bool" where
  "same_builds_step w w' \<equiv> w_builds w' = w_builds w"

interpretation sb: step_guarantee same_builds_step
  by unfold_locales simp_all

named_theorems builds_same "actions that do not touch the stored builds"

lemma sb_run: "keeps same_builds_step m \<Longrightarrow> m w = (r, w') \<Longrightarrow> w_builds w' = w_builds w"
  by (drule keepsD [where w = w]) simp

lemma sb_utc_now [builds_same]: "keeps same_builds_step utc_now"
  by (simp add: keeps_def)

lemma sb_uuid4 [builds_same]: "keeps same_builds_step uuid4_hex"
  by (simp add: keeps_def uuid4_hex_app)

lemma sb_get_check [builds_same]: "keeps same_builds_step (get_route_check c)"
  by (simp add: keeps_def get_route_check_def)

lemma sb_update_check [builds_same]: "keeps same_builds_step (update_route_check c upd e)"
  by (rule keepsI) (auto simp: update_route_check_def bd_app Let_def split: option.split sum.split)

lemma sb_superseded [builds_same]: "keeps same_builds_step superseded"
  unfolding superseded_def by (rule sb.keeps_raise)

lemma sb_claim_result [builds_same]:
  "keeps same_builds_step guard \<Longrightarrow> keeps same_builds_step (claim_result b guard allow)"
  unfolding claim_result_def by (intro sb.keeps_rules builds_same)

lemma sb_sync_result [builds_same]:
  "keeps same_builds_step guard \<Longrightarrow> keeps same_builds_step (sync_result b guard)"
  unfolding sync_result_def by (intro sb.keeps_rules builds_same)

lemma sb_redact [builds_same]: "keeps same_builds_step (redact env b extra v)"
  unfolding redact_def by (rule sb.keeps_reading)

lemma sb_redact_report [builds_same]: "keeps same_builds_step (redact_report env b extra r)"
  unfolding redact_report_def by (intro sb.keeps_rules builds_same)

lemma sb_snapshot_role [builds_same]: "keeps same_builds_step (snapshot_role b)"
  unfolding snapshot_role_def by (intro sb.keeps_rules)

lemma sb_require_build [builds_same]: "keeps same_builds_step (require_build i)"
  by (simp add: keeps_def require_build_app split: option.split)

lemma sb_get_resources [builds_same]: "keeps same_builds_step (get_build_resources i)"
  by (simp add: keeps_def get_build_resources_def)

lemma sb_list_services [builds_same]: "keeps same_builds_step (list_services a)"
  by (simp add: keeps_def list_services_def)

lemma sb_endpoints [builds_same]: "keeps same_builds_step (dynamic_endpoints env b p)"
  unfolding dynamic_endpoints_def by (intro sb.keeps_rules builds_same)

text \<open>The parts of the environment that run while a check is executed, and the guard of its
  lease, do not touch the stored builds.\<close>

definition calm :: "dynamic_env \<Rightarrow> guard \<Rightarrow> bool" where
  "calm env guard \<longleftrightarrow> keeps same_builds_step guard \<and>
     (\<forall>p r e. keeps same_builds_step (dy_transport env p r e)) \<and>
     (\<forall>i. keeps same_builds_step (dy_collect env i)) \<and>
     (\<forall>r t. keeps same_builds_step (dy_agent env r t))"

lemma sb_try_endpoints:
  assumes "\<And>p r e. keeps same_builds_step (T p r e)"
  shows "keeps same_builds_step (try_endpoints T p r es)"
proof (induction es)
  case Nil
  show ?case unfolding try_endpoints.simps by (rule sb.keeps_ret)
next
  case (Cons e es)
  show ?case unfolding try_endpoints.simps Let_def by (intro sb.keeps_rules assms Cons)
qed

lemma sb_call_probe:
  assumes "calm env guard"
  shows "keeps same_builds_step (call_probe env p r es)"
  using assms unfolding call_probe_def run_probe_def calm_def Let_def
  by (intro sb.keeps_rules sb_try_endpoints) blast+

text \<open>A save stores what it returns.\<close>

lemma dynamic_save_Inr:
  assumes "dynamic_save i upd guard w = (Inr b, w')" and "keeps same_builds_step guard"
  shows "\<exists>b0 now. look_build w i = Some b0 \<and> b = (upd b0)\<lparr>bj_updated_at := now\<rparr> \<and> look_build w' i = Some b"
proof -
  obtain g w1 where g: "guard w = (Inr g, w1)"
    using assms(1) by (cases "guard w"; cases "fst (guard w)") (auto simp: dynamic_save_def andthen_app)
  have "look_build w1 i = look_build w i"
    using sb_run [OF assms(2) g] by (simp add: look_build_def)
  then show ?thesis
    using assms(1) g
    by (auto simp: dynamic_save_def andthen_app bd_app update_build_def look_build_def split: option.splits)
qed

text \<open>The parts of a build a started run continues from.\<close>

definition same_run :: "build_job \<Rightarrow> build_job \<Rightarrow> bool" where
  "same_run b b' \<longleftrightarrow> bj_status b' = bj_status b \<and> bj_probe_result b' = bj_probe_result b \<and>
     bj_dynamic_initial_started b' = bj_dynamic_initial_started b \<and>
     bj_dynamic_debug_started b' = bj_dynamic_debug_started b \<and>
     bj_dynamic_retry_started b' = bj_dynamic_retry_started b \<and>
     bj_dynamic_retry_payload b' = bj_dynamic_retry_payload b"

lemma begin_run_Inr:
  assumes "begin_run i guard b0 w = (Inr b, w')" and "keeps same_builds_step guard" and "look_build w i = Some b0"
  shows "look_build w' i = Some b \<and> same_run b0 b"
proof -
  obtain b1 w1 where 1: "(if truthy_text (bj_dynamic_run_id b0) then ret b0
         else bd uuid4_hex (\<lambda>run_id. dynamic_save i (\<lambda>x. x\<lparr>bj_dynamic_run_id := Some run_id\<rparr>) guard)) w = (Inr b1, w1)"
    and 2: "andthen (claim_result b1 guard (bj_dynamic_status b1 = CkPending))
       (dynamic_save i (\<lambda>x. x\<lparr>bj_dynamic_status := CkRunning, bj_dynamic_dispatch_error := None\<rparr>) guard) w1 = (Inr b, w')"
    using assms(1) unfolding begin_run_def by (rule bd_InrE)
  have b1: "look_build w1 i = Some b1 \<and> same_run b0 b1"
  proof (cases "truthy_text (bj_dynamic_run_id b0)")
    case True
    then show ?thesis using 1 assms(3) by (simp add: same_run_def)
  next
    case False
    then obtain run_id wu where u: "uuid4_hex w = (Inr run_id, wu)"
      and s: "dynamic_save i (\<lambda>x. x\<lparr>bj_dynamic_run_id := Some run_id\<rparr>) guard wu = (Inr b1, w1)"
      using 1 by (auto elim: bd_InrE)
    have "look_build wu i = Some b0"
      using sb_run [OF sb_uuid4 u] assms(3) by (simp add: look_build_def)
    then show ?thesis
      using dynamic_save_Inr [OF s assms(2)] by (auto simp: same_run_def)
  qed
  obtain w2 u where 3: "claim_result b1 guard (bj_dynamic_status b1 = CkPending) w1 = (Inr u, w2)"
    "dynamic_save i (\<lambda>x. x\<lparr>bj_dynamic_status := CkRunning, bj_dynamic_dispatch_error := None\<rparr>) guard w2 = (Inr b, w')"
    using 2 by (rule andthen_InrE)
  have "look_build w2 i = Some b1"
    using sb_run [OF sb_claim_result [OF assms(2)] 3(1)] b1 by (simp add: look_build_def)
  then show ?thesis
    using dynamic_save_Inr [OF 3(2) assms(2)] b1 by (auto simp: same_run_def)
qed

section \<open>Each call is reserved before it is made\<close>

text \<open>What the stored build must say for a request to a service, or a question to the agent.\<close>

definition may_probe :: "string \<Rightarrow> world \<Rightarrow> bool" where
  "may_probe i w \<longleftrightarrow> (case look_build w i of None \<Rightarrow> False | Some b \<Rightarrow>
     bj_dynamic_initial_started b \<and> mget (initial_result b) ''initial'' = VNull \<or> bj_dynamic_retry_started b)"

definition may_ask :: "string \<Rightarrow> world \<Rightarrow> bool" where
  "may_ask i w \<longleftrightarrow> (case look_build w i of None \<Rightarrow> False | Some b \<Rightarrow> bj_dynamic_debug_started b)"

definition reserved_env ::
  "string \<Rightarrow> probe_transport \<Rightarrow> (agent_role \<Rightarrow> mapping \<Rightarrow> (world, value) action) \<Rightarrow> dynamic_env \<Rightarrow> dynamic_env" where
  "reserved_env i stray_probe stray_agent env = env\<lparr>
     dy_transport := (\<lambda>p r e w. if may_probe i w then dy_transport env p r e w else stray_probe p r e w),
     dy_agent := (\<lambda>r t w. if may_ask i w then dy_agent env r t w else stray_agent r t w)\<rparr>"

lemma may_same_builds:
  assumes "w_builds w' = w_builds w"
  shows "may_probe i w' = may_probe i w" "may_ask i w' = may_ask i w"
  using assms by (simp_all add: may_probe_def may_ask_def look_build_def)

text \<open>The steps that neither probe nor ask do not depend on the transport and the agent.\<close>

lemma env_secrets [simp]:
  "environment_secrets (env\<lparr>dy_transport := t, dy_agent := a\<rparr>) = environment_secrets env"
  by (rule ext)+ (simp add: environment_secrets_def)

lemma env_redact [simp]: "redact (env\<lparr>dy_transport := t, dy_agent := a\<rparr>) = redact env"
  by (rule ext)+ (simp add: redact_def build_secrets_def)

lemma env_redact_report [simp]: "redact_report (env\<lparr>dy_transport := t, dy_agent := a\<rparr>) = redact_report env"
  by (rule ext)+ (simp only: redact_report_def env_redact)

lemma env_finish [simp]: "dynamic_finish (env\<lparr>dy_transport := t, dy_agent := a\<rparr>) = dynamic_finish env"
  by (rule ext)+ (simp add: dynamic_finish_def)

lemma env_finish_now [simp]: "finish_now (env\<lparr>dy_transport := t, dy_agent := a\<rparr>) = finish_now env"
  by (rule ext)+ (simp add: finish_now_def)

lemma env_published [simp]:
  "published_endpoint (env\<lparr>dy_transport := t, dy_agent := a\<rparr>) = published_endpoint env"
  by (rule ext)+ (simp add: published_endpoint_def)

lemma env_service_endpoints [simp]:
  "service_endpoints (env\<lparr>dy_transport := t, dy_agent := a\<rparr>) = service_endpoints env"
  by (rule ext)+ (simp only: service_endpoints_def env_published)

lemma env_scheme [simp]: "endpoint_scheme (env\<lparr>dy_transport := t, dy_agent := a\<rparr>) = endpoint_scheme env"
  by (rule ext)+ (simp add: endpoint_scheme_def)

lemma env_endpoints [simp]:
  "dynamic_endpoints (env\<lparr>dy_transport := t, dy_agent := a\<rparr>) = dynamic_endpoints env"
  by (rule ext)+ (simp only: dynamic_endpoints_def env_scheme env_service_endpoints)

lemma reserved_sel [simp]:
  "redact (reserved_env i sp sa env) = redact env" "dynamic_finish (reserved_env i sp sa env) = dynamic_finish env"
  "finish_now (reserved_env i sp sa env) = finish_now env"
  "dynamic_endpoints (reserved_env i sp sa env) = dynamic_endpoints env"
  "dy_pool (reserved_env i sp sa env) = dy_pool env" "dy_collect (reserved_env i sp sa env) = dy_collect env"
  by (simp_all add: reserved_env_def)

lemma on_world_Inr: "on_world m (w, l) = (Inr x, p) \<Longrightarrow> \<exists>w1. m w = (Inr x, w1) \<and> p = (w1, l)"
  by (auto simp: on_world_def split: prod.splits)

lemma on_world_eq: "m' w = m w \<Longrightarrow> on_world m' (w, l) = on_world m (w, l)"
  by (simp add: on_world_def)

lemma try_endpoints_reserved:
  assumes "\<And>p r e. keeps same_builds_step (T p r e)" and "may_probe i w"
  shows "try_endpoints (\<lambda>p r e w. if may_probe i w then T p r e w else S p r e w) pl rt es w =
    try_endpoints T pl rt es w"
  using assms(2)
proof (induction es arbitrary: w)
  case (Cons e es)
  have "may_probe i (snd (T pl rt e w))"
    using may_same_builds(1) [OF keepsD [OF assms(1)]] Cons.prems by blast
  then show ?case
    unfolding try_endpoints_app using Cons by (simp add: Let_def)
qed simp

lemma call_probe_reserved:
  assumes "calm env guard" and "may_probe i w"
  shows "call_probe (reserved_env i sp sa env) p r es w = call_probe env p r es w"
  using assms try_endpoints_reserved [where T = "dy_transport env" and w = w and i = i and S = sp]
  by (auto simp: call_probe_def run_probe_def reserved_env_def calm_def Let_def bd_app
      split: option.split sum.split)

lemma retry_probe_reserved:
  assumes "calm env guard"
  shows "retry_probe (reserved_env i sp sa env) i guard p es (w, l) = retry_probe env i guard p es (w, l)"
proof -
  have g: "keeps same_builds_step guard" using assms by (simp add: calm_def)
  show ?thesis
    unfolding retry_probe_def
  proof (rule bd_cong_step [OF refl], goal_cases)
    case (1 b q)
    then obtain w1 where s: "dynamic_save i (\<lambda>x. x\<lparr>bj_dynamic_retry_started := True\<rparr>) guard w = (Inr b, w1)"
      and q: "q = (w1, l)" by (auto dest: on_world_Inr)
    have "may_probe i w1"
      using dynamic_save_Inr [OF s g] by (auto simp: may_probe_def)
    then show ?case
      unfolding q
      by (intro bd_cong_step on_world_eq call_probe_reserved [OF assms]) (simp_all add: reserved_env_def)
  qed
qed

lemma ask_agent_reserved:
  assumes "calm env guard"
  shows "ask_agent (reserved_env i sp sa env) i guard b p (w, l) = ask_agent env i guard b p (w, l)"
proof -
  have g: "keeps same_builds_step guard" using assms by (simp add: calm_def)
  have agent: "on_world (dy_agent (reserved_env i sp sa env) r t) (w1, l1) = on_world (dy_agent env r t) (w1, l1)"
    if "may_ask i w1" for r t w1 l1
    using that by (intro on_world_eq) (simp add: reserved_env_def)
  show ?thesis
    unfolding ask_agent_def
  proof (rule bd_cong_step, goal_cases)
    case 1
    show ?case by (simp add: reserved_env_def)
  next
    case (2 logs q)
    show ?case
    proof (rule andthen_cong_step [OF refl], rule bd_cong_step [OF refl], rule bd_cong_step [OF refl], goal_cases)
      case (1 u q1 l1 q2 b1 q3)
      obtain w2 l2 where q2: "q2 = (w2, l2)" by fastforce
      then obtain w3 where s: "dynamic_save i (\<lambda>x. x\<lparr>bj_dynamic_debug_started := True,
          bj_probe_result := Some (VDict (lc_result l1))\<rparr>) guard w2 = (Inr b1, w3)" and q3: "q3 = (w3, l2)"
        using 1 by (auto dest: on_world_Inr)
      have ask: "may_ask i w3"
        using dynamic_save_Inr [OF s g] by (auto simp: may_ask_def)
      show ?case
        unfolding q3
      proof (rule andthen_cong_step [OF refl], rule bd_cong_step [OF refl], rule bd_cong_step, goal_cases)
        case 1
        show ?case by (simp add: reserved_env_def)
      next
        case (2 u1 q4 role q5 payload q6)
        obtain w4 where w4: "sync_result b1 guard w3 = (Inr u1, w4)" "q4 = (w4, l2)"
          using 2(1) by (auto dest: on_world_Inr)
        obtain w5 where w5: "snapshot_role b1 w4 = (Inr role, w5)" "q5 = (w5, l2)"
          using 2(2) w4 by (auto dest: on_world_Inr)
        obtain w6 where w6: "redact env b1 [] (VDict p) w5 = (Inr payload, w6)" "q6 = (w6, l2)"
          using 2(3) w5 by (auto dest: on_world_Inr)
        have "w_builds w6 = w_builds w3"
          using sb_run [OF sb_sync_result [OF g] w4(1)] sb_run [OF sb_snapshot_role w5(1)] sb_run [OF sb_redact w6(1)]
          by simp
        then have "may_ask i w6" using ask may_same_builds(2) by blast
        then show ?case unfolding w6(2) by (intro bd_cong_step agent refl)
      qed
    qed
  qed
qed

lemma diagnose_reserved:
  assumes "calm env guard"
  shows "diagnose (reserved_env i sp sa env) i guard b p es (w, l) = diagnose env i guard b p es (w, l)"
proof -
  have retry: "retry_probe (reserved_env i sp sa env) i guard r es q = retry_probe env i guard r es q" for r q
    by (cases q) (simp add: retry_probe_reserved [OF assms])
  show ?thesis
    unfolding diagnose_def
  proof (rule bd_cong_step, goal_cases)
    case 1
    show ?case by (rule ask_agent_reserved [OF assms])
  next
    case (2 out q)
    show ?case
      unfolding Let_def case_prod_beta
    proof (rule andthen_cong_step, goal_cases)
      case 1
      show ?case by (simp add: reserved_env_def)
    next
      case (2 u q1)
      show ?case
        by (rule bd_cong_step [OF refl])
          (auto simp: reserved_env_def retry [unfolded reserved_env_def] intro!: bd_cong_step)
    qed
  qed
qed

lemma after_initial_reserved:
  assumes "calm env guard"
  shows "after_initial (reserved_env i sp sa env) i guard b p es (w, l) = after_initial env i guard b p es (w, l)"
proof -
  have retry: "retry_probe (reserved_env i sp sa env) i guard r es q = retry_probe env i guard r es q"
    and diag: "diagnose (reserved_env i sp sa env) i guard b p es q = diagnose env i guard b p es q" for r q
    by (cases q, simp add: retry_probe_reserved [OF assms] diagnose_reserved [OF assms])+
  show ?thesis
    unfolding after_initial_def Let_def
    by (rule bd_cong_step [OF refl])
      (auto simp: reserved_env_def retry [unfolded reserved_env_def] diag [unfolded reserved_env_def]
        split: option.split intro!: bd_cong_step andthen_cong_step)
qed

lemma initial_probe_reserved:
  assumes "calm env guard" and "look_build w i = Some b" and "lc_result l = initial_result b"
  shows "initial_probe (reserved_env i sp sa env) i guard b p es (w, l) = initial_probe env i guard b p es (w, l)"
proof -
  have g: "keeps same_builds_step guard" using assms by (simp add: calm_def)
  show ?thesis
  proof (cases "mget (lc_result l) ''initial'' \<noteq> VNull \<or> bj_dynamic_initial_started b")
    case True
    then show ?thesis
      by (auto simp: initial_probe_def get_locals_def bd_app reserved_env_def)
  next
    case False
    show ?thesis
      unfolding initial_probe_def
    proof (rule bd_cong_step [OF refl], goal_cases)
      case (1 l1 q)
      then have l1: "l1 = l" "q = (w, l)" by (auto simp: get_locals_def)
      have n: "mget (lc_result l) ''initial'' = VNull" "bj_dynamic_initial_started b = False"
        using False by auto
      have saved: "bd (on_world (dynamic_save i (\<lambda>x. x\<lparr>bj_dynamic_initial_started := True\<rparr>) guard)) f' (w, l) =
          bd (on_world (dynamic_save i (\<lambda>x. x\<lparr>bj_dynamic_initial_started := True\<rparr>) guard)) f (w, l)"
        if "\<And>b1 w1. may_probe i w1 \<Longrightarrow> f' b1 (w1, l) = f b1 (w1, l)" for f f' :: "build_job \<Rightarrow> (world \<times> locals, 'x) action"
      proof (rule bd_cong_step [OF refl], goal_cases)
        case (1 b1 q)
        then obtain w1 where s: "dynamic_save i (\<lambda>x. x\<lparr>bj_dynamic_initial_started := True\<rparr>) guard w = (Inr b1, w1)"
          "q = (w1, l)" by (auto dest: on_world_Inr)
        have "may_probe i w1"
          using dynamic_save_Inr [OF s(1) g] assms(2,3) False by (auto simp: may_probe_def initial_result_def)
        then show ?case using that s(2) by simp
      qed
      show ?case
        unfolding l1 n simp_thms if_False
        by (rule saved, intro bd_cong_step on_world_eq call_probe_reserved [OF assms(1)]) simp_all
    qed
  qed
qed


lemma execute_body_reserved:
  assumes "calm env guard" and "look_build w i = Some b"
  shows "execute_body (reserved_env i sp sa env) i guard b
      (w, \<lparr>lc_result = initial_result b, lc_report = r\<rparr>) =
    execute_body env i guard b (w, \<lparr>lc_result = initial_result b, lc_report = r\<rparr>)"
proof -
  have g: "keeps same_builds_step guard" using assms by (simp add: calm_def)
  let ?l = "\<lparr>lc_result = initial_result b, lc_report = r\<rparr>"
  have after: "after_initial (reserved_env i sp sa env) i guard b3 p es q = after_initial env i guard b3 p es q" for b3 p es q
    by (cases q) (simp add: after_initial_reserved [OF assms(1)])
  show ?thesis
    unfolding execute_body_def
  proof (rule bd_cong_step [OF refl], goal_cases)
    case (1 b2 q)
    then obtain w2 where w2: "begin_run i guard b w = (Inr b2, w2)" "q = (w2, ?l)" by (auto dest: on_world_Inr)
    note b2 = begin_run_Inr [OF w2(1) g assms(2)]
    show ?case
    proof (rule bd_cong_step, goal_cases)
      case 1
      show ?case by (simp add: reserved_env_def)
    next
      case (2 p q2)
      then have q2: "q2 = (w2, ?l)" using w2(2) by (auto simp: on_world_def)
      show ?case
      proof (rule bd_cong_step, goal_cases)
        case 1
        show ?case by (simp add: reserved_env_def)
      next
        case (2 es q3)
        then obtain w3 where w3: "dynamic_endpoints env b2 p w2 = (Inr es, w3)" "q3 = (w3, ?l)"
          unfolding q2 by (auto dest: on_world_Inr)
        have "look_build w3 i = Some b2"
          using sb_run [OF sb_endpoints w3(1)] b2 by (simp add: look_build_def)
        moreover have "initial_result b2 = initial_result b"
          using b2 by (simp add: same_run_def initial_result_def)
        ultimately show ?case
          unfolding w3(2)
          by (intro bd_cong_step initial_probe_reserved [OF assms(1)])
             (auto simp: after split: sum.split)
      qed
    qed
  qed
qed

text \<open>
  C12: a dynamic check reserves every external call in the stored build before it makes it. The
  run is the same when a probe request sent while the build records neither the start of the
  initial probe (with no result yet) nor the start of the retry, and a question put to the debug
  agent while the build does not record its start, are replaced by arbitrary calls: the code never
  makes one. The transport, the agent, the log collector and the guard of the lease are assumed
  to leave the stored builds alone.
\<close>

theorem external_calls_are_reserved:
  assumes "calm env guard"
  shows "dynamic_execute (reserved_env i stray_probe stray_agent env) i guard w = dynamic_execute env i guard w"
proof -
  have "with_locals (execute_body (reserved_env i stray_probe stray_agent env) i guard b)
      \<lparr>lc_result = initial_result b, lc_report = r\<rparr> h w = with_locals (execute_body env i guard b)
      \<lparr>lc_result = initial_result b, lc_report = r\<rparr> h w" if "look_build w i = Some b" for b r h
    using execute_body_reserved [OF assms that] by (simp add: with_locals_def)
  then show ?thesis
    unfolding dynamic_execute_def reserved_sel by (auto simp: bd_app require_build_app split: option.split)
qed


section \<open>A resumed run repeats nothing\<close>

text \<open>The calls of the run are spent: it was interrupted in one, or the evidence already decides it.\<close>

definition spent :: "build_job \<Rightarrow> bool" where
  "spent b \<longleftrightarrow>
     (let r = initial_result b in
      if mget r ''initial'' = VNull then bj_dynamic_initial_started b
      else mget (the_dict (mget r ''initial'')) ''passed'' = VBool True \<or> mget r ''retry'' \<noteq> VNull \<or>
           bj_dynamic_retry_started b \<or> bj_dynamic_debug_started b \<and> bj_dynamic_retry_payload b = None)"

lemma spent_same_run: "same_run b b' \<Longrightarrow> spent b' = spent b \<and> initial_result b' = initial_result b"
  by (simp add: same_run_def spent_def initial_result_def)

lemma spent_stages:
  assumes "spent b" and "mget (initial_result b) ''initial'' \<noteq> VNull"
  shows "after_initial (env\<lparr>dy_transport := T, dy_agent := A\<rparr>) i guard b p es (w, \<lparr>lc_result = initial_result b, lc_report = r\<rparr>) =
    after_initial env i guard b p es (w, \<lparr>lc_result = initial_result b, lc_report = r\<rparr>)"
  using assms unfolding spent_def Let_def
  by (cases "bj_dynamic_retry_payload b")
     (auto simp: after_initial_def bd_app get_locals_def Let_def andthen_app set_locals_def)

lemma spent_initial:
  assumes "spent b"
  shows "bd (initial_probe (env\<lparr>dy_transport := T, dy_agent := A\<rparr>) i guard b p es) (\<lambda>stage.
      case stage of Inl finished \<Rightarrow> ret finished
      | Inr b3 \<Rightarrow> after_initial (env\<lparr>dy_transport := T, dy_agent := A\<rparr>) i guard b3 p es)
      (w, \<lparr>lc_result = initial_result b, lc_report = r\<rparr>) =
    bd (initial_probe env i guard b p es) (\<lambda>stage.
      case stage of Inl finished \<Rightarrow> ret finished | Inr b3 \<Rightarrow> after_initial env i guard b3 p es)
      (w, \<lparr>lc_result = initial_result b, lc_report = r\<rparr>)"
proof (cases "mget (initial_result b) ''initial'' = VNull")
  case True
  then show ?thesis
    using assms by (auto simp: initial_probe_def bd_app get_locals_def spent_def Let_def split: prod.split sum.split)
next
  case False
  then show ?thesis
    by (simp add: initial_probe_def bd_app get_locals_def spent_stages [OF assms])
qed

lemma execute_body_spent:
  assumes "calm env guard" and "look_build w i = Some b" and "spent b"
  shows "execute_body (env\<lparr>dy_transport := T, dy_agent := A\<rparr>) i guard b
      (w, \<lparr>lc_result = initial_result b, lc_report = r\<rparr>) =
    execute_body env i guard b (w, \<lparr>lc_result = initial_result b, lc_report = r\<rparr>)"
proof -
  have g: "keeps same_builds_step guard" using assms by (simp add: calm_def)
  show ?thesis
    unfolding execute_body_def
  proof (rule bd_cong_step [OF refl], goal_cases)
    case (1 b2 q)
    then obtain w2 where w2: "begin_run i guard b w = (Inr b2, w2)"
      and q: "q = (w2, \<lparr>lc_result = initial_result b, lc_report = r\<rparr>)" by (auto dest: on_world_Inr)
    have b2: "spent b2" "initial_result b = initial_result b2"
      using begin_run_Inr [OF w2 g assms(2)] assms(3) spent_same_run by auto
    show ?case
      unfolding q b2(2) env_endpoints
    proof (rule bd_cong_step, goal_cases)
      case 1
      show ?case by simp
    next
      case (2 p q2)
      then have q2: "q2 = (w2, \<lparr>lc_result = initial_result b2, lc_report = r\<rparr>)" by (auto simp: on_world_def)
      show ?case
        unfolding q2
        by (rule bd_cong_step [OF refl]) (auto dest: on_world_Inr simp: spent_initial [OF b2(1)])
    qed
  qed
qed



section \<open>Every run that returns has decided the check\<close>

definition live :: "string \<Rightarrow> world \<Rightarrow> bool" where
  "live i w \<longleftrightarrow> (\<exists>b. look_build w i = Some b \<and> bj_status b \<in> {DEPLOYING, FAILED})"

abbreviation stays_live :: "string \<Rightarrow> world \<Rightarrow> world \<Rightarrow> bool" where
  "stays_live i w w' \<equiv> live i w \<longrightarrow> live i w'"

abbreviation stays_live' :: "string \<Rightarrow> world \<times> locals \<Rightarrow> world \<times> locals \<Rightarrow> bool" where
  "stays_live' i p q \<equiv> stays_live i (fst p) (fst q)"

interpretation lv: step_guarantee "stays_live i" for i
  by unfold_locales simp_all

interpretation lp: step_guarantee "stays_live' i" for i
  by unfold_locales simp_all

named_theorems live_keeps "actions under which a deploying build stays live"

lemma live_same: "keeps same_builds_step m \<Longrightarrow> keeps (stays_live i) m"
  by (simp add: keeps_def live_def look_build_def)

lemma live_on_world [live_keeps]: "keeps (stays_live i) m \<Longrightarrow> keeps (stays_live' i) (on_world m)"
  unfolding keeps_def by (auto simp: on_world_def split: prod.splits)

lemma live_locals [live_keeps]: "keeps (stays_live' i) get_locals" "keeps (stays_live' i) (set_locals f)"
  by (simp_all add: keeps_def get_locals_def set_locals_def case_prod_beta)

lemma live_update: "(\<And>b. bj_status (upd b) = bj_status b) \<Longrightarrow> keeps (stays_live i) (update_build i upd)"
  by (auto simp: keeps_def live_def update_build_def look_build_def split: option.split)

lemma live_save:
  assumes "\<And>b. bj_status (upd b) = bj_status b" and "keeps same_builds_step guard"
  shows "keeps (stays_live i) (dynamic_save i upd guard)"
  unfolding dynamic_save_def
  by (intro lv.keeps_rules live_same [OF assms(2)] live_update live_same [OF sb_utc_now]) (simp add: assms(1))

text \<open>The fields of a dynamic check that the failure of its build leaves alone.\<close>

definition same_verdict :: "build_job \<Rightarrow> build_job \<Rightarrow> bool" where
  "same_verdict b b' \<longleftrightarrow> bj_dynamic_status b' = bj_dynamic_status b \<and>
     bj_dynamic_check_passed b' = bj_dynamic_check_passed b \<and> bj_probe_result b' = bj_probe_result b \<and>
     bj_teardown_required b' = bj_teardown_required b \<and> bj_route_check_id b' = bj_route_check_id b"

lemma build_fail_live:
  assumes "look_build w i = Some b" and "bj_status b \<in> {DEPLOYING, FAILED}"
  shows "\<exists>u w'. build_fail i m f w = (Inr u, w') \<and> look_build w' i = Some u \<and> bj_status u = FAILED \<and> same_verdict b u"
proof (cases "bj_status b = FAILED")
  case True
  then show ?thesis using assms(1) by (simp add: build_fail_def bd_app require_build_app same_verdict_def)
next
  case False
  let ?u = "transitioned b FAILED (failure_fields m f) (w_clock w)"
  have dep: "bj_status b = DEPLOYING" using False assms(2) by simp
  then have allowed: "FAILED \<in> ALLOWED_BUILD_TRANSITIONS (bj_status b)" by simp
  have "same_verdict b ?u" "bj_status ?u = FAILED"
    by (simp_all add: same_verdict_def transitioned_def transition_fields_def failure_fields_def Let_def
        split: option.split)
  then show ?thesis
    using assms(1) dep build_transition_accepted [OF assms(1) allowed, of "failure_fields m f", unfolded Let_def]
    by (simp add: build_fail_def bd_app andthen_app require_build_app create_alert_def
        record_event_app uuid4_hex_app look_build_def put_build_def)
qed

lemma live_build_fail [live_keeps]: "keeps (stays_live i) (build_fail i m f)"
proof (rule keepsI, rule impI)
  fix w assume "live i w"
  then obtain b where "look_build w i = Some b" "bj_status b \<in> {DEPLOYING, FAILED}" by (auto simp: live_def)
  from build_fail_live [OF this, of m f] show "live i (snd (build_fail i m f w))" by (auto simp: live_def)
qed

text \<open>What is stored when a run has decided: passed, or failed and waiting for its teardown.\<close>

definition decided :: "string \<Rightarrow> world \<Rightarrow> build_job \<Rightarrow> bool" where
  "decided i w b \<longleftrightarrow> look_build w i = Some b \<and>
     (bj_dynamic_status b = CkSucceeded \<and> bj_dynamic_check_passed b = Some True \<or>
      bj_dynamic_status b = CkFailed \<and> bj_dynamic_check_passed b = Some False \<and>
      bj_status b = FAILED \<and> bj_teardown_required b)"

definition decides :: "string \<Rightarrow> (world \<times> locals, build_job) action \<Rightarrow> bool" where
  "decides i m \<longleftrightarrow> (\<forall>p u q. live i (fst p) \<longrightarrow> m p = (Inr u, q) \<longrightarrow> decided i (fst q) u)"

lemma finish_status [simp]: "bj_status (finish_fields ok r t b) = bj_status b"
  by (simp add: finish_fields_def Let_def)

lemma live_finish:
  assumes "keeps same_builds_step guard"
  shows "keeps (stays_live i) (dynamic_finish env i guard ok result report)"
  unfolding dynamic_finish_def
  by (intro lv.keeps_rules live_same [OF sb_require_build] live_same [OF sb_redact_report] live_same [OF sb_redact]
      live_save live_same [OF assms] live_build_fail live_same [OF sb_sync_result] assms) simp

lemma finish_stages:
  assumes "dynamic_finish env i guard ok result report w = (Inr u, w')"
  shows "\<exists>b w1 safe w2 kept w3 saved w4 w5 x. require_build i w = (Inr b, w1) \<and>
    redact_report env b [] report w1 = (Inr safe, w2) \<and> redact env b [] (VDict result) w2 = (Inr kept, w3) \<and>
    dynamic_save i (finish_fields ok kept safe) guard w3 = (Inr saved, w4) \<and>
    (if ok then ret saved
     else andthen guard (build_fail i (report_or safe default_report) (dynamic_failure i safe result))) w4 = (Inr u, w5) \<and>
    sync_result u guard w5 = (Inr x, w')"
  using assms unfolding dynamic_finish_def
  by (elim bd_InrE andthen_InrE) (simp only: ret_app prod.inject sum.inject, elim conjE, hypsubst, iprover)

lemma finish_decides:
  assumes "dynamic_finish env i guard ok result report w = (Inr u, w')"
    and "keeps same_builds_step guard" and "live i w"
  shows "decided i w' u"
proof -
  obtain b w1 safe w2 kept w3 saved w4 w5 x where stages: "require_build i w = (Inr b, w1)"
      "redact_report env b [] report w1 = (Inr safe, w2)" "redact env b [] (VDict result) w2 = (Inr kept, w3)"
    and save: "dynamic_save i (finish_fields ok kept safe) guard w3 = (Inr saved, w4)"
    and last: "(if ok then ret saved
       else andthen guard (build_fail i (report_or safe default_report) (dynamic_failure i safe result))) w4 = (Inr u, w5)"
    and sync: "sync_result u guard w5 = (Inr x, w')"
    by (insert finish_stages [OF assms(1)]) (elim exE conjE, rule that)
  have "w_builds w3 = w_builds w"
    using sb_run [OF sb_require_build stages(1)] sb_run [OF sb_redact_report stages(2)] sb_run [OF sb_redact stages(3)]
    by simp
  then obtain b1 where b1: "look_build w3 i = Some b1" "bj_status b1 \<in> {DEPLOYING, FAILED}"
    using assms(3) by (auto simp: live_def look_build_def)
  then obtain b0 now where b0: "bj_status b0 \<in> {DEPLOYING, FAILED}" "look_build w4 i = Some saved"
    "saved = (finish_fields ok kept safe b0)\<lparr>bj_updated_at := now\<rparr>"
    using dynamic_save_Inr [OF save assms(2)] by (metis option.inject)
  have "decided i w5 u"
  proof (cases ok)
    case True
    then show ?thesis using last b0(2,3) by (auto simp: decided_def finish_fields_def)
  next
    case False
    then obtain y wg where g: "guard w4 = (Inr y, wg)"
      "build_fail i (report_or safe default_report) (dynamic_failure i safe result) wg = (Inr u, w5)"
      using last by (auto elim: andthen_InrE)
    have "look_build wg i = Some saved"
      using sb_run [OF assms(2) g(1)] b0(2) by (simp add: look_build_def)
    from build_fail_live [OF this, of "report_or safe default_report" "dynamic_failure i safe result"] show ?thesis
      using g(2) b0(1,3) False by (auto simp: decided_def same_verdict_def finish_fields_def Let_def)
  qed
  then show ?thesis
    using sb_run [OF sb_sync_result [OF assms(2)] sync] by (simp add: decided_def look_build_def)
qed


lemma decides_bd: "keeps (stays_live' i) m \<Longrightarrow> (\<And>x. decides i (f x)) \<Longrightarrow> decides i (bd m f)"
  unfolding decides_def by (metis bd_InrE keepsD snd_conv)

lemma decides_andthen: "keeps (stays_live' i) m \<Longrightarrow> decides i k \<Longrightarrow> decides i (andthen m k)"
  by (simp add: andthen_def decides_bd)

lemma decides_if: "(b \<Longrightarrow> decides i m) \<Longrightarrow> (\<not> b \<Longrightarrow> decides i k) \<Longrightarrow> decides i (if b then m else k)"
  by simp

lemma decides_option:
  "decides i m \<Longrightarrow> (\<And>y. decides i (f y)) \<Longrightarrow> decides i (case x of None \<Rightarrow> m | Some y \<Rightarrow> f y)"
  by (cases x) simp_all

lemma decides_prod: "(\<And>x y. decides i (f x y)) \<Longrightarrow> decides i (case p of (x, y) \<Rightarrow> f x y)"
  by (cases p) simp

lemma decides_raise: "decides i (raise c m)"
  by (simp add: decides_def)

lemmas decides_rules = decides_bd decides_andthen decides_if decides_option decides_prod decides_raise

lemma live_finish_now [live_keeps]:
  "keeps same_builds_step guard \<Longrightarrow> keeps (stays_live' i) (finish_now env i guard ok r)"
  unfolding finish_now_def by (intro lp.keeps_rules live_keeps live_finish)

lemma finish_now_decides: "keeps same_builds_step guard \<Longrightarrow> decides i (finish_now env i guard ok r)"
  unfolding decides_def finish_now_def
  by (auto simp: get_locals_def bd_app dest!: on_world_Inr intro: finish_decides)

lemma calm_guard: "calm env guard \<Longrightarrow> keeps same_builds_step guard"
  by (simp add: calm_def)

lemma calm_calls: "calm env guard \<Longrightarrow> keeps same_builds_step (dy_collect env i)"
  "calm env guard \<Longrightarrow> keeps same_builds_step (dy_agent env r t)"
  by (simp_all add: calm_def)

lemmas run_keeps = live_keeps live_save live_same live_build_fail sb_redact sb_sync_result sb_snapshot_role
  sb_endpoints sb_claim_result sb_uuid4 sb.keeps_bd sb.keeps_ret sb.keeps_lift_res

lemma initial_probe_keeps:
  assumes "calm env guard"
  shows "keeps (stays_live' i) (initial_probe env i guard b p es)"
  unfolding initial_probe_def
  by (intro lp.keeps_rules run_keeps calm_guard [OF assms] sb_call_probe [OF assms]) simp_all

lemma retry_probe_decides:
  assumes "calm env guard"
  shows "decides i (retry_probe env i guard p es)"
  unfolding retry_probe_def
  by (intro decides_rules run_keeps calm_guard [OF assms] sb_call_probe [OF assms] finish_now_decides) simp_all

lemma ask_agent_keeps:
  assumes "calm env guard"
  shows "keeps (stays_live' i) (ask_agent env i guard b p)"
  unfolding ask_agent_def
  by (intro lp.keeps_rules run_keeps calm_guard [OF assms] calm_calls [OF assms]) simp_all

lemma diagnose_decides:
  assumes "calm env guard"
  shows "decides i (diagnose env i guard b p es)"
  unfolding diagnose_def Let_def
  by (intro decides_rules lp.keeps_rules run_keeps ask_agent_keeps [OF assms] calm_guard [OF assms]
      finish_now_decides retry_probe_decides [OF assms]) simp_all

lemma after_initial_decides:
  assumes "calm env guard"
  shows "decides i (after_initial env i guard b p es)"
  unfolding after_initial_def Let_def
  by (intro decides_rules run_keeps calm_guard [OF assms] finish_now_decides
      retry_probe_decides [OF assms] diagnose_decides [OF assms])


lemma live_begin_run:
  assumes "keeps same_builds_step guard"
  shows "keeps (stays_live i) (begin_run i guard b)"
  unfolding begin_run_def
  by (intro lv.keeps_rules live_save live_same [OF sb_uuid4] live_same [OF sb_claim_result] assms) simp_all

lemma retry_probe_keeps:
  assumes "calm env guard"
  shows "keeps (stays_live' i) (retry_probe env i guard p es)"
  unfolding retry_probe_def
  by (intro lp.keeps_rules run_keeps calm_guard [OF assms] sb_call_probe [OF assms]) simp_all

lemma diagnose_keeps:
  assumes "calm env guard"
  shows "keeps (stays_live' i) (diagnose env i guard b p es)"
  unfolding diagnose_def Let_def
  by (intro lp.keeps_rules run_keeps ask_agent_keeps [OF assms] calm_guard [OF assms] retry_probe_keeps [OF assms])
     simp_all

lemma after_initial_keeps:
  assumes "calm env guard"
  shows "keeps (stays_live' i) (after_initial env i guard b p es)"
  unfolding after_initial_def Let_def
  by (intro lp.keeps_rules run_keeps calm_guard [OF assms] retry_probe_keeps [OF assms] diagnose_keeps [OF assms])

lemma execute_body_keeps:
  assumes "calm env guard"
  shows "keeps (stays_live' i) (execute_body env i guard b)"
  unfolding execute_body_def
  by (intro lp.keeps_rules run_keeps live_begin_run calm_guard [OF assms] initial_probe_keeps [OF assms]
      after_initial_keeps [OF assms])

lemma initial_probe_decided:
  assumes "calm env guard" and "live i (fst p0)" and "initial_probe env i guard b p es p0 = (Inr (Inl u), q)"
  shows "decided i (fst q) u"
proof -
  obtain l where "bd (finish_now env i guard False (Some ''the initial probe was interrupted; delivery was stopped to avoid a repeated request''))
      (\<lambda>f. ret (Inl f)) p0 = (Inr (Inl u :: build_job + build_job), q)"
    using assms(3) unfolding initial_probe_def
    by (auto simp: get_locals_def bd_app andthen_app split: if_splits prod.splits sum.splits)
  then have "finish_now env i guard False (Some ''the initial probe was interrupted; delivery was stopped to avoid a repeated request'') p0 = (Inr u, q)"
    by (auto elim: bd_InrE)
  then show ?thesis
    using finish_now_decides [OF calm_guard [OF assms(1)]] assms(2) unfolding decides_def by blast
qed

lemma execute_body_decides:
  assumes "calm env guard"
  shows "decides i (execute_body env i guard b)"
proof -
  have stages: "decides i (bd (initial_probe env i guard b2 p es) (\<lambda>stage.
      case stage of Inl finished \<Rightarrow> ret finished | Inr b3 \<Rightarrow> after_initial env i guard b3 p es))" for b2 p es
    unfolding decides_def
  proof (intro allI impI)
    fix p0 u q
    assume live: "live i (fst p0)" and run: "bd (initial_probe env i guard b2 p es) (\<lambda>stage.
      case stage of Inl finished \<Rightarrow> ret finished | Inr b3 \<Rightarrow> after_initial env i guard b3 p es) p0 = (Inr u, q)"
    obtain stage p1 where s: "initial_probe env i guard b2 p es p0 = (Inr stage, p1)"
      and r: "(case stage of Inl finished \<Rightarrow> ret finished | Inr b3 \<Rightarrow> after_initial env i guard b3 p es) p1 = (Inr u, q)"
      using run by (rule bd_InrE)
    have live1: "live i (fst p1)"
      using keeps_run [OF initial_probe_keeps [OF assms] s] live by simp
    show "decided i (fst q) u"
    proof (cases stage)
      case (Inl f)
      then show ?thesis using initial_probe_decided [OF assms live] s r by simp
    next
      case (Inr b3)
      then show ?thesis using after_initial_decides [OF assms] r live1 unfolding decides_def by fastforce
    qed
  qed
  show ?thesis
    unfolding execute_body_def
    by (rule decides_bd [OF live_on_world [OF live_begin_run [OF calm_guard [OF assms]]]],
        rule decides_bd [OF live_on_world [OF lv.keeps_lift_res]],
        rule decides_bd [OF live_on_world [OF live_same [OF sb_endpoints]]], rule stages)
qed

lemma execute_decided:
  assumes "calm env guard" and "look_build w i = Some b" and "bj_dynamic_status b \<notin> {CkSucceeded, CkFailed}"
    and "dynamic_execute env i guard w = (Inr u, w')"
  shows "decided i w' u"
proof -
  let ?l = "\<lparr>lc_result = initial_result b, lc_report = bj_dynamic_report_text b\<rparr>"
  have dep: "bj_status b = DEPLOYING" and run: "with_locals (execute_body env i guard b) ?l
      (\<lambda>e l. if exn_class e = ResourceConflict then reraise e
             else dynamic_finish env i guard False (lc_result l) (Some (execute_failure e (lc_report l)))) w = (Inr u, w')"
    using assms(2-4) by (auto simp: dynamic_execute_def bd_app require_build_app split: if_splits)
  have live: "live i (fst (w, ?l))" using dep assms(2) by (simp add: live_def)
  obtain r w1 l1 where body: "execute_body env i guard b (w, ?l) = (r, (w1, l1))"
    by (metis surj_pair)
  show ?thesis
  proof (cases r)
    case (Inr x)
    then have "x = u" "w1 = w'" using run body by (simp_all add: with_locals_def)
    then show ?thesis
      using execute_body_decides [OF assms(1), of i b] live body Inr unfolding decides_def by fastforce
  next
    case (Inl e)
    then have fin: "dynamic_finish env i guard False (lc_result l1) (Some (execute_failure e (lc_report l1))) w1 = (Inr u, w')"
      using run body by (auto simp: with_locals_def split: if_splits)
    have "live i w1"
      using keeps_run [OF execute_body_keeps [OF assms(1)] body] live by simp
    then show ?thesis by (rule finish_decides [OF fin calm_guard [OF assms(1)]])
  qed
qed

lemma execute_stored:
  assumes "calm env guard" and "live i w" and "dynamic_execute env i guard w = (Inr u, w')"
  shows "look_build w' i = Some u"
proof -
  obtain b where b: "look_build w i = Some b" "bj_status b \<in> {DEPLOYING, FAILED}" using assms(2) by (auto simp: live_def)
  show ?thesis
  proof (cases "bj_dynamic_status b \<in> {CkSucceeded, CkFailed}")
    case False
    then show ?thesis using execute_decided [OF assms(1) b(1) _ assms(3)] by (simp add: decided_def)
  next
    case True
    then have "bd (if bj_dynamic_status b = CkFailed \<and> bj_status b = DEPLOYING
         then andthen guard (build_fail i (report_or (bj_dynamic_report_text b) default_report)
                (settled_failure i (bj_dynamic_report_text b)))
         else ret b) (\<lambda>final. andthen (sync_result final guard) (ret final)) w = (Inr u, w')"
      using assms(3) b(1) by (auto simp: dynamic_execute_def bd_app require_build_app)
    then obtain w1 x where first: "(if bj_dynamic_status b = CkFailed \<and> bj_status b = DEPLOYING
         then andthen guard (build_fail i (report_or (bj_dynamic_report_text b) default_report)
                (settled_failure i (bj_dynamic_report_text b)))
         else ret b) w = (Inr u, w1)" and sync: "sync_result u guard w1 = (Inr x, w')"
      by (elim bd_InrE andthen_InrE) auto
    have "look_build w1 i = Some u"
    proof (cases "bj_dynamic_status b = CkFailed \<and> bj_status b = DEPLOYING")
      case False
      then show ?thesis using first b(1) by (auto split: if_splits)
    next
      case True
      then obtain y wg where g: "guard w = (Inr y, wg)"
        "build_fail i (report_or (bj_dynamic_report_text b) default_report)
           (settled_failure i (bj_dynamic_report_text b)) wg = (Inr u, w1)"
        using first by (auto elim: andthen_InrE)
      have "look_build wg i = Some b"
        using sb_run [OF calm_guard [OF assms(1)] g(1)] b(1) by (simp add: look_build_def)
      from build_fail_live [OF this b(2), of "report_or (bj_dynamic_report_text b) default_report"
          "settled_failure i (bj_dynamic_report_text b)"] g(2) show ?thesis by auto
    qed
    then show ?thesis
      using sb_run [OF sb_sync_result [OF calm_guard [OF assms(1)]] sync] by (simp add: look_build_def)
  qed
qed

text \<open>
  C14: every execution that returns has decided the check. The build it returns is the stored one;
  either the check passed, or it failed, the build has ended as failed and its teardown is
  required. This includes every run in which a call or a validation raised: only the loss of the
  lease is passed on.
\<close>

theorem execution_decides:
  assumes "calm env guard" and "look_build w i = Some b" and "bj_dynamic_status b \<notin> {CkSucceeded, CkFailed}"
    and "dynamic_execute env i guard w = (Inr u, w')"
  shows "decided i w' u"
  by (rule execute_decided [OF assms])


section \<open>The retried request\<close>

text \<open>
  the request the debug agent proposes is sent only when it is an accepted request for the
  build's route that encodes the protocol, path, service, target port, descriptors, reflection
  and, above all, the assertions exactly as the original request did: the agent cannot make a
  failing route pass by changing what is asked or what is expected. It is then the merge of the
  original with the proposal.
\<close>

lemma retry_keeps_target_and_assertions:
  assumes "retry_payload pool original proposal route = Inr candidate"
  shows "\<exists>d. proposal = VDict d \<and> validate_probe_payload pool (VDict (dmerge original d)) route = Inr candidate \<and>
    (\<forall>k\<in>{''protocol'', ''path'', ''service_name'', ''target_port'', ''assertions'', ''descriptor_set_base64'', ''reflection''}.
       \<exists>text. canonical_json (mget candidate k) = Some text \<and> canonical_json (mget original k) = Some text)"
proof -
  obtain d where d: "proposal = VDict d"
    using assms by (cases proposal) (simp_all add: retry_payload_def)
  then have valid: "validate_probe_payload pool (VDict (dmerge original d)) route = Inr candidate"
    and same: "rfor PINNED_KEYS (same_encoding candidate original) = Inr ()"
    using assms by (auto simp: retry_payload_def rbind_Inr_iff)
  have "\<exists>text. canonical_json (mget candidate k) = Some text \<and> canonical_json (mget original k) = Some text"
    if "k \<in> set PINNED_KEYS" for k
  proof -
    have "same_encoding candidate original k = Inr ()" using same that by (simp add: rfor_Inr_iff)
    then show ?thesis by (auto simp: same_encoding_def split: option.splits)
  qed
  then show ?thesis using d valid by (auto simp: PINNED_KEYS_def)
qed


section \<open>Concrete runs\<close>

definition quiet_dynamic :: dynamic_env where
  "quiet_dynamic = \<lparr>dy_pool = (\<lambda>_. None), dy_transport = (\<lambda>_ _ _. ret TransportCrash), dy_public_host = None,
     dy_public_scheme = ''http'', dy_collect = (\<lambda>_. ret []), dy_agent = (\<lambda>_ _. ret VNull),
     dy_decrypt = (\<lambda>_. Inr []), dy_dispatch = (\<lambda>_ _. ret ()), dy_cleanup = quiet_cleanup_env\<rparr>"

lemma quiet_calm: "calm quiet_dynamic (ret ())"
  by (simp add: calm_def quiet_dynamic_def sb.keeps_ret)

definition deploying_build :: build_job where
  "deploying_build = (sample_build DEPLOYING)\<lparr>bj_dynamic_status := CkRunning, bj_dynamic_initial_started := True\<rparr>"

lemma deploying_spent: "look_build (sample_world deploying_build) ''b1'' = Some deploying_build"
  "spent deploying_build" "bj_status deploying_build = DEPLOYING" "bj_dynamic_status deploying_build \<notin> {CkSucceeded, CkFailed}"
  by (simp_all add: look_build_def sample_world_def spent_def initial_result_def deploying_build_def
      sample_build_def new_build_job_def mget_def)

lemma finish_returns:
  assumes "look_build w i = Some b" and "bj_status b = DEPLOYING" and "bj_route_check_id b = None"
  shows "\<exists>u w'. dynamic_finish env i (ret ()) False result report w = (Inr u, w')"
proof -
  obtain safe where safe: "redact_report env b [] report w = (Inr safe, w)"
    by (cases "str_or report None") (auto simp: redact_report_def redact_def bd_app)
  obtain kept where kept: "redact env b [] (VDict result) w = (Inr kept, w)"
    by (simp add: redact_def)
  let ?b = "(finish_fields False kept safe b)\<lparr>bj_updated_at := w_clock w\<rparr>"
  obtain w1 where save: "dynamic_save i (finish_fields False kept safe) (ret ()) w = (Inr ?b, w1)" "look_build w1 i = Some ?b"
    using assms(1) by (auto simp: dynamic_save_def andthen_app bd_app update_build_def look_build_def utc_now_def)
  obtain u w2 where "build_fail i (report_or safe default_report) (dynamic_failure i safe result) w1 = (Inr u, w2)"
    "same_verdict ?b u"
    using build_fail_live [OF save(2)] assms(2) by fastforce
  then show ?thesis
    using assms(1,3) safe kept save
    by (simp add: dynamic_finish_def bd_app andthen_app require_build_app sync_result_def str_or_def same_verdict_def
        finish_fields_def)
qed

theorem execution_decides_witness:
  "\<exists>u w'. dynamic_execute quiet_dynamic ''b1'' (ret ()) (sample_world deploying_build) = (Inr u, w') \<and>
     decided ''b1'' w' u"
proof -
  let ?w = "sample_world deploying_build"
  have body: "\<exists>w1. execute_body quiet_dynamic ''b1'' (ret ()) deploying_build (?w, l0) =
      (Inl (Exn RouteCheckInputError ''The frozen static check is unavailable or superseded''), (w1, l0)) \<and>
      (\<exists>r. look_build w1 ''b1'' = Some (deploying_build\<lparr>bj_dynamic_run_id := Some r, bj_updated_at := 7\<rparr>))" for l0
    by (simp add: execute_body_def begin_run_def bd_app andthen_app on_world_def truthy_text_def deploying_build_def
        sample_build_def new_build_job_def uuid4_hex_app dynamic_save_def update_build_def sample_world_def
        claim_result_def superseded_def str_or_def look_build_def empty_world_def utc_now_def)
  obtain w1 r where w1: "execute_body quiet_dynamic ''b1'' (ret ()) deploying_build
      (?w, \<lparr>lc_result = initial_result deploying_build, lc_report = bj_dynamic_report_text deploying_build\<rparr>) =
      (Inl (Exn RouteCheckInputError ''The frozen static check is unavailable or superseded''),
       (w1, \<lparr>lc_result = initial_result deploying_build, lc_report = bj_dynamic_report_text deploying_build\<rparr>))"
    and look: "look_build w1 ''b1'' = Some (deploying_build\<lparr>bj_dynamic_run_id := Some r, bj_updated_at := 7\<rparr>)"
    using body by blast
  obtain u w' where fin: "dynamic_finish quiet_dynamic ''b1'' (ret ()) False (initial_result deploying_build)
      (Some (execute_failure (Exn RouteCheckInputError ''The frozen static check is unavailable or superseded'')
        (bj_dynamic_report_text deploying_build))) w1 = (Inr u, w')"
    using finish_returns [OF look] by (fastforce simp: deploying_build_def sample_build_def new_build_job_def)
  have run: "dynamic_execute quiet_dynamic ''b1'' (ret ()) ?w = (Inr u, w')"
    using w1 fin deploying_spent by (simp add: dynamic_execute_def bd_app require_build_app with_locals_def)
  from execution_decides [OF quiet_calm deploying_spent(1,4) run] this show ?thesis by blast
qed

theorem external_calls_are_reserved_witness:
  "dynamic_execute (reserved_env ''b1'' (\<lambda>_ _ _. raise OtherError ''boom'') (\<lambda>_ _. raise OtherError ''boom'')
      quiet_dynamic) ''b1'' (ret ()) (sample_world deploying_build) =
    dynamic_execute quiet_dynamic ''b1'' (ret ()) (sample_world deploying_build)"
  by (rule external_calls_are_reserved [OF quiet_calm])


definition sample_original :: mapping where
  "sample_original = [(VStr ''method'', VStr ''GET''), (VStr ''query_params'', VDict []), (VStr ''body'', VNull),
     (VStr ''assertions'', VDict [(VStr ''expected_status_list'', VList [VInt 200])]),
     (VStr ''protocol'', VStr ''http''), (VStr ''headers'', VDict [])]"

definition sample_proposal :: "value" where
  "sample_proposal = VDict [(VStr ''method'', VStr ''HEAD'')]"

lemma sample_candidate:
  "validate_probe_payload (\<lambda>_. None) (VDict (dmerge sample_original (the_dict sample_proposal))) (Some ''/up'') =
     Inr (dset sample_original (VStr ''method'') (VStr ''HEAD''))"
  by code_simp

lemma same_encoding_same: "mget c k = mget original k \<Longrightarrow> canonical_json (mget original k) \<noteq> None \<Longrightarrow> same_encoding c original k = Inr ()"
  by (auto simp: same_encoding_def)

lemma sample_pinned:
  "list_all (\<lambda>k. mget (dset sample_original (VStr ''method'') (VStr ''HEAD'')) k = mget sample_original k \<and>
     canonical_json (mget sample_original k) \<noteq> None) PINNED_KEYS"
  by code_simp

lemma sample_retry: "retry_payload (\<lambda>_. None) sample_original sample_proposal (Some ''/up'') =
    Inr (dset sample_original (VStr ''method'') (VStr ''HEAD''))"
proof -
  have "rfor PINNED_KEYS (same_encoding (dset sample_original (VStr ''method'') (VStr ''HEAD'')) sample_original) = Inr ()"
    using sample_pinned by (auto simp: rfor_Inr_iff list_all_iff intro!: same_encoding_same)
  moreover have "is_mapping sample_proposal" by (simp add: sample_proposal_def)
  ultimately show ?thesis
    by (simp only: retry_payload_def sample_candidate rbind_simps if_False not_True_eq_False)
qed

end
