(* ===== verification/Applications.thy ===== *)
theory Applications
  imports RouteChecks DynamicSafety
begin

text \<open>
  \<open>orchestrator/services.py\<close>: \<open>ApplicationService\<close>, and \<open>BuildService.queue_build\<close>, which
  admits a build, freezes its inputs and hands it to the workers. Encryption, GitLab, the
  workspace on disk and the broker are parameters. The records pydantic validates are taken as
  validated; \<open>UserAppRecord.model_validate\<close> in \<open>update_app\<close> refuses a required field that is set
  to null, and that is represented.
\<close>

section \<open>Environment\<close>

record repository_ref =
  rr_commit_sha :: string
  rr_project :: "value"

record compose_document =
  cd_path :: string
  cd_compose :: mapping
  cd_commit_sha :: string

record gitlab_api =
  gl_validate_ref :: "string \<Rightarrow> string \<Rightarrow> (world, repository_ref) action"
  gl_discover :: "repository_ref \<Rightarrow> (world, compose_document) action"

text \<open>\<open>snapshot\<close> gives the fields it froze: the snapshot's name, file count and digest.\<close>

record workspace_api =
  ws_ensure_app :: "string \<Rightarrow> (world, unit) action"
  ws_snapshot_path :: "string \<Rightarrow> string \<Rightarrow> string res"
  ws_snapshot :: "string \<Rightarrow> string \<Rightarrow> (world, string \<times> int \<times> string) action"

record route_api =
  rt_resolve :: ref_resolver
  rt_dispatch :: static_dispatcher

record app_env =
  ae_encrypt :: "(string, string) dict \<Rightarrow> (world, string) action"
  ae_decrypt :: "string \<Rightarrow> (string, string) dict res"
  ae_gitlab :: "gitlab_api option"
  ae_workspace :: "workspace_api option"
  ae_routes :: "route_api option"
  ae_dispatch_build :: "string \<Rightarrow> (world, string) action"

section \<open>Applications\<close>

record app_create =
  ac_appid :: string
  ac_name :: string
  ac_repository_url :: string
  ac_git_ref :: string
  ac_environment :: "(string, string) dict"
  ac_compose :: "mapping option"
  ac_components :: "string list"
  ac_require_route :: "string option"

text \<open>A field of a partial update: absent, or present with a value that may be null.\<close>

datatype 'a patch = Absent | Given "'a option"

record app_update =
  au_name :: "string patch"
  au_repository_url :: "string patch"
  au_git_ref :: "string patch"
  au_environment :: "(string, string) dict patch"
  au_compose :: "mapping patch"
  au_components :: "string list patch"
  au_require_route :: "string patch"

definition given :: "'a patch \<Rightarrow> bool" where
  "given p \<longleftrightarrow> p \<noteq> Absent"

definition null_given :: "'a patch \<Rightarrow> bool" where
  "null_given p \<longleftrightarrow> p = Given None"

definition patched :: "'a patch \<Rightarrow> 'a \<Rightarrow> 'a" where
  "patched p x = (case p of Given (Some y) \<Rightarrow> y | _ \<Rightarrow> x)"

definition patched_option :: "'a patch \<Rightarrow> 'a option \<Rightarrow> 'a option" where
  "patched_option p x = (case p of Given y \<Rightarrow> y | Absent \<Rightarrow> x)"

text \<open>\<open>UserApp.from_record\<close>: everything but the encrypted environment.\<close>

record public_app =
  pa_appid :: string
  pa_name :: string
  pa_repository_url :: string
  pa_git_ref :: string
  pa_environment_keys :: "string list"
  pa_compose :: "value option"
  pa_compose_source_file :: "string option"
  pa_compose_source_commit :: "string option"
  pa_components :: "string list"
  pa_require_route :: "string option"
  pa_created_at :: instant
  pa_updated_at :: instant

definition public :: "user_app \<Rightarrow> public_app" where
  "public a = \<lparr>pa_appid = ap_appid a, pa_name = ap_name a, pa_repository_url = ap_repository_url a,
     pa_git_ref = ap_git_ref a, pa_environment_keys = ap_environment_keys a, pa_compose = ap_compose a,
     pa_compose_source_file = ap_compose_source_file a, pa_compose_source_commit = ap_compose_source_commit a,
     pa_components = ap_components a, pa_require_route = ap_require_route a,
     pa_created_at = ap_created_at a, pa_updated_at = ap_updated_at a\<rparr>"

definition not_configured :: "(world, 'a) action" where
  "not_configured = raise BuildInputError ''Route check service is not configured''"

text \<open>The Compose document GitLab holds, when the request brings none.\<close>

definition discover_source ::
  "app_env \<Rightarrow> app_create \<Rightarrow> (world, (repository_ref \<times> compose_document) option) action" where
  "discover_source env r =
     (case (ac_compose r, ae_gitlab env) of
        (None, Some gl) \<Rightarrow>
          if ac_repository_url r = [] then ret None
          else
            bd (gl_validate_ref gl (ac_repository_url r) (ac_git_ref r)) (\<lambda>resolved.
            bd (gl_discover gl resolved) (\<lambda>found. ret (Some (resolved, found))))
      | _ \<Rightarrow> ret None)"

definition new_app :: "app_create \<Rightarrow> (repository_ref \<times> compose_document) option \<Rightarrow> string \<Rightarrow> instant \<Rightarrow> user_app" where
  "new_app r found cipher now = \<lparr>ap_appid = ac_appid r, ap_name = ac_name r, ap_repository_url = ac_repository_url r,
     ap_git_ref = ac_git_ref r, ap_environment_ciphertext = cipher,
     ap_environment_keys = sort (keys (ac_environment r)),
     ap_compose = (case found of Some (_, d) \<Rightarrow> Some (VDict (cd_compose d)) | None \<Rightarrow> map_option VDict (ac_compose r)),
     ap_compose_source_file = map_option (cd_path \<circ> snd) found,
     ap_compose_source_commit = map_option (cd_commit_sha \<circ> snd) found,
     ap_components = ac_components r, ap_require_route = ac_require_route r,
     ap_created_at = now, ap_updated_at = now\<rparr>"

text \<open>The commit the first static check is made for: that of the discovery, or the one resolved now.\<close>

definition initial_commit ::
  "app_env \<Rightarrow> user_app \<Rightarrow> (repository_ref \<times> compose_document) option \<Rightarrow> (world, string option) action" where
  "initial_commit env app found =
     (if str_or (ap_require_route app) None = None then ret None
      else
        (case ae_routes env of
           None \<Rightarrow> not_configured
         | Some rt \<Rightarrow>
             (case found of
                Some (resolved, d) \<Rightarrow>
                  if cd_commit_sha d \<noteq> [] then ret (Some (rr_commit_sha resolved))
                  else bd (resolve_commit (rt_resolve rt) app None) (\<lambda>c. ret (Some c))
              | None \<Rightarrow> bd (resolve_commit (rt_resolve rt) app None) (\<lambda>c. ret (Some c)))))"

definition schedule_if_routed :: "app_env \<Rightarrow> user_app \<Rightarrow> string option \<Rightarrow> (world, unit) action" where
  "schedule_if_routed env app commit =
     (if str_or (ap_require_route app) None = None then ret ()
      else
        (case ae_routes env of
           None \<Rightarrow> not_configured
         | Some rt \<Rightarrow> bd (schedule_for_app (rt_resolve rt) (rt_dispatch rt) app commit) (\<lambda>_. ret ())))"

definition create_application :: "app_env \<Rightarrow> app_create \<Rightarrow> (world, public_app) action" where
  "create_application env r =
     bd utc_now (\<lambda>now.
     bd (discover_source env r) (\<lambda>found.
     bd (ae_encrypt env (ac_environment r)) (\<lambda>cipher.
     let app = new_app r found cipher now in
     andthen (case ae_workspace env of Some ws \<Rightarrow> ws_ensure_app ws (ac_appid r) | None \<Rightarrow> ret ())
     (bd (initial_commit env app found) (\<lambda>commit.
      bd (create_app app) (\<lambda>saved.
      andthen (schedule_if_routed env saved commit) (ret (public saved))))))))"

definition get_record :: "string \<Rightarrow> (world, user_app) action" where
  "get_record appid =
     bd (get_app appid) (\<lambda>a. case a of None \<Rightarrow> raise NotFoundError ''App not found'' | Some app \<Rightarrow> ret app)"

definition get_application :: "string \<Rightarrow> (world, public_app) action" where
  "get_application appid = bd (get_record appid) (\<lambda>a. ret (public a))"

definition list_applications :: "(world, public_app list) action" where
  "list_applications = bd list_apps (\<lambda>apps. ret (map public apps))"

definition get_environment :: "app_env \<Rightarrow> string \<Rightarrow> (world, (string, string) dict) action" where
  "get_environment env appid = bd (get_record appid) (\<lambda>a. lift_res (ae_decrypt env (ap_environment_ciphertext a)))"

text \<open>The encrypted environment and its names, when the update brings one.\<close>

definition sealed_environment ::
  "app_env \<Rightarrow> app_update \<Rightarrow> (world, (string \<times> string list) option) action" where
  "sealed_environment env u =
     (case au_environment u of
        Given (Some e) \<Rightarrow> bd (ae_encrypt env e) (\<lambda>c. ret (Some (c, sort (keys e))))
      | _ \<Rightarrow> ret None)"

definition source_edited :: "app_update \<Rightarrow> bool" where
  "source_edited u \<longleftrightarrow> given (au_compose u) \<or> given (au_repository_url u) \<or> given (au_git_ref u)"

definition update_fields :: "app_update \<Rightarrow> (string \<times> string list) option \<Rightarrow> instant \<Rightarrow> user_app \<Rightarrow> user_app" where
  "update_fields u sealed now a =
     (let a1 = a\<lparr>ap_name := patched (au_name u) (ap_name a),
               ap_repository_url := patched (au_repository_url u) (ap_repository_url a),
               ap_git_ref := patched (au_git_ref u) (ap_git_ref a),
               ap_components := patched (au_components u) (ap_components a),
               ap_compose := patched_option
                 (case au_compose u of Given c \<Rightarrow> Given (map_option VDict c) | Absent \<Rightarrow> Absent) (ap_compose a),
               ap_require_route := patched_option (au_require_route u) (ap_require_route a),
               ap_updated_at := now\<rparr>;
          a2 = (case sealed of Some (c, ks) \<Rightarrow> a1\<lparr>ap_environment_ciphertext := c, ap_environment_keys := ks\<rparr>
                | None \<Rightarrow> a1)
      in if source_edited u then a2\<lparr>ap_compose_source_file := None, ap_compose_source_commit := None\<rparr> else a2)"

definition null_required :: "app_update \<Rightarrow> bool" where
  "null_required u \<longleftrightarrow> null_given (au_name u) \<or> null_given (au_repository_url u) \<or> null_given (au_git_ref u)
     \<or> null_given (au_components u)"

definition update_application :: "app_env \<Rightarrow> string \<Rightarrow> app_update \<Rightarrow> (world, public_app) action" where
  "update_application env appid u =
     bd (get_record appid) (\<lambda>current.
     bd (sealed_environment env u) (\<lambda>sealed.
     bd utc_now (\<lambda>now.
     if null_required u then raise ValueError ''validation error for UserAppRecord''
     else
       bd (initial_commit env (update_fields u sealed now current) None) (\<lambda>commit.
       bd (update_app appid (None, update_fields u sealed now)) (\<lambda>updated.
       case updated of
         None \<Rightarrow> raise NotFoundError ''App not found''
       | Some app \<Rightarrow> andthen (schedule_if_routed env app commit) (ret (public app)))))))"

text \<open>\<open>GitLabUnavailableError\<close> derives from no other class of the sources.\<close>

definition sync_application ::
  "app_env \<Rightarrow> string \<Rightarrow> (world, user_app \<times> repository_ref \<times> compose_document \<times> bool \<times> string option) action" where
  "sync_application env appid =
     bd (get_record appid) (\<lambda>app.
     case ae_gitlab env of
       None \<Rightarrow> raise OtherError ''GitLab integration is not configured''
     | Some gl \<Rightarrow>
         bd (gl_validate_ref gl (ap_repository_url app) (ap_git_ref app)) (\<lambda>resolved.
         bd (gl_discover gl resolved) (\<lambda>found.
         let compose = VDict (cd_compose found);
             changed = (case ap_compose app of Some c \<Rightarrow> \<not> py_eq c compose | None \<Rightarrow> True) in
         bd utc_now (\<lambda>now.
         bd (update_app appid (None, \<lambda>a. a\<lparr>ap_compose := Some compose, ap_compose_source_file := Some (cd_path found),
               ap_compose_source_commit := Some (cd_commit_sha found), ap_updated_at := now\<rparr>)) (\<lambda>updated.
         case updated of
           None \<Rightarrow> raise NotFoundError ''App not found''
         | Some saved \<Rightarrow>
             andthen (schedule_if_routed env saved (Some (rr_commit_sha resolved)))
               (ret (saved, resolved, found, changed, ap_compose_source_commit app)))))))"

section \<open>Queueing a build\<close>

definition compose_required :: "string" where
  "compose_required =
     ''A user-provided Docker Compose document with services is required before creating a build''"

definition has_services :: "value option \<Rightarrow> bool" where
  "has_services compose \<longleftrightarrow>
     (case compose of
        Some (VDict d) \<Rightarrow>
          (case mget d ''services'' of
             VDict services \<Rightarrow> services \<noteq> [] \<and> list_all (\<lambda>(k, v). is_str k \<and> is_mapping v) services
           | _ \<Rightarrow> False)
      | _ \<Rightarrow> False)"

text \<open>The gate, with the message its refusal is given.\<close>

definition admit :: "route_api \<Rightarrow> user_app \<Rightarrow> string option \<Rightarrow> (world, string \<times> route_check) action" where
  "admit rt app git_ref =
     catching
       (bd (resolve_commit (rt_resolve rt) app git_ref) (\<lambda>commit.
        bd (require_static_pass app commit None) (\<lambda>checked. ret (commit, checked))))
       (\<lambda>e. if exn_class e = RouteCheckInputError then raise BuildInputError (exn_msg e) else reraise e)"

definition frozen_build ::
  "string \<Rightarrow> string \<Rightarrow> user_app \<Rightarrow> string option \<Rightarrow> string \<Rightarrow> route_check \<Rightarrow> agent_role \<Rightarrow> instant \<Rightarrow> build_job" where
  "frozen_build build_id appid app git_ref commit checked role now =
     (new_build_job build_id appid
        (case str_or git_ref None of Some r \<Rightarrow> r | None \<Rightarrow> ap_git_ref app) now)\<lparr>
       bj_stage := Some ''queued'', bj_stage_history := [''queued''], bj_git_commit_sha := Some commit,
       bj_compose_snapshot := ap_compose app, bj_inputs_ready := False,
       bj_route_check_id := Some (rc_check_id checked), bj_route_check_generation := Some (rc_generation checked),
       bj_require_route_snapshot := Some (rc_require_route checked),
       bj_static_agent_role_version := Some (rc_static_agent_role_version checked),
       bj_dynamic_agent_role_version := Some (ar_version role),
       bj_route_probe_payload := rc_probe_payload checked, bj_route_dynamic_role_snapshot := Some role,
       bj_static_check_passed := Some True\<rparr>"

definition precheck_failure :: "string \<Rightarrow> string \<Rightarrow> failure" where
  "precheck_failure build_id summary = no_detail\<lparr>
     fl_failure_site := Some ''precheck'',
     fl_error_detail := Some [(VStr ''failure_site'', VStr ''precheck''), (VStr ''summary'', VStr summary),
       (VStr ''recognized'', VBool True), (VStr ''build_id'', VStr build_id)]\<rparr>"

definition snapshot_workspace :: "workspace_api \<Rightarrow> string \<Rightarrow> string \<Rightarrow> tracker \<Rightarrow> (world, unit) action" where
  "snapshot_workspace ws appid build_id t =
     bd (lift_res (ws_snapshot_path ws appid build_id)) (\<lambda>path.
     bd (tracker_record t KWorkspace path ''workspace'' None Planned True [] None) (\<lambda>_.
     bd (catching (ws_snapshot ws appid build_id)
          (\<lambda>e. if exn_class e = WorkspaceError
                then andthen (tracker_guard t)
                  (bd (build_fail build_id (exn_msg e) (precheck_failure build_id (exn_msg e))) (\<lambda>_.
                   raise BuildInputError (exn_msg e)))
                else reraise e)) (\<lambda>(name, count, digest).
     andthen (tracker_guard t)
     (bd (update_build build_id (\<lambda>b. b\<lparr>bj_workspace_snapshot := Some name, bj_workspace_file_count := count,
            bj_workspace_archive_sha256 := Some digest\<rparr>)) (\<lambda>_.
      bd (tracker_record t KWorkspace path ''workspace'' None Present True [] None) (\<lambda>_. ret ()))))))"

definition prepare_inputs :: "app_env \<Rightarrow> build_job \<Rightarrow> tracker option \<Rightarrow> (world, build_job) action" where
  "prepare_inputs env b tracker =
     (case tracker of
        None \<Rightarrow> raise BuildInputError ''Build input snapshot preparation is already owned by another operation''
      | Some t \<Rightarrow>
          andthen (case ae_workspace env of
                     Some ws \<Rightarrow> snapshot_workspace ws (bj_appid b) (bj_build_id b) t | None \<Rightarrow> ret ())
          (andthen (tracker_guard t)
          (bd utc_now (\<lambda>now.
           bd (update_build (bj_build_id b) (\<lambda>x. x\<lparr>bj_inputs_ready := True, bj_updated_at := now\<rparr>)) (\<lambda>updated.
           let final = (case updated of Some x \<Rightarrow> x | None \<Rightarrow> b) in
           if \<not> bj_inputs_ready final then raise BuildInputError ''Unable to persist the completed build input snapshot''
           else ret final)))))"

definition send_to_workers :: "app_env \<Rightarrow> string \<Rightarrow> (world, string) action" where
  "send_to_workers env build_id =
     catching (ae_dispatch_build env build_id)
       (\<lambda>e. bd (build_fail build_id ''Unable to enqueue build task''
                  (precheck_failure build_id ''Unable to enqueue build task'')) (\<lambda>_.
              raise BuildInputError ''Unable to enqueue build task''))"

definition build_manifest :: "build_job \<Rightarrow> user_app \<Rightarrow> string \<Rightarrow> instant \<Rightarrow> build_resources" where
  "build_manifest b app namespace now = (new_build_resources (bj_build_id b) (bj_appid b) 1 now)\<lparr>
     br_namespace := Some namespace, br_repository_url := Some (ap_repository_url app),
     br_environment_ciphertext := Some (ap_environment_ciphertext app)\<rparr>"

text \<open>From the admission on: the build is stored, its inputs are frozen, and the workers are told.\<close>

definition queue_admitted ::
  "app_env \<Rightarrow> string \<Rightarrow> user_app \<Rightarrow> string option \<Rightarrow> string \<times> route_check \<Rightarrow> (world, build_job) action" where
  "queue_admitted env appid app git_ref admitted =
     bd (require_role DynamicRole) (\<lambda>role.
     bd uuid4_hex (\<lambda>build_id.
     bd utc_now (\<lambda>now.
     bd (create_build (frozen_build build_id appid app git_ref (fst admitted) (snd admitted) role now)) (\<lambda>b.
     bd (lift_res (build_namespace appid build_id)) (\<lambda>namespace.
     bd (ensure_build_resources (build_manifest b app namespace now)) (\<lambda>_.
     bd (build_lease build_id [NotStarted] 120 (prepare_inputs env b)) (\<lambda>_.
     andthen (record_event appid (Some build_id) ''build.queued'' ''Build queued'' INFO [])
     (bd (send_to_workers env build_id) (\<lambda>task_id.
      bd utc_now (\<lambda>later.
      bd (update_build build_id (\<lambda>x. x\<lparr>bj_celery_task_id := Some task_id, bj_updated_at := later\<rparr>)) (\<lambda>updated.
      case updated of
        None \<Rightarrow> raise NotFoundError ''Build not found after queueing''
      | Some final \<Rightarrow>
          andthen (record_event appid (Some build_id) ''build.dispatched'' ''Build task dispatched'' INFO
                     [(VStr ''task_id'', VStr task_id)])
            (ret final))))))))))))"

definition queue_build :: "app_env \<Rightarrow> string \<Rightarrow> string option \<Rightarrow> (world, build_job) action" where
  "queue_build env appid git_ref =
     bd (get_record appid) (\<lambda>app.
     if \<not> has_services (ap_compose app) then raise BuildInputError compose_required
     else
       (case (str_or (ap_require_route app) None, ae_routes env) of
          (Some _, Some rt) \<Rightarrow> bd (admit rt app git_ref) (queue_admitted env appid app git_ref)
        | _ \<Rightarrow> raise BuildInputError BUILD_GATE_ERROR))"

section \<open>What a queued build relies on\<close>

text \<open>An action that returns is related to its start; what it does when it raises does not matter.\<close>

definition returns :: "('w \<Rightarrow> 'w \<Rightarrow> bool) \<Rightarrow> ('w, 'a) action \<Rightarrow> bool" where
  "returns R m \<longleftrightarrow> (\<forall>w x w'. m w = (Inr x, w') \<longrightarrow> R w w')"

lemma returns_run: "returns R m \<Longrightarrow> m w = (Inr x, w') \<Longrightarrow> R w w'"
  by (simp add: returns_def)

lemma returns_keeps: "keeps R m \<Longrightarrow> returns R m"
  by (simp add: returns_def keeps_run)

locale returning = step_guarantee R for R :: "'w \<Rightarrow> 'w \<Rightarrow> bool"
begin

lemma returns_bd: "returns R m \<Longrightarrow> (\<And>x. returns R (f x)) \<Longrightarrow> returns R (bd m f)"
  unfolding returns_def by (blast elim: bd_InrE intro: R_trans)

lemma returns_andthen: "returns R m \<Longrightarrow> returns R k \<Longrightarrow> returns R (andthen m k)"
  unfolding andthen_def by (rule returns_bd)

lemma returns_catching:
  assumes "returns R m" "\<And>e w. \<exists>e' w'. h e w = (Inl e', w')"
  shows "returns R (catching m h)"
  unfolding returns_def
proof (intro allI impI)
  fix w x w'
  assume run: "catching m h w = (Inr x, w')"
  obtain r w1 where m: "m w = (r, w1)" by (cases "m w")
  show "R w w'"
  proof (cases r)
    case (Inl e)
    obtain e' w2 where "h e w1 = (Inl e', w2)" using assms(2) by blast
    then show ?thesis using run m Inl by (simp add: catching_app)
  next
    case (Inr y)
    then show ?thesis using run m assms(1) by (simp add: catching_app returns_run)
  qed
qed

lemma returns_finally:
  assumes "returns R m" "keeps R c"
  shows "returns R (finally_do m c)"
  unfolding returns_def
proof (intro allI impI)
  fix w x w'
  assume run: "finally_do m c w = (Inr x, w')"
  obtain r w1 where m: "m w = (r, w1)" by (cases "m w")
  obtain r' w2 where c: "c w1 = (r', w2)" by (cases "c w1")
  have "r = Inr x" "w2 = w'" using run m c by (auto simp: finally_do_app split: sum.splits)
  then show "R w w'" using R_trans returns_run [OF assms(1)] keeps_run [OF assms(2)] m c by blast
qed

lemma returns_raise: "returns R (raise c m)"
  by (simp add: returns_def)

lemma returns_if: "(b \<Longrightarrow> returns R m) \<Longrightarrow> (\<not> b \<Longrightarrow> returns R k) \<Longrightarrow> returns R (if b then m else k)"
  by simp

lemma returns_case_option:
  "(x = None \<Longrightarrow> returns R m) \<Longrightarrow> (\<And>y. x = Some y \<Longrightarrow> returns R (f y)) \<Longrightarrow>
   returns R (case x of None \<Rightarrow> m | Some y \<Rightarrow> f y)"
  by (cases x) simp_all

lemma returns_case_prod: "(\<And>a b. returns R (f a b)) \<Longrightarrow> returns R (case p of (a, b) \<Rightarrow> f a b)"
  by (cases p) simp

lemma returns_ret: "returns R (ret x)" by (rule returns_keeps) (rule keeps_ret)
lemma returns_lift_res: "returns R (lift_res r)" by (rule returns_keeps) (rule keeps_lift_res)

lemmas returns_rules = returns_bd returns_andthen returns_finally returns_raise returns_if
  returns_case_option returns_case_prod returns_ret returns_lift_res

end

text \<open>The tables the gate reads.\<close>

definition same_gate :: "world \<Rightarrow> world \<Rightarrow> bool" where
  "same_gate w w' \<longleftrightarrow> w_apps w' = w_apps w \<and> w_agent_roles w' = w_agent_roles w \<and> w_route_checks w' = w_route_checks w"

definition gate_fields :: "build_job \<Rightarrow> (string \<times> string \<times> build_status) \<times> string option list \<times> int option list
    \<times> bool option \<times> value option" where
  "gate_fields b = ((bj_build_id b, bj_appid b, bj_status b),
     [bj_git_commit_sha b, bj_route_check_id b, bj_require_route_snapshot b],
     [bj_route_check_generation b, bj_static_agent_role_version b],
     bj_static_check_passed b, bj_compose_snapshot b)"

definition same_fields :: "build_job \<Rightarrow> build_job \<Rightarrow> bool" where
  "same_fields b b' \<longleftrightarrow> gate_fields b' = gate_fields b \<and> (bj_inputs_ready b \<longrightarrow> bj_inputs_ready b')"

interpretation gh: document_history look_build put_build same_fields
  by unfold_locales (simp_all add: same_fields_def)

definition frozen_step :: "world \<Rightarrow> world \<Rightarrow> bool" where
  "frozen_step w w' \<longleftrightarrow> same_gate w w' \<and> evolves look_build same_fields w w'"

interpretation fz: returning frozen_step
  by unfold_locales (auto simp: frozen_step_def same_gate_def intro: gh.evolves_refl gh.evolves_trans)

named_theorems frozen_keeps "actions that leave the gate and the frozen fields alone"

lemma frozen_other:
  assumes "\<And>w. w_apps (snd (m w)) = w_apps w" "\<And>w. w_agent_roles (snd (m w)) = w_agent_roles w"
    "\<And>w. w_route_checks (snd (m w)) = w_route_checks w" "\<And>w. w_builds (snd (m w)) = w_builds w"
  shows "keeps frozen_step m"
  unfolding keeps_def frozen_step_def same_gate_def
  by (intro allI conjI assms gh.evolves_unchanged same_builds)

lemma frozen_utc_now [frozen_keeps]: "keeps frozen_step utc_now"
  by (rule frozen_other) simp_all

lemma frozen_uuid4 [frozen_keeps]: "keeps frozen_step uuid4_hex"
  by (rule frozen_other) (simp_all add: uuid4_hex_app)

lemma frozen_event [frozen_keeps]: "keeps frozen_step (record_event a b k m l d)"
  by (rule frozen_other) (simp_all add: record_event_app)

lemma frozen_guard [frozen_keeps]: "keeps frozen_step (tracker_guard t)"
  by (rule frozen_other) simp_all

lemma frozen_get_resources [frozen_keeps]: "keeps frozen_step (get_build_resources i)"
  by (rule frozen_other) (simp_all add: get_build_resources_def)

lemma frozen_put_resource [frozen_keeps]: "keeps frozen_step (put_build_resource k r own)"
  by (rule frozen_other)
    (simp_all add: put_build_resource_def andthen_app put_resources_doc_def Let_def split: option.split sum.split)

lemma frozen_record [frozen_keeps]: "keeps frozen_step (tracker_record t k n tg i s m d e)"
  unfolding tracker_record_def by (intro fz.keeps_rules frozen_keeps)

lemma frozen_ensure [frozen_keeps]: "keeps frozen_step (ensure_build_resources r)"
  by (rule frozen_other) (simp_all add: ensure_build_resources_def Let_def)

lemma frozen_release [frozen_keeps]: "keeps frozen_step (release_build_lease k own)"
  by (rule frozen_other) (simp_all add: release_build_lease_def put_resources_doc_def split: option.split)

lemma frozen_claim [frozen_keeps]: "keeps frozen_step (claim_build_lease k own until ss)"
  by (rule frozen_other) (simp_all add: claim_build_lease_def put_resources_doc_def Let_def split: option.split)

lemma frozen_update [frozen_keeps]:
  assumes "\<And>b. same_fields b (f b)"
  shows "keeps frozen_step (update_build i f)"
proof (rule keepsI)
  fix w
  have "evolves look_build same_fields w (snd (update_build i f w))"
    using gh.keeps_cas [of "\<lambda>_. True" f i] assms unfolding update_build_cas by (auto dest: keepsD)
  moreover have "same_gate w (snd (update_build i f w))"
    by (simp add: update_build_def same_gate_def split: option.split)
  ultimately show "frozen_step w (snd (update_build i f w))" by (simp add: frozen_step_def)
qed

text \<open>The clients leave applications, builds, roles and checks alone. Time may pass.\<close>

definition quiet_clients :: "app_env \<Rightarrow> bool" where
  "quiet_clients env \<longleftrightarrow>
     (\<forall>i. keeps frozen_step (ae_dispatch_build env i)) \<and>
     (\<forall>rt u r. ae_routes env = Some rt \<longrightarrow> keeps frozen_step (rt_resolve rt u r)) \<and>
     (\<forall>ws a i. ae_workspace env = Some ws \<longrightarrow> keeps frozen_step (ws_snapshot ws a i))"

lemma returns_prepare:
  assumes "quiet_clients env"
  shows "returns frozen_step (prepare_inputs env b t)"
proof -
  have "returns frozen_step (snapshot_workspace ws a i tr)" if ws: "ae_workspace env = Some ws" for ws a i tr
  proof -
    have snap: "returns frozen_step (ws_snapshot ws a i)"
      using assms ws by (simp add: quiet_clients_def returns_keeps)
    have raises: "\<exists>e' w'. (if exn_class e = WorkspaceError
        then andthen (tracker_guard tr)
          (bd (build_fail i (exn_msg e) (precheck_failure i (exn_msg e))) (\<lambda>_. raise BuildInputError (exn_msg e)))
        else reraise e) w = (Inl e', w')" for e w and i
      by (auto simp: andthen_app bd_app split: prod.split sum.split)
    show ?thesis
      unfolding snapshot_workspace_def
      by (intro fz.returns_rules fz.returns_catching snap raises; intro returns_keeps frozen_keeps)
        (simp_all add: same_fields_def gate_fields_def)
  qed
  then show ?thesis
    unfolding prepare_inputs_def Let_def
    by (intro fz.returns_rules; (assumption | intro returns_keeps frozen_keeps))
      (simp_all add: same_fields_def gate_fields_def)
qed

lemma lease_body_run:
  assumes "build_lease i ss sec body w = (Inr x, w')"
  obtains t w1 w2 where "body t w1 = (Inr x, w2)" "frozen_step w w1" "frozen_step w2 w'"
proof -
  obtain own w1 m w2 where u: "uuid4_hex w = (Inr own, w1)"
    and c: "claim_build_lease i own (w_clock w1 + sec) ss w1 = (Inr m, w2)"
    and rest: "(case m of None \<Rightarrow> body None
       | Some _ \<Rightarrow> finally_do (body (Some \<lparr>tr_build_id = i, tr_owner = Some own\<rparr>)) (release_build_lease i own)) w2 = (Inr x, w')"
    using assms unfolding build_lease_def by (elim bd_InrE) (simp add: utc_now_def)
  have fw: "frozen_step w w2"
    using fz.R_trans keeps_run [OF frozen_uuid4 u] keeps_run [OF frozen_claim c] by blast
  show ?thesis
  proof (cases m)
    case None
    then show ?thesis using that rest fw fz.R_refl by auto
  next
    case (Some d)
    let ?t = "\<lparr>tr_build_id = i, tr_owner = Some own\<rparr>"
    obtain r w3 where b: "body (Some ?t) w2 = (r, w3)" by (cases "body (Some ?t) w2")
    obtain r' w4 where rel: "release_build_lease i own w3 = (r', w4)" by (cases "release_build_lease i own w3")
    have "r = Inr x" "w4 = w'" using rest Some b rel by (auto simp: finally_do_app split: sum.splits)
    then show ?thesis using that b fw keeps_run [OF frozen_release rel] by blast
  qed
qed

lemma prepare_ready:
  assumes "prepare_inputs env b t w = (Inr f, w')" and "\<not> bj_inputs_ready b"
  shows "look_build w' (bj_build_id b) = Some f \<and> bj_inputs_ready f"
proof -
  obtain tr where "t = Some tr" using assms(1) by (cases t) (simp_all add: prepare_inputs_def)
  then obtain now v x where run: "update_build (bj_build_id b) (\<lambda>x. x\<lparr>bj_inputs_ready := True, bj_updated_at := now\<rparr>) v = (Inr x, w')"
    and final: "(case x of Some y \<Rightarrow> y | None \<Rightarrow> b) = f" "bj_inputs_ready f"
    using assms(1) unfolding prepare_inputs_def Let_def
    by (auto elim!: bd_InrE andthen_InrE split: if_splits)
  have "x = Some f" using final assms(2) by (cases x) auto
  then have "look_build w' (bj_build_id b) = Some f"
    using builds.cas_result [OF run [unfolded update_build_cas]] by simp
  with final(2) show ?thesis by simp
qed

lemma no_empty_sha: "\<not> fullmatch SHA_RX []"
  by code_simp

lemma admit_run:
  assumes "admit rt app git_ref w = (Inr (commit, checked), w')"
  shows "require_static_pass app commit None w' = (Inr checked, w') \<and> commit \<noteq> [] \<and>
    (\<exists>u r. \<forall>R. step_guarantee R \<longrightarrow> keeps R (rt_resolve rt u r) \<longrightarrow> R w w')"
proof -
  let ?m = "bd (resolve_commit (rt_resolve rt) app git_ref) (\<lambda>commit.
     bd (require_static_pass app commit None) (\<lambda>checked. ret (commit, checked)))"
  have "?m w = (Inr (commit, checked), w')"
    using assms unfolding admit_def catching_app
    by (auto split: prod.splits sum.splits if_splits)
  then obtain v where r: "resolve_commit (rt_resolve rt) app git_ref w = (Inr commit, v)"
    and p: "require_static_pass app commit None v = (Inr checked, w')"
    by (auto elim!: bd_InrE)
  have v: "v = w'" using require_static_pass_state [of app commit None v] p by simp
  define ref where "ref = (case str_or git_ref None of Some r \<Rightarrow> r | None \<Rightarrow> ap_git_ref app)"
  obtain sha where sha: "rt_resolve rt (ap_repository_url app) ref w = (Inr sha, v)" "fullmatch SHA_RX sha" "commit = lower sha"
    using r unfolding resolve_commit_def ref_def by (auto elim!: bd_InrE split: if_splits)
  have "sha \<noteq> []" using sha(2) no_empty_sha by auto
  then have "commit \<noteq> []" using sha(3) by (simp add: lower_def)
  moreover have "R w w'" if "keeps R (rt_resolve rt (ap_repository_url app) ref)" for R
    using keeps_run [OF that sha(1)] v by simp
  ultimately show ?thesis using p v by blast
qed

lemma gate_passes:
  assumes "require_static_pass app commit None w = (Inr c, w)" "same_gate w w'" "commit \<noteq> []"
    and "gate_fields b = gate_fields (frozen_build i (ap_appid app) app git_ref commit c role now)"
    and "checks_wf w"
  shows "fst (verify_build_gate b app w') = Inr c"
proof -
  obtain route srole where p: "str_or (ap_require_route app) None = Some route"
    "dget (w_agent_roles w) StaticRole = Some srole"
    "lookup_route_check w (ap_appid app, commit, route, ar_version srole) = Some c"
    "rc_static_check_passed c = Some True" "rc_static_status c = CkSucceeded"
    using require_static_pass_Inr [of app commit None w c] assms(1) by auto
  have "route_check_key c = (ap_appid app, commit, route, ar_version srole)"
    using lookup_route_check_look [OF assms(5) p(3)] by simp
  moreover have "ap_require_route app = Some route"
    using p(1) by (auto simp: str_or_def split: option.splits if_splits)
  moreover have "fst (require_static_pass app commit (Some (rc_generation c)) w') = Inr c"
    using p assms(2) by (auto simp: require_static_pass_Inr same_gate_def lookup_route_check_def)
  ultimately show ?thesis
    using assms(3,4)
    by (cases "require_static_pass app commit (Some (rc_generation c)) w'")
      (simp add: verify_build_gate_def bd_app gate_fields_def frozen_build_def new_build_job_def str_or_def
        route_check_key_def)
qed

lemma same_fields_celery: "same_fields b (b\<lparr>bj_celery_task_id := t, bj_updated_at := u\<rparr>)"
  by (simp add: same_fields_def gate_fields_def)

lemma frozen_send: "quiet_clients env \<Longrightarrow> send_to_workers env i w = (Inr t, w') \<Longrightarrow> frozen_step w w'"
  unfolding send_to_workers_def
  by (erule returns_run [rotated], rule fz.returns_catching)
    (auto simp: quiet_clients_def bd_app intro: returns_keeps split: prod.split sum.split)

lemma create_build_same: "create_build b w = (Inr b', w') \<Longrightarrow> b' = b"
  by (simp add: create_build_def)

lemma frozen_role: "keeps frozen_step (require_role k)"
  by (rule frozen_other) (simp_all add: require_role_app split: option.split)

lemma queue_build_run:
  assumes "queue_build env appid git_ref w = (Inr b, w')" and "quiet_clients env" and "dget (w_apps w) appid = Some app"
  obtains rt commit checked role i now and w1 w4 w6 w7 w8 w9 y :: world and x ready task later
  where "ae_routes env = Some rt" "has_services (ap_compose app)"
    "admit rt app git_ref w = (Inr (commit, checked), w1)" "frozen_step w1 w4"
    "create_build (frozen_build i appid app git_ref commit checked role now) w4 = (Inr x, y)" "frozen_step y w6"
    "build_lease i [NotStarted] 120 (prepare_inputs env (frozen_build i appid app git_ref commit checked role now)) w6
       = (Inr ready, w7)"
    "frozen_step w7 w8"
    "update_build i (\<lambda>x. x\<lparr>bj_celery_task_id := Some task, bj_updated_at := later\<rparr>) w8 = (Inr (Some b), w9)"
    "w_builds w' = w_builds w9" "frozen_step w9 w'"
proof -
  have rec: "get_record appid w = (Inr app, w)"
    using assms(3) by (simp add: get_record_def get_app_def bd_app)
  have hs: "has_services (ap_compose app)"
    using assms(1) rec by (simp add: queue_build_def split: if_splits)
  obtain rt where rt: "ae_routes env = Some rt" "str_or (ap_require_route app) None \<noteq> None"
    using assms(1) rec hs by (simp add: queue_build_def split: option.splits)
  have "bd (admit rt app git_ref) (queue_admitted env appid app git_ref) w = (Inr b, w')"
    using assms(1) rec hs rt by (auto simp: queue_build_def)
  then obtain p w1 where adm: "admit rt app git_ref w = (Inr p, w1)"
    and rest: "queue_admitted env appid app git_ref p w1 = (Inr b, w')" by (rule bd_InrE)
  obtain role i now x ns m ready ev task later updated and w2 w3 w4 y z w6 w7 w8 v8 w9 w10 :: world
  where run: "require_role DynamicRole w1 = (Inr role, w2)" "uuid4_hex w2 = (Inr i, w3)" "utc_now w3 = (Inr now, w4)"
    "create_build (frozen_build i appid app git_ref (fst p) (snd p) role now) w4 = (Inr x, y)"
    "lift_res (build_namespace appid i) y = (Inr ns, z)"
    "ensure_build_resources (build_manifest x app ns now) z = (Inr m, w6)"
    "build_lease i [NotStarted] 120 (prepare_inputs env x) w6 = (Inr ready, w7)"
    "record_event appid (Some i) ''build.queued'' ''Build queued'' INFO [] w7 = (Inr ev, w8)"
    "send_to_workers env i w8 = (Inr task, v8)" "utc_now v8 = (Inr later, w9)"
    "update_build i (\<lambda>x. x\<lparr>bj_celery_task_id := Some task, bj_updated_at := later\<rparr>) w9 = (Inr updated, w10)"
    and fin: "(case updated of None \<Rightarrow> raise NotFoundError ''Build not found after queueing''
       | Some final \<Rightarrow> andthen (record_event appid (Some i) ''build.dispatched'' ''Build task dispatched'' INFO
                            [(VStr ''task_id'', VStr task)]) (ret final)) w10 = (Inr b, w')"
    using rest unfolding queue_admitted_def by (elim andthen_InrE bd_InrE) (rule that; assumption)
  have "updated = Some b" "w_builds w' = w_builds w10" "frozen_step w10 w'"
    using fin keepsD [OF frozen_event, where w = w10]
    by (auto simp: andthen_app record_event_app split: option.splits)
  moreover have "frozen_step w1 w4"
    using keeps_run [OF frozen_role run(1)] keeps_run [OF frozen_uuid4 run(2)] keeps_run [OF frozen_utc_now run(3)]
      fz.R_trans by blast
  moreover have "frozen_step y w6"
    using keeps_run [OF fz.keeps_lift_res run(5)] keeps_run [OF frozen_ensure run(6)] fz.R_trans by blast
  moreover have "frozen_step w7 w9"
    using keeps_run [OF frozen_event run(8)] frozen_send [OF assms(2) run(9)] keeps_run [OF frozen_utc_now run(10)]
      fz.R_trans by blast
  moreover have "x = frozen_build i appid app git_ref (fst p) (snd p) role now"
    using create_build_same [OF run(4)] .
  moreover have "admit rt app git_ref w = (Inr (fst p, snd p), w1)" using adm by simp
  ultimately show ?thesis using that [of rt "fst p" "snd p"] rt(1) hs run(4,7,11) by blast
qed

text \<open>
  C8: what the queue hands to the workers. When \<open>queue_build\<close> returns a build, and its clients leave
  the repository's applications, builds, roles and checks alone, then the build is stored as it is
  returned, queued, with complete inputs and the application's own Compose document frozen, and it
  passes the gate the workers verify before they trigger Jenkins: the check the gate finds is the
  one that was found when the build was admitted.
\<close>

theorem queued_build_passes_gate:
  assumes "queue_build env appid git_ref w = (Inr b, w')" and "quiet_clients env"
    and "checks_wf w" and "dget (w_apps w) appid = Some app" and "ap_appid app = appid"
  shows "look_build w' (bj_build_id b) = Some b \<and> bj_appid b = appid \<and> bj_status b = QUEUED \<and>
    bj_inputs_ready b \<and> bj_compose_snapshot b = ap_compose app \<and> has_services (bj_compose_snapshot b) \<and>
    dget (w_apps w') appid = Some app \<and>
    (\<exists>c. verify_build_gate b app w' = (Inr c, w') \<and> dget (w_route_checks w) (rc_check_id c) = Some c)"
proof -
  obtain rt commit checked role i now and w1 w4 w6 w7 w8 w9 y :: world and x ready task later
  where rt: "ae_routes env = Some rt" and hs: "has_services (ap_compose app)"
    and admitted: "admit rt app git_ref w = (Inr (commit, checked), w1)"
    and created: "create_build (frozen_build i appid app git_ref commit checked role now) w4 = (Inr x, y)"
    and before: "frozen_step w1 w4"
    and manifest: "frozen_step y w6"
    and lease: "build_lease i [NotStarted] 120 (prepare_inputs env (frozen_build i appid app git_ref commit checked role now)) w6 = (Inr ready, w7)"
    and after: "frozen_step w7 w8"
    and upd: "update_build i (\<lambda>x. x\<lparr>bj_celery_task_id := Some task, bj_updated_at := later\<rparr>) w8 = (Inr (Some b), w9)"
    and fin: "w_builds w' = w_builds w9" "frozen_step w9 w'"
    using assms(1,2,4) by (rule queue_build_run)
  let ?b0 = "frozen_build i appid app git_ref commit checked role now"
  have b0: "bj_build_id ?b0 = i" "\<not> bj_inputs_ready ?b0" by (simp_all add: frozen_build_def new_build_job_def)
  have y: "look_build y i = Some ?b0" "same_gate w4 y"
    using created b0(1) by (auto simp: create_build_def look_build_def same_gate_def)
  obtain t u v where body: "prepare_inputs env ?b0 t u = (Inr ready, v)" and uv: "frozen_step w6 u" "frozen_step v w7"
    using lease by (rule lease_body_run)
  have step: "frozen_step u v" using returns_run [OF returns_prepare [OF assms(2)] body] .
  have ready: "look_build v i = Some ready" "bj_inputs_ready ready"
    using prepare_ready [OF body b0(2)] b0(1) by simp_all
  have yv: "frozen_step y v" using manifest uv(1) step fz.R_trans by blast
  obtain r where r: "look_build v i = Some r" "same_fields ?b0 r"
    using yv y(1) evolvesD unfolding frozen_step_def by metis
  have v8: "frozen_step v w8" using uv(2) after fz.R_trans by blast
  obtain q where q: "look_build w8 i = Some q" "same_fields ready q"
    using v8 ready(1) evolvesD unfolding frozen_step_def by metis
  have b: "look_build w9 i = Some b" "b = q\<lparr>bj_celery_task_id := Some task, bj_updated_at := later\<rparr>"
    using builds.cas_result [OF upd [unfolded update_build_cas]] q(1) by auto
  have gf: "gate_fields b = gate_fields ?b0" and inputs: "bj_inputs_ready b"
    using b(2) q(2) r ready by (auto simp: same_fields_def gate_fields_def)
  have stored: "look_build w' i = Some b" using b(1) fin(1) by (simp add: look_build_def)
  have "frozen_step w8 w9"
    by (rule keeps_run [OF frozen_update upd]) (rule same_fields_celery)
  then have "frozen_step v w'" using v8 fin(2) fz.R_trans by blast
  then have gate: "same_gate w1 w'" using before y(2) yv by (auto simp: frozen_step_def same_gate_def)
  obtain uu rr where "\<forall>R. step_guarantee R \<longrightarrow> keeps R (rt_resolve rt uu rr) \<longrightarrow> R w w1"
    and pass: "require_static_pass app commit None w1 = (Inr checked, w1)" "commit \<noteq> []"
    using admit_run [OF admitted] by blast
  then have ww1: "same_gate w w1"
    using assms(2) rt fz.step_guarantee_axioms by (auto simp: quiet_clients_def frozen_step_def)
  have wf: "checks_wf w1" using assms(3) ww1 by (simp add: checks_wf_def same_gate_def)
  have "fst (verify_build_gate b app w') = Inr checked"
    using gate_passes [OF pass(1) gate pass(2) _ wf] gf assms(5) by simp
  then have vg: "verify_build_gate b app w' = (Inr checked, w')"
    using verify_build_gate_state [of b app w'] by (metis prod.collapse)
  have "look_check w1 (rc_check_id checked) = Some checked"
    using pass(1) lookup_route_check_look [OF wf] require_static_pass_Inr [of app commit None w1 checked] by auto
  then have "dget (w_route_checks w) (rc_check_id checked) = Some checked"
    using ww1 by (simp add: look_check_def same_gate_def)
  moreover have "dget (w_apps w') appid = Some app" using assms(4) ww1 gate by (simp add: same_gate_def)
  ultimately show ?thesis
    using stored gf inputs vg hs by (auto simp: gate_fields_def frozen_build_def new_build_job_def)
qed

definition sample_sha :: string where
  "sample_sha = replicate 40 (CHR ''a'')"

definition routed_app :: user_app where
  "routed_app = sample_app\<lparr>ap_compose := Some (VDict [(VStr ''services'', VDict [(VStr ''web'', VDict [])])])\<rparr>"

definition routed_env :: app_env where
  "routed_env = \<lparr>ae_encrypt = \<lambda>_. ret [], ae_decrypt = \<lambda>_. Inr [], ae_gitlab = None, ae_workspace = None,
     ae_routes = Some \<lparr>rt_resolve = \<lambda>_ _. ret sample_sha, rt_dispatch = \<lambda>_ _. ret None\<rparr>,
     ae_dispatch_build = \<lambda>_. ret ''task''\<rparr>"

definition routed_check :: route_check where
  "routed_check = sample_check\<lparr>rc_commit_id := sample_sha\<rparr>"

definition routed_world :: world where
  "routed_world = (gate_world routed_check)\<lparr>w_apps := [(''shop'', routed_app)],
     w_uuid := \<lambda>n. if n = 0 then replicate 32 (CHR ''a'') else ''owner''\<rparr>"

lemma quiet_routed: "quiet_clients routed_env"
  by (simp add: quiet_clients_def routed_env_def fz.keeps_ret)

lemma routed_admit:
  "admit \<lparr>rt_resolve = \<lambda>_ _. ret sample_sha, rt_dispatch = d\<rparr> routed_app None routed_world
     = (Inr (sample_sha, routed_check), routed_world)"
proof -
  have sha: "fullmatch SHA_RX sample_sha" "lower sample_sha = sample_sha" by code_simp+
  have key: "route_check_key routed_check = (''shop'', sample_sha, ''/up'', 2)"
    using sample_check_key by (simp add: routed_check_def route_check_key_def)
  have "lookup_route_check routed_world (''shop'', sample_sha, ''/up'', 2) = Some routed_check"
    using key by (simp add: lookup_route_check_def routed_world_def gate_world_def)
  then have "require_static_pass routed_app sample_sha None routed_world = (Inr routed_check, routed_world)"
    by (simp add: require_static_pass_def bd_app require_role_app find_route_check_def routed_app_def sample_app_def
        str_or_def routed_world_def gate_world_def sample_role_def routed_check_def sample_check_def
        new_route_check_def)
  moreover have "resolve_commit (\<lambda>_ _. ret sample_sha) routed_app None routed_world = (Inr sample_sha, routed_world)"
    using sha by (simp add: resolve_commit_def routed_app_def sample_app_def str_or_def)
  ultimately show ?thesis by (simp add: admit_def catching_app)
qed

lemma routed_queue: "\<exists>b w'. queue_build routed_env ''shop'' None routed_world = (Inr b, w')"
proof -
  have id: "validate_build_id (replicate 32 (CHR ''a'')) = Inr (replicate 32 (CHR ''a''))"
    "validate_appid ''shop'' = Inr ''shop''" by code_simp+
  then obtain ns where ns: "build_namespace ''shop'' (replicate 32 (CHR ''a'')) = Inr ns"
    by (simp add: build_namespace_def)
  have "\<exists>b w'. queue_admitted routed_env ''shop'' routed_app None (sample_sha, routed_check) routed_world = (Inr b, w')"
    using ns
    by (simp add: queue_admitted_def bd_app andthen_app require_role_app uuid4_hex_app create_build_def
        frozen_build_def build_manifest_def new_build_job_def new_build_resources_def
        ensure_build_resources_def build_lease_app claim_build_lease_def finally_do_app prepare_inputs_def
        tracker_guard_def get_build_resources_def update_build_def record_event_app send_to_workers_def catching_app
        release_build_lease_def put_resources_doc_def dsetdefault_def lease_expired_def Let_def
        routed_world_def gate_world_def routed_env_def empty_world_def)
  moreover have "get_record ''shop'' routed_world = (Inr routed_app, routed_world)"
    by (simp add: get_record_def get_app_def bd_app routed_world_def)
  moreover have "has_services (ap_compose routed_app)"
    by (simp add: has_services_def routed_app_def mget_def)
  ultimately show ?thesis
    using routed_admit by (auto simp: queue_build_def routed_env_def routed_app_def sample_app_def str_or_def)
qed

theorem queued_build_passes_gate_witness:
  "\<exists>b w' c. queue_build routed_env ''shop'' None routed_world = (Inr b, w') \<and> bj_inputs_ready b \<and>
     verify_build_gate b routed_app w' = (Inr c, w')"
proof -
  obtain b w' where run: "queue_build routed_env ''shop'' None routed_world = (Inr b, w')"
    using routed_queue by blast
  have "checks_wf routed_world" by (simp add: checks_wf_def routed_world_def gate_world_def)
  moreover have "dget (w_apps routed_world) ''shop'' = Some routed_app" by (simp add: routed_world_def)
  moreover have "ap_appid routed_app = ''shop''" by (simp add: routed_app_def sample_app_def)
  ultimately show ?thesis using queued_build_passes_gate [OF run quiet_routed] run by blast
qed

end
