(* ===== verification/Http.thy ===== *)
theory Http
  imports Urls Redaction
begin

text \<open>
  The seam between the clients and HTTP (\<open>HttpTransport\<close> and \<open>HttpResponse\<close> of
  \<open>orchestrator/gitlab.py\<close>): a transport takes a method, a URL, headers, a body and a limit on the
  bytes read, and may change the world in any way or raise anything. A response carries its JSON
  document as \<open>json.loads\<close> reads it, if its body is one.
\<close>

record http_response =
  hs_status :: int
  hs_headers :: "(string, string) dict"
  hs_body :: string
  hs_json :: "value option"

type_synonym headers = "(string, string) dict"

type_synonym transport = "string \<Rightarrow> string \<Rightarrow> headers \<Rightarrow> string option \<Rightarrow> int option \<Rightarrow> (world, http_response) action"

definition response_header :: "http_response \<Rightarrow> string \<Rightarrow> string option" where
  "response_header r name =
     (case filter (\<lambda>(k, _). lower k = lower name) (hs_headers r) of [] \<Rightarrow> None | (_, v) # _ \<Rightarrow> Some v)"

text \<open>\<open>json.dumps(value, sort_keys=True, separators=(",", ":"))\<close>: None where it raises. Keys that are
  neither all texts nor all integers are comparable only when there is a single one.\<close>

definition key_number :: "value \<Rightarrow> int" where
  "key_number k = (case as_integer k of Some i \<Rightarrow> i | None \<Rightarrow> 0)"

definition ordered_items :: "mapping \<Rightarrow> mapping option" where
  "ordered_items d =
     (if list_all (\<lambda>(k, _). is_str k) d then Some (sort_key (\<lambda>(k, _). the_str k) d)
      else if list_all (\<lambda>(k, _). is_int k) d then Some (sort_key (\<lambda>(k, _). key_number k) d)
      else if length d \<le> 1 then Some d else None)"

definition compact_float :: "pyfloat \<Rightarrow> string" where
  "compact_float f =
     (case f of Finite _ _ r \<Rightarrow> r | Infinite neg \<Rightarrow> (if neg then ''-Infinity'' else ''Infinity'') | NotANumber \<Rightarrow> ''NaN'')"

definition compact_key :: "value \<Rightarrow> string option" where
  "compact_key k = (case k of VFloat f \<Rightarrow> Some (compact_float f) | _ \<Rightarrow> json_key k)"

definition compact_string :: "string \<Rightarrow> string" where
  "compact_string s = CHR 0x22 # concat (map json_char s) @ [CHR 0x22]"

function compact_json :: "value \<Rightarrow> string option"
  and compact_list :: "value list \<Rightarrow> string option list"
  and compact_items :: "mapping \<Rightarrow> (value \<times> string option) list" where
  "compact_json VNull = Some ''null''"
| "compact_json (VBool b) = Some (if b then ''true'' else ''false'')"
| "compact_json (VInt i) = Some (str_int i)"
| "compact_json (VFloat f) = Some (compact_float f)"
| "compact_json (VStr s) = Some (compact_string s)"
| "compact_json (VList xs) = map_option (\<lambda>ts. ''['' @ join '','' ts @ '']'') (all_some (compact_list xs))"
| "compact_json (VDict d) =
     (case ordered_items (map (\<lambda>(k, t). (k, VStr (tail_text t))) (compact_items d)) of
        None \<Rightarrow> None
      | Some items \<Rightarrow>
          if \<exists>kt\<in>set (compact_items d). snd kt = None then None
          else map_option (\<lambda>ts. ''{'' @ join '','' ts @ ''}'')
                 (all_some (map (\<lambda>(k, t). map_option (\<lambda>a. compact_string a @ '':'' @ the_str t) (compact_key k)) items)))"
| "compact_list [] = []"
| "compact_list (x # xs) = compact_json x # compact_list xs"
| "compact_items [] = []"
| "compact_items ((k, v) # d) = (k, compact_json v) # compact_items d"
  by pat_completeness auto
termination
  by (relation "measure (case_sum size (case_sum (size_list size) (size_list (size_prod size size))))") auto

text \<open>\<open>value.strip()\<close>, refused when nothing is left.\<close>

definition require_nonempty :: "string \<Rightarrow> string \<Rightarrow> string res" where
  "require_nonempty s name =
     (if strip s = [] then Inl (Exn ValueError (name @ '' must be a non-empty string'')) else Inr (strip s))"

text \<open>\<open>_normalise_base_url\<close>, the same in both clients.\<close>

definition normalise_base_url :: "string \<Rightarrow> string res" where
  "normalise_base_url base_url =
     rbind (require_nonempty base_url ''base_url'') (\<lambda>raw.
     case urlsplit raw of
       Inl _ \<Rightarrow> Inl (Exn ValueError ''base_url must be a valid HTTP(S) URL'')
     | Inr u \<Rightarrow>
         if \<not> http_scheme u \<or> url_netloc u = [] \<or> has_credentials u
         then Inl (Exn ValueError ''base_url must be a credential-free HTTP(S) URL'')
         else if url_query u \<noteq> [] \<or> url_fragment u \<noteq> []
         then Inl (Exn ValueError ''base_url cannot contain a query or fragment'')
         else Inr (rstrip_slashes raw))"

lemma http_scheme_nonempty: "http_scheme u \<Longrightarrow> url_scheme u \<noteq> []"
  by (auto simp: http_scheme_def)

lemma normalised_origin:
  assumes "normalise_base_url s = Inr base"
  obtains u a n where "urlsplit base = Inr u" "origin base = Some (a, n)" "url_scheme u = a" "url_netloc u = n"
    "a \<noteq> []" "n \<noteq> []" "http_scheme u"
proof -
  obtain raw where r: "require_nonempty s ''base_url'' = Inr raw"
    using assms unfolding normalise_base_url_def by (cases "require_nonempty s ''base_url''") simp_all
  obtain u where u: "urlsplit raw = Inr u"
    using assms unfolding normalise_base_url_def r by (cases "urlsplit raw") simp_all
  have raw: "http_scheme u" "url_netloc u \<noteq> []" "base = rstrip_slashes raw"
    using assms unfolding normalise_base_url_def r rbind_simps u sum.case by (simp_all split: if_splits)
  have "origin raw = Some (url_scheme u, url_netloc u)" using u by (simp add: origin_def)
  then have "origin base = Some (url_scheme u, url_netloc u)"
    using origin_rstrip_slashes http_scheme_nonempty [OF raw(1)] raw(2,3) by blast
  moreover then obtain v where "urlsplit base = Inr v" "url_scheme v = url_scheme u" "url_netloc v = url_netloc u"
    by (auto simp: origin_def split: sum.splits)
  moreover then have "http_scheme v" using raw(1) by (simp add: http_scheme_def)
  ultimately show ?thesis using that http_scheme_nonempty [OF raw(1)] raw(2) by metis
qed

text \<open>A client sees a transport only through the URLs it asks for.\<close>

definition transports_agree :: "(string \<Rightarrow> bool) \<Rightarrow> transport \<Rightarrow> transport \<Rightarrow> bool" where
  "transports_agree P t t' \<longleftrightarrow> (\<forall>m u h b n. P u \<longrightarrow> t m u h b n = t' m u h b n)"

lemma transports_agreeD: "transports_agree P t t' \<Longrightarrow> P u \<Longrightarrow> t m u h b n = t' m u h b n"
  by (simp add: transports_agree_def)

end
