(* ===== verification/Jenkins.thy ===== *)
theory Jenkins
  imports Http Cleanup
begin

text \<open>
  \<open>orchestrator/jenkins.py\<close>: the parameters of a build, and \<open>JenkinsHttpAdapter\<close> over any
  transport. The classes \<open>JenkinsNotFoundError\<close> and \<open>JenkinsArtifactError\<close>, which no code of the
  repository tells from their parent, are represented by \<open>JenkinsError\<close>. The diagnosis of a
  console text is in \<open>jenkins_diagnostics.py\<close> and not part of this theory.

  The lemmas show that a client, whatever Jenkins answers and whatever queue location is stored,
  sends requests, which carry its credentials, to the configured origin only.
\<close>

section \<open>The parameters of a build\<close>

record jenkins_request =
  jr_appid :: string
  jr_repository_url :: string
  jr_git_ref :: string
  jr_environment :: "(string, string) dict"
  jr_compose :: "value"
  jr_image_repository :: string
  jr_archive_url :: string
  jr_archive_sha256 :: string
  jr_archive_token :: string
  jr_build_id :: string

definition naming_as_value :: "'a res \<Rightarrow> 'a res" where
  "naming_as_value r =
     (case r of Inl e \<Rightarrow> if exn_class e = NamingError then Inl (Exn ValueError (exn_msg e)) else Inl e | Inr x \<Rightarrow> Inr x)"

definition make_jenkins_request :: "jenkins_request \<Rightarrow> jenkins_request res" where
  "make_jenkins_request r =
     rbind (require_nonempty (jr_appid r) ''appid'') (\<lambda>_.
     rbind (require_nonempty (jr_git_ref r) ''git_ref'') (\<lambda>_.
     rbind (require_nonempty (jr_image_repository r) ''image_repository'') (\<lambda>_.
     rbind (naming_as_value (validate_image_repository (jr_image_repository r))) (\<lambda>_.
     if \<not> is_mapping (jr_compose r) then Inl (Exn ValueError ''compose must be a mapping'') else Inr r))))"

definition text_dict :: "(string, string) dict \<Rightarrow> mapping" where
  "text_dict d = map (\<lambda>(k, v). (VStr k, VStr v)) d"

text \<open>Does some service need the checkout of the source?\<close>

definition checkout_required :: "mapping \<Rightarrow> bool res" where
  "checkout_required compose =
     (if mget compose ''x-orchestrator-build-source'' = VStr ''workspace'' then Inr False
      else
        (case mget_default compose ''services'' (VDict []) of
           VDict services \<Rightarrow> Inr (list_ex (\<lambda>(_, s). is_mapping s \<and> mget (the_dict s) ''build'' \<noteq> VNull) services)
         | _ \<Rightarrow> Inl (Exn OtherError ''object has no attribute values'')))"

definition COMMIT_RX :: rx where
  "COMMIT_RX = Rep 40 (Cls is_hex)"

definition as_parameters :: "jenkins_request \<Rightarrow> (string, string) dict res" where
  "as_parameters r =
     (case (compact_json (VDict (text_dict (jr_environment r))), compact_json (jr_compose r)) of
        (Some environment, Some compose) \<Rightarrow>
          rbind (registry_from_image_repository (jr_image_repository r)) (\<lambda>registry.
          rbind (checkout_required (the_dict (jr_compose r))) (\<lambda>checkout.
          let parameters =
                [(''APPID'', jr_appid r), (''REPOSITORY_URL'', jr_repository_url r), (''GIT_REF'', jr_git_ref r),
                 (''ENVIRONMENT_JSON'', environment), (''COMPOSE_JSON'', compose),
                 (''IMAGE_REPOSITORY'', jr_image_repository r), (''HARBOR_REGISTRY'', registry),
                 (''CHECKOUT_REQUIRED'', if checkout then ''true'' else ''false'')];
              with_archive = (if jr_archive_url r = [] then parameters
                 else parameters @ [(''WORKSPACE_ARCHIVE_URL'', jr_archive_url r),
                        (''WORKSPACE_ARCHIVE_SHA256'', jr_archive_sha256 r),
                        (''WORKSPACE_ARCHIVE_TOKEN'', jr_archive_token r)])
          in if jr_build_id r = [] then Inr with_archive
             else rbind (validate_build_id (jr_build_id r)) (\<lambda>_.
               Inr (with_archive @ [(''BUILD_ID'', jr_build_id r)]
                 @ (if fullmatch COMMIT_RX (jr_git_ref r) then [(''EXPECTED_COMMIT'', jr_git_ref r)] else [])))))
      | _ \<Rightarrow> Inl (Exn JenkinsError ''Build input could not be serialized for Jenkins''))"

section \<open>What Jenkins answers\<close>

record queue_item =
  qi_queue_url :: string
  qi_queue_id :: "int option"
  qi_build_number :: "int option"
  qi_cancelled :: bool
  qi_why :: "string option"

record jenkins_build =
  jb_number :: int
  jb_building :: bool
  jb_result :: "string option"
  jb_url :: "string option"

datatype jenkins_state = JsBuilding | JsSucceeded | JsFailed | JsCancelled | JsUnknown

definition jenkins_state_of :: "jenkins_build \<Rightarrow> jenkins_state" where
  "jenkins_state_of b =
     (if jb_building b then JsBuilding
      else if jb_result b = Some ''SUCCESS'' then JsSucceeded
      else if jb_result b = Some ''ABORTED'' then JsCancelled
      else if jb_result b \<in> {Some ''FAILURE'', Some ''UNSTABLE'', Some ''NOT_BUILT''} then JsFailed
      else JsUnknown)"

definition jenkins_terminal :: "jenkins_build \<Rightarrow> bool" where
  "jenkins_terminal b \<longleftrightarrow> \<not> jb_building b \<and> jenkins_state_of b \<noteq> JsUnknown"

record artifact =
  af_images :: "string list"
  af_compose :: mapping
  af_payload :: mapping

section \<open>The client\<close>

type_synonym url_origin = "string \<times> string option \<times> int option"

record jenkins_client =
  jc_base_url :: string
  jc_username :: string
  jc_password :: string
  jc_job_path :: string
  jc_authorization :: string
  jc_origin :: url_origin
  jc_base_path :: string
  jc_transport :: transport

definition jenkins_job_path :: "string \<Rightarrow> string res" where
  "jenkins_job_path job_name =
     rbind (require_nonempty job_name ''job_name'') (\<lambda>raw.
     let segments = split_on (CHR ''/'') (strip_slashes raw) in
     if \<exists>s\<in>set segments. s \<in> {[], ''.'', ''..''}
     then Inl (Exn ValueError ''job_name must contain non-empty path segments'')
     else Inr (join ''/'' (map (\<lambda>s. ''job/'' @ quote [] s) segments)))"

definition port_of :: "url \<Rightarrow> int option res" where
  "port_of u = (case url_port u of Inl _ \<Rightarrow> Inl (Exn ValueError ''URL contains an invalid port'') | Inr p \<Rightarrow> Inr p)"

text \<open>\<open>base_parts.hostname.lower()\<close> raises on a URL without a host.\<close>

definition make_jenkins_client ::
  "string \<Rightarrow> string \<Rightarrow> string \<Rightarrow> string \<Rightarrow> transport \<Rightarrow> jenkins_client res" where
  "make_jenkins_client base_url username password job_name t =
     rbind (normalise_base_url base_url) (\<lambda>base.
     rbind (require_nonempty username ''username'') (\<lambda>user.
     rbind (require_nonempty password ''password'') (\<lambda>pass.
     rbind (jenkins_job_path job_name) (\<lambda>job.
     rbind (urlsplit base) (\<lambda>u.
     if url_hostname u = None then Inl (Exn OtherError ''NoneType object has no attribute lower'')
     else rbind (port_of u) (\<lambda>port.
       Inr \<lparr>jc_base_url = base, jc_username = user, jc_password = pass, jc_job_path = job,
            jc_authorization = ''Basic '' @ b64encode (user @ '':'' @ pass),
            jc_origin = (lower (url_scheme u), map_option lower (url_hostname u), port),
            jc_base_path = rstrip_slashes (url_path u), jc_transport = t\<rparr>))))))"

text \<open>\<open>JenkinsHttpAdapter.from_settings\<close>.\<close>

definition jenkins_from_settings ::
  "string option \<Rightarrow> string option \<Rightarrow> string option \<Rightarrow> string \<Rightarrow> transport \<Rightarrow> jenkins_client res" where
  "jenkins_from_settings base_url user password job_name t =
     (if \<not> truthy_opt base_url then Inl (Exn ValueError ''Jenkins URL must be configured'')
      else if \<not> truthy_opt user \<or> \<not> truthy_opt password
      then Inl (Exn ValueError ''Jenkins username and password must be configured'')
      else make_jenkins_client (the base_url) (the user) (the password) job_name t)"

definition jenkins_url :: "jenkins_client \<Rightarrow> string \<Rightarrow> string" where
  "jenkins_url j path = jc_base_url j @ ''/'' @ lstrip_slashes path"

definition is_jenkins_error :: "exn \<Rightarrow> bool" where
  "is_jenkins_error e \<longleftrightarrow> exn_class e = JenkinsError \<or> exn_class e = JenkinsNotStartedError"

definition jenkins_error :: "string \<Rightarrow> (world, 'a) action" where
  "jenkins_error m = raise JenkinsError m"

definition request_url :: "jenkins_client \<Rightarrow> string \<Rightarrow> string" where
  "request_url j path = (if starts_with path ''http://'' \<or> starts_with path ''https://'' then path else jenkins_url j path)"

definition jenkins_call ::
  "jenkins_client \<Rightarrow> string \<Rightarrow> string \<Rightarrow> headers \<Rightarrow> string option \<Rightarrow> int option \<Rightarrow> (world, http_response) action" where
  "jenkins_call j method path headers body max_bytes =
     catching
       (jc_transport j method (request_url j path)
          (dmerge [(''Accept'', ''application/json''), (''Authorization'', jc_authorization j)] headers) body max_bytes)
       (\<lambda>e. if is_jenkins_error e then reraise e else jenkins_error ''Jenkins request failed'')"

definition raise_for_status :: "http_response \<Rightarrow> string \<Rightarrow> (world, 'a) action" where
  "raise_for_status r operation =
     (if hs_status r = 404 then jenkins_error (''Jenkins '' @ operation @ '' was not found'')
      else jenkins_error (''Jenkins '' @ operation @ '' failed (HTTP '' @ str_int (hs_status r) @ '')''))"

definition json_object :: "http_response \<Rightarrow> string \<Rightarrow> (world, mapping) action" where
  "json_object r operation =
     (case hs_json r of
        Some (VDict d) \<Rightarrow> ret d
      | _ \<Rightarrow> jenkins_error (''Jenkins returned an invalid '' @ operation @ '' response''))"

definition positive_int :: "value \<Rightarrow> string \<Rightarrow> int res" where
  "positive_int v name =
     (let bad = Inl (Exn ValueError (name @ '' must be a positive integer'')) in
      if is_bool v then bad
      else
        (case py_int v of
           Inl e \<Rightarrow> if exn_class e \<in> {TypeError, ValueError} then bad else Inl e
         | Inr n \<Rightarrow> if n \<le> 0 then bad else Inr n))"

definition optional_positive_int :: "value \<Rightarrow> string \<Rightarrow> int option res" where
  "optional_positive_int v name = (if v = VNull then Inr None else rbind (positive_int v name) (\<lambda>n. Inr (Some n)))"

definition queue_number_at :: "string \<Rightarrow> int option" where
  "queue_number_at s =
     (if starts_with s ''/queue/item/'' then
        (let rest = drop 12 s; digits = takeWhile is_digit rest; after = dropWhile is_digit rest in
         if digits \<noteq> [] \<and> (after = [] \<or> hd after = CHR ''/'') then Some (int (nat_of_digits digits)) else None)
      else None)"

fun find_queue_number :: "string \<Rightarrow> int option" where
  "find_queue_number [] = None"
| "find_queue_number (c # s) = (case queue_number_at (c # s) of Some n \<Rightarrow> Some n | None \<Rightarrow> find_queue_number s)"

definition queue_id_from_url :: "string \<Rightarrow> int option res" where
  "queue_id_from_url s = rbind (urlsplit s) (\<lambda>u. Inr (find_queue_number (url_path u)))"

definition invalid_location :: "'a res" where
  "invalid_location = Inl (Exn JenkinsError ''Jenkins returned an invalid queue location'')"

definition location_parts :: "string \<Rightarrow> url res" where
  "location_parts s = (case urlsplit s of Inl _ \<Rightarrow> invalid_location | Inr u \<Rightarrow> Inr u)"

definition queue_prefixes :: "jenkins_client \<Rightarrow> string list" where
  "queue_prefixes j =
     ''/queue/item/'' # (if jc_base_path j = [] then [] else [jc_base_path j @ ''/queue/item/''])"

definition normalise_queue_url :: "jenkins_client \<Rightarrow> string \<Rightarrow> string res" where
  "normalise_queue_url j queue_url =
     rbind (require_nonempty queue_url ''queue_url'') (\<lambda>raw.
     if starts_with raw ''//'' then invalid_location
     else
       rbind (location_parts raw) (\<lambda>parsed.
       if has_credentials parsed then invalid_location
       else
         rbind (if url_scheme parsed \<noteq> [] then Inr raw else urljoin (jc_base_url j @ ''/'') raw) (\<lambda>target.
         rbind (location_parts target) (\<lambda>parts.
         if url_query parts \<noteq> [] \<or> url_fragment parts \<noteq> [] then invalid_location
         else
           rbind (port_of parts) (\<lambda>port.
           if (lower (url_scheme parts), Some (lower (tail_text (url_hostname parts))), port) \<noteq> jc_origin j
           then Inl (Exn JenkinsError ''Jenkins returned a queue location outside the configured host'')
           else if \<not> list_ex (starts_with (rstrip_slashes (url_path parts) @ ''/'')) (queue_prefixes j)
           then invalid_location
           else Inr (rstrip_slashes target @ ''/''))))))"

definition crumb_headers :: "jenkins_client \<Rightarrow> (world, headers) action" where
  "crumb_headers j =
     bd (jenkins_call j ''GET'' ''/crumbIssuer/api/json'' [] None None) (\<lambda>r.
     if hs_status r = 404 then ret []
     else if hs_status r \<noteq> 200 then raise_for_status r ''crumb request''
     else
       bd (json_object r ''crumb request'') (\<lambda>payload.
       let field_name = mget payload ''crumbRequestField''; crumb = mget payload ''crumb'' in
       if \<not> nonempty_str field_name \<or> \<not> nonempty_str crumb
          \<or> (\<exists>c\<in>set (the_str field_name @ the_str crumb). c = CHR 0x0D \<or> c = CHR 0x0A)
       then jenkins_error ''Jenkins returned an invalid crumb response''
       else ret [(the_str field_name, the_str crumb)]))"

definition trigger_headers :: "jenkins_client \<Rightarrow> jenkins_request \<Rightarrow> (world, headers \<times> string) action" where
  "trigger_headers j r =
     catching
       (bd (crumb_headers j) (\<lambda>crumb.
        bd (lift_res (as_parameters r)) (\<lambda>parameters.
        ret (dmerge [(''Accept'', ''application/json''), (''Content-Type'', ''application/x-www-form-urlencoded'')] crumb,
             urlencode parameters))))
       (\<lambda>e. if is_jenkins_error e then raise JenkinsNotStartedError (exn_msg e) else reraise e)"

definition trigger_build :: "jenkins_client \<Rightarrow> jenkins_request \<Rightarrow> (world, queue_item) action" where
  "trigger_build j r =
     bd (trigger_headers j r) (\<lambda>(headers, body).
     bd (jenkins_call j ''POST'' (jc_job_path j @ ''/buildWithParameters'') headers (Some body) None) (\<lambda>response.
     if 400 \<le> hs_status response \<and> hs_status response < 500
     then raise JenkinsNotStartedError (''Jenkins rejected the build trigger (HTTP '' @ str_int (hs_status response) @ '')'')
     else if hs_status response \<notin> {200, 201, 202, 302} then raise_for_status response ''build trigger''
     else
       (case response_header response ''Location'' of
          None \<Rightarrow> jenkins_error ''Jenkins did not return a queue location''
        | Some location \<Rightarrow>
            if location = [] then jenkins_error ''Jenkins did not return a queue location''
            else
              bd (lift_res (normalise_queue_url j location)) (\<lambda>queue_url.
              bd (lift_res (queue_id_from_url queue_url)) (\<lambda>queue_id.
              ret \<lparr>qi_queue_url = queue_url, qi_queue_id = queue_id, qi_build_number = None,
                   qi_cancelled = False, qi_why = None\<rparr>)))))"

text \<open>\<open>executable\<close>, if there is one, is an object; an empty one has no number.\<close>

definition executable_number :: "mapping \<Rightarrow> int option res" where
  "executable_number payload =
     (case mget payload ''executable'' of
        VNull \<Rightarrow> Inr None
      | VDict d \<Rightarrow> optional_positive_int (if d = [] then VNull else mget d ''number'') ''build number''
      | _ \<Rightarrow> Inl (Exn JenkinsError ''Jenkins returned an invalid queue item''))"

definition optional_text :: "value \<Rightarrow> string \<Rightarrow> string option res" where
  "optional_text v what =
     (case v of VNull \<Rightarrow> Inr None | VStr s \<Rightarrow> Inr (Some s)
      | _ \<Rightarrow> Inl (Exn JenkinsError (''Jenkins returned an invalid '' @ what)))"

definition queue_id_of :: "mapping \<Rightarrow> string \<Rightarrow> int option res" where
  "queue_id_of payload queue_url =
     rbind (optional_positive_int (mget payload ''id'') ''queue id'') (\<lambda>i.
     case i of Some n \<Rightarrow> Inr (Some n) | None \<Rightarrow> queue_id_from_url queue_url)"

definition get_queue_item :: "jenkins_client \<Rightarrow> string \<Rightarrow> (world, queue_item) action" where
  "get_queue_item j queue_url =
     bd (lift_res (normalise_queue_url j queue_url)) (\<lambda>normalised.
     bd (jenkins_call j ''GET'' (rstrip_slashes normalised @ ''/api/json'') [] None None) (\<lambda>response.
     if hs_status response \<noteq> 200 then raise_for_status response ''queue item''
     else
       bd (json_object response ''queue item'') (\<lambda>payload.
       bd (lift_res (executable_number payload)) (\<lambda>number.
       let cancelled = mget_default payload ''cancelled'' (VBool False) in
       if \<not> is_bool cancelled then jenkins_error ''Jenkins returned an invalid queue item''
       else
         bd (lift_res (optional_text (mget payload ''why'') ''queue item'')) (\<lambda>why.
         bd (lift_res (queue_id_of payload normalised)) (\<lambda>queue_id.
         ret \<lparr>qi_queue_url = normalised, qi_queue_id = queue_id, qi_build_number = number,
              qi_cancelled = truthy cancelled, qi_why = why\<rparr>))))))"

definition build_path :: "jenkins_client \<Rightarrow> int \<Rightarrow> string \<Rightarrow> string" where
  "build_path j number path = jc_job_path j @ ''/'' @ str_int number @ path"

definition get_jenkins_build :: "jenkins_client \<Rightarrow> int \<Rightarrow> (world, jenkins_build) action" where
  "get_jenkins_build j number =
     bd (lift_res (positive_int (VInt number) ''number'')) (\<lambda>n.
     bd (jenkins_call j ''GET'' (build_path j n ''/api/json'') [] None None) (\<lambda>response.
     if hs_status response \<noteq> 200 then raise_for_status response ''build''
     else
       bd (json_object response ''build'') (\<lambda>payload.
       if \<not> is_bool (mget payload ''building'') then jenkins_error ''Jenkins returned an invalid build response''
       else
         bd (lift_res (optional_text (mget payload ''result'') ''build response'')) (\<lambda>result.
         bd (lift_res (optional_text (mget payload ''url'') ''build response'')) (\<lambda>u.
         ret \<lparr>jb_number = n, jb_building = truthy (mget payload ''building''), jb_result = result, jb_url = u\<rparr>)))))"

definition CONSOLE_WINDOW :: int where "CONSOLE_WINDOW = 262144"

text \<open>\<open>text[:n]\<close>: a negative bound drops characters from the end.\<close>

definition py_take :: "int \<Rightarrow> string \<Rightarrow> string" where
  "py_take n s = (if n \<ge> 0 then take (nat n) s else take (length s - nat (- n)) s)"

definition read_console_tail :: "jenkins_client \<Rightarrow> int \<Rightarrow> int option \<Rightarrow> (world, string \<times> int) action" where
  "read_console_tail j number window =
     bd (lift_res (positive_int (VInt number) ''number'')) (\<lambda>n.
     let path = build_path j n ''/logText/progressiveText'';
         size_window = (case window of Some k \<Rightarrow> if k = 0 then CONSOLE_WINDOW else k | None \<Rightarrow> CONSOLE_WINDOW) in
     bd (jenkins_call j ''HEAD'' (path @ ''?start=0'') [] None (Some 0)) (\<lambda>metadata.
     if hs_status metadata \<notin> {200, 405, 501} then raise_for_status metadata ''console log''
     else
       (let size = (case int_of_text (case str_or (response_header metadata ''X-Text-Size'') None of
                            Some t \<Rightarrow> t | None \<Rightarrow> ''0'') of
                      Some k \<Rightarrow> max 0 k | None \<Rightarrow> 0);
            start = max 0 (size - size_window)
        in bd (jenkins_call j ''GET'' (path @ ''?start='' @ str_int start) [(''Accept'', ''text/plain'')] None
                 (Some (size_window * 2))) (\<lambda>response.
           if hs_status response \<noteq> 200 then raise_for_status response ''console log''
           else ret (py_take (size_window * 2) (hs_body response), start)))))"

definition image_list_ok :: "value \<Rightarrow> bool" where
  "image_list_ok v \<longleftrightarrow> is_list v \<and> the_list v \<noteq> [] \<and> list_all (\<lambda>i. is_str i \<and> strip (the_str i) \<noteq> []) (the_list v)"

definition get_artifact :: "jenkins_client \<Rightarrow> int \<Rightarrow> string \<Rightarrow> string \<Rightarrow> (world, mapping) action" where
  "get_artifact j number file what =
     bd (lift_res (positive_int (VInt number) ''number'')) (\<lambda>n.
     bd (jenkins_call j ''GET'' (build_path j n (''/artifact/'' @ file)) [] None None) (\<lambda>response.
     if hs_status response = 404 then jenkins_error (''Jenkins '' @ what @ '' is missing'')
     else if hs_status response \<noteq> 200 then raise_for_status response what
     else json_object response what))"

definition get_result_artifact :: "jenkins_client \<Rightarrow> int \<Rightarrow> (world, artifact) action" where
  "get_result_artifact j number =
     bd (get_artifact j number ''orchestrator-result.json'' ''result artifact'') (\<lambda>payload.
     if \<not> image_list_ok (mget payload ''images'') \<or> \<not> is_mapping (mget payload ''compose'')
     then jenkins_error ''Jenkins result artifact has an invalid format''
     else ret \<lparr>af_images = map the_str (the_list (mget payload ''images'')),
               af_compose = the_dict (mget payload ''compose''), af_payload = payload\<rparr>)"

definition get_resource_artifact :: "jenkins_client \<Rightarrow> int \<Rightarrow> (world, mapping) action" where
  "get_resource_artifact j number = get_artifact j number ''orchestrator-resources.json'' ''resource artifact''"

text \<open>What the clean-up of a build asks of Jenkins.\<close>

definition cleanup_api :: "jenkins_client \<Rightarrow> jenkins_api" where
  "cleanup_api j = \<lparr>
     jk_terminal = \<lambda>n. bd (get_jenkins_build j n) (\<lambda>b. ret (jenkins_terminal b)),
     jk_queue_item = \<lambda>u. bd (get_queue_item j u) (\<lambda>q. ret (qi_build_number q, qi_cancelled q)),
     jk_artifact = get_resource_artifact j\<rparr>"

section \<open>Requests stay at the configured origin\<close>

definition origin_of :: "string \<Rightarrow> url_origin option" where
  "origin_of s =
     (case urlsplit s of
        Inr u \<Rightarrow> (case port_of u of
                   Inr p \<Rightarrow> Some (lower (url_scheme u), map_option lower (url_hostname u), p) | Inl _ \<Rightarrow> None)
      | Inl _ \<Rightarrow> None)"

lemma origin_of_cong:
  assumes "origin s = Some (a, n)" "origin t = Some (a, n)"
  shows "origin_of s = origin_of t"
proof -
  obtain u v where uv: "urlsplit s = Inr u" "urlsplit t = Inr v" "url_scheme u = a" "url_scheme v = a"
    "url_netloc u = n" "url_netloc v = n"
    using assms by (auto simp: origin_def split: sum.splits)
  then have hi: "url_hostinfo u = url_hostinfo v" by (simp add: url_hostinfo_def)
  have "url_port u = url_port v" "url_hostname u = url_hostname v"
    by (simp_all only: url_port_def url_hostname_def hi)
  then show ?thesis
    unfolding origin_of_def port_of_def uv(1,2) by (simp only: sum.case uv)
qed

definition client_at :: "jenkins_client \<Rightarrow> string \<Rightarrow> string \<Rightarrow> bool" where
  "client_at j a n \<longleftrightarrow> origin (jc_base_url j) = Some (a, n) \<and> a \<noteq> [] \<and> n \<noteq> [] \<and>
     origin_of (jc_base_url j) = Some (jc_origin j) \<and> fst (jc_origin j) \<noteq> [] \<and>
     (\<exists>h. fst (snd (jc_origin j)) = Some h \<and> h \<noteq> []) \<and> starts_with (jc_job_path j) ''job/''"

lemma job_path_prefix: "jenkins_job_path name = Inr p \<Longrightarrow> starts_with p ''job/''"
proof -
  assume "jenkins_job_path name = Inr p"
  then obtain raw where "p = join ''/'' (map (\<lambda>s. ''job/'' @ quote [] s) (split_on (CHR ''/'') (strip_slashes raw)))"
    by (auto simp: jenkins_job_path_def rbind_Inr_iff Let_def split: if_splits)
  moreover obtain x xs where "split_on (CHR ''/'') (strip_slashes raw) = x # xs"
    using split_on_not_Nil by (meson neq_Nil_conv)
  ultimately show ?thesis by (cases xs) (simp_all add: starts_with_def)
qed

lemma hostname_nonempty:
  assumes "url_hostname u = Some h"
  shows "h \<noteq> []"
proof -
  have ne: "fst (url_hostinfo u) \<noteq> []"
    using assms by (simp add: url_hostname_def Let_def split: if_splits)
  obtain name zone where nz: "split_once (CHR ''%'') (fst (url_hostinfo u)) = (name, zone)"
    by (cases "split_once (CHR ''%'') (fst (url_hostinfo u))")
  show ?thesis
  proof (cases zone)
    case None
    then have "name = fst (url_hostinfo u)" using nz split_once_whole by metis
    then show ?thesis using assms ne nz None by (auto simp: url_hostname_def lower_def)
  next
    case (Some z)
    then show ?thesis using assms ne nz by (auto simp: url_hostname_def)
  qed
qed

lemma client_origin:
  assumes "make_jenkins_client base user pass job t = Inr j"
  shows "\<exists>a n. client_at j a n" "jc_transport j = t"
proof -
  obtain b u port path where b: "normalise_base_url base = Inr b" "urlsplit b = Inr u" "url_hostname u \<noteq> None"
    "port_of u = Inr port" "jenkins_job_path job = Inr path" and j: "jc_base_url j = b" "jc_job_path j = path"
    "jc_origin j = (lower (url_scheme u), map_option lower (url_hostname u), port)" "jc_transport j = t"
    using assms by (auto simp: make_jenkins_client_def rbind_Inr_iff split: if_splits)
  obtain v a n where v: "urlsplit b = Inr v" "origin b = Some (a, n)" "url_scheme v = a" "a \<noteq> []" "n \<noteq> []"
    using normalised_origin [OF b(1)] by metis
  obtain h where h: "url_hostname u = Some h" "h \<noteq> []" using b(3) hostname_nonempty by blast
  have "client_at j a n"
    using b v j h job_path_prefix [OF b(5)] by (simp add: client_at_def origin_of_def lower_def)
  then show "\<exists>a n. client_at j a n" by blast
  show "jc_transport j = t" by (rule j)
qed

lemma path_trusted: "client_at j a n \<Longrightarrow> origin_of (jenkins_url j p) = Some (jc_origin j)"
proof -
  assume c: "client_at j a n"
  have "origin (jc_base_url j @ CHR ''/'' # lstrip_slashes p) = Some (a, n)"
    using c by (intro origin_append_path) (auto simp: client_at_def netloc_char_def unsafe_url_char_def)
  then show ?thesis
    using c origin_of_cong [of "jenkins_url j p" a n "jc_base_url j"] by (simp add: client_at_def jenkins_url_def)
qed

lemma rstrip_append_slash: "rstrip_slashes (rstrip_slashes s @ ''/'') = rstrip_slashes s"
  by (simp add: rstrip_slashes_def)

lemma location_parts_Inr: "location_parts s = Inr u \<longleftrightarrow> urlsplit s = Inr u"
  by (simp add: location_parts_def invalid_location_def split: sum.split)

lemma normalised_queue:
  assumes "normalise_queue_url j queue_url = Inr r"
  obtains target u port where "urlsplit target = Inr u" "port_of u = Inr port" "r = rstrip_slashes target @ ''/''"
    "(lower (url_scheme u), Some (lower (tail_text (url_hostname u))), port) = jc_origin j"
  using assms unfolding normalise_queue_url_def invalid_location_def
  by (auto simp: rbind_Inr_iff location_parts_Inr split: if_splits)

lemma queue_trusted:
  assumes c: "client_at j a n" and q: "normalise_queue_url j queue_url = Inr r"
  shows "origin_of (rstrip_slashes r @ ''/api/json'') = Some (jc_origin j)"
proof -
  obtain target u port where t: "urlsplit target = Inr u" "port_of u = Inr port" "r = rstrip_slashes target @ ''/''"
    and eq: "(lower (url_scheme u), Some (lower (tail_text (url_hostname u))), port) = jc_origin j"
    using q by (rule normalised_queue)
  obtain h where h: "fst (snd (jc_origin j)) = Some h" "h \<noteq> []" and s: "fst (jc_origin j) \<noteq> []"
    using c by (auto simp: client_at_def)
  have scheme: "url_scheme u \<noteq> []" using arg_cong [OF eq, of fst] s by (auto simp: lower_def)
  have "lower (tail_text (url_hostname u)) = h" using arg_cong [OF eq, of "\<lambda>x. fst (snd x)"] h(1) by simp
  then have host: "url_hostname u \<noteq> None" using h(2) by (auto simp: tail_text_def lower_def)
  have netloc: "url_netloc u \<noteq> []"
  proof
    assume "url_netloc u = []"
    then show False using host by (simp add: url_hostname_def url_hostinfo_def rsplit_once_def)
  qed
  have o: "origin target = Some (url_scheme u, url_netloc u)" using t(1) by (simp add: origin_def)
  have o': "origin (rstrip_slashes target @ CHR ''/'' # ''api/json'') = Some (url_scheme u, url_netloc u)"
    using origin_rstrip_slashes [OF o scheme netloc] scheme netloc
    by (intro origin_append_path) (auto simp: netloc_char_def unsafe_url_char_def)
  have "origin_of target = Some (jc_origin j)"
    using t(1,2) eq host by (auto simp: origin_of_def tail_text_def)
  then show ?thesis
    using origin_of_cong [OF o' o] t(3) by (simp add: rstrip_append_slash)
qed

text \<open>The same client over another transport that answers alike at its own origin.\<close>

abbreviation over :: "jenkins_client \<Rightarrow> transport \<Rightarrow> jenkins_client" where
  "over j t' \<equiv> j\<lparr>jc_transport := t'\<rparr>"

definition home :: "jenkins_client \<Rightarrow> string \<Rightarrow> bool" where
  "home j u \<longleftrightarrow> origin_of u = Some (jc_origin j)"

lemma call_agrees:
  assumes "transports_agree (home j) (jc_transport j) t'" "home j (request_url j p)"
  shows "jenkins_call (over j t') m p h b n = jenkins_call j m p h b n"
  using transports_agreeD [OF assms] by (simp add: jenkins_call_def request_url_def jenkins_url_def)

lemma home_path:
  assumes "client_at j a n" "p \<noteq> []" "hd p \<noteq> CHR ''h''"
  shows "home j (request_url j p)"
proof -
  have "request_url j p = jenkins_url j p"
    using assms(2,3) by (cases p) (auto simp: request_url_def starts_with_def)
  then show ?thesis using path_trusted [OF assms(1)] by (simp add: home_def)
qed

lemma home_job: "client_at j a n \<Longrightarrow> home j (request_url j (jc_job_path j @ p))"
  by (rule home_path) (auto simp: client_at_def starts_with_def prefix_def)

lemma home_queue: "client_at j a n \<Longrightarrow> normalise_queue_url j q = Inr r \<Longrightarrow> home j (request_url j (rstrip_slashes r @ ''/api/json''))"
  using queue_trusted [of j a n q r] path_trusted [of j a n] by (simp add: home_def request_url_def)

lemma over_fields [simp]:
  "normalise_queue_url (over j t') = normalise_queue_url j" "build_path (over j t') = build_path j"
  by (simp_all add: fun_eq_iff normalise_queue_url_def queue_prefixes_def build_path_def cong: if_cong)

definition same_home :: "jenkins_client \<Rightarrow> transport \<Rightarrow> bool" where
  "same_home j t' \<longleftrightarrow> (\<exists>a n. client_at j a n) \<and> transports_agree (home j) (jc_transport j) t'"

lemma home_call: "same_home j t' \<Longrightarrow> p \<noteq> [] \<Longrightarrow> hd p \<noteq> CHR ''h'' \<Longrightarrow>
  jenkins_call (over j t') m p h b k = jenkins_call j m p h b k"
  using call_agrees home_path unfolding same_home_def by blast

lemma job_call: "same_home j t' \<Longrightarrow>
  jenkins_call (over j t') m (jc_job_path j @ p) h b k = jenkins_call j m (jc_job_path j @ p) h b k"
  using call_agrees home_job unfolding same_home_def by blast

lemma queue_call: "same_home j t' \<Longrightarrow> normalise_queue_url j q = Inr r \<Longrightarrow>
  jenkins_call (over j t') m (rstrip_slashes r @ ''/api/json'') h b k
    = jenkins_call j m (rstrip_slashes r @ ''/api/json'') h b k"
  using call_agrees home_queue unfolding same_home_def by blast

lemma build_call: "same_home j t' \<Longrightarrow>
  jenkins_call (over j t') m (build_path j i p) h b k = jenkins_call j m (build_path j i p) h b k"
  unfolding build_path_def by (rule job_call)

lemma console_call: "same_home j t' \<Longrightarrow>
  jenkins_call (over j t') m (build_path j i p @ q) h b k = jenkins_call j m (build_path j i p @ q) h b k"
  using build_call [of j t' m i "p @ q"] by (simp add: build_path_def)

lemma operations_agree:
  assumes "same_home j t'"
  shows "trigger_build (over j t') r = trigger_build j r"
    and "get_queue_item (over j t') q w = get_queue_item j q w"
    and "get_jenkins_build (over j t') i = get_jenkins_build j i"
    and "read_console_tail (over j t') i win = read_console_tail j i win"
    and "get_artifact (over j t') i f what = get_artifact j i f what"
proof -
  have "crumb_headers (over j t') = crumb_headers j"
    by (simp add: crumb_headers_def home_call [OF assms] cong: if_cong)
  then show "trigger_build (over j t') r = trigger_build j r"
    by (simp add: trigger_build_def trigger_headers_def job_call [OF assms] cong: if_cong option.case_cong)
  show "get_queue_item (over j t') q w = get_queue_item j q w"
    unfolding get_queue_item_def over_fields
    by (cases "normalise_queue_url j q") (simp_all add: bd_app queue_call [OF assms])
  show "get_jenkins_build (over j t') i = get_jenkins_build j i"
    by (simp add: get_jenkins_build_def build_call [OF assms] cong: if_cong)
  show "read_console_tail (over j t') i win = read_console_tail j i win"
    unfolding read_console_tail_def Let_def over_fields console_call [OF assms] ..
  show "get_artifact (over j t') i f what = get_artifact j i f what"
    by (simp add: get_artifact_def build_call [OF assms] cong: if_cong)
qed


definition sample_client :: "transport \<Rightarrow> jenkins_client res" where
  "sample_client t = make_jenkins_client ''http://ci'' ''u'' ''p'' ''a'' t"

definition ci_only :: "bool \<Rightarrow> transport" where
  "ci_only strict = (\<lambda>m u h b n.
     if origin_of u = Some (''http'', Some ''ci'', None)
     then ret \<lparr>hs_status = 404, hs_headers = [], hs_body = [], hs_json = None\<rparr>
     else if strict then raise OtherError ''unreachable''
     else ret \<lparr>hs_status = 200, hs_headers = [], hs_body = ''elsewhere'', hs_json = None\<rparr>)"

lemma sample_client_ok:
  "\<exists>j. sample_client t = Inr j \<and> jc_origin j = (''http'', Some ''ci'', None)"
proof -
  have "(case sample_client t of Inr c \<Rightarrow> Some (jc_origin c) | Inl _ \<Rightarrow> None) = Some (''http'', Some ''ci'', None)"
    by code_simp
  then show ?thesis by (cases "sample_client t") simp_all
qed


end
