(* ===== verification/ComposeFields.thy ===== *)
theory ComposeFields
  imports Values Naming Models
begin

text \<open>
  \<open>orchestrator/docker_services.py\<close>: the pure conversions of the fields of a Compose service
  into what the Swarm API takes, \<open>_environment\<close> to \<open>_restart_policy\<close>, and the bounded names of
  \<open>_network_name\<close> and \<open>_service_name\<close>. The one function of another package they call,
  \<open>docker.utils.parse_bytes\<close>, is a parameter.
\<close>

section \<open>Errors and tests\<close>

abbreviation docker_error :: "string \<Rightarrow> 'a res" where
  "docker_error m \<equiv> Inl (Exn DockerServiceError m)"

text \<open>\<open>isinstance(x, Sequence) and not isinstance(x, (str, bytes))\<close> holds of lists only.\<close>

text \<open>\<open>x not in {...}\<close> needs a hash: a list or a dict raises.\<close>

definition in_set :: "value \<Rightarrow> string list \<Rightarrow> bool res" where
  "in_set v xs =
     (if is_list v \<or> is_mapping v then Inl (Exn TypeError ''unhashable type'')
      else Inr (is_str v \<and> the_str v \<in> set xs))"

text \<open>\<open>sorted(set(d) - allowed)\<close> and the message joined from it: keys that are no texts make the
  sorting or the joining raise.\<close>

definition only_fields :: "string list \<Rightarrow> string \<Rightarrow> mapping \<Rightarrow> unit res" where
  "only_fields allowed msg d =
     (let bad = filter (\<lambda>k. \<not> (is_str k \<and> the_str k \<in> set allowed)) (keys d)
      in if bad = [] then Inr ()
         else if list_all is_str bad then docker_error (msg @ '': '' @ join '', '' (sort (map the_str bad)))
         else Inl (Exn TypeError ''sequence item: expected str instance''))"

definition is_true :: "value \<Rightarrow> bool" where "is_true v \<longleftrightarrow> v = VBool True"

text \<open>\<open>x in (None, False)\<close> and \<open>x in (None, True, False)\<close> compare with \<open>==\<close>.\<close>

definition none_or_false :: "value \<Rightarrow> bool" where
  "none_or_false v \<longleftrightarrow> v = VNull \<or> py_eq v (VBool False)"

definition none_or_bool :: "value \<Rightarrow> bool" where
  "none_or_bool v \<longleftrightarrow> v = VNull \<or> py_eq v (VBool True) \<or> py_eq v (VBool False)"

text \<open>\<open>except (..., TypeError, ValueError)\<close>: any other exception passes.\<close>

definition int_or :: "string \<Rightarrow> 'a res \<Rightarrow> 'a res" where
  "int_or msg r =
     (case r of Inr x \<Rightarrow> Inr x
      | Inl e \<Rightarrow> if exn_class e \<in> {TypeError, ValueError} then docker_error msg else Inl e)"

section \<open>Environment and command\<close>

definition ENV_KEY_PATTERN :: rx where
  "ENV_KEY_PATTERN = Cat (Cls (\<lambda>c. is_alpha c \<or> c = CHR ''_'')) (Star (Cls (\<lambda>c. is_alnum c \<or> c = CHR ''_'')))"

abbreviation env_error :: "'a res" where
  "env_error \<equiv> docker_error ''Compose service environment is invalid''"

definition env_item :: "mapping \<Rightarrow> string \<Rightarrow> string res" where
  "env_item d k = (if mget d k = VNull then env_error else Inr (k @ ''='' @ scalar_text (mget d k)))"

definition env_line :: "value \<Rightarrow> string res" where
  "env_line item =
     (case split_once (CHR ''='') (the_str item) of
        (key, rest) \<Rightarrow>
          if \<not> is_str item \<or> rest = None then env_error
          else if \<not> fullmatch ENV_KEY_PATTERN key then env_error
          else Inr (the_str item))"

definition environment_entries :: "value \<Rightarrow> string list res" where
  "environment_entries raw =
     (case raw of
        VNull \<Rightarrow> Inr []
      | VDict d \<Rightarrow>
          if \<not> list_all (\<lambda>k. is_str k \<and> fullmatch ENV_KEY_PATTERN (the_str k)) (keys d) then env_error
          else rmap (env_item d) (sort (map the_str (keys d)))
      | VList xs \<Rightarrow> rmap env_line xs
      | _ \<Rightarrow> env_error)"

text \<open>A command is a text or a list of texts; both are kept as they are.\<close>

definition command_value :: "value \<Rightarrow> value res" where
  "command_value raw =
     (case raw of
        VStr s \<Rightarrow> Inr raw
      | VList xs \<Rightarrow> if list_all is_str xs then Inr raw else docker_error ''Compose service command is invalid''
      | _ \<Rightarrow> docker_error ''Compose service command is invalid'')"

section \<open>Ports\<close>

definition PORT_PROTOCOLS :: "string list" where "PORT_PROTOCOLS = [''tcp'', ''udp'', ''sctp'']"

abbreviation port_error :: "'a res" where
  "port_error \<equiv> docker_error ''Compose service port is invalid''"

definition port_number :: "value \<Rightarrow> int res" where
  "port_number v =
     (if is_bool v then port_error
      else rbind (int_or ''Compose service port is invalid'' (py_int v)) (\<lambda>n.
           if \<not> (1 \<le> n \<and> n \<le> 65535) then port_error else Inr n))"

definition port_binding :: "string \<Rightarrow> string list \<Rightarrow> published_port res" where
  "port_binding protocol parts =
     (case parts of
        [t] \<Rightarrow> rbind (port_number (VStr t)) (\<lambda>target.
          Inr \<lparr>pp_target_port = target, pp_published_port = None, pp_protocol = protocol, pp_mode = ''ingress''\<rparr>)
      | [p, t] \<Rightarrow> rbind (port_number (VStr p)) (\<lambda>published.
          rbind (port_number (VStr t)) (\<lambda>target.
          Inr \<lparr>pp_target_port = target, pp_published_port = Some published, pp_protocol = protocol,
                pp_mode = ''ingress''\<rparr>))
      | _ \<Rightarrow> docker_error ''Compose host-IP and port-range bindings are not supported for Swarm services'')"

definition short_port :: "string \<Rightarrow> published_port res" where
  "short_port raw =
     (let value = strip raw in
      if value = [] then port_error
      else
        (let (body, protocol) = (case rsplit_once (CHR ''/'') value of
               (None, _) \<Rightarrow> (value, ''tcp'') | (Some a, b) \<Rightarrow> (a, b)) in
         if protocol \<notin> set PORT_PROTOCOLS then docker_error ''Compose service port protocol is invalid''
         else
           port_binding protocol (split_on (CHR '':'') body)))"

definition long_port :: "mapping \<Rightarrow> published_port res" where
  "long_port raw =
     rbind (port_number (mget raw ''target'')) (\<lambda>target.
     rbind (if mget raw ''published'' = VNull then Inr None
            else rbind (port_number (mget raw ''published'')) (\<lambda>n. Inr (Some n))) (\<lambda>published.
     let protocol = mget_default raw ''protocol'' (VStr ''tcp''); mode = mget_default raw ''mode'' (VStr ''ingress'') in
     if \<not> is_str protocol \<or> \<not> is_str mode \<or> the_str protocol \<notin> set PORT_PROTOCOLS
        \<or> the_str mode \<notin> {''ingress'', ''host''} then port_error
     else if \<not> (mget raw ''host_ip'' = VNull \<or> mget raw ''host_ip'' = VStr [])
     then docker_error ''Compose host-IP bindings are not supported for Swarm services''
     else Inr \<lparr>pp_target_port = target, pp_published_port = published, pp_protocol = the_str protocol,
                pp_mode = the_str mode\<rparr>))"

definition port_item :: "value \<Rightarrow> published_port res" where
  "port_item item = (case item of VStr s \<Rightarrow> short_port s | VDict d \<Rightarrow> long_port d | _ \<Rightarrow> port_error)"

definition ports_value :: "value \<Rightarrow> published_port list res" where
  "ports_value raw =
     (case raw of
        VNull \<Rightarrow> Inr []
      | VList xs \<Rightarrow> rmap port_item xs
      | _ \<Rightarrow> docker_error ''Compose service ports must be a list'')"

definition port_spec :: "published_port \<Rightarrow> mapping" where
  "port_spec p =
     [(VStr ''Protocol'', VStr (pp_protocol p)), (VStr ''TargetPort'', VInt (pp_target_port p)),
      (VStr ''PublishMode'', VStr (pp_mode p))] @
     (case pp_published_port p of None \<Rightarrow> [] | Some n \<Rightarrow> [(VStr ''PublishedPort'', VInt n)])"

definition endpoint_spec :: "published_port list \<Rightarrow> mapping option" where
  "endpoint_spec ports =
     (if ports = [] then None
      else Some [(VStr ''Mode'', VStr ''vip''), (VStr ''Ports'', VList (map (VDict \<circ> port_spec) ports))])"

fun service_endpoint :: "string \<Rightarrow> published_port list \<Rightarrow> string option" where
  "service_endpoint name [] = None"
| "service_endpoint name (p # ps) =
     (case pp_published_port p of Some n \<Rightarrow> Some (name @ '':'' @ str_int n) | None \<Rightarrow> service_endpoint name ps)"

section \<open>Mounts\<close>

definition mount_text :: "(string, string) dict \<Rightarrow> string \<Rightarrow> string res" where
  "mount_text sources item =
     (let parts = split_on (CHR '':'') item; first = hd parts in
      if length parts \<in> {2, 3} \<and> \<not> starts_with first ''/'' \<and> dget sources first \<noteq> None
      then Inr (join '':'' (the (dget sources first) # tl parts))
      else if length parts \<in> {2, 3} \<and> (starts_with first ''.'' \<or> starts_with first ''~'')
      then docker_error ''Compose relative bind volume paths are not supported for Swarm services''
      else Inr item)"

definition mount_entry :: "(string, string) dict \<Rightarrow> mapping \<Rightarrow> string res" where
  "mount_entry sources item =
     (let source = mget item ''source''; target = mget item ''target'';
          kind = mget_default item ''type'' (VStr ''volume'') in
      if \<not> nonempty_str source \<or> \<not> (is_str target \<and> starts_with (the_str target) ''/'')
      then docker_error ''Compose service volume is invalid''
      else
        rbind (in_set kind [''volume'', ''bind'']) (\<lambda>known.
        if \<not> known then docker_error ''Compose service volume type is invalid''
        else if kind = VStr ''bind'' \<and> \<not> starts_with (the_str source) ''/''
        then docker_error ''Compose relative bind volume paths are not supported for Swarm services''
        else if \<not> none_or_bool (mget item ''read_only'')
        then docker_error ''Compose service volume read_only flag is invalid''
        else
          (let mode = (if is_true (mget item ''read_only'') then ''ro'' else ''rw'');
               physical = (if kind = VStr ''volume'' then
                             (case dget sources (the_str source) of Some p \<Rightarrow> p | None \<Rightarrow> the_str source)
                           else the_str source)
           in Inr (physical @ '':'' @ the_str target @ '':'' @ mode))))"

definition mount_item :: "(string, string) dict \<Rightarrow> value \<Rightarrow> string res" where
  "mount_item sources item =
     (if nonempty_str item then mount_text sources (the_str item)
      else case item of VDict d \<Rightarrow> mount_entry sources d | _ \<Rightarrow> docker_error ''Compose service volume is invalid'')"

definition mounts_value :: "(string, string) dict \<Rightarrow> value \<Rightarrow> string list res" where
  "mounts_value sources raw =
     (case raw of
        VNull \<Rightarrow> Inr []
      | VList xs \<Rightarrow> rmap (mount_item sources) xs
      | _ \<Rightarrow> docker_error ''Compose service volumes must be a list'')"

section \<open>Memory sizes\<close>

text \<open>\<open>parse_bytes(raw) if isinstance(raw, str) else int(raw)\<close>.\<close>

definition size_value :: "(string \<Rightarrow> int res) \<Rightarrow> value \<Rightarrow> int res" where
  "size_value parse_bytes raw = (case raw of VStr s \<Rightarrow> parse_bytes s | _ \<Rightarrow> py_int raw)"

definition shm_mount :: "(string \<Rightarrow> int res) \<Rightarrow> value \<Rightarrow> mapping res" where
  "shm_mount parse_bytes raw =
     rbind (int_or ''Compose shm_size is invalid'' (size_value parse_bytes raw)) (\<lambda>size.
     if size \<le> 0 then docker_error ''Compose shm_size is invalid''
     else Inr [(VStr ''Type'', VStr ''tmpfs''), (VStr ''Source'', VStr []), (VStr ''Target'', VStr ''/dev/shm''),
               (VStr ''ReadOnly'', VBool False),
               (VStr ''TmpfsOptions'', VDict [(VStr ''SizeBytes'', VInt size)])])"

definition memory_bytes :: "(string \<Rightarrow> int res) \<Rightarrow> value \<Rightarrow> int res" where
  "memory_bytes parse_bytes raw =
     (if is_bool raw then docker_error ''Compose memory resource is invalid''
      else
        rbind (int_or ''Compose memory resource is invalid'' (size_value parse_bytes raw)) (\<lambda>size.
        if size \<le> 0 then docker_error ''Compose memory resource is invalid'' else Inr size))"


section \<open>Decimal arithmetic\<close>

text \<open>
  The numbers of \<open>decimal.Decimal\<close> under the default context: a sign, a coefficient and an
  exponent. The result of an operation is rounded, half to even, to 28 digits; one above
  \<open>10^1000000\<close> raises \<open>Overflow\<close>, which no handler here catches. An underflow cannot be
  observed: all results are truncated to an integer.
\<close>

datatype decimal = Dec bool nat int | DecInfinite bool | DecNaN

definition DECIMAL_PRECISION :: nat where "DECIMAL_PRECISION = 28"
definition DECIMAL_EMAX :: int where "DECIMAL_EMAX = 999999"
definition DECIMAL_MAX_EMAX :: int where "DECIMAL_MAX_EMAX = 999999999999999999"

definition count_digits :: "nat \<Rightarrow> nat" where "count_digits n = length (str_nat n)"

definition half_even :: "nat \<Rightarrow> nat \<Rightarrow> nat" where
  "half_even c k =
     (let q = c div 10 ^ k; r = c mod 10 ^ k
      in if 2 * r > 10 ^ k \<or> 2 * r = 10 ^ k \<and> odd q then Suc q else q)"

definition dec_round :: "bool \<Rightarrow> nat \<Rightarrow> int \<Rightarrow> decimal res" where
  "dec_round neg c e =
     (let k = count_digits c - DECIMAL_PRECISION;
          c' = (if k = 0 then c else half_even c k); e' = e + int k
      in if c' \<noteq> 0 \<and> int (count_digits c') + e' - 1 > DECIMAL_EMAX
         then Inl (Exn OtherError ''decimal.Overflow'') else Inr (Dec neg c' e'))"

text \<open>The product with a positive integer, and the sum of two non-negative numbers.\<close>

definition dec_scale :: "decimal \<Rightarrow> nat \<Rightarrow> decimal res" where
  "dec_scale d m = (case d of Dec neg c e \<Rightarrow> dec_round neg (c * m) e | _ \<Rightarrow> Inr d)"

definition dec_plus :: "nat \<times> int \<Rightarrow> nat \<times> int \<Rightarrow> decimal res" where
  "dec_plus a b =
     (case (a, b) of ((c, e), (c', e')) \<Rightarrow>
        let m = min e e' in dec_round False (c * 10 ^ nat (e - m) + c' * 10 ^ nat (e' - m)) m)"

text \<open>\<open>int(d)\<close> truncates; it raises \<open>OverflowError\<close> for an infinity.\<close>

definition dec_int :: "decimal \<Rightarrow> int res" where
  "dec_int d =
     (case d of
        Dec neg c e \<Rightarrow> Inr ((if neg then -1 else 1) *
          int (if 0 \<le> e then c * 10 ^ nat e else c div 10 ^ nat (- e)))
      | DecInfinite _ \<Rightarrow> Inl (Exn OtherError ''cannot convert Infinity to integer'')
      | DecNaN \<Rightarrow> Inl (Exn ValueError ''cannot convert NaN to integer''))"

definition dec_positive :: "decimal \<Rightarrow> bool" where
  "dec_positive d = (case d of Dec neg c _ \<Rightarrow> \<not> neg \<and> c \<noteq> 0 | DecInfinite neg \<Rightarrow> \<not> neg | DecNaN \<Rightarrow> False)"

text \<open>\<open>Decimal(text)\<close>: surrounding white space and all underscores are ignored, and a number too
  large for any context is invalid.\<close>

definition sign_of :: "string \<Rightarrow> bool \<times> string" where
  "sign_of s = (if starts_with s ''-'' then (True, tl s) else if starts_with s ''+'' then (False, tl s) else (False, s))"

definition exponent_part :: "string \<Rightarrow> int option" where
  "exponent_part s =
     (case sign_of s of (neg, ds) \<Rightarrow>
        if ds \<noteq> [] \<and> list_all is_digit ds then Some ((if neg then -1 else 1) * int (nat_of_digits ds)) else None)"

definition decimal_number :: "bool \<Rightarrow> string \<Rightarrow> decimal option" where
  "decimal_number neg s =
     (case split_once (CHR ''e'') (lower s) of (mantissa, ex) \<Rightarrow>
      case split_once (CHR ''.'') mantissa of (whole, fraction) \<Rightarrow>
        let frac = (case fraction of Some f \<Rightarrow> f | None \<Rightarrow> []);
            exponent = (case ex of Some x \<Rightarrow> exponent_part x | None \<Rightarrow> Some 0) in
        if whole @ frac \<noteq> [] \<and> list_all is_digit (whole @ frac)
        then Option.bind exponent (\<lambda>x.
          let c = nat_of_digits (whole @ frac); e = x - int (length frac) in
          if c \<noteq> 0 \<and> int (count_digits c) + e - 1 > DECIMAL_MAX_EMAX then None else Some (Dec neg c e))
        else None)"

definition decimal_of_text :: "string \<Rightarrow> decimal option" where
  "decimal_of_text text =
     (case sign_of (filter (\<lambda>c. c \<noteq> CHR ''_'') (strip text)) of (neg, s) \<Rightarrow>
        if lower s \<in> {''inf'', ''infinity''} then Some (DecInfinite neg)
        else if (starts_with (lower s) ''nan'' \<and> list_all is_digit (drop 3 s))
             \<or> (starts_with (lower s) ''snan'' \<and> list_all is_digit (drop 4 s)) then Some DecNaN
        else decimal_number neg s)"

definition cpu_nano :: "value \<Rightarrow> int res" where
  "cpu_nano raw =
     (if is_bool raw then docker_error ''Compose CPU resource is invalid''
      else
        case decimal_of_text (py_str raw) of
          None \<Rightarrow> docker_error ''Compose CPU resource is invalid''
        | Some d \<Rightarrow>
            rbind (int_or ''Compose CPU resource is invalid'' (rbind (dec_scale d 1000000000) dec_int)) (\<lambda>nanos.
            if \<not> dec_positive d \<or> nanos \<le> 0 then docker_error ''Compose CPU resource is invalid'' else Inr nanos))"

section \<open>Durations\<close>

text \<open>The units in the order of the pattern's alternatives, with their nanoseconds.\<close>

definition DURATION_UNITS :: "(string \<times> nat) list" where
  "DURATION_UNITS = [(''ns'', 1), (''us'', 1000), (''ms'', 1000000), (''s'', 1000000000),
     (''m'', 60000000000), (''h'', 3600000000000)]"

definition duration_number :: "string \<Rightarrow> (nat \<times> int \<times> string) option" where
  "duration_number s =
     (let whole = takeWhile is_digit s; rest = dropWhile is_digit s;
          frac = (if starts_with rest ''.'' then takeWhile is_digit (tl rest) else [])
      in if whole = [] then None
         else if frac = [] then Some (nat_of_digits whole, 0, rest)
         else Some (nat_of_digits (whole @ frac), - int (length frac), dropWhile is_digit (tl rest)))"

text \<open>One match of \<open>_DURATION_PART\<close>: the number, the factor of its unit, and what follows.\<close>

definition duration_part :: "string \<Rightarrow> (nat \<times> int \<times> nat \<times> string) option" where
  "duration_part s =
     (case duration_number s of
        None \<Rightarrow> None
      | Some (c, e, rest) \<Rightarrow>
          map_option (\<lambda>(u, f). (c, e, f, drop (length u) rest))
            (List.find (\<lambda>(u, _). starts_with rest u) DURATION_UNITS))"

lemma duration_number_shorter: "duration_number s = Some (c, e, rest) \<Longrightarrow> length rest < length s"
proof -
  assume a: "duration_number s = Some (c, e, rest)"
  have "length (dropWhile is_digit s) < length s" if "takeWhile is_digit s \<noteq> []"
    using that by (cases s) (auto simp: le_imp_less_Suc length_dropWhile_le split: if_splits)
  moreover have "length (dropWhile is_digit (tl t)) \<le> length t" for t
    by (metis length_dropWhile_le length_tl diff_le_self le_trans)
  ultimately show ?thesis
    using a by (auto simp: duration_number_def Let_def split: if_splits) (metis le_less_trans)+
qed

lemma duration_part_shorter: "duration_part s = Some (c, e, f, rest) \<Longrightarrow> length rest < length s"
  by (auto simp: duration_part_def dest!: duration_number_shorter split: option.splits)

text \<open>The loop: every round adds one part, rounded, to the total.\<close>

function duration_total :: "string \<Rightarrow> nat \<times> int \<Rightarrow> decimal res" where
  "duration_total s acc =
     (if s = [] then Inr (Dec False (fst acc) (snd acc))
      else
        case duration_part s of
          None \<Rightarrow> Inl (Exn ValueError ''no duration'')
        | Some (c, e, f, rest) \<Rightarrow>
            rbind (dec_scale (Dec False c e) f) (\<lambda>part.
            case part of
              Dec _ pc pe \<Rightarrow>
                rbind (dec_plus acc (pc, pe)) (\<lambda>new.
                case new of Dec _ sc se \<Rightarrow> duration_total rest (sc, se) | other \<Rightarrow> Inr other)
            | other \<Rightarrow> Inr other))"
  by pat_completeness auto
termination
  by (relation "measure (length \<circ> fst)") (auto dest: duration_part_shorter)

definition duration_ns :: "value \<Rightarrow> int res" where
  "duration_ns raw =
     rbind (case raw of
              VInt i \<Rightarrow> Inr i
            | VStr s \<Rightarrow>
                if strip s = [] then docker_error ''Compose healthcheck duration is invalid''
                else int_or ''Compose healthcheck duration is invalid'' (rbind (duration_total (strip s) (0, 0)) dec_int)
            | _ \<Rightarrow> docker_error ''Compose healthcheck duration is invalid'') (\<lambda>n.
     if n < 0 then docker_error ''Compose healthcheck duration is invalid'' else Inr n)"


section \<open>Health checks\<close>

abbreviation health_error :: "string \<Rightarrow> 'a res" where
  "health_error m \<equiv> docker_error (''Compose healthcheck '' @ m)"

definition health_test :: "value \<Rightarrow> value list res" where
  "health_test test =
     rbind (case test of
              VStr s \<Rightarrow> Inr [VStr ''CMD-SHELL'', VStr s]
            | VList xs \<Rightarrow> if list_all is_str xs then Inr xs else health_error ''test is invalid''
            | _ \<Rightarrow> health_error ''test is invalid'') (\<lambda>xs.
     if xs = [] then health_error ''test is invalid'' else Inr xs)"

definition health_duration :: "mapping \<Rightarrow> string \<times> string \<Rightarrow> mapping \<Rightarrow> mapping res" where
  "health_duration raw names result =
     (if mget raw (fst names) = VNull then Inr result
      else rbind (duration_ns (mget raw (fst names))) (\<lambda>n. Inr (result @ [(VStr (snd names), VInt n)])))"

definition health_retries :: "mapping \<Rightarrow> mapping \<Rightarrow> mapping res" where
  "health_retries raw result =
     (case mget raw ''retries'' of
        VNull \<Rightarrow> Inr result
      | VInt n \<Rightarrow> if n < 0 then health_error ''retries are invalid'' else Inr (result @ [(VStr ''Retries'', VInt n)])
      | _ \<Rightarrow> health_error ''retries are invalid'')"

definition health_fields :: "string list" where
  "health_fields = [''test'', ''disable'', ''interval'', ''timeout'', ''start_period'', ''retries'']"

definition healthcheck :: "value \<Rightarrow> mapping option res" where
  "healthcheck raw =
     (if raw = VNull then Inr None
      else if \<not> is_mapping raw then health_error ''is invalid''
      else
        (let d = the_dict raw in
         if is_true (mget d ''disable'') then Inr (Some [(VStr ''Test'', VList [VStr ''NONE''])])
         else if \<not> none_or_false (mget d ''disable'') then health_error ''disable flag is invalid''
         else if mget d ''test'' = VNull then Inr None
         else
           rbind (health_test (mget d ''test'')) (\<lambda>test.
           rbind (rfold (health_duration d)
                   [(''interval'', ''Interval''), (''timeout'', ''Timeout''), (''start_period'', ''StartPeriod'')]
                   [(VStr ''Test'', VList test)]) (\<lambda>result.
           rbind (health_retries d result) (\<lambda>result.
           if list_all (\<lambda>k. is_str k \<and> the_str k \<in> set health_fields) (keys d) then Inr (Some result)
           else health_error ''contains unsupported fields'')))))"

section \<open>Deployment settings\<close>

definition deploy_mode :: "value \<Rightarrow> mapping option res" where
  "deploy_mode raw =
     (case raw of
        VNull \<Rightarrow> Inr None
      | VDict d \<Rightarrow>
          (let mode = mget_default d ''mode'' (VStr ''replicated'') in
           if mode = VStr ''global'' then Inr (Some [(VStr ''global'', VDict [])])
           else if mode \<noteq> VStr ''replicated'' then docker_error ''Compose deploy mode is invalid''
           else
             (case mget_default d ''replicas'' (VInt 1) of
                VInt n \<Rightarrow>
                  if n < 0 then docker_error ''Compose service replica count is invalid''
                  else Inr (Some [(VStr ''replicated'', VDict [(VStr ''Replicas'', VInt n)])])
              | _ \<Rightarrow> docker_error ''Compose service replica count is invalid''))
      | _ \<Rightarrow> docker_error ''Compose deploy settings are invalid'')"

abbreviation restart_error :: "'a res" where
  "restart_error \<equiv> docker_error ''Compose restart policy is invalid''"

definition RESTART_CONDITIONS :: "(string, string) dict" where
  "RESTART_CONDITIONS = [(''no'', ''none''), (''always'', ''any''), (''unless-stopped'', ''any''),
     (''on-failure'', ''on-failure'')]"

definition restart_policy :: "value \<Rightarrow> value \<Rightarrow> string option res" where
  "restart_policy restart raw_deploy =
     (case (case raw_deploy of VDict d \<Rightarrow> mget d ''restart_policy'' | _ \<Rightarrow> VNull) of
        VNull \<Rightarrow>
          (case restart of
             VNull \<Rightarrow> Inr None
           | VStr s \<Rightarrow> (case dget RESTART_CONDITIONS s of Some c \<Rightarrow> Inr (Some c) | None \<Rightarrow> restart_error)
           | _ \<Rightarrow> restart_error)
      | VDict policy \<Rightarrow>
          (let condition = mget_default policy ''condition'' (VStr ''any'') in
           rbind (in_set condition [''none'', ''on-failure'', ''any'']) (\<lambda>known.
           if known then Inr (Some (the_str condition)) else restart_error))
      | _ \<Rightarrow> restart_error)"

definition resource_value :: "(string \<Rightarrow> int res) \<Rightarrow> value \<times> value \<Rightarrow> unit res" where
  "resource_value parse_bytes kv =
     (if fst kv = VStr ''cpus'' then rbind (cpu_nano (snd kv)) (\<lambda>_. Inr ())
      else rbind (memory_bytes parse_bytes (snd kv)) (\<lambda>_. Inr ()))"

definition resource_section :: "(string \<Rightarrow> int res) \<Rightarrow> mapping \<Rightarrow> string \<Rightarrow> unit res" where
  "resource_section parse_bytes raw section =
     (case mget raw section of
        VNull \<Rightarrow> Inr ()
      | VDict values \<Rightarrow>
          rbind (only_fields [''cpus'', ''memory''] ''Compose resources use unsupported fields'' values) (\<lambda>_.
          rfor values (resource_value parse_bytes))
      | _ \<Rightarrow> docker_error ''Compose resources are invalid'')"

definition validate_resources :: "(string \<Rightarrow> int res) \<Rightarrow> value \<Rightarrow> unit res" where
  "validate_resources parse_bytes raw =
     (case raw of
        VDict d \<Rightarrow>
          rbind (only_fields [''limits'', ''reservations''] ''Compose resources use unsupported fields'' d) (\<lambda>_.
          rfor [''limits'', ''reservations''] (resource_section parse_bytes d))
      | _ \<Rightarrow> docker_error ''Compose resources are invalid'')"

definition resource_item ::
  "(value \<Rightarrow> int res) \<Rightarrow> string \<Rightarrow> string \<Rightarrow> mapping \<Rightarrow> mapping res" where
  "resource_item convert source target values =
     (if \<not> mhas values source then Inr []
      else rbind (convert (mget values source)) (\<lambda>n. Inr [(VStr target, VInt n)]))"

definition resource_limits :: "(string \<Rightarrow> int res) \<Rightarrow> mapping \<Rightarrow> string \<times> string \<Rightarrow> mapping res" where
  "resource_limits parse_bytes raw names =
     (let values = the_dict (mget raw (fst names)) in
      rbind (resource_item cpu_nano ''cpus'' ''NanoCPUs'' values) (\<lambda>cpus.
      rbind (resource_item (memory_bytes parse_bytes) ''memory'' ''MemoryBytes'' values) (\<lambda>memory.
      Inr (if cpus @ memory = [] then [] else [(VStr (snd names), VDict (cpus @ memory))]))))"

definition deploy_resources :: "(string \<Rightarrow> int res) \<Rightarrow> value \<Rightarrow> mapping option res" where
  "deploy_resources parse_bytes raw_deploy =
     (case (case raw_deploy of VDict d \<Rightarrow> mget d ''resources'' | _ \<Rightarrow> VNull) of
        VNull \<Rightarrow> Inr None
      | raw \<Rightarrow>
          rbind (validate_resources parse_bytes raw) (\<lambda>_.
          rbind (rmap (resource_limits parse_bytes (the_dict raw))
                  [(''limits'', ''Limits''), (''reservations'', ''Reservations'')]) (\<lambda>parts.
          Inr (if concat parts = [] then None else Some (concat parts)))))"

section \<open>Names\<close>

definition MAX_DOCKER_NAME_LENGTH :: nat where "MAX_DOCKER_NAME_LENGTH = 63"

definition app_namespace :: "string \<Rightarrow> string res" where
  "app_namespace appid =
     (case external_namespace appid of
        Inr n \<Rightarrow> Inr n
      | Inl _ \<Rightarrow> docker_error ''Application ID is invalid for Docker service deployment'')"

text \<open>\<open>s[:n]\<close> where \<open>n\<close> is positive.\<close>

definition network_name :: "string \<Rightarrow> string \<Rightarrow> string res" where
  "network_name base namespace =
     (let raw = base @ ''-'' @ namespace in
      if length raw \<le> MAX_DOCKER_NAME_LENGTH then Inr raw
      else if starts_with namespace NAMESPACE_PREFIX then bounded_resource_name raw None (int MAX_DOCKER_NAME_LENGTH)
      else
        (let digest = take 10 (sha256_hex namespace);
             prefix_budget = int MAX_DOCKER_NAME_LENGTH - int (length base) - int (length digest) - 2 in
         if 0 < prefix_budget then Inr (base @ ''-'' @ take (nat prefix_budget) namespace @ ''-'' @ digest)
         else bounded_resource_name raw None (int MAX_DOCKER_NAME_LENGTH)))"

definition service_name :: "string \<Rightarrow> string \<Rightarrow> string res" where
  "service_name namespace compose_name =
     (let pre = namespace @ ''-'';
          raw = (if starts_with (lower compose_name) (lower pre) then compose_name else pre @ compose_name) in
      if length raw \<le> MAX_DOCKER_NAME_LENGTH then Inr raw
      else if starts_with namespace NAMESPACE_PREFIX then bounded_resource_name raw None (int MAX_DOCKER_NAME_LENGTH)
      else
        (let digest = take 10 (sha256_hex (namespace @ '':'' @ compose_name));
             suf = ''-'' @ digest @ ''-'' @ compose_name;
             prefix_budget = int MAX_DOCKER_NAME_LENGTH - int (length suf);
             compose_budget = max 1 (int MAX_DOCKER_NAME_LENGTH - int (length digest) - 2) in
         if 0 < prefix_budget then Inr (take (nat prefix_budget) namespace @ suf)
         else Inr (take MAX_DOCKER_NAME_LENGTH (digest @ ''-'' @ take (nat compose_budget) compose_name))))"

text \<open>The component of a service that the application's own template rendered.\<close>

definition template_component :: "string \<Rightarrow> string \<Rightarrow> string \<Rightarrow> mapping \<Rightarrow> string option res" where
  "template_component appid namespace compose_name service =
     (case mget service ''labels'' of
        VDict labels \<Rightarrow>
          (let component = mget labels ''io.docker-jenkins-orchestrator.component'' in
           if mget labels ''io.docker-jenkins-orchestrator.appid'' \<noteq> VStr appid
              \<or> mget labels ''io.docker-jenkins-orchestrator.namespace'' \<noteq> VStr namespace
              \<or> \<not> is_str component \<or> \<not> fullmatch DOCKER_NAME_RX (the_str component)
           then Inr None
           else
             rbind (bounded_resource_name namespace (Some (the_str component)) 63) (\<lambda>expected.
             Inr (if compose_name = expected then Some (the_str component) else None)))
      | _ \<Rightarrow> Inr None)"

definition deployment_service_name :: "string \<Rightarrow> string \<Rightarrow> string \<Rightarrow> mapping \<Rightarrow> string res" where
  "deployment_service_name appid namespace compose_name service =
     rbind (template_component appid namespace compose_name service) (\<lambda>component.
     case component of
       None \<Rightarrow> service_name namespace compose_name
     | Some c \<Rightarrow>
         if starts_with namespace NAMESPACE_PREFIX then Inr compose_name
         else service_name namespace (namespace @ ''-'' @ c))"

end
