(* ===== verification/Compose.thy ===== *)
theory Compose
  imports ComposeFields
begin

text \<open>
  \<open>orchestrator/docker_services.py\<close>: the validation of a whole Compose document before any
  Docker call, the dependency order of its services, and the physical names of its services and
  volumes. A document is a value; \<open>_compose_services\<close> gives its services as named mappings.
\<close>

section \<open>Structure\<close>

type_synonym services = "(string, mapping) dict"

definition compose_services :: "value \<Rightarrow> services res" where
  "compose_services compose =
     (case compose of
        VDict d \<Rightarrow>
          (case mget d ''services'' of
             VDict services \<Rightarrow>
               if services = [] then docker_error ''Compose document must contain services''
               else if \<not> list_all (\<lambda>(k, v). is_str k \<and> is_mapping v) services
               then docker_error ''Compose services must be named mappings''
               else Inr (map (\<lambda>(k, v). (the_str k, the_dict v)) services)
           | _ \<Rightarrow> docker_error ''Compose document must contain services'')
      | _ \<Rightarrow> docker_error ''Compose document must be a mapping'')"

definition TOP_LEVEL_FIELDS :: "string list" where
  "TOP_LEVEL_FIELDS = [''version'', ''name'', ''services'', ''volumes'']"

text \<open>Sorting keys of different kinds raises.\<close>

definition sortable :: "value list \<Rightarrow> bool" where
  "sortable ks \<longleftrightarrow> length ks \<le> 1 \<or> list_all is_str ks \<or> list_all (\<lambda>k. is_int k \<or> (\<exists>f. k = VFloat f)) ks"

lemma sortable_code [code]:
  "sortable ks \<longleftrightarrow> length ks \<le> 1 \<or> list_all is_str ks \<or>
     list_all (\<lambda>k. is_int k \<or> (case k of VFloat _ \<Rightarrow> True | _ \<Rightarrow> False)) ks"
proof -
  have "(\<exists>f. k = VFloat f) \<longleftrightarrow> (case k of VFloat _ \<Rightarrow> True | _ \<Rightarrow> False)" for k by (cases k) auto
  then show ?thesis by (simp add: sortable_def)
qed

definition volume_definition_ok :: "value \<times> value \<Rightarrow> unit res" where
  "volume_definition_ok kv =
     (if \<not> nonempty_str (fst kv) then docker_error ''Compose volume name is invalid''
      else
        case snd kv of
          VNull \<Rightarrow> Inr ()
        | VDict [] \<Rightarrow> Inr ()
        | VDict d \<Rightarrow>
            rbind (only_fields [''name'', ''external''] ''Compose volume uses unsupported fields'' d) (\<lambda>_.
            if mhas d ''name'' \<and> \<not> (is_str (mget d ''name'') \<and> strip (the_str (mget d ''name'')) \<noteq> [])
            then docker_error ''Compose volume has an invalid name''
            else if mhas d ''external'' \<and> \<not> is_bool (mget d ''external'')
            then docker_error ''Compose volume has an invalid external flag''
            else Inr ())
        | _ \<Rightarrow> docker_error ''Compose volume is invalid'')"

definition validate_top_level :: "value \<Rightarrow> unit res" where
  "validate_top_level compose =
     (case compose of
        VDict d \<Rightarrow>
          (let bad = filter (\<lambda>k. \<not> (is_str k \<and> the_str k \<in> set TOP_LEVEL_FIELDS) \<and> \<not> starts_with (py_str k) ''x-'') (keys d)
           in if \<not> sortable bad then Inl (Exn TypeError ''unorderable keys'')
              else if bad \<noteq> [] then docker_error ''Compose document uses unsupported top-level fields''
              else
                case mget d ''volumes'' of
                  VNull \<Rightarrow> Inr ()
                | VDict volumes \<Rightarrow> rfor volumes volume_definition_ok
                | _ \<Rightarrow> docker_error ''Compose top-level volumes must be a mapping'')
      | _ \<Rightarrow> docker_error ''Compose document must be a mapping'')"

section \<open>Labels\<close>

definition label_item :: "value \<times> value \<Rightarrow> (string, string) dict \<Rightarrow> (string, string) dict res" where
  "label_item kv labels =
     (if \<not> nonempty_str (fst kv) \<or> snd kv = VNull then docker_error ''Compose labels are invalid''
      else Inr (dset labels (the_str (fst kv)) (scalar_text (snd kv))))"

definition compose_labels ::
  "string \<Rightarrow> string \<Rightarrow> value \<Rightarrow> string option \<Rightarrow> (string, string) dict res" where
  "compose_labels appid compose_name raw namespace =
     rbind (case raw of VNull \<Rightarrow> Inr [] | VDict d \<Rightarrow> rfold label_item d []
            | _ \<Rightarrow> docker_error ''Compose labels must be a mapping'') (\<lambda>labels.
     rbind (case namespace of Some n \<Rightarrow> Inr n | None \<Rightarrow> app_namespace appid) (\<lambda>n.
     Inr (dset (dset (dset labels ''io.docker-jenkins-orchestrator.appid'' appid)
                ''io.docker-jenkins-orchestrator.namespace'' n)
              ''io.docker-jenkins-orchestrator.compose-service'' compose_name)))"

section \<open>Dependencies\<close>

definition dependency_names :: "value \<Rightarrow> string list res" where
  "dependency_names raw =
     (case raw of
        VNull \<Rightarrow> Inr []
      | VList xs \<Rightarrow> if list_all nonempty_str xs then Inr (remdups (map the_str xs))
                    else docker_error ''Compose service has an invalid dependency name''
      | VDict d \<Rightarrow> if list_all nonempty_str (keys d) then Inr (map the_str (keys d))
                   else docker_error ''Compose service has an invalid dependency name''
      | _ \<Rightarrow> docker_error ''Compose depends_on is invalid'')"

definition drop_ready :: "string list \<Rightarrow> (string, string list) dict \<Rightarrow> (string, string list) dict" where
  "drop_ready ready remaining =
     map (\<lambda>(name, items). (name, filter (\<lambda>x. x \<notin> set ready) items))
       (filter (\<lambda>(name, _). name \<notin> set ready) remaining)"

definition ready_services :: "(string, string list) dict \<Rightarrow> string list" where
  "ready_services remaining = sort (map fst (filter (\<lambda>(_, items). items = []) remaining))"

lemma drop_ready_shorter:
  assumes "ready_services remaining \<noteq> []"
  shows "length (drop_ready (ready_services remaining) remaining) < length remaining"
proof -
  have "set (ready_services remaining) \<noteq> {}" using assms by simp
  then obtain p where p: "p \<in> set remaining" "snd p = []"
    by (auto simp: ready_services_def)
  then have "fst p \<in> set (ready_services remaining)"
    by (auto simp: ready_services_def case_prod_beta)
  with p(1) show ?thesis
    by (auto simp: drop_ready_def case_prod_beta intro!: length_filter_less)
qed

function order_rounds :: "(string, string list) dict \<Rightarrow> string list \<Rightarrow> string list res" where
  "order_rounds remaining ordered =
     (if remaining = [] then Inr ordered
      else if ready_services remaining = [] then docker_error ''Compose depends_on contains a cycle''
      else order_rounds (drop_ready (ready_services remaining) remaining) (ordered @ ready_services remaining))"
  by pat_completeness auto
termination
  by (relation "measure (length \<circ> fst)") (auto simp: drop_ready_shorter)

declare order_rounds.simps [simp del]

definition dependency_map :: "services \<Rightarrow> (string, string list) dict res" where
  "dependency_map services =
     rmap (\<lambda>(name, service). rbind (dependency_names (mget service ''depends_on'')) (\<lambda>ds. Inr (name, ds))) services"

definition deployment_order :: "services \<Rightarrow> string list res" where
  "deployment_order services = rbind (dependency_map services) (\<lambda>deps. order_rounds deps [])"

section \<open>Features of a service\<close>

definition SUPPORTED_SERVICE_FIELDS :: "string list" where
  "SUPPORTED_SERVICE_FIELDS = [''image'', ''command'', ''environment'', ''ports'', ''volumes'', ''shm_size'',
     ''working_dir'', ''labels'', ''restart'', ''healthcheck'', ''deploy'', ''depends_on'', ''expose'']"

definition REJECTED_SERVICE_FIELDS :: "string list" where
  "REJECTED_SERVICE_FIELDS = [''build'', ''container_name'', ''configs'', ''devices'', ''dns'', ''dns_opt'',
     ''dns_search'', ''entrypoint'', ''extra_hosts'', ''gpus'', ''init'', ''ipc'', ''links'', ''logging'',
     ''network_mode'', ''networks'', ''pid'', ''privileged'', ''profiles'', ''read_only'', ''runtime'', ''secrets'',
     ''stop_grace_period'', ''stop_signal'', ''sysctls'', ''tmpfs'', ''tty'', ''ulimits'', ''user'',
     ''working_dir_host'']"

definition rejected_field :: "value \<Rightarrow> bool" where
  "rejected_field k \<longleftrightarrow> the_str k \<in> set REJECTED_SERVICE_FIELDS \<or>
     (the_str k \<notin> set SUPPORTED_SERVICE_FIELDS \<and> \<not> starts_with (the_str k) ''x-'')"

text \<open>A key that is no text has no \<open>startswith\<close>.\<close>

definition known_fields :: "mapping \<Rightarrow> unit res" where
  "known_fields service =
     (if mhas service ''env_file''
      then docker_error ''Compose service uses env_file; resolve it into environment before deployment''
      else if \<not> list_all is_str (keys service) then Inl (Exn OtherError ''AttributeError'')
      else rguard (\<not> list_ex rejected_field (keys service))
             (Exn DockerServiceError ''Compose service uses unsupported fields''))"

definition known_deploy :: "(string \<Rightarrow> int res) \<Rightarrow> value \<Rightarrow> unit res" where
  "known_deploy parse_bytes deploy =
     (case deploy of
        VNull \<Rightarrow> Inr ()
      | VDict d \<Rightarrow>
          rbind (only_fields [''mode'', ''replicas'', ''restart_policy'', ''resources'']
                   ''Compose deploy settings use unsupported fields'' d) (\<lambda>_.
          rbind (case mget d ''restart_policy'' of
                   VDict policy \<Rightarrow> only_fields [''condition''] ''Compose restart policy uses unsupported fields'' policy
                 | _ \<Rightarrow> Inr ()) (\<lambda>_.
          if mget d ''resources'' = VNull then Inr () else validate_resources parse_bytes (mget d ''resources'')))
      | _ \<Rightarrow> docker_error ''Compose deploy settings are invalid'')"

definition dependency_condition :: "services \<Rightarrow> string \<Rightarrow> mapping \<Rightarrow> unit res" where
  "dependency_condition services dependency config =
     rbind (only_fields [''condition''] ''Compose dependency uses unsupported fields'' config) (\<lambda>_.
     let condition = mget_default config ''condition'' (VStr ''service_started'') in
     rbind (in_set condition [''service_started'', ''service_healthy'']) (\<lambda>known.
     if \<not> known then docker_error ''Compose dependency uses unsupported condition''
     else if condition = VStr ''service_healthy''
             \<and> \<not> truthy (case dget services dependency of Some s \<Rightarrow> mget s ''healthcheck'' | None \<Rightarrow> VNull)
     then docker_error ''Compose dependency requires service_healthy but has no healthcheck''
     else Inr ()))"

definition dependency_item :: "services \<Rightarrow> value \<times> value \<Rightarrow> unit res" where
  "dependency_item services kv =
     (if \<not> nonempty_str (fst kv) then docker_error ''Compose service has an invalid dependency name''
      else if dget services (the_str (fst kv)) = None then docker_error ''Compose service depends on unknown service''
      else
        case snd kv of
          VNull \<Rightarrow> Inr ()
        | VDict [] \<Rightarrow> Inr ()
        | VDict config \<Rightarrow> dependency_condition services (the_str (fst kv)) config
        | _ \<Rightarrow> docker_error ''Compose dependency is invalid'')"

definition known_dependencies :: "services \<Rightarrow> value \<Rightarrow> unit res" where
  "known_dependencies services depends_on =
     (case depends_on of
        VNull \<Rightarrow> Inr ()
      | VList xs \<Rightarrow>
          if list_all nonempty_str xs
          then rfor (map (\<lambda>x. (x, VDict [])) (remdups xs)) (dependency_item services)
          else docker_error ''Compose service has an invalid dependency name''
      | VDict d \<Rightarrow> rfor d (dependency_item services)
      | _ \<Rightarrow> docker_error ''Compose depends_on is invalid'')"

text \<open>The conversions a service must pass, in the order of the code.\<close>

definition convertible :: "(string \<Rightarrow> int res) \<Rightarrow> string \<Rightarrow> mapping \<Rightarrow> unit res" where
  "convertible parse_bytes name service =
     rbind (environment_entries (mget service ''environment'')) (\<lambda>_.
     rbind (compose_labels ''validation'' name (mget service ''labels'') None) (\<lambda>_.
     rbind (ports_value (mget service ''ports'')) (\<lambda>_.
     rbind (if mget service ''command'' = VNull then Inr VNull else command_value (mget service ''command'')) (\<lambda>_.
     rbind (rguard (mget service ''working_dir'' = VNull \<or>
              is_str (mget service ''working_dir'') \<and> starts_with (the_str (mget service ''working_dir'')) ''/'')
              (Exn DockerServiceError ''Compose working directory is invalid'')) (\<lambda>_.
     rbind (mounts_value [] (mget service ''volumes'')) (\<lambda>_.
     rbind (if mget service ''shm_size'' = VNull then Inr [] else shm_mount parse_bytes (mget service ''shm_size'')) (\<lambda>_.
     rbind (healthcheck (mget service ''healthcheck'')) (\<lambda>_.
     rbind (deploy_mode (mget service ''deploy'')) (\<lambda>_.
     rbind (restart_policy (mget service ''restart'') (mget service ''deploy'')) (\<lambda>_.
     rbind (deploy_resources parse_bytes (mget service ''deploy'')) (\<lambda>_. Inr ())))))))))))"

definition service_features :: "(string \<Rightarrow> int res) \<Rightarrow> services \<Rightarrow> string \<times> mapping \<Rightarrow> unit res" where
  "service_features parse_bytes services ns =
     rbind (convertible parse_bytes (fst ns) (snd ns)) (\<lambda>_.
     rbind (known_fields (snd ns)) (\<lambda>_.
     rbind (known_deploy parse_bytes (mget (snd ns) ''deploy'')) (\<lambda>_.
     known_dependencies services (mget (snd ns) ''depends_on''))))"

definition validate_service_name :: "string \<Rightarrow> unit res" where
  "validate_service_name name =
     rguard (fullmatch DOCKER_NAME_RX name) (Exn DockerServiceError ''Compose service name is invalid'')"

definition validate_service_image :: "mapping \<Rightarrow> unit res" where
  "validate_service_image service =
     rguard (is_str (mget service ''image'') \<and> strip (the_str (mget service ''image'')) \<noteq> [])
       (Exn DockerServiceError ''Compose service must define an image'')"

definition named_service :: "bool \<Rightarrow> string \<times> mapping \<Rightarrow> unit res" where
  "named_service require_images ns =
     rbind (validate_service_name (fst ns)) (\<lambda>_.
     if require_images then validate_service_image (snd ns) else Inr ())"

definition validate_compose :: "(string \<Rightarrow> int res) \<Rightarrow> bool \<Rightarrow> value \<Rightarrow> unit res" where
  "validate_compose parse_bytes require_images compose =
     rbind (validate_top_level compose) (\<lambda>_.
     rbind (compose_services compose) (\<lambda>services.
     rbind (rfor services (service_features parse_bytes services)) (\<lambda>_.
     rbind (deployment_order services) (\<lambda>_.
     rfor services (named_service require_images)))))"


section \<open>Physical names of services and volumes\<close>

definition unique_name ::
  "string \<Rightarrow> string \<Rightarrow> string \<times> mapping \<Rightarrow> (string, string) dict \<Rightarrow> (string, string) dict res" where
  "unique_name appid namespace ns seen =
     rbind (deployment_service_name appid namespace (fst ns) (snd ns)) (\<lambda>docker_name.
     if dget seen docker_name \<noteq> None then docker_error ''Compose services map to the same Docker service name''
     else Inr (dset seen docker_name (fst ns)))"

definition validate_unique_names :: "string \<Rightarrow> string \<Rightarrow> services \<Rightarrow> unit res" where
  "validate_unique_names appid namespace services =
     rbind (rfold (unique_name appid namespace) services []) (\<lambda>_. Inr ())"

definition managed_volume :: "string \<Rightarrow> string \<Rightarrow> string res" where
  "managed_volume namespace alias =
     (case managed_volume_name namespace alias of
        Inr n \<Rightarrow> Inr n
      | Inl _ \<Rightarrow> docker_error ''Compose named volume is invalid for managed Docker volume naming'')"

text \<open>The physical names, and those of them no declaration chose.\<close>

type_synonym volume_names = "(string, string) dict \<times> (string, string) dict"

definition implicit_volume :: "string \<Rightarrow> string \<Rightarrow> volume_names \<Rightarrow> volume_names res" where
  "implicit_volume namespace alias names =
     rbind (managed_volume namespace alias) (\<lambda>n. Inr (dset (fst names) alias n, dset (snd names) alias n))"

definition declared_volume :: "string \<Rightarrow> value \<times> value \<Rightarrow> volume_names \<Rightarrow> volume_names res" where
  "declared_volume namespace kv names =
     (if \<not> nonempty_str (fst kv) then Inr names
      else
        (let alias = the_str (fst kv); config = the_dict (snd kv); configured = mget config ''name'' in
         if is_str configured \<and> strip (the_str configured) \<noteq> []
         then Inr (dset (fst names) alias (strip (the_str configured)), snd names)
         else if is_true (mget config ''external'') then Inr (dset (fst names) alias alias, snd names)
         else implicit_volume namespace alias names))"

definition mount_source :: "value \<Rightarrow> string option" where
  "mount_source mount =
     (case mount of
        VStr s \<Rightarrow>
          (let parts = split_on (CHR '':'') s; first = hd parts in
           if length parts \<in> {2, 3} \<and> \<not> (starts_with first ''/'' \<or> starts_with first ''.'' \<or> starts_with first ''~'')
              \<and> first \<noteq> []
           then Some first else None)
      | VDict d \<Rightarrow>
          (if mget_default d ''type'' (VStr ''volume'') = VStr ''volume'' \<and> nonempty_str (mget d ''source'')
           then Some (the_str (mget d ''source'')) else None)
      | _ \<Rightarrow> None)"

definition mounted_volume :: "string \<Rightarrow> value \<Rightarrow> volume_names \<Rightarrow> volume_names res" where
  "mounted_volume namespace mount names =
     (case mount_source mount of
        Some source \<Rightarrow> if dget (fst names) source = None then implicit_volume namespace source names else Inr names
      | None \<Rightarrow> Inr names)"

definition alias_conflict :: "string \<times> string \<Rightarrow> (string, string) dict \<Rightarrow> (string, string) dict res" where
  "alias_conflict an seen =
     (case dget seen (snd an) of
        Some previous \<Rightarrow>
          if previous \<noteq> fst an then docker_error ''Compose volumes map to the same managed Docker volume name''
          else Inr (dset seen (snd an) (fst an))
      | None \<Rightarrow> Inr (dset seen (snd an) (fst an)))"

definition volume_sources :: "value \<Rightarrow> string \<Rightarrow> (string, string) dict res" where
  "volume_sources compose namespace =
     rbind (rfold (declared_volume namespace) (the_dict (mget (the_dict compose) ''volumes'')) ([], [])) (\<lambda>declared.
     rbind (compose_services compose) (\<lambda>services.
     rbind (rfold (\<lambda>ns. rfold (mounted_volume namespace) (the_list (mget (snd ns) ''volumes''))) services declared) (\<lambda>names.
     rbind (rfold alias_conflict (snd names) []) (\<lambda>_. Inr (fst names)))))"

definition shared_volume_aliases :: "value \<Rightarrow> string list" where
  "shared_volume_aliases compose =
     map (the_str \<circ> fst) (filter (\<lambda>(alias, d). is_str alias \<and> is_mapping d \<and>
        (is_true (mget (the_dict d) ''external'') \<or> mhas (the_dict d) ''name''))
       (the_dict (mget (the_dict compose) ''volumes'')))"

text \<open>The volumes of a build-isolated deployment: every alias is scoped to the build.\<close>

definition build_volumes :: "string \<Rightarrow> (string, string) dict \<Rightarrow> (string, string) dict res" where
  "build_volumes namespace sources =
     rmap (\<lambda>alias. rbind (managed_volume_name namespace alias) (\<lambda>n. Inr (alias, n))) (keys sources)"

section \<open>Rebinding the volumes of an existing service\<close>

definition named_mount :: "(string, string) dict \<Rightarrow> string list \<Rightarrow> value \<Rightarrow> bool" where
  "named_mount sources shared mount =
     (case mount of
        VStr s \<Rightarrow>
          (let parts = split_on (CHR '':'') s; first = hd parts in
           length parts \<in> {2, 3} \<and> \<not> (starts_with first ''/'' \<or> starts_with first ''.'' \<or> starts_with first ''~'')
           \<and> dget sources first \<noteq> None \<and> first \<notin> set shared)
      | VDict d \<Rightarrow>
          (let source = mget d ''source'' in
           mget_default d ''type'' (VStr ''volume'') = VStr ''volume'' \<and> is_str source
           \<and> dget sources (the_str source) \<noteq> None \<and> the_str source \<notin> set shared)
      | _ \<Rightarrow> False)"

text \<open>\<open>mount.get("Target"): mount.get("Source")\<close> of the volume mounts; the last one of a target wins.\<close>

definition existing_sources :: "value list \<Rightarrow> mapping" where
  "existing_sources mounts =
     foldl (\<lambda>d m. dset d (mget (the_dict m) ''Target'') (mget (the_dict m) ''Source'')) []
       (filter (\<lambda>m. is_mapping m \<and> mget (the_dict m) ''Type'' = VStr ''volume'') mounts)"

definition rebinding_conflict ::
  "(string, string) dict \<Rightarrow> string list \<Rightarrow> mapping \<Rightarrow> string \<times> string \<Rightarrow> unit res" where
  "rebinding_conflict sources shared existing od =
     (let original_source = hd (split_on (CHR '':'') (fst od)) in
      if original_source \<in> set shared \<or> dget sources original_source = None then Inr ()
      else
        (case split_on (CHR '':'') (snd od) of
           desired_source # target # _ \<Rightarrow>
             (let current = mget existing target in
              if current \<noteq> VNull \<and> current \<noteq> VStr desired_source
              then docker_error ''refusing to rebind historical data automatically'' else Inr ())
         | _ \<Rightarrow> Inl (Exn ValueError ''not enough values to unpack'')))"

text \<open>\<open>existing\<close> is the \<open>Mounts\<close> of the running service, or \<open>None\<close> when they cannot be read.\<close>

definition assert_rebinding_safe ::
  "value list option \<Rightarrow> mapping \<Rightarrow> (string, string) dict \<Rightarrow> string list \<Rightarrow> unit res" where
  "assert_rebinding_safe existing service sources shared =
     (let desired_named = list_ex (named_mount sources shared) (the_list (mget service ''volumes'')) in
      case existing of
        None \<Rightarrow> rguard (\<not> desired_named)
                 (Exn DockerServiceError ''volume ownership could not be inspected; refusing to rebind historical data automatically'')
      | Some mounts \<Rightarrow>
          rbind (mounts_value [] (mget service ''volumes'')) (\<lambda>original.
          rbind (mounts_value sources (mget service ''volumes'')) (\<lambda>desired.
          rfor (zip original desired) (rebinding_conflict sources shared (existing_sources mounts)))))"


section \<open>The specification of a Swarm service\<close>

text \<open>The keyword arguments of \<open>services.create\<close>; \<open>None\<close> is an argument that is left out. The mounts
  are texts, and the mapping of the shared memory comes last.\<close>

record service_spec =
  sp_env :: "string list"
  sp_labels :: "(string, string) dict"
  sp_container_labels :: "(string, string) dict option"
  sp_network :: string
  sp_aliases :: "string list"
  sp_command :: "value option"
  sp_workdir :: "value option"
  sp_mounts :: "value list"
  sp_endpoint_spec :: "mapping option"
  sp_mode :: "mapping option"
  sp_restart_policy :: "string option"
  sp_resources :: "mapping option"
  sp_healthcheck :: "mapping option"

definition build_labels :: "string option \<Rightarrow> string \<Rightarrow> string \<Rightarrow> string \<Rightarrow> (string, string) dict" where
  "build_labels build_id appid namespace logical_name =
     [(''io.docker-jenkins-orchestrator.appid'', appid), (''io.docker-jenkins-orchestrator.namespace'', namespace)] @
     (case build_id of
        None \<Rightarrow> []
      | Some b \<Rightarrow> [(''io.docker-jenkins-orchestrator.build-id'', b), (''io.docker-jenkins-orchestrator.managed'', ''true''),
                   (''io.docker-jenkins-orchestrator.logical-name'', logical_name)])"

definition working_dir :: "value \<Rightarrow> value option res" where
  "working_dir v =
     (if v = VNull then Inr None
      else if \<not> is_str v \<or> \<not> starts_with (the_str v) ''/'' then docker_error ''Compose working directory is invalid''
      else Inr (Some v))"

definition optional_command :: "value \<Rightarrow> value option res" where
  "optional_command v = (if v = VNull then Inr None else rbind (command_value v) (\<lambda>c. Inr (Some c)))"

definition optional_shm :: "(string \<Rightarrow> int res) \<Rightarrow> value \<Rightarrow> value list res" where
  "optional_shm parse_bytes v =
     (if v = VNull then Inr [] else rbind (shm_mount parse_bytes v) (\<lambda>m. Inr [VDict m]))"

definition all_mounts :: "(string \<Rightarrow> int res) \<Rightarrow> (string, string) dict \<Rightarrow> mapping \<Rightarrow> value list res" where
  "all_mounts parse_bytes sources service =
     rbind (mounts_value sources (mget service ''volumes'')) (\<lambda>mounts.
     rbind (optional_shm parse_bytes (mget service ''shm_size'')) (\<lambda>shm.
     Inr (map VStr mounts @ shm)))"

definition service_kwargs ::
  "(string \<Rightarrow> int res) \<Rightarrow> string option \<Rightarrow> string \<Rightarrow> string \<Rightarrow> string \<Rightarrow> mapping \<Rightarrow> string
     \<Rightarrow> published_port list \<Rightarrow> (string, string) dict \<Rightarrow> service_spec res" where
  "service_kwargs parse_bytes build_id appid namespace compose_name service network_target ports sources =
     rbind (compose_labels appid compose_name (mget service ''labels'') (Some namespace)) (\<lambda>own.
     let labels = dmerge own (build_labels build_id appid namespace compose_name) in
     rbind (environment_entries (mget service ''environment'')) (\<lambda>env.
     rbind (optional_command (mget service ''command'')) (\<lambda>command.
     rbind (working_dir (mget service ''working_dir'')) (\<lambda>workdir.
     rbind (all_mounts parse_bytes sources service) (\<lambda>mounts.
     rbind (deploy_mode (mget service ''deploy'')) (\<lambda>mode.
     rbind (restart_policy (mget service ''restart'') (mget service ''deploy'')) (\<lambda>restart.
     rbind (deploy_resources parse_bytes (mget service ''deploy'')) (\<lambda>resources.
     rbind (healthcheck (mget service ''healthcheck'')) (\<lambda>health.
     Inr \<lparr>sp_env = env, sp_labels = labels,
           sp_container_labels = (if build_id = None then None else Some labels),
           sp_network = network_target, sp_aliases = [compose_name], sp_command = command, sp_workdir = workdir,
           sp_mounts = mounts, sp_endpoint_spec = endpoint_spec ports, sp_mode = mode,
           sp_restart_policy = restart, sp_resources = resources, sp_healthcheck = health\<rparr>)))))))))"

end
