(* ===== verification/ComposeInputs.thy ===== *)
theory ComposeInputs
  imports Compose
begin

text \<open>
  \<open>orchestrator/worker_runtime.py\<close>: what the worker demands of Compose documents before and
  after Jenkins, and the expansion of \<open>${VARIABLE}\<close> placeholders from the application's
  environment. The ellipsis of a shortened hint is represented by three dots.
\<close>

section \<open>Structure\<close>

abbreviation input_error :: "string \<Rightarrow> 'a res" where
  "input_error m \<equiv> Inl (Exn BuildInputError m)"

definition validate_compose_structure :: "value \<Rightarrow> services res" where
  "validate_compose_structure compose =
     (case compose of
        VDict d \<Rightarrow>
          (case mget d ''services'' of
             VDict services \<Rightarrow>
               if services = [] then input_error ''Build compose document must contain services''
               else if \<not> list_all (\<lambda>(k, v). is_str k \<and> is_mapping v) services
               then input_error ''Build compose services must be named mappings''
               else Inr (map (\<lambda>(k, v). (the_str k, the_dict v)) services)
           | _ \<Rightarrow> input_error ''Build compose document must contain services'')
      | _ \<Rightarrow> input_error ''Build compose document must be a mapping'')"

text \<open>\<open>except DockerServiceError as exc: raise BuildInputError(str(exc))\<close>.\<close>

definition as_input_error :: "'a res \<Rightarrow> 'a res" where
  "as_input_error r =
     (case r of Inl e \<Rightarrow> if exn_class e = DockerServiceError then input_error (exn_msg e) else Inl e | Inr x \<Rightarrow> Inr x)"

definition without_build :: "value \<times> value \<Rightarrow> value \<times> value" where
  "without_build kv = (fst kv, VDict (filter (\<lambda>(k, _). k \<noteq> VStr ''build'') (the_dict (snd kv))))"

definition validate_source_compose :: "(string \<Rightarrow> int res) \<Rightarrow> value \<Rightarrow> unit res" where
  "validate_source_compose parse_bytes compose =
     rbind (validate_compose_structure compose) (\<lambda>_.
     let runtime = mput (the_dict compose) ''services''
           (VDict (map without_build (the_dict (mget (the_dict compose) ''services''))))
     in as_input_error (validate_compose parse_bytes False (VDict runtime)))"

section \<open>Placeholders\<close>

text \<open>What \<open>_COMPOSE_VARIABLE\<close> matches: \<open>$$\<close>, or a variable with an optional operator and default.\<close>

datatype placeholder = Escaped | Variable string "string option" string

definition ident_start :: "char \<Rightarrow> bool" where "ident_start c \<longleftrightarrow> is_alpha c \<or> c = CHR ''_''"
definition ident_char :: "char \<Rightarrow> bool" where "ident_char c \<longleftrightarrow> is_alnum c \<or> c = CHR ''_''"

definition ident_of :: "string \<Rightarrow> (string \<times> string) option" where
  "ident_of s =
     (if s \<noteq> [] \<and> ident_start (hd s) then Some (takeWhile ident_char s, dropWhile ident_char s) else None)"

definition operator_of :: "string \<Rightarrow> (string \<times> string) option" where
  "operator_of s =
     (if starts_with s '':-'' \<or> starts_with s '':?'' then Some (take 2 s, drop 2 s)
      else if starts_with s ''-'' \<or> starts_with s ''?'' then Some (take 1 s, drop 1 s)
      else None)"

text \<open>The text after \<open>${name\<close>: the closing brace, or an operator, a default and the brace.\<close>

definition braced_tail :: "string \<Rightarrow> (string option \<times> string \<times> string) option" where
  "braced_tail s =
     (if starts_with s ''}'' then Some (None, [], tl s)
      else
        case operator_of s of
          None \<Rightarrow> None
        | Some (op, rest) \<Rightarrow>
            (case split_once (CHR ''}'') rest of
               (alt_text, Some after) \<Rightarrow> Some (Some op, alt_text, after)
             | (_, None) \<Rightarrow> None))"

definition match_placeholder :: "string \<Rightarrow> (placeholder \<times> string) option" where
  "match_placeholder s =
     (if starts_with s ''$$'' then Some (Escaped, drop 2 s)
      else if starts_with s ''${'' then
        (case ident_of (drop 2 s) of
           None \<Rightarrow> None
         | Some (name, rest) \<Rightarrow>
             map_option (\<lambda>(op, alt_text, after). (Variable name op alt_text, after)) (braced_tail rest))
      else if starts_with s ''$'' then
        map_option (\<lambda>(name, rest). (Variable name None [], rest)) (ident_of (drop 1 s))
      else None)"

lemma ident_of_shorter: "ident_of s = Some (n, rest) \<Longrightarrow> length rest \<le> length s"
  by (auto simp: ident_of_def length_dropWhile_le split: if_splits)

lemma split_once_shorter: "split_once c s = (a, Some b) \<Longrightarrow> length b < length s"
  by (drule split_once_Some) simp

lemma braced_tail_shorter: "braced_tail s = Some (op, d, rest) \<Longrightarrow> length rest \<le> length s"
  by (auto simp: braced_tail_def operator_of_def dest!: split_once_shorter split: if_splits option.splits prod.splits)

lemma match_placeholder_shorter: "match_placeholder s = Some (p, rest) \<Longrightarrow> length rest < length s"
  by (auto simp: match_placeholder_def starts_with_def prefix_def dest!: ident_of_shorter braced_tail_shorter
      split: if_splits option.splits)

definition HINT_LIMIT :: nat where "HINT_LIMIT = 200"

definition hint_text :: "string \<Rightarrow> string" where
  "hint_text alt_text =
     (let hint = strip alt_text in if length hint > HINT_LIMIT then take HINT_LIMIT hint @ ''...'' else hint)"

definition required_error :: "string \<Rightarrow> string \<Rightarrow> bool \<Rightarrow> string \<Rightarrow> string option \<Rightarrow> string \<Rightarrow> string" where
  "required_error service key is_empty variable op alt_text =
     (let message = ''Compose service '' @ service @ '' environment '' @ key @ '' '' @
            (if is_empty then ''requires a non-empty'' else ''references missing'') @
            '' application variable '' @ variable
      in if op \<in> {Some ''?'', Some '':?''} \<and> strip alt_text \<noteq> [] then message @ '': '' @ hint_text alt_text else message)"

definition expand_variable ::
  "(string, string) dict \<Rightarrow> string \<Rightarrow> string \<Rightarrow> string \<Rightarrow> string option \<Rightarrow> string \<Rightarrow> string res" where
  "expand_variable environment service key variable op alt_text =
     (case dget environment variable of
        None \<Rightarrow>
          if op \<in> {Some ''-'', Some '':-''} then Inr alt_text
          else input_error (required_error service key False variable op alt_text)
      | Some content \<Rightarrow>
          if op \<in> {Some '':-'', Some '':?''} \<and> content = [] then
            (if op = Some '':-'' then Inr alt_text
             else input_error (required_error service key True variable op alt_text))
          else Inr content)"

function expand_text :: "(string, string) dict \<Rightarrow> string \<Rightarrow> string \<Rightarrow> string \<Rightarrow> string res" where
  "expand_text environment service key s =
     (case match_placeholder s of
        Some (Escaped, rest) \<Rightarrow> rbind (expand_text environment service key rest) (\<lambda>t. Inr (CHR ''$'' # t))
      | Some (Variable v op alt_text, rest) \<Rightarrow>
          rbind (expand_variable environment service key v op alt_text) (\<lambda>x.
          rbind (expand_text environment service key rest) (\<lambda>t. Inr (x @ t)))
      | None \<Rightarrow>
          (case s of [] \<Rightarrow> Inr [] | c # cs \<Rightarrow> rbind (expand_text environment service key cs) (\<lambda>t. Inr (c # t))))"
  by pat_completeness auto
termination
  by (relation "measure (\<lambda>(_, _, _, s). length s)") (auto dest: match_placeholder_shorter)

declare expand_text.simps [simp del]

definition expand_entry ::
  "(string, string) dict \<Rightarrow> string \<Rightarrow> string \<Rightarrow> mapping \<Rightarrow> mapping res" where
  "expand_entry environment service entry acc =
     (case split_once (CHR ''='') entry of
        (key, rest) \<Rightarrow>
          rbind (expand_text environment service key (the rest)) (\<lambda>v. Inr (mput acc key (VStr v))))"

definition expand_service :: "(string, string) dict \<Rightarrow> value \<times> value \<Rightarrow> (value \<times> value) res" where
  "expand_service environment kv =
     (case snd kv of
        VDict service \<Rightarrow>
          if mget service ''environment'' = VNull then Inr kv
          else
            rbind (as_input_error (environment_entries (mget service ''environment''))) (\<lambda>entries.
            rbind (rfold (expand_entry environment (py_str (fst kv))) entries []) (\<lambda>resolved.
            Inr (fst kv, VDict (mput service ''environment'' (VDict resolved)))))
      | _ \<Rightarrow> Inr kv)"

definition resolve_application_environment :: "value \<Rightarrow> (string, string) dict \<Rightarrow> value res" where
  "resolve_application_environment compose environment =
     (case mget (the_dict compose) ''services'' of
        VDict services \<Rightarrow>
          rbind (rmap (expand_service environment) services) (\<lambda>resolved.
          Inr (VDict (mput (the_dict compose) ''services'' (VDict resolved))))
      | _ \<Rightarrow> Inr compose)"

section \<open>The artifact of Jenkins\<close>

definition or_dict :: "value \<Rightarrow> value" where "or_dict v = (if v = VNull then VDict [] else v)"
definition or_list :: "value \<Rightarrow> value" where "or_list v = (if v = VNull then VList [] else v)"

definition same_contract :: "services \<Rightarrow> string \<times> mapping \<Rightarrow> unit res" where
  "same_contract artifact_services ns =
     (let artifact = (case dget artifact_services (fst ns) of Some s \<Rightarrow> s | None \<Rightarrow> []) in
      rbind (ports_value (mget (snd ns) ''ports'')) (\<lambda>source_ports.
      rbind (ports_value (mget artifact ''ports'')) (\<lambda>artifact_ports.
      if source_ports \<noteq> artifact_ports then input_error (''Jenkins deployment artifact changed ports for service '' @ fst ns)
      else if \<not> py_eq (or_list (mget (snd ns) ''volumes'')) (or_list (mget artifact ''volumes''))
      then input_error (''Jenkins deployment artifact changed volumes for service '' @ fst ns)
      else Inr ())))"

definition validate_artifact_topology :: "value \<Rightarrow> value \<Rightarrow> unit res" where
  "validate_artifact_topology source artifact =
     rbind (validate_compose_structure source) (\<lambda>source_services.
     rbind (validate_compose_structure artifact) (\<lambda>artifact_services.
     if set (keys source_services) \<noteq> set (keys artifact_services)
     then input_error ''Jenkins deployment artifact changed the Compose service topology''
     else if \<not> py_eq (or_dict (mget (the_dict source) ''volumes'')) (or_dict (mget (the_dict artifact) ''volumes''))
     then input_error ''Jenkins deployment artifact changed top-level volumes''
     else rfor source_services (same_contract artifact_services)))"

definition validate_deployment_compose ::
  "(string \<Rightarrow> int res) \<Rightarrow> value \<Rightarrow> value option \<Rightarrow> unit res" where
  "validate_deployment_compose parse_bytes compose source =
     rbind (validate_compose_structure compose) (\<lambda>services.
     if \<not> list_all (\<lambda>(_, s). is_str (mget s ''image'') \<and> strip (the_str (mget s ''image'')) \<noteq> []) services
     then input_error ''Jenkins deployment compose services must define images''
     else as_input_error
       (rbind (validate_compose parse_bytes True compose) (\<lambda>_.
        case source of Some s \<Rightarrow> validate_artifact_topology s compose | None \<Rightarrow> Inr ())))"

end
