(* ===== verification/ComposeSafety.thy ===== *)
theory ComposeSafety
  imports ComposeInputs
begin

text \<open>
  What the worker and the Swarm adapter guarantee about Compose documents: the dependency order,
  the bounds and notations of ports, the normal form of an environment, the expansion of
  placeholders, and the physical names of services and volumes.
\<close>

section \<open>The dependency order\<close>

definition comes_before :: "'a \<Rightarrow> 'a \<Rightarrow> 'a list \<Rightarrow> bool" where
  "comes_before d n xs \<longleftrightarrow> (\<exists>a b. xs = a @ n # b \<and> d \<in> set a)"

lemma comes_before_append: "comes_before d n ys \<Longrightarrow> comes_before d n (xs @ ys)"
  unfolding comes_before_def by (metis Un_iff append.assoc set_append)

lemma comes_before_split: "d \<in> set xs \<Longrightarrow> n \<in> set ys \<Longrightarrow> comes_before d n (xs @ ys)"
  unfolding comes_before_def by (metis Un_iff append.assoc set_append split_list)

lemma set_ready: "set (ready_services rem) = {n. (n, []) \<in> set rem}"
  by (force simp: ready_services_def)

lemma distinct_ready: "distinct (keys rem) \<Longrightarrow> distinct (ready_services rem)"
  by (simp add: ready_services_def distinct_map_filter)

lemma keys_drop_ready: "keys (drop_ready r rem) = filter (\<lambda>n. n \<notin> set r) (keys rem)"
  by (induction rem) (auto simp: drop_ready_def)

lemma in_drop_ready:
  "(n, items) \<in> set rem \<Longrightarrow> n \<notin> set r \<Longrightarrow> (n, filter (\<lambda>x. x \<notin> set r) items) \<in> set (drop_ready r rem)"
  by (force simp: drop_ready_def)

lemma drop_ready_in:
  "(n, items) \<in> set (drop_ready r rem) \<Longrightarrow>
   \<exists>items0. (n, items0) \<in> set rem \<and> n \<notin> set r \<and> items = filter (\<lambda>x. x \<notin> set r) items0"
  by (auto simp: drop_ready_def)

lemma order_rounds_Inr:
  assumes "order_rounds rem ordered = Inr xs" and "distinct (keys rem)"
    and "distinct ordered" and "set ordered \<inter> set (keys rem) = {}"
  shows "\<exists>ys. xs = ordered @ ys \<and> distinct xs \<and> set ys = set (keys rem) \<and>
    (\<forall>n items. (n, items) \<in> set rem \<longrightarrow> (\<forall>d\<in>set items. comes_before d n ys))"
  using assms
proof (induction rem ordered rule: order_rounds.induct)
  case (1 rem ordered)
  let ?r = "ready_services rem" and ?rest = "drop_ready (ready_services rem) rem"
  show ?case
  proof (cases "rem = []")
    case True
    then show ?thesis using "1.prems" by (simp add: order_rounds.simps)
  next
    case False
    have r: "?r \<noteq> []" and run: "order_rounds ?rest (ordered @ ?r) = Inr xs"
      using "1.prems"(1) False by (simp_all add: order_rounds.simps [of rem] split: if_splits)
    have sub: "set ?r \<subseteq> set (keys rem)" by (force simp: set_ready)
    have "distinct (keys ?rest)" "distinct (ordered @ ?r)" "set (ordered @ ?r) \<inter> set (keys ?rest) = {}"
      using "1.prems"(2-4) sub distinct_ready by (auto simp: keys_drop_ready)
    from "1.IH" [OF False r run this] obtain ys where ys: "xs = (ordered @ ?r) @ ys" "distinct xs"
      "set ys = set (keys ?rest)"
      "\<And>n items d. (n, items) \<in> set ?rest \<Longrightarrow> d \<in> set items \<Longrightarrow> comes_before d n ys"
      by blast
    have "comes_before d n (?r @ ys)" if p: "(n, items) \<in> set rem" "d \<in> set items" for n items d
    proof -
      have n: "n \<notin> set ?r"
      proof
        assume "n \<in> set ?r"
        then have "(n, []) \<in> set rem" by (simp add: set_ready)
        then have "items = []" using eq_key_imp_eq_value [OF "1.prems"(2) p(1)] by blast
        then show False using p(2) by simp
      qed
      show ?thesis
      proof (cases "d \<in> set ?r")
        case True
        moreover have "n \<in> set ys" using p(1) n ys(3) by (force simp: keys_drop_ready)
        ultimately show ?thesis by (rule comes_before_split)
      next
        case False
        then have "comes_before d n ys"
          using ys(4) [OF in_drop_ready [OF p(1) n]] p(2) by simp
        then show ?thesis by (rule comes_before_append)
      qed
    qed
    moreover have "set (?r @ ys) = set (keys rem)"
      using sub ys(3) by (auto simp: keys_drop_ready)
    ultimately show ?thesis
      using ys(1,2) by (intro exI [of _ "?r @ ys"]) auto
  qed
qed

text \<open>A set of services that block each other, or wait for something that is no service.\<close>

definition blocked :: "(string, string list) dict \<Rightarrow> string set \<Rightarrow> bool" where
  "blocked deps S \<longleftrightarrow> S \<noteq> {} \<and>
     (\<forall>n\<in>S. \<exists>items. (n, items) \<in> set deps \<and> (\<exists>d\<in>set items. d \<in> S \<or> d \<notin> set (keys deps)))"

lemma order_rounds_Inl:
  "order_rounds rem ordered = Inl e \<Longrightarrow> exn_class e = DockerServiceError \<and> (\<exists>S. blocked rem S)"
proof (induction rem ordered rule: order_rounds.induct)
  case (1 rem ordered)
  let ?r = "ready_services rem" and ?rest = "drop_ready (ready_services rem) rem"
  have ne: "rem \<noteq> []" using "1.prems" by (auto simp: order_rounds.simps)
  show ?case
  proof (cases "?r = []")
    case True
    then have "(n, []) \<notin> set rem" for n using set_ready [of rem] by auto
    then have items: "items \<noteq> []" if "(n, items) \<in> set rem" for n items using that by auto
    have "blocked rem (set (keys rem))"
      unfolding blocked_def
    proof (intro conjI ballI)
      show "set (keys rem) \<noteq> {}" using ne by simp
    next
      fix n assume "n \<in> set (keys rem)"
      then obtain its where its: "(n, its) \<in> set rem" by auto
      then have "hd its \<in> set its" using items by simp
      then show "\<exists>items. (n, items) \<in> set rem \<and> (\<exists>d\<in>set items. d \<in> set (keys rem) \<or> d \<notin> set (keys rem))"
        using its by blast
    qed
    moreover have "exn_class e = DockerServiceError"
      using "1.prems" ne True by (auto simp: order_rounds.simps [of rem])
    ultimately show ?thesis by blast
  next
    case False
    have "order_rounds ?rest (ordered @ ?r) = Inl e"
      using "1.prems" ne False by (simp add: order_rounds.simps [of rem])
    from "1.IH" [OF ne False this] obtain S where S: "exn_class e = DockerServiceError" "blocked ?rest S"
      by blast
    have "\<exists>items. (n, items) \<in> set rem \<and> (\<exists>d\<in>set items. d \<in> S \<or> d \<notin> set (keys rem))" if n: "n \<in> S" for n
    proof -
      obtain items d where d: "(n, items) \<in> set ?rest" "d \<in> set items" "d \<in> S \<or> d \<notin> set (keys ?rest)"
        using S(2) n unfolding blocked_def by (elim conjE ballE [where x = n]) blast+
      obtain items0 where i0: "(n, items0) \<in> set rem" "items = filter (\<lambda>x. x \<notin> set ?r) items0"
        using drop_ready_in [OF d(1)] by blast
      then have d0: "d \<in> set items0" "d \<notin> set ?r" using d(2) by simp_all
      then have "d \<in> S \<or> d \<notin> set (keys rem)" using d(3) by (simp add: keys_drop_ready)
      then show ?thesis using i0(1) d0(1) by blast
    qed
    moreover have "S \<noteq> {}" using S(2) by (simp add: blocked_def)
    ultimately have "blocked rem S" unfolding blocked_def by blast
    then show ?thesis using S(1) by blast
  qed
qed

lemma keys_dependency_map: "dependency_map services = Inr deps \<Longrightarrow> keys deps = keys services"
  unfolding dependency_map_def rmap_Inr_iff
  by (induction rule: list_all2_induct) (auto simp: rbind_Inr_iff)

lemma comes_before_not_self: "comes_before d n xs \<Longrightarrow> distinct xs \<Longrightarrow> d \<noteq> n"
  by (auto simp: comes_before_def)

lemma order_not_blocked:
  assumes "distinct xs" and "set xs = set (keys deps)"
    and before: "\<And>n items d. (n, items) \<in> set deps \<Longrightarrow> d \<in> set items \<Longrightarrow> comes_before d n xs"
    and "S \<subseteq> set (keys deps)"
  shows "\<not> blocked deps S"
proof
  assume b: "blocked deps S"
  define ix where "ix n = (LEAST k. k < length xs \<and> xs ! k = n)" for n
  have ix: "ix (xs ! k) = k" if "k < length xs" for k
    unfolding ix_def using that assms(1) by (intro Least_equality) (auto simp: nth_eq_iff_index_eq)
  have lt: "ix d < ix n" if bf: "comes_before d n xs" for d n
  proof -
    obtain a c where xs: "xs = a @ n # c" "d \<in> set a" using bf by (auto simp: comes_before_def)
    then obtain j where "j < length a" "a ! j = d" by (auto simp: in_set_conv_nth)
    then have "ix d = j" using ix [of j] xs(1) by (simp add: nth_append)
    moreover have "ix n = length a" using ix [of "length a"] xs(1) by simp
    ultimately show ?thesis using \<open>j < length a\<close> by simp
  qed
  have "\<exists>d\<in>S. ix d < ix n" if n: "n \<in> S" for n
  proof -
    obtain items d where d: "(n, items) \<in> set deps" "d \<in> set items" "d \<in> S \<or> d \<notin> set (keys deps)"
      using b n unfolding blocked_def by (elim conjE ballE [where x = n]) blast+
    have bf: "comes_before d n xs" using before d(1,2) .
    then have "d \<in> set (keys deps)" using assms(2) by (auto simp: comes_before_def)
    then show ?thesis using d(3) lt [OF bf] by blast
  qed
  then have "n \<notin> S" for n
    by (induction "ix n" arbitrary: n rule: less_induct) blast
  then show False using b by (auto simp: blocked_def)
qed

text \<open>
  C30: the deployment order of services with well-formed dependency lists exists exactly when no
  set of services blocks itself, that is, when there is no cycle and no dependency on an unknown
  service; otherwise it is refused. The order is a permutation of the services in which every
  service comes after all it depends on.
\<close>

theorem deployment_order_correct:
  assumes "distinct (keys services)" and "dependency_map services = Inr deps"
  shows "case deployment_order services of
      Inl e \<Rightarrow> exn_class e = DockerServiceError \<and> (\<exists>S. blocked deps S)
    | Inr xs \<Rightarrow> distinct xs \<and> set xs = set (keys services) \<and>
        (\<forall>n items d. (n, items) \<in> set deps \<and> d \<in> set items \<longrightarrow> comes_before d n xs) \<and> (\<forall>S. \<not> blocked deps S)"
proof (cases "deployment_order services")
  case (Inl e)
  then have "order_rounds deps [] = Inl e" using assms(2) by (simp add: deployment_order_def)
  then show ?thesis using order_rounds_Inl Inl by simp
next
  case (Inr xs)
  then have run: "order_rounds deps [] = Inr xs" using assms(2) by (simp add: deployment_order_def)
  have k: "keys deps = keys services" by (rule keys_dependency_map [OF assms(2)])
  obtain ys where ys: "xs = ys" "distinct xs" "set ys = set (keys deps)"
    "\<And>n items d. (n, items) \<in> set deps \<Longrightarrow> d \<in> set items \<Longrightarrow> comes_before d n ys"
    using order_rounds_Inr [OF run] assms(1) k by auto
  have "\<not> blocked deps S" for S
  proof (cases "S \<subseteq> set (keys deps)")
    case True
    then show ?thesis using order_not_blocked [of ys] ys by blast
  next
    case False
    then show ?thesis by (force simp: blocked_def)
  qed
  then show ?thesis using Inr ys k by auto
qed


section \<open>Ports\<close>

definition port_ok :: "published_port \<Rightarrow> bool" where
  "port_ok p \<longleftrightarrow> 1 \<le> pp_target_port p \<and> pp_target_port p \<le> 65535 \<and>
     (\<forall>n. pp_published_port p = Some n \<longrightarrow> 1 \<le> n \<and> n \<le> 65535) \<and>
     pp_protocol p \<in> {''tcp'', ''udp'', ''sctp''} \<and> pp_mode p \<in> {''ingress'', ''host''}"

lemma port_number_Inr: "port_number v = Inr n \<Longrightarrow> 1 \<le> n \<and> n \<le> 65535"
  by (auto simp: port_number_def rbind_Inr_iff split: if_splits)

lemma port_ok_bound:
  assumes "port_number v = Inr t" and "\<And>n. pub = Some n \<Longrightarrow> \<exists>v. port_number v = Inr n" and "protocol \<in> set PORT_PROTOCOLS"
    and "mode \<in> {''ingress'', ''host''}"
  shows "port_ok \<lparr>pp_target_port = t, pp_published_port = pub, pp_protocol = protocol, pp_mode = mode\<rparr>"
  using assms by (auto simp: port_ok_def PORT_PROTOCOLS_def dest!: port_number_Inr)

lemma port_binding_ok:
  assumes "port_binding protocol parts = Inr p" and "protocol \<in> set PORT_PROTOCOLS"
  shows "port_ok p"
proof -
  consider t where "parts = [t]" | q t where "parts = [q, t]"
    using assms(1) by (cases parts; cases "tl parts"; cases "tl (tl parts)") (simp_all add: port_binding_def)
  then show ?thesis
    using assms by cases (auto simp: port_binding_def rbind_Inr_iff intro!: port_ok_bound)
qed

lemma short_port_ok:
  assumes "short_port s = Inr p"
  shows "port_ok p"
proof -
  obtain body protocol where "(case rsplit_once (CHR ''/'') (strip s) of
      (None, _) \<Rightarrow> (strip s, ''tcp'') | (Some a, b) \<Rightarrow> (a, b)) = (body, protocol)"
    by fastforce
  then have "port_binding protocol (split_on (CHR '':'') body) = Inr p" "protocol \<in> set PORT_PROTOCOLS"
    using assms by (simp_all add: short_port_def Let_def split: if_split_asm)
  then show ?thesis by (rule port_binding_ok)
qed

lemma long_port_ok:
  assumes "long_port d = Inr p"
  shows "port_ok p"
proof -
  obtain target pub where t: "port_number (mget d ''target'') = Inr target"
    and pub: "(if mget d ''published'' = VNull then Inr None
       else rbind (port_number (mget d ''published'')) (\<lambda>n. Inr (Some n))) = Inr pub"
    and p: "the_str (mget_default d ''protocol'' (VStr ''tcp'')) \<in> set PORT_PROTOCOLS"
      "the_str (mget_default d ''mode'' (VStr ''ingress'')) \<in> {''ingress'', ''host''}"
      "p = \<lparr>pp_target_port = target, pp_published_port = pub,
         pp_protocol = the_str (mget_default d ''protocol'' (VStr ''tcp'')),
         pp_mode = the_str (mget_default d ''mode'' (VStr ''ingress''))\<rparr>"
    using assms unfolding long_port_def rbind_Inr_iff Let_def by (elim exE conjE) (simp split: if_split_asm)
  have "\<exists>v. port_number v = Inr n" if "pub = Some n" for n
    using pub that by (auto simp: rbind_Inr_iff split: if_split_asm)
  then show ?thesis unfolding p(3) by (intro port_ok_bound [OF t] p(1,2))
qed

lemma ports_value_ok:
  assumes "ports_value raw = Inr ps" and "p \<in> set ps"
  shows "port_ok p"
proof -
  obtain xs where "raw = VList xs" "list_all2 (\<lambda>x y. port_item x = Inr y) xs ps"
    using assms by (cases raw) (auto simp: ports_value_def rmap_Inr_iff)
  then obtain x where "port_item x = Inr p"
    using assms(2) by (auto simp: list_all2_conv_all_nth in_set_conv_nth)
  then show ?thesis
    by (cases x) (auto simp: port_item_def dest: short_port_ok long_port_ok)
qed

text \<open>
  C32: the ports of an accepted document are well-formed: their numbers are between 1 and 65535,
  the protocol is one of tcp, udp and sctp and the mode ingress or host, in both notations.
\<close>

theorem accepted_ports_are_well_formed:
  assumes "ports_value raw = Inr ps"
  shows "list_all port_ok ps"
  using ports_value_ok [OF assms] by (simp add: list_all_iff)

text \<open>The short notation of a published port.\<close>

definition port_text :: "nat \<Rightarrow> nat \<Rightarrow> string \<Rightarrow> string" where
  "port_text published target protocol = str_nat published @ '':'' @ str_nat target @ ''/'' @ protocol"

lemma digits_no_char: "c \<in> set (str_nat n) \<Longrightarrow> is_digit c"
  using digits_of_nat_digits by (auto simp: str_nat_def)

lemma str_nat_nonempty: "str_nat n \<noteq> []"
  unfolding str_nat_def by (subst digits_of_nat.simps) simp

lemma digit_not: "is_digit c \<Longrightarrow> c \<noteq> CHR '':'' \<and> c \<noteq> CHR ''/'' \<and> \<not> is_space c \<and> c \<noteq> CHR ''-'' \<and> c \<noteq> CHR ''+''"
  by (auto simp: is_digit_def in_range_def is_space_def code_def)

lemma split_on_free: "c \<notin> set s \<Longrightarrow> split_on c s = [s]"
  by (induction s) auto

lemma split_on_two_parts: "c \<notin> set a \<Longrightarrow> c \<notin> set b \<Longrightarrow> split_on c (a @ c # b) = [a, b]"
  by (induction a) (auto simp: split_on_free)

lemma lstrip_id: "s \<noteq> [] \<Longrightarrow> \<not> is_space (hd s) \<Longrightarrow> lstrip s = s"
  by (cases s) (simp_all add: lstrip_def)

lemma strip_id: "s \<noteq> [] \<Longrightarrow> \<not> is_space (hd s) \<Longrightarrow> \<not> is_space (last s) \<Longrightarrow> strip s = s"
  by (simp add: strip_def lstrip_id hd_rev)

lemma digit_groups_digits: "\<forall>c\<in>set s. is_digit c \<Longrightarrow> digit_groups b s \<longleftrightarrow> s \<noteq> [] \<or> b"
  by (induction s arbitrary: b) auto

lemma int_of_str_nat: "int_of_text (str_nat n) = Some (int n)"
proof -
  have d: "\<forall>c\<in>set (str_nat n). is_digit c" using digits_no_char by blast
  have "strip (str_nat n) = str_nat n"
    using d digit_not str_nat_nonempty by (intro strip_id) auto
  moreover have "\<not> starts_with (str_nat n) ''-''" "\<not> starts_with (str_nat n) ''+''"
    using d digit_not str_nat_nonempty [of n] by (cases "str_nat n"; force simp: starts_with_def)+
  moreover have "filter is_digit (str_nat n) = str_nat n" using d by (simp add: filter_id_conv)
  moreover have "nat_of_digits (str_nat n) = n" by (simp add: str_nat_def)
  ultimately show ?thesis
    using digit_groups_digits [OF d] str_nat_nonempty by (simp add: int_of_text_def)
qed

lemma port_number_text: "port_number (VStr (str_nat n)) = port_number (VInt (int n))"
  by (simp add: port_number_def int_of_str_nat int_or_def)

lemma protocol_facts:
  assumes "protocol \<in> set PORT_PROTOCOLS"
  shows "protocol \<noteq> []" "CHR ''/'' \<notin> set protocol" "\<not> is_space (last protocol)"
  using assms by (auto simp: PORT_PROTOCOLS_def is_space_def code_def)

lemma rsplit_once_append: "c \<notin> set b \<Longrightarrow> rsplit_once c (a @ c # b) = (Some a, b)"
  using split_once_append [of c "rev b" "rev a"] by (simp add: rsplit_once_def)

text \<open>
  C33: the two notations of a port agree: the short form \<open>published:target/protocol\<close> is read exactly as
  the mapping with these three fields, for every pair of numbers, in range or not.
\<close>

theorem port_notations_agree:
  assumes "protocol \<in> {''tcp'', ''udp'', ''sctp''}"
  shows "short_port (port_text published target protocol) =
    long_port [(VStr ''target'', VInt (int target)), (VStr ''published'', VInt (int published)),
               (VStr ''protocol'', VStr protocol)]"
proof -
  have pr: "protocol \<in> set PORT_PROTOCOLS" using assms by (auto simp: PORT_PROTOCOLS_def)
  let ?b = "str_nat published @ CHR '':'' # str_nat target"
  have shape: "port_text published target protocol = ?b @ CHR ''/'' # protocol"
    by (simp add: port_text_def)
  have "hd (port_text published target protocol) = hd (str_nat published)"
    using str_nat_nonempty by (simp add: port_text_def)
  moreover have "\<not> is_space (hd (str_nat published))"
    using digits_no_char [of "hd (str_nat published)" published] digit_not str_nat_nonempty by simp
  ultimately have strip: "strip (port_text published target protocol) = port_text published target protocol"
    using protocol_facts [OF pr] by (intro strip_id) (simp_all add: port_text_def)
  have parts: "split_on (CHR '':'') ?b = [str_nat published, str_nat target]"
    using split_on_two_parts [of "CHR '':''" "str_nat published" "str_nat target"] digits_no_char digit_not by fastforce
  have rsplit: "rsplit_once (CHR ''/'') (port_text published target protocol) = (Some ?b, protocol)"
    unfolding shape by (rule rsplit_once_append) (rule protocol_facts(2) [OF pr])
  have ne: "port_text published target protocol \<noteq> []" by (simp add: port_text_def)
  have "short_port (port_text published target protocol) = port_binding protocol [str_nat published, str_nat target]"
    using pr ne by (simp add: short_port_def strip rsplit parts)
  moreover have "port_number (VInt (int n)) = (if 1 \<le> n \<and> n \<le> 65535 then Inr (int n) else port_error)" for n
    by (simp add: port_number_def int_or_def)
  ultimately show ?thesis
    using pr by (simp add: port_binding_def port_number_text long_port_def mget_def mget_default_def)
qed


section \<open>Validation before deployment\<close>

lemma rmap_all_Inr: "(\<And>x. x \<in> set xs \<Longrightarrow> \<exists>y. f x = Inr y) \<Longrightarrow> \<exists>ys. rmap f xs = Inr ys"
proof (induction xs)
  case (Cons x xs)
  from Cons.prems [of x] obtain y where "f x = Inr y" by auto
  moreover obtain ys where "rmap f xs = Inr ys" using Cons by auto
  ultimately show ?case by simp
qed simp

lemma rmap_in: "rmap f xs = Inr ys \<Longrightarrow> x \<in> set xs \<Longrightarrow> \<exists>y. f x = Inr y"
  by (induction xs arbitrary: ys) (auto simp: rbind_Inr_iff)

lemma mount_text_sources: "mount_text [] item = Inr t \<Longrightarrow> \<exists>t'. mount_text sources item = Inr t'"
  by (auto simp: mount_text_def Let_def split: if_split_asm)

lemma refuse_Inr_iff: "(if b then docker_error m else r) = Inr y \<longleftrightarrow> \<not> b \<and> r = Inr y"
  by simp

lemma mount_entry_sources: "mount_entry [] item = Inr t \<Longrightarrow> \<exists>t'. mount_entry sources item = Inr t'"
  unfolding mount_entry_def Let_def rbind_Inr_iff refuse_Inr_iff
  by (elim conjE exE) (rule exI, rule conjI, assumption, rule exI, rule conjI, assumption, intro conjI; (assumption | rule refl))

lemma mounts_sources:
  assumes "mounts_value [] raw = Inr ms"
  shows "\<exists>ms'. mounts_value sources raw = Inr ms'"
proof (cases raw)
  case (VList xs)
  have "\<exists>t. mount_item sources x = Inr t" if x: "x \<in> set xs" for x
  proof -
    obtain t where "mount_item [] x = Inr t"
      using rmap_in [of "mount_item []" xs ms x] x assms VList by (auto simp: mounts_value_def)
    then show ?thesis
      by (cases x) (auto simp: mount_item_def dest: mount_text_sources mount_entry_sources split: if_split_asm)
  qed
  then show ?thesis using VList by (simp add: mounts_value_def rmap_all_Inr)
qed (use assms in \<open>auto simp: mounts_value_def\<close>)

lemma compose_labels_any:
  "compose_labels a n raw None = Inr ls \<Longrightarrow> \<exists>ls'. compose_labels a' n' raw (Some ns) = Inr ls'"
  by (auto simp: compose_labels_def rbind_Inr_iff)

lemma optional_command_ok:
  "(if v = VNull then Inr VNull else command_value v) = Inr x \<Longrightarrow> \<exists>y. optional_command v = Inr y"
  by (simp add: optional_command_def split: if_split_asm)

lemma optional_shm_ok:
  "(if v = VNull then Inr [] else shm_mount parse_bytes v) = Inr x \<Longrightarrow> \<exists>y. optional_shm parse_bytes v = Inr y"
  by (simp add: optional_shm_def split: if_split_asm)

lemma working_dir_ok:
  "v = VNull \<or> is_str v \<and> starts_with (the_str v) ''/'' \<Longrightarrow> \<exists>y. working_dir v = Inr y"
  by (auto simp: working_dir_def)

text \<open>
  C31: validation is complete: a service that passes the checks made before the first Docker call
  never fails its conversion to a Swarm specification afterwards, whatever the application, the
  build, the network, the allocated ports and the physical names of its volumes are.
\<close>

theorem validated_service_converts:
  assumes "service_features parse_bytes services (name, service) = Inr ()"
  shows "\<exists>spec. service_kwargs parse_bytes build_id appid namespace name service network ports sources = Inr spec"
proof -
  have c: "convertible parse_bytes name service = Inr ()"
    using assms by (simp add: service_features_def rbind_Inr_iff)
  obtain env labels ms health mode restart resources where
    parts: "environment_entries (mget service ''environment'') = Inr env"
      "compose_labels ''validation'' name (mget service ''labels'') None = Inr labels"
      "mounts_value [] (mget service ''volumes'') = Inr ms"
      "healthcheck (mget service ''healthcheck'') = Inr health" "deploy_mode (mget service ''deploy'') = Inr mode"
      "restart_policy (mget service ''restart'') (mget service ''deploy'') = Inr restart"
      "deploy_resources parse_bytes (mget service ''deploy'') = Inr resources"
    using c unfolding convertible_def rbind_Inr_iff by blast
  have command: "\<exists>x. optional_command (mget service ''command'') = Inr x"
    using c unfolding convertible_def rbind_Inr_iff by (elim exE conjE) (rule optional_command_ok)
  have shm: "\<exists>x. optional_shm parse_bytes (mget service ''shm_size'') = Inr x"
    using c unfolding convertible_def rbind_Inr_iff by (elim exE conjE) (rule optional_shm_ok)
  have workdir: "\<exists>x. working_dir (mget service ''working_dir'') = Inr x"
    using c unfolding convertible_def rbind_Inr_iff rguard_Inr_iff by (elim exE conjE) (rule working_dir_ok)
  obtain labels' ms' where "compose_labels appid name (mget service ''labels'') (Some namespace) = Inr labels'"
    "mounts_value sources (mget service ''volumes'') = Inr ms'"
    using compose_labels_any [OF parts(2)] mounts_sources [OF parts(3)] by blast
  then show ?thesis
    using parts command workdir shm
    by (elim exE) (simp add: service_kwargs_def all_mounts_def Let_def)
qed


section \<open>Concrete runs\<close>

definition sample_services :: services where
  "sample_services =
     [(''web'', [(VStr ''image'', VStr ''a/web''), (VStr ''depends_on'', VList [VStr ''db'']),
                 (VStr ''ports'', VList [VStr ''8080:80'']),
                 (VStr ''environment'', VDict [(VStr ''MODE'', VStr ''live''), (VStr ''DEBUG'', VBool False)])]),
      (''db'', [(VStr ''image'', VStr ''a/db''), (VStr ''shm_size'', VStr ''64m''),
                (VStr ''volumes'', VList [VStr ''data:/var/lib/db'']), (VStr ''command'', VStr ''run'')])]"

definition sample_bytes :: "string \<Rightarrow> int res" where
  "sample_bytes s = (if s = ''64m'' then Inr 67108864 else Inl (Exn ValueError ''size''))"

lemma sample_dependencies: "dependency_map sample_services = Inr [(''web'', [''db'']), (''db'', [])]"
  by code_simp

theorem deployment_order_correct_witness:
  "deployment_order sample_services = Inr [''db'', ''web''] \<and>
   (\<nexists>S. blocked [(''web'', [''db'']), (''db'', [])] S)"
proof -
  have run: "deployment_order sample_services = Inr [''db'', ''web'']" by code_simp
  have "distinct (keys sample_services)" by code_simp
  from deployment_order_correct [OF this sample_dependencies] show ?thesis unfolding run by simp
qed

lemma sample_ports:
  "ports_value (VList [VStr ''8080:80/udp'', VStr ''53'', VDict [(VStr ''target'', VInt 443), (VStr ''mode'', VStr ''host'')]]) =
   Inr [\<lparr>pp_target_port = 80, pp_published_port = Some 8080, pp_protocol = ''udp'', pp_mode = ''ingress''\<rparr>,
        \<lparr>pp_target_port = 53, pp_published_port = None, pp_protocol = ''tcp'', pp_mode = ''ingress''\<rparr>,
        \<lparr>pp_target_port = 443, pp_published_port = None, pp_protocol = ''tcp'', pp_mode = ''host''\<rparr>]"
  by code_simp

theorem accepted_ports_are_well_formed_witness:
  "list_all port_ok
     [\<lparr>pp_target_port = 80, pp_published_port = Some 8080, pp_protocol = ''udp'', pp_mode = ''ingress''\<rparr>,
      \<lparr>pp_target_port = 53, pp_published_port = None, pp_protocol = ''tcp'', pp_mode = ''ingress''\<rparr>,
      \<lparr>pp_target_port = 443, pp_published_port = None, pp_protocol = ''tcp'', pp_mode = ''host''\<rparr>]"
  by (rule accepted_ports_are_well_formed [OF sample_ports])

theorem port_notations_agree_witness:
  "short_port (port_text 8080 80 ''udp'') =
     long_port [(VStr ''target'', VInt (int 80)), (VStr ''published'', VInt (int 8080)),
                (VStr ''protocol'', VStr ''udp'')]"
  by (rule port_notations_agree) simp

lemma sample_features: "service_features sample_bytes sample_services (''db'',
     [(VStr ''image'', VStr ''a/db''), (VStr ''shm_size'', VStr ''64m''),
      (VStr ''volumes'', VList [VStr ''data:/var/lib/db'']), (VStr ''command'', VStr ''run'')]) = Inr ()"
  by code_simp

theorem validated_service_converts_witness:
  "\<exists>spec. service_kwargs sample_bytes (Some ''b1'') ''shop'' ''shop'' ''db''
     [(VStr ''image'', VStr ''a/db''), (VStr ''shm_size'', VStr ''64m''),
      (VStr ''volumes'', VList [VStr ''data:/var/lib/db'']), (VStr ''command'', VStr ''run'')]
     ''orchestrator-net-shop'' [] [(''data'', ''shop-data'')] = Inr spec"
  by (rule validated_service_converts [OF sample_features])

end
