(* ===== verification/SwarmPorts.thy ===== *)
theory SwarmPorts
  imports Compose DockerCleanup
begin

text \<open>
  \<open>orchestrator/docker_services.py\<close>: the state of \<open>DockerSwarmAdapter\<close>, its client, what it reads
  off Docker objects, who owns them, and the allocation of published ports. The Docker client is a
  parameter: every call may change the world or raise; a missing object is \<open>None\<close>. Its
  collections have the methods of the Docker SDK, so the branches for older wrappers without
  \<open>list\<close>, \<open>get\<close> or \<open>tasks\<close> do not occur.
\<close>

section \<open>The adapter and its client\<close>

record swarm_env =
  sw_base_url :: "string option"
  sw_network_base :: string
  sw_host_root :: "string option"
  sw_shared_storage :: bool
  sw_range_start :: int
  sw_range_end :: int
  sw_timeout :: int
  sw_parse_bytes :: "string \<Rightarrow> int res"
  sw_connect :: "(world, unit) action"
  sw_info :: "(world, mapping) action"
  sw_list :: "docker_collection \<Rightarrow> docker_filter \<Rightarrow> (world, docker_object list) action"
  sw_get :: "docker_collection \<Rightarrow> string \<Rightarrow> (world, docker_object option) action"
  sw_create_volume :: "string \<Rightarrow> (string, string) dict \<Rightarrow> (world, docker_object) action"
  sw_create_network :: "string \<Rightarrow> bool \<Rightarrow> (string, string) dict \<Rightarrow> (world, docker_object) action"
  sw_create_service :: "string \<Rightarrow> string \<Rightarrow> service_spec \<Rightarrow> string list \<Rightarrow> (world, docker_object) action"
  sw_update_service :: "docker_object \<Rightarrow> string \<Rightarrow> service_spec \<Rightarrow> string list \<Rightarrow> (world, unit) action"
  sw_tasks :: "docker_object \<Rightarrow> (world, value) action"
  sw_sleep :: "(world, unit) action"

text \<open>The attributes \<open>deploy\<close> and \<open>deploy_build\<close> set on the adapter.\<close>

record adapter =
  ad_build_id :: "string option"
  ad_tracker :: "tracker option"
  ad_target :: string
  ad_node_id :: "value"

section \<open>Reading Docker objects\<close>

definition swarm_object_id :: "docker_object \<Rightarrow> string option" where
  "swarm_object_id ob =
     (case str_or (ob_id ob) None of
        Some i \<Rightarrow> Some i
      | None \<Rightarrow>
          if nonempty_str (mget (ob_attrs ob) ''ID'') then Some (the_str (mget (ob_attrs ob) ''ID''))
          else if nonempty_str (mget (ob_attrs ob) ''Id'') then Some (the_str (mget (ob_attrs ob) ''Id''))
          else None)"

definition service_name_from_object :: "docker_object \<Rightarrow> string option" where
  "service_name_from_object ob =
     (let inner = mget (the_dict (mget (ob_attrs ob) ''Spec'')) ''Name''; outer = mget (ob_attrs ob) ''Name'' in
      case str_or (ob_name ob) None of
        Some n \<Rightarrow> Some n
      | None \<Rightarrow>
          if nonempty_str inner then Some (the_str inner)
          else if nonempty_str outer then Some (the_str outer) else None)"

definition resource_labels :: "docker_object \<Rightarrow> mapping" where
  "resource_labels ob =
     (let spec = mget (ob_attrs ob) ''Spec'' in
      the_dict (if is_mapping spec then mget (the_dict spec) ''Labels'' else mget (ob_attrs ob) ''Labels''))"

definition assert_resource_owner :: "docker_object \<Rightarrow> string \<Rightarrow> string \<Rightarrow> unit res" where
  "assert_resource_owner ob appid namespace =
     (let labels = resource_labels ob; build = mget labels BUILD_LABEL in
      if starts_with namespace ''build-v1-'' \<and>
         \<not> (is_str build \<and> build_namespace appid (the_str build) = Inr namespace \<and>
            mget labels MANAGED_LABEL = VStr ''true'')
      then docker_error ''Build resource ownership could not be verified''
      else if mget labels APP_LABEL = VStr appid \<and> mget labels NAMESPACE_LABEL = VStr namespace then Inr ()
      else docker_error ''Docker resource ownership could not be verified; refusing to reuse or remove it'')"

section \<open>Recording\<close>

definition with_tracker :: "adapter \<Rightarrow> (tracker \<Rightarrow> (world, unit) action) \<Rightarrow> (world, unit) action" where
  "with_tracker ad f = (case ad_tracker ad of Some t \<Rightarrow> f t | None \<Rightarrow> ret ())"

text \<open>\<open>if self._tracker is not None: self._tracker.guard()\<close>.\<close>

definition swarm_guard :: "adapter \<Rightarrow> (world, unit) action" where
  "swarm_guard ad = with_tracker ad tracker_guard"

definition swarm_record ::
  "adapter \<Rightarrow> resource_kind \<Rightarrow> string \<Rightarrow> string option \<Rightarrow> resource_state \<Rightarrow> mapping \<Rightarrow> (world, unit) action" where
  "swarm_record ad kind name native_id state metadata =
     with_tracker ad (\<lambda>t.
       andthen (tracker_guard t)
       (andthen (tracker_record t kind name (ad_target ad) native_id state True
                  (dmerge [(VStr ''node_id'', ad_node_id ad)] metadata) None)
         (ret ())))"

definition tracked_identity :: "adapter \<Rightarrow> resource_kind \<Rightarrow> string \<Rightarrow> docker_object \<Rightarrow> build_resource \<Rightarrow> unit res" where
  "tracked_identity ad kind name ob r =
     (if rs_kind r = kind \<and> rs_target r = ad_target ad \<and> rs_name r = name \<and> str_or (rs_native_id r) None \<noteq> None
      then
        if rs_native_id r \<noteq> swarm_object_id ob
        then docker_error ''Build resource identity changed; refusing reuse''
        else if kind = KVolume then
          rbind (volume_creation_token ob) (\<lambda>token.
            if mget (rs_metadata r) ''creation_token'' \<noteq> VStr token
            then docker_error ''Build volume creation identity changed; refusing reuse'' else Inr ())
        else Inr ()
      else Inr ())"

definition assert_tracked_identity :: "adapter \<Rightarrow> resource_kind \<Rightarrow> string \<Rightarrow> docker_object \<Rightarrow> (world, unit) action" where
  "assert_tracked_identity ad kind name ob =
     with_tracker ad (\<lambda>t.
       andthen (tracker_guard t)
       (bd (get_build_resources (the (ad_build_id ad))) (\<lambda>manifest.
        case manifest of
          None \<Rightarrow> reraise attr_error
        | Some m \<Rightarrow> lift_res (rfor (vals (br_resources m)) (tracked_identity ad kind name ob)))))"

section \<open>Ports in use\<close>

type_synonym port_key = "int \<times> string \<times> string"

text \<open>What a build must avoid: it takes a port in both modes.\<close>

definition occupied_keys :: "adapter \<Rightarrow> int \<Rightarrow> string \<Rightarrow> string \<Rightarrow> port_key list" where
  "occupied_keys ad port protocol mode =
     (if ad_build_id ad \<noteq> None then [(port, protocol, ''ingress''), (port, protocol, ''host'')]
      else [(port, protocol, mode)])"

definition endpoint_port :: "adapter \<Rightarrow> value \<Rightarrow> port_key list res" where
  "endpoint_port ad raw =
     (if \<not> is_mapping raw \<or> mget (the_dict raw) ''PublishedPort'' = VNull then Inr []
      else
        (case port_number (mget (the_dict raw) ''PublishedPort'') of
           Inr n \<Rightarrow>
             (let protocol = mget_default (the_dict raw) ''Protocol'' (VStr ''tcp'');
                  mode = mget_default (the_dict raw) ''PublishMode'' (VStr ''ingress'') in
              Inr (if is_str protocol \<and> is_str mode then occupied_keys ad n (the_str protocol) (the_str mode) else []))
         | Inl e \<Rightarrow> if exn_class e = DockerServiceError then Inr [] else Inl e))"

definition service_ports_in_use :: "adapter \<Rightarrow> docker_object \<Rightarrow> port_key list res" where
  "service_ports_in_use ad ob =
     rbind (rmap (endpoint_port ad) (the_list (mget (the_dict (mget (ob_attrs ob) ''Endpoint'')) ''Ports'')))
       (\<lambda>ps. Inr (concat ps))"

definition ignored_service :: "string list \<Rightarrow> docker_object \<Rightarrow> bool" where
  "ignored_service names ob \<longleftrightarrow> (case service_name_from_object ob of Some n \<Rightarrow> n \<in> set names | None \<Rightarrow> False)"

text \<open>A container of a service that is being reconciled keeps its ports.\<close>

definition container_ports_in_use :: "adapter \<Rightarrow> string option list \<Rightarrow> docker_object \<Rightarrow> port_key list res" where
  "container_ports_in_use ad ignored_ids c =
     rbind (nested (ob_attrs c) [''Config'', ''Labels'']) (\<lambda>labels.
     let owner = mget labels SERVICE_ID_LABEL in
     if truthy owner \<and> (is_list owner \<or> is_mapping owner) then Inl (Exn TypeError ''unhashable type'')
     else if truthy owner \<and> is_str owner \<and> Some (the_str owner) \<in> set ignored_ids then Inr []
     else
       rbind (container_bound_ports c) (\<lambda>ps.
       Inr (concat (map (\<lambda>(n, protocol). [(n, protocol, ''ingress''), (n, protocol, ''host'')]) ps))))"

definition occupied_published_ports :: "swarm_env \<Rightarrow> adapter \<Rightarrow> string list \<Rightarrow> (world, port_key list) action" where
  "occupied_published_ports env ad ignored_names =
     bd (catching (sw_list env Services (False, []))
          (\<lambda>_. raise DockerServiceError ''Unable to inspect existing Docker service ports'')) (\<lambda>services.
     let ignored_ids = map swarm_object_id (filter (ignored_service ignored_names) services) in
     bd (lift_res (rmap (service_ports_in_use ad) (filter (\<lambda>s. \<not> ignored_service ignored_names s) services))) (\<lambda>published.
     bd (if ad_build_id ad \<noteq> None then
           catching
             (bd (sw_list env Containers (True, [])) (\<lambda>cs. lift_res (rmap (container_ports_in_use ad ignored_ids) cs)))
             (\<lambda>_. raise DockerServiceError ''Unable to inspect Docker container port bindings'')
         else ret []) (\<lambda>bound.
     ret (concat (published @ bound)))))"

section \<open>Allocation\<close>

definition swarm_reserve_port :: "adapter \<Rightarrow> int \<Rightarrow> string \<Rightarrow> string \<Rightarrow> (world, bool) action" where
  "swarm_reserve_port ad port protocol owner =
     (case (ad_tracker ad, ad_build_id ad) of
        (Some t, Some b) \<Rightarrow> andthen (tracker_guard t) (reserve_port (ad_target ad) protocol port b owner)
      | _ \<Rightarrow> ret True)"

text \<open>The first free candidate of the range that can be reserved.\<close>

fun first_candidate ::
  "adapter \<Rightarrow> port_key list \<Rightarrow> string \<Rightarrow> string \<Rightarrow> string \<Rightarrow> int list \<Rightarrow> (world, int option) action" where
  "first_candidate ad occupied protocol mode owner [] = ret None"
| "first_candidate ad occupied protocol mode owner (c # cs) =
     (if (c, protocol, mode) \<in> set occupied then first_candidate ad occupied protocol mode owner cs
      else
        bd (swarm_reserve_port ad c protocol owner) (\<lambda>ok.
        if ok then ret (Some c) else first_candidate ad occupied protocol mode owner cs))"

definition allocation_owner :: "string \<Rightarrow> nat \<Rightarrow> published_port \<Rightarrow> string" where
  "allocation_owner svc i p =
     svc @ '':'' @ str_nat i @ '':'' @ str_int (pp_target_port p) @ '':'' @ pp_mode p"

text \<open>A port this build already holds for the same publication replaces the requested one.\<close>

definition requested_port :: "adapter \<Rightarrow> string \<Rightarrow> published_port \<Rightarrow> (world, int option) action" where
  "requested_port ad owner p =
     (if ad_tracker ad = None then ret (pp_published_port p)
      else
        bd (list_build_ports (the (ad_build_id ad))) (\<lambda>items.
        case filter (\<lambda>((target, protocol, _), (_, svc)).
               target = ad_target ad \<and> protocol = pp_protocol p \<and> svc = owner) items of
          ((_, _, port), _) # _ \<Rightarrow> ret (Some port)
        | [] \<Rightarrow> ret (pp_published_port p)))"

definition choose_port ::
  "swarm_env \<Rightarrow> adapter \<Rightarrow> port_key list \<Rightarrow> string \<Rightarrow> published_port \<Rightarrow> (world, int option) action" where
  "choose_port env ad occupied owner p =
     bd (requested_port ad owner p) (\<lambda>requested.
     bd (case requested of
           Some n \<Rightarrow> if (n, pp_protocol p, pp_mode p) \<in> set occupied then ret False
                     else swarm_reserve_port ad n (pp_protocol p) owner
         | None \<Rightarrow> ret False) (\<lambda>kept.
     if kept then ret requested
     else first_candidate ad occupied (pp_protocol p) (pp_mode p) owner [sw_range_start env..sw_range_end env]))"

definition allocate_port ::
  "swarm_env \<Rightarrow> adapter \<Rightarrow> string \<Rightarrow> nat \<Rightarrow> port_key list \<Rightarrow> published_port \<Rightarrow> (world, published_port) action" where
  "allocate_port env ad svc i occupied p =
     bd (choose_port env ad occupied (allocation_owner svc i p) p) (\<lambda>chosen.
     case chosen of
       None \<Rightarrow> raise DockerServiceError ''No available published port for Docker service''
     | Some n \<Rightarrow>
         andthen (swarm_record ad KPort (str_int n @ ''/'' @ pp_protocol p) None Present
                   [(VStr ''port'', VInt n), (VStr ''protocol'', VStr (pp_protocol p)),
                    (VStr ''service_name'', VStr svc)])
           (ret (p\<lparr>pp_published_port := Some n\<rparr>)))"

definition port_key :: "published_port \<Rightarrow> port_key" where
  "port_key p = (the (pp_published_port p), pp_protocol p, pp_mode p)"

text \<open>The rounds of the loop from index \<open>i\<close> on; the allocated ports become occupied.\<close>

fun allocate_from ::
  "swarm_env \<Rightarrow> adapter \<Rightarrow> string \<Rightarrow> nat \<Rightarrow> port_key list \<Rightarrow> published_port list \<Rightarrow> (world, published_port list) action" where
  "allocate_from env ad svc i occupied [] = ret []"
| "allocate_from env ad svc i occupied (p # ps) =
     bd (allocate_port env ad svc i occupied p) (\<lambda>a.
     bd (allocate_from env ad svc (Suc i) (port_key a # occupied) ps) (\<lambda>rest. ret (a # rest)))"

definition allocate_ports ::
  "swarm_env \<Rightarrow> adapter \<Rightarrow> string \<Rightarrow> port_key list \<Rightarrow> published_port list \<Rightarrow> (world, published_port list) action" where
  "allocate_ports env ad svc = allocate_from env ad svc 0"

end
