(* ===== verification/SwarmDeploy.thy ===== *)
theory SwarmDeploy
  imports SwarmPorts
begin

text \<open>
  \<open>orchestrator/docker_services.py\<close>: the deployment of a Compose document by
  \<open>DockerSwarmAdapter.deploy\<close>: volumes, network, one service after the other in dependency
  order with the wait for its tasks, the removal of services of an earlier revision, and the
  rollback. The calls that remove something are kept apart from the rest of the client.
\<close>

record swarm_remover =
  sr_service :: "docker_object \<Rightarrow> (world, unit) action"
  sr_network :: "docker_object \<Rightarrow> (world, unit) action"

record service_deployment =
  sd_service_id :: string
  sd_service_name :: string
  sd_image :: string
  sd_created :: bool
  sd_endpoint :: "string option"
  sd_ports :: "published_port list"

definition to_model :: "string \<Rightarrow> string \<Rightarrow> instant \<Rightarrow> service_deployment \<Rightarrow> deployment_service" where
  "to_model appid build_id now d =
     \<lparr>sv_service_id = sd_service_id d, sv_appid = appid, sv_build_id = build_id,
      sv_service_name = sd_service_name d, sv_image = sd_image d, sv_status = ''deployed'',
      sv_endpoint = sd_endpoint d, sv_published_ports = sd_ports d, sv_created_at = now, sv_updated_at = now\<rparr>"

section \<open>Volumes and network\<close>

definition swarm_labels :: "adapter \<Rightarrow> string \<Rightarrow> string \<Rightarrow> string \<Rightarrow> (string, string) dict" where
  "swarm_labels ad appid namespace logical_name = build_labels (ad_build_id ad) appid namespace logical_name"

definition prepare_volume ::
  "swarm_env \<Rightarrow> adapter \<Rightarrow> string \<Rightarrow> string \<Rightarrow> string \<times> string \<Rightarrow> (world, unit) action" where
  "prepare_volume env ad appid namespace an =
     (let name = snd an; metadata = [(VStr ''alias'', VStr (fst an))] in
      andthen (swarm_record ad KVolume name None Planned metadata)
      (bd (catching (sw_get env Volumes name) (\<lambda>_. raise DockerServiceError ''Unable to inspect build volume'')) (\<lambda>found.
       bd (case found of
             Some v \<Rightarrow> ret v
           | None \<Rightarrow>
               andthen (case ad_tracker ad of Some t \<Rightarrow> tracker_guard t | None \<Rightarrow> reraise attr_error)
                 (sw_create_volume env name (swarm_labels ad appid namespace (fst an)))) (\<lambda>v.
       andthen (lift_res (assert_resource_owner v appid namespace))
       (andthen (assert_tracked_identity ad KVolume name v)
       (bd (lift_res (volume_creation_token v)) (\<lambda>token.
        swarm_record ad KVolume name (str_or (swarm_object_id v) (Some name)) Present
          (metadata @ [(VStr ''creation_token'', VStr token)]))))))))"

definition prepare_build_volumes ::
  "swarm_env \<Rightarrow> adapter \<Rightarrow> string \<Rightarrow> string \<Rightarrow> (string, string) dict \<Rightarrow> (world, unit) action" where
  "prepare_build_volumes env ad appid namespace sources = for_each sources (prepare_volume env ad appid namespace)"

text \<open>The name, the identity and whether the network was created here.\<close>

definition ensure_network ::
  "swarm_env \<Rightarrow> adapter \<Rightarrow> string \<Rightarrow> string \<Rightarrow> (world, string \<times> string \<times> bool) action" where
  "ensure_network env ad appid namespace =
     bd (lift_res (network_name (sw_network_base env) namespace)) (\<lambda>name.
     andthen (swarm_record ad KNetwork name None Planned [])
     (bd (catching (sw_get env Networks name) (\<lambda>_. raise DockerServiceError ''Unable to inspect Docker network'')) (\<lambda>found.
      bd (case found of
            Some n \<Rightarrow>
              andthen (lift_res (assert_resource_owner n appid namespace))
              (andthen (assert_tracked_identity ad KNetwork name n) (ret n))
          | None \<Rightarrow>
              catching
                (andthen (swarm_guard ad)
                  (sw_create_network env name (ad_build_id ad = None) (swarm_labels ad appid namespace ''default'')))
                (\<lambda>_. raise DockerServiceError ''Unable to create Docker network'')) (\<lambda>n.
      andthen (swarm_record ad KNetwork name (swarm_object_id n) Present [])
        (ret (name, the (str_or (swarm_object_id n) (Some name)), found = None))))))"

section \<open>One service\<close>

definition compose_service_metadata :: "string \<Rightarrow> mapping" where
  "compose_service_metadata compose_name = [(VStr ''compose_service'', VStr compose_name)]"

text \<open>The \<open>Mounts\<close> of a running service, where they can be read.\<close>

definition existing_mounts :: "docker_object \<Rightarrow> value list option" where
  "existing_mounts ob =
     (let container = mget (the_dict (mget (the_dict (mget (ob_attrs ob) ''Spec'')) ''TaskTemplate'')) ''ContainerSpec''
      in if \<not> is_mapping container then None
         else
           (let mounts = mget_default (the_dict container) ''Mounts'' (VList []) in
            if is_list mounts then Some (the_list mounts) else None))"

definition workspace_mounted :: "string \<Rightarrow> service_spec \<Rightarrow> bool" where
  "workspace_mounted root spec \<longleftrightarrow>
     list_ex (\<lambda>m. is_str m \<and> starts_with (the_str m) (root @ ''/'')) (sp_mounts spec)"

text \<open>A workspace that is not shared storage pins the service to this node.\<close>

definition workspace_constraints :: "swarm_env \<Rightarrow> service_spec \<Rightarrow> (world, string list) action" where
  "workspace_constraints env spec =
     (case sw_host_root env of
        Some root \<Rightarrow>
          if sw_shared_storage env \<or> \<not> workspace_mounted root spec then ret []
          else if (case str_or (sw_base_url env) None of Some u \<Rightarrow> \<not> starts_with u ''unix://'' | None \<Rightarrow> False)
          then raise DockerServiceError ''Workspace mounts on a remote Docker engine require configured shared workspace storage''
          else
            bd (catching (bd (sw_info env) (\<lambda>info. lift_res (swarm_node info)))
                  (\<lambda>_. raise DockerServiceError ''Unable to determine the workspace storage Swarm node'')) (\<lambda>node.
            if \<not> truthy node then raise DockerServiceError ''Workspace storage node is not a Swarm member''
            else ret [''node.id=='' @ py_str node])
      | None \<Rightarrow> ret [])"

record rollout =
  ro_appid :: string
  ro_namespace :: string
  ro_network :: string
  ro_sources :: "(string, string) dict"
  ro_shared :: "string list"

definition assert_reusable ::
  "adapter \<Rightarrow> rollout \<Rightarrow> string \<Rightarrow> mapping \<Rightarrow> string \<Rightarrow> docker_object \<Rightarrow> (world, unit) action" where
  "assert_reusable ad ro compose_name service name ob =
     andthen (lift_res (assert_resource_owner ob (ro_appid ro) (ro_namespace ro)))
     (andthen (assert_tracked_identity ad KService name ob)
     (bd (lift_res (template_component (ro_appid ro) (ro_namespace ro) compose_name service)) (\<lambda>component.
      lift_res (assert_rebinding_safe (existing_mounts ob) service (ro_sources ro)
        (if (case component of Some c \<Rightarrow> c \<noteq> [] | None \<Rightarrow> False) then [] else ro_shared ro)))))"

definition put_service ::
  "swarm_env \<Rightarrow> string \<Rightarrow> string \<Rightarrow> service_spec \<Rightarrow> string list \<Rightarrow> docker_object option
     \<Rightarrow> (world, docker_object) action" where
  "put_service env img name spec constraints existing =
     catching
       (case existing of
          None \<Rightarrow> sw_create_service env img name spec constraints
        | Some ob \<Rightarrow> andthen (sw_update_service env ob img spec constraints) (ret ob))
       (\<lambda>_. raise DockerServiceError ''Unable to create or update Docker service'')"

definition find_existing :: "swarm_env \<Rightarrow> string \<Rightarrow> (world, docker_object option) action" where
  "find_existing env name =
     catching (sw_get env Services name) (\<lambda>_. raise DockerServiceError ''Unable to inspect Docker service'')"

definition deploy_one ::
  "swarm_env \<Rightarrow> adapter \<Rightarrow> rollout \<Rightarrow> port_key list \<Rightarrow> string \<Rightarrow> mapping
     \<Rightarrow> (world, service_deployment \<times> port_key list) action" where
  "deploy_one env ad ro occupied compose_name service =
     andthen (lift_res (validate_service_name compose_name))
     (andthen (lift_res (validate_service_image service))
     (bd (lift_res (deployment_service_name (ro_appid ro) (ro_namespace ro) compose_name service)) (\<lambda>name.
      let img = the_str (mget service ''image'') in
      andthen (swarm_record ad KService name None Planned (compose_service_metadata compose_name))
      (andthen (swarm_record ad KLocalImage img None Planned [])
      (bd (lift_res (ports_value (mget service ''ports''))) (\<lambda>wanted.
       bd (allocate_ports env ad name occupied wanted) (\<lambda>ports.
       bd (lift_res (service_kwargs (sw_parse_bytes env) (ad_build_id ad) (ro_appid ro) (ro_namespace ro)
             compose_name service (ro_network ro) ports (ro_sources ro))) (\<lambda>spec.
       bd (workspace_constraints env spec) (\<lambda>workspace.
       bd (find_existing env name) (\<lambda>existing.
       andthen (case existing of Some ob \<Rightarrow> assert_reusable ad ro compose_name service name ob | None \<Rightarrow> ret ())
       (andthen (if ad_build_id ad \<noteq> None then swarm_guard ad else ret ())
       (bd (put_service env img name spec
             (if ad_build_id ad \<noteq> None then [''node.id=='' @ py_str (ad_node_id ad)] else workspace) existing) (\<lambda>ob.
        let service_id = the (str_or (swarm_object_id ob) (Some name)) in
        andthen (swarm_record ad KService name (Some service_id) Present (compose_service_metadata compose_name))
          (ret (\<lparr>sd_service_id = service_id, sd_service_name = name, sd_image = img,
                 sd_created = (existing = None), sd_endpoint = service_endpoint name ports, sd_ports = ports\<rparr>,
                map port_key ports @ occupied)))))))))))))))"

section \<open>Waiting for the tasks of a service\<close>

definition desired_task_count :: "docker_object \<Rightarrow> int" where
  "desired_task_count ob =
     (let mode = mget (the_dict (mget (ob_attrs ob) ''Spec'')) ''Mode'';
          replicated = mget (the_dict mode) ''Replicated'' in
      if \<not> is_mapping replicated then 1
      else
        (case mget_default (the_dict replicated) ''Replicas'' (VInt 1) of
           VInt n \<Rightarrow> if 0 \<le> n then n else 1
         | _ \<Rightarrow> 1))"

definition task_status :: "mapping \<Rightarrow> mapping" where
  "task_status task = the_dict (mget task ''Status'')"

definition task_state :: "mapping \<Rightarrow> string" where
  "task_state task = py_str (mget_default (task_status task) ''State'' (VStr ''unknown''))"

definition task_wanted :: "mapping \<Rightarrow> bool" where
  "task_wanted task \<longleftrightarrow> py_str (mget_default task ''DesiredState'' (VStr ''running'')) \<in> {''running'', ''ready''}"

definition task_running :: "mapping \<Rightarrow> bool" where
  "task_running task \<longleftrightarrow> task_wanted task \<and> task_state task = ''running''"

definition task_in_progress :: "mapping \<Rightarrow> bool" where
  "task_in_progress task \<longleftrightarrow> task_wanted task \<and>
     task_state task \<in> set [''new'', ''allocated'', ''pending'', ''assigned'', ''accepted'', ''preparing'', ''ready'', ''starting'']"

definition task_failed :: "mapping \<Rightarrow> bool" where
  "task_failed task \<longleftrightarrow> task_state task \<in> {''failed'', ''rejected''} \<and>
     (let err = (if truthy (mget (task_status task) ''Err'') then mget (task_status task) ''Err''
                 else mget (task_status task) ''Message'')
      in is_str err \<and> strip (the_str err) \<noteq> [])"

definition count_tasks :: "(mapping \<Rightarrow> bool) \<Rightarrow> value list \<Rightarrow> int" where
  "count_tasks p tasks = int (length (filter (\<lambda>t. is_mapping t \<and> p (the_dict t)) tasks))"

text \<open>One look at the tasks: ready, failed for good, or neither.\<close>

definition poll_tasks :: "swarm_env \<Rightarrow> adapter \<Rightarrow> docker_object \<Rightarrow> int \<Rightarrow> (world, bool) action" where
  "poll_tasks env ad ob desired =
     andthen (swarm_guard ad)
     (bd (catching (sw_tasks env ob) (\<lambda>_. raise DockerServiceError ''Unable to inspect Docker tasks'')) (\<lambda>tasks.
      if \<not> is_list tasks then raise DockerServiceError ''Docker returned invalid tasks''
      else if desired \<le> count_tasks task_running (the_list tasks) then ret True
      else if max 2 desired \<le> count_tasks task_failed (the_list tasks) \<and> count_tasks task_in_progress (the_list tasks) = 0
      then raise DockerServiceError ''Docker service failed to start''
      else ret False))"

text \<open>The rounds are fuel; \<open>None\<close> says that they were not enough.\<close>

fun ready_rounds ::
  "nat \<Rightarrow> swarm_env \<Rightarrow> adapter \<Rightarrow> docker_object \<Rightarrow> int \<Rightarrow> instant \<Rightarrow> (world, unit option) action" where
  "ready_rounds 0 env ad ob desired deadline = ret None"
| "ready_rounds (Suc n) env ad ob desired deadline =
     bd (poll_tasks env ad ob desired) (\<lambda>ready.
     if ready then ret (Some ())
     else
       bd utc_now (\<lambda>now.
       if deadline \<le> now then raise DockerServiceError ''Docker service did not reach running state''
       else andthen (sw_sleep env) (ready_rounds n env ad ob desired deadline)))"

definition wait_for_service_ready :: "swarm_env \<Rightarrow> adapter \<Rightarrow> string \<Rightarrow> (world, unit option) action" where
  "wait_for_service_ready env ad name =
     bd (find_existing env name) (\<lambda>found.
     case found of
       None \<Rightarrow> raise DockerServiceError ''Unable to inspect Docker service: service was not found''
     | Some ob \<Rightarrow>
         if desired_task_count ob = 0 then ret (Some ())
         else bd utc_now (\<lambda>now.
           ready_rounds (Suc (nat (sw_timeout env))) env ad ob (desired_task_count ob) (now + sw_timeout env)))"

text \<open>Within the deployment a wait that runs out of rounds counts as a failure. It cannot happen
  where sleeping moves the clock on.\<close>

definition await_ready :: "swarm_env \<Rightarrow> adapter \<Rightarrow> string \<Rightarrow> (world, unit) action" where
  "await_ready env ad name =
     bd (wait_for_service_ready env ad name) (\<lambda>r.
     case r of Some u \<Rightarrow> ret u | None \<Rightarrow> raise OtherError ''out of rounds'')"

section \<open>Removing what disappeared, and the rollback\<close>

definition stale_candidate ::
  "string \<Rightarrow> string \<Rightarrow> string list \<Rightarrow> docker_object \<Rightarrow> (docker_object \<times> string) list res" where
  "stale_candidate appid namespace desired ob =
     (case service_name_from_object ob of
        None \<Rightarrow> Inr []
      | Some name \<Rightarrow>
          if name \<in> set desired then Inr []
          else rbind (assert_resource_owner ob appid namespace) (\<lambda>_. Inr [(ob, name)]))"

text \<open>\<open>_is_not_found\<close>: Docker's \<open>NotFound\<close> is an exception of class \<open>KeyError\<close> here; the code treats
  the two alike. Reads give it as \<open>None\<close>.\<close>

definition is_not_found :: "exn \<Rightarrow> bool" where
  "is_not_found e \<longleftrightarrow> exn_class e = KeyError"

text \<open>A stale service is read again under its immutable identity before it is removed.\<close>

definition remove_stale ::
  "swarm_env \<Rightarrow> swarm_remover \<Rightarrow> string \<Rightarrow> string \<Rightarrow> docker_object \<times> string \<Rightarrow> (world, unit) action" where
  "remove_stale env rm appid namespace sn =
     catching
       (case swarm_object_id (fst sn) of
          None \<Rightarrow> raise DockerServiceError ''Docker service has no immutable ID; refusing stale cleanup''
        | Some i \<Rightarrow>
            bd (sw_get env Services i) (\<lambda>found.
            case found of
              None \<Rightarrow> ret ()
            | Some ob \<Rightarrow>
                if swarm_object_id ob \<noteq> Some i
                then raise DockerServiceError ''Docker service identity changed; refusing stale cleanup''
                else andthen (lift_res (assert_resource_owner ob appid namespace)) (sr_service rm ob)))
       (\<lambda>e. if is_not_found e then ret () else raise DockerServiceError ''Unable to remove stale Docker service'')"

definition cleanup_stale_services ::
  "swarm_env \<Rightarrow> swarm_remover \<Rightarrow> string \<Rightarrow> string \<Rightarrow> string list \<Rightarrow> (world, unit) action" where
  "cleanup_stale_services env rm appid namespace desired =
     bd (catching (sw_list env Services (False, [(''label'', [APP_LABEL @ ''='' @ appid])]))
          (\<lambda>_. raise DockerServiceError ''Unable to list Docker services'')) (\<lambda>services.
     bd (lift_res (rmap (stale_candidate appid namespace desired) services)) (\<lambda>stale.
     for_each (concat stale) (remove_stale env rm appid namespace)))"

text \<open>One created service of a failed deployment: was it removed?\<close>

definition rollback_service ::
  "swarm_env \<Rightarrow> swarm_remover \<Rightarrow> string \<Rightarrow> string \<Rightarrow> service_deployment \<Rightarrow> (world, bool) action" where
  "rollback_service env rm appid namespace d =
     bd (attempt (sw_get env Services (sd_service_id d))) (\<lambda>found.
     case found of
       Inl _ \<Rightarrow> ret False
     | Inr None \<Rightarrow> ret True
     | Inr (Some ob) \<Rightarrow>
         if swarm_object_id ob \<noteq> Some (sd_service_id d) then ret False
         else if \<not> is_ok (assert_resource_owner ob appid namespace) then ret False
         else bd (attempt (sr_service rm ob)) (\<lambda>removed. ret (is_ok removed)))"

fun rollback_services ::
  "swarm_env \<Rightarrow> swarm_remover \<Rightarrow> string \<Rightarrow> string \<Rightarrow> service_deployment list \<Rightarrow> (world, bool) action" where
  "rollback_services env rm appid namespace [] = ret True"
| "rollback_services env rm appid namespace (d # ds) =
     bd (rollback_service env rm appid namespace d) (\<lambda>removed.
     bd (rollback_services env rm appid namespace ds) (\<lambda>rest. ret (removed \<and> rest)))"

text \<open>A wrapper that takes no filters raises \<open>TypeError\<close>; then all services are listed.\<close>

definition network_has_other_services :: "swarm_env \<Rightarrow> string \<Rightarrow> string list \<Rightarrow> (world, bool) action" where
  "network_has_other_services env name removed_ids =
     bd (attempt (catching (sw_list env Services (False, [(''network'', [name])]))
                   (\<lambda>e. if exn_class e = TypeError then sw_list env Services (False, []) else reraise e))) (\<lambda>listed.
     case listed of
       Inl _ \<Rightarrow> ret True
     | Inr services \<Rightarrow> ret (list_ex (\<lambda>s. swarm_object_id s \<notin> Some ` set removed_ids) services))"

definition rollback_network ::
  "swarm_env \<Rightarrow> swarm_remover \<Rightarrow> string \<Rightarrow> string \<Rightarrow> string \<Rightarrow> (world, unit) action" where
  "rollback_network env rm appid namespace network_id =
     catching
       (bd (sw_get env Networks network_id) (\<lambda>found.
        case found of
          None \<Rightarrow> ret ()
        | Some ob \<Rightarrow>
            if swarm_object_id ob \<noteq> Some network_id then ret ()
            else andthen (lift_res (assert_resource_owner ob appid namespace)) (sr_network rm ob)))
       (\<lambda>_. ret ())"

definition rollback_deployment ::
  "swarm_env \<Rightarrow> swarm_remover \<Rightarrow> string \<Rightarrow> string \<Rightarrow> string \<times> string \<times> bool \<Rightarrow> service_deployment list
     \<Rightarrow> (world, unit) action" where
  "rollback_deployment env rm appid namespace network created =
     bd (rollback_services env rm appid namespace (rev created)) (\<lambda>all_removed.
     if \<not> snd (snd network) \<or> \<not> all_removed then ret ()
     else
       bd (network_has_other_services env (fst network) (map sd_service_id created)) (\<lambda>others.
       if others then ret () else rollback_network env rm appid namespace (fst (snd network))))"

section \<open>The deployment\<close>

text \<open>After a service is put: the wait for its tasks and the record of its image.\<close>

definition settle_service :: "swarm_env \<Rightarrow> adapter \<Rightarrow> service_deployment \<Rightarrow> (world, unit) action" where
  "settle_service env ad d =
     andthen (await_ready env ad (sd_service_name d))
       (if ad_build_id ad = None then ret ()
        else
          bd (sw_get env Images (sd_image d)) (\<lambda>found.
          case found of
            None \<Rightarrow> raise KeyError ''docker.errors.ImageNotFound''
          | Some i \<Rightarrow> swarm_record ad KLocalImage (sd_image d) (ob_id i) Present []))"

text \<open>
  The loop over the services: what was raised, if anything was, the deployments that were completed, and
  the services that were created. It raises nothing itself.
\<close>

fun rollout_services ::
  "swarm_env \<Rightarrow> adapter \<Rightarrow> rollout \<Rightarrow> services \<Rightarrow> string list \<Rightarrow> port_key list
     \<Rightarrow> service_deployment list \<Rightarrow> service_deployment list
     \<Rightarrow> (world, exn option \<times> service_deployment list \<times> service_deployment list) action" where
  "rollout_services env ad ro services [] occupied done created = ret (None, done, created)"
| "rollout_services env ad ro services (n # ns) occupied done created =
     bd (attempt (deploy_one env ad ro occupied n (the (dget services n)))) (\<lambda>put.
     case put of
       Inl e \<Rightarrow> ret (Some e, done, created)
     | Inr (d, occupied') \<Rightarrow>
         (let created' = (if sd_created d then created @ [d] else created) in
          bd (attempt (settle_service env ad d)) (\<lambda>settled.
          case settled of
            Inl e \<Rightarrow> ret (Some e, done, created')
          | Inr _ \<Rightarrow> rollout_services env ad ro services ns occupied' (done @ [d]) created')))"

definition finish_rollout ::
  "swarm_env \<Rightarrow> swarm_remover \<Rightarrow> adapter \<Rightarrow> rollout \<Rightarrow> exn option \<times> service_deployment list \<times> service_deployment list
     \<Rightarrow> (world, exn option) action" where
  "finish_rollout env rm ad ro outcome =
     (case outcome of (failure, done, created) \<Rightarrow>
        if failure \<noteq> None \<or> ad_build_id ad \<noteq> None then ret failure
        else
          bd (attempt (cleanup_stale_services env rm (ro_appid ro) (ro_namespace ro) (map sd_service_name done))) (\<lambda>r.
          ret (case r of Inl e \<Rightarrow> Some e | Inr _ \<Rightarrow> None)))"

text \<open>\<open>if self._tracker is None or self._tracker.owner is not None\<close>: a worker without the lease of the
  build rolls nothing back.\<close>

definition rollback_rollout ::
  "swarm_env \<Rightarrow> swarm_remover \<Rightarrow> adapter \<Rightarrow> rollout \<Rightarrow> string \<times> string \<times> bool \<Rightarrow> service_deployment list
     \<Rightarrow> (world, unit) action" where
  "rollback_rollout env rm ad ro network created =
     (if (case ad_tracker ad of Some t \<Rightarrow> tr_owner t = None | None \<Rightarrow> False) then ret ()
      else
        andthen (swarm_guard ad)
          (rollback_deployment env rm (ro_appid ro) (ro_namespace ro) network created))"

text \<open>The order is computed within the block that rolls back; the validation has computed it before,
  so it cannot raise here.\<close>

definition run_rollout ::
  "swarm_env \<Rightarrow> swarm_remover \<Rightarrow> adapter \<Rightarrow> rollout \<Rightarrow> services \<Rightarrow> port_key list \<Rightarrow> string \<times> string \<times> bool
     \<Rightarrow> (world, service_deployment list) action" where
  "run_rollout env rm ad ro services occupied network =
     bd (lift_res (deployment_order services)) (\<lambda>order.
     bd (rollout_services env ad ro services order occupied [] []) (\<lambda>outcome.
     bd (finish_rollout env rm ad ro outcome) (\<lambda>failure.
     case failure of
       None \<Rightarrow> ret (fst (snd outcome))
     | Some e \<Rightarrow> andthen (rollback_rollout env rm ad ro network (snd (snd outcome))) (reraise e))))"

text \<open>In a build the storage node is read first, and the volumes are created on it.\<close>

definition enter_swarm ::
  "swarm_env \<Rightarrow> adapter \<Rightarrow> string \<Rightarrow> string \<Rightarrow> (string, string) dict \<Rightarrow> (world, adapter) action" where
  "enter_swarm env ad appid namespace sources =
     (if ad_build_id ad = None then ret ad
      else
        bd (sw_info env) (\<lambda>info.
        bd (lift_res (swarm_node info)) (\<lambda>node.
        if \<not> truthy node then raise DockerServiceError ''Build isolation requires an identifiable Swarm storage node''
        else
          (let identity = (if truthy (mget info ''ID'') then mget info ''ID'' else node);
               ad' = ad\<lparr>ad_node_id := node, ad_target := ''docker:'' @ py_str identity\<rparr> in
           andthen (prepare_build_volumes env ad' appid namespace sources) (ret ad')))))"

record deploy_plan =
  pl_namespace :: string
  pl_services :: services
  pl_sources :: "(string, string) dict"
  pl_names :: "string list"

text \<open>Everything that is decided before the first call to Docker.\<close>

definition plan_deployment :: "swarm_env \<Rightarrow> adapter \<Rightarrow> string \<Rightarrow> value \<Rightarrow> deploy_plan res" where
  "plan_deployment env ad appid compose =
     rbind (case ad_build_id ad of Some b \<Rightarrow> build_namespace appid b | None \<Rightarrow> app_namespace appid) (\<lambda>namespace.
     rbind (validate_compose (sw_parse_bytes env) True compose) (\<lambda>_.
     rbind (compose_services compose) (\<lambda>services.
     rbind (validate_unique_names appid namespace services) (\<lambda>_.
     rbind (volume_sources compose namespace) (\<lambda>sources.
     rbind (if ad_build_id ad \<noteq> None then build_volumes namespace sources else Inr sources) (\<lambda>sources.
     rbind (rmap (\<lambda>ns. deployment_service_name appid namespace (fst ns) (snd ns)) services) (\<lambda>names.
     Inr \<lparr>pl_namespace = namespace, pl_services = services, pl_sources = sources, pl_names = names\<rparr>)))))))"

definition deploy :: "swarm_env \<Rightarrow> swarm_remover \<Rightarrow> adapter \<Rightarrow> string \<Rightarrow> value
     \<Rightarrow> (world, string \<times> service_deployment list) action" where
  "deploy env rm ad appid compose =
     bd (lift_res (plan_deployment env ad appid compose)) (\<lambda>plan.
     andthen (sw_connect env)
     (bd (enter_swarm env ad appid (pl_namespace plan) (pl_sources plan)) (\<lambda>ad.
      bd (occupied_published_ports env ad (pl_names plan)) (\<lambda>occupied.
      bd (ensure_network env ad appid (pl_namespace plan)) (\<lambda>network.
      bd (run_rollout env rm ad
            \<lparr>ro_appid = appid, ro_namespace = pl_namespace plan, ro_network = fst (snd network),
             ro_sources = pl_sources plan, ro_shared = shared_volume_aliases compose\<rparr>
            (pl_services plan) occupied network) (\<lambda>deployments.
      ret (fst network, deployments)))))))"

end
