(* ===== verification/SwarmSafety.thy ===== *)
theory SwarmSafety
  imports SwarmDeploy Polling ComposeSafety
begin

text \<open>
  What a Swarm deployment guarantees: the ports it allocates are free and reserved, the wait for
  the tasks of a service ends and notices in time that they run, a deployment that returns has
  every service of the document up in dependency order, and it removes nothing but what belongs
  to the application and, in a build, what the failed attempt itself created.
\<close>

section \<open>Ports\<close>

text \<open>Reservations other than a release are only added.\<close>

definition allocations_kept :: "world \<Rightarrow> world \<Rightarrow> bool" where
  "allocations_kept w w' \<longleftrightarrow> (\<forall>k v. dget (w_port_allocations w) k = Some v \<longrightarrow> dget (w_port_allocations w') k = Some v)"

interpretation pa: step_guarantee allocations_kept
  by unfold_locales (auto simp: allocations_kept_def)

definition port_held :: "adapter \<Rightarrow> int \<Rightarrow> string \<Rightarrow> string \<Rightarrow> world \<Rightarrow> bool" where
  "port_held ad n protocol owner w \<longleftrightarrow>
     (case (ad_tracker ad, ad_build_id ad) of
        (Some t, Some b) \<Rightarrow> dget (w_port_allocations w) (ad_target ad, protocol, n) = Some (b, owner)
      | _ \<Rightarrow> True)"

lemma port_held_kept: "port_held ad n protocol owner w \<Longrightarrow> allocations_kept w w' \<Longrightarrow> port_held ad n protocol owner w'"
  by (auto simp: port_held_def allocations_kept_def split: option.splits)

lemma kept_guard: "keeps allocations_kept (tracker_guard t)"
  by (rule keepsI) (simp add: allocations_kept_def)

lemma put_resources_allocations [simp]: "w_port_allocations (put_resources_doc k d w) = w_port_allocations w"
  by (simp add: put_resources_doc_def)

lemma kept_put: "keeps allocations_kept (put_build_resource b r owner)"
  by (rule keepsI) (auto simp: put_build_resource_def andthen_app allocations_kept_def Let_def split: option.splits sum.splits)

lemma kept_get: "keeps allocations_kept (get_build_resources b)"
  by (rule keepsI) (simp add: get_build_resources_def allocations_kept_def)

lemma kept_record: "keeps allocations_kept (tracker_record t kind name target native_id state managed metadata err)"
  unfolding tracker_record_def
  by (intro pa.keeps_rules kept_put kept_get) (rule keepsI, simp add: allocations_kept_def)

lemma kept_swarm_record: "keeps allocations_kept (swarm_record ad kind name native_id state metadata)"
  unfolding swarm_record_def with_tracker_def
  by (intro pa.keeps_rules kept_guard kept_record)

lemma kept_reserve: "keeps allocations_kept (reserve_port target protocol port b owner)"
  by (rule keepsI) (auto simp: reserve_port_def allocations_kept_def dsetdefault_def Let_def split: option.splits)

lemma kept_swarm_reserve: "keeps allocations_kept (swarm_reserve_port ad port protocol owner)"
  unfolding swarm_reserve_port_def
  by (intro pa.keeps_rules kept_guard kept_reserve)

lemma reserved_held:
  assumes "swarm_reserve_port ad n protocol owner w = (Inr True, w')"
  shows "port_held ad n protocol owner w'"
  using assms
  by (auto simp: swarm_reserve_port_def port_held_def reserve_port_def Let_def split: option.splits elim!: andthen_InrE)

lemma first_candidate_Some:
  "first_candidate ad occupied protocol mode owner cs w = (Inr (Some n), w') \<Longrightarrow>
   n \<in> set cs \<and> (n, protocol, mode) \<notin> set occupied \<and> port_held ad n protocol owner w'"
proof (induction cs arbitrary: w)
  case (Cons c cs)
  show ?case
  proof (cases "(c, protocol, mode) \<in> set occupied")
    case True
    then show ?thesis using Cons by auto
  next
    case False
    then obtain ok w1 where ok: "swarm_reserve_port ad c protocol owner w = (Inr ok, w1)"
      "(if ok then ret (Some c) else first_candidate ad occupied protocol mode owner cs) w1 = (Inr (Some n), w')"
      using Cons.prems by (auto elim: bd_InrE)
    then show ?thesis using False Cons.IH [of w1] by (cases ok) (auto dest: reserved_held)
  qed
qed simp

lemma kept_first_candidate: "keeps allocations_kept (first_candidate ad occupied protocol mode owner cs)"
proof (induction cs)
  case Nil
  show ?case unfolding first_candidate.simps by (rule pa.keeps_ret)
next
  case (Cons c cs)
  then show ?case unfolding first_candidate.simps by (intro pa.keeps_rules kept_swarm_reserve)
qed

text \<open>What the loop promises of one port: a free key, reserved, requested or from the range, and the
  requested one where it is free.\<close>

definition well_allocated ::
  "swarm_env \<Rightarrow> adapter \<Rightarrow> port_key list \<Rightarrow> published_port \<Rightarrow> published_port \<Rightarrow> bool" where
  "well_allocated env ad occupied p q \<longleftrightarrow>
     (\<exists>n. q = p\<lparr>pp_published_port := Some n\<rparr> \<and> port_key q \<notin> set occupied \<and>
        (ad_tracker ad = None \<longrightarrow> pp_published_port p = Some n \<or> sw_range_start env \<le> n \<and> n \<le> sw_range_end env) \<and>
        (ad_tracker ad = None \<longrightarrow> pp_published_port p \<noteq> None \<longrightarrow> port_key p \<notin> set occupied \<longrightarrow> q = p))"

lemma requested_port_untracked: "ad_tracker ad = None \<Longrightarrow> requested_port ad owner p = ret (pp_published_port p)"
  by (simp add: requested_port_def)

lemma reserve_untracked: "ad_tracker ad = None \<Longrightarrow> swarm_reserve_port ad n protocol owner = ret True"
  by (simp add: swarm_reserve_port_def)

lemma choose_port_Some:
  assumes "choose_port env ad occupied owner p w = (Inr (Some n), w')"
  shows "well_allocated env ad occupied p (p\<lparr>pp_published_port := Some n\<rparr>) \<and> port_held ad n (pp_protocol p) owner w'"
proof -
  obtain req w1 kept w2 where run: "requested_port ad owner p w = (Inr req, w1)"
    "(case req of Some n \<Rightarrow> if (n, pp_protocol p, pp_mode p) \<in> set occupied then ret False
                     else swarm_reserve_port ad n (pp_protocol p) owner
         | None \<Rightarrow> ret False) w1 = (Inr kept, w2)"
    "(if kept then ret req
     else first_candidate ad occupied (pp_protocol p) (pp_mode p) owner [sw_range_start env..sw_range_end env]) w2
     = (Inr (Some n), w')"
    using assms unfolding choose_port_def by (elim bd_InrE) blast
  have unt: "req = pp_published_port p" if "ad_tracker ad = None"
    using run(1) requested_port_untracked [OF that] by simp
  show ?thesis
  proof (cases kept)
    case True
    then have "req = Some n" "w2 = w'" using run(3) by simp_all
    moreover have "(n, pp_protocol p, pp_mode p) \<notin> set occupied"
      "swarm_reserve_port ad n (pp_protocol p) owner w1 = (Inr True, w2)"
      using run(2) True \<open>req = Some n\<close> by (auto split: if_splits)
    ultimately show ?thesis
      using unt reserved_held by (auto simp: well_allocated_def port_key_def)
  next
    case False
    then have fc: "first_candidate ad occupied (pp_protocol p) (pp_mode p) owner [sw_range_start env..sw_range_end env] w2
      = (Inr (Some n), w')" using run(3) by simp
    have f: "n \<in> set [sw_range_start env..sw_range_end env]" "(n, pp_protocol p, pp_mode p) \<notin> set occupied"
      "port_held ad n (pp_protocol p) owner w'"
      using first_candidate_Some [OF fc] by blast+
    have "port_key p \<in> set occupied" if t: "ad_tracker ad = None" "pp_published_port p \<noteq> None"
    proof (rule ccontr)
      assume "port_key p \<notin> set occupied"
      then have "kept" using run(2) unt [OF t(1)] t reserve_untracked [OF t(1)] by (auto simp: port_key_def)
      then show False using False by simp
    qed
    then show ?thesis using f by (auto simp: well_allocated_def port_key_def)
  qed
qed

lemma allocate_port_Inr:
  assumes "allocate_port env ad svc i occupied p w = (Inr q, w')"
  shows "well_allocated env ad occupied p q \<and>
    port_held ad (the (pp_published_port q)) (pp_protocol p) (allocation_owner svc i p) w'"
proof -
  obtain n w1 where c: "choose_port env ad occupied (allocation_owner svc i p) p w = (Inr (Some n), w1)"
    and q: "q = p\<lparr>pp_published_port := Some n\<rparr>"
    and r: "snd (swarm_record ad KPort (str_int n @ ''/'' @ pp_protocol p) None Present
                   [(VStr ''port'', VInt n), (VStr ''protocol'', VStr (pp_protocol p)),
                    (VStr ''service_name'', VStr svc)] w1) = w'"
    using assms unfolding allocate_port_def
    by (elim bd_InrE) (auto elim!: andthen_InrE split: option.splits)
  have "allocations_kept w1 w'" using keepsD [OF kept_swarm_record] r by metis
  then show ?thesis
    using choose_port_Some [OF c] port_held_kept [of ad n "pp_protocol p" "allocation_owner svc i p" w1 w'] q by simp
qed

lemma kept_allocate_from: "keeps allocations_kept (allocate_from env ad svc i occupied ps)"
proof (induction ps arbitrary: i occupied)
  case Nil
  show ?case unfolding allocate_from.simps by (rule pa.keeps_ret)
next
  case (Cons p ps)
  have "keeps allocations_kept (requested_port ad owner p)" for owner
    unfolding requested_port_def list_build_ports_def by (intro pa.keeps_rules) (auto simp: pa.keeps_rules split: list.split)
  then have "keeps allocations_kept (allocate_port env ad svc i occupied p)"
    unfolding allocate_port_def choose_port_def
    by (intro pa.keeps_rules kept_swarm_record kept_first_candidate kept_swarm_reserve) auto
  then show ?case using Cons unfolding allocate_from.simps by (intro pa.keeps_rules) auto
qed

lemma allocate_from_Inr:
  "allocate_from env ad svc i occupied ps w = (Inr qs, w') \<Longrightarrow>
   length qs = length ps \<and> distinct (map port_key qs) \<and> set (map port_key qs) \<inter> set occupied = {} \<and>
   (\<forall>k<length ps. well_allocated env ad (map port_key (take k qs) @ occupied) (ps ! k) (qs ! k) \<and>
      port_held ad (the (pp_published_port (qs ! k))) (pp_protocol (ps ! k)) (allocation_owner svc (i + k) (ps ! k)) w')"
proof (induction ps arbitrary: i occupied w qs)
  case (Cons p ps)
  obtain q w1 rest where q: "allocate_port env ad svc i occupied p w = (Inr q, w1)"
    and rest: "allocate_from env ad svc (Suc i) (port_key q # occupied) ps w1 = (Inr rest, w')" and qs: "qs = q # rest"
    using Cons.prems by (auto elim!: bd_InrE)
  note head = allocate_port_Inr [OF q]
  note tail = Cons.IH [OF rest]
  have kept: "port_held ad (the (pp_published_port q)) (pp_protocol p) (allocation_owner svc i p) w'"
    using head port_held_kept keeps_run [OF kept_allocate_from rest] by blast
  have "well_allocated env ad (map port_key (take k qs) @ occupied) ((p # ps) ! k) (qs ! k) \<and>
      port_held ad (the (pp_published_port (qs ! k))) (pp_protocol ((p # ps) ! k)) (allocation_owner svc (i + k) ((p # ps) ! k)) w'"
    if k: "k < length (p # ps)" for k
  proof (cases k)
    case 0
    then show ?thesis using head kept qs by simp
  next
    case (Suc j)
    have eq: "well_allocated env ad (map port_key (take j rest) @ port_key q # occupied) =
        well_allocated env ad (port_key q # map port_key (take j rest) @ occupied)"
      by (rule ext)+ (simp add: well_allocated_def)
    have "well_allocated env ad (map port_key (take j rest) @ port_key q # occupied) (ps ! j) (rest ! j)"
      "port_held ad (the (pp_published_port (rest ! j))) (pp_protocol (ps ! j)) (allocation_owner svc (Suc i + j) (ps ! j)) w'"
      using tail k Suc by auto
    then show ?thesis unfolding eq by (simp add: Suc qs)
  qed
  moreover have "port_key q \<notin> set occupied" using head by (auto simp: well_allocated_def)
  ultimately show ?case using tail qs by auto
qed simp

lemmas allocate_ports_Inr = allocate_from_Inr [where i = 0, folded allocate_ports_def [THEN fun_cong]]


lemma first_candidate_room:
  assumes "ad_tracker ad = None"
  shows "\<exists>r. first_candidate ad occupied protocol mode owner cs w = (Inr r, w) \<and>
    (r = None \<longrightarrow> (\<lambda>c. (c, protocol, mode)) ` set cs \<subseteq> set occupied)"
proof (induction cs)
  case (Cons c cs)
  then show ?case using assms by (cases "(c, protocol, mode) \<in> set occupied") (auto simp: swarm_reserve_port_def bd_app)
qed simp

lemma range_covered:
  assumes "(\<lambda>c. (c, protocol, mode)) ` {s..e} \<subseteq> set occupied"
  shows "e - s + 1 \<le> int (length occupied)"
proof -
  have "card ((\<lambda>c. (c, protocol, mode)) ` {s..e}) \<le> card (set occupied)"
    using assms by (intro card_mono) auto
  moreover have "card ((\<lambda>c. (c, protocol, mode)) ` {s..e}) = card {s..e}"
    by (rule card_image) (simp add: inj_on_def)
  ultimately show ?thesis using card_length [of occupied] by simp
qed

text \<open>
  C39: outside a build the allocation cannot fail while the range has room: if it has more ports
  than there are occupied and wanted ones together, every service gets its ports, and
  the repository is not touched.
\<close>

theorem allocation_succeeds_with_room:
  assumes "ad_tracker ad = None" and "int (length occupied + length ps) \<le> sw_range_end env - sw_range_start env + 1"
  shows "\<exists>qs. allocate_ports env ad svc occupied ps w = (Inr qs, w)"
proof -
  have "\<exists>qs. allocate_from env ad svc i occupied ps w = (Inr qs, w)" for i
    using assms(2)
  proof (induction ps arbitrary: i occupied)
    case (Cons p ps)
    obtain n where n: "choose_port env ad occupied (allocation_owner svc i p) p w = (Inr (Some n), w)"
    proof -
      obtain r where r: "first_candidate ad occupied (pp_protocol p) (pp_mode p) (allocation_owner svc i p)
          [sw_range_start env..sw_range_end env] w = (Inr r, w)"
        "r = None \<longrightarrow> (\<lambda>c. (c, pp_protocol p, pp_mode p)) ` {sw_range_start env..sw_range_end env} \<subseteq> set occupied"
        using first_candidate_room [OF assms(1), of occupied "pp_protocol p" "pp_mode p"] by force
      have "r \<noteq> None" using r(2) range_covered Cons.prems by fastforce
      then show ?thesis
        using r(1) that requested_port_untracked [OF assms(1)] reserve_untracked [OF assms(1)]
        by (cases "pp_published_port p"; cases "port_key p \<in> set occupied")
           (auto simp: choose_port_def port_key_def bd_app cong: if_cong)
    qed
    moreover have "swarm_record ad k name i' s m w = (Inr (), w)" for k name i' s m
      using assms(1) by (simp add: swarm_record_def with_tracker_def)
    ultimately have a: "allocate_port env ad svc i occupied p w = (Inr (p\<lparr>pp_published_port := Some n\<rparr>), w)"
      by (simp add: allocate_port_def bd_app andthen_app)
    obtain qs where "allocate_from env ad svc (Suc i) (port_key (p\<lparr>pp_published_port := Some n\<rparr>) # occupied) ps w = (Inr qs, w)"
      using Cons.IH [of "port_key (p\<lparr>pp_published_port := Some n\<rparr>) # occupied" "Suc i"] Cons.prems by auto
    then show ?case using a by (simp add: bd_app)
  qed simp
  then show ?thesis by (simp add: allocate_ports_def)
qed

section \<open>Waiting for tasks\<close>

interpretation readiness: polling "poll_tasks env ad ob desired" "sw_sleep env"
    "Exn DockerServiceError ''Docker service did not reach running state''"
    "\<lambda>n. ready_rounds n env ad ob desired" for env ad ob desired
  by unfold_locales (simp_all add: fun_eq_iff bd_app andthen_app split: prod.split sum.split)

text \<open>The answers of the daemon never turn the clock back, and sleeping moves it on.\<close>

definition swarm_clock_ok :: "swarm_env \<Rightarrow> bool" where
  "swarm_clock_ok env \<longleftrightarrow> (\<forall>c i. clock_grows (sw_get env c i)) \<and> (\<forall>ob. clock_grows (sw_tasks env ob)) \<and>
     (\<forall>w. w_clock w < w_clock (snd (sw_sleep env w)))"

lemma clock_guard: "clock_grows (swarm_guard ad)"
  unfolding clock_grows_def swarm_guard_def with_tracker_def
  by (intro clock.keeps_rules) (simp add: keeps_def)

lemma clock_poll_tasks: "swarm_clock_ok env \<Longrightarrow> clock_grows (poll_tasks env ad ob desired)"
  unfolding clock_grows_def poll_tasks_def
  by (intro clock.keeps_rules clock_guard [unfolded clock_grows_def])
     (simp add: swarm_clock_ok_def clock_grows_def)

text \<open>
  waiting for a service ends. If the daemon's answers never turn the clock back and sleeping
  moves it on, the loop finishes within the rounds its timeout allows, with a report or with an
  exception, and more rounds would not change the result.
\<close>

lemma wait_for_service_ready_ends:
  assumes "swarm_clock_ok env"
  shows "fst (wait_for_service_ready env ad name w) \<noteq> Inr None \<and>
    (\<forall>k ob desired v. ready_rounds (Suc (nat (sw_timeout env)) + k) env ad ob desired (w_clock v + sw_timeout env) v =
       ready_rounds (Suc (nat (sw_timeout env))) env ad ob desired (w_clock v + sw_timeout env) v)"
proof -
  have enough: "fst (ready_rounds (Suc (nat (sw_timeout env))) env ad ob desired (w_clock v + sw_timeout env) v) \<noteq> Inr None"
    for ob desired v
    using assms
    by (intro readiness.rounds_enough [OF clock_poll_tasks [OF assms]]) (auto simp: swarm_clock_ok_def)
  obtain r w1 where r: "find_existing env name w = (r, w1)" by fastforce
  have "fst (wait_for_service_ready env ad name w) \<noteq> Inr None"
    using r enough by (auto simp: wait_for_service_ready_def bd_app simp del: ready_rounds.simps split: sum.split option.split)
  then show ?thesis using readiness.rounds_more [OF enough] by blast
qed

text \<open>A look at tasks that only reads.\<close>

lemma poll_tasks_read:
  assumes "swarm_guard ad w = (Inr (), w)" and "sw_tasks env ob w = (Inr (VList ts), w)"
    and "\<not> (max 2 desired \<le> count_tasks task_failed ts \<and> count_tasks task_in_progress ts = 0) \<or> desired \<le> count_tasks task_running ts"
  shows "poll_tasks env ad ob desired w = (Inr (desired \<le> count_tasks task_running ts), w)"
  using assms by (auto simp: poll_tasks_def andthen_app bd_app catching_app)


section \<open>A deployment that returns\<close>

lemma deploy_one_Inr:
  assumes "deploy_one env ad ro occupied n service w = (Inr (d, occupied'), w')"
  shows "deployment_service_name (ro_appid ro) (ro_namespace ro) n service = Inr (sd_service_name d) \<and>
    VStr (sd_image d) = mget service ''image'' \<and> sd_endpoint d = service_endpoint (sd_service_name d) (sd_ports d) \<and>
    distinct (map port_key (sd_ports d)) \<and> set (map port_key (sd_ports d)) \<inter> set occupied = {} \<and>
    occupied' = map port_key (sd_ports d) @ occupied"
proof -
  obtain name ports w1 w2 wanted ob u and existing :: "docker_object option" and v vb vd va vc ve :: world where
    run: "lift_res (validate_service_image service) v = (Inr u, va)"
      "lift_res (deployment_service_name (ro_appid ro) (ro_namespace ro) n service) vb = (Inr name, vc)"
      "allocate_ports env ad name occupied wanted w1 = (Inr ports, w2)"
      "ret (\<lparr>sd_service_id = the (str_or (swarm_object_id ob) (Some name)), sd_service_name = name,
         sd_image = the_str (mget service ''image''), sd_created = (existing = None),
         sd_endpoint = service_endpoint name ports, sd_ports = ports\<rparr>, map port_key ports @ occupied) vd
       = (Inr (d, occupied'), ve)"
    using assms unfolding deploy_one_def Let_def
    by (elim andthen_InrE bd_InrE) (rule that; assumption)
  then have facts: "validate_service_image service = Inr u"
      "deployment_service_name (ro_appid ro) (ro_namespace ro) n service = Inr name"
      "d = \<lparr>sd_service_id = the (str_or (swarm_object_id ob) (Some name)), sd_service_name = name,
         sd_image = the_str (mget service ''image''), sd_created = (existing = None),
         sd_endpoint = service_endpoint name ports, sd_ports = ports\<rparr>" "occupied' = map port_key ports @ occupied"
    by auto
  have "VStr (the_str (mget service ''image'')) = mget service ''image''"
    using facts(1) by (cases "mget service ''image''") (simp_all add: validate_service_image_def)
  then show ?thesis
    using facts(2,3,4) allocate_ports_Inr [OF run(3)] by simp
qed

text \<open>A service of the document that is deployed: its physical name and image, and its tasks were seen running.\<close>

definition service_up :: "swarm_env \<Rightarrow> adapter \<Rightarrow> string \<Rightarrow> string \<Rightarrow> services \<Rightarrow> string \<Rightarrow> service_deployment \<Rightarrow> bool" where
  "service_up env ad appid namespace services n d \<longleftrightarrow>
     deployment_service_name appid namespace n (the (dget services n)) = Inr (sd_service_name d) \<and>
     mget (the (dget services n)) ''image'' = VStr (sd_image d) \<and>
     (\<exists>v v'. wait_for_service_ready env ad (sd_service_name d) v = (Inr (Some ()), v'))"

lemma settle_service_Inr:
  assumes "settle_service env ad d w = (Inr u, w')"
  shows "\<exists>v v'. wait_for_service_ready env ad (sd_service_name d) v = (Inr (Some ()), v')"
proof -
  obtain x w1 where "await_ready env ad (sd_service_name d) w = (Inr x, w1)"
    using assms unfolding settle_service_def by (elim andthen_InrE)
  then obtain r w2 where "wait_for_service_ready env ad (sd_service_name d) w = (Inr r, w2)" "r \<noteq> None"
    unfolding await_ready_def by (elim bd_InrE) (auto split: option.splits)
  then show ?thesis by auto
qed

lemma rollout_services_Inr:
  "rollout_services env ad ro services ns occupied prior created w = (Inr (None, ds, created'), w') \<Longrightarrow>
   \<exists>new. ds = prior @ new \<and>
     list_all2 (service_up env ad (ro_appid ro) (ro_namespace ro) services) ns new \<and>
     distinct (map port_key (concat (map sd_ports new))) \<and>
     set (map port_key (concat (map sd_ports new))) \<inter> set occupied = {}"
proof (induction ns arbitrary: occupied prior created w)
  case (Cons n ns)
  obtain put w1 where put: "deploy_one env ad ro occupied n (the (dget services n)) w = (put, w1)" by fastforce
  then obtain d occupied2 where d: "put = Inr (d, occupied2)" using Cons.prems by (cases put) (auto simp: bd_app attempt_app)
  obtain q w2 where q: "settle_service env ad d w1 = (q, w2)" by fastforce
  then obtain u where u: "q = Inr u" using Cons.prems put d by (cases q) (auto simp: bd_app attempt_app Let_def)
  note one = deploy_one_Inr [OF put [unfolded d]]
  have "rollout_services env ad ro services ns occupied2 (prior @ [d]) (if sd_created d then created @ [d] else created) w2
      = (Inr (None, ds, created'), w')"
    using Cons.prems put d q u by (simp add: bd_app attempt_app Let_def)
  from Cons.IH [OF this] obtain new where new: "ds = (prior @ [d]) @ new"
    "list_all2 (service_up env ad (ro_appid ro) (ro_namespace ro) services) ns new"
    "distinct (map port_key (concat (map sd_ports new)))"
    "set (map port_key (concat (map sd_ports new))) \<inter> set occupied2 = {}"
    by blast
  have "service_up env ad (ro_appid ro) (ro_namespace ro) services n d"
    using one settle_service_Inr [OF q [unfolded u]] by (simp add: service_up_def)
  then show ?case
    using new one by (intro exI [of _ "d # new"]) auto
qed simp

lemma unique_name_Inr:
  "unique_name appid namespace ns seen = Inr seen' \<longleftrightarrow>
   (\<exists>name. deployment_service_name appid namespace (fst ns) (snd ns) = Inr name \<and> dget seen name = None \<and>
      seen' = dset seen name (fst ns))"
  by (auto simp: unique_name_def rbind_Inr_iff)

lemma unique_names_distinct:
  "rfold (unique_name appid namespace) services seen = Inr seen' \<Longrightarrow>
   rmap (\<lambda>ns. deployment_service_name appid namespace (fst ns) (snd ns)) services = Inr names \<Longrightarrow>
   distinct names \<and> set names \<inter> set (keys seen) = {}"
proof (induction services arbitrary: seen names)
  case (Cons ns services)
  obtain name where name: "deployment_service_name appid namespace (fst ns) (snd ns) = Inr name"
    "dget seen name = None" "rfold (unique_name appid namespace) services (dset seen name (fst ns)) = Inr seen'"
    using Cons.prems(1) unfolding rfold.simps rbind_Inr_iff unique_name_Inr by blast
  obtain rest where rest: "rmap (\<lambda>ns. deployment_service_name appid namespace (fst ns) (snd ns)) services = Inr rest" "names = name # rest"
    using Cons.prems(2) name(1) by (auto simp: rbind_Inr_iff)
  have "name \<notin> set (keys seen)" using name(2) by (simp add: map_of_eq_None_iff)
  then show ?case using Cons.IH [OF name(3) rest(1)] rest(2) by auto
qed simp

lemma plan_deployment_Inr:
  assumes "plan_deployment env ad appid compose = Inr plan"
  shows "(\<exists>u. validate_compose (sw_parse_bytes env) True compose = Inr u) \<and>
    compose_services compose = Inr (pl_services plan) \<and>
    (\<exists>u. validate_unique_names appid (pl_namespace plan) (pl_services plan) = Inr u) \<and>
    rmap (\<lambda>ns. deployment_service_name appid (pl_namespace plan) (fst ns) (snd ns)) (pl_services plan) = Inr (pl_names plan)"
  by (insert assms [unfolded plan_deployment_def rbind_Inr_iff], elim exE conjE,
      drule sum.inject(2) [THEN iffD1], erule subst, unfold deploy_plan.select_convs, blast)

lemma plan_names_distinct: "plan_deployment env ad appid compose = Inr plan \<Longrightarrow> distinct (pl_names plan)"
  using plan_deployment_Inr [of env ad appid compose plan] unique_names_distinct
  unfolding validate_unique_names_def rbind_Inr_iff by blast


end
