(* ===== verification/SwarmRemoval.thy ===== *)
theory SwarmRemoval
  imports SwarmSafety
begin

text \<open>
  What a deployment removes. A predicate \<open>made\<close> on the state of the external systems says which
  identities were created, and only grows; removals of anything else, or of anything that
  does not belong to the application, are shown not to occur by comparing two removers that differ there.
\<close>

section \<open>Identities that were created\<close>

definition made_grows :: "(value \<Rightarrow> string \<Rightarrow> bool) \<Rightarrow> world \<Rightarrow> world \<Rightarrow> bool" where
  "made_grows made w w' \<longleftrightarrow> (\<forall>i. made (w_external w) i \<longrightarrow> made (w_external w') i)"

interpretation mg: step_guarantee "made_grows made" for made
  by unfold_locales (auto simp: made_grows_def)

definition client_keeps :: "(value \<Rightarrow> string \<Rightarrow> bool) \<Rightarrow> swarm_env \<Rightarrow> bool" where
  "client_keeps made env \<longleftrightarrow>
     keeps (made_grows made) (sw_connect env) \<and> keeps (made_grows made) (sw_info env) \<and>
     (\<forall>c f. keeps (made_grows made) (sw_list env c f)) \<and> (\<forall>c i. keeps (made_grows made) (sw_get env c i)) \<and>
     (\<forall>n l. keeps (made_grows made) (sw_create_volume env n l)) \<and>
     (\<forall>n a l. keeps (made_grows made) (sw_create_network env n a l)) \<and>
     (\<forall>i n s c. keeps (made_grows made) (sw_create_service env i n s c)) \<and>
     (\<forall>ob i s c. keeps (made_grows made) (sw_update_service env ob i s c)) \<and>
     (\<forall>ob. keeps (made_grows made) (sw_tasks env ob)) \<and> keeps (made_grows made) (sw_sleep env)"

text \<open>What the client creates counts as made, under the identity the adapter uses for it.\<close>

definition creates_made :: "(value \<Rightarrow> string \<Rightarrow> bool) \<Rightarrow> swarm_env \<Rightarrow> bool" where
  "creates_made made env \<longleftrightarrow>
     (\<forall>i n s c w ob w'. sw_create_service env i n s c w = (Inr ob, w') \<longrightarrow>
        made (w_external w') (the (str_or (swarm_object_id ob) (Some n)))) \<and>
     (\<forall>n a l w ob w'. sw_create_network env n a l w = (Inr ob, w') \<longrightarrow>
        made (w_external w') (the (str_or (swarm_object_id ob) (Some n))))"

definition removals_agree ::
  "(value \<Rightarrow> string \<Rightarrow> bool) \<Rightarrow> bool \<Rightarrow> string \<Rightarrow> string \<Rightarrow> swarm_remover \<Rightarrow> swarm_remover \<Rightarrow> bool" where
  "removals_agree made in_build appid namespace rm rm' \<longleftrightarrow>
     (\<forall>ob w. assert_resource_owner ob appid namespace = Inr () \<longrightarrow>
        (in_build \<longrightarrow> (\<exists>i. swarm_object_id ob = Some i \<and> made (w_external w) i)) \<longrightarrow>
        sr_service rm' ob w = sr_service rm ob w) \<and>
     (\<forall>ob w. assert_resource_owner ob appid namespace = Inr () \<longrightarrow>
        (\<exists>i. swarm_object_id ob = Some i \<and> made (w_external w) i) \<longrightarrow>
        sr_network rm' ob w = sr_network rm ob w)"

section \<open>Everything else leaves them alone\<close>

lemma made_same: "(\<And>w. w_external (snd (m w)) = w_external w) \<Longrightarrow> keeps (made_grows made) m"
  by (simp add: keeps_def made_grows_def)

lemma put_resources_external [simp]: "w_external (put_resources_doc k d w) = w_external w"
  by (simp add: put_resources_doc_def)

lemma made_guard: "keeps (made_grows made) (tracker_guard t)"
  by (rule made_same) simp

lemma made_put: "keeps (made_grows made) (put_build_resource b r owner)"
  by (rule made_same) (auto simp: put_build_resource_def andthen_app Let_def split: option.splits sum.splits)

lemma made_get: "keeps (made_grows made) (get_build_resources b)"
  by (rule made_same) (simp add: get_build_resources_def)

lemma made_now: "keeps (made_grows made) utc_now"
  by (rule made_same) simp

lemma made_record: "keeps (made_grows made) (tracker_record t kind name target native_id state managed metadata err)"
  unfolding tracker_record_def by (intro mg.keeps_rules made_put made_get made_now)

lemma made_swarm_guard: "keeps (made_grows made) (swarm_guard ad)"
  unfolding swarm_guard_def with_tracker_def by (intro mg.keeps_rules made_guard)

lemma made_swarm_record: "keeps (made_grows made) (swarm_record ad kind name native_id state metadata)"
  unfolding swarm_record_def with_tracker_def by (intro mg.keeps_rules made_guard made_record)

lemma made_identity: "keeps (made_grows made) (assert_tracked_identity ad kind name ob)"
  unfolding assert_tracked_identity_def with_tracker_def by (intro mg.keeps_rules made_guard made_get)

lemma made_reserve: "keeps (made_grows made) (swarm_reserve_port ad port protocol owner)"
  unfolding swarm_reserve_port_def
  by (intro mg.keeps_rules made_guard) (rule made_same, simp add: reserve_port_def Let_def)

lemma made_candidate: "keeps (made_grows made) (first_candidate ad occupied protocol mode owner cs)"
proof (induction cs)
  case Nil
  show ?case unfolding first_candidate.simps by (rule mg.keeps_ret)
next
  case (Cons c cs)
  then show ?case unfolding first_candidate.simps by (intro mg.keeps_rules made_reserve)
qed

lemma made_requested: "keeps (made_grows made) (requested_port ad owner p)"
  by (rule made_same) (auto simp: requested_port_def list_build_ports_def bd_app split: list.split)

lemma made_allocate: "keeps (made_grows made) (allocate_ports env ad svc occupied ps)"
proof -
  have "keeps (made_grows made) (allocate_from env ad svc i occupied ps)" for i
  proof (induction ps arbitrary: i occupied)
    case Nil
    show ?case unfolding allocate_from.simps by (rule mg.keeps_ret)
  next
    case (Cons p ps)
    then show ?case
      unfolding allocate_from.simps allocate_port_def choose_port_def
      by (intro mg.keeps_rules made_requested made_reserve made_candidate made_swarm_record) auto
  qed
  then show ?thesis by (simp add: allocate_ports_def)
qed

lemma client_keepsD:
  assumes "client_keeps made env"
  shows "keeps (made_grows made) (sw_connect env)" "keeps (made_grows made) (sw_info env)"
    "keeps (made_grows made) (sw_list env c f)" "keeps (made_grows made) (sw_get env c i)"
    "keeps (made_grows made) (sw_create_volume env n l)" "keeps (made_grows made) (sw_create_network env n a l)"
    "keeps (made_grows made) (sw_create_service env i n s cs)" "keeps (made_grows made) (sw_update_service env ob i s cs)"
    "keeps (made_grows made) (sw_tasks env ob)" "keeps (made_grows made) (sw_sleep env)"
  using assms unfolding client_keeps_def by blast+

lemmas made_rules = mg.keeps_rules made_guard made_swarm_guard made_swarm_record made_identity made_now

lemma made_find: "client_keeps made env \<Longrightarrow> keeps (made_grows made) (find_existing env name)"
  unfolding find_existing_def by (intro made_rules client_keepsD)

lemma made_put_service:
  "client_keeps made env \<Longrightarrow> keeps (made_grows made) (put_service env img name spec cs existing)"
  unfolding put_service_def by (intro made_rules client_keepsD)

lemma made_workspace: "client_keeps made env \<Longrightarrow> keeps (made_grows made) (workspace_constraints env spec)"
  unfolding workspace_constraints_def by (intro made_rules client_keepsD)

lemma made_reusable: "keeps (made_grows made) (assert_reusable ad ro n service name ob)"
  unfolding assert_reusable_def by (intro made_rules)

lemma made_deploy_one: "client_keeps made env \<Longrightarrow> keeps (made_grows made) (deploy_one env ad ro occupied n service)"
  unfolding deploy_one_def Let_def
  by (intro made_rules made_allocate made_workspace made_find made_reusable made_put_service)

lemma made_poll: "client_keeps made env \<Longrightarrow> keeps (made_grows made) (poll_tasks env ad ob desired)"
  unfolding poll_tasks_def by (intro made_rules client_keepsD)

lemma made_rounds: "client_keeps made env \<Longrightarrow> keeps (made_grows made) (ready_rounds n env ad ob desired deadline)"
proof (induction n)
  case 0
  show ?case unfolding ready_rounds.simps by (rule mg.keeps_ret)
next
  case (Suc n)
  then show ?case unfolding ready_rounds.simps by (intro made_rules made_poll client_keepsD)
qed

lemma made_settle: "client_keeps made env \<Longrightarrow> keeps (made_grows made) (settle_service env ad d)"
  unfolding settle_service_def await_ready_def wait_for_service_ready_def
  by (intro made_rules made_find made_rounds client_keepsD)

section \<open>What the attempt created\<close>

definition all_made :: "(value \<Rightarrow> string \<Rightarrow> bool) \<Rightarrow> world \<Rightarrow> service_deployment list \<Rightarrow> bool" where
  "all_made made w ds \<longleftrightarrow> (\<forall>d\<in>set ds. made (w_external w) (sd_service_id d))"

lemma all_made_grows: "all_made made w ds \<Longrightarrow> made_grows made w w' \<Longrightarrow> all_made made w' ds"
  by (simp add: all_made_def made_grows_def)

lemma put_service_created:
  assumes "put_service env img name spec cs None w = (Inr ob, w')" and "creates_made made env"
  shows "made (w_external w') (the (str_or (swarm_object_id ob) (Some name)))"
proof -
  have "sw_create_service env img name spec cs w = (Inr ob, w')"
    using assms(1) by (auto simp: put_service_def catching_app split: prod.splits sum.splits)
  then show ?thesis using assms(2) unfolding creates_made_def by blast
qed

lemma deploy_one_created:
  assumes "deploy_one env ad ro occupied n service w = (Inr (d, occupied'), w')" and "creates_made made env" and "sd_created d"
  shows "made (w_external w') (sd_service_id d)"
proof -
  obtain name spec img cs ports ob u occ and existing :: "docker_object option" and v va vb vc vd :: world where
    run: "put_service env img name spec cs existing v = (Inr ob, va)"
      "swarm_record ad KService name (Some (the (str_or (swarm_object_id ob) (Some name)))) Present
         (compose_service_metadata n) va = (Inr u, vb)"
      "ret (\<lparr>sd_service_id = the (str_or (swarm_object_id ob) (Some name)), sd_service_name = name,
         sd_image = the_str (mget service ''image''), sd_created = (existing = None),
         sd_endpoint = service_endpoint name ports, sd_ports = ports\<rparr>, occ) vb = (Inr (d, occupied'), w')"
    using assms(1) unfolding deploy_one_def Let_def
    by (elim andthen_InrE bd_InrE) (rule that; assumption)
  have "existing = None" and i: "sd_service_id d = the (str_or (swarm_object_id ob) (Some name))" and w: "vb = w'"
    using run(3) assms(3) by auto
  then show ?thesis
    using put_service_created [OF run(1) [unfolded \<open>existing = None\<close>] assms(2)] keeps_run [OF made_swarm_record [where made = made] run(2)]
    by (simp add: made_grows_def)
qed

lemma rollout_created:
  assumes "client_keeps made env" and "creates_made made env"
  shows "rollout_services env ad ro services ns occupied prior created w = (Inr (f, ds, created'), w') \<Longrightarrow>
    all_made made w created \<Longrightarrow> all_made made w' created'"
proof (induction ns arbitrary: occupied prior created w)
  case (Cons n ns)
  obtain put w1 where put: "deploy_one env ad ro occupied n (the (dget services n)) w = (put, w1)" by fastforce
  have w1: "all_made made w1 created"
    using keeps_run [OF made_deploy_one [OF assms(1)] put] Cons.prems(2) all_made_grows by blast
  show ?case
  proof (cases put)
    case (Inl e)
    then show ?thesis using Cons.prems(1) put w1 by (simp add: bd_app attempt_app)
  next
    case (Inr p)
    then obtain d occupied2 where d: "put = Inr (d, occupied2)" by (cases p) simp
    obtain q w2 where q: "settle_service env ad d w1 = (q, w2)" by fastforce
    let ?created = "if sd_created d then created @ [d] else created"
    have "all_made made w1 ?created"
      using w1 deploy_one_created [OF put [unfolded d] assms(2)] by (auto simp: all_made_def)
    then have w2: "all_made made w2 ?created"
      using keeps_run [OF made_settle [OF assms(1)] q] all_made_grows by blast
    show ?thesis
    proof (cases q)
      case (Inl e)
      then show ?thesis using Cons.prems(1) put d q w2 by (simp add: bd_app attempt_app Let_def)
    next
      case (Inr u)
      then have "rollout_services env ad ro services ns occupied2 (prior @ [d]) ?created w2 = (Inr (f, ds, created'), w')"
        using Cons.prems(1) put d q by (simp add: bd_app attempt_app Let_def)
      then show ?thesis using Cons.IH w2 by blast
    qed
  qed
qed simp

lemma made_rollout:
  assumes "client_keeps made env"
  shows "keeps (made_grows made) (rollout_services env ad ro services ns occupied prior created)"
proof (induction ns arbitrary: occupied prior created)
  case Nil
  show ?case unfolding rollout_services.simps by (rule mg.keeps_ret)
next
  case (Cons n ns)
  then show ?case unfolding rollout_services.simps Let_def
    by (intro made_rules made_deploy_one made_settle assms)
qed

lemma ensure_network_created:
  assumes "ensure_network env ad appid namespace w = (Inr (name, i, True), w')" and "creates_made made env"
  shows "made (w_external w') i"
proof -
  obtain name0 ob u and found :: "docker_object option" and v va vb vc vd :: world where
    run: "(case found of
            Some n \<Rightarrow>
              andthen (lift_res (assert_resource_owner n appid namespace))
              (andthen (assert_tracked_identity ad KNetwork name0 n) (ret n))
          | None \<Rightarrow>
              catching
                (andthen (swarm_guard ad)
                  (sw_create_network env name0 (ad_build_id ad = None) (swarm_labels ad appid namespace ''default'')))
                (\<lambda>_. raise DockerServiceError ''Unable to create Docker network'')) v = (Inr ob, va)"
      "swarm_record ad KNetwork name0 (swarm_object_id ob) Present [] va = (Inr u, vb)"
      "ret (name0, the (str_or (swarm_object_id ob) (Some name0)), found = None) vb = (Inr (name, i, True), w')"
    using assms(1) unfolding ensure_network_def
    by (elim andthen_InrE bd_InrE) (rule that; assumption)
  have found: "found = None" and i: "i = the (str_or (swarm_object_id ob) (Some name0))" and w: "vb = w'"
    using run(3) by auto
  have "\<exists>v. sw_create_network env name0 (ad_build_id ad = None) (swarm_labels ad appid namespace ''default'') v = (Inr ob, va)"
    using run(1) unfolding found by (auto simp: catching_app andthen_app split: prod.splits sum.splits)
  then have "made (w_external va) i"
    using assms(2) unfolding creates_made_def i by blast
  then show ?thesis using keeps_run [OF made_swarm_record [where made = made] run(2)] w by (simp add: made_grows_def)
qed

section \<open>Two removers\<close>

lemma rollback_service_agree:
  assumes "client_keeps made env" and "removals_agree made b appid namespace rm rm'"
    and "made (w_external w) (sd_service_id d)"
  shows "rollback_service env rm' appid namespace d w = rollback_service env rm appid namespace d w"
  unfolding rollback_service_def
proof (rule bd_cong_step [OF refl], goal_cases)
  case (1 found w1)
  obtain r where r: "sw_get env Services (sd_service_id d) w = (r, w1)" "found = r"
    using 1 by (auto simp: attempt_app split: prod.splits)
  have m: "made (w_external w1) (sd_service_id d)"
    using keeps_run [OF client_keepsD(4) [OF assms(1)] r(1)] assms(3) by (simp add: made_grows_def)
  have agree: "sr_service rm' ob w1 = sr_service rm ob w1"
    if "swarm_object_id ob = Some (sd_service_id d)" "is_ok (assert_resource_owner ob appid namespace)" for ob
  proof -
    have "assert_resource_owner ob appid namespace = Inr ()" using that(2) by (cases "assert_resource_owner ob appid namespace") auto
    then show ?thesis using assms(2) that(1) m unfolding removals_agree_def by blast
  qed
  show ?case
    using agree by (cases found rule: sum.exhaust [case_names Inl Inr]) (auto simp: bd_app attempt_app split: option.split)
qed

lemma made_rollback_service:
  assumes "client_keeps made env" and "\<And>ob. keeps (made_grows made) (sr_service rm ob)"
  shows "keeps (made_grows made) (rollback_service env rm appid namespace d)"
  unfolding rollback_service_def using assms by (intro made_rules client_keepsD)

lemma rollback_services_agree:
  assumes "client_keeps made env" and "removals_agree made b appid namespace rm rm'"
    and "\<And>ob. keeps (made_grows made) (sr_service rm ob)"
  shows "all_made made w ds \<Longrightarrow>
    rollback_services env rm' appid namespace ds w = rollback_services env rm appid namespace ds w"
proof (induction ds arbitrary: w)
  case (Cons d ds)
  show ?case unfolding rollback_services.simps
  proof (rule bd_cong_step, goal_cases)
    case 1
    show ?case using Cons.prems by (intro rollback_service_agree [OF assms(1,2)]) (simp add: all_made_def)
  next
    case (2 x w1)
    have "all_made made w1 ds"
      using Cons.prems keeps_run [OF made_rollback_service [OF assms(1,3)] 2] by (simp add: all_made_def made_grows_def)
    then show ?case by (intro bd_cong_step Cons.IH refl)
  qed
qed simp

lemma made_rollback_services:
  assumes "client_keeps made env" and "\<And>ob. keeps (made_grows made) (sr_service rm ob)"
  shows "keeps (made_grows made) (rollback_services env rm appid namespace ds)"
proof (induction ds)
  case Nil
  show ?case unfolding rollback_services.simps by (rule mg.keeps_ret)
next
  case (Cons d ds)
  then show ?case unfolding rollback_services.simps by (intro made_rules made_rollback_service assms)
qed

lemma rollback_network_agree:
  assumes "client_keeps made env" and "removals_agree made b appid namespace rm rm'" and "made (w_external w) i"
  shows "rollback_network env rm' appid namespace i w = rollback_network env rm appid namespace i w"
proof -
  have step: "bd (sw_get env Networks i) (\<lambda>found. case found of None \<Rightarrow> ret ()
        | Some ob \<Rightarrow> if swarm_object_id ob \<noteq> Some i then ret ()
            else andthen (lift_res (assert_resource_owner ob appid namespace)) (sr_network rm' ob)) w =
      bd (sw_get env Networks i) (\<lambda>found. case found of None \<Rightarrow> ret ()
        | Some ob \<Rightarrow> if swarm_object_id ob \<noteq> Some i then ret ()
            else andthen (lift_res (assert_resource_owner ob appid namespace)) (sr_network rm ob)) w"
  proof (rule bd_cong_step [OF refl], goal_cases)
    case (1 found w1)
    have m: "made (w_external w1) i"
      using keeps_run [OF client_keepsD(4) [OF assms(1)] 1] assms(3) by (simp add: made_grows_def)
    have "sr_network rm' ob w1 = sr_network rm ob w1"
      if "swarm_object_id ob = Some i" "assert_resource_owner ob appid namespace = Inr ()" for ob
      using assms(2) that m unfolding removals_agree_def by blast
    then show ?case
      by (cases found) (auto simp: andthen_app split: sum.split)
  qed
  show ?thesis unfolding rollback_network_def catching_app step ..
qed

lemma rollback_deployment_agree:
  assumes "client_keeps made env" and "removals_agree made b appid namespace rm rm'"
    and "\<And>ob. keeps (made_grows made) (sr_service rm ob)"
    and "all_made made w created" and "snd (snd network) \<longrightarrow> made (w_external w) (fst (snd network))"
  shows "rollback_deployment env rm' appid namespace network created w =
    rollback_deployment env rm appid namespace network created w"
  unfolding rollback_deployment_def
proof (rule bd_cong_step, goal_cases)
  case 1
  show ?case using assms(4) by (intro rollback_services_agree [OF assms(1-3)]) (simp add: all_made_def)
next
  case (2 ok w1)
  show ?case
  proof (cases "snd (snd network) \<and> ok")
    case True
    have m: "made (w_external w1) (fst (snd network))"
      using keeps_run [OF made_rollback_services [OF assms(1,3)] 2] assms(5) True by (simp add: made_grows_def)
    have "bd (network_has_other_services env (fst network) (map sd_service_id created)) (\<lambda>others.
       if others then ret () else rollback_network env rm' appid namespace (fst (snd network))) w1 =
      bd (network_has_other_services env (fst network) (map sd_service_id created)) (\<lambda>others.
       if others then ret () else rollback_network env rm appid namespace (fst (snd network))) w1"
    proof (rule bd_cong_step [OF refl], goal_cases)
      case (1 others w2)
      have k: "keeps (made_grows made) (network_has_other_services env (fst network) (map sd_service_id created))"
        unfolding network_has_other_services_def by (intro made_rules client_keepsD [OF assms(1)])
      then have "made (w_external w2) (fst (snd network))"
        using keeps_run [OF k 1] m by (simp add: made_grows_def)
      then show ?case using rollback_network_agree [OF assms(1,2)] by simp
    qed
    then show ?thesis using True by simp
  next
    case False
    then show ?thesis by auto
  qed
qed

lemma remove_stale_agree:
  assumes "removals_agree made False appid namespace rm rm'"
  shows "remove_stale env rm' appid namespace sn w = remove_stale env rm appid namespace sn w"
proof -
  have "andthen (lift_res (assert_resource_owner ob appid namespace)) (sr_service rm' ob) v =
      andthen (lift_res (assert_resource_owner ob appid namespace)) (sr_service rm ob) v" for ob v
    using assms by (cases "assert_resource_owner ob appid namespace") (simp_all add: andthen_app removals_agree_def)
  then have same: "andthen (lift_res (assert_resource_owner ob appid namespace)) (sr_service rm' ob) =
      andthen (lift_res (assert_resource_owner ob appid namespace)) (sr_service rm ob)" for ob
    by (simp add: fun_eq_iff)
  show ?thesis unfolding remove_stale_def same ..
qed

lemma cleanup_stale_agree:
  assumes "removals_agree made False appid namespace rm rm'"
  shows "cleanup_stale_services env rm' appid namespace desired = cleanup_stale_services env rm appid namespace desired"
proof -
  have "remove_stale env rm' appid namespace = remove_stale env rm appid namespace"
    using remove_stale_agree [OF assms] by (simp add: fun_eq_iff)
  then show ?thesis by (simp add: cleanup_stale_services_def)
qed

lemma made_cleanup_stale:
  assumes "client_keeps made env" and "\<And>ob. keeps (made_grows made) (sr_service rm ob)"
  shows "keeps (made_grows made) (cleanup_stale_services env rm appid namespace desired)"
  unfolding cleanup_stale_services_def remove_stale_def using assms by (intro made_rules client_keepsD)

lemma finish_rollout_agree:
  assumes "removals_agree made (ad_build_id ad \<noteq> None) (ro_appid ro) (ro_namespace ro) rm rm'"
  shows "finish_rollout env rm' ad ro outcome = finish_rollout env rm ad ro outcome"
proof (cases "ad_build_id ad = None")
  case True
  then show ?thesis using assms cleanup_stale_agree by (auto simp: finish_rollout_def split: prod.split)
next
  case False
  then show ?thesis by (simp add: finish_rollout_def)
qed

lemma made_finish_rollout:
  assumes "client_keeps made env" and "\<And>ob. keeps (made_grows made) (sr_service rm ob)"
  shows "keeps (made_grows made) (finish_rollout env rm ad ro outcome)"
  unfolding finish_rollout_def by (intro made_rules made_cleanup_stale assms)

lemma rollback_rollout_agree:
  assumes "client_keeps made env" and "removals_agree made b (ro_appid ro) (ro_namespace ro) rm rm'"
    and "\<And>ob. keeps (made_grows made) (sr_service rm ob)"
    and "all_made made w created" and "snd (snd network) \<longrightarrow> made (w_external w) (fst (snd network))"
  shows "rollback_rollout env rm' ad ro network created w = rollback_rollout env rm ad ro network created w"
proof -
  have "andthen (swarm_guard ad) (rollback_deployment env rm' (ro_appid ro) (ro_namespace ro) network created) w =
      andthen (swarm_guard ad) (rollback_deployment env rm (ro_appid ro) (ro_namespace ro) network created) w"
  proof (rule andthen_cong_step [OF refl], goal_cases)
    case (1 u w1)
    have g: "made_grows made w w1" by (rule keeps_run [OF made_swarm_guard 1])
    then show ?case
      using assms(4,5) by (intro rollback_deployment_agree [OF assms(1-3)] all_made_grows [OF assms(4)]) (auto simp: made_grows_def)
  qed
  then show ?thesis by (simp add: rollback_rollout_def)
qed

lemma run_rollout_agree:
  assumes "client_keeps made env" and "creates_made made env"
    and agree: "removals_agree made (ad_build_id ad \<noteq> None) (ro_appid ro) (ro_namespace ro) rm rm'"
    and rm: "\<And>ob. keeps (made_grows made) (sr_service rm ob)"
    and net: "snd (snd network) \<longrightarrow> made (w_external w) (fst (snd network))"
  shows "run_rollout env rm' ad ro services occupied network w = run_rollout env rm ad ro services occupied network w"
  unfolding run_rollout_def
proof (rule bd_cong_step [OF refl], rule bd_cong_step [OF refl], rule bd_cong_step, goal_cases)
  case (1 order w1 outcome w2)
  show ?case by (simp add: finish_rollout_agree [OF agree])
next
  case (2 order w1 outcome w2 failure w3)
  obtain f ds created where out: "outcome = (f, ds, created)" by (cases outcome)
  have w1: "w1 = w" using 2(1) by simp
  have c: "all_made made w2 created"
    using rollout_created [OF assms(1,2) 2(2) [unfolded out]] by (simp add: all_made_def)
  have k: "keeps (made_grows made) (rollout_services env ad ro services order occupied [] [])" for order
    by (rule made_rollout [OF assms(1)])
  have g: "made_grows made w w2" "made_grows made w2 w3"
    using keeps_run [OF k 2(2)] w1 keeps_run [OF made_finish_rollout [OF assms(1) rm] 2(3)] by simp_all
  show ?case
  proof (cases failure)
    case (Some e)
    have "rollback_rollout env rm' ad ro network created w3 = rollback_rollout env rm ad ro network created w3"
      using g net by (intro rollback_rollout_agree [OF assms(1) agree rm] all_made_grows [OF c]) (auto simp: made_grows_def)
    then show ?thesis using Some out by (simp add: andthen_app)
  qed simp
qed


end
