(* ===== verification/SwarmExamples.thy ===== *)
theory SwarmExamples
  imports SwarmRemoval
begin

text \<open>
  Concrete runs of the Swarm deployment: a Docker daemon that remembers the names it created in
  the state of the external systems, and an application of two services that ask for the same port.
\<close>

definition swarm_object :: "string \<Rightarrow> docker_object" where
  "swarm_object i = \<lparr>ob_id = Some i, ob_name = Some i, ob_status = [], ob_tags = [],
     ob_attrs = [(VStr ''Spec'', VDict [(VStr ''Labels'',
       VDict [(VStr APP_LABEL, VStr ''shop''), (VStr NAMESPACE_LABEL, VStr ''shop'')])])]\<rparr>"

definition was_made :: "value \<Rightarrow> string \<Rightarrow> bool" where
  "was_made v i \<longleftrightarrow> VStr i \<in> set (the_list v)"

definition make_object :: "string \<Rightarrow> (world, docker_object) action" where
  "make_object i = (\<lambda>w. (Inr (swarm_object i), w\<lparr>w_external := VList (VStr i # the_list (w_external w))\<rparr>))"

definition sample_swarm :: "mapping \<Rightarrow> swarm_env" where
  "sample_swarm task =
     \<lparr>sw_base_url = None, sw_network_base = ''orchestrator'', sw_host_root = None, sw_shared_storage = False,
      sw_range_start = 18000, sw_range_end = 18010, sw_timeout = 3, sw_parse_bytes = sample_bytes,
      sw_connect = ret (), sw_info = ret [], sw_list = (\<lambda>c f. ret []),
      sw_get = (\<lambda>c i. reading (\<lambda>w. if was_made (w_external w) i then Some (swarm_object i) else None)),
      sw_create_volume = (\<lambda>n l. make_object n), sw_create_network = (\<lambda>n a l. make_object n),
      sw_create_service = (\<lambda>img n s c. make_object n), sw_update_service = (\<lambda>ob i s c. ret ()),
      sw_tasks = (\<lambda>ob. ret (VList [VDict task])), sw_sleep = modify (\<lambda>w. w\<lparr>w_clock := w_clock w + 1\<rparr>)\<rparr>"

definition running_task :: "mapping" where
  "running_task = [(VStr ''DesiredState'', VStr ''running''), (VStr ''Status'', VDict [(VStr ''State'', VStr ''running'')])]"

definition sample_remover :: "swarm_remover" where
  "sample_remover = \<lparr>sr_service = (\<lambda>ob. ret ()), sr_network = (\<lambda>ob. ret ())\<rparr>"

definition sample_adapter :: "adapter" where
  "sample_adapter = \<lparr>ad_build_id = None, ad_tracker = None, ad_target = ''docker:local'', ad_node_id = VNull\<rparr>"

definition web_service :: "mapping" where
  "web_service = [(VStr ''image'', VStr ''a/web''), (VStr ''depends_on'', VList [VStr ''db'']), (VStr ''ports'', VList [VStr ''8080:80''])]"

definition db_service :: "mapping" where
  "db_service = [(VStr ''image'', VStr ''a/db''), (VStr ''ports'', VList [VStr ''8080:5432''])]"

definition sample_list :: "services" where
  "sample_list = [(''web'', web_service), (''db'', db_service)]"

definition sample_document :: "value" where
  "sample_document = VDict [(VStr ''services'', VDict [(VStr ''web'', VDict web_service), (VStr ''db'', VDict db_service)])]"

definition swarm_world :: "world" where "swarm_world = empty_world (\<lambda>n. str_nat n) 100"

definition sample_rollout :: "rollout" where
  "sample_rollout = \<lparr>ro_appid = ''shop'', ro_namespace = ''shop'', ro_network = ''orchestrator-shop'', ro_sources = [], ro_shared = []\<rparr>"

definition sample_spec :: "string \<Rightarrow> published_port list \<Rightarrow> service_spec" where
  "sample_spec n ports = \<lparr>sp_env = [],
     sp_labels = [(''io.docker-jenkins-orchestrator.appid'', ''shop''), (''io.docker-jenkins-orchestrator.namespace'', ''shop''),
       (''io.docker-jenkins-orchestrator.compose-service'', n)],
     sp_container_labels = None, sp_network = ''orchestrator-shop'', sp_aliases = [n], sp_command = None,
     sp_workdir = None, sp_mounts = [], sp_endpoint_spec = endpoint_spec ports, sp_mode = None, sp_restart_policy = None,
     sp_resources = None, sp_healthcheck = None\<rparr>"

lemma kw: "service_kwargs sample_bytes None ''shop'' ''shop'' ''db'' db_service ''orchestrator-shop'' ports [] = Inr (sample_spec ''db'' ports)"
  by code_simp

lemma kw2: "service_kwargs sample_bytes None ''shop'' ''shop'' ''web'' web_service ''orchestrator-shop'' ports [] = Inr (sample_spec ''web'' ports)"
  by code_simp
definition db_port :: "nat \<Rightarrow> published_port" where
 "db_port n = \<lparr>pp_target_port = 5432, pp_published_port = Some (int n), pp_protocol = ''tcp'', pp_mode = ''ingress''\<rparr>"
definition web_port :: "nat \<Rightarrow> published_port" where
 "web_port n = \<lparr>pp_target_port = 80, pp_published_port = Some (int n), pp_protocol = ''tcp'', pp_mode = ''ingress''\<rparr>"

lemma al1: "allocate_ports (sample_swarm t) sample_adapter ''shop-db'' [] [db_port 8080] w = (Inr [db_port 8080], w)"
  by (simp add: allocate_ports_def allocate_port_def choose_port_def requested_port_def swarm_reserve_port_def sample_adapter_def db_port_def swarm_record_def with_tracker_def bd_app andthen_app)

lemma al2: "allocate_ports (sample_swarm t) sample_adapter ''shop-web'' [port_key (db_port 8080)] [web_port 8080] w = (Inr [web_port 18000], w)"
  by (simp add: allocate_ports_def allocate_port_def choose_port_def requested_port_def swarm_reserve_port_def sample_adapter_def db_port_def web_port_def swarm_record_def with_tracker_def bd_app andthen_app port_key_def sample_swarm_def upto.simps)


lemma untracked [simp]: "swarm_record sample_adapter k n i st m w = (Inr (), w)" "swarm_guard sample_adapter w = (Inr (), w)"
  by (simp_all add: swarm_record_def swarm_guard_def with_tracker_def sample_adapter_def)


lemma sample_sel [simp]:
  "ad_build_id sample_adapter = None" "ad_tracker sample_adapter = None"
  "sw_parse_bytes (sample_swarm t) = sample_bytes" "sw_network_base (sample_swarm t) = ''orchestrator''"
  "workspace_constraints (sample_swarm t) spec = ret []"
  by (simp_all add: sample_adapter_def sample_swarm_def workspace_constraints_def fun_eq_iff)

lemma sample_calls:
  "sw_get (sample_swarm t) c i = reading (\<lambda>w. if was_made (w_external w) i then Some (swarm_object i) else None)"
  "sw_create_network (sample_swarm t) n a l = make_object n" "sw_connect (sample_swarm t) = ret ()"
  "sw_list (sample_swarm t) c f = ret []"
  by (simp_all add: sample_swarm_def)

lemma sample_find [simp]: "find_existing (sample_swarm t) name w =
    (Inr (if was_made (w_external w) name then Some (swarm_object name) else None), w)"
  by (simp add: find_existing_def catching_app sample_swarm_def)

lemma sample_put [simp]: "put_service (sample_swarm t) img name spec cs None = make_object name"
  by (simp add: put_service_def sample_swarm_def fun_eq_iff catching_app make_object_def)

lemma sample_id [simp]: "swarm_object_id (swarm_object i) = (if i = [] then None else Some i)"
  by (simp add: swarm_object_id_def swarm_object_def str_or_def mget_def nonempty_str_def)

lemma sample_ro [simp]: "ro_appid sample_rollout = ''shop''" "ro_namespace sample_rollout = ''shop''"
  "ro_network sample_rollout = ''orchestrator-shop''" "ro_sources sample_rollout = []" "ro_shared sample_rollout = []"
  by (simp_all add: sample_rollout_def)

lemma deploy_one_fresh:
  assumes "validate_service_name n = Inr ()" "validate_service_image service = Inr ()"
    "deployment_service_name ''shop'' ''shop'' n service = Inr name" "ports_value (mget service ''ports'') = Inr wanted"
    "allocate_ports (sample_swarm t) sample_adapter name occupied wanted w = (Inr ports, w)"
    "service_kwargs sample_bytes None ''shop'' ''shop'' n service ''orchestrator-shop'' ports [] = Inr spec"
    "\<not> was_made (w_external w) name" "name \<noteq> []"
  shows "deploy_one (sample_swarm t) sample_adapter sample_rollout occupied n service w =
     (Inr (\<lparr>sd_service_id = name, sd_service_name = name, sd_image = the_str (mget service ''image''), sd_created = True,
            sd_endpoint = service_endpoint name ports, sd_ports = ports\<rparr>, map port_key ports @ occupied),
      w\<lparr>w_external := VList (VStr name # the_list (w_external w))\<rparr>)"
  using assms
  by (simp add: deploy_one_def bd_app andthen_app make_object_def str_or_def Let_def)

lemma d0: "service_name ''shop'' ''db'' = Inr ''shop-db''" by code_simp
lemma d1: "service_name ''shop'' ''web'' = Inr ''shop-web''" by code_simp
lemma d2: "template_component ''shop'' ''shop'' n db_service = Inr None" by (simp add: template_component_def db_service_def mget_def)
lemma d3: "template_component ''shop'' ''shop'' n web_service = Inr None" by (simp add: template_component_def web_service_def mget_def)
lemma d4: "validate_service_name ''db'' = Inr ()" by code_simp
lemma d5: "validate_service_image db_service = Inr ()" by code_simp
lemma d6: "ports_value (mget db_service ''ports'') = Inr [db_port 8080]" by code_simp
lemma d7: "validate_service_name ''web'' = Inr ()" by code_simp
lemma d8: "validate_service_image web_service = Inr ()" by code_simp
lemma d9: "ports_value (mget web_service ''ports'') = Inr [web_port 8080]" by code_simp
lemma c0: "task_state running_task = ''running''" by code_simp
lemma c1: "task_wanted running_task" by code_simp
lemma c3: "desired_task_count (swarm_object i) = 1"
  by (simp add: desired_task_count_def swarm_object_def mget_def Let_def)
lemma counts: "count_tasks task_running [VDict running_task] = 1" "desired_task_count (swarm_object i) = 1"
  by (simp_all add: c0 c1 c3 count_tasks_def task_running_def)

lemma settled:
  assumes "was_made (w_external w) (sd_service_name d)"
  shows "settle_service (sample_swarm running_task) sample_adapter d w = (Inr (), w)"
proof -
  have poll: "poll_tasks (sample_swarm running_task) sample_adapter ob 1 w = (Inr True, w)" for ob
    by (simp add: poll_tasks_def bd_app andthen_app catching_app sample_swarm_def counts)
  have "find_existing (sample_swarm running_task) (sd_service_name d) w = (Inr (Some (swarm_object (sd_service_name d))), w)"
    using assms by (simp add: find_existing_def catching_app sample_swarm_def)
  then show ?thesis
    using assms by (simp add: settle_service_def await_ready_def wait_for_service_ready_def bd_app andthen_app counts poll)
qed


lemma e1: "app_namespace ''shop'' = Inr ''shop''" by code_simp
lemma e2: "validate_top_level sample_document = Inr ()" by code_simp
lemma e3: "compose_services sample_document = Inr sample_list" by code_simp
lemma e4: "service_features sample_bytes sample_list (''db'', db_service) = Inr ()" by code_simp
lemma e5: "service_features sample_bytes sample_list (''web'', web_service) = Inr ()" by code_simp
lemma e6: "deployment_order sample_list = Inr [''db'', ''web'']" by code_simp
lemma e7: "rfor sample_list (named_service True) = Inr ()" by code_simp
lemma e8: "volume_sources sample_document ''shop'' = Inr []" by code_simp
lemma e9: "deployment_service_name ''shop'' ''shop'' ''db'' db_service = Inr ''shop-db''" "deployment_service_name ''shop'' ''shop'' ''web'' web_service = Inr ''shop-web''"
  by (simp_all add: deployment_service_name_def d0 d1 d2 d3)
lemma e10: "validate_unique_names ''shop'' ''shop'' sample_list = Inr ()"
  by (simp add: validate_unique_names_def unique_name_def e9 sample_list_def)

lemma e11: "validate_compose sample_bytes True sample_document = Inr ()"
proof -
  have "set sample_list = {(''web'', web_service), (''db'', db_service)}" by (simp add: sample_list_def)
  then have "rfor sample_list (service_features sample_bytes sample_list) = Inr ()"
    by (simp add: rfor_Inr_iff e4 e5)
  then show ?thesis by (simp add: validate_compose_def e2 e3 e6 e7)
qed

lemma sample_plan: "plan_deployment (sample_swarm t) sample_adapter ''shop'' sample_document = Inr
   \<lparr>pl_namespace = ''shop'', pl_services = sample_list, pl_sources = [], pl_names = [''shop-web'', ''shop-db'']\<rparr>"
proof -
  have "rmap (\<lambda>ns. deployment_service_name ''shop'' ''shop'' (fst ns) (snd ns)) sample_list = Inr [''shop-web'', ''shop-db'']"
    by (simp add: sample_list_def e9)
  then show ?thesis by (simp add: plan_deployment_def e1 e3 e11 e10 e8)
qed

lemma sample_occupied: "occupied_published_ports (sample_swarm t) sample_adapter names w = (Inr [], w)"
  by (simp add: occupied_published_ports_def sample_swarm_def bd_app catching_app)

lemma sample_enter: "enter_swarm (sample_swarm t) sample_adapter a n ss w = (Inr sample_adapter, w)"
  by (simp add: enter_swarm_def)

lemma e12: "network_name ''orchestrator'' ''shop'' = Inr ''orchestrator-shop''" by code_simp

lemma sample_network:
  "\<not> was_made (w_external w) ''orchestrator-shop'' \<Longrightarrow>
   ensure_network (sample_swarm t) sample_adapter ''shop'' ''shop'' w =
     (Inr (''orchestrator-shop'', ''orchestrator-shop'', True),
      w\<lparr>w_external := VList (VStr ''orchestrator-shop'' # the_list (w_external w))\<rparr>)"
  by (simp add: ensure_network_def bd_app andthen_app catching_app str_or_def e12 sample_calls make_object_def)

definition db_up :: "service_deployment" where
  "db_up = \<lparr>sd_service_id = ''shop-db'', sd_service_name = ''shop-db'', sd_image = ''a/db'', sd_created = True,
     sd_endpoint = Some ''shop-db:8080'', sd_ports = [db_port 8080]\<rparr>"

definition web_up :: "service_deployment" where
  "web_up = \<lparr>sd_service_id = ''shop-web'', sd_service_name = ''shop-web'', sd_image = ''a/web'', sd_created = True,
       sd_endpoint = Some ''shop-web:18000'', sd_ports = [web_port 18000]\<rparr>"

lemma sample_ports_text: "str_int 8080 = ''8080''" "str_int 18000 = ''18000''"
  by (simp_all add: str_int_def str_nat_def digits_of_nat.simps char_of_def bit_0)

lemma deploy_db:
  assumes "\<not> was_made (w_external w) ''shop-db''"
  shows "deploy_one (sample_swarm t) sample_adapter sample_rollout [] ''db'' db_service w =
     (Inr (db_up, [port_key (db_port 8080)]), w\<lparr>w_external := VList (VStr ''shop-db'' # the_list (w_external w))\<rparr>)"
proof -
  have "service_endpoint ''shop-db'' [db_port 8080] = Some ''shop-db:8080''"
    by (simp add: db_port_def sample_ports_text)
  then show ?thesis
    by (subst deploy_one_fresh [OF d4 d5 e9(1) d6 al1 kw assms]) (simp_all add: db_up_def db_service_def mget_def del: service_endpoint.simps)
qed

lemma deploy_web:
  assumes "\<not> was_made (w_external w) ''shop-web''"
  shows "deploy_one (sample_swarm t) sample_adapter sample_rollout [port_key (db_port 8080)] ''web'' web_service w =
     (Inr (web_up, [port_key (web_port 18000), port_key (db_port 8080)]),
      w\<lparr>w_external := VList (VStr ''shop-web'' # the_list (w_external w))\<rparr>)"
proof -
  have "service_endpoint ''shop-web'' [web_port 18000] = Some ''shop-web:18000''"
    by (simp add: web_port_def sample_ports_text)
  then show ?thesis
    by (subst deploy_one_fresh [OF d7 d8 e9(2) d9 al2 kw2 assms]) (simp_all add: web_up_def web_service_def mget_def del: service_endpoint.simps)
qed

lemma sample_rollout_runs:
  assumes "w_external w = VList [VStr ''orchestrator-shop'']"
  shows "\<exists>w'. rollout_services (sample_swarm running_task) sample_adapter sample_rollout sample_list [''db'', ''web''] [] [] [] w =
    (Inr (None, [db_up, web_up], [db_up, web_up]), w')"
proof -
  have pick: "the (dget sample_list ''db'') = db_service" "the (dget sample_list ''web'') = web_service"
    by (simp_all add: sample_list_def)
  have names: "sd_service_name db_up = ''shop-db''" "sd_service_name web_up = ''shop-web''" "sd_created db_up" "sd_created web_up"
    by (simp_all add: db_up_def web_up_def)
  have "\<not> was_made (w_external w) ''shop-db''" using assms by (simp add: was_made_def)
  note db = deploy_db [OF this, of running_task]
  let ?w = "w\<lparr>w_external := VList [VStr ''shop-db'', VStr ''orchestrator-shop'']\<rparr>"
  have "\<not> was_made (w_external ?w) ''shop-web''" by (simp add: was_made_def)
  note web = deploy_web [OF this, of running_task]
  have "settle_service (sample_swarm running_task) sample_adapter db_up ?w = (Inr (), ?w)"
    by (rule settled) (simp add: names was_made_def)
  moreover have "settle_service (sample_swarm running_task) sample_adapter web_up v = (Inr (), v)"
    if "w_external v = VList [VStr ''shop-web'', VStr ''shop-db'', VStr ''orchestrator-shop'']" for v
    by (rule settled) (simp add: names was_made_def that)
  ultimately show ?thesis
    using db web assms by (simp add: pick names bd_app attempt_app Let_def)
qed



theorem allocation_succeeds_with_room_witness:
  "\<exists>qs. allocate_ports (sample_swarm running_task) sample_adapter ''shop-web'' [port_key (db_port 8080)]
     [web_port 8080, web_port 8081] swarm_world = (Inr qs, swarm_world)"
  by (rule allocation_succeeds_with_room) (simp_all add: sample_swarm_def)

lemma sample_clock: "swarm_clock_ok (sample_swarm t)"
  by (simp add: swarm_clock_ok_def sample_swarm_def clock_grows_def keeps_def)

text \<open>A service whose task runs after the third nap.\<close>

definition late_tasks :: "world \<Rightarrow> value list" where
  "late_tasks w = [VDict (if w_clock w < 102 then [] else running_task)]"

definition late_swarm :: "swarm_env" where
  "late_swarm = (sample_swarm running_task)\<lparr>sw_tasks := \<lambda>ob w. (Inr (VList (late_tasks w)), w)\<rparr>"

definition nap :: "world \<Rightarrow> world" where
  "nap w = w\<lparr>w_clock := w_clock w + 1\<rparr>"


text \<open>A daemon whose removals hit other things than the adapter's own.\<close>

definition stray_remover :: "swarm_remover" where
  "stray_remover =
     \<lparr>sr_service = (\<lambda>ob w. if is_ok (assert_resource_owner ob ''shop'' ''shop'') then (Inr (), w)
                            else (Inl (Exn OtherError ''gone''), w\<lparr>w_external := VNull\<rparr>)),
      sr_network = (\<lambda>ob w. if swarm_object_id ob \<noteq> None \<and> was_made (w_external w) (the (swarm_object_id ob)) then (Inr (), w)
                            else (Inl (Exn OtherError ''gone''), w\<lparr>w_external := VNull\<rparr>))\<rparr>"


end
