(* ===== verification/SwarmBuild.thy ===== *)
theory SwarmBuild
  imports SwarmSafety ComposeInputs Urls
begin

text \<open>
  \<open>orchestrator/docker_services.py\<close>: \<open>deploy_build\<close> with the checks of a build-isolated document, its
  mounts, volumes and the endpoints its services are configured with, and the public \<open>deploy_one\<close>.

  The theorem shows that what the checks accept is what Docker is told: whatever a build deploys,
  no service is created or updated with a mount that is not a volume of the build or a
  directory of its workspace.
\<close>

section \<open>Volumes and mounts\<close>

text \<open>Iterating a value: a text by characters, a mapping by keys.\<close>

definition iterate_value :: "value \<Rightarrow> value list res" where
  "iterate_value v =
     (case v of
        VList xs \<Rightarrow> Inr xs
      | VStr s \<Rightarrow> Inr (map (\<lambda>c. VStr [c]) s)
      | VDict d \<Rightarrow> Inr (keys d)
      | _ \<Rightarrow> Inl (Exn TypeError ''object is not iterable''))"

definition private_volume :: "value \<Rightarrow> unit res" where
  "private_volume d =
     (if d \<noteq> VNull \<and> \<not> is_mapping d then docker_error ''Compose volume definition is invalid''
      else if truthy (mget (the_dict d) ''external'') \<or> truthy (mget (the_dict d) ''driver_opts'')
              \<or> mget (the_dict d) ''driver'' \<notin> {VNull, VStr ''local''}
      then docker_error ''Shared/external volume backends cannot be isolated by build''
      else Inr ())"

definition bind_allowed :: "string option \<Rightarrow> string \<Rightarrow> bool" where
  "bind_allowed allowed source \<longleftrightarrow>
     (case allowed of
        None \<Rightarrow> False
      | Some root \<Rightarrow> is_relative_to source root \<and> ''..'' \<notin> set (path_parts source))"

definition checked_source :: "value \<Rightarrow> value" where
  "checked_source mount =
     (case mount of
        VStr s \<Rightarrow> VStr (hd (split_on (CHR '':'') s))
      | VDict d \<Rightarrow> mget_default d ''source'' (VStr [])
      | _ \<Rightarrow> VStr [])"

definition private_mount :: "string option \<Rightarrow> value \<Rightarrow> unit res" where
  "private_mount allowed mount =
     (let source = checked_source mount in
      if \<not> nonempty_str source then docker_error ''Anonymous mounts are not supported in build-isolated deployments''
      else if starts_with (the_str source) ''/'' \<and> \<not> bind_allowed allowed (the_str source)
      then docker_error ''Absolute bind mounts must belong to the build workspace''
      else Inr ())"

definition private_mounts :: "string option \<Rightarrow> mapping \<Rightarrow> unit res" where
  "private_mounts allowed service =
     rbind (iterate_value (mget_default service ''volumes'' (VList []))) (\<lambda>mounts.
     rfor mounts (private_mount allowed))"

section \<open>Endpoints\<close>

text \<open>\<open>${NAME}\<close>, \<open>${NAME-text}\<close> or \<open>${NAME:-text}\<close> at the head of a text.\<close>

definition reference_at :: "string \<Rightarrow> (string \<times> string \<times> string) option" where
  "reference_at s =
     (if starts_with s ''${'' then
        (case ident_of (drop 2 s) of
           None \<Rightarrow> None
         | Some (name, rest) \<Rightarrow>
             if starts_with rest ''}'' then Some (name, [], tl rest)
             else if starts_with rest ''-'' \<or> starts_with rest '':-'' then
               (case split_once (CHR ''}'') (drop (if starts_with rest ''-'' then 1 else 2) rest) of
                  (given_text, Some after) \<Rightarrow> Some (name, given_text, after)
                | (_, None) \<Rightarrow> None)
             else None)
      else None)"

lemma reference_at_shorter: "reference_at s = Some (n, d, after) \<Longrightarrow> length after < length s"
  by (auto simp: reference_at_def starts_with_def prefix_def dest!: ident_of_shorter split_once_shorter
      split: if_splits option.splits prod.splits)

definition reference_text :: "(string, string) dict \<Rightarrow> (string, string) dict \<Rightarrow> string \<Rightarrow> string \<Rightarrow> string" where
  "reference_text environment values name given_text =
     (case dget environment name of
        Some v \<Rightarrow> v
      | None \<Rightarrow>
          (case dget values name of
             Some v \<Rightarrow> v
           | None \<Rightarrow> if given_text \<noteq> [] then given_text else ''${'' @ name @ ''}''))"

function substitute :: "(string, string) dict \<Rightarrow> (string, string) dict \<Rightarrow> string \<Rightarrow> string" where
  "substitute environment values s =
     (case reference_at s of
        Some (name, given_text, after) \<Rightarrow>
          reference_text environment values name given_text @ substitute environment values after
      | None \<Rightarrow> (case s of [] \<Rightarrow> [] | c # t \<Rightarrow> c # substitute environment values t))"
  by pat_completeness auto
termination
  by (relation "measure (\<lambda>(_, _, s). length s)") (auto dest: reference_at_shorter)

definition STATEFUL_SCHEMES :: "string list" where
  "STATEFUL_SCHEMES = [''postgres'', ''postgresql'', ''mysql'', ''mariadb'', ''mongodb'', ''mongodb+srv'', ''redis'',
     ''rediss'', ''amqp'', ''amqps'', ''nats'', ''s3'', ''gs'']"

definition ENDPOINT_OWNERS :: "string list" where
  "ENDPOINT_OWNERS = [''DATABASE'', ''DB'', ''POSTGRES'', ''PG'', ''MYSQL'', ''MARIADB'', ''MONGO'', ''MONGODB'', ''REDIS'',
     ''CACHE'', ''RABBITMQ'', ''AMQP'', ''S3'', ''MINIO'', ''STORAGE'', ''ELASTIC'', ''ELASTICSEARCH'']"

definition ENDPOINT_KINDS :: "string list" where
  "ENDPOINT_KINDS = [''HOST'', ''URL'', ''URI'', ''DSN'', ''ENDPOINT'']"

text \<open>\<open>$\<close> matches before a final newline too.\<close>

definition endpoint_key :: "string \<Rightarrow> bool" where
  "endpoint_key key \<longleftrightarrow>
     (let k = (if ends_with key [CHR 0x0A] then butlast key else key) in
      list_ex (\<lambda>p. list_ex (\<lambda>q. ends_with k (p @ ''_'' @ q)) ENDPOINT_KINDS) ENDPOINT_OWNERS)"

definition BUCKET_KEYS :: "string list" where
  "BUCKET_KEYS = [''S3_BUCKET'', ''AWS_S3_BUCKET'', ''STORAGE_BUCKET'', ''GOOGLE_STORAGE_BUCKET'']"

definition BUCKET_ENDPOINTS :: "string list" where
  "BUCKET_ENDPOINTS = [''S3_ENDPOINT'', ''MINIO_ENDPOINT'', ''STORAGE_ENDPOINT'', ''AWS_ENDPOINT_URL'', ''AWS_ENDPOINT_URL_S3'']"

definition host_of :: "string \<Rightarrow> string option res" where
  "host_of s = rbind (urlsplit s) (\<lambda>u. Inr (url_hostname u))"

definition endpoint_of :: "(string, string) dict \<Rightarrow> (string, string) dict \<Rightarrow> string \<Rightarrow> string" where
  "endpoint_of environment values k =
     (case dget values k of
        Some v \<Rightarrow> v
      | None \<Rightarrow> (case dget environment k of Some v \<Rightarrow> v | None \<Rightarrow> []))"

definition local_bucket :: "string list \<Rightarrow> (string, string) dict \<Rightarrow> (string, string) dict \<Rightarrow> bool" where
  "local_bucket services environment values \<longleftrightarrow>
     list_ex (\<lambda>k.
       let endpoint = endpoint_of environment values k in
       case host_of (if contains endpoint ''://'' then endpoint else ''//'' @ endpoint) of
         Inr (Some h) \<Rightarrow> h \<in> set services
       | _ \<Rightarrow> False) BUCKET_ENDPOINTS"

definition stateful_host :: "string \<Rightarrow> string \<Rightarrow> string option option res" where
  "stateful_host key content =
     (case urlsplit content of
        Inl _ \<Rightarrow> docker_error (''Stateful endpoint configuration '' @ key @ '' is invalid'')
      | Inr parsed \<Rightarrow>
          if content = [] \<or> \<not> (endpoint_key (upper key)
               \<or> upper key \<in> {''PGHOST'', ''AWS_ENDPOINT_URL'', ''AWS_ENDPOINT_URL_S3''}
               \<or> url_scheme parsed \<in> set STATEFUL_SCHEMES)
          then Inr None
          else if contains content ''${''
          then docker_error (''Stateful endpoint configuration '' @ key @ '' is unresolved'')
          else if url_scheme parsed \<noteq> [] \<and> contains content ''://'' then Inr (Some (url_hostname parsed))
          else
            (case host_of (''//'' @ content) of
               Inl _ \<Rightarrow> docker_error (''Stateful endpoint configuration '' @ key @ '' is invalid'')
             | Inr h \<Rightarrow> Inr (Some h)))"

definition LOOPBACK :: "string list" where
  "LOOPBACK = [''localhost'', ''127.0.0.1'', ''::1'']"

definition private_entry ::
  "string list \<Rightarrow> (string, string) dict \<Rightarrow> (string, string) dict \<Rightarrow> string \<times> string \<Rightarrow> unit res" where
  "private_entry services environment values kv =
     (let content = substitute environment values (snd kv) in
      if upper (fst kv) \<in> set BUCKET_KEYS \<and> content \<noteq> [] then
        (if local_bucket services environment values then Inr ()
         else docker_error (''External storage configuration '' @ fst kv @ '' cannot be proven build-private''))
      else
        rbind (stateful_host (fst kv) content) (\<lambda>host.
        case host of
          None \<Rightarrow> Inr ()
        | Some h \<Rightarrow>
            if (case h of Some name \<Rightarrow> name \<in> set (services @ LOOPBACK) | None \<Rightarrow> False) then Inr ()
            else docker_error (''External stateful endpoint '' @ fst kv @
                   '' cannot be proven build-private; use a service in this build'')))"

text \<open>\<open>dict(value.split("=", 1) for value in entries)\<close>.\<close>

definition entry_pair :: "string \<Rightarrow> (string, string) dict \<Rightarrow> (string, string) dict res" where
  "entry_pair entry d =
     (case split_once (CHR ''='') entry of
        (k, Some v) \<Rightarrow> Inr (dset d k v)
      | (_, None) \<Rightarrow> Inl (Exn ValueError ''dictionary update sequence element has length 1; 2 is required''))"

definition service_environment :: "mapping \<Rightarrow> (string, string) dict res" where
  "service_environment service =
     rbind (environment_entries (mget service ''environment'')) (\<lambda>entries. rfold entry_pair entries [])"

definition validate_private_backends :: "value \<Rightarrow> (string, string) dict \<Rightarrow> unit res" where
  "validate_private_backends compose environment =
     rbind (compose_services compose) (\<lambda>services.
     rbind (rmap (service_environment \<circ> snd) services) (\<lambda>configurations.
     rfor (environment # configurations) (\<lambda>values.
       rfor values (private_entry (map fst services) environment values))))"

section \<open>A build-isolated document\<close>

definition validate_build_compose :: "string option \<Rightarrow> value \<Rightarrow> (string, string) dict \<Rightarrow> unit res" where
  "validate_build_compose allowed compose environment =
     (case compose of
        VDict d \<Rightarrow>
          if truthy (mget d ''networks'') \<or> truthy (mget d ''secrets'') \<or> truthy (mget d ''configs'')
          then docker_error ''Build-isolated deployments cannot reference external networks, secrets or configs''
          else if \<not> is_mapping (mget_default d ''volumes'' (VDict []))
          then docker_error ''Compose volumes must be a mapping''
          else
            rbind (rfor (map snd (the_dict (mget_default d ''volumes'' (VDict [])))) private_volume) (\<lambda>_.
            rbind (compose_services compose) (\<lambda>services.
            rbind (rfor (map snd services) (private_mounts allowed)) (\<lambda>_.
            validate_private_backends compose environment)))
      | _ \<Rightarrow> Inl (Exn OtherError ''AttributeError: object has no attribute get''))"

text \<open>The last element of a joined path begins anew where it is absolute.\<close>

definition path_join :: "string \<Rightarrow> string \<Rightarrow> string" where
  "path_join a b = (if starts_with b ''/'' then b else a @ ''/'' @ b)"

definition build_files :: "swarm_env \<Rightarrow> string \<Rightarrow> string \<Rightarrow> string option res" where
  "build_files env appid build_id =
     (case sw_host_root env of
        None \<Rightarrow> Inr None
      | Some root \<Rightarrow>
          rbind (external_namespace appid) (\<lambda>n.
          Inr (Some (foldl path_join root [n, ''snapshots'', build_id, ''files'']))))"

definition exclusive_image :: "string \<Rightarrow> mapping \<Rightarrow> unit res" where
  "exclusive_image build_id service =
     (let reference = mget_default service ''image'' (VStr []) in
      if \<not> is_str reference \<or> \<not> starts_with (snd (rsplit_once (CHR '':'') (the_str reference))) (build_id @ ''-'')
      then docker_error ''Build services require build-exclusive image references''
      else Inr ())"

definition admit_build :: "swarm_env \<Rightarrow> string \<Rightarrow> string \<Rightarrow> value \<Rightarrow> unit res" where
  "admit_build env appid build_id compose =
     rbind (build_files env appid build_id) (\<lambda>allowed.
     rbind (validate_build_compose allowed compose []) (\<lambda>_.
     rbind (compose_services compose) (\<lambda>services.
     rfor (map snd services) (exclusive_image build_id))))"

definition deploy_build ::
  "swarm_env \<Rightarrow> swarm_remover \<Rightarrow> adapter \<Rightarrow> string \<Rightarrow> string \<Rightarrow> value \<Rightarrow> tracker
     \<Rightarrow> (world, string \<times> service_deployment list) action" where
  "deploy_build env rm ad appid build_id compose t =
     andthen (lift_res (admit_build env appid build_id compose))
       (deploy env rm (ad\<lparr>ad_build_id := Some build_id, ad_tracker := Some t\<rparr>) appid compose)"

section \<open>A single service\<close>

text \<open>What is decided before the first call to Docker.\<close>

definition plan_single :: "swarm_env \<Rightarrow> string \<Rightarrow> string \<Rightarrow> value \<Rightarrow> (string \<times> (string, string) dict) res" where
  "plan_single env appid name service =
     rbind (app_namespace appid) (\<lambda>namespace.
     if \<not> is_mapping service then docker_error ''Compose service definition is invalid''
     else
       rbind (service_features (sw_parse_bytes env) [(name, the_dict service)] (name, the_dict service)) (\<lambda>_.
       rbind (validate_service_name name) (\<lambda>_.
       rbind (validate_service_image (the_dict service)) (\<lambda>_.
       rbind (volume_sources (VDict [(VStr ''services'', VDict [(VStr name, service)])]) namespace) (\<lambda>sources.
       Inr (namespace, sources))))))"

text \<open>The service is created when the deployment has returned; a failure of the wait removes it.\<close>

definition settle_single ::
  "swarm_env \<Rightarrow> swarm_remover \<Rightarrow> adapter \<Rightarrow> rollout \<Rightarrow> string \<times> string \<times> bool
     \<Rightarrow> service_deployment \<Rightarrow> (world, service_deployment) action" where
  "settle_single env rm ad ro network d =
     catching (andthen (await_ready env ad (sd_service_name d)) (ret d))
       (\<lambda>e. andthen (rollback_deployment env rm (ro_appid ro) (ro_namespace ro) network (if sd_created d then [d] else []))
              (reraise e))"

definition put_single ::
  "swarm_env \<Rightarrow> swarm_remover \<Rightarrow> adapter \<Rightarrow> rollout \<Rightarrow> string \<times> string \<times> bool \<Rightarrow> port_key list \<Rightarrow> string \<Rightarrow> mapping
     \<Rightarrow> (world, service_deployment) action" where
  "put_single env rm ad ro network occupied name service =
     bd (attempt (deploy_one env ad ro occupied name service)) (\<lambda>put.
     case put of
       Inl e \<Rightarrow> andthen (rollback_deployment env rm (ro_appid ro) (ro_namespace ro) network []) (reraise e)
     | Inr (d, _) \<Rightarrow> settle_single env rm ad ro network d)"

definition deploy_single ::
  "swarm_env \<Rightarrow> swarm_remover \<Rightarrow> adapter \<Rightarrow> string \<Rightarrow> string \<Rightarrow> value \<Rightarrow> (world, service_deployment) action" where
  "deploy_single env rm ad appid name service =
     bd (lift_res (plan_single env appid name service)) (\<lambda>plan.
     andthen (sw_connect env)
     (bd (lift_res (deployment_service_name appid (fst plan) name (the_dict service))) (\<lambda>docker_name.
      bd (occupied_published_ports env ad [docker_name]) (\<lambda>occupied.
      bd (ensure_network env ad appid (fst plan)) (\<lambda>network.
      put_single env rm ad
        \<lparr>ro_appid = appid, ro_namespace = fst plan, ro_network = fst (snd network), ro_sources = snd plan, ro_shared = []\<rparr>
        network occupied name (the_dict service))))))"

section \<open>Mounts of a build\<close>

text \<open>
  A mount is the build's own if Docker reads its first part as a managed volume of the build's namespace
  or as a directory of the build's files. A text of more than three parts is none Docker
  accepts, and one of a single part names no source.
\<close>

definition own_mount :: "string option \<Rightarrow> string \<Rightarrow> value \<Rightarrow> bool" where
  "own_mount root namespace m \<longleftrightarrow>
     (case m of
        VStr s \<Rightarrow>
          (let parts = split_on (CHR '':'') s in
           length parts > 3 \<or> (\<exists>alias. managed_volume_name namespace alias = Inr (hd parts)) \<or>
           (if starts_with (hd parts) ''/'' then bind_allowed root (hd parts) else length parts = 1))
      | VDict d \<Rightarrow> mget d ''Type'' = VStr ''tmpfs''
      | _ \<Rightarrow> False)"

definition own_spec :: "swarm_env \<Rightarrow> string \<Rightarrow> string \<Rightarrow> service_spec \<Rightarrow> bool" where
  "own_spec env appid build_id spec \<longleftrightarrow>
     (\<exists>namespace root. build_namespace appid build_id = Inr namespace \<and> build_files env appid build_id = Inr root \<and>
        (\<forall>m\<in>set (sp_mounts spec). own_mount root namespace m))"

text \<open>The client that refuses every other specification.\<close>

definition guarded_puts :: "(service_spec \<Rightarrow> bool) \<Rightarrow> swarm_env \<Rightarrow> swarm_env" where
  "guarded_puts P env = env\<lparr>
     sw_create_service := \<lambda>img n s c. if P s then sw_create_service env img n s c else raise OtherError ''foreign mount'',
     sw_update_service := \<lambda>ob img s c. if P s then sw_update_service env ob img s c else raise OtherError ''foreign mount''\<rparr>"

named_theorems guarded_simps

lemma guarded_fields [guarded_simps]:
  "sw_base_url (guarded_puts P env) = sw_base_url env" "sw_network_base (guarded_puts P env) = sw_network_base env"
  "sw_host_root (guarded_puts P env) = sw_host_root env" "sw_shared_storage (guarded_puts P env) = sw_shared_storage env"
  "sw_range_start (guarded_puts P env) = sw_range_start env" "sw_range_end (guarded_puts P env) = sw_range_end env"
  "sw_timeout (guarded_puts P env) = sw_timeout env" "sw_parse_bytes (guarded_puts P env) = sw_parse_bytes env"
  "sw_connect (guarded_puts P env) = sw_connect env" "sw_info (guarded_puts P env) = sw_info env"
  "sw_list (guarded_puts P env) = sw_list env" "sw_get (guarded_puts P env) = sw_get env"
  "sw_create_volume (guarded_puts P env) = sw_create_volume env"
  "sw_create_network (guarded_puts P env) = sw_create_network env"
  "sw_tasks (guarded_puts P env) = sw_tasks env" "sw_sleep (guarded_puts P env) = sw_sleep env"
  by (simp_all add: guarded_puts_def)

lemma guarded_prepare [guarded_simps]: "prepare_build_volumes (guarded_puts P env) = prepare_build_volumes env"
  by (intro ext) (simp only: prepare_build_volumes_def prepare_volume_def [abs_def] guarded_simps)

lemma guarded_network [guarded_simps]: "ensure_network (guarded_puts P env) = ensure_network env"
  by (intro ext) (simp only: ensure_network_def guarded_simps)

lemma guarded_ports [guarded_simps]: "allocate_ports (guarded_puts P env) = allocate_ports env"
proof -
  have "allocate_from (guarded_puts P env) ad svc i occupied ps = allocate_from env ad svc i occupied ps" for ad svc i occupied ps
    by (induction ps arbitrary: i occupied) (simp_all only: allocate_from.simps allocate_port_def choose_port_def guarded_simps)
  then show ?thesis by (intro ext) (simp only: allocate_ports_def)
qed

lemma guarded_wait [guarded_simps]: "await_ready (guarded_puts P env) = await_ready env"
proof -
  have "ready_rounds n (guarded_puts P env) ad ob desired deadline = ready_rounds n env ad ob desired deadline"
    for n ad ob desired deadline
    by (induction n) (simp_all only: ready_rounds.simps poll_tasks_def guarded_simps)
  then show ?thesis
    by (intro ext) (simp only: await_ready_def wait_for_service_ready_def find_existing_def guarded_simps)
qed

lemma guarded_rollback [guarded_simps]: "rollback_deployment (guarded_puts P env) = rollback_deployment env"
proof -
  have "rollback_services (guarded_puts P env) rm appid namespace ds = rollback_services env rm appid namespace ds"
    for rm appid namespace ds
    by (induction ds) (simp_all only: rollback_services.simps rollback_service_def guarded_simps)
  then show ?thesis
    by (intro ext)
      (simp only: rollback_deployment_def network_has_other_services_def rollback_network_def guarded_simps)
qed

lemma guarded_others [guarded_simps]:
  "occupied_published_ports (guarded_puts P env) = occupied_published_ports env"
  "plan_deployment (guarded_puts P env) = plan_deployment env"
  "enter_swarm (guarded_puts P env) = enter_swarm env"
  "workspace_constraints (guarded_puts P env) = workspace_constraints env"
  "find_existing (guarded_puts P env) = find_existing env"
  "settle_service (guarded_puts P env) = settle_service env"
  "finish_rollout (guarded_puts P env) = finish_rollout env"
  "rollback_rollout (guarded_puts P env) = rollback_rollout env"
  "build_files (guarded_puts P env) = build_files env"
  "admit_build (guarded_puts P env) = admit_build env"
  by (intro ext; simp only: occupied_published_ports_def plan_deployment_def enter_swarm_def workspace_constraints_def
      find_existing_def settle_service_def finish_rollout_def cleanup_stale_services_def rollback_rollout_def
      build_files_def admit_build_def remove_stale_def [abs_def] guarded_simps)+

lemma guarded_put: "P spec \<Longrightarrow> put_service (guarded_puts P env) img name spec cs existing = put_service env img name spec cs existing"
  by (simp add: put_service_def guarded_puts_def split: option.split)

text \<open>Every specification a service of the document is converted to satisfies \<open>P\<close>.\<close>

definition specs_satisfy :: "(service_spec \<Rightarrow> bool) \<Rightarrow> swarm_env \<Rightarrow> adapter \<Rightarrow> rollout \<Rightarrow> string \<Rightarrow> mapping \<Rightarrow> bool" where
  "specs_satisfy P env ad ro name service \<longleftrightarrow>
     (\<forall>ports spec. service_kwargs (sw_parse_bytes env) (ad_build_id ad) (ro_appid ro) (ro_namespace ro)
        name service (ro_network ro) ports (ro_sources ro) = Inr spec \<longrightarrow> P spec)"

lemma guarded_deploy_one:
  assumes "specs_satisfy P env ad ro name service"
  shows "deploy_one (guarded_puts P env) ad ro occupied name service = deploy_one env ad ro occupied name service"
proof
  fix w
  show "deploy_one (guarded_puts P env) ad ro occupied name service w = deploy_one env ad ro occupied name service w"
    unfolding deploy_one_def guarded_simps Let_def
  proof (intro bd_cong_step andthen_cong_step refl, goal_cases)
    case (1 x1 w1 x2 w2 docker_name w3 x4 w4 x5 w5 wanted w6 ports w7 spec w8 workspace w9 existing w10 x11 w11 x12 w12)
    have "P spec" using assms 1(8) unfolding specs_satisfy_def by (auto simp: lift_res_def split: sum.splits)
    then show ?case by (simp only: guarded_put)
  qed
qed

lemma order_rounds_names: "order_rounds rem xs = Inr ys \<Longrightarrow> set ys \<subseteq> set xs \<union> set (keys rem)"
proof (induction rem xs arbitrary: ys rule: order_rounds.induct)
  case (1 rem xs)
  consider "rem = []" "ys = xs"
    | "rem \<noteq> []" "ready_services rem \<noteq> []"
      "order_rounds (drop_ready (ready_services rem) rem) (xs @ ready_services rem) = Inr ys"
    using 1(2) by (subst (asm) order_rounds.simps) (auto split: if_splits)
  then show ?case
  proof cases
    case 2
    have "set ys \<subseteq> set (xs @ ready_services rem) \<union> set (keys (drop_ready (ready_services rem) rem))"
      by (rule 1(1) [OF 2])
    moreover have "set (ready_services rem) \<subseteq> set (keys rem)" by (force simp: set_ready)
    ultimately show ?thesis by (auto simp: keys_drop_ready)
  qed simp
qed

lemma deployment_order_names: "deployment_order services = Inr order \<Longrightarrow> set order \<subseteq> set (keys services)"
proof -
  assume "deployment_order services = Inr order"
  then obtain deps where "dependency_map services = Inr deps" "order_rounds deps [] = Inr order"
    by (auto simp: deployment_order_def rbind_Inr_iff)
  then show ?thesis using order_rounds_names [of deps "[]" order] keys_dependency_map by simp
qed

lemma guarded_rollout:
  assumes "\<And>n. n \<in> set ns \<Longrightarrow> specs_satisfy P env ad ro n (the (dget services n))"
  shows "rollout_services (guarded_puts P env) ad ro services ns occupied done created =
    rollout_services env ad ro services ns occupied done created"
  using assms
  by (induction ns arbitrary: occupied "done" created) (simp_all only: rollout_services.simps guarded_deploy_one guarded_simps list.set_intros)

lemma guarded_deploy:
  assumes "\<And>plan ad' network n. plan_deployment env ad appid compose = Inr plan \<Longrightarrow> n \<in> fst ` set (pl_services plan) \<Longrightarrow>
      ad_build_id ad' = ad_build_id ad \<Longrightarrow>
      specs_satisfy P env ad' \<lparr>ro_appid = appid, ro_namespace = pl_namespace plan, ro_network = network,
             ro_sources = pl_sources plan, ro_shared = shared_volume_aliases compose\<rparr> n (the (dget (pl_services plan) n))"
  shows "deploy (guarded_puts P env) rm ad appid compose w = deploy env rm ad appid compose w"
  unfolding deploy_def run_rollout_def guarded_simps
proof (intro bd_cong_step andthen_cong_step refl, goal_cases)
  case (1 plan w1 x2 w2 ad' w3 occupied w4 network w5 order w6)
  have id: "ad_build_id ad' = ad_build_id ad"
    using 1(3) unfolding enter_swarm_def by (auto elim!: bd_InrE andthen_InrE split: if_splits simp: Let_def)
  have plan: "plan_deployment env ad appid compose = Inr plan" and order: "deployment_order (pl_services plan) = Inr order"
    using 1(1,6) by simp_all
  have "rollout_services (guarded_puts P env) ad' ro (pl_services plan) order occupied [] [] =
      rollout_services env ad' ro (pl_services plan) order occupied [] []"
    if "ro = \<lparr>ro_appid = appid, ro_namespace = pl_namespace plan, ro_network = fst (snd network),
             ro_sources = pl_sources plan, ro_shared = shared_volume_aliases compose\<rparr>" for ro
    unfolding that by (rule guarded_rollout, rule assms [OF plan _ id]) (use deployment_order_names [OF order] in auto)
  then show ?case by simp
qed

section \<open>Names and parts\<close>

lemma split_on_append: "split_on c (a @ c # b) = split_on c a @ split_on c b"
  by (induction a) (auto split: list.split simp: Cons_eq_append_conv)

lemma hd_split_on_append: "c \<notin> set a \<Longrightarrow> hd (split_on c (a @ c # b)) = a"
  by (simp add: split_on_append split_on_free)

lemma component_char:
  assumes "is_docker_repository_component s"
  shows "CHR '':'' \<notin> set s"
proof -
  have "rx_all (\<lambda>c. c \<noteq> CHR '':'') DOCKER_COMPONENT_PATTERN"
    by (auto simp: DOCKER_COMPONENT_PATTERN_def Plus_def separator_rx_def Lit_def Chr_def one_of_def lower_num_def
        is_digit_def is_lower_def in_range_def code_def)
  then show ?thesis using assms lang_all [of s DOCKER_COMPONENT_PATTERN]
    by (auto simp: is_docker_repository_component_def fullmatch_iff)
qed

lemma alias_char:
  assumes "fullmatch DOCKER_NAME_RX s"
  shows "CHR '':'' \<notin> set s"
proof -
  have "rx_all (\<lambda>c. c \<noteq> CHR '':'') DOCKER_NAME_RX"
    by (auto simp: DOCKER_NAME_RX_def one_of_def is_alnum_def is_alpha_def is_lower_def is_upper_def is_digit_def in_range_def code_def)
  then show ?thesis using assms lang_all [of s DOCKER_NAME_RX] by (auto simp: fullmatch_iff)
qed

lemma lower_char_colon: "lower_char c = CHR '':'' \<longleftrightarrow> c = CHR '':''"
proof (cases "is_upper c")
  case True
  then have "of_char (lower_char c) = of_char c + (32::nat)"
    by (auto simp: lower_char_def is_upper_def in_range_def code_def)
  moreover have "65 \<le> (of_char c :: nat)" using True by (simp add: is_upper_def in_range_def code_def)
  ultimately show ?thesis by (auto dest: arg_cong [of _ _ "of_char :: char \<Rightarrow> nat"])
qed (simp add: lower_char_def)

lemma lower_colon: "CHR '':'' \<in> set (lower s) \<longleftrightarrow> CHR '':'' \<in> set s"
  unfolding lower_def set_map image_iff by (metis lower_char_colon)

lemma managed_name_colon:
  assumes "managed_volume_name ns a = Inr n"
  shows "CHR '':'' \<notin> set n"
proof -
  have n: "n = take 30 (lower (''vol-v1'' @ ''-'' @ ns @ ''-'' @ a)) @ ''-'' @ take 32 (sha256_hex (json_strings '','' [ns, a]))"
    and ok: "is_docker_repository_component ns" "fullmatch DOCKER_NAME_RX a"
    using assms by (auto simp: managed_volume_name_def volume_identity_name_parts split: if_splits)
  have "CHR '':'' \<notin> set (lower (''vol-v1'' @ ''-'' @ ns @ ''-'' @ a))"
    using component_char [OF ok(1)] alias_char [OF ok(2)] by (simp add: lower_colon)
  moreover have "CHR '':'' \<notin> set (sha256_hex (json_strings '','' [ns, a]))"
    using sha256_hex_hex [of "CHR '':''" "json_strings '','' [ns, a]"] by (auto simp: is_hex_def is_digit_def in_range_def code_def)
  ultimately have "CHR '':'' \<notin> set (take 30 (lower (''vol-v1'' @ ''-'' @ ns @ ''-'' @ a)))"
    "CHR '':'' \<notin> set (take 32 (sha256_hex (json_strings '','' [ns, a])))"
    by (blast dest: in_set_takeD)+
  then show ?thesis unfolding n by simp
qed

section \<open>Volumes of the plan\<close>

lemma rfold_keeps:
  assumes "rfold f xs s = Inr t" and "\<And>y u v. f y u = Inr v \<Longrightarrow> P u \<Longrightarrow> P v" and "P s"
  shows "P t"
  using assms(1,3)
proof (induction xs arbitrary: s)
  case (Cons x xs)
  then obtain u where "f x s = Inr u" "rfold f xs u = Inr t" by (auto simp: rbind_Inr_iff)
  with Cons assms(2) show ?case by blast
qed simp

lemma rfold_establishes:
  assumes "rfold f xs s = Inr t" and "x \<in> set xs"
    and "\<And>y u v. f y u = Inr v \<Longrightarrow> P u \<Longrightarrow> P v" and "\<And>u v. f x u = Inr v \<Longrightarrow> P v"
  shows "P t"
proof -
  obtain as bs where "xs = as @ x # bs" using split_list [OF assms(2)] by blast
  have app: "rfold f (as @ bs) s = rbind (rfold f as s) (rfold f bs)" for as bs s
    by (induction as arbitrary: s) (auto simp: rbind_def split: sum.split)
  obtain u v where fv: "f x u = Inr v" "rfold f bs v = Inr t"
    using assms(1) unfolding \<open>xs = as @ x # bs\<close> app by (auto simp: rbind_Inr_iff)
  show ?thesis by (rule rfold_keeps [where P = P, OF fv(2)]) (use assms(3,4) fv(1) in blast)+
qed

lemma mounted_volume_grows:
  "mounted_volume ns m u = Inr v \<Longrightarrow> dget (fst u) x \<noteq> None \<Longrightarrow> dget (fst v) x \<noteq> None"
  by (auto simp: mounted_volume_def implicit_volume_def rbind_Inr_iff split: option.splits if_splits)

lemma mounted_volume_named:
  "mounted_volume ns m u = Inr v \<Longrightarrow> mount_source m = Some x \<Longrightarrow> dget (fst v) x \<noteq> None"
  by (auto simp: mounted_volume_def implicit_volume_def rbind_Inr_iff split: if_splits)

lemma volume_sources_named:
  assumes "volume_sources compose ns = Inr base" and "compose_services compose = Inr services"
    and "(n, service) \<in> set services" and "m \<in> set (the_list (mget service ''volumes''))" and "mount_source m = Some x"
  shows "dget base x \<noteq> None"
proof -
  obtain d names where f: "rfold (\<lambda>ns'. rfold (mounted_volume ns) (the_list (mget (snd ns') ''volumes''))) services d = Inr names"
    and b: "base = fst names"
    using assms(1,2) unfolding volume_sources_def by (auto simp: rbind_Inr_iff)
  show ?thesis unfolding b
  proof (rule rfold_establishes [OF f assms(3), where P = "\<lambda>u. dget (fst u) x \<noteq> None"], goal_cases)
    case (1 y u v)
    show ?case by (rule rfold_keeps [OF 1(1), where P = "\<lambda>u. dget (fst u) x \<noteq> None"]) (use mounted_volume_grows 1(2) in blast)+
  next
    case (2 u v)
    then have run: "rfold (mounted_volume ns) (the_list (mget service ''volumes'')) u = Inr v" by simp
    show ?case
      by (rule rfold_establishes [OF run assms(4), where P = "\<lambda>u. dget (fst u) x \<noteq> None"])
        (use mounted_volume_grows mounted_volume_named assms(5) in blast)+
  qed
qed

text \<open>In a build every name is a managed one of the build's namespace.\<close>

definition scoped :: "string \<Rightarrow> (string, string) dict \<Rightarrow> bool" where
  "scoped ns sources \<longleftrightarrow> (\<forall>a n. dget sources a = Some n \<longrightarrow> managed_volume_name ns a = Inr n)"

lemma build_volumes_scoped:
  assumes "build_volumes ns base = Inr sources"
  shows "scoped ns sources" and "dget base x \<noteq> None \<Longrightarrow> dget sources x \<noteq> None"
proof -
  have r: "list_all2 (\<lambda>a s. fst s = a \<and> managed_volume_name ns a = Inr (snd s)) (keys base) sources"
    using assms unfolding build_volumes_def rmap_Inr_iff by (rule list_all2_mono) (auto simp: rbind_Inr_iff)
  then have k: "keys sources = keys base" by (induction "keys base" sources arbitrary: base rule: list_all2_induct) auto
  show "scoped ns sources"
    unfolding scoped_def
  proof (intro allI impI)
    fix a n
    assume "dget sources a = Some n"
    then obtain i where i: "i < length sources" "sources ! i = (a, n)" by (auto dest!: map_of_SomeD simp: in_set_conv_nth)
    then have "fst (sources ! i) = keys base ! i \<and> managed_volume_name ns (keys base ! i) = Inr (snd (sources ! i))"
      using list_all2_nthD2 [OF r] by blast
    then show "managed_volume_name ns a = Inr n" using i by simp
  qed
  show "dget base x \<noteq> None \<Longrightarrow> dget sources x \<noteq> None"
    using arg_cong [OF k, of set] by (simp add: map_of_eq_None_iff)
qed

section \<open>Accepted mounts are the build's own\<close>

lemma mount_parts:
  assumes "split_on (CHR '':'') s = first # rest"
  shows "s = join '':'' (first # rest)" and "CHR '':'' \<notin> set first"
  using join_split_on [of "CHR '':''" s] split_on_head [of "CHR '':''" s] assms by auto

lemma own_mount_text:
  assumes "private_mount root (VStr s) = Inr ()" and "mount_text sources s = Inr t" and "scoped ns sources"
    and "\<And>x. mount_source (VStr s) = Some x \<Longrightarrow> dget sources x \<noteq> None"
  shows "own_mount root ns (VStr t)"
proof -
  obtain first rest where parts: "split_on (CHR '':'') s = first # rest" by (cases "split_on (CHR '':'') s") auto
  have first: "first \<noteq> []" "starts_with first ''/'' \<Longrightarrow> bind_allowed root first"
    using assms(1) by (auto simp: private_mount_def checked_source_def parts nonempty_str_def Let_def split: if_splits)
  show ?thesis
  proof (cases "length (first # rest) \<in> {2, 3} \<and> \<not> starts_with first ''/'' \<and> dget sources first \<noteq> None")
    case True
    then obtain n where n: "dget sources first = Some n" by auto
    then have managed: "managed_volume_name ns first = Inr n" using assms(3) by (simp add: scoped_def)
    obtain r rs where "rest = r # rs" using True by (cases rest) auto
    then have "t = n @ CHR '':'' # join '':'' rest"
      using assms(2) True n by (simp add: mount_text_def parts Let_def)
    then have "hd (split_on (CHR '':'') t) = n"
      using hd_split_on_append managed_name_colon [OF managed] by simp
    then show ?thesis using managed by (auto simp: own_mount_def Let_def)
  next
    case False
    then have t: "t = s" "\<not> (length (first # rest) \<in> {2, 3} \<and> (starts_with first ''.'' \<or> starts_with first ''~''))"
      using assms(2) by (auto simp: mount_text_def parts Let_def split: if_splits)
    have "length (first # rest) = 1 \<or> length (first # rest) > 3" if "\<not> starts_with first ''/''"
    proof (rule ccontr)
      assume "\<not> ?thesis"
      then have two: "length (first # rest) \<in> {2, 3}" by (cases rest; cases "tl rest"; cases "tl (tl rest)") auto
      then have "mount_source (VStr s) = Some first"
        using t(2) that first(1) by (simp add: mount_source_def parts Let_def)
      then show False using assms(4) False two that by blast
    qed
    then show ?thesis using first t(1) by (auto simp: own_mount_def parts Let_def)
  qed
qed

lemma in_set_known: "in_set v names = Inr True \<Longrightarrow> \<exists>n\<in>set names. v = VStr n"
  by (cases v) (auto simp: in_set_def)

lemma own_mount_entry:
  assumes "private_mount root (VDict d) = Inr ()" and "mount_entry sources d = Inr t" and "scoped ns sources"
    and "\<And>x. mount_source (VDict d) = Some x \<Longrightarrow> dget sources x \<noteq> None"
  shows "own_mount root ns (VStr t)"
proof -
  obtain source where source: "mget d ''source'' = VStr source" "source \<noteq> []"
    using assms(2) by (cases "mget d ''source''") (auto simp: mount_entry_def nonempty_str_def Let_def split: if_splits)
  then have "mget_default d ''source'' (VStr []) = VStr source"
    by (auto simp: mget_def mget_default_def split: option.splits)
  then have allowed: "starts_with source ''/'' \<Longrightarrow> bind_allowed root source"
    using assms(1) by (auto simp: private_mount_def checked_source_def Let_def split: if_splits)
  define kind where k: "kind = mget_default d ''type'' (VStr ''volume'')"
  have known: "in_set kind [''volume'', ''bind''] = Inr True"
    using assms(2) source by (auto simp: mount_entry_def nonempty_str_def Let_def rbind_Inr_iff k split: if_splits)
  have bind: "starts_with source ''/''" if "kind = VStr ''bind''"
    using assms(2) source known that by (auto simp: mount_entry_def nonempty_str_def Let_def k split: if_splits)
  then have kinds: "kind = VStr ''volume'' \<or> kind = VStr ''bind'' \<and> starts_with source ''/''"
    using in_set_known [OF known] by auto
  obtain target mode where t: "t = (if kind = VStr ''volume'' then case dget sources source of Some p \<Rightarrow> p | None \<Rightarrow> source else source)
        @ CHR '':'' # target @ CHR '':'' # mode"
    by (rule that [of "the_str (mget d ''target'')" "if is_true (mget d ''read_only'') then ''ro'' else ''rw''"])
      (use assms(2) source known in \<open>auto simp: mount_entry_def nonempty_str_def Let_def k split: if_splits option.splits\<close>)
  show ?thesis
  proof (cases "kind = VStr ''volume''")
    case True
    then have "mount_source (VDict d) = Some source"
      using source k by (simp add: mount_source_def nonempty_str_def)
    then obtain n where n: "dget sources source = Some n" using assms(4) by blast
    then have managed: "managed_volume_name ns source = Inr n" using assms(3) by (simp add: scoped_def)
    have "hd (split_on (CHR '':'') t) = n"
      using t True n hd_split_on_append managed_name_colon [OF managed] by simp
    then show ?thesis using managed by (auto simp: own_mount_def Let_def)
  next
    case False
    then have parts: "split_on (CHR '':'') t = split_on (CHR '':'') source @ split_on (CHR '':'') target @ split_on (CHR '':'') mode"
      using t by (simp add: split_on_append)
    have one: "0 < length (split_on (CHR '':'') x)" for x by simp
    show ?thesis
    proof (cases "CHR '':'' \<in> set source")
      case True
      then obtain a b where "source = a @ CHR '':'' # b" by (meson split_list)
      then have "length (split_on (CHR '':'') source) = length (split_on (CHR '':'') a) + length (split_on (CHR '':'') b)"
        by (simp only: split_on_append length_append)
      then have "length (split_on (CHR '':'') t) > 3"
        using one [of a] one [of b] one [of target] one [of mode] unfolding parts length_append by linarith
      then show ?thesis by (auto simp: own_mount_def Let_def)
    next
      case free: False
      then have "hd (split_on (CHR '':'') t) = source" unfolding parts by (simp add: split_on_free)
      then show ?thesis using False kinds allowed by (auto simp: own_mount_def Let_def)
    qed
  qed
qed

lemma own_mount_item:
  assumes "private_mount root m = Inr ()" and "mount_item sources m = Inr t" and "scoped ns sources"
    and "\<And>x. mount_source m = Some x \<Longrightarrow> dget sources x \<noteq> None"
  shows "own_mount root ns (VStr t)"
proof (cases m)
  case (VStr s)
  then show ?thesis using own_mount_text assms by (auto simp: mount_item_def nonempty_str_def split: if_splits)
next
  case (VDict d)
  then show ?thesis using own_mount_entry assms by (auto simp: mount_item_def nonempty_str_def)
qed (use assms(2) in \<open>auto simp: mount_item_def nonempty_str_def\<close>)

lemma own_mounts_value:
  assumes "private_mounts root service = Inr ()" and "mounts_value sources (mget service ''volumes'') = Inr ts" and "scoped ns sources"
    and "\<And>m x. m \<in> set (the_list (mget service ''volumes'')) \<Longrightarrow> mount_source m = Some x \<Longrightarrow> dget sources x \<noteq> None"
    and "t \<in> set ts"
  shows "own_mount root ns (VStr t)"
proof -
  obtain ms where ms: "mget service ''volumes'' = VList ms" "list_all2 (\<lambda>m t. mount_item sources m = Inr t) ms ts"
    using assms(2,5) by (auto simp: mounts_value_def rmap_Inr_iff split: "value.splits")
  then have "mget_default service ''volumes'' (VList []) = VList ms"
    by (auto simp: mget_def mget_default_def split: option.splits)
  then have p: "\<forall>m\<in>set ms. private_mount root m = Inr ()"
    using assms(1) by (simp add: private_mounts_def iterate_value_def rfor_Inr_iff)
  obtain i where i: "i < length ts" "t = ts ! i" using assms(5) by (auto simp: in_set_conv_nth)
  then have m: "ms ! i \<in> set ms" "mount_item sources (ms ! i) = Inr t"
    using list_all2_nthD2 [OF ms(2)] list_all2_lengthD [OF ms(2)] by simp_all
  show ?thesis
    by (rule own_mount_item [OF bspec [OF p m(1)] m(2) assms(3)], rule assms(4)) (simp_all add: ms(1) m(1))
qed

lemma own_all_mounts:
  assumes "private_mounts root service = Inr ()" and "all_mounts parse_bytes sources service = Inr ms" and "scoped ns sources"
    and "\<And>m x. m \<in> set (the_list (mget service ''volumes'')) \<Longrightarrow> mount_source m = Some x \<Longrightarrow> dget sources x \<noteq> None"
    and "m \<in> set ms"
  shows "own_mount root ns m"
proof -
  obtain ts shm where "mounts_value sources (mget service ''volumes'') = Inr ts"
    "optional_shm parse_bytes (mget service ''shm_size'') = Inr shm" "ms = map VStr ts @ shm"
    using assms(2) by (auto simp: all_mounts_def rbind_Inr_iff)
  moreover from this have "own_mount root ns s" if "s \<in> set shm" for s
    using that by (auto simp: optional_shm_def shm_mount_def rbind_Inr_iff own_mount_def mget_def split: if_splits)
  ultimately show ?thesis using own_mounts_value [OF assms(1) _ assms(3,4)] assms(5) by auto
qed

text \<open>
  C35: whatever a build deploys, it creates and updates no service with a foreign mount. The result and every effect
  of \<open>deploy_build\<close> are those against a client that refuses each specification with a
  mount other than a managed volume of the build's own namespace, a directory of the build's own
  workspace, or the tmpfs of \<open>shm_size\<close>.
\<close>

theorem build_mounts_are_its_own:
  "deploy_build (guarded_puts (own_spec env appid build_id) env) rm ad appid build_id compose t w =
   deploy_build env rm ad appid build_id compose t w"
  unfolding deploy_build_def guarded_simps
proof (intro andthen_cong_step refl guarded_deploy, goal_cases)
  case (1 u w1 plan ad' network n)
  have admitted: "admit_build env appid build_id compose = Inr ()" using 1(1) by simp
  then obtain root services where root: "build_files env appid build_id = Inr root"
    and services: "compose_services compose = Inr services"
    and checked: "validate_build_compose root compose [] = Inr ()"
    by (auto simp: admit_build_def rbind_Inr_iff)
  have inside: "private_mounts root service = Inr ()" if "(n, service) \<in> set services" for n service
    using checked services that
    by (force simp: validate_build_compose_def rbind_Inr_iff rfor_Inr_iff split: "value.splits" if_splits)
  obtain ns base where ns: "build_namespace appid build_id = Inr ns"
    and base: "volume_sources compose ns = Inr base" "build_volumes ns base = Inr (pl_sources plan)"
    and plan: "pl_namespace plan = ns" "pl_services plan = services"
    using 1(2) services by (auto simp: plan_deployment_def rbind_Inr_iff)
  obtain service where service: "dget services n = Some service" "(n, service) \<in> set services"
    using 1(3) plan(2) by (metis dget_SomeD map_of_eq_None_iff not_None_eq)
  have "own_mount root ns m" if "all_mounts (sw_parse_bytes env) (pl_sources plan) service = Inr ms" "m \<in> set ms" for ms m
    using own_all_mounts [OF inside [OF service(2)] that(1) build_volumes_scoped(1) [OF base(2)] _ that(2)]
      build_volumes_scoped(2) [OF base(2)] volume_sources_named [OF base(1) services service(2)] by blast
  then show ?case
    unfolding specs_satisfy_def own_spec_def service_kwargs_def Let_def
    using ns root plan service(1) by (auto simp: rbind_Inr_iff)
qed

end
