(* ===== verification/Workspaces.thy ===== *)
theory Workspaces
  imports SwarmBuild
begin

text \<open>
  \<open>orchestrator/workspaces.py\<close>: where the files of an application and of a build lie, which paths a
  request may name, and how the relative mounts of a document become directories of a snapshot. A path
  below the workspace root is the list of its parts; what lies there is a parameter.
\<close>

section \<open>Paths\<close>

abbreviation workspace_error :: "string \<Rightarrow> 'a res" where
  "workspace_error m \<equiv> Inl (Exn WorkspaceError m)"

text \<open>The parts of a relative path: empty parts and dots vanish, \<open>..\<close> stays.\<close>

definition relative_parts :: "string \<Rightarrow> string list" where
  "relative_parts s = filter (\<lambda>p. p \<noteq> [] \<and> p \<noteq> ''.'') (split_on (CHR ''/'') s)"

definition relative_path :: "string \<Rightarrow> bool \<Rightarrow> string list res" where
  "relative_path s allow_root =
     (if s = [] \<or> CHR 0x5C \<in> set s \<or> CHR '':'' \<in> set s
      then workspace_error ''Workspace path must be a relative POSIX path''
      else if list_ex (\<lambda>c. code c < 32) s \<or> starts_with s ''/'' \<or> starts_with s ''~''
      then workspace_error ''Workspace path must be a relative POSIX path''
      else if ''..'' \<in> set (relative_parts s) \<or> ''.git'' \<in> set (relative_parts s) \<or> length s > 1024
      then workspace_error ''Workspace path traversal and .git paths are forbidden''
      else if relative_parts s = [] \<and> \<not> allow_root then workspace_error ''Workspace file path is required''
      else Inr (relative_parts s))"

definition build_source :: "value \<Rightarrow> string res" where
  "build_source compose =
     (case compose of
        VDict d \<Rightarrow>
          (let source = mget_default d ''x-orchestrator-build-source'' (VStr ''git'') in
           if source \<notin> {VStr ''git'', VStr ''workspace''}
           then workspace_error ''x-orchestrator-build-source must be git or workspace''
           else Inr (the_str source))
      | _ \<Rightarrow> Inl (Exn OtherError ''AttributeError: object has no attribute get''))"

definition app_path :: "string \<Rightarrow> string list res" where
  "app_path appid = rbind (validate_appid appid) (\<lambda>_. rbind (external_namespace appid) (\<lambda>n. Inr [n]))"

definition SNAPSHOT_RX :: rx where
  "SNAPSHOT_RX = Rep 32 (Cls (\<lambda>c. in_range 97 102 c \<or> is_digit c))"

definition snapshot_parts :: "string \<Rightarrow> string \<Rightarrow> string list res" where
  "snapshot_parts appid build_id =
     (if \<not> fullmatch SNAPSHOT_RX build_id then workspace_error ''Workspace build identifier is invalid''
      else rbind (app_path appid) (\<lambda>base. Inr (base @ [''snapshots'', build_id])))"

text \<open>\<open>os.path.normpath\<close> of an absolute path.\<close>

fun normal_parts :: "string list \<Rightarrow> string list \<Rightarrow> string list" where
  "normal_parts acc [] = rev acc"
| "normal_parts acc (p # ps) =
     (if p = [] \<or> p = ''.'' then normal_parts acc ps
      else if p = ''..'' then normal_parts (tl acc) ps
      else normal_parts (p # acc) ps)"

definition normpath :: "string \<Rightarrow> string" where
  "normpath s =
     (if starts_with s ''//'' \<and> \<not> starts_with s ''///'' then ''//'' else ''/'')
     @ join ''/'' (normal_parts [] (split_on (CHR ''/'') s))"

section \<open>The file system\<close>

datatype path_state = PMissing | PLink | PFile | PDirectory bool | POther

record workspace_fs =
  wf_root :: string
  wf_host_root :: string
  wf_look :: "string list \<Rightarrow> (world, path_state) action"

text \<open>No part of the way to a file is a symbolic link.\<close>

fun walk_parts :: "workspace_fs \<Rightarrow> string list \<Rightarrow> string list \<Rightarrow> (world, string list) action" where
  "walk_parts fs current [] = ret current"
| "walk_parts fs current (p # ps) =
     bd (wf_look fs (current @ [p])) (\<lambda>state.
     if state = PLink then raise WorkspaceError ''Workspace symbolic links are forbidden''
     else walk_parts fs (current @ [p]) ps)"

definition safe_path :: "workspace_fs \<Rightarrow> string list \<Rightarrow> string list \<Rightarrow> (world, string list) action" where
  "safe_path fs root relative =
     bd (wf_look fs root) (\<lambda>state.
     if state = PLink then raise WorkspaceError ''Workspace symbolic links are forbidden''
     else walk_parts fs root relative)"

definition host_text :: "workspace_fs \<Rightarrow> string list \<Rightarrow> string" where
  "host_text fs parts = foldl path_join (wf_host_root fs) parts"

definition resolve_source :: "workspace_fs \<Rightarrow> string list \<Rightarrow> string \<Rightarrow> (world, string) action" where
  "resolve_source fs root source =
     bd (lift_res (relative_path source True)) (\<lambda>relative.
     bd (safe_path fs root relative) (\<lambda>path.
     bd (wf_look fs path) (\<lambda>state.
     case state of
       PMissing \<Rightarrow> raise WorkspaceError (''Workspace mount source does not exist: '' @ source @ ''; upload it before creating the build'')
     | PFile \<Rightarrow> ret (host_text fs path)
     | PDirectory filled \<Rightarrow>
         if filled then ret (host_text fs path)
         else raise WorkspaceError (''Workspace mount source is empty: '' @ source @ ''; upload files before creating the build'')
     | _ \<Rightarrow> raise WorkspaceError ''Workspace mount source must be a file or directory'')))"

definition reject_managed_absolute :: "workspace_fs \<Rightarrow> string \<Rightarrow> unit res" where
  "reject_managed_absolute fs source =
     (if starts_with source ''/'' \<and> is_relative_to (normpath source) (wf_host_root fs)
      then workspace_error ''Use relative workspace mounts; direct managed workspace paths are forbidden''
      else Inr ())"

section \<open>Documents\<close>

definition resolve_short :: "workspace_fs \<Rightarrow> string list \<Rightarrow> string \<Rightarrow> (world, value) action" where
  "resolve_short fs root mount =
     (let parts = split_on (CHR '':'') mount; source = hd parts in
      if length parts \<notin> {2, 3} then ret (VStr mount)
      else if starts_with source ''.'' then
        bd (resolve_source fs root source) (\<lambda>s. ret (VStr (join '':'' (s # tl parts))))
      else andthen (lift_res (reject_managed_absolute fs source)) (ret (VStr mount)))"

definition resolve_long :: "workspace_fs \<Rightarrow> string list \<Rightarrow> mapping \<Rightarrow> (world, value) action" where
  "resolve_long fs root d =
     (case mget d ''source'' of
        VStr source \<Rightarrow>
          if mget d ''type'' = VStr ''bind'' \<and> \<not> starts_with source ''/'' then
            bd (resolve_source fs root source) (\<lambda>s. ret (VDict (mput d ''source'' (VStr s))))
          else andthen (lift_res (reject_managed_absolute fs source)) (ret (VDict d))
      | _ \<Rightarrow> ret (VDict d))"

definition resolve_mount :: "workspace_fs \<Rightarrow> string list \<Rightarrow> value \<Rightarrow> (world, value) action" where
  "resolve_mount fs root mount =
     (case mount of
        VStr s \<Rightarrow> resolve_short fs root s
      | VDict d \<Rightarrow> resolve_long fs root d
      | _ \<Rightarrow> ret mount)"

fun for_values :: "('a \<Rightarrow> (world, 'b) action) \<Rightarrow> 'a list \<Rightarrow> (world, 'b list) action" where
  "for_values f [] = ret []"
| "for_values f (x # xs) = bd (f x) (\<lambda>y. bd (for_values f xs) (\<lambda>ys. ret (y # ys)))"

definition attr_get :: "(world, 'a) action" where
  "attr_get = raise OtherError ''AttributeError: object has no attribute get''"

definition resolve_service ::
  "workspace_fs \<Rightarrow> string list \<Rightarrow> value \<times> value \<Rightarrow> (world, value \<times> value) action" where
  "resolve_service fs root kv =
     (case snd kv of
        VDict service \<Rightarrow>
          (case mget service ''volumes'' of
             VList mounts \<Rightarrow>
               bd (for_values (resolve_mount fs root) mounts) (\<lambda>resolved.
               ret (fst kv, VDict (mput service ''volumes'' (VList resolved))))
           | _ \<Rightarrow> ret kv)
      | _ \<Rightarrow> attr_get)"

definition volume_name_ok :: "workspace_fs \<Rightarrow> value \<Rightarrow> unit res" where
  "volume_name_ok fs config =
     (case mget (the_dict config) ''name'' of
        VStr name \<Rightarrow> reject_managed_absolute fs name | _ \<Rightarrow> Inr ())"

text \<open>The services of a document: a mapping without any has none.\<close>

definition document_services :: "mapping \<Rightarrow> (world, mapping) action" where
  "document_services d =
     (case mget_default d ''services'' (VDict []) of
        VDict services \<Rightarrow> ret services
      | _ \<Rightarrow> raise OtherError ''AttributeError: object has no attribute values'')"

definition with_services :: "mapping \<Rightarrow> mapping \<Rightarrow> mapping" where
  "with_services d services = (if mhas d ''services'' then mput d ''services'' (VDict services) else d)"

definition resolve_compose :: "workspace_fs \<Rightarrow> string \<Rightarrow> string \<Rightarrow> mapping \<Rightarrow> (world, mapping) action" where
  "resolve_compose fs appid build_id d =
     andthen (bd (lift_res (build_source (VDict d))) (\<lambda>_. ret ()))
     (bd (lift_res (snapshot_parts appid build_id)) (\<lambda>snapshot.
      andthen (lift_res (rfor (map snd (the_dict (mget d ''volumes''))) (volume_name_ok fs)))
      (bd (document_services d) (\<lambda>services.
       bd (for_values (resolve_service fs (snapshot @ [''files''])) services) (\<lambda>resolved.
       ret (with_services d resolved))))))"

section \<open>Documents of an isolated build\<close>

definition bind_error :: "'a res" where
  "bind_error = workspace_error ''Build bind mounts must use relative workspace inputs''"

text \<open>An absolute source without a target makes the indexing raise.\<close>

definition read_only_mount :: "string \<Rightarrow> value \<Rightarrow> value res" where
  "read_only_mount allowed mount =
     (case mount of
        VStr s \<Rightarrow>
          (let parts = split_on (CHR '':'') s in
           if \<not> starts_with (hd parts) ''/'' then Inr mount
           else if \<not> is_relative_to (hd parts) allowed then bind_error
           else
             (case tl parts of
                target # _ \<Rightarrow> Inr (VStr (join '':'' [hd parts, target, ''ro'']))
              | [] \<Rightarrow> Inl (Exn OtherError ''list index out of range'')))
      | VDict d \<Rightarrow>
          if mget d ''type'' = VStr ''bind'' then
            (case map_of d (VStr ''source'') of
               Some (VStr source) \<Rightarrow>
                 if \<not> is_relative_to source allowed then bind_error
                 else Inr (VDict (mput d ''read_only'' (VBool True)))
             | Some _ \<Rightarrow> Inl (Exn TypeError ''expected a path'')
             | None \<Rightarrow> Inl (Exn KeyError ''source''))
          else Inr mount
      | _ \<Rightarrow> Inr mount)"

definition read_only_service :: "string \<Rightarrow> value \<times> value \<Rightarrow> (value \<times> value) res" where
  "read_only_service allowed kv =
     (case snd kv of
        VDict service \<Rightarrow>
          rbind (iterate_value (mget_default service ''volumes'' (VList []))) (\<lambda>mounts.
          rbind (rmap (read_only_mount allowed) mounts) (\<lambda>resolved.
          Inr (fst kv, VDict (if mhas service ''volumes'' then mput service ''volumes'' (VList resolved) else service))))
      | _ \<Rightarrow> Inl (Exn OtherError ''AttributeError: object has no attribute get''))"

definition resolve_build_compose :: "workspace_fs \<Rightarrow> string \<Rightarrow> string \<Rightarrow> mapping \<Rightarrow> (world, mapping) action" where
  "resolve_build_compose fs appid build_id d =
     bd (resolve_compose fs appid build_id d) (\<lambda>resolved.
     bd (lift_res (snapshot_parts appid build_id)) (\<lambda>snapshot.
     bd (document_services resolved) (\<lambda>services.
     bd (lift_res (rmap (read_only_service (host_text fs (snapshot @ [''files'']))) services)) (\<lambda>kept.
     ret (with_services resolved kept)))))"

end
