(* ===== verification/WorkspaceSafety.thy ===== *)
theory WorkspaceSafety
  imports Workspaces
begin

text \<open>
  What an isolated build may see of the workspace: the mounts of its document, once resolved, are read-only
  and lie below its own snapshot.
\<close>

section \<open>The files of a build stay read-only\<close>

lemma split_on_parts: "p \<in> set (split_on c s) \<Longrightarrow> c \<notin> set p"
proof (induction c s arbitrary: p rule: split_on.induct)
  case (2 c x xs)
  then show ?case by (cases "split_on c xs") (auto split: if_splits)
qed auto

lemma split_on_cons: "c \<notin> set a \<Longrightarrow> split_on c (a @ c # b) = a # split_on c b"
  by (simp add: split_on_append split_on_free)

text \<open>A mount that reaches the host is a read-only one below the given directory.\<close>

definition confined_mount :: "string \<Rightarrow> value \<Rightarrow> bool" where
  "confined_mount allowed m \<longleftrightarrow>
     (case m of
        VStr s \<Rightarrow> starts_with s ''/'' \<longrightarrow>
          (\<exists>source target. split_on (CHR '':'') s = [source, target, ''ro''] \<and> is_relative_to source allowed)
      | VDict d \<Rightarrow> mget d ''type'' = VStr ''bind'' \<longrightarrow>
          (\<exists>source. mget d ''source'' = VStr source \<and> is_relative_to source allowed \<and> mget d ''read_only'' = VBool True)
      | _ \<Rightarrow> True)"

lemma read_only_confined: "read_only_mount allowed m = Inr m' \<Longrightarrow> confined_mount allowed m'"
proof (cases m)
  case (VStr s)
  assume run: "read_only_mount allowed m = Inr m'"
  have s: "join '':'' (split_on (CHR '':'') s) = s" by (rule join_split_on)
  show ?thesis
  proof (cases "starts_with (hd (split_on (CHR '':'') s)) ''/''")
    case False
    then have "\<not> starts_with s ''/''" by (cases s) (auto simp: starts_with_def split: list.splits)
    then show ?thesis using run VStr False by (auto simp: read_only_mount_def confined_mount_def)
  next
    case True
    obtain source xs where ps: "split_on (CHR '':'') s = source # xs"
      using split_on_not_Nil [of "CHR '':''" s] by (meson neq_Nil_conv)
    then obtain target rest where p: "split_on (CHR '':'') s = source # target # rest" "is_relative_to source allowed"
      "m' = VStr (join '':'' [source, target, ''ro''])"
      using run VStr True by (cases xs) (auto simp: read_only_mount_def bind_error_def Let_def split: if_splits)
    have "CHR '':'' \<notin> set source" "CHR '':'' \<notin> set target"
      using split_on_parts [of _ "CHR '':''" s] p(1) by auto
    then have "split_on (CHR '':'') (join '':'' [source, target, ''ro'']) = [source, target, ''ro'']"
      by (simp add: split_on_cons split_on_free)
    then show ?thesis using p by (simp add: confined_mount_def)
  qed
next
  case (VDict d)
  assume "read_only_mount allowed m = Inr m'"
  then show ?thesis
  proof (cases "mget d ''type'' = VStr ''bind''")
    case True
    then obtain source where "dget d (VStr ''source'') = Some (VStr source)" "is_relative_to source allowed"
      "m' = VDict (mput d ''read_only'' (VBool True))"
      using \<open>read_only_mount allowed m = Inr m'\<close> VDict
      by (auto simp: read_only_mount_def bind_error_def split: if_splits option.splits "value.splits")
    moreover from this have "mget d ''source'' = VStr source" by (simp add: mget_def)
    ultimately show ?thesis by (simp add: confined_mount_def)
  qed (use VDict in \<open>auto simp: read_only_mount_def confined_mount_def\<close>)
qed (auto simp: read_only_mount_def confined_mount_def)

lemma read_only_service_confined:
  assumes "read_only_service allowed kv = Inr (n, VDict s)" and "m \<in> set (the_list (mget s ''volumes''))"
  shows "confined_mount allowed m"
proof -
  obtain service mounts resolved where run: "rmap (read_only_mount allowed) mounts = Inr resolved"
    and s: "s = (if mhas service ''volumes'' then mput service ''volumes'' (VList resolved) else service)"
    using assms(1) by (auto simp: read_only_service_def rbind_Inr_iff split: "value.splits")
  have "mhas service ''volumes''"
    using assms(2) s by (auto simp: mhas_def mget_def split: if_splits option.splits)
  then have "m \<in> set resolved" using assms(2) s by simp
  then obtain k where "k < length resolved" "m = resolved ! k" by (auto simp: in_set_conv_nth)
  then have "read_only_mount allowed (mounts ! k) = Inr m"
    using run list_all2_nthD2 [of "\<lambda>x y. read_only_mount allowed x = Inr y" mounts resolved k] by (simp add: rmap_Inr_iff)
  then show ?thesis by (rule read_only_confined)
qed


definition sample_files :: workspace_fs where
  "sample_files = \<lparr>wf_root = ''/data'', wf_host_root = ''/srv/data'', wf_look = \<lambda>_. ret PFile\<rparr>"

definition mounting_document :: mapping where
  "mounting_document = [(VStr ''services'', VDict [(VStr ''web'', VDict [(VStr ''volumes'', VList [VStr ''./conf:/etc/app:rw''])])])]"

definition sample_snapshot :: string where "sample_snapshot = replicate 32 (CHR ''a'')"

lemma mounting_resolved:
  "fst (resolve_build_compose sample_files ''shop'' sample_snapshot mounting_document w) =
     Inr [(VStr ''services'', VDict [(VStr ''web'', VDict [(VStr ''volumes'',
       VList [VStr (''/srv/data/shop/snapshots/'' @ sample_snapshot @ ''/files/conf:/etc/app:ro'')])])])]"
  by code_simp


end
