(* ===== verification/Diagnostics.thy ===== *)
theory Diagnostics
  imports Jenkins Redaction
begin

text \<open>
  \<open>orchestrator/jenkins_diagnostics.py\<close>: the structured diagnosis of a failed Jenkins build, its form
  for the stored build, the excerpt of the console it quotes, and the details of failures that have no
  console. The recognition of errors in console lines, a list of regular expressions, is a parameter.
  The ellipsis of a shortened text is the character of Redaction.
\<close>

definition DEFAULT_SUMMARY_MAX_CHARS :: int where "DEFAULT_SUMMARY_MAX_CHARS = 4000"

record diagnostic =
  dg_summary :: string
  dg_stage :: string
  dg_node :: string
  dg_location :: string
  dg_source_file :: string
  dg_cause :: string
  dg_reason :: string
  dg_context :: "string list"
  dg_exit_code :: string
  dg_console_line :: "int option"
  dg_console_byte_start :: int
  dg_raw_log_excerpt :: string
  dg_recognized :: bool

text \<open>\<open>x or None\<close>, and the items whose value is neither None nor an empty list.\<close>

definition text_or_null :: "string \<Rightarrow> value" where
  "text_or_null s = (if s = [] then VNull else VStr s)"

definition int_or_null :: "int option \<Rightarrow> value" where
  "int_or_null i = (case i of Some n \<Rightarrow> VInt n | None \<Rightarrow> VNull)"

definition present_items :: "mapping \<Rightarrow> mapping" where
  "present_items d = filter (\<lambda>(_, v). v \<noteq> VNull \<and> v \<noteq> VList []) d"

definition to_error_detail :: "diagnostic \<Rightarrow> string \<Rightarrow> int \<Rightarrow> string \<Rightarrow> string option \<Rightarrow> mapping" where
  "to_error_detail g build_id number job outcome =
     present_items
       ([(VStr ''stage'', text_or_null (dg_stage g)), (VStr ''node'', text_or_null (dg_node g)),
         (VStr ''location'', text_or_null (dg_location g)), (VStr ''source_file'', text_or_null (dg_source_file g)),
         (VStr ''cause'', text_or_null (dg_cause g)), (VStr ''reason'', text_or_null (dg_reason g)),
         (VStr ''context'', VList (map VStr (dg_context g))), (VStr ''exit_code'', text_or_null (dg_exit_code g)),
         (VStr ''console_line'', int_or_null (dg_console_line g)),
         (VStr ''console_byte_start'', if dg_console_byte_start g = 0 then VNull else VInt (dg_console_byte_start g)),
         (VStr ''recognized'', VBool (dg_recognized g)), (VStr ''summary'', VStr (dg_summary g))]
        @ (if build_id = [] then [] else [(VStr ''build_id'', VStr build_id)])
        @ [(VStr ''jenkins_build_number'', VInt number)]
        @ (if job = [] then [] else [(VStr ''jenkins_job'', VStr job)])
        @ (case outcome of Some r \<Rightarrow> if r = [] then [] else [(VStr ''jenkins_result'', VStr r)] | None \<Rightarrow> []))"

section \<open>Quoting a console\<close>

text \<open>\<open>" ".join(text.split())\<close>.\<close>

fun words_of :: "string \<Rightarrow> string \<Rightarrow> string list" where
  "words_of acc [] = (if acc = [] then [] else [rev acc])"
| "words_of acc (c # s) =
     (if is_space c then (if acc = [] then words_of [] s else rev acc # words_of [] s) else words_of (c # acc) s)"

definition cut_text :: "int \<Rightarrow> string \<Rightarrow> string" where
  "cut_text limit s = (if int (length s) \<le> limit then s else py_take (limit - 1) s @ [ellipsis])"

definition shorten :: "string \<Rightarrow> int \<Rightarrow> string" where
  "shorten s limit = cut_text limit (join '' '' (words_of [] s))"

fun numbered_lines :: "nat \<Rightarrow> nat \<Rightarrow> string list \<Rightarrow> string list" where
  "numbered_lines i n [] = []"
| "numbered_lines i n (l # ls) =
     ((if n = Suc i then ''>>'' else ''  '') @ '' L'' @ str_nat n @ '': '' @ l) # numbered_lines i (Suc n) ls"

definition excerpt_block :: "string list \<Rightarrow> nat \<Rightarrow> nat \<Rightarrow> nat \<Rightarrow> int \<Rightarrow> string" where
  "excerpt_block lines i before after max_chars =
     (let start = i - before; stop = min (length lines) (i + after + 1) in
      cut_text max_chars (join [CHR 0x0A] (numbered_lines i (Suc start) (take (stop - start) (drop start lines)))))"

section \<open>The diagnosis of a build\<close>

text \<open>Console text, where it starts, secrets, and the bounds of the summary and the excerpt.\<close>

type_synonym console_reader = "string \<Rightarrow> int \<Rightarrow> string list \<Rightarrow> int \<Rightarrow> int \<Rightarrow> diagnostic"

definition get_failure_diagnostic ::
  "console_reader \<Rightarrow> jenkins_client \<Rightarrow> int \<Rightarrow> string list \<Rightarrow> int \<Rightarrow> int \<Rightarrow> int option \<Rightarrow> (world, diagnostic) action" where
  "get_failure_diagnostic reader j number secrets summary_limit excerpt_limit window =
     bd (read_console_tail j number window) (\<lambda>(console, start).
     ret (reader console start (secrets @ [jc_username j, jc_password j, jc_authorization j]) summary_limit excerpt_limit))"

definition get_failure_summary ::
  "console_reader \<Rightarrow> jenkins_client \<Rightarrow> int \<Rightarrow> string list \<Rightarrow> (world, string) action" where
  "get_failure_summary reader j number secrets =
     bd (get_failure_diagnostic reader j number secrets DEFAULT_SUMMARY_MAX_CHARS (int DEFAULT_EXCERPT_MAX_CHARS) None)
       (\<lambda>g. ret (dg_summary g))"

section \<open>Failures without a console\<close>

text \<open>\<open>structured_failure\<close> as it is called everywhere, with neither an excerpt nor container logs.\<close>

definition extra_item :: "value \<times> value \<Rightarrow> mapping \<Rightarrow> mapping" where
  "extra_item kv d = (if snd kv \<noteq> VNull \<and> map_of d (fst kv) = None then d @ [kv] else d)"

definition structured_failure :: "string \<Rightarrow> string \<Rightarrow> string \<Rightarrow> string \<Rightarrow> mapping \<Rightarrow> failure" where
  "structured_failure site summary build_id stage extra = \<lparr>
     fl_error_detail = Some (fold extra_item extra
       ([(VStr ''failure_site'', VStr site), (VStr ''summary'', VStr summary), (VStr ''recognized'', VBool True)]
        @ (if build_id = [] then [] else [(VStr ''build_id'', VStr build_id)])
        @ (if stage = [] then [] else [(VStr ''stage'', VStr stage)]))),
     fl_raw_log_excerpt = None,
     fl_failure_logs = (if site = [] then None else Some [(VStr ''source'', VStr site)]),
     fl_failure_site = Some site\<rparr>"

section \<open>Bounds\<close>

lemma cut_text_bound: "1 \<le> limit \<Longrightarrow> int (length (cut_text limit s)) \<le> limit"
  by (auto simp: cut_text_def py_take_def)

end
