(* ===== verification/Worker.thy ===== *)
theory Worker
  imports Applications Workspaces Diagnostics
begin

text \<open>
  \<open>orchestrator/worker_runtime.py\<close>: \<open>WorkerRuntime\<close>, which drives a build through validation, the
  Jenkins build, the deployment and the dynamic check. Every operation of a build runs under the build's
  lease; its tracker is an argument here, where the source keeps it in a context variable. Jenkins,
  Docker, the workspace and the probes are those of the other theories; the signing of download tokens,
  the reading of consoles, the sockets and the broker are parameters. The ideographic semicolon
  of a message is a plain one, and the Chinese texts are represented by English glosses. The name of an
  exception class in a failure's details is that of the modelled class.
\<close>

section \<open>Environment\<close>

record worker_settings =
  st_harbor_url :: string
  st_harbor_project :: string
  st_public_host :: "string option"
  st_download_base :: "string option"
  st_job_name :: string
  st_texts :: "(string, string) dict"
  st_max_poll_attempts :: int
  st_poll_interval :: int
  st_recovery_interval :: int
  st_readiness_timeout :: int
  st_summary_limit :: int
  st_excerpt_limit :: int
  st_console_window :: int

record worker_env =
  wk_settings :: worker_settings
  wk_app :: app_env
  wk_jenkins :: "jenkins_client res"
  wk_console :: console_reader
  wk_swarm :: swarm_env
  wk_remover :: swarm_remover
  wk_dynamic :: dynamic_env
  wk_files :: workspace_fs
  wk_token :: "string \<Rightarrow> string \<Rightarrow> instant \<Rightarrow> string"
  wk_connect :: "string \<Rightarrow> int \<Rightarrow> (world, bool) action"
  wk_sleep :: "(world, unit) action"
  wk_schedule_poll :: "string \<Rightarrow> int \<Rightarrow> (world, unit) action"
  wk_schedule_start :: "string \<Rightarrow> (world, unit) action"

definition result_of :: "build_job \<Rightarrow> string \<times> string" where
  "result_of b = (bj_build_id b, status_value (bj_status b))"

definition current_result :: "string \<Rightarrow> (world, string \<times> string) action" where
  "current_result i = bd (require_build i) (\<lambda>b. ret (result_of b))"

text \<open>\<open>repository.update_build(...) or build\<close>, with the time of the update.\<close>

definition update_or :: "build_job \<Rightarrow> (build_job \<Rightarrow> build_job) \<Rightarrow> (world, build_job) action" where
  "update_or b upd =
     bd utc_now (\<lambda>now.
     bd (update_build (bj_build_id b) (\<lambda>x. (upd x)\<lparr>bj_updated_at := now\<rparr>)) (\<lambda>updated.
     ret (case updated of Some x \<Rightarrow> x | None \<Rightarrow> b)))"

definition guard_operation :: "tracker option \<Rightarrow> (world, unit) action" where
  "guard_operation t = (case t of Some tr \<Rightarrow> tracker_guard tr | None \<Rightarrow> ret ())"

definition schedule_poll :: "worker_env \<Rightarrow> tracker option \<Rightarrow> string \<Rightarrow> int \<Rightarrow> (world, unit) action" where
  "schedule_poll env t i poll_attempt = andthen (guard_operation t) (wk_schedule_poll env i poll_attempt)"

definition schedule_start :: "worker_env \<Rightarrow> tracker option \<Rightarrow> string \<Rightarrow> (world, unit) action" where
  "schedule_start env t i = andthen (guard_operation t) (wk_schedule_start env i)"

section \<open>The inputs of a build\<close>

text \<open>The application, and the ciphertext of its environment. A build with a manifest of its own uses what
  was frozen there.\<close>

definition application :: "build_job \<Rightarrow> (world, user_app \<times> string option) action" where
  "application b =
     bd (get_app (bj_appid b)) (\<lambda>found.
     case found of
       None \<Rightarrow> raise NotFoundError ''Application for build was not found''
     | Some app \<Rightarrow>
         bd (get_build_resources (bj_build_id b)) (\<lambda>manifest.
         case manifest of
           Some m \<Rightarrow>
             if br_ownership_version m = 1
             then ret (app\<lparr>ap_repository_url := tail_text (br_repository_url m)\<rparr>, br_environment_ciphertext m)
             else ret (app, Some (ap_environment_ciphertext app))
         | None \<Rightarrow> ret (app, Some (ap_environment_ciphertext app))))"

definition isolated :: "build_job \<Rightarrow> (world, bool) action" where
  "isolated b =
     bd (get_build_resources (bj_build_id b)) (\<lambda>manifest.
     ret (case manifest of Some m \<Rightarrow> br_ownership_version m = 1 | None \<Rightarrow> False))"

definition open_environment :: "worker_env \<Rightarrow> string option \<Rightarrow> (string, string) dict res" where
  "open_environment env cipher =
     (case cipher of
        Some c \<Rightarrow> ae_decrypt (wk_app env) c
      | None \<Rightarrow> Inl (Exn OtherError ''AttributeError: NoneType object has no attribute split''))"

definition source_compose :: "build_job \<Rightarrow> user_app \<Rightarrow> value" where
  "source_compose b app =
     (case bj_compose_snapshot b of
        Some c \<Rightarrow> c
      | None \<Rightarrow> (case ap_compose app of Some c \<Rightarrow> c | None \<Rightarrow> VNull))"

definition services_of :: "value \<Rightarrow> mapping" where
  "services_of compose = the_dict (mget (the_dict compose) ''services'')"

definition builds_image :: "value \<Rightarrow> bool" where
  "builds_image compose \<longleftrightarrow> list_ex (\<lambda>s. mget (the_dict s) ''build'' \<noteq> VNull) (vals (services_of compose))"

definition workspace_compose :: "worker_env \<Rightarrow> build_job \<Rightarrow> value \<Rightarrow> (world, value) action" where
  "workspace_compose env b compose =
     bd (lift_res (validate_compose_structure compose)) (\<lambda>_.
     case bj_workspace_snapshot b of
       None \<Rightarrow> ret compose
     | Some snapshot \<Rightarrow>
         bd (isolated b) (\<lambda>own.
         bd (if own then resolve_build_compose (wk_files env) (bj_appid b) snapshot (the_dict compose)
             else resolve_compose (wk_files env) (bj_appid b) snapshot (the_dict compose)) (\<lambda>d.
         ret (VDict d))))"

definition image_repository :: "worker_settings \<Rightarrow> string \<Rightarrow> string res" where
  "image_repository st appid =
     (let raw = strip (st_harbor_url st) in
      if st_harbor_url st = [] then input_error ''Harbor registry URL is required for builds''
      else
        (case urlsplit (if contains raw ''://'' then raw else ''//'' @ raw) of
           Inl _ \<Rightarrow> input_error ''Harbor registry URL is invalid''
         | Inr parsed \<Rightarrow>
             if \<not> is_ok (url_port parsed) then input_error ''Harbor registry URL is invalid''
             else if url_netloc parsed = [] \<or> has_credentials parsed \<or> url_path parsed \<notin> {[], ''/''}
                \<or> url_query parsed \<noteq> [] \<or> url_fragment parsed \<noteq> [] \<or> CHR ''?'' \<in> set raw \<or> CHR ''#'' \<in> set raw
                \<or> (url_scheme parsed \<noteq> [] \<and> \<not> http_scheme parsed)
             then input_error ''Harbor registry URL is invalid''
             else if \<not> is_docker_repository_component (st_harbor_project st)
             then input_error ''Harbor project must be a lowercase Docker repository component''
             else
               (case rbind (external_namespace appid) (\<lambda>n.
                       validate_image_repository (url_netloc parsed @ ''/'' @ st_harbor_project st @ ''/'' @ n)) of
                  Inl e \<Rightarrow> if exn_class e = NamingError then input_error (exn_msg e) else Inl e
                | Inr r \<Rightarrow> Inr r)))"

definition build_image :: "worker_settings \<Rightarrow> string \<Rightarrow> string \<Rightarrow> string \<Rightarrow> string res" where
  "build_image st appid build_id name =
     rbind (image_repository st appid) (\<lambda>r. Inr (r @ '':'' @ build_id @ ''-'' @ name))"

definition workspace_archive_url :: "worker_settings \<Rightarrow> build_job \<Rightarrow> value \<Rightarrow> string res" where
  "workspace_archive_url st b compose =
     rbind (build_source compose) (\<lambda>source.
     if source = ''workspace'' \<and> bj_workspace_file_count b = 0
     then input_error ''Workspace build source is empty; upload files before creating the build''
     else if bj_workspace_file_count b = 0 \<and> source \<noteq> ''workspace'' then Inr []
     else
       (let refused = input_error ''ORCHESTRATOR_WORKSPACE_DOWNLOAD_BASE_URL must be reachable from the Jenkins builder'' in
        case str_or (st_download_base st) None of
          None \<Rightarrow> refused
        | Some base \<Rightarrow>
            rbind (urlsplit base) (\<lambda>u.
            if \<not> http_scheme u then refused
            else if \<not> truthy_text (bj_workspace_snapshot b)
            then input_error ''Workspace build snapshot is missing; create a new build''
            else Inr (rstrip_slashes base @ ''/api/v1/workspace/'' @ bj_appid b @ ''/builds/'' @ bj_build_id b @ ''/archive''))))"

definition TOKEN_SECONDS :: instant where "TOKEN_SECONDS = 86400"

definition workspace_archive_token :: "worker_env \<Rightarrow> build_job \<Rightarrow> (world, string) action" where
  "workspace_archive_token env b =
     bd utc_now (\<lambda>now. ret (wk_token env (bj_appid b) (bj_build_id b) (now + TOKEN_SECONDS)))"

section \<open>Failures\<close>

fun class_name :: "exn_class \<Rightarrow> string" where
  "class_name NamingError = ''NamingError''" | "class_name ValueError = ''ValueError''"
| "class_name KeyError = ''KeyError''" | "class_name TypeError = ''TypeError''"
| "class_name RepositoryError = ''RepositoryError''" | "class_name DuplicateAppError = ''DuplicateAppError''"
| "class_name DuplicateTechStackError = ''DuplicateTechStackError''" | "class_name NotFoundError = ''NotFoundError''"
| "class_name BuildInputError = ''BuildInputError''" | "class_name InvalidBuildTransition = ''InvalidBuildTransition''"
| "class_name ResourceConflict = ''ResourceConflict''" | "class_name RouteCheckInputError = ''RouteCheckInputError''"
| "class_name RouteCheckUnavailableError = ''RouteCheckUnavailableError''"
| "class_name RouteCheckConflict = ''RouteCheckConflict''" | "class_name AgentExecutionError = ''AgentExecutionError''"
| "class_name DockerServiceError = ''DockerServiceError''" | "class_name JenkinsError = ''JenkinsError''"
| "class_name JenkinsNotStartedError = ''JenkinsNotStartedError''" | "class_name GitLabError = ''GitLabError''"
| "class_name WorkspaceError = ''WorkspaceError''" | "class_name TemplateError = ''TemplateError''"
| "class_name RegistrySyncError = ''RegistrySyncError''" | "class_name AdapterError = ''AdapterError''"
| "class_name GitLabNotFoundError = ''GitLabNotFoundError''"
| "class_name GitLabComposeNotFoundError = ''GitLabComposeNotFoundError''"
| "class_name GitLabComposeAmbiguousError = ''GitLabComposeAmbiguousError''"
| "class_name GitLabComposeInvalidError = ''GitLabComposeInvalidError''"
| "class_name GitLabRepositoryCloneError = ''GitLabRepositoryCloneError''"
| "class_name GitLabUnavailableError = ''GitLabUnavailableError''"
| "class_name TransportError = ''TransportError''"
| "class_name HarborCleanupError = ''HarborCleanupError''"
| "class_name ComposeBuildContractError = ''ComposeBuildContractError''"
| "class_name OtherError = ''Exception''"

text \<open>The messages of these classes are free of secrets.\<close>

definition promoted :: "exn \<Rightarrow> bool" where
  "promoted e \<longleftrightarrow> exn_class e \<in> gitlab_errors \<union> {BuildInputError, DockerServiceError, RegistrySyncError, TemplateError}
     \<or> is_jenkins_error e \<or> exn_class e \<in> value_errors"

definition safe_error_text :: "int \<Rightarrow> exn \<Rightarrow> string \<Rightarrow> string" where
  "safe_error_text limit e fallback =
     (let message = strip (exn_msg e) in
      if promoted e \<and> message \<noteq> [] then py_take (if is_jenkins_error e then limit else min 2000 limit) message
      else fallback)"

definition infer_failure_site :: "build_status \<Rightarrow> exn \<Rightarrow> failure \<Rightarrow> string" where
  "infer_failure_site status e given_detail =
     (case str_or (failure_site_of given_detail) None of
        Some site \<Rightarrow> site
      | None \<Rightarrow>
          if exn_class e = BuildInputError then
            (if status \<in> {QUEUED, VALIDATING} then ''precheck''
             else if status = TRIGGERING then ''triggering'' else ''validating'')
          else if is_jenkins_error e then ''jenkins''
          else
            (case status of
               DEPLOYING \<Rightarrow> ''deploy'' | BUILDING \<Rightarrow> ''jenkins'' | VALIDATING \<Rightarrow> ''validating''
             | TRIGGERING \<Rightarrow> ''triggering'' | _ \<Rightarrow> ''worker''))"

text \<open>The keyword arguments of \<open>BuildService.fail\<close>: what the exception carries, completed.\<close>

definition reported_failure :: "build_job \<Rightarrow> exn \<Rightarrow> failure \<Rightarrow> string \<Rightarrow> failure" where
  "reported_failure current e carried report =
     (let site = infer_failure_site (bj_status current) e carried;
          structured = structured_failure site report (bj_build_id current) (status_value (bj_status current))
            [(VStr ''source'', VStr site), (VStr ''exception_type'', VStr (class_name (exn_class e)))]
      in \<lparr>fl_error_detail = (case fl_error_detail carried of
            Some d \<Rightarrow> Some (mput d ''failure_site''
              (if truthy (mget d ''failure_site'') then mget d ''failure_site'' else VStr site))
          | None \<Rightarrow> fl_error_detail structured),
          fl_raw_log_excerpt = str_or (fl_raw_log_excerpt carried) None,
          fl_failure_logs = (case fl_failure_logs carried of
            Some d \<Rightarrow> Some d
          | None \<Rightarrow> if fl_error_detail carried = None then fl_failure_logs structured else None),
          fl_failure_site = Some site\<rparr>)"

definition deployment_failed :: "failure \<Rightarrow> string \<Rightarrow> build_job \<Rightarrow> build_job" where
  "deployment_failed f report = (\<lambda>b.
     let b1 = b\<lparr>bj_dynamic_check_passed := Some False, bj_dynamic_status := CkFailed,
                bj_dynamic_report_text := Some report, bj_teardown_required := True,
                bj_teardown_status := Some TdPending\<rparr>;
         b2 = (case fl_error_detail f of Some d \<Rightarrow> b1\<lparr>bj_error_detail := Some (VDict d)\<rparr> | None \<Rightarrow> b1);
         b3 = (case fl_raw_log_excerpt f of Some s \<Rightarrow> b2\<lparr>bj_raw_log_excerpt := Some s\<rparr> | None \<Rightarrow> b2)
     in (case fl_failure_logs f of Some d \<Rightarrow> b3\<lparr>bj_failure_logs := Some (VDict d)\<rparr> | None \<Rightarrow> b3))"

text \<open>Readiness or transport failures can come before the dynamic service has claimed its row.\<close>

definition expose_failure :: "tracker option \<Rightarrow> build_job \<Rightarrow> string \<Rightarrow> (world, unit) action" where
  "expose_failure t current report =
     bd (case str_or (bj_route_check_id current) None of Some c \<Rightarrow> get_route_check c | None \<Rightarrow> ret None) (\<lambda>found.
     case found of
       None \<Rightarrow> ret ()
     | Some c \<Rightarrow>
         if Some (rc_generation c) \<noteq> bj_route_check_generation current then ret ()
         else
           andthen (guard_operation t)
           (bd utc_now (\<lambda>now.
            bd (update_route_check (rc_check_id c)
                  (role_version_field current @
                   [FDynamicBuildId (Some (bj_build_id current)), FDynamicRunId (bj_dynamic_run_id current),
                    FDynamicRoleSnapshot (bj_route_dynamic_role_snapshot current),
                    FDynamicStatus CkFailed, FDynamicCheckPassed (Some False), FDynamicReportText (Some report),
                    FProbeResult (bj_probe_result current), FUpdatedAt now])
                  [FGeneration (rc_generation c), FDynamicBuildId (rc_dynamic_build_id c),
                   FDynamicRunId (rc_dynamic_run_id c)]) (\<lambda>_. ret ()))))"

definition worker_fail ::
  "worker_env \<Rightarrow> tracker option \<Rightarrow> string \<Rightarrow> exn \<Rightarrow> failure \<Rightarrow> string \<Rightarrow> (world, build_job) action" where
  "worker_fail env t i e carried fallback =
     andthen (guard_operation t)
     (bd (require_build i) (\<lambda>current.
      let report = safe_error_text (st_summary_limit (wk_settings env)) e fallback;
          f = reported_failure current e carried report in
      if bj_status current \<noteq> DEPLOYING then build_fail i report f
      else
        bd (update_or current (deployment_failed f report)) (\<lambda>_.
        bd (build_fail i report f) (\<lambda>failed.
        andthen (expose_failure t current report) (ret failed)))))"

section \<open>Starting a build\<close>

definition tag_lengths_ok :: "build_job \<Rightarrow> value \<Rightarrow> unit res" where
  "tag_lengths_ok b compose =
     (if list_ex (\<lambda>n. length (bj_build_id b @ ''-'' @ py_str n) > 128) (keys (services_of compose))
      then input_error ''Build-exclusive image tags must fit Docker's 128-character limit''
      else Inr ())"

definition check_isolation ::
  "worker_env \<Rightarrow> build_job \<Rightarrow> value \<Rightarrow> value \<Rightarrow> (string, string) dict \<Rightarrow> (world, unit) action" where
  "check_isolation env b compose runtime environment =
     bd (isolated b) (\<lambda>own.
     if \<not> own then ret ()
     else
       andthen (lift_res (validate_build_compose (sw_host_root (wk_swarm env)) runtime environment))
         (lift_res (tag_lengths_ok b compose)))"

definition check_source :: "worker_env \<Rightarrow> build_job \<Rightarrow> user_app \<Rightarrow> string option \<Rightarrow> value \<Rightarrow> (world, string) action" where
  "check_source env b app cipher compose =
     bd (workspace_compose env b compose) (\<lambda>raw.
     bd (lift_res (open_environment env cipher)) (\<lambda>environment.
     bd (lift_res (resolve_application_environment raw environment)) (\<lambda>runtime.
     andthen (lift_res (validate_source_compose (sw_parse_bytes (wk_swarm env)) runtime))
     (andthen (check_isolation env b compose runtime environment)
     (bd (lift_res (build_source compose)) (\<lambda>source.
      if source = ''git'' \<and> ap_repository_url app = [] \<and> builds_image compose
      then raise BuildInputError ''A repository_url is required for git builds; use x-orchestrator-build-source: workspace for uploaded sources''
      else ret source))))))"

text \<open>The commit is read from GitLab unless the build has one already.\<close>

definition pin_reference ::
  "worker_env \<Rightarrow> tracker \<Rightarrow> build_job \<Rightarrow> user_app \<Rightarrow> string \<Rightarrow> (world, build_job \<times> string) action" where
  "pin_reference env t b app source =
     (case ae_gitlab (wk_app env) of
        Some gl \<Rightarrow>
          if ap_repository_url app \<noteq> [] \<and> source \<noteq> ''workspace'' \<and> bj_git_commit_sha b = None then
            bd (gl_validate_ref gl (ap_repository_url app) (bj_git_ref b)) (\<lambda>resolved.
            andthen (tracker_guard t)
            (bd (update_or b (\<lambda>x. x\<lparr>bj_git_commit_sha := Some (rr_commit_sha resolved)\<rparr>)) (\<lambda>b'.
             andthen (record_event (ap_appid app) (Some (bj_build_id b)) ''build.gitlab_ref_validated''
                        ''GitLab repository reference validated'' INFO
                        [(VStr ''git_ref'', VStr (bj_git_ref b')), (VStr ''commit_sha'', VStr (rr_commit_sha resolved))])
               (ret (b', rr_commit_sha resolved)))))
          else ret (b, bj_git_ref b)
      | None \<Rightarrow> ret (b, bj_git_ref b))"

definition validate_inputs ::
  "worker_env \<Rightarrow> tracker \<Rightarrow> build_job \<Rightarrow> user_app \<Rightarrow> string option \<Rightarrow> value \<Rightarrow> (world, build_job \<times> string) action" where
  "validate_inputs env t b app cipher compose =
     bd (check_source env b app cipher compose) (\<lambda>source.
     andthen (record_event (ap_appid app) (Some (bj_build_id b)) ''build.compose_validated''
                ''Build compose input validated'' INFO [])
     (bd (pin_reference env t b app source) (\<lambda>pinned.
      andthen (tracker_guard t)
      (bd (build_transition (bj_build_id b) TRIGGERING (None, \<lambda>x. x)) (\<lambda>b'.
       ret (b', the (str_or (bj_git_commit_sha (fst pinned)) (Some (snd pinned)))))))))"

subsection \<open>The Jenkins trigger\<close>

definition build_request ::
  "worker_env \<Rightarrow> build_job \<Rightarrow> user_app \<Rightarrow> value \<Rightarrow> string \<Rightarrow> (world, jenkins_request) action" where
  "build_request env b app compose git_ref =
     bd (lift_res (image_repository (wk_settings env) (ap_appid app))) (\<lambda>repository.
     bd (lift_res (workspace_archive_url (wk_settings env) b compose)) (\<lambda>url.
     bd (workspace_archive_token env b) (\<lambda>token.
     bd (isolated b) (\<lambda>own.
     lift_res (make_jenkins_request
       \<lparr>jr_appid = ap_appid app, jr_repository_url = ap_repository_url app, jr_git_ref = git_ref,
        jr_environment = [], jr_compose = (if truthy compose then compose else VDict []),
        jr_image_repository = repository, jr_archive_url = url,
        jr_archive_sha256 = tail_text (bj_workspace_archive_sha256 b), jr_archive_token = token,
        jr_build_id = (if own then bj_build_id b else [])\<rparr>)))))"

definition plan_images :: "worker_env \<Rightarrow> tracker \<Rightarrow> build_job \<Rightarrow> string \<Rightarrow> value \<Rightarrow> (world, unit) action" where
  "plan_images env t b appid compose =
     bd (isolated b) (\<lambda>own.
     if \<not> own then ret ()
     else for_each (keys (services_of compose)) (\<lambda>name.
       bd (lift_res (build_image (wk_settings env) appid (bj_build_id b) (py_str name))) (\<lambda>reference.
       bd (tracker_record t KRegistryImage reference ''harbor'' None Planned True [] None) (\<lambda>_. ret ()))))"

definition verify_gate_now :: "string \<Rightarrow> (world, unit) action" where
  "verify_gate_now i =
     bd (require_build i) (\<lambda>current.
     bd (get_app (bj_appid current)) (\<lambda>found.
     case found of
       None \<Rightarrow> raise NotFoundError ''Application for build was not found''
     | Some app \<Rightarrow> bd (verify_build_gate current app) (\<lambda>_. ret ())))"

definition set_trigger_pending :: "tracker \<Rightarrow> bool \<Rightarrow> (world, unit) action" where
  "set_trigger_pending t pending =
     bd (update_build_resources (tr_build_id t) (\<lambda>m. m\<lparr>br_jenkins_trigger_pending := pending\<rparr>)
          (Some (tr_owner t), \<lambda>_. True)) (\<lambda>_. ret ())"

text \<open>Jenkins is asked once: the request is reserved in the manifest before, and the reservation is taken
  back only where Jenkins cannot have started anything.\<close>

definition ask_jenkins :: "worker_env \<Rightarrow> tracker \<Rightarrow> jenkins_client \<Rightarrow> jenkins_request \<Rightarrow> (world, queue_item) action" where
  "ask_jenkins env t j request =
     andthen (verify_gate_now (tr_build_id t))
     (andthen (tracker_guard t)
     (andthen (set_trigger_pending t True)
       (catching (trigger_build j request)
         (\<lambda>e. if exn_class e = JenkinsNotStartedError
               then andthen (tracker_guard t) (andthen (set_trigger_pending t False) (reraise e))
               else reraise e))))"

definition refuse_unknown_trigger :: "string \<Rightarrow> (world, unit) action" where
  "refuse_unknown_trigger i =
     bd (get_build_resources i) (\<lambda>manifest.
     case manifest of
       None \<Rightarrow> raise OtherError ''AttributeError: NoneType object has no attribute jenkins_trigger_pending''
     | Some m \<Rightarrow>
         if br_jenkins_trigger_pending m
         then raise BuildInputError ''Jenkins trigger outcome is unknown; verify external execution before retrying''
         else ret ())"

definition trigger_jenkins ::
  "worker_env \<Rightarrow> tracker \<Rightarrow> build_job \<Rightarrow> user_app \<Rightarrow> value \<Rightarrow> string \<Rightarrow> (world, build_job) action" where
  "trigger_jenkins env t b app compose git_ref =
     andthen (tracker_guard t)
     (andthen (refuse_unknown_trigger (bj_build_id b))
     (andthen (plan_images env t b (ap_appid app) compose)
     (bd (build_request env b app compose git_ref) (\<lambda>request.
      bd (lift_res (as_parameters request)) (\<lambda>_.
      bd (lift_res (wk_jenkins env)) (\<lambda>j.
      andthen (tracker_guard t)
      (bd (ask_jenkins env t j request) (\<lambda>queued.
       andthen (tracker_guard t)
       (bd (update_or b (\<lambda>x. x\<lparr>bj_jenkins_queue_url := Some (qi_queue_url queued)\<rparr>)) (\<lambda>b'.
        andthen (set_trigger_pending t False)
        (andthen (record_event (ap_appid app) (Some (bj_build_id b)) ''build.jenkins_triggered''
                    ''Jenkins build triggered'' INFO [(VStr ''queue_id'', int_or_null (qi_queue_id queued))])
          (ret b'))))))))))))"

definition start_steps ::
  "worker_env \<Rightarrow> tracker \<Rightarrow> build_job \<Rightarrow> user_app \<Rightarrow> string option \<Rightarrow> value \<Rightarrow> string option \<Rightarrow> (world, build_job) action" where
  "start_steps env t b app cipher compose task_id =
     andthen (tracker_guard t)
     (bd (if bj_celery_task_id b = None \<and> truthy_text task_id
          then update_or b (\<lambda>x. x\<lparr>bj_celery_task_id := task_id\<rparr>) else ret b) (\<lambda>b1.
      bd (if bj_status b1 = QUEUED then build_transition (bj_build_id b) VALIDATING (None, \<lambda>x. x) else ret b1) (\<lambda>b2.
      bd (if bj_status b2 = VALIDATING then validate_inputs env t b2 app cipher compose
          else ret (b2, the (str_or (bj_git_commit_sha b2) (Some (bj_git_ref b2))))) (\<lambda>pinned.
      bd (if bj_status (fst pinned) = TRIGGERING \<and> \<not> truthy_text (bj_jenkins_queue_url (fst pinned))
          then trigger_jenkins env t (fst pinned) app compose (snd pinned) else ret (fst pinned)) (\<lambda>b4.
      bd (if bj_status b4 = TRIGGERING
          then andthen (tracker_guard t) (build_transition (bj_build_id b) BUILDING (None, \<lambda>x. x)) else ret b4) (\<lambda>b5.
      andthen (if bj_status b5 \<in> {BUILDING, DEPLOYING} then schedule_poll env (Some t) (bj_build_id b) 0 else ret ())
        (ret b5)))))))"

definition start_build :: "worker_env \<Rightarrow> string \<Rightarrow> string option \<Rightarrow> tracker \<Rightarrow> (world, string \<times> string) action" where
  "start_build env i task_id t =
     bd (require_build i) (\<lambda>b.
     if terminal (bj_status b) then ret (result_of b)
     else
       bd (application b) (\<lambda>ac.
       bd (attempt (start_steps env t b (fst ac) (snd ac) (source_compose b (fst ac)) task_id)) (\<lambda>outcome.
       case outcome of
         Inr b' \<Rightarrow> ret (result_of b')
       | Inl e \<Rightarrow>
           bd (worker_fail env (Some t) i e no_detail ''Build validation or Jenkins trigger failed'') (\<lambda>failed.
           ret (result_of failed)))))"

section \<open>The deployment\<close>

text \<open>\<open>artifact.get("image_digests", {}).get(reference)\<close>.\<close>

definition payload_item :: "artifact \<Rightarrow> string \<Rightarrow> string \<Rightarrow> value res" where
  "payload_item artifact outer inner =
     (case mget_default (af_payload artifact) outer (VDict []) of
        VDict d \<Rightarrow> Inr (mget d inner)
      | _ \<Rightarrow> Inl (Exn OtherError ''AttributeError: object has no attribute get''))"

definition DIGEST_RX :: rx where
  "DIGEST_RX = Cat (Lit ''sha256:'') (Rep 64 (Cls is_hex))"

definition check_commit :: "build_job \<Rightarrow> artifact \<Rightarrow> string res" where
  "check_commit b artifact =
     rbind (payload_item artifact ''source'' ''actual_commit'') (\<lambda>actual.
     if \<not> is_str actual \<or> \<not> fullmatch COMMIT_RX (the_str actual)
     then input_error ''Jenkins artifact is missing its immutable checkout commit''
     else if truthy_text (bj_git_commit_sha b) \<and> bj_git_commit_sha b \<noteq> Some (the_str actual)
     then input_error ''Jenkins checkout commit does not match the frozen build input''
     else Inr (the_str actual))"

definition check_service_image :: "worker_settings \<Rightarrow> build_job \<Rightarrow> value \<times> value \<Rightarrow> unit res" where
  "check_service_image st b kv =
     rbind (build_image st (bj_appid b) (bj_build_id b) (py_str (fst kv))) (\<lambda>reference.
     if mget (the_dict (snd kv)) ''image'' \<noteq> VStr reference
     then input_error ''Jenkins service image does not match its build-exclusive reference'' else Inr ())"

definition check_artifact_image :: "worker_settings \<Rightarrow> build_job \<Rightarrow> artifact \<Rightarrow> string \<Rightarrow> unit res" where
  "check_artifact_image st b artifact reference =
     rbind (build_image st (bj_appid b) (bj_build_id b) []) (\<lambda>start.
     if \<not> starts_with reference start
     then input_error ''Jenkins artifact contains a non-build-exclusive image reference''
     else
       rbind (payload_item artifact ''image_digests'' reference) (\<lambda>digest.
       if \<not> is_str digest \<or> \<not> fullmatch DIGEST_RX (the_str digest)
       then input_error ''Jenkins artifact is missing a verified build image digest'' else Inr ()))"

definition check_images :: "worker_settings \<Rightarrow> build_job \<Rightarrow> artifact \<Rightarrow> value \<Rightarrow> unit res" where
  "check_images st b artifact compose =
     rbind (rfor (services_of compose) (check_service_image st b)) (\<lambda>_.
     rbind (rfor (af_images artifact) (check_artifact_image st b artifact)) (\<lambda>_.
     if set (map VStr (af_images artifact)) \<noteq> set (map (\<lambda>s. mget (the_dict s) ''image'') (vals (services_of compose)))
     then input_error ''Jenkins artifact image inventory does not match deployment services'' else Inr ()))"

text \<open>The artifact of an isolated build names this build, its commit and its images, and nothing else.\<close>

definition verify_artifact ::
  "worker_env \<Rightarrow> tracker \<Rightarrow> build_job \<Rightarrow> artifact \<Rightarrow> value \<Rightarrow> value \<Rightarrow> (world, build_job) action" where
  "verify_artifact env t b artifact source compose =
     (if mget (af_payload artifact) ''build_id'' \<noteq> VStr (bj_build_id b)
      then raise BuildInputError ''Jenkins artifact does not match the isolated build; upgrade the pipeline contract''
      else
        bd (lift_res (build_source source)) (\<lambda>origin_kind.
        bd (if origin_kind \<noteq> ''workspace'' \<and> builds_image source then
              bd (lift_res (check_commit b artifact)) (\<lambda>actual.
              andthen (tracker_guard t) (update_or b (\<lambda>x. x\<lparr>bj_git_commit_sha := Some actual\<rparr>)))
            else ret b) (\<lambda>b'.
        andthen (lift_res (check_images (wk_settings env) b' artifact compose)) (ret b'))))"

definition deployment_document ::
  "worker_env \<Rightarrow> build_job \<Rightarrow> artifact \<Rightarrow> (world, value \<times> value) action" where
  "deployment_document env b artifact =
     bd (application b) (\<lambda>ac.
     let source = source_compose b (fst ac) in
     andthen (lift_res (validate_artifact_topology source (VDict (af_compose artifact))))
     (bd (workspace_compose env b (VDict (af_compose artifact))) (\<lambda>raw.
      bd (lift_res (open_environment env (snd ac))) (\<lambda>environment.
      bd (lift_res (resolve_application_environment raw environment)) (\<lambda>compose.
      andthen (lift_res (validate_deployment_compose (sw_parse_bytes (wk_swarm env)) compose None))
        (ret (source, compose)))))))"

definition image_id :: "string \<Rightarrow> string \<Rightarrow> string" where
  "image_id build_id reference = take 32 (sha256_hex (build_id @ '':'' @ reference))"

definition register_image :: "tracker \<Rightarrow> build_job \<Rightarrow> artifact \<Rightarrow> string \<Rightarrow> (world, unit) action" where
  "register_image t b artifact reference =
     bd (isolated b) (\<lambda>own.
     andthen
       (if \<not> own then ret ()
        else
          bd (lift_res (payload_item artifact ''image_digests'' reference)) (\<lambda>digest.
          bd (tracker_record t KRegistryImage reference ''harbor'' None Present True
                [(VStr ''build_id'', VStr (bj_build_id b)), (VStr ''digest'', digest)] None) (\<lambda>_. ret ())))
       (bd utc_now (\<lambda>now.
        bd (save_user_image \<lparr>ui_image_id = image_id (bj_build_id b) reference, ui_appid = bj_appid b,
              ui_build_id = bj_build_id b, ui_reference = reference, ui_digest = None, ui_created_at = now\<rparr>) (\<lambda>_. ret ()))))"

definition enter_deployment :: "build_job \<Rightarrow> artifact \<Rightarrow> (world, build_job) action" where
  "enter_deployment b artifact =
     bd (build_transition (bj_build_id b) DEPLOYING (None, \<lambda>x. x\<lparr>bj_images := af_images artifact\<rparr>)) (\<lambda>b'.
     andthen (record_event (bj_appid b') (Some (bj_build_id b')) ''build.images_registered''
                ''Jenkins build images registered'' INFO [(VStr ''image_count'', VInt (int (length (af_images artifact))))])
       (ret b'))"

definition fresh_adapter :: "swarm_env \<Rightarrow> adapter" where
  "fresh_adapter env =
     \<lparr>ad_build_id = None, ad_tracker = None,
      ad_target = ''docker:'' @ the (str_or (sw_base_url env) (Some ''unix:///var/run/docker.sock'')), ad_node_id = VNull\<rparr>"

definition deploy_services ::
  "worker_env \<Rightarrow> tracker \<Rightarrow> build_job \<Rightarrow> value \<Rightarrow> (world, service_deployment list) action" where
  "deploy_services env t b compose =
     bd (isolated b) (\<lambda>own.
     bd (if own then deploy_build (wk_swarm env) (wk_remover env) (fresh_adapter (wk_swarm env)) (bj_appid b) (bj_build_id b) compose t
         else deploy (wk_swarm env) (wk_remover env) (fresh_adapter (wk_swarm env)) (bj_appid b) compose) (\<lambda>deployment.
     ret (snd deployment)))"

definition save_deployment :: "tracker \<Rightarrow> build_job \<Rightarrow> service_deployment list \<Rightarrow> (world, build_job) action" where
  "save_deployment t b deployed =
     andthen (tracker_guard t)
     (bd utc_now (\<lambda>now.
      let records = map (to_model (bj_appid b) (bj_build_id b) now) deployed in
      andthen (for_each records (\<lambda>r. andthen (tracker_guard t) (bd (save_service r) (\<lambda>_. ret ()))))
      (andthen (tracker_guard t)
        (update_or b (\<lambda>x. x\<lparr>bj_service_ids := map sv_service_id records\<rparr>)))))"

subsection \<open>Public ports\<close>

definition strip_brackets :: "string \<Rightarrow> string" where
  "strip_brackets s =
     (let inner = dropWhile (\<lambda>c. c = CHR ''['' \<or> c = CHR '']'') s in
      rev (dropWhile (\<lambda>c. c = CHR ''['' \<or> c = CHR '']'') (rev inner)))"

text \<open>\<open>None\<close>: no public host is configured, and no port is looked at.\<close>

definition public_host :: "worker_settings \<Rightarrow> string option res" where
  "public_host st =
     (let raw = strip (tail_text (st_public_host st)); host = rstrip_slashes raw in
      if raw = [] then Inr None
      else
        rbind (if contains host ''://'' then rbind (urlsplit host) (\<lambda>u. Inr (tail_text (url_hostname u)))
               else Inr (strip_brackets host)) (\<lambda>name.
        if name = [] then Inl (Exn DockerServiceError ''Public host is invalid for deployment readiness checks'')
        else Inr (Some name)))"

fun port_rounds :: "nat \<Rightarrow> worker_env \<Rightarrow> string \<Rightarrow> string \<Rightarrow> int \<Rightarrow> instant \<Rightarrow> (world, unit option) action" where
  "port_rounds 0 env host name port deadline = ret None"
| "port_rounds (Suc n) env host name port deadline =
     bd (wk_connect env host port) (\<lambda>ready.
     if ready then ret (Some ())
     else
       bd utc_now (\<lambda>now.
       if deadline \<le> now
       then raise DockerServiceError (''Published port '' @ name @ '':'' @ str_int port @ '' is not reachable'')
       else andthen (wk_sleep env) (port_rounds n env host name port deadline)))"

definition await_port :: "worker_env \<Rightarrow> string \<Rightarrow> string \<Rightarrow> int \<Rightarrow> (world, unit) action" where
  "await_port env host name port =
     bd utc_now (\<lambda>now.
     bd (port_rounds (Suc (nat (st_readiness_timeout (wk_settings env)))) env host name port
           (now + st_readiness_timeout (wk_settings env))) (\<lambda>r.
     case r of Some u \<Rightarrow> ret u | None \<Rightarrow> raise OtherError ''out of rounds''))"

definition public_ports :: "service_deployment list \<Rightarrow> (string \<times> int) list" where
  "public_ports deployed =
     concat (map (\<lambda>d. map (\<lambda>p. (sd_service_name d, the (pp_published_port p)))
       (filter (\<lambda>p. pp_published_port p \<noteq> None \<and> pp_protocol p = ''tcp'') (sd_ports d))) deployed)"

definition probe_public_ports :: "worker_env \<Rightarrow> service_deployment list \<Rightarrow> (world, unit) action" where
  "probe_public_ports env deployed =
     bd (lift_res (public_host (wk_settings env))) (\<lambda>host.
     case host of
       None \<Rightarrow> ret ()
     | Some h \<Rightarrow> for_each (public_ports deployed) (\<lambda>np. await_port env h (fst np) (snd np)))"

subsection \<open>Completion\<close>

definition complete_dynamic_deployment ::
  "worker_env \<Rightarrow> tracker \<Rightarrow> build_job \<Rightarrow> (world, string \<times> string) action" where
  "complete_dynamic_deployment env t b =
     andthen (tracker_guard t)
     (bd (dynamic_execute (wk_dynamic env) (bj_build_id b) (tracker_guard t)) (\<lambda>checked.
      andthen (tracker_guard t)
      (bd (require_build (bj_build_id b)) (\<lambda>current.
       if terminal (bj_status current) \<or> terminal (bj_status checked) then ret (result_of current)
       else if bj_dynamic_check_passed current \<noteq> Some True \<or> bj_dynamic_status current \<noteq> CkSucceeded
               \<or> bj_teardown_required current
       then ret (result_of current)
       else
         bd (build_transition (bj_build_id b) SUCCEEDED (None, \<lambda>x. x)) (\<lambda>succeeded.
         andthen (record_event (bj_appid succeeded) (Some (bj_build_id succeeded)) ''build.deployed''
                    ''Docker Services deployment completed'' INFO
                    [(VStr ''service_count'', VInt (int (length (bj_service_ids succeeded))))])
           (ret (result_of succeeded)))))))"

definition deploy_artifact ::
  "worker_env \<Rightarrow> tracker \<Rightarrow> build_job \<Rightarrow> value \<Rightarrow> (world, string \<times> string) action" where
  "deploy_artifact env t b compose =
     bd (deploy_services env t b compose) (\<lambda>deployed.
     bd (save_deployment t b deployed) (\<lambda>saved.
     andthen (probe_public_ports env deployed) (complete_dynamic_deployment env t saved)))"

definition complete_deployment ::
  "worker_env \<Rightarrow> tracker \<Rightarrow> build_job \<Rightarrow> int \<Rightarrow> (world, string \<times> string) action" where
  "complete_deployment env t b number =
     bd (lift_res (wk_jenkins env)) (\<lambda>j.
     bd (get_result_artifact j number) (\<lambda>artifact.
     bd (deployment_document env b artifact) (\<lambda>sc.
     andthen (tracker_guard t)
     (bd (isolated b) (\<lambda>own.
      bd (if own then verify_artifact env t b artifact (fst sc) (snd sc) else ret b) (\<lambda>b1.
      andthen (for_each (af_images artifact) (register_image t b1 artifact))
      (if bj_status b1 = BUILDING then
         bd (enter_deployment b1 artifact) (\<lambda>b2. deploy_artifact env t b2 (snd sc))
       else if bj_status b1 = DEPLOYING then deploy_artifact env t b1 (snd sc)
       else current_result (bj_build_id b1))))))))"

definition resume_deployment :: "worker_env \<Rightarrow> tracker \<Rightarrow> build_job \<Rightarrow> (world, string \<times> string) action" where
  "resume_deployment env t b =
     bd (list_services (bj_appid b)) (\<lambda>all_records.
     let records = filter (\<lambda>r. sv_build_id r = bj_build_id b) all_records in
     if bj_service_ids b \<noteq> [] \<or> records \<noteq> [] \<or> bj_dynamic_status b \<in> {CkQueued, CkRunning, CkSucceeded, CkFailed} then
       bd (if bj_service_ids b = [] \<and> records \<noteq> [] then
             andthen (tracker_guard t) (update_or b (\<lambda>x. x\<lparr>bj_service_ids := map sv_service_id records\<rparr>))
           else ret b) (\<lambda>b'. complete_dynamic_deployment env t b')
     else
       (case bj_jenkins_build_number b of
          None \<Rightarrow> raise JenkinsError ''Jenkins build number is missing for deployment recovery''
        | Some n \<Rightarrow> complete_deployment env t b n))"

section \<open>Polling Jenkins\<close>

definition item_secrets_of :: "value \<Rightarrow> string list" where
  "item_secrets_of inputs =
     (case inputs of
        VDict d \<Rightarrow> map the_str (filter is_str (vals d))
      | VList xs \<Rightarrow> concat (map (\<lambda>v. case split_once (CHR ''='') (the_str v) of
            (_, Some x) \<Rightarrow> if is_str v then [x] else [] | (_, None) \<Rightarrow> []) xs)
      | _ \<Rightarrow> [])"

definition service_secrets :: "value \<Rightarrow> string list res" where
  "service_secrets v =
     (case v of
        VDict service \<Rightarrow>
          Inr (item_secrets_of (mget_default service ''environment'' (VDict [])) @
               (case mget service ''build'' of
                  VDict build \<Rightarrow> item_secrets_of (mget_default build ''args'' (VDict [])) | _ \<Rightarrow> []))
      | _ \<Rightarrow> Inl (Exn OtherError ''AttributeError: object has no attribute get''))"

definition secret_setting :: "string \<Rightarrow> bool" where
  "secret_setting key \<longleftrightarrow>
     list_ex (contains (lower key)) [''password'', ''secret'', ''token'', ''encryption_key'']"

definition jenkins_sensitive_values :: "worker_env \<Rightarrow> build_job \<Rightarrow> (world, string list) action" where
  "jenkins_sensitive_values env b =
     bd (application b) (\<lambda>ac.
     bd (lift_res (open_environment env (snd ac))) (\<lambda>environment.
     case source_compose b (fst ac) of
       VDict d \<Rightarrow>
         (case mget_default d ''services'' (VDict []) of
            VDict services \<Rightarrow>
              bd (lift_res (rmap service_secrets (vals services))) (\<lambda>found.
              ret (vals environment @ map snd (filter (\<lambda>(k, _). secret_setting k) (st_texts (wk_settings env))) @ concat found))
          | _ \<Rightarrow> raise OtherError ''AttributeError: object has no attribute values'')
     | _ \<Rightarrow> attr_get))"

definition diagnosis_unavailable :: string where
  "diagnosis_unavailable = ''The error details are unavailable; see the console of the Jenkins build''"

definition jenkins_outcome_text :: "int \<Rightarrow> string option \<Rightarrow> string" where
  "jenkins_outcome_text number outcome =
     ''Jenkins build finished with '' @ the (str_or outcome (Some ''unknown result'')) @ ''; Jenkins #'' @ str_int number"

text \<open>The message and what the exception carries.\<close>

definition jenkins_failure_diagnostic ::
  "worker_env \<Rightarrow> build_job \<Rightarrow> int \<Rightarrow> string option \<Rightarrow> (world, string \<times> failure) action" where
  "jenkins_failure_diagnostic env b number outcome =
     (let st = wk_settings env; message = jenkins_outcome_text number outcome in
      catching
        (bd (jenkins_sensitive_values env b) (\<lambda>secrets.
         bd (lift_res (wk_jenkins env)) (\<lambda>j.
         bd (get_failure_diagnostic (wk_console env) j number secrets (st_summary_limit st) (st_excerpt_limit st)
               (Some (st_console_window st))) (\<lambda>g.
         ret (message @ ''; '' @ dg_summary g,
              \<lparr>fl_error_detail = Some (mput (to_error_detail g (bj_build_id b) number (st_job_name st) outcome)
                  ''failure_site'' (VStr ''jenkins'')),
               fl_raw_log_excerpt = str_or (Some (dg_raw_log_excerpt g)) None,
               fl_failure_logs = Some (failure_logs_payload ''jenkins_console'' (str_or (Some (dg_raw_log_excerpt g)) None)
                  [] (nat (st_excerpt_limit st))),
               fl_failure_site = Some ''jenkins''\<rparr>)))))
        (\<lambda>_. ret (message @ ''; '' @ diagnosis_unavailable,
              \<lparr>fl_error_detail = Some
                 [(VStr ''build_id'', VStr (bj_build_id b)), (VStr ''jenkins_build_number'', VInt number),
                  (VStr ''jenkins_result'', case outcome of Some r \<Rightarrow> VStr r | None \<Rightarrow> VNull),
                  (VStr ''recognized'', VBool False), (VStr ''summary'', VStr diagnosis_unavailable),
                  (VStr ''failure_site'', VStr ''jenkins'')],
               fl_raw_log_excerpt = None,
               fl_failure_logs = Some [(VStr ''source'', VStr ''jenkins_console''), (VStr ''unavailable'', VBool True)],
               fl_failure_site = Some ''jenkins''\<rparr>)))"

text \<open>A poll ends with an answer, or with the exception raised for a Jenkins build that failed.\<close>

datatype poll_outcome = Answered "string \<times> string" | JenkinsFailed string failure

definition poll_again :: "worker_env \<Rightarrow> tracker \<Rightarrow> build_job \<Rightarrow> int \<Rightarrow> (world, poll_outcome) action" where
  "poll_again env t b poll_attempt =
     andthen (schedule_poll env (Some t) (bj_build_id b) (poll_attempt + 1)) (ret (Answered (result_of b)))"

definition touch_poll :: "build_job \<Rightarrow> (build_job \<Rightarrow> build_job) \<Rightarrow> (world, build_job) action" where
  "touch_poll b upd = bd utc_now (\<lambda>now. update_or b (\<lambda>x. (upd x)\<lparr>bj_last_polled_at := Some now\<rparr>))"

text \<open>The number Jenkins gave the build; \<open>None\<close> while it is queued.\<close>

definition assigned_number ::
  "worker_env \<Rightarrow> tracker \<Rightarrow> build_job \<Rightarrow> string \<Rightarrow> (world, build_job \<times> int option) action" where
  "assigned_number env t b queue_url =
     (case bj_jenkins_build_number b of
        Some n \<Rightarrow> ret (b, Some n)
      | None \<Rightarrow>
          bd (lift_res (wk_jenkins env)) (\<lambda>j.
          bd (get_queue_item j queue_url) (\<lambda>queue.
          andthen (tracker_guard t)
          (if qi_cancelled queue then raise JenkinsError ''Jenkins build was cancelled''
           else
             (case qi_build_number queue of
                None \<Rightarrow> bd (touch_poll b (\<lambda>x. x)) (\<lambda>_. ret (b, None))
              | Some n \<Rightarrow>
                  bd (touch_poll b (\<lambda>x. x\<lparr>bj_jenkins_build_number := Some n\<rparr>)) (\<lambda>b'.
                  andthen (record_event (bj_appid b') (Some (bj_build_id b)) ''build.jenkins_started''
                             ''Jenkins assigned a build number'' INFO [(VStr ''jenkins_build_number'', VInt n)])
                    (ret (b', Some n))))))))"

definition follow_build :: "worker_env \<Rightarrow> tracker \<Rightarrow> build_job \<Rightarrow> int \<Rightarrow> int \<Rightarrow> (world, poll_outcome) action" where
  "follow_build env t b number poll_attempt =
     bd (lift_res (wk_jenkins env)) (\<lambda>j.
     bd (get_jenkins_build j number) (\<lambda>current.
     andthen (tracker_guard t)
     (bd (touch_poll b (\<lambda>x. x)) (\<lambda>_.
      if jenkins_state_of current \<in> {JsBuilding, JsUnknown} then poll_again env t b poll_attempt
      else if jenkins_state_of current \<noteq> JsSucceeded then
        bd (jenkins_failure_diagnostic env b (jb_number current) (jb_result current)) (\<lambda>mf.
        ret (JenkinsFailed (fst mf) (snd mf)))
      else bd (complete_deployment env t b (jb_number current)) (\<lambda>r. ret (Answered r))))))"

definition poll_steps :: "worker_env \<Rightarrow> tracker \<Rightarrow> build_job \<Rightarrow> int \<Rightarrow> (world, poll_outcome) action" where
  "poll_steps env t b poll_attempt =
     (if bj_status b = DEPLOYING then bd (resume_deployment env t b) (\<lambda>r. ret (Answered r))
      else
        (case str_or (bj_jenkins_queue_url b) None of
           None \<Rightarrow> raise JenkinsError ''Jenkins queue reference is missing''
         | Some queue_url \<Rightarrow>
             bd (assigned_number env t b queue_url) (\<lambda>bn.
             case snd bn of
               None \<Rightarrow> poll_again env t b poll_attempt
             | Some n \<Rightarrow> follow_build env t (fst bn) n poll_attempt)))"

definition poll_timeout_text :: string where
  "poll_timeout_text = ''Jenkins build polling exceeded the configured limit''"

definition poll_expired :: "build_job \<Rightarrow> int \<Rightarrow> (world, string \<times> string) action" where
  "poll_expired b poll_attempt =
     bd (build_fail (bj_build_id b) poll_timeout_text
           (structured_failure ''poll_timeout'' poll_timeout_text (bj_build_id b) (status_value (bj_status b))
             [(VStr ''poll_attempt'', VInt poll_attempt), (VStr ''source'', VStr ''poll_timeout'')]))
       (\<lambda>failed. ret (result_of failed))"

definition poll_build :: "worker_env \<Rightarrow> string \<Rightarrow> int \<Rightarrow> string option \<Rightarrow> tracker \<Rightarrow> (world, string \<times> string) action" where
  "poll_build env i poll_attempt task_id t =
     bd (require_build i) (\<lambda>b.
     if terminal (bj_status b) then ret (result_of b)
     else
       andthen (tracker_guard t)
       (if bj_status b \<noteq> DEPLOYING \<and> st_max_poll_attempts (wk_settings env) \<le> poll_attempt then poll_expired b poll_attempt
        else if bj_status b \<in> {QUEUED, VALIDATING, TRIGGERING} then start_build env i task_id t
        else
          bd (attempt (poll_steps env t b poll_attempt)) (\<lambda>outcome.
          case outcome of
            Inr (Answered r) \<Rightarrow> ret r
          | Inr (JenkinsFailed message f) \<Rightarrow>
              bd (worker_fail env (Some t) i (Exn JenkinsError message) f ''Build polling or deployment failed'') (\<lambda>failed.
              ret (result_of failed))
          | Inl e \<Rightarrow>
              bd (worker_fail env (Some t) i e no_detail ''Build polling or deployment failed'') (\<lambda>failed.
              ret (result_of failed)))))"

section \<open>The operations of the worker\<close>

definition dynamic_route_check ::
  "worker_env \<Rightarrow> string \<Rightarrow> string option \<Rightarrow> tracker \<Rightarrow> (world, string \<times> string) action" where
  "dynamic_route_check env i run_id t =
     bd (require_build i) (\<lambda>current.
     if run_id \<noteq> None \<and> bj_dynamic_run_id current \<noteq> run_id then ret (result_of current)
     else if bj_status current \<noteq> DEPLOYING then ret (result_of current)
     else
       catching (complete_dynamic_deployment env t current)
         (\<lambda>e. bd (worker_fail env (Some t) i e no_detail ''Dynamic route check failed'') (\<lambda>failed. ret (result_of failed))))"

definition cleanup_build :: "worker_env \<Rightarrow> string \<Rightarrow> (world, cleanup_status) action" where
  "cleanup_build env i =
     finally_do (run_cleanup (dy_cleanup (wk_dynamic env)) i) (bd (sync_teardown i) (\<lambda>_. ret ()))"

definition teardown_if_required :: "worker_env \<Rightarrow> string \<Rightarrow> (world, unit) action" where
  "teardown_if_required env i =
     bd (get_build i) (\<lambda>found.
     if (case found of Some b \<Rightarrow> \<not> bj_teardown_required b | None \<Rightarrow> True) then ret ()
     else
       bd (get_build_resources i) (\<lambda>manifest.
       bd utc_now (\<lambda>now.
       if (case manifest of Some m \<Rightarrow> lease_is_live m now | None \<Rightarrow> False) then ret ()
       else
         catching
           (bd (teardown (wk_dynamic env) i (Some (bd (cleanup_build env i) (\<lambda>_. ret ())))) (\<lambda>_. ret ()))
           (\<lambda>_. set_teardown i (\<lambda>x. x\<lparr>bj_teardown_required := True, bj_teardown_status := Some TdPartialFailed\<rparr>)))))"

text \<open>A lost lease ends the operation quietly; any other conflict goes on.\<close>

definition leased_operation ::
  "string \<Rightarrow> (tracker \<Rightarrow> (world, string \<times> string) action) \<Rightarrow> tracker option \<Rightarrow> (world, string \<times> string) action" where
  "leased_operation i operation tracker =
     (case tracker of
        None \<Rightarrow> current_result i
      | Some t \<Rightarrow>
          catching (andthen (tracker_guard t) (operation t))
            (\<lambda>e. if exn_class e \<noteq> ResourceConflict then reraise e
                  else
                    bd (attempt (tracker_guard t)) (\<lambda>lost.
                    case lost of
                      Inr _ \<Rightarrow> reraise e
                    | Inl e' \<Rightarrow> if exn_class e' = ResourceConflict then current_result i else reraise e')))"

definition run_build_operation ::
  "worker_env \<Rightarrow> string \<Rightarrow> (tracker \<Rightarrow> (world, string \<times> string) action) \<Rightarrow> (world, string \<times> string) action" where
  "run_build_operation env i operation =
     finally_do
       (bd (require_build i) (\<lambda>b.
        if terminal (bj_status b) \<or> \<not> bj_inputs_ready b then ret (result_of b)
        else
          bd utc_now (\<lambda>now.
          bd (ensure_build_resources (new_build_resources i (bj_appid b) 0 now)) (\<lambda>_.
          build_lease i [NotStarted] 120 (leased_operation i operation)))))
       (teardown_if_required env i)"

datatype worker_task = StartTask string "string option" | PollTask string int "string option" | DynamicTask string "string option"

definition run_task :: "worker_env \<Rightarrow> worker_task \<Rightarrow> (world, string \<times> string) action" where
  "run_task env task =
     (case task of
        StartTask i task_id \<Rightarrow> run_build_operation env i (start_build env i task_id)
      | PollTask i poll_attempt task_id \<Rightarrow> run_build_operation env i (poll_build env i poll_attempt task_id)
      | DynamicTask i run_id \<Rightarrow> run_build_operation env i (dynamic_route_check env i run_id))"

section \<open>Recovery\<close>

text \<open>How long a chain of polls may be silent before a recovery starts another.\<close>

definition stale_after :: "worker_settings \<Rightarrow> int" where
  "stale_after st =
     max (st_recovery_interval st * 2) (max (st_readiness_timeout st + st_poll_interval st * 2) 30)"

definition preparation_interrupted :: string where
  "preparation_interrupted =
     ''Build input snapshot preparation was interrupted; create a new build or clean its private resources''"

definition recover_preparation :: "build_job \<Rightarrow> (world, unit) action" where
  "recover_preparation b =
     bd utc_now (\<lambda>now.
     bd (ensure_build_resources (new_build_resources (bj_build_id b) (bj_appid b) 0 now)) (\<lambda>_.
     build_lease (bj_build_id b) [NotStarted] 120 (\<lambda>tracker.
       bd (require_build (bj_build_id b)) (\<lambda>current.
       case tracker of
         None \<Rightarrow> ret ()
       | Some t \<Rightarrow>
           if bj_inputs_ready current then ret ()
           else andthen (tracker_guard t)
             (bd (build_fail (bj_build_id b) preparation_interrupted no_detail) (\<lambda>_. ret ()))))))"

definition recover_build :: "worker_env \<Rightarrow> build_job \<Rightarrow> nat \<times> nat \<Rightarrow> (world, nat \<times> nat) action" where
  "recover_build env b counts =
     bd utc_now (\<lambda>now.
     if \<not> bj_inputs_ready b then
       andthen (if max 3600 (stale_after (wk_settings env)) \<le> now - bj_created_at b then recover_preparation b else ret ())
         (ret counts)
     else if bj_status b \<in> {QUEUED, VALIDATING, TRIGGERING} then
       andthen (schedule_start env None (bj_build_id b)) (ret (Suc (fst counts), snd counts))
     else if bj_status b \<in> {BUILDING, DEPLOYING} then
       (if (case bj_last_polled_at b of Some p \<Rightarrow> now - p < stale_after (wk_settings env) | None \<Rightarrow> False) then ret counts
        else andthen (schedule_poll env None (bj_build_id b) 0) (ret (fst counts, Suc (snd counts))))
     else ret counts)"

definition recover_builds :: "worker_env \<Rightarrow> (world, nat \<times> nat) action" where
  "recover_builds env = bd list_active_builds (\<lambda>builds. fold_each builds (recover_build env) (0, 0))"

section \<open>Base images\<close>

definition SYSTEM_APPID :: string where "SYSTEM_APPID = ''_system''"

definition save_base_image_failure ::
  "worker_env \<Rightarrow> string \<Rightarrow> exn \<Rightarrow> string \<Rightarrow> string option \<Rightarrow> (world, unit) action" where
  "save_base_image_failure env source e fallback task_id =
     bd utc_now (\<lambda>now.
     bd (save_base_image \<lparr>bm_source_image = source, bm_harbor_reference = [], bm_digest = None, bm_status = ''failed'',
           bm_error = Some (safe_error_text DEFAULT_SUMMARY_MAX_CHARS e fallback), bm_synced_at = Some now, bm_updated_at = now\<rparr>) (\<lambda>_.
     record_event SYSTEM_APPID None ''base_image.failed'' ''Base image synchronization failed'' ERROR
       [(VStr ''source_image'', VStr source), (VStr ''task_id'', case task_id of Some t \<Rightarrow> VStr t | None \<Rightarrow> VNull)]))"

text \<open>The counts are those of synchronised and of failed images.\<close>

definition sync_base_image ::
  "worker_env \<Rightarrow> (string \<Rightarrow> (world, base_image) action) \<Rightarrow> string option \<Rightarrow> string \<Rightarrow> nat \<times> nat \<Rightarrow> (world, nat \<times> nat) action" where
  "sync_base_image env sync task_id source counts =
     bd (attempt (sync source)) (\<lambda>r.
     case r of
       Inl e \<Rightarrow> andthen (save_base_image_failure env source e ''Base image synchronization failed'' task_id)
                   (ret (fst counts, Suc (snd counts)))
     | Inr outcome \<Rightarrow>
         bd (save_base_image outcome) (\<lambda>_.
         andthen (record_event SYSTEM_APPID None ''base_image.synced'' ''Base image synchronized'' INFO
                    [(VStr ''source_image'', VStr source), (VStr ''harbor_reference'', VStr (bm_harbor_reference outcome)),
                     (VStr ''digest'', case bm_digest outcome of Some d \<Rightarrow> VStr d | None \<Rightarrow> VNull),
                     (VStr ''task_id'', case task_id of Some t \<Rightarrow> VStr t | None \<Rightarrow> VNull)])
           (ret (Suc (fst counts), snd counts))))"

definition sync_base_images ::
  "worker_env \<Rightarrow> string list list \<Rightarrow> (string \<Rightarrow> (world, base_image) action) res \<Rightarrow> string option \<Rightarrow> (world, nat \<times> nat \<times> nat) action" where
  "sync_base_images env catalog registry task_id =
     (let sources = sort (remdups (concat catalog)) in
      bd (case registry of
            Inl e \<Rightarrow> andthen (for_each sources (\<lambda>s.
                save_base_image_failure env s e ''Base image synchronization is not configured'' task_id)) (ret (0, length sources))
          | Inr sync \<Rightarrow> fold_each sources (sync_base_image env sync task_id) (0, 0)) (\<lambda>counts.
      ret (length sources, fst counts, snd counts)))"

end
