(* ===== verification/BuildFrame.thy ===== *)
theory BuildFrame
  imports Worker DynamicSafety
begin

text \<open>
  What the operations of the worker do to the stored builds. The locale \<open>build_frame\<close> states what a
  relation between states must allow: an update that leaves identity, status and history alone, and a
  transition along the status machine. Every operation of the worker is shown to respect any such
  relation, given that the clients of other systems do.
\<close>

section \<open>Actions that leave the stored builds alone\<close>

lemma sb_same: "(\<And>w. w_builds (snd (m w)) = w_builds w) \<Longrightarrow> keeps same_builds_step m"
  by (rule keepsI) simp

lemma sb_get_build [builds_same]: "keeps same_builds_step (get_build i)"
  by (simp add: keeps_def get_build_def)

lemma sb_get_app [builds_same]: "keeps same_builds_step (get_app a)"
  by (simp add: keeps_def get_app_def)

lemma sb_list_active [builds_same]: "keeps same_builds_step list_active_builds"
  by (simp add: keeps_def list_active_builds_def)

lemma sb_record_event [builds_same]: "keeps same_builds_step (record_event a b k m l d)"
  by (simp add: keeps_def record_event_app)

lemma sb_create_alert [builds_same]: "keeps same_builds_step (create_alert a)"
  by (simp add: keeps_def create_alert_def)

lemma sb_save_service [builds_same]: "keeps same_builds_step (save_service s)"
  by (simp add: keeps_def save_service_def)

lemma sb_save_user_image [builds_same]: "keeps same_builds_step (save_user_image s)"
  by (simp add: keeps_def save_user_image_def)

lemma put_resources_builds [simp]: "w_builds (put_resources_doc k d w) = w_builds w"
  by (simp add: put_resources_doc_def)

lemma sb_ensure_resources [builds_same]: "keeps same_builds_step (ensure_build_resources r)"
  by (rule sb_same) (simp add: ensure_build_resources_def Let_def split: option.split)

lemma sb_put_resource [builds_same]: "keeps same_builds_step (put_build_resource b r owner)"
  by (rule sb_same) (auto simp: put_build_resource_def andthen_app Let_def split: option.splits sum.splits)

lemma sb_update_resources [builds_same]: "keeps same_builds_step (update_build_resources b f e)"
  by (rule sb_same) (auto simp: update_build_resources_def Let_def split: option.splits prod.splits)

lemma sb_claim_lease [builds_same]: "keeps same_builds_step (claim_build_lease b owner e ss)"
  by (rule sb_same) (auto simp: claim_build_lease_def Let_def split: option.splits)

lemma sb_release_lease [builds_same]: "keeps same_builds_step (release_build_lease b owner)"
  by (rule sb_same) (auto simp: release_build_lease_def Let_def split: option.splits)

lemma sb_list_ports [builds_same]: "keeps same_builds_step (list_build_ports b)"
  by (rule sb_same) (simp add: list_build_ports_def)

lemma sb_reserve [builds_same]: "keeps same_builds_step (reserve_port target protocol port b owner)"
  by (rule sb_same) (simp add: reserve_port_def Let_def)

lemma sb_guard [builds_same]: "keeps same_builds_step (tracker_guard t)"
  unfolding tracker_guard_def by (intro sb.keeps_rules builds_same)

lemma sb_record [builds_same]: "keeps same_builds_step (tracker_record t kind name target native_id state managed metadata err)"
  unfolding tracker_record_def Let_def by (intro sb.keeps_rules builds_same)

lemma sb_tracker_update [builds_same]: "keeps same_builds_step (tracker_update t r state err)"
  unfolding tracker_update_def by (intro sb.keeps_rules builds_same)

lemma sb_guard_operation [builds_same]: "keeps same_builds_step (guard_operation t)"
  unfolding guard_operation_def by (intro sb.keeps_rules builds_same)

lemma sb_verify_gate [builds_same]: "keeps same_builds_step (verify_build_gate b app)"
  by (simp add: keeps_def verify_build_gate_state)

lemma sb_swarm_guard [builds_same]: "keeps same_builds_step (swarm_guard ad)"
  unfolding swarm_guard_def with_tracker_def by (intro sb.keeps_rules builds_same)

lemma sb_swarm_record [builds_same]: "keeps same_builds_step (swarm_record ad kind name native_id state metadata)"
  unfolding swarm_record_def with_tracker_def by (intro sb.keeps_rules builds_same)

lemma sb_identity [builds_same]: "keeps same_builds_step (assert_tracked_identity ad kind name ob)"
  unfolding assert_tracked_identity_def with_tracker_def by (intro sb.keeps_rules builds_same)

lemma sb_swarm_reserve [builds_same]: "keeps same_builds_step (swarm_reserve_port ad port protocol owner)"
  unfolding swarm_reserve_port_def by (intro sb.keeps_rules builds_same)

lemma sb_first_candidate [builds_same]: "keeps same_builds_step (first_candidate ad occupied protocol mode owner cs)"
proof (induction cs)
  case Nil
  show ?case unfolding first_candidate.simps by (rule sb.keeps_ret)
next
  case (Cons c cs)
  then show ?case unfolding first_candidate.simps by (intro sb.keeps_rules builds_same)
qed

lemma sb_requested_port [builds_same]: "keeps same_builds_step (requested_port ad owner p)"
  by (rule sb_same) (auto simp: requested_port_def list_build_ports_def bd_app split: list.split)

lemma sb_allocate_port [builds_same]: "keeps same_builds_step (allocate_port env ad svc i occupied p)"
  unfolding allocate_port_def choose_port_def by (intro sb.keeps_rules builds_same)

lemma sb_allocate_from: "keeps same_builds_step (allocate_from env ad svc i occupied ps)"
proof (induction ps arbitrary: i occupied)
  case Nil
  show ?case unfolding allocate_from.simps by (rule sb.keeps_ret)
next
  case (Cons p ps)
  then show ?case unfolding allocate_from.simps by (intro sb.keeps_rules builds_same)
qed

lemma sb_allocate_ports [builds_same]: "keeps same_builds_step (allocate_ports env ad svc occupied ps)"
  unfolding allocate_ports_def by (rule sb_allocate_from)

lemma sb_assert_reusable [builds_same]: "keeps same_builds_step (assert_reusable ad ro n service name ob)"
  unfolding assert_reusable_def by (intro sb.keeps_rules builds_same)

lemma sb_application [builds_same]: "keeps same_builds_step (application b)"
  unfolding application_def by (intro sb.keeps_rules builds_same)

lemma sb_isolated [builds_same]: "keeps same_builds_step (isolated b)"
  unfolding isolated_def by (intro sb.keeps_rules builds_same)

lemma sb_archive_token [builds_same]: "keeps same_builds_step (workspace_archive_token env b)"
  unfolding workspace_archive_token_def by (intro sb.keeps_rules builds_same)

lemma sb_build_request [builds_same]: "keeps same_builds_step (build_request env b app compose git_ref)"
  unfolding build_request_def by (intro sb.keeps_rules builds_same)

lemma sb_plan_images [builds_same]: "keeps same_builds_step (plan_images env t b appid compose)"
  unfolding plan_images_def by (intro sb.keeps_rules builds_same)

lemma sb_verify_gate_now [builds_same]: "keeps same_builds_step (verify_gate_now i)"
  unfolding verify_gate_now_def by (intro sb.keeps_rules builds_same)

lemma sb_trigger_pending [builds_same]: "keeps same_builds_step (set_trigger_pending t p)"
  unfolding set_trigger_pending_def by (intro sb.keeps_rules builds_same)

lemma sb_unknown_trigger [builds_same]: "keeps same_builds_step (refuse_unknown_trigger i)"
  unfolding refuse_unknown_trigger_def by (intro sb.keeps_rules builds_same)

lemma sb_check_isolation [builds_same]: "keeps same_builds_step (check_isolation env b c r e)"
  unfolding check_isolation_def by (intro sb.keeps_rules builds_same)

lemma sb_register_image [builds_same]: "keeps same_builds_step (register_image t b artifact reference)"
  unfolding register_image_def by (intro sb.keeps_rules builds_same)

lemma sb_expose_failure [builds_same]: "keeps same_builds_step (expose_failure t b report)"
  unfolding expose_failure_def by (intro sb.keeps_rules builds_same)

lemma sb_sensitive_values [builds_same]: "keeps same_builds_step (jenkins_sensitive_values env b)"
  unfolding jenkins_sensitive_values_def attr_get_def
  by (intro sb.keeps_rules builds_same) (auto simp: sb.keeps_rules split: "value.split")

lemma sb_current_result [builds_same]: "keeps same_builds_step (current_result i)"
  unfolding current_result_def by (intro sb.keeps_rules builds_same)

section \<open>Clients that respect a relation between states\<close>

definition jenkins_keeps :: "(world \<Rightarrow> world \<Rightarrow> bool) \<Rightarrow> jenkins_client \<Rightarrow> bool" where
  "jenkins_keeps R j \<longleftrightarrow> (\<forall>m u h b n. keeps R (jc_transport j m u h b n))"

definition swarm_keeps :: "(world \<Rightarrow> world \<Rightarrow> bool) \<Rightarrow> swarm_env \<Rightarrow> swarm_remover \<Rightarrow> bool" where
  "swarm_keeps R env rm \<longleftrightarrow>
     keeps R (sw_connect env) \<and> keeps R (sw_info env) \<and> (\<forall>c f. keeps R (sw_list env c f)) \<and>
     (\<forall>c i. keeps R (sw_get env c i)) \<and> (\<forall>n l. keeps R (sw_create_volume env n l)) \<and>
     (\<forall>n a l. keeps R (sw_create_network env n a l)) \<and> (\<forall>i n s c. keeps R (sw_create_service env i n s c)) \<and>
     (\<forall>ob i s c. keeps R (sw_update_service env ob i s c)) \<and> (\<forall>ob. keeps R (sw_tasks env ob)) \<and>
     keeps R (sw_sleep env) \<and> (\<forall>ob. keeps R (sr_service rm ob)) \<and> (\<forall>ob. keeps R (sr_network rm ob))"

definition cleaner_keeps :: "(world \<Rightarrow> world \<Rightarrow> bool) \<Rightarrow> docker_cleaner \<Rightarrow> bool" where
  "cleaner_keeps R dc \<longleftrightarrow> (\<forall>m t. keeps R (dc_discover dc m t)) \<and> (\<forall>m t. keeps R (dc_wait_stopped dc m t)) \<and>
     (\<forall>m r t. keeps R (dc_remove dc m r t)) \<and> (\<forall>m t. keeps R (dc_verify_empty dc m t)) \<and>
     (\<forall>s t. keeps R (dc_assert_directory_unused dc s t))"

definition cleanup_keeps :: "(world \<Rightarrow> world \<Rightarrow> bool) \<Rightarrow> cleanup_env \<Rightarrow> bool" where
  "cleanup_keeps R env \<longleftrightarrow>
     (\<forall>j. ce_jenkins env = Some j \<longrightarrow> (\<forall>n. keeps R (jk_terminal j n)) \<and> (\<forall>u. keeps R (jk_queue_item j u)) \<and>
        (\<forall>n. keeps R (jk_artifact j n))) \<and>
     keeps R (ce_docker env) \<and> (\<forall>w dc w'. ce_docker env w = (Inr dc, w') \<longrightarrow> cleaner_keeps R dc) \<and>
     (\<forall>a b c d. keeps R (ce_remove_tag env a b c d)) \<and> (\<forall>a b c. keeps R (ce_delete_snapshot env a b c)) \<and>
     (\<forall>i. keeps R (ce_dispatch env i))"

definition dynamic_keeps :: "(world \<Rightarrow> world \<Rightarrow> bool) \<Rightarrow> dynamic_env \<Rightarrow> bool" where
  "dynamic_keeps R env \<longleftrightarrow> (\<forall>p r e. keeps R (dy_transport env p r e)) \<and> (\<forall>i. keeps R (dy_collect env i)) \<and>
     (\<forall>r t. keeps R (dy_agent env r t)) \<and> cleanup_keeps R (dy_cleanup env)"

definition clients_keep :: "(world \<Rightarrow> world \<Rightarrow> bool) \<Rightarrow> worker_env \<Rightarrow> bool" where
  "clients_keep R env \<longleftrightarrow>
     (\<forall>j. wk_jenkins env = Inr j \<longrightarrow> jenkins_keeps R j) \<and> swarm_keeps R (wk_swarm env) (wk_remover env) \<and>
     dynamic_keeps R (wk_dynamic env) \<and> (\<forall>p. keeps R (wf_look (wk_files env) p)) \<and>
     (\<forall>gl u r. ae_gitlab (wk_app env) = Some gl \<longrightarrow> keeps R (gl_validate_ref gl u r)) \<and>
     (\<forall>h p. keeps R (wk_connect env h p)) \<and> keeps R (wk_sleep env) \<and>
     (\<forall>i n. keeps R (wk_schedule_poll env i n)) \<and> (\<forall>i. keeps R (wk_schedule_start env i))"

lemma jenkins_keepsD: "jenkins_keeps R j \<Longrightarrow> keeps R (jc_transport j m u h b n)"
  by (simp add: jenkins_keeps_def)

lemma swarm_keepsD:
  assumes "swarm_keeps R env rm"
  shows "keeps R (sw_connect env)" "keeps R (sw_info env)" "keeps R (sw_list env c f)" "keeps R (sw_get env c i)"
    "keeps R (sw_create_volume env n l)" "keeps R (sw_create_network env n a l)"
    "keeps R (sw_create_service env i n s cs)" "keeps R (sw_update_service env ob i s cs)"
    "keeps R (sw_tasks env ob)" "keeps R (sw_sleep env)" "keeps R (sr_service rm ob)" "keeps R (sr_network rm ob)"
  using assms unfolding swarm_keeps_def by blast+

lemma cleaner_keepsD:
  assumes "cleaner_keeps R dc"
  shows "keeps R (dc_discover dc m t)" "keeps R (dc_wait_stopped dc m t)" "keeps R (dc_remove dc m r t)"
    "keeps R (dc_verify_empty dc m t)" "keeps R (dc_assert_directory_unused dc s t)"
  using assms unfolding cleaner_keeps_def by blast+

lemma cleanup_keepsD:
  assumes "cleanup_keeps R env"
  shows "keeps R (ce_docker env)" "keeps R (ce_remove_tag env a b c d)" "keeps R (ce_delete_snapshot env e f g)"
    "keeps R (ce_dispatch env i)"
    "ce_jenkins env = Some j \<Longrightarrow> keeps R (jk_terminal j n)" "ce_jenkins env = Some j \<Longrightarrow> keeps R (jk_queue_item j u)"
    "ce_jenkins env = Some j \<Longrightarrow> keeps R (jk_artifact j n)"
    "ce_docker env w = (Inr dc, w') \<Longrightarrow> cleaner_keeps R dc"
  using assms unfolding cleanup_keeps_def by blast+

lemma dynamic_keepsD:
  assumes "dynamic_keeps R env"
  shows "keeps R (dy_transport env p r e)" "keeps R (dy_collect env i)" "keeps R (dy_agent env role t)"
    "cleanup_keeps R (dy_cleanup env)"
  using assms unfolding dynamic_keeps_def by blast+

lemma clients_keepD:
  assumes "clients_keep R env"
  shows "wk_jenkins env = Inr j \<Longrightarrow> jenkins_keeps R j" "swarm_keeps R (wk_swarm env) (wk_remover env)"
    "dynamic_keeps R (wk_dynamic env)" "keeps R (wf_look (wk_files env) p)"
    "ae_gitlab (wk_app env) = Some gl \<Longrightarrow> keeps R (gl_validate_ref gl u r)"
    "keeps R (wk_connect env h port)" "keeps R (wk_sleep env)" "keeps R (wk_schedule_poll env i n)"
    "keeps R (wk_schedule_start env i)"
  using assms unfolding clients_keep_def by blast+

section \<open>The frame\<close>

locale build_frame = step_guarantee R for R :: "world \<Rightarrow> world \<Rightarrow> bool" +
  assumes frame_same: "w_builds w' = w_builds w \<Longrightarrow> R w w'"
    and frame_update: "frame_fields f \<Longrightarrow> keeps R (update_build i f)"
    and frame_transition: "frame_fields (snd flds) \<Longrightarrow> target \<in> ALLOWED_BUILD_TRANSITIONS s \<Longrightarrow>
      keeps R (transition_build i [s] target (transition_fields b target flds now))"
begin

lemma lift: "keeps same_builds_step m \<Longrightarrow> keeps R m"
  by (rule keepsI) (rule frame_same, drule keepsD, assumption)

lemmas lifted = builds_same [THEN lift]

lemma keeps_bd_res: "(\<And>x. r = Inr x \<Longrightarrow> keeps R (f x)) \<Longrightarrow> keeps R (bd (lift_res r) f)"
  by (cases r) (simp_all add: keeps_def bd_app R_refl)

subsection \<open>The state machine\<close>

lemma frame_build_transition:
  assumes "frame_fields (snd flds)"
  shows "keeps R (build_transition i target flds)"
proof -
  have "keeps R (transition_build i [bj_status b] target (transition_fields b target flds now))"
    if "\<not> (terminal (bj_status b) \<or> target \<notin> ALLOWED_BUILD_TRANSITIONS (bj_status b))" for b now
    using frame_transition assms that by blast
  then show ?thesis
    unfolding build_transition_def by (intro keeps_rules lifted) blast+
qed

lemma frame_build_fail: "keeps R (build_fail i m f)"
  unfolding build_fail_def by (intro keeps_rules lifted frame_build_transition frame_failure_fields)

lemma frame_update_or:
  assumes "frame_fields upd"
  shows "keeps R (update_or b upd)"
proof -
  have "frame_fields (\<lambda>x. (upd x)\<lparr>bj_updated_at := now\<rparr>)" for now
    using assms by (simp add: frame_fields_def)
  then show ?thesis
    unfolding update_or_def by (intro keeps_rules lifted frame_update)
qed

lemma frame_save:
  assumes "frame_fields upd" and "keeps R guard"
  shows "keeps R (dynamic_save i upd guard)"
proof -
  have "frame_fields (\<lambda>x. (upd x)\<lparr>bj_updated_at := now\<rparr>)" for now
    using assms(1) by (simp add: frame_fields_def)
  then show ?thesis
    unfolding dynamic_save_def by (intro keeps_rules lifted frame_update assms(2))
qed

lemma frame_set_teardown:
  assumes "frame_fields upd"
  shows "keeps R (set_teardown i upd)"
proof -
  have "frame_fields (\<lambda>x. (upd x)\<lparr>bj_updated_at := now\<rparr>)" for now
    using assms by (simp add: frame_fields_def)
  then show ?thesis
    unfolding set_teardown_def by (intro keeps_rules lifted frame_update)
qed

lemma frame_lease: "(\<And>t. keeps R (body t)) \<Longrightarrow> keeps R (build_lease i ss n body)"
  unfolding build_lease_def by (intro keeps_rules lifted)

end

section \<open>Jenkins, the workspace and Docker\<close>

context build_frame begin

lemma frame_jenkins_call: "jenkins_keeps R j \<Longrightarrow> keeps R (jenkins_call j m p h b n)"
  unfolding jenkins_call_def jenkins_error_def by (intro keeps_rules jenkins_keepsD)

lemma frame_json: "keeps R (json_object r op)"
  unfolding json_object_def jenkins_error_def by (auto simp: keeps_rules split: option.split "value.split")

lemma frame_raise_status: "keeps R (raise_for_status r op)"
  unfolding raise_for_status_def jenkins_error_def by (intro keeps_rules)

lemma frame_jenkins_error: "keeps R (jenkins_error m)"
  unfolding jenkins_error_def by (intro keeps_rules)

lemmas jenkins_rules = keeps_rules frame_jenkins_call frame_json frame_raise_status frame_jenkins_error

lemma frame_trigger_build: "jenkins_keeps R j \<Longrightarrow> keeps R (trigger_build j r)"
  unfolding trigger_build_def trigger_headers_def crumb_headers_def Let_def by (intro jenkins_rules)

lemma frame_queue_item: "jenkins_keeps R j \<Longrightarrow> keeps R (get_queue_item j u)"
  unfolding get_queue_item_def Let_def by (intro jenkins_rules)

lemma frame_jenkins_build: "jenkins_keeps R j \<Longrightarrow> keeps R (get_jenkins_build j n)"
  unfolding get_jenkins_build_def Let_def by (intro jenkins_rules)

lemma frame_console: "jenkins_keeps R j \<Longrightarrow> keeps R (read_console_tail j n window)"
  unfolding read_console_tail_def Let_def by (intro jenkins_rules)

lemma frame_result_artifact: "jenkins_keeps R j \<Longrightarrow> keeps R (get_result_artifact j n)"
  unfolding get_result_artifact_def get_artifact_def by (intro jenkins_rules)

lemma frame_diagnostic: "jenkins_keeps R j \<Longrightarrow> keeps R (get_failure_diagnostic reader j n secrets a b window)"
  unfolding get_failure_diagnostic_def by (intro jenkins_rules frame_console)

lemma frame_walk:
  assumes "\<And>p. keeps R (wf_look fs p)"
  shows "keeps R (walk_parts fs current ps)"
proof (induction ps arbitrary: current)
  case Nil
  show ?case unfolding walk_parts.simps by (rule keeps_ret)
next
  case (Cons p ps)
  then show ?case unfolding walk_parts.simps by (intro keeps_rules assms)
qed

lemma frame_resolve_source: "(\<And>p. keeps R (wf_look fs p)) \<Longrightarrow> keeps R (resolve_source fs root s)"
  unfolding resolve_source_def safe_path_def
  by (intro keeps_rules frame_walk) (auto simp: keeps_rules split: path_state.split)

lemma frame_resolve_mount: "(\<And>p. keeps R (wf_look fs p)) \<Longrightarrow> keeps R (resolve_mount fs root m)"
  unfolding resolve_mount_def resolve_short_def resolve_long_def Let_def
  by (auto intro!: keeps_rules frame_resolve_source split: "value.split")

lemma frame_for_values: "(\<And>x. keeps R (f x)) \<Longrightarrow> keeps R (for_values f xs)"
proof (induction xs)
  case Nil
  show ?case unfolding for_values.simps by (rule keeps_ret)
next
  case (Cons x xs)
  then show ?case unfolding for_values.simps by (intro keeps_rules) auto
qed

lemma frame_resolve_service: "(\<And>p. keeps R (wf_look fs p)) \<Longrightarrow> keeps R (resolve_service fs root kv)"
  unfolding resolve_service_def attr_get_def
  by (auto intro!: keeps_rules frame_for_values frame_resolve_mount split: "value.split")

lemma frame_document_services: "keeps R (document_services d)"
  unfolding document_services_def by (auto intro!: keeps_rules split: "value.split")

lemma frame_resolve_compose: "(\<And>p. keeps R (wf_look fs p)) \<Longrightarrow> keeps R (resolve_compose fs a i d)"
  unfolding resolve_compose_def
  by (intro keeps_rules frame_for_values frame_resolve_service frame_document_services)

lemma frame_resolve_build_compose: "(\<And>p. keeps R (wf_look fs p)) \<Longrightarrow> keeps R (resolve_build_compose fs a i d)"
  unfolding resolve_build_compose_def by (intro keeps_rules frame_resolve_compose frame_document_services)

lemma frame_find: "swarm_keeps R env rm \<Longrightarrow> keeps R (find_existing env name)"
  unfolding find_existing_def by (intro keeps_rules swarm_keepsD)

lemma frame_prepare_volumes: "swarm_keeps R env rm \<Longrightarrow> keeps R (prepare_build_volumes env ad appid ns sources)"
  unfolding prepare_build_volumes_def prepare_volume_def Let_def by (intro keeps_rules lifted swarm_keepsD)

lemma frame_network: "swarm_keeps R env rm \<Longrightarrow> keeps R (ensure_network env ad appid ns)"
  unfolding ensure_network_def by (intro keeps_rules lifted swarm_keepsD)

lemma frame_deploy_one: "swarm_keeps R env rm \<Longrightarrow> keeps R (deploy_one env ad ro occupied n service)"
  unfolding deploy_one_def put_service_def workspace_constraints_def Let_def
  by (intro keeps_rules lifted swarm_keepsD frame_find)

lemma frame_ready_rounds: "swarm_keeps R env rm \<Longrightarrow> keeps R (ready_rounds n env ad ob desired deadline)"
proof (induction n)
  case 0
  show ?case unfolding ready_rounds.simps by (rule keeps_ret)
next
  case (Suc n)
  then show ?case
    unfolding ready_rounds.simps poll_tasks_def by (intro keeps_rules lifted swarm_keepsD) auto
qed

lemma frame_settle: "swarm_keeps R env rm \<Longrightarrow> keeps R (settle_service env ad d)"
  unfolding settle_service_def await_ready_def wait_for_service_ready_def
  by (intro keeps_rules lifted swarm_keepsD frame_find frame_ready_rounds)

lemma frame_rollout:
  assumes "swarm_keeps R env rm"
  shows "keeps R (rollout_services env ad ro services ns occupied ds cs)"
proof (induction ns arbitrary: occupied ds cs)
  case Nil
  show ?case unfolding rollout_services.simps by (rule keeps_ret)
next
  case (Cons n ns)
  then show ?case
    unfolding rollout_services.simps Let_def
    by (intro keeps_rules frame_deploy_one [OF assms] frame_settle [OF assms])
qed

lemma frame_rollback_services: "swarm_keeps R env rm \<Longrightarrow> keeps R (rollback_services env rm appid ns ds)"
proof (induction ds)
  case Nil
  show ?case unfolding rollback_services.simps by (rule keeps_ret)
next
  case (Cons d ds)
  then show ?case
    unfolding rollback_services.simps rollback_service_def by (intro keeps_rules swarm_keepsD) auto
qed

lemma frame_rollback: "swarm_keeps R env rm \<Longrightarrow> keeps R (rollback_rollout env rm ad ro network created)"
  unfolding rollback_rollout_def rollback_deployment_def network_has_other_services_def rollback_network_def
  by (intro keeps_rules lifted swarm_keepsD frame_rollback_services)

lemma frame_finish_rollout: "swarm_keeps R env rm \<Longrightarrow> keeps R (finish_rollout env rm ad ro outcome)"
  unfolding finish_rollout_def cleanup_stale_services_def remove_stale_def by (intro keeps_rules swarm_keepsD)

lemma frame_occupied: "swarm_keeps R env rm \<Longrightarrow> keeps R (occupied_published_ports env ad names)"
  unfolding occupied_published_ports_def Let_def by (intro keeps_rules swarm_keepsD)

lemma frame_deploy: "swarm_keeps R env rm \<Longrightarrow> keeps R (deploy env rm ad appid compose)"
  unfolding deploy_def enter_swarm_def run_rollout_def Let_def
  by (intro keeps_rules swarm_keepsD frame_prepare_volumes frame_network frame_occupied frame_rollout
      frame_finish_rollout frame_rollback)

lemma frame_deploy_build: "swarm_keeps R env rm \<Longrightarrow> keeps R (deploy_build env rm ad appid i compose t)"
  unfolding deploy_build_def by (intro keeps_rules frame_deploy)

end

section \<open>Clean-up\<close>

text \<open>What an action returns, where it returns.\<close>

definition yields :: "('w, 'a) action \<Rightarrow> ('a \<Rightarrow> bool) \<Rightarrow> bool" where
  "yields m P \<longleftrightarrow> (\<forall>w x w'. m w = (Inr x, w') \<longrightarrow> P x)"

lemma yields_ret: "P x \<Longrightarrow> yields (ret x) P"
  by (simp add: yields_def)

lemma yields_raise: "yields (raise c m) P"
  by (simp add: yields_def)

lemma yields_bd: "(\<And>x. yields (f x) P) \<Longrightarrow> yields (bd m f) P"
  unfolding yields_def by (metis bd_InrE)

lemma yields_andthen: "yields k P \<Longrightarrow> yields (andthen m k) P"
  by (simp add: andthen_def yields_bd)

lemma yields_if: "(b \<Longrightarrow> yields m P) \<Longrightarrow> (\<not> b \<Longrightarrow> yields k P) \<Longrightarrow> yields (if b then m else k) P"
  by simp

lemma yields_option:
  "(x = None \<Longrightarrow> yields m P) \<Longrightarrow> (\<And>y. x = Some y \<Longrightarrow> yields (f y) P) \<Longrightarrow>
   yields (case x of None \<Rightarrow> m | Some y \<Rightarrow> f y) P"
  by (cases x) simp_all

lemma yields_sum:
  "(\<And>e. yields (f e) P) \<Longrightarrow> (\<And>x. yields (g x) P) \<Longrightarrow> yields (case s of Inl e \<Rightarrow> f e | Inr x \<Rightarrow> g x) P"
  by (cases s) simp_all

lemma yields_prod: "(\<And>a b. yields (f a b) P) \<Longrightarrow> yields (case p of (a, b) \<Rightarrow> f a b) P"
  by (cases p) simp

lemma yields_use: "yields m Q \<Longrightarrow> (\<And>x. Q x \<Longrightarrow> yields (f x) P) \<Longrightarrow> yields (bd m f) P"
  unfolding yields_def by (metis bd_InrE)

lemma yields_fold_each:
  "(\<And>x s. P s \<Longrightarrow> yields (f x s) P) \<Longrightarrow> P s \<Longrightarrow> yields (fold_each xs f s) P"
proof (induction xs arbitrary: s)
  case Nil
  then show ?case unfolding fold_each.simps by (intro yields_ret)
next
  case (Cons x xs)
  show ?case
    unfolding fold_each.simps by (rule yields_use [where Q = P]) (use Cons in blast)+
qed

lemmas yields_rules = yields_ret yields_raise yields_bd yields_andthen yields_if yields_option yields_sum yields_prod

lemma yields_attempt: "yields m P \<Longrightarrow> yields (attempt m) (\<lambda>r. \<forall>x. r = Inr x \<longrightarrow> P x)"
  by (auto simp: yields_def attempt_def split: prod.splits)

definition docker_keeps :: "(world \<Rightarrow> world \<Rightarrow> bool) \<Rightarrow> run_state \<Rightarrow> bool" where
  "docker_keeps R st \<longleftrightarrow> (\<forall>dc. rn_docker st = Some dc \<longrightarrow> cleaner_keeps R dc)"

context build_frame begin

lemma keeps_use: "keeps R m \<Longrightarrow> yields m Q \<Longrightarrow> (\<And>x. Q x \<Longrightarrow> keeps R (f x)) \<Longrightarrow> keeps R (bd m f)"
  unfolding keeps_def bd_def yields_def
  by (auto split: prod.splits sum.splits) (metis R_trans snd_conv)+

lemma keeps_fold_use:
  assumes "\<And>x s. P s \<Longrightarrow> keeps R (f x s)" and "\<And>x s. P s \<Longrightarrow> yields (f x s) P" and "P s"
  shows "keeps R (fold_each xs f s)"
  using assms(3)
proof (induction xs arbitrary: s)
  case Nil
  show ?case unfolding fold_each.simps by (rule keeps_ret)
next
  case (Cons x xs)
  show ?case
    unfolding fold_each.simps by (rule keeps_use [OF assms(1,2)]) (use Cons in blast)+
qed

lemma frame_manifest: "keeps R (manifest_of env i)"
  unfolding manifest_of_def by (intro keeps_rules lifted)

lemma frame_quiescent: "cleanup_keeps R env \<Longrightarrow> keeps R (assert_quiescent env i)"
  unfolding assert_quiescent_def conflict_def by (intro keeps_rules lifted cleanup_keepsD)

lemma frame_queue_cleanup: "keeps R (queue_cleanup env i owner)"
  unfolding queue_cleanup_def conflict_def by (intro keeps_rules lifted frame_manifest)

lemma frame_request_cleanup: "cleanup_keeps R env \<Longrightarrow> keeps R (request_cleanup env i dispatch)"
  unfolding request_cleanup_def conflict_def
  by (intro keeps_rules lifted frame_lease frame_manifest frame_quiescent frame_queue_cleanup cleanup_keepsD)

lemma frame_current: "keeps R (current_resources i)"
  unfolding current_resources_def by (intro keeps_rules lifted)

lemma frame_builder_image: "keeps R (record_builder_image tr i expected target item)"
  unfolding record_builder_image_def conflict_def Let_def by (intro keeps_rules lifted)

lemma frame_collect_builder: "cleanup_keeps R env \<Longrightarrow> keeps R (collect_builder_resources env m tr)"
  unfolding collect_builder_resources_def by (intro keeps_rules lifted cleanup_keepsD frame_builder_image)

lemma frame_collect_phase: "cleanup_keeps R env \<Longrightarrow> keeps R (collect_phase env m tr)"
  unfolding collect_phase_def by (intro keeps_rules lifted frame_collect_builder frame_current)

lemma docker_keepsD: "docker_keeps R st \<Longrightarrow> rn_docker st = Some dc \<Longrightarrow> cleaner_keeps R dc"
  by (simp add: docker_keeps_def)

lemma frame_remove_resource:
  assumes "cleanup_keeps R env" and "docker_keeps R st"
  shows "keeps R (remove_resource env m tr st r)"
  unfolding remove_resource_def conflict_def
  by (intro keeps_rules lifted frame_current cleanup_keepsD [OF assms(1)] cleaner_keepsD docker_keepsD [OF assms(2)])

lemma frame_cleanup_resource:
  assumes "cleanup_keeps R env" and "docker_keeps R st"
  shows "keeps R (cleanup_resource env m tr kind r st)"
  unfolding cleanup_resource_def by (intro keeps_rules lifted frame_remove_resource assms)

lemma yields_cleanup_resource: "docker_keeps R st \<Longrightarrow> yields (cleanup_resource env m tr kind r st) (docker_keeps R)"
  unfolding cleanup_resource_def by (intro yields_rules) (simp_all add: docker_keeps_def)

lemma frame_before_containers: "docker_keeps R st \<Longrightarrow> keeps R (before_containers m tr st)"
  unfolding before_containers_def by (intro keeps_rules lifted frame_current cleaner_keepsD docker_keepsD)

lemma yields_before_containers: "docker_keeps R st \<Longrightarrow> yields (before_containers m tr st) (docker_keeps R)"
  unfolding before_containers_def by (intro yields_rules) (simp_all add: docker_keeps_def)

lemma frame_cleanup_kind:
  assumes "cleanup_keeps R env" and "docker_keeps R st"
  shows "keeps R (cleanup_kind env m tr kind st) \<and> yields (cleanup_kind env m tr kind st) (docker_keeps R)"
proof -
  let ?first = "if kind = KContainer then before_containers m tr st else ret st"
  have first: "keeps R ?first" "yields ?first (docker_keeps R)"
    using frame_before_containers yields_before_containers assms(2) by (simp_all add: keeps_ret yields_ret)
  show ?thesis
    unfolding cleanup_kind_def
    by (intro conjI keeps_use [OF first] yields_use [OF first(2)] keeps_rules yields_rules frame_current
        keeps_fold_use [where P = "docker_keeps R"] yields_fold_each frame_cleanup_resource yields_cleanup_resource assms(1))
qed

lemma frame_discovery:
  assumes "cleanup_keeps R env"
  shows "keeps R (discovery_phase env m tr errors) \<and> yields (discovery_phase env m tr errors) (docker_keeps R)"
proof -
  have made: "yields (attempt (ce_docker env)) (\<lambda>r. \<forall>dc. r = Inr dc \<longrightarrow> cleaner_keeps R dc)"
    by (rule yields_attempt) (use cleanup_keepsD(8) [OF assms] in \<open>auto simp: yields_def\<close>)
  have docker: "keeps R (attempt (ce_docker env))" by (intro keeps_rules cleanup_keepsD [OF assms])
  have "keeps R (discovery_phase env m tr errors)"
    unfolding discovery_phase_def
  proof (rule keeps_if, rule keeps_ret, rule keeps_use [OF docker made])
    fix made :: "exn + docker_cleaner"
    assume "\<forall>dc. made = Inr dc \<longrightarrow> cleaner_keeps R dc"
    then show "keeps R (case made of
        Inl e \<Rightarrow> ret \<lparr>rn_errors = errors @ [safe_error e], rn_docker = None, rn_discovered = False, rn_registry = []\<rparr>
      | Inr dc \<Rightarrow>
          bd (attempt (bd (current_resources (br_build_id m)) (\<lambda>current. dc_discover dc current tr))) (\<lambda>res.
          case res of
            Inl e \<Rightarrow> ret \<lparr>rn_errors = errors @ [safe_error e], rn_docker = Some dc, rn_discovered = False, rn_registry = []\<rparr>
          | Inr _ \<Rightarrow> ret \<lparr>rn_errors = errors, rn_docker = Some dc, rn_discovered = True, rn_registry = []\<rparr>))"
      by (cases made) (auto intro!: keeps_rules frame_current cleaner_keepsD)
  qed
  moreover have "yields (discovery_phase env m tr errors) (docker_keeps R)"
    unfolding discovery_phase_def
    by (rule yields_if, rule yields_ret, simp add: docker_keeps_def, rule yields_use [OF made])
       (auto intro!: yields_rules simp: docker_keeps_def split: sum.split)
  ultimately show ?thesis ..
qed

lemma frame_verify_phase: "docker_keeps R st \<Longrightarrow> keeps R (verify_phase m tr st)"
  unfolding verify_phase_def by (intro keeps_rules frame_current cleaner_keepsD docker_keepsD)

lemma frame_save_cleanup: "keeps R (save_cleanup_result m tr registry errors)"
  unfolding save_cleanup_result_def mark_service_cleaned_def conflict_def Let_def
  by (intro keeps_rules lifted frame_current)

lemma frame_under_lease:
  assumes "cleanup_keeps R env"
  shows "keeps R (cleanup_under_lease env m tr)"
proof -
  have kinds: "keeps R (fold_each CLEANUP_ORDER (cleanup_kind env m tr) st)"
    "yields (fold_each CLEANUP_ORDER (cleanup_kind env m tr) st) (docker_keeps R)" if "docker_keeps R st" for st
    by (rule keeps_fold_use [where P = "docker_keeps R"],
        simp_all add: that frame_cleanup_kind [OF assms] yields_fold_each)
  have rest: "keeps R (bd (discovery_phase env m tr errors) (\<lambda>st0.
      bd (fold_each CLEANUP_ORDER (cleanup_kind env m tr) st0) (\<lambda>st.
      bd (verify_phase m tr st) (\<lambda>all_errors. save_cleanup_result m tr (rn_registry st) all_errors))))" for errors
    by (rule keeps_use [OF conjunct1 [OF frame_discovery [OF assms]] conjunct2 [OF frame_discovery [OF assms]]],
        rule keeps_use [OF kinds], assumption, assumption)
       (intro keeps_rules frame_verify_phase frame_save_cleanup)
  show ?thesis
    unfolding cleanup_under_lease_def
    by (intro keeps_bd keeps_andthen keeps_case_sum keeps_attempt keeps_ret lifted frame_quiescent frame_collect_phase rest assms)
qed

lemma frame_run_cleanup: "cleanup_keeps R env \<Longrightarrow> keeps R (run_cleanup env i)"
  unfolding run_cleanup_def by (intro keeps_rules frame_lease frame_manifest frame_under_lease)

end

section \<open>The dynamic check\<close>

text \<open>The body of a check runs on the world and its locals; the relation is about the world.\<close>

abbreviation on_fst :: "(world \<Rightarrow> world \<Rightarrow> bool) \<Rightarrow> world \<times> locals \<Rightarrow> world \<times> locals \<Rightarrow> bool" where
  "on_fst R \<equiv> \<lambda>p q. R (fst p) (fst q)"

sublocale build_frame \<subseteq> lo: step_guarantee "on_fst R"
  by unfold_locales (rule R_refl, rule R_trans)

context build_frame begin

lemma keeps_on_world: "keeps R m \<Longrightarrow> keeps (on_fst R) (on_world m)"
  unfolding keeps_def on_world_def by (auto split: prod.splits) (metis snd_conv)

lemma keeps_get_locals: "keeps (on_fst R) get_locals"
  by (simp add: keeps_def get_locals_def R_refl)

lemma keeps_set_locals: "keeps (on_fst R) (set_locals f)"
  by (rule keepsI) (simp add: set_locals_def modify_def R_refl split: prod.split)

lemma keeps_with_locals:
  "keeps (on_fst R) body \<Longrightarrow> (\<And>e l. keeps R (h e l)) \<Longrightarrow> keeps R (with_locals body l0 h)"
  unfolding keeps_def with_locals_def
  by (auto split: prod.splits sum.splits) (metis R_trans fst_conv snd_conv)+

lemma frame_fields_simple:
  "frame_fields (finish_fields ok kept safe)" "frame_fields (deployment_failed f report)" "frame_fields (\<lambda>x. x)"
  by (auto simp: frame_fields_def finish_fields_def deployment_failed_def Let_def split: option.splits)

lemmas frame_sides = frame_fields_simple frame_fields_def

lemma frame_claim: "keeps R guard \<Longrightarrow> keeps R (claim_result b guard allow)"
  unfolding claim_result_def superseded_def by (intro keeps_rules lifted)

lemma frame_sync: "keeps R guard \<Longrightarrow> keeps R (sync_result b guard)"
  unfolding sync_result_def superseded_def by (intro keeps_rules lifted)

lemma frame_finish: "keeps R guard \<Longrightarrow> keeps R (dynamic_finish env i guard ok result report)"
  unfolding dynamic_finish_def
  by (intro keeps_rules lifted frame_save frame_fields_simple frame_build_fail frame_sync)

lemma frame_finish_now: "keeps R guard \<Longrightarrow> keeps (on_fst R) (finish_now env i guard ok report)"
  unfolding finish_now_def by (intro lo.keeps_rules keeps_get_locals keeps_on_world frame_finish)

lemma frame_call_probe:
  assumes "dynamic_keeps R env"
  shows "keeps R (call_probe env p r es)"
proof -
  have "keeps R (try_endpoints (dy_transport env) pl rt xs)" for pl rt xs
  proof (induction xs)
    case Nil
    show ?case unfolding try_endpoints.simps by (rule keeps_ret)
  next
    case (Cons e xs)
    then show ?case
      unfolding try_endpoints.simps Let_def by (intro keeps_rules dynamic_keepsD [OF assms])
  qed
  then show ?thesis
    unfolding call_probe_def run_probe_def Let_def by (intro keeps_rules)
qed

lemmas body_rules = lo.keeps_rules keeps_get_locals keeps_set_locals keeps_on_world frame_finish_now
  frame_save frame_call_probe frame_sync lifted keeps_bd keeps_ret keeps_lift_res

lemma frame_initial_probe:
  "dynamic_keeps R env \<Longrightarrow> keeps R guard \<Longrightarrow> keeps (on_fst R) (initial_probe env i guard b p es)"
  unfolding initial_probe_def by (intro body_rules) (simp_all add: frame_fields_def)

lemma frame_retry_probe:
  "dynamic_keeps R env \<Longrightarrow> keeps R guard \<Longrightarrow> keeps (on_fst R) (retry_probe env i guard p es)"
  unfolding retry_probe_def by (intro body_rules) (simp_all add: frame_fields_def)

lemma frame_ask_agent:
  assumes "dynamic_keeps R env" and "keeps R guard"
  shows "keeps (on_fst R) (ask_agent env i guard b p)"
  unfolding ask_agent_def
  by (intro body_rules dynamic_keepsD [OF assms(1)] assms(2)) (simp_all add: frame_fields_def)

lemma frame_diagnose:
  assumes "dynamic_keeps R env" and "keeps R guard"
  shows "keeps (on_fst R) (diagnose env i guard b p es)"
  unfolding diagnose_def Let_def
  by (intro body_rules frame_ask_agent frame_retry_probe assms) (simp_all add: frame_fields_def)

lemma frame_after_initial:
  assumes "dynamic_keeps R env" and "keeps R guard"
  shows "keeps (on_fst R) (after_initial env i guard b p es)"
  unfolding after_initial_def Let_def by (intro body_rules frame_diagnose frame_retry_probe assms)

lemma frame_begin_run: "keeps R guard \<Longrightarrow> keeps R (begin_run i guard b)"
  unfolding begin_run_def
  by (intro keeps_rules lifted frame_claim frame_save) (simp_all add: frame_fields_def)

lemma frame_execute:
  assumes "dynamic_keeps R env" and "keeps R guard"
  shows "keeps R (dynamic_execute env i guard)"
  unfolding dynamic_execute_def execute_body_def
  by (intro keeps_rules lifted keeps_with_locals lo.keeps_rules keeps_on_world frame_begin_run frame_initial_probe
      frame_after_initial frame_build_fail frame_sync frame_finish assms)

lemma frame_sync_teardown: "keeps R (sync_teardown i)"
  unfolding sync_teardown_def Let_def
  by (intro keeps_rules lifted frame_update) (simp add: frame_fields_def)

lemma frame_teardown:
  assumes "cleanup_keeps R (dy_cleanup env)" and "\<And>c. cleanup = Some c \<Longrightarrow> keeps R c"
  shows "keeps R (teardown env i cleanup)"
  unfolding teardown_def
  by (intro keeps_rules lifted frame_sync_teardown frame_set_teardown frame_request_cleanup frame_run_cleanup assms)
     (simp_all add: frame_fields_def)

end

section \<open>The worker\<close>

context build_frame begin

lemma frame_workspace_compose: "clients_keep R env \<Longrightarrow> keeps R (workspace_compose env b compose)"
  unfolding workspace_compose_def
  by (intro keeps_rules lifted frame_resolve_compose frame_resolve_build_compose clients_keepD)

lemma frame_worker_fail: "keeps R (worker_fail env t i e carried fallback)"
  unfolding worker_fail_def Let_def
  by (intro keeps_rules lifted frame_build_fail frame_update_or frame_fields_simple)

lemma frame_check_source: "clients_keep R env \<Longrightarrow> keeps R (check_source env b app cipher compose)"
  unfolding check_source_def by (intro keeps_rules lifted frame_workspace_compose)

lemma frame_pin_reference: "clients_keep R env \<Longrightarrow> keeps R (pin_reference env t b app source)"
  unfolding pin_reference_def
  by (intro keeps_rules lifted frame_update_or clients_keepD) (simp_all add: frame_fields_def)

lemma frame_validate_inputs: "clients_keep R env \<Longrightarrow> keeps R (validate_inputs env t b app cipher compose)"
  unfolding validate_inputs_def
  by (intro keeps_rules lifted frame_check_source frame_pin_reference frame_build_transition)
     (simp_all add: frame_fields_def)

lemma frame_ask_jenkins: "jenkins_keeps R j \<Longrightarrow> keeps R (ask_jenkins env t j request)"
  unfolding ask_jenkins_def by (intro keeps_rules lifted frame_trigger_build)

lemma frame_trigger_jenkins:
  assumes "clients_keep R env"
  shows "keeps R (trigger_jenkins env t b app compose git_ref)"
  unfolding trigger_jenkins_def
  by (rule keeps_bd_res | rule keeps_rules lifted frame_update_or frame_ask_jenkins clients_keepD(1) [OF assms] | assumption
      | (simp add: frame_fields_def; fail))+

lemma frame_start_build: "clients_keep R env \<Longrightarrow> keeps R (start_build env i task_id t)"
  unfolding start_build_def start_steps_def schedule_poll_def
  by (intro keeps_rules lifted frame_update_or frame_build_transition frame_validate_inputs frame_trigger_jenkins
      frame_worker_fail clients_keepD) (simp_all add: frame_fields_def)

lemma frame_complete_dynamic:
  assumes "clients_keep R env"
  shows "keeps R (complete_dynamic_deployment env t b)"
  unfolding complete_dynamic_deployment_def
  by (intro keeps_rules lifted frame_execute clients_keepD(3) [OF assms] frame_build_transition)
     (simp_all add: frame_fields_def)

lemma frame_await_port:
  assumes "clients_keep R env"
  shows "keeps R (await_port env host name port)"
proof -
  have "keeps R (port_rounds n env host name port deadline)" for n deadline
  proof (induction n)
    case 0
    show ?case unfolding port_rounds.simps by (rule keeps_ret)
  next
    case (Suc n)
    then show ?case unfolding port_rounds.simps by (intro keeps_rules lifted clients_keepD [OF assms])
  qed
  then show ?thesis unfolding await_port_def by (intro keeps_rules lifted)
qed

lemma frame_deploy_artifact:
  assumes "clients_keep R env"
  shows "keeps R (deploy_artifact env t b compose)"
  unfolding deploy_artifact_def deploy_services_def save_deployment_def probe_public_ports_def Let_def
  by (intro keeps_rules lifted frame_deploy frame_deploy_build clients_keepD(2) [OF assms] frame_update_or
      frame_await_port frame_complete_dynamic assms) (simp_all add: frame_fields_def)

lemma frame_verify_artifact: "keeps R (verify_artifact env t b artifact source compose)"
  unfolding verify_artifact_def by (intro keeps_rules lifted frame_update_or) (simp_all add: frame_fields_def)

lemma frame_deployment_document: "clients_keep R env \<Longrightarrow> keeps R (deployment_document env b artifact)"
  unfolding deployment_document_def Let_def by (intro keeps_rules lifted frame_workspace_compose)

lemma frame_complete_deployment:
  assumes "clients_keep R env"
  shows "keeps R (complete_deployment env t b number)"
  unfolding complete_deployment_def enter_deployment_def
  by (rule keeps_bd_res | rule keeps_rules lifted frame_result_artifact clients_keepD(1) [OF assms]
      frame_deployment_document frame_verify_artifact frame_build_transition frame_deploy_artifact assms | assumption
      | (simp add: frame_fields_def; fail))+

lemma frame_resume: "clients_keep R env \<Longrightarrow> keeps R (resume_deployment env t b)"
  unfolding resume_deployment_def Let_def
  by (intro keeps_rules lifted frame_update_or frame_complete_dynamic frame_complete_deployment)
     (simp_all add: frame_fields_def)

lemma frame_jenkins_diagnostic:
  assumes "clients_keep R env"
  shows "keeps R (jenkins_failure_diagnostic env b number outcome)"
  unfolding jenkins_failure_diagnostic_def Let_def
  by (rule keeps_bd_res | rule keeps_rules lifted frame_diagnostic clients_keepD(1) [OF assms] | assumption)+

lemma frame_touch:
  assumes "frame_fields upd"
  shows "keeps R (touch_poll b upd)"
proof -
  have "frame_fields (\<lambda>x. (upd x)\<lparr>bj_last_polled_at := Some now\<rparr>)" for now
    using assms by (simp add: frame_fields_def)
  then show ?thesis unfolding touch_poll_def by (intro keeps_rules lifted frame_update_or)
qed

lemma frame_assigned_number:
  assumes "clients_keep R env"
  shows "keeps R (assigned_number env t b u)"
  unfolding assigned_number_def
  by (rule keeps_bd_res | rule keeps_rules lifted frame_queue_item clients_keepD(1) [OF assms] frame_touch | assumption
      | (simp add: frame_fields_def; fail))+

lemma frame_poll_again: "clients_keep R env \<Longrightarrow> keeps R (poll_again env t b n)"
  unfolding poll_again_def schedule_poll_def by (intro keeps_rules lifted clients_keepD)

lemma frame_follow_build:
  assumes "clients_keep R env"
  shows "keeps R (follow_build env t b number n)"
  unfolding follow_build_def
  by (rule keeps_bd_res | rule keeps_rules lifted frame_jenkins_build clients_keepD(1) [OF assms] frame_touch
      frame_poll_again frame_jenkins_diagnostic frame_complete_deployment assms | assumption
      | (simp add: frame_fields_def; fail))+

lemma frame_poll_outcome:
  "(\<And>e. keeps R (f e)) \<Longrightarrow> (\<And>r. keeps R (g r)) \<Longrightarrow> (\<And>m d. keeps R (h m d)) \<Longrightarrow>
   keeps R (case x of Inr (Answered r) \<Rightarrow> g r | Inr (JenkinsFailed m d) \<Rightarrow> h m d | Inl e \<Rightarrow> f e)"
  by (cases x) (auto split: poll_outcome.split)

lemma frame_poll_build: "clients_keep R env \<Longrightarrow> keeps R (poll_build env i n task_id t)"
  unfolding poll_build_def poll_steps_def poll_expired_def
  by (rule frame_poll_outcome | rule keeps_rules lifted frame_build_fail frame_start_build frame_resume
      frame_assigned_number frame_poll_again frame_follow_build frame_worker_fail | assumption)+

lemma frame_dynamic_route_check: "clients_keep R env \<Longrightarrow> keeps R (dynamic_route_check env i run_id t)"
  unfolding dynamic_route_check_def by (intro keeps_rules lifted frame_complete_dynamic frame_worker_fail)

lemma frame_teardown_if_required:
  assumes "clients_keep R env"
  shows "keeps R (teardown_if_required env i)"
proof -
  have c: "cleanup_keeps R (dy_cleanup (wk_dynamic env))"
    using dynamic_keepsD(4) clients_keepD(3) assms by blast
  then have "keeps R (cleanup_build env j)" for j
    unfolding cleanup_build_def by (intro keeps_rules frame_run_cleanup frame_sync_teardown)
  then have "keeps R (teardown (wk_dynamic env) j (Some (bd (cleanup_build env j) (\<lambda>_. ret ()))))" for j
    by (intro frame_teardown c) (auto intro: keeps_bd keeps_ret)
  then show ?thesis
    unfolding teardown_if_required_def
    by (intro keeps_rules lifted frame_set_teardown) (simp_all add: frame_fields_def)
qed

theorem worker_task_keeps:
  assumes "clients_keep R env"
  shows "keeps R (run_task env task)"
proof -
  have op: "keeps R (run_build_operation env i operation)" if "\<And>t. keeps R (operation t)" for i operation
    unfolding run_build_operation_def leased_operation_def
    by (intro keeps_rules lifted frame_lease that frame_teardown_if_required assms)
  show ?thesis
    unfolding run_task_def
    by (cases task) (simp_all add: op frame_start_build frame_poll_build frame_dynamic_route_check assms)
qed

end

end
