(* ===== verification/BuildContract.thy ===== *)
theory BuildContract
  imports DockerCleanup
begin

text \<open>
  \<open>orchestrator/compose_contract.py\<close>: the rules every source Compose document obeys before it is
  built. Each service has an explicit local build, whose context and Dockerfile are relative paths
  that do not climb, and lie, symbolic links followed, below the source root. The file system is a
  parameter; a path is the list of its parts.
\<close>

abbreviation contract_error :: "string \<Rightarrow> 'a res" where
  "contract_error m \<equiv> Inl (Exn ComposeBuildContractError m)"

definition validate_relative_build_path :: "value \<Rightarrow> string \<Rightarrow> unit res" where
  "validate_relative_build_path v label =
     (if \<not> is_str v \<or> strip (the_str v) = [] then contract_error (label @ '' is required'')
      else if CHR 0x5C \<in> set (the_str v) \<or> CHR 0x00 \<in> set (the_str v) \<or> starts_with (the_str v) ''~''
      then contract_error (label @ '' must be a safe relative POSIX path'')
      else if starts_with (the_str v) ''/'' \<or> ''..'' \<in> set (path_parts (the_str v))
      then contract_error (label @ '' must be a safe relative POSIX path'')
      else Inr ())"

definition normalize_local_build :: "value \<Rightarrow> string \<Rightarrow> mapping res" where
  "normalize_local_build build service =
     (case build of
        VDict d \<Rightarrow>
          (let context = mget d ''context''; dockerfile = mget d ''dockerfile'' in
           rbind (validate_relative_build_path context (''Compose service '' @ service @ '' build.context'')) (\<lambda>_.
           rbind (validate_relative_build_path dockerfile (''Compose service '' @ service @ '' build.dockerfile'')) (\<lambda>_.
           Inr (mput (mput d ''context'' context) ''dockerfile'' dockerfile))))
      | _ \<Rightarrow> contract_error (''Compose service '' @ service
               @ '' must use local build mode with build.context and build.dockerfile''))"

definition local_build_service :: "value \<times> value \<Rightarrow> unit res" where
  "local_build_service = (\<lambda>(name, service).
     if \<not> is_str name \<or> \<not> is_mapping service then contract_error ''Compose services must be named mappings''
     else rbind (normalize_local_build (mget (the_dict service) ''build'') (the_str name)) (\<lambda>_. Inr ()))"

definition validate_local_build_compose :: "value \<Rightarrow> unit res" where
  "validate_local_build_compose compose =
     (if \<not> is_mapping compose then contract_error ''Compose document must be a mapping''
      else
        (let services = mget (the_dict compose) ''services'' in
         if \<not> is_mapping services \<or> the_dict services = []
         then contract_error ''Compose document must contain a non-empty services mapping''
         else rfor (the_dict services) local_build_service))"

section \<open>The declared files\<close>

text \<open>\<open>Path.is_dir\<close>, \<open>Path.is_file\<close>, and \<open>Path.resolve\<close>, which gives no path where it raises
  \<open>OSError\<close>.\<close>

record build_fs =
  bf_is_dir :: "string list \<Rightarrow> (world, bool) action"
  bf_is_file :: "string list \<Rightarrow> (world, bool) action"
  bf_resolve :: "string list \<Rightarrow> (world, string list option) action"

text \<open>\<open>str(path)\<close>.\<close>

fun path_text :: "string list \<Rightarrow> string" where
  "path_text [] = ''.''"
| "path_text (p # ps) = (if starts_with p ''/'' then p @ join ''/'' ps else join ''/'' (p # ps))"

definition unable_to_inspect :: "string \<Rightarrow> string" where
  "unable_to_inspect name = ''Unable to inspect build files for service '' @ name"

definition resolve_build_path :: "build_fs \<Rightarrow> string \<Rightarrow> string list \<Rightarrow> (world, string list) action" where
  "resolve_build_path fs name path =
     bd (bf_resolve fs path) (\<lambda>found.
     case found of
       None \<Rightarrow> raise ComposeBuildContractError (unable_to_inspect name)
     | Some p \<Rightarrow> ret p)"

definition local_build_files :: "build_fs \<Rightarrow> string list \<Rightarrow> string list \<Rightarrow> value \<times> value \<Rightarrow> (world, unit) action" where
  "local_build_files fs root resolved_root = (\<lambda>(key, service).
     (let name = the_str key in
      bd (lift_res (normalize_local_build (mget (the_dict service) ''build'') name)) (\<lambda>build.
      let context = the_str (mget build ''context''); dockerfile = the_str (mget build ''dockerfile'');
          context_path = root @ path_parts context;
          dockerfile_path = context_path @ path_parts dockerfile in
      bd (resolve_build_path fs name context_path) (\<lambda>resolved_context.
      bd (resolve_build_path fs name dockerfile_path) (\<lambda>resolved_dockerfile.
      andthen (require (prefix resolved_root resolved_context \<and> prefix resolved_root resolved_dockerfile)
                ComposeBuildContractError
                (''Compose service '' @ name @ '' build context or Dockerfile escapes the source root''))
      (bd (bf_is_dir fs context_path) (\<lambda>is_dir.
       andthen (require is_dir ComposeBuildContractError
                 (''Compose service '' @ name @ '' build context does not exist: '' @ context))
       (bd (bf_is_file fs dockerfile_path) (\<lambda>is_file.
        require is_file ComposeBuildContractError
          (''Compose service '' @ name @ '' Dockerfile does not exist: '' @ dockerfile))))))))))"

text \<open>\<open>root.resolve()\<close> stands outside the \<open>try\<close>: its \<open>OSError\<close> passes as it is.\<close>

definition validate_local_build_files :: "build_fs \<Rightarrow> value \<Rightarrow> string list \<Rightarrow> (world, unit) action" where
  "validate_local_build_files fs compose root =
     andthen (lift_res (validate_local_build_compose compose))
     (bd (bf_is_dir fs root) (\<lambda>is_dir.
      andthen (require is_dir ComposeBuildContractError
                (''Compose source root does not exist: '' @ path_text root))
      (bd (bf_resolve fs root) (\<lambda>found.
       case found of
         None \<Rightarrow> raise OtherError ''OSError''
       | Some resolved_root \<Rightarrow>
           for_each (the_dict (mget (the_dict compose) ''services'')) (local_build_files fs root resolved_root)))))"

section \<open>What an accepted build looks like\<close>

definition build_path_ok :: "string \<Rightarrow> bool" where
  "build_path_ok s \<longleftrightarrow> strip s \<noteq> [] \<and> CHR 0x5C \<notin> set s \<and> CHR 0x00 \<notin> set s \<and>
     \<not> starts_with s ''~'' \<and> \<not> starts_with s ''/'' \<and> ''..'' \<notin> set (path_parts s)"

definition local_build_ok :: "mapping \<Rightarrow> bool" where
  "local_build_ok d \<longleftrightarrow> (\<exists>c f. mget d ''context'' = VStr c \<and> build_path_ok c \<and>
     mget d ''dockerfile'' = VStr f \<and> build_path_ok f)"

lemma validate_relative_build_path_Inr:
  "validate_relative_build_path v l = Inr u \<longleftrightarrow> (\<exists>s. v = VStr s \<and> build_path_ok s)"
  by (cases v) (auto simp: validate_relative_build_path_def build_path_ok_def)

text \<open>Assigning a key the value it has changes nothing.\<close>

lemma update_same: "map_of d k = Some v \<Longrightarrow> AList.update k v d = d"
  by (induction d) auto

lemma mput_mget: "mget d k = VStr s \<Longrightarrow> mput d k (VStr s) = d"
  by (auto simp: mput_def mget_def update_same split: option.splits)

lemma normalize_local_build_Inr:
  "normalize_local_build b n = Inr d \<longleftrightarrow> b = VDict d \<and> local_build_ok d"
proof (cases b)
  case (VDict e)
  show ?thesis
  proof
    assume "normalize_local_build b n = Inr d"
    then have paths: "\<exists>c. mget e ''context'' = VStr c \<and> build_path_ok c"
        "\<exists>f. mget e ''dockerfile'' = VStr f \<and> build_path_ok f"
      and d: "d = mput (mput e ''context'' (mget e ''context'')) ''dockerfile'' (mget e ''dockerfile'')"
      by (auto simp: VDict normalize_local_build_def Let_def rbind_Inr_iff validate_relative_build_path_Inr)
    have "d = e"
      using paths d by (auto simp: mput_mget)
    then show "b = VDict d \<and> local_build_ok d"
      using paths VDict by (auto simp: local_build_ok_def)
  next
    assume "b = VDict d \<and> local_build_ok d"
    then obtain c f where "b = VDict d" "mget d ''context'' = VStr c" "build_path_ok c"
        "mget d ''dockerfile'' = VStr f" "build_path_ok f"
      by (auto simp: local_build_ok_def)
    then show "normalize_local_build b n = Inr d"
      by (auto simp: normalize_local_build_def Let_def rbind_Inr_iff validate_relative_build_path_Inr mput_mget)
  qed
qed (simp_all add: normalize_local_build_def)

lemma local_build_service_Inr:
  "local_build_service (k, v) = Inr () \<longleftrightarrow>
     (\<exists>name d b. k = VStr name \<and> v = VDict d \<and> mget d ''build'' = VDict b \<and> local_build_ok b)"
  by (cases k; cases v)
     (auto simp: local_build_service_def rbind_Inr_iff normalize_local_build_Inr)

end
