(* ===== verification/Templates.thy ===== *)
theory Templates
  imports BuildContract Redaction ComposeFields
begin

text \<open>
  \<open>orchestrator/templates.py\<close>: the catalog of component templates and the Compose documents
  rendered from a selection of them. The catalog is the state of its operations; the YAML library
  is a parameter. \<open>TemplateComments\<close> has the comments of a document and \<open>TemplateSafety\<close> the
  properties.
\<close>

section \<open>Components\<close>

text \<open>A validated component. The source keeps it as a dict of fixed keys, given by
  \<open>component_value\<close>; \<open>port\<close> is the first of the ports.\<close>

record component =
  cp_images :: "string list"
  cp_build :: mapping
  cp_ports :: "int list"
  cp_publish_ports :: bool
  cp_environment :: "(string, string) dict"
  cp_healthcheck :: mapping
  cp_connection :: "(string, string) dict"
  cp_volumes :: "(string \<times> string) list"
  cp_command :: "value"
  cp_working_dir :: "string option"
  cp_restart :: "string option"

record catalog =
  ct_components :: "(string, component) dict"
  ct_aliases :: "(string, string) dict"

definition text_dict :: "(string, string) dict \<Rightarrow> value" where
  "text_dict d = VDict (map (\<lambda>(k, v). (VStr k, VStr v)) d)"

definition text_list :: "string list \<Rightarrow> value" where
  "text_list xs = VList (map VStr xs)"

fun optional_text :: "string option \<Rightarrow> value" where
  "optional_text None = VNull" | "optional_text (Some s) = VStr s"

definition volume_value :: "string \<times> string \<Rightarrow> value" where
  "volume_value = (\<lambda>(source, target). VDict [(VStr ''source'', VStr source), (VStr ''target'', VStr target)])"

definition component_value :: "component \<Rightarrow> mapping" where
  "component_value c =
     [(VStr ''images'', text_list (cp_images c)),
      (VStr ''build'', VDict (cp_build c)),
      (VStr ''port'', VInt (hd (cp_ports c))),
      (VStr ''ports'', VList (map VInt (cp_ports c))),
      (VStr ''publish_ports'', VBool (cp_publish_ports c)),
      (VStr ''environment'', text_dict (cp_environment c)),
      (VStr ''healthcheck'', VDict (cp_healthcheck c)),
      (VStr ''connection'', VDict [(VStr ''environment'', text_dict (cp_connection c))]),
      (VStr ''volumes'', VList (map volume_value (cp_volumes c))),
      (VStr ''command'', cp_command c),
      (VStr ''working_dir'', optional_text (cp_working_dir c)),
      (VStr ''restart'', optional_text (cp_restart c))]"

section \<open>Validation of a component\<close>

abbreviation template_error :: "string \<Rightarrow> 'a res" where
  "template_error m \<equiv> Inl (Exn TemplateError m)"

text \<open>\<open>except C as exc: raise TemplateError(m)\<close>, where \<open>m\<close> may be the caught message.\<close>

definition as_template_error :: "exn_class \<Rightarrow> (exn \<Rightarrow> string) \<Rightarrow> 'a res \<Rightarrow> 'a res" where
  "as_template_error c m r =
     (case r of Inr x \<Rightarrow> Inr x
      | Inl e \<Rightarrow> if exn_class e = c then template_error (m e) else Inl e)"

text \<open>\<open>{key: values[key] for key in sorted(values)}\<close>.\<close>

definition ordered_mapping :: "(string, 'v) dict \<Rightarrow> (string, 'v) dict" where
  "ordered_mapping d = sort_key fst d"

fun is_scalar :: "value \<Rightarrow> bool" where
  "is_scalar (VBool _) = True" | "is_scalar (VInt _) = True" | "is_scalar (VFloat _) = True"
| "is_scalar (VStr _) = True" | "is_scalar _ = False"

definition environment_pair :: "string \<Rightarrow> value \<times> value \<Rightarrow> (string \<times> string) res" where
  "environment_pair label = (\<lambda>(k, v).
     if \<not> nonempty_str k then template_error (label @ '' keys must be non-empty strings'')
     else if \<not> is_scalar v then template_error (label @ '' values must be scalar values'')
     else Inr (the_str k, scalar_text v))"

definition normalize_environment :: "value \<Rightarrow> string \<Rightarrow> (string, string) dict res" where
  "normalize_environment values label =
     (case values of
        VNull \<Rightarrow> Inr []
      | VDict d \<Rightarrow> rbind (rmap (environment_pair label) d) (\<lambda>pairs. Inr (ordered_mapping pairs))
      | _ \<Rightarrow> template_error (label @ '' must be a mapping''))"

definition validate_boolean :: "value \<Rightarrow> string \<Rightarrow> bool res" where
  "validate_boolean v label =
     (case v of VBool b \<Rightarrow> Inr b | _ \<Rightarrow> template_error (label @ '' must be a boolean''))"

definition component_text :: "string \<Rightarrow> string \<Rightarrow> string" where
  "component_text name m = ''Component '' @ name @ m"

definition component_images :: "string \<Rightarrow> mapping \<Rightarrow> string list res" where
  "component_images name d =
     (case mget d ''images'' of
        VList xs \<Rightarrow>
          (if xs = [] \<or> \<not> list_all nonempty_str xs
           then template_error (component_text name '' must define at least one image'')
           else if list_ex (\<lambda>x. ends_with (the_str x) '':latest'') xs
           then template_error (component_text name '' must not use an unpinned latest image'')
           else Inr (map the_str xs))
      | _ \<Rightarrow> template_error (component_text name '' must define at least one image''))"

definition default_build :: "value" where
  "default_build = VDict [(VStr ''context'', VStr ''.''), (VStr ''dockerfile'', VStr ''Dockerfile'')]"

definition component_build :: "string \<Rightarrow> mapping \<Rightarrow> mapping res" where
  "component_build name d =
     as_template_error ComposeBuildContractError exn_msg
       (normalize_local_build (mget_default d ''build'' default_build) name)"

definition component_port :: "string \<Rightarrow> value \<Rightarrow> int res" where
  "component_port name v =
     (case v of
        VInt p \<Rightarrow> if 1 \<le> p \<and> p \<le> 65535 then Inr p else template_error (component_text name '' has an invalid port'')
      | _ \<Rightarrow> template_error (component_text name '' has an invalid port''))"

definition component_ports :: "string \<Rightarrow> mapping \<Rightarrow> int list res" where
  "component_ports name d =
     (case (if mget d ''ports'' = VNull then VList [mget d ''port''] else mget d ''ports'') of
        VList xs \<Rightarrow>
          if xs = [] then template_error (component_text name '' must define one or more ports'')
          else rmap (component_port name) xs
      | _ \<Rightarrow> template_error (component_text name '' must define one or more ports''))"

definition component_healthcheck :: "string \<Rightarrow> mapping \<Rightarrow> mapping res" where
  "component_healthcheck name d =
     (case mget d ''healthcheck'' of
        VNull \<Rightarrow> Inr []
      | VDict h \<Rightarrow> Inr h
      | _ \<Rightarrow> template_error (component_text name '' healthcheck must be a mapping''))"

definition connection_pair :: "string \<Rightarrow> value \<times> value \<Rightarrow> (string \<times> string) res" where
  "connection_pair name = (\<lambda>(k, v).
     if \<not> is_str k \<or> \<not> is_str v
     then template_error (component_text name '' connection environment must contain strings'')
     else Inr (the_str k, the_str v))"

definition component_connection :: "string \<Rightarrow> mapping \<Rightarrow> (string, string) dict res" where
  "component_connection name d =
     (case mget_default d ''connection'' (VDict []) of
        VDict connection \<Rightarrow>
          (case mget_default connection ''environment'' (VDict []) of
             VDict e \<Rightarrow> rmap (connection_pair name) e
           | _ \<Rightarrow> template_error (component_text name '' connection environment must be a mapping''))
      | _ \<Rightarrow> template_error (component_text name '' connection must be a mapping''))"

definition component_volume :: "string \<Rightarrow> value \<Rightarrow> (string \<times> string) res" where
  "component_volume name v =
     (case v of
        VDict d \<Rightarrow>
          (let source = mget d ''source''; target = mget d ''target'' in
           if \<not> nonempty_str source \<or> \<not> is_str target \<or> \<not> starts_with (the_str target) ''/''
           then template_error (component_text name '' volume requires source and absolute target'')
           else rbind (as_template_error NamingError
                         (\<lambda>_. component_text name '' volume requires a valid named source'')
                         (template_volume_alias name (the_str source)))
                  (\<lambda>_. Inr (the_str source, the_str target)))
      | _ \<Rightarrow> template_error (component_text name '' volume must be a mapping''))"

definition component_volumes :: "string \<Rightarrow> mapping \<Rightarrow> (string \<times> string) list res" where
  "component_volumes name d =
     (case mget_default d ''volumes'' (VList []) of
        VList xs \<Rightarrow> rmap (component_volume name) xs
      | _ \<Rightarrow> template_error (component_text name '' volumes must be a list''))"

definition component_command :: "string \<Rightarrow> mapping \<Rightarrow> value res" where
  "component_command name d =
     (let command = mget d ''command'' in
      if command = VNull \<or> is_str command \<or> is_list command then Inr command
      else template_error (component_text name '' command must be a string or list''))"

definition component_working_dir :: "string \<Rightarrow> mapping \<Rightarrow> string option res" where
  "component_working_dir name d =
     (case mget d ''working_dir'' of
        VNull \<Rightarrow> Inr None
      | VStr s \<Rightarrow>
          if starts_with s ''/'' then Inr (Some s)
          else template_error (component_text name '' working_dir must be an absolute path'')
      | _ \<Rightarrow> template_error (component_text name '' working_dir must be an absolute path''))"

definition component_restart :: "string \<Rightarrow> mapping \<Rightarrow> string option res" where
  "component_restart name d =
     (case mget d ''restart'' of
        VNull \<Rightarrow> Inr None
      | VStr s \<Rightarrow> Inr (Some s)
      | _ \<Rightarrow> template_error (component_text name '' restart must be a string''))"

definition checked_component :: "string \<Rightarrow> value \<Rightarrow> component res" where
  "checked_component name v =
     (case v of
        VDict d \<Rightarrow>
          rbind (component_images name d) (\<lambda>images.
          rbind (component_build name d) (\<lambda>build.
          rbind (component_ports name d) (\<lambda>ports.
          rbind (normalize_environment (mget d ''environment'') (''component '' @ name @ '' environment'')) (\<lambda>environment.
          rbind (component_healthcheck name d) (\<lambda>healthcheck.
          rbind (component_connection name d) (\<lambda>connection.
          rbind (component_volumes name d) (\<lambda>volumes.
          rbind (component_command name d) (\<lambda>command.
          rbind (component_working_dir name d) (\<lambda>working_dir.
          rbind (component_restart name d) (\<lambda>restart.
          rbind (validate_boolean (mget_default d ''publish_ports'' (VBool True))
                   (component_text name '' publish_ports'')) (\<lambda>publish_ports.
          Inr \<lparr>cp_images = images, cp_build = build, cp_ports = ports, cp_publish_ports = publish_ports,
               cp_environment = environment, cp_healthcheck = healthcheck, cp_connection = connection,
               cp_volumes = volumes, cp_command = command, cp_working_dir = working_dir,
               cp_restart = restart\<rparr>)))))))))))
      | _ \<Rightarrow> template_error (component_text name '' must be a mapping''))"

section \<open>The catalog\<close>

text \<open>What reading the catalog file gives.\<close>

datatype catalog_file = Unreadable | InvalidYaml string | Document "value"

definition load_component :: "value \<times> value \<Rightarrow> (string, component) dict \<Rightarrow> (string, component) dict res" where
  "load_component = (\<lambda>(name, v) components.
     if \<not> nonempty_str name then template_error ''Component names must be non-empty strings''
     else rbind (checked_component (the_str name) v) (\<lambda>c. Inr (dset components (the_str name) c)))"

definition load_alias :: "(string, component) dict \<Rightarrow> value \<times> value \<Rightarrow> (string, string) dict \<Rightarrow> (string, string) dict res" where
  "load_alias components = (\<lambda>(alias, target) aliases.
     if \<not> is_str alias \<or> \<not> is_str target \<or> the_str target \<notin> set (keys components)
     then template_error ''Each template alias must reference a known component''
     else Inr (dset aliases (lower (the_str alias)) (the_str target)))"

definition catalog_of :: "mapping \<Rightarrow> catalog res" where
  "catalog_of d =
     (if \<not> is_mapping (mget d ''components'') \<or> the_dict (mget d ''components'') = []
      then template_error ''Template catalog must contain a non-empty components mapping''
      else
        rbind (rfold load_component (the_dict (mget d ''components'')) []) (\<lambda>components.
        let aliases = mget_default d ''aliases'' (VDict []) in
        if \<not> is_mapping aliases then template_error ''Template catalog aliases must be a mapping''
        else rbind (rfold (load_alias components) (the_dict aliases) []) (\<lambda>resolved.
          Inr \<lparr>ct_components = components, ct_aliases = resolved\<rparr>)))"

definition load_catalog :: "string \<Rightarrow> catalog_file \<Rightarrow> catalog res" where
  "load_catalog path file =
     (case file of
        Unreadable \<Rightarrow> template_error (''Unable to read template catalog: '' @ path)
      | InvalidYaml m \<Rightarrow> template_error (''Invalid template catalog YAML: '' @ m)
      | Document v \<Rightarrow>
          (case (if truthy v then v else VDict []) of
             VDict d \<Rightarrow> catalog_of d
           | _ \<Rightarrow> template_error ''Template catalog must be a mapping''))"

definition catalog_names :: "catalog \<Rightarrow> string list" where
  "catalog_names ct = sort (keys (ct_components ct))"

definition STACK_ID_PATTERN :: rx where
  "STACK_ID_PATTERN = Cat (Cls is_alnum) (Star (Cls (\<lambda>c. is_alnum c \<or> one_of ''_-'' c)))"

definition validate_component :: "string \<Rightarrow> value \<Rightarrow> component res" where
  "validate_component name v =
     (if \<not> fullmatch STACK_ID_PATTERN name
      then template_error ''Technology stack id must contain only letters, numbers, underscores, and hyphens''
      else checked_component name v)"

definition upsert_component :: "string \<Rightarrow> value \<Rightarrow> (catalog, component) action" where
  "upsert_component name v =
     bd (lift_res (validate_component name v)) (\<lambda>c.
     andthen (modify (\<lambda>ct. ct\<lparr>ct_components := dset (ct_components ct) name c\<rparr>)) (ret c))"

definition remove_component :: "string \<Rightarrow> (catalog, bool) action" where
  "remove_component name =
     bd (reading (\<lambda>ct. name \<in> set (keys (ct_components ct)))) (\<lambda>present.
     andthen (modify (\<lambda>ct. ct\<lparr>ct_components := ddel (ct_components ct) name\<rparr>)) (ret present))"

definition load_components :: "(string, value) dict \<Rightarrow> (catalog, unit) action" where
  "load_components d =
     andthen (modify (\<lambda>ct. ct\<lparr>ct_components := []\<rparr>))
       (for_each d (\<lambda>(name, v). bd (upsert_component name v) (\<lambda>_. ret ())))"

definition component_yaml :: "(value \<Rightarrow> string) \<Rightarrow> catalog \<Rightarrow> string \<Rightarrow> string res" where
  "component_yaml dump ct name =
     (case dget (ct_components ct) name of
        None \<Rightarrow> template_error (''Unknown component: '' @ name)
      | Some c \<Rightarrow> Inr (dump (VDict (component_value c))))"

definition canonical_component :: "catalog \<Rightarrow> string \<Rightarrow> string" where
  "canonical_component ct name =
     (if name \<in> set (keys (ct_components ct)) then name
      else (case dget (ct_aliases ct) (lower name) of Some t \<Rightarrow> t | None \<Rightarrow> lower name))"

section \<open>What is selected\<close>

definition unknown_components :: "catalog \<Rightarrow> string list \<Rightarrow> string list" where
  "unknown_components ct names =
     sort (filter (\<lambda>n. canonical_component ct n \<notin> set (keys (ct_components ct))) names)"

definition validate_selection :: "catalog \<Rightarrow> value \<Rightarrow> string list res" where
  "validate_selection ct components =
     (if \<not> is_list components \<or> the_list components = []
      then template_error ''At least one component is required''
      else if \<not> list_all is_str (the_list components) then template_error ''Component names must be strings''
      else
        (let names = map the_str (the_list components); selected = map (canonical_component ct) names in
         if \<not> distinct selected then template_error ''Duplicate components are not allowed''
         else if unknown_components ct names \<noteq> []
         then template_error (''Unknown components: '' @ join '', '' (unknown_components ct names))
         else Inr (sort selected)))"

text \<open>The namespace of an application, the empty text where there is none: the code only asks for its
  truth or for \<open>namespace or ""\<close>.\<close>

definition template_namespace :: "string option \<Rightarrow> string res" where
  "template_namespace appid =
     (case appid of
        None \<Rightarrow> Inr []
      | Some a \<Rightarrow> as_template_error NamingError exn_msg (rbind (validate_appid a) external_namespace))"

definition template_service_name :: "string \<Rightarrow> string \<Rightarrow> string res" where
  "template_service_name component namespace =
     (if namespace \<noteq> [] then bounded_resource_name namespace (Some component) 63 else Inr component)"

definition named_services :: "string list \<Rightarrow> string \<Rightarrow> (string, string) dict res" where
  "named_services selected namespace =
     rmap (\<lambda>c. rbind (template_service_name c namespace) (\<lambda>n. Inr (c, n))) selected"

text \<open>\<open>{service_name: component}\<close>: of two components with one service name the later stays.\<close>

definition rendered_names :: "(string, string) dict \<Rightarrow> (string, string) dict" where
  "rendered_names services = dmerge [] (map (\<lambda>(c, n). (n, c)) services)"

definition override_target :: "catalog \<Rightarrow> string list \<Rightarrow> (string, string) dict \<Rightarrow> string \<Rightarrow> string option" where
  "override_target ct selected rendered name =
     (if canonical_component ct name \<in> set selected then Some (canonical_component ct name)
      else dget rendered name)"

definition add_override ::
  "catalog \<Rightarrow> string list \<Rightarrow> (string, string) dict \<Rightarrow> value \<times> value \<Rightarrow>
   (string, (string, string) dict) dict \<Rightarrow> (string, (string, string) dict) dict res" where
  "add_override ct selected rendered = (\<lambda>(name, values) overrides.
     if \<not> is_str name then template_error ''service_environment keys must be service names''
     else
       (case override_target ct selected rendered (the_str name) of
          None \<Rightarrow> template_error ''service_environment must reference selected components''
        | Some c \<Rightarrow>
            rbind (normalize_environment values (''service environment for '' @ the_str name)) (\<lambda>e.
            Inr (dset overrides c (dmerge (case dget overrides c of None \<Rightarrow> [] | Some old \<Rightarrow> old) e)))))"

definition normalize_service_environments ::
  "catalog \<Rightarrow> string list \<Rightarrow> string \<Rightarrow> value \<Rightarrow> value \<Rightarrow> (string, (string, string) dict) dict res" where
  "normalize_service_environments ct selected namespace singular plural =
     (if singular \<noteq> VNull \<and> plural \<noteq> VNull
      then template_error ''Use either service_environment or service_environments, not both''
      else
        (case (if singular \<noteq> VNull then singular else plural) of
           VNull \<Rightarrow> Inr []
         | VDict raw \<Rightarrow>
             rbind (named_services selected namespace) (\<lambda>services.
             rfold (add_override ct selected (rendered_names services)) raw [])
         | _ \<Rightarrow> template_error ''service_environment must be a mapping''))"

section \<open>Dependencies\<close>

definition DEPENDENCY_CONDITIONS :: "string list" where
  "DEPENDENCY_CONDITIONS = [''service_started'', ''service_healthy'', ''service_completed_successfully'']"

type_synonym dependency_map = "(string, (string, mapping option) dict) dict"

definition normalize_dependency_config :: "value \<Rightarrow> mapping option res" where
  "normalize_dependency_config config =
     (case config of
        VNull \<Rightarrow> Inr None
      | _ \<Rightarrow>
          (case (if is_str config then VDict [(VStr ''condition'', config)] else config) of
             VDict d \<Rightarrow>
               (let condition = mget_default d ''condition'' (VStr ''service_started'') in
                rbind (in_set condition DEPENDENCY_CONDITIONS) (\<lambda>known.
                if \<not> known then template_error (''Invalid dependency condition: '' @ py_str condition)
                else Inr (Some (mput d ''condition'' condition))))
           | _ \<Rightarrow> template_error ''Dependency configuration must be a condition or mapping''))"

definition add_dependency ::
  "catalog \<Rightarrow> string list \<Rightarrow> value \<times> value \<Rightarrow> (string, mapping option) dict \<Rightarrow> (string, mapping option) dict res" where
  "add_dependency ct selected = (\<lambda>(dependency, config) required.
     if \<not> is_str dependency then template_error ''Dependencies must reference selected components''
     else
       (let d = canonical_component ct (the_str dependency) in
        if d \<notin> set selected then template_error ''Dependencies must reference selected components''
        else if d \<in> set (keys required) then template_error ''Duplicate dependencies are not allowed''
        else rbind (normalize_dependency_config config) (\<lambda>c. Inr (dset required d c))))"

text \<open>A list of names stands for names without a configuration.\<close>

fun required_items :: "value \<Rightarrow> mapping option" where
  "required_items (VList xs) = Some (map (\<lambda>x. (x, VNull)) xs)"
| "required_items (VDict d) = Some d"
| "required_items _ = None"

definition add_dependencies ::
  "catalog \<Rightarrow> string list \<Rightarrow> value \<times> value \<Rightarrow> dependency_map \<Rightarrow> dependency_map res" where
  "add_dependencies ct selected = (\<lambda>(name, required) deps.
     if \<not> is_str name then template_error ''Dependencies must reference selected components''
     else
       (let n = canonical_component ct (the_str name) in
        if n \<notin> set selected then template_error ''Dependencies must reference selected components''
        else
          (case required_items required of
             None \<Rightarrow> template_error ''Dependencies must be lists or mappings''
           | Some items \<Rightarrow>
               rbind (rfold (add_dependency ct selected) items (case dget deps n of None \<Rightarrow> [] | Some r \<Rightarrow> r))
                 (\<lambda>r. Inr (dset deps n r)))))"

definition normalize_dependencies :: "catalog \<Rightarrow> string list \<Rightarrow> value \<Rightarrow> dependency_map res" where
  "normalize_dependencies ct selected dependencies =
     (case (if dependencies = VNull then VDict [] else dependencies) of
        VDict d \<Rightarrow>
          rbind (rfold (add_dependencies ct selected) d (map (\<lambda>n. (n, [])) selected)) (\<lambda>deps.
          Inr (map (\<lambda>(n, r). (n, ordered_mapping r)) (ordered_mapping deps)))
      | _ \<Rightarrow> template_error ''Dependencies must be a mapping'')"

text \<open>Each level of the search for cycles adds a component to its path.\<close>

lemma path_grows:
  assumes "dget deps name = Some required" and "name \<notin> visiting"
  shows "card (fst ` set deps - insert name visiting) < card (fst ` set deps - visiting)"
proof (rule psubset_card_mono)
  have "name \<in> fst ` set deps"
    using assms(1) by (auto dest!: map_of_SomeD intro: rev_image_eqI)
  then show "fst ` set deps - insert name visiting \<subset> fst ` set deps - visiting"
    using assms(2) by auto
qed simp

text \<open>\<open>_assert_acyclic\<close>: a depth-first visit. \<open>visiting\<close> is the path to the current component,
  \<open>visited\<close> what is known to lead to no cycle.\<close>

function visit :: "(string, string list) dict \<Rightarrow> string set \<Rightarrow> string set \<Rightarrow> string \<Rightarrow> string set res"
  and visit_all :: "(string, string list) dict \<Rightarrow> string set \<Rightarrow> string set \<Rightarrow> string list \<Rightarrow> string set res" where
  "visit deps visiting visited name =
     (if name \<in> visiting then template_error ''Component dependencies contain a cycle''
      else if name \<in> visited then Inr visited
      else
        (case dget deps name of
           None \<Rightarrow> Inl (Exn KeyError name)
         | Some required \<Rightarrow>
             rbind (visit_all deps (insert name visiting) visited required) (\<lambda>v. Inr (insert name v))))"
| "visit_all deps visiting visited [] = Inr visited"
| "visit_all deps visiting visited (n # ns) =
     rbind (visit deps visiting visited n) (\<lambda>v. visit_all deps visiting v ns)"
  by pat_completeness auto
termination
  by (relation "inv_image (less_than <*lex*> less_than)
       (case_sum (\<lambda>(d, p, v, n). (card (fst ` set d - p), 0)) (\<lambda>(d, p, v, ns). (card (fst ` set d - p), Suc (length ns))))")
     (auto simp: path_grows)

definition assert_acyclic :: "string list \<Rightarrow> dependency_map \<Rightarrow> unit res" where
  "assert_acyclic selected deps =
     rbind (visit_all (map (\<lambda>(n, r). (n, keys r)) deps) {} {} selected) (\<lambda>_. Inr ())"

section \<open>Rendering a service\<close>

text \<open>\<open>d[k]\<close> of a dict the code expects to have the key.\<close>

definition fetch :: "(string, 'v) dict \<Rightarrow> string \<Rightarrow> 'v res" where
  "fetch d k = (case dget d k of None \<Rightarrow> Inl (Exn KeyError k) | Some v \<Rightarrow> Inr v)"

text \<open>The documents of one call: the selection, its names and what was normalised.\<close>

record selection =
  sl_appid :: "string option"
  sl_namespace :: string
  sl_resource_namespace :: string
  sl_services :: "(string, string) dict"
  sl_dependencies :: dependency_map
  sl_environment :: "(string, string) dict"
  sl_overrides :: "(string, (string, string) dict) dict"
  sl_conditions :: bool

definition appid_text :: "selection \<Rightarrow> string" where
  "appid_text sl = (case sl_appid sl of None \<Rightarrow> [] | Some a \<Rightarrow> a)"

definition render_text :: "(string \<times> string) list \<Rightarrow> string \<Rightarrow> string" where
  "render_text replacements t =
     foldl (\<lambda>t (name, new). replace_all (''{'' @ name @ ''}'') new t) t replacements"

definition render_environment_values ::
  "(string \<times> string) list \<Rightarrow> (string, string) dict \<Rightarrow> (string, string) dict" where
  "render_environment_values replacements values = map (\<lambda>(k, t). (k, render_text replacements t)) values"

definition replacements :: "selection \<Rightarrow> string \<Rightarrow> string \<Rightarrow> component \<Rightarrow> (string \<times> string) list" where
  "replacements sl name host c =
     [(''appid'', appid_text sl), (''namespace'', sl_namespace sl), (''component'', name),
      (''host'', host), (''port'', str_int (hd (cp_ports c)))]"

definition connection_prefix :: "string \<Rightarrow> string" where
  "connection_prefix name = upper (map (\<lambda>c. if is_alnum c then c else CHR ''_'') name)"

definition connection_templates :: "string \<Rightarrow> component \<Rightarrow> (string, string) dict" where
  "connection_templates name c =
     (if cp_connection c \<noteq> [] then cp_connection c
      else [(connection_prefix name @ ''_HOST'', ''{host}''), (connection_prefix name @ ''_PORT'', ''{port}'')])"

definition connection_of :: "catalog \<Rightarrow> selection \<Rightarrow> string \<Rightarrow> (string, string) dict res" where
  "connection_of ct sl name =
     rbind (fetch (ct_components ct) name) (\<lambda>c.
     rbind (fetch (sl_services sl) name) (\<lambda>host.
     Inr (render_environment_values (replacements sl name host c) (connection_templates name c))))"

definition internal_connection_environment :: "catalog \<Rightarrow> selection \<Rightarrow> string list \<Rightarrow> (string, string) dict res" where
  "internal_connection_environment ct sl names =
     rfold (\<lambda>d e. rbind (connection_of ct sl d) (\<lambda>c. Inr (dmerge e c))) names []"

definition rendered_config :: "string \<Rightarrow> component \<Rightarrow> string \<Rightarrow> mapping option \<Rightarrow> mapping res" where
  "rendered_config name c dependency config =
     (let d = (case config of
                 None \<Rightarrow> [(VStr ''condition'',
                            VStr (if cp_healthcheck c \<noteq> [] then ''service_healthy'' else ''service_started''))]
               | Some d \<Rightarrow> d)
      in if mget d ''condition'' = VStr ''service_healthy'' \<and> cp_healthcheck c = []
         then template_error (''Service '' @ name @ '' requires '' @ dependency
                @ '' to be healthy, but it has no healthcheck'')
         else Inr d)"

definition long_dependency ::
  "catalog \<Rightarrow> selection \<Rightarrow> string \<Rightarrow> string \<times> mapping option \<Rightarrow> mapping \<Rightarrow> mapping res" where
  "long_dependency ct sl name = (\<lambda>(dependency, config) rendered.
     rbind (fetch (ct_components ct) dependency) (\<lambda>c.
     rbind (rendered_config name c dependency config) (\<lambda>d.
     rbind (fetch (sl_services sl) dependency) (\<lambda>service.
     Inr (mput rendered service (VDict d))))))"

definition render_dependencies ::
  "catalog \<Rightarrow> selection \<Rightarrow> string \<Rightarrow> (string, mapping option) dict \<Rightarrow> value res" where
  "render_dependencies ct sl name deps =
     (if deps = [] then Inr VNull
      else if sl_conditions sl \<or> (\<exists>config\<in>set (vals deps). config \<noteq> None)
      then rbind (rfold (long_dependency ct sl name) deps []) (\<lambda>d. Inr (VDict d))
      else rbind (rmap (fetch (sl_services sl)) (keys deps)) (\<lambda>names. Inr (text_list names)))"

definition render_volume :: "string \<Rightarrow> string \<Rightarrow> string \<times> string \<Rightarrow> (string \<times> string) res" where
  "render_volume name namespace = (\<lambda>(source, target).
     as_template_error NamingError exn_msg
       (rbind (template_volume_alias name source) (\<lambda>alias.
        rbind (if namespace \<noteq> [] then managed_volume_name namespace alias else Inr alias) (\<lambda>volume.
        Inr (volume, target)))))"

definition template_volume :: "string \<Rightarrow> string \<Rightarrow> value" where
  "template_volume namespace volume =
     VDict (if namespace \<noteq> [] then [(VStr ''name'', VStr volume)] else [])"

definition workspace_mount :: "component \<Rightarrow> string list" where
  "workspace_mount c =
     (if cp_working_dir c = Some ''/workspace'' \<and> ''/workspace'' \<notin> set (map snd (cp_volumes c))
      then [''.:/workspace''] else [])"

definition render_volumes ::
  "component \<Rightarrow> string \<Rightarrow> string \<Rightarrow> (string list \<times> (string, value) dict) res" where
  "render_volumes c name namespace =
     rbind (rmap (render_volume name namespace) (cp_volumes c)) (\<lambda>volumes.
     Inr (workspace_mount c @ map (\<lambda>(volume, target). volume @ '':'' @ target) volumes,
          dmerge [] (map (\<lambda>(volume, _). (volume, template_volume namespace volume)) volumes)))"

definition service_values ::
  "catalog \<Rightarrow> selection \<Rightarrow> string \<Rightarrow> string \<Rightarrow> component \<Rightarrow> string list \<Rightarrow> (string, string) dict res" where
  "service_values ct sl name service c required =
     rbind (internal_connection_environment ct sl required) (\<lambda>connections.
     let own = render_environment_values (replacements sl name service c) (cp_environment c);
         override = (case dget (sl_overrides sl) name of None \<Rightarrow> [] | Some e \<Rightarrow> e)
     in Inr (ordered_mapping (dmerge (dmerge (dmerge own connections) (sl_environment sl)) override)))"

definition label_value :: "selection \<Rightarrow> string \<Rightarrow> value" where
  "label_value sl name =
     VDict [(VStr ''io.docker-jenkins-orchestrator.appid'', optional_text (sl_appid sl)),
            (VStr ''io.docker-jenkins-orchestrator.namespace'', VStr (sl_namespace sl)),
            (VStr ''io.docker-jenkins-orchestrator.component'', VStr name)]"

text \<open>\<open>service[key] = value\<close> under a condition; the keys of a service are assigned once each.\<close>

definition field_if :: "bool \<Rightarrow> string \<Rightarrow> value \<Rightarrow> mapping" where
  "field_if b key v = (if b then [(VStr key, v)] else [])"

definition service_document ::
  "selection \<Rightarrow> string \<Rightarrow> component \<Rightarrow> string list \<Rightarrow> (string, string) dict \<Rightarrow> value \<Rightarrow> mapping" where
  "service_document sl name c volumes environment depends_on =
     [(VStr ''build'', VDict (cp_build c)), (VStr ''image'', VStr (hd (cp_images c))),
      (VStr ''expose'', text_list (map str_int (cp_ports c)))]
     @ field_if (cp_publish_ports c) ''ports''
         (text_list (map (\<lambda>p. str_int p @ '':'' @ str_int p) (cp_ports c)))
     @ field_if (cp_working_dir c \<notin> {None, Some []}) ''working_dir'' (optional_text (cp_working_dir c))
     @ field_if (cp_command c \<noteq> VNull) ''command'' (cp_command c)
     @ field_if (cp_restart c \<notin> {None, Some []}) ''restart'' (optional_text (cp_restart c))
     @ field_if (volumes \<noteq> []) ''volumes'' (text_list volumes)
     @ field_if (environment \<noteq> []) ''environment'' (text_dict environment)
     @ field_if (truthy depends_on) ''depends_on'' depends_on
     @ field_if (cp_healthcheck c \<noteq> []) ''healthcheck'' (VDict (cp_healthcheck c))
     @ field_if (sl_namespace sl \<noteq> []) ''labels'' (label_value sl name)"

definition compose_service ::
  "catalog \<Rightarrow> selection \<Rightarrow> string \<Rightarrow> mapping \<times> (string, value) dict \<Rightarrow> (mapping \<times> (string, value) dict) res" where
  "compose_service ct sl name = (\<lambda>(services, volumes).
     rbind (fetch (ct_components ct) name) (\<lambda>c.
     rbind (fetch (sl_services sl) name) (\<lambda>service.
     rbind (render_volumes c name (sl_namespace sl)) (\<lambda>(rendered, declared).
     rbind (fetch (sl_dependencies sl) name) (\<lambda>deps.
     rbind (service_values ct sl name service c (keys deps)) (\<lambda>environment.
     rbind (render_dependencies ct sl name deps) (\<lambda>depends_on.
     Inr (mput services service (VDict (service_document sl name c rendered environment depends_on)),
          dmerge volumes declared))))))))"

section \<open>The document\<close>

definition dependency_names_ok :: "string \<Rightarrow> mapping \<Rightarrow> value list \<Rightarrow> unit res" where
  "dependency_names_ok name services items =
     (if \<not> list_all (\<lambda>i. is_str i \<and> i \<in> set (keys services)) items
      then template_error (''Service '' @ name @ '' has an unknown dependency'')
      else if \<not> distinct items then template_error (''Service '' @ name @ '' has duplicate dependencies'')
      else Inr ())"

definition dependency_config_ok :: "string \<Rightarrow> mapping \<Rightarrow> value \<times> value \<Rightarrow> unit res" where
  "dependency_config_ok name services = (\<lambda>(dependency, config).
     if dependency \<notin> set (keys services) \<or> \<not> is_mapping config
     then template_error (''Service '' @ name @ '' has an unknown dependency'')
     else
       (let condition = mget_default (the_dict config) ''condition'' (VStr ''service_started'') in
        rbind (in_set condition DEPENDENCY_CONDITIONS) (\<lambda>known.
        if \<not> known then template_error (''Service '' @ name @ '' has an invalid dependency condition'')
        else if condition = VStr ''service_healthy'' then
          (case map_of services dependency of
             Some (VDict s) \<Rightarrow>
               if truthy (mget s ''healthcheck'') then Inr ()
               else template_error (''Service '' @ name @ '' requires '' @ py_str dependency
                      @ '' to be healthy, but it has no healthcheck'')
           | _ \<Rightarrow> Inl (Exn OtherError ''AttributeError: object has no attribute get''))
        else Inr ())))"

definition service_entry_ok :: "mapping \<Rightarrow> value \<times> value \<Rightarrow> unit res" where
  "service_entry_ok services = (\<lambda>(key, service).
     if \<not> is_str key \<or> \<not> is_mapping service then template_error ''Compose services must be named mappings''
     else if \<not> nonempty_str (mget (the_dict service) ''image'')
     then template_error (''Service '' @ the_str key @ '' must define an image'')
     else
       (case mget (the_dict service) ''depends_on'' of
          VNull \<Rightarrow> Inr ()
        | VList items \<Rightarrow> dependency_names_ok (the_str key) services items
        | VDict d \<Rightarrow> rfor d (dependency_config_ok (the_str key) services)
        | _ \<Rightarrow> template_error (''Service '' @ the_str key @ '' has invalid depends_on'')))"

definition validate_compose_document :: "value \<Rightarrow> unit res" where
  "validate_compose_document document =
     (if \<not> is_mapping document then template_error ''Compose document must be a mapping''
      else if mget (the_dict document) ''version'' \<noteq> VStr ''3.9''
      then template_error ''Compose document version must be \"3.9\"''
      else
        (let services = mget (the_dict document) ''services'' in
         if \<not> is_mapping services \<or> the_dict services = []
         then template_error ''Compose document must contain services''
         else rbind (rfor (the_dict services) (service_entry_ok (the_dict services))) (\<lambda>_.
              as_template_error ComposeBuildContractError exn_msg (validate_local_build_compose document))))"

record compose_request =
  cr_components :: "value"
  cr_dependencies :: "value"
  cr_appid :: "string option"
  cr_environment :: "value"
  cr_service_environment :: "value"
  cr_service_environments :: "value"
  cr_conditions :: "value"

definition select_components :: "catalog \<Rightarrow> compose_request \<Rightarrow> (string list \<times> selection) res" where
  "select_components ct rq =
     rbind (validate_boolean (cr_conditions rq) ''dependency_conditions'') (\<lambda>conditions.
     rbind (validate_selection ct (cr_components rq)) (\<lambda>selected.
     rbind (template_namespace (cr_appid rq)) (\<lambda>namespace.
     rbind (if namespace \<noteq> [] then bounded_resource_name namespace None 63 else Inr []) (\<lambda>resource_namespace.
     rbind (normalize_environment (cr_environment rq) ''environment'') (\<lambda>environment.
     rbind (normalize_service_environments ct selected namespace
              (cr_service_environment rq) (cr_service_environments rq)) (\<lambda>overrides.
     rbind (normalize_dependencies ct selected (cr_dependencies rq)) (\<lambda>deps.
     rbind (assert_acyclic selected deps) (\<lambda>_.
     rbind (named_services selected namespace) (\<lambda>services.
     Inr (selected, \<lparr>sl_appid = cr_appid rq, sl_namespace = namespace,
            sl_resource_namespace = resource_namespace, sl_services = services,
            sl_dependencies = deps, sl_environment = environment, sl_overrides = overrides,
            sl_conditions = conditions\<rparr>))))))))))"

definition document_value :: "selection \<Rightarrow> mapping \<Rightarrow> (string, value) dict \<Rightarrow> mapping" where
  "document_value sl services volumes =
     field_if (sl_resource_namespace sl \<noteq> []) ''name'' (VStr (sl_resource_namespace sl))
     @ [(VStr ''version'', VStr ''3.9''), (VStr ''services'', VDict services)]
     @ field_if (volumes \<noteq> []) ''volumes'' (VDict (map (\<lambda>(k, v). (VStr k, v)) (ordered_mapping volumes)))"

definition compose :: "catalog \<Rightarrow> compose_request \<Rightarrow> mapping res" where
  "compose ct rq =
     rbind (select_components ct rq) (\<lambda>(selected, sl).
     rbind (rfold (compose_service ct sl) selected ([], [])) (\<lambda>(services, volumes).
     let document = document_value sl services volumes in
     rbind (validate_compose_document (VDict document)) (\<lambda>_. Inr document)))"

section \<open>YAML\<close>

text \<open>\<open>yaml.safe_dump\<close> and \<open>yaml.safe_load\<close>; a \<open>YAMLError\<close> is its message.\<close>

record yaml_library =
  yl_dump :: "value \<Rightarrow> string"
  yl_load :: "string \<Rightarrow> string + value"

definition parse_compose_yaml :: "yaml_library \<Rightarrow> string \<Rightarrow> value res" where
  "parse_compose_yaml yl rendered =
     (case yl_load yl rendered of
        Inl m \<Rightarrow> template_error (''Invalid compose YAML: '' @ m)
      | Inr document \<Rightarrow> rbind (validate_compose_document document) (\<lambda>_. Inr document))"

definition render_compose :: "yaml_library \<Rightarrow> mapping \<Rightarrow> string res" where
  "render_compose yl document =
     rbind (validate_compose_document (VDict document)) (\<lambda>_.
     let rendered = yl_dump yl (VDict document) in
     rbind (parse_compose_yaml yl rendered) (\<lambda>parsed.
     if \<not> py_eq parsed (VDict document)
     then template_error ''Rendered compose YAML did not round-trip cleanly''
     else Inr rendered))"

definition compose_yaml :: "yaml_library \<Rightarrow> catalog \<Rightarrow> compose_request \<Rightarrow> string res" where
  "compose_yaml yl ct rq = rbind (compose ct rq) (render_compose yl)"

end
