(* ===== verification/ComponentSafety.thy ===== *)
theory ComponentSafety
  imports Templates
begin

text \<open>
  What validation of a component establishes: every accepted component is well formed, and
  validating it again changes nothing.
\<close>

section \<open>Validated components\<close>

definition volume_ok :: "string \<Rightarrow> string \<times> string \<Rightarrow> bool" where
  "volume_ok name = (\<lambda>(source, target).
     source \<noteq> [] \<and> starts_with target ''/'' \<and> is_ok (template_volume_alias name source))"

definition component_ok :: "string \<Rightarrow> component \<Rightarrow> bool" where
  "component_ok name c \<longleftrightarrow>
     cp_images c \<noteq> [] \<and> list_all (\<lambda>i. i \<noteq> [] \<and> \<not> ends_with i '':latest'') (cp_images c) \<and>
     local_build_ok (cp_build c) \<and>
     cp_ports c \<noteq> [] \<and> list_all (\<lambda>p. 1 \<le> p \<and> p \<le> 65535) (cp_ports c) \<and>
     sorted (keys (cp_environment c)) \<and> [] \<notin> set (keys (cp_environment c)) \<and>
     list_all (volume_ok name) (cp_volumes c) \<and>
     (cp_command c = VNull \<or> is_str (cp_command c) \<or> is_list (cp_command c)) \<and>
     (\<forall>s. cp_working_dir c = Some s \<longrightarrow> starts_with s ''/'')"

lemma as_template_error_Inr [simp]: "as_template_error c m r = Inr x \<longleftrightarrow> r = Inr x"
  by (cases r) (auto simp: as_template_error_def)

text \<open>What holds of every result holds of the results of a list.\<close>

lemma rmap_all:
  assumes "rmap f xs = Inr ys" and "\<And>x y. x \<in> set xs \<Longrightarrow> f x = Inr y \<Longrightarrow> P y"
  shows "list_all P ys"
  using assms(1) by (auto simp: rmap_Inr_iff list_all2_conv_all_nth list_all_length intro: assms(2) [OF nth_mem])

lemma rmap_id: "(\<And>x. x \<in> set xs \<Longrightarrow> f (g x) = Inr x) \<Longrightarrow> rmap f (map g xs) = Inr xs"
  by (induction xs) simp_all

lemma component_images_Inr:
  assumes "component_images name d = Inr xs"
  shows "xs \<noteq> []" and "list_all (\<lambda>i. i \<noteq> [] \<and> \<not> ends_with i '':latest'') xs"
proof -
  obtain ys where "ys \<noteq> []" "list_all nonempty_str ys" "\<not> list_ex (\<lambda>x. ends_with (the_str x) '':latest'') ys"
      "xs = map the_str ys"
    using assms by (auto simp: component_images_def split: "value.splits" if_splits)
  then show "xs \<noteq> []" "list_all (\<lambda>i. i \<noteq> [] \<and> \<not> ends_with i '':latest'') xs"
    by (auto simp: nonempty_str_def list_all_iff list_ex_iff)
qed

lemma rmap_Nil_iff: "rmap f xs = Inr ys \<Longrightarrow> ys = [] \<longleftrightarrow> xs = []"
  by (auto simp: rmap_Inr_iff)

lemma component_ports_Inr:
  assumes "component_ports name d = Inr ps"
  shows "ps \<noteq> []" and "list_all (\<lambda>p. 1 \<le> p \<and> p \<le> 65535) ps"
proof -
  obtain xs where xs: "xs \<noteq> []" "rmap (component_port name) xs = Inr ps"
    using assms unfolding component_ports_def
    by (cases "if mget d ''ports'' = VNull then VList [mget d ''port''] else mget d ''ports''")
       (simp_all split: if_split_asm)
  then show "ps \<noteq> []" by (simp add: rmap_Nil_iff)
  show "list_all (\<lambda>p. 1 \<le> p \<and> p \<le> 65535) ps"
    by (rule rmap_all [OF xs(2)]) (auto simp: component_port_def split: "value.splits" if_splits)
qed

lemma normalize_environment_Inr:
  assumes "normalize_environment v l = Inr e"
  shows "sorted (keys e)" and "[] \<notin> set (keys e)"
proof -
  consider "e = []" | d pairs where "rmap (environment_pair l) d = Inr pairs" "e = ordered_mapping pairs"
    using assms by (auto simp: normalize_environment_def rbind_Inr_iff split: "value.splits")
  then have "sorted (keys e) \<and> [] \<notin> set (keys e)"
  proof cases
    case 2
    then have "list_all (\<lambda>(k, _). k \<noteq> []) pairs"
      by (intro rmap_all [OF 2(1)]) (auto simp: environment_pair_def nonempty_str_def split: if_splits)
    then show ?thesis using 2 by (auto simp: ordered_mapping_def list_all_iff)
  qed simp
  then show "sorted (keys e)" "[] \<notin> set (keys e)" by simp_all
qed

lemma component_volumes_Inr:
  assumes "component_volumes name d = Inr vs"
  shows "list_all (volume_ok name) vs"
proof -
  obtain xs where "rmap (component_volume name) xs = Inr vs"
    using assms by (auto simp: component_volumes_def split: "value.splits")
  then show ?thesis
    by (rule rmap_all)
       (auto simp: component_volume_def volume_ok_def nonempty_str_def Let_def rbind_Inr_iff split: "value.splits" if_splits)
qed

lemma checked_component_ok:
  assumes "checked_component name v = Inr c"
  shows "component_ok name c"
proof (cases v)
  case (VDict d)
  with assms obtain l where
    "component_images name d = Inr (cp_images c)" "component_build name d = Inr (cp_build c)"
    "component_ports name d = Inr (cp_ports c)"
    "normalize_environment (mget d ''environment'') l = Inr (cp_environment c)"
    "component_volumes name d = Inr (cp_volumes c)" "component_command name d = Inr (cp_command c)"
    "component_working_dir name d = Inr (cp_working_dir c)"
    by (auto simp: checked_component_def rbind_Inr_iff)
  then show ?thesis
    using component_images_Inr component_ports_Inr normalize_environment_Inr component_volumes_Inr
    unfolding component_ok_def
    by (auto simp: component_build_def normalize_local_build_Inr component_command_def
          component_working_dir_def Let_def split: if_splits "value.splits")
qed (use assms in \<open>simp_all add: checked_component_def\<close>)

lemma environment_text_dict:
  assumes "sorted (keys e)" and "[] \<notin> set (keys e)"
  shows "normalize_environment (text_dict e) l = Inr e"
proof -
  have "rmap (environment_pair l) (map (\<lambda>(k, v). (VStr k, VStr v)) e) = Inr e"
    using assms(2) by (intro rmap_id)
      (force simp: environment_pair_def nonempty_str_def scalar_text_def py_str_def)
  then show ?thesis
    using assms(1) by (simp add: normalize_environment_def text_dict_def ordered_mapping_def sort_key_id_if_sorted)
qed

lemma mget_values [simp]:
  "mget (component_value c) ''images'' = text_list (cp_images c)"
  "mget_default (component_value c) ''build'' b = VDict (cp_build c)"
  "mget (component_value c) ''ports'' = VList (map VInt (cp_ports c))"
  "mget_default (component_value c) ''publish_ports'' b = VBool (cp_publish_ports c)"
  "mget (component_value c) ''environment'' = text_dict (cp_environment c)"
  "mget (component_value c) ''healthcheck'' = VDict (cp_healthcheck c)"
  "mget_default (component_value c) ''connection'' b = VDict [(VStr ''environment'', text_dict (cp_connection c))]"
  "mget_default (component_value c) ''volumes'' b = VList (map volume_value (cp_volumes c))"
  "mget (component_value c) ''command'' = cp_command c"
  "mget (component_value c) ''working_dir'' = optional_text (cp_working_dir c)"
  "mget (component_value c) ''restart'' = optional_text (cp_restart c)"
  by (simp_all add: component_value_def mget_def mget_default_def)

lemma volume_value_read:
  assumes "volume_ok name v"
  shows "component_volume name (volume_value v) = Inr v"
  using assms by (cases v) (auto simp: component_volume_def volume_value_def volume_ok_def mget_def
    nonempty_str_def is_ok_def rbind_Inr_iff as_template_error_def split: sum.splits)

lemma component_fixed:
  assumes "component_ok name c"
  shows "checked_component name (VDict (component_value c)) = Inr c"
proof -
  have "component_images name (component_value c) = Inr (cp_images c)"
    using assms by (auto simp: component_images_def text_list_def component_ok_def list_all_iff list_ex_iff nonempty_str_def comp_def)
  moreover have "component_build name (component_value c) = Inr (cp_build c)"
    using assms by (simp add: component_build_def normalize_local_build_Inr component_ok_def)
  moreover have "component_ports name (component_value c) = Inr (cp_ports c)"
    using assms by (auto simp: component_ports_def component_ok_def list_all_iff component_port_def intro!: rmap_id)
  moreover have "normalize_environment (text_dict (cp_environment c)) l = Inr (cp_environment c)" for l
    using assms by (intro environment_text_dict) (simp_all add: component_ok_def)
  moreover have "component_healthcheck name (component_value c) = Inr (cp_healthcheck c)"
    by (simp add: component_healthcheck_def)
  moreover have "component_connection name (component_value c) = Inr (cp_connection c)"
  proof -
    have "mget_default [(VStr ''environment'', e)] ''environment'' b = e" for e b
      by (simp add: mget_default_def)
    then show ?thesis
      by (auto simp: component_connection_def text_dict_def connection_pair_def intro!: rmap_id)
  qed
  moreover have "component_volumes name (component_value c) = Inr (cp_volumes c)"
    using assms by (auto simp: component_volumes_def component_ok_def list_all_iff intro!: rmap_id volume_value_read)
  moreover have "component_command name (component_value c) = Inr (cp_command c)"
    using assms by (auto simp: component_command_def component_ok_def)
  moreover have "component_working_dir name (component_value c) = Inr (cp_working_dir c)"
    using assms by (cases "cp_working_dir c") (auto simp: component_working_dir_def component_ok_def)
  moreover have "component_restart name (component_value c) = Inr (cp_restart c)"
    by (cases "cp_restart c") (simp_all add: component_restart_def)
  ultimately show ?thesis
    by (simp add: checked_component_def validate_boolean_def)
qed

text \<open>
  C28: validating a component gives a well-formed one (images pinned, ports in range, volumes named,
  a local build), and validating the result again gives the same: normalisation is idempotent.
\<close>

theorem component_normalisation_idempotent:
  assumes "validate_component name v = Inr c"
  shows "component_ok name c \<and> validate_component name (VDict (component_value c)) = Inr c"
  using assms by (auto simp: validate_component_def checked_component_ok component_fixed split: if_splits)

theorem component_normalisation_idempotent_witness:
  "\<exists>c. validate_component ''api'' (VDict [(VStr ''images'', VList [VStr ''app:1'']), (VStr ''port'', VInt 80),
       (VStr ''environment'', VDict [(VStr ''B'', VBool True), (VStr ''A'', VInt 1)])]) = Inr c \<and>
     cp_environment c = [(''A'', ''1''), (''B'', ''true'')] \<and>
     validate_component ''api'' (VDict (component_value c)) = Inr c"
proof -
  let ?c = "\<lparr>cp_images = [''app:1''], cp_build = [(VStr ''context'', VStr ''.''), (VStr ''dockerfile'', VStr ''Dockerfile'')],
     cp_ports = [80], cp_publish_ports = True, cp_environment = [(''A'', ''1''), (''B'', ''true'')], cp_healthcheck = [],
     cp_connection = [], cp_volumes = [], cp_command = VNull, cp_working_dir = None, cp_restart = None\<rparr>"
  have v: "validate_component ''api'' (VDict [(VStr ''images'', VList [VStr ''app:1'']), (VStr ''port'', VInt 80),
       (VStr ''environment'', VDict [(VStr ''B'', VBool True), (VStr ''A'', VInt 1)])]) = Inr ?c"
    by code_simp
  show ?thesis using v component_normalisation_idempotent [OF v] by (intro exI [of _ ?c]) simp
qed


end
