(* ===== verification/TemplateSafety.thy ===== *)
theory TemplateSafety
  imports ComponentSafety "HOL-Library.Multiset"
begin

text \<open>
  What the rendering of Compose documents promises: the cycle check decides acyclicity, an accepted
  selection renders to a document the deployment accepts, in whatever order its components are
  named, and the variables of a service have a fixed precedence.
\<close>

section \<open>The search for cycles\<close>

definition edges :: "(string, string list) dict \<Rightarrow> (string \<times> string) set" where
  "edges g = {(n, d). \<exists>r. dget g n = Some r \<and> d \<in> set r}"

definition cycle_free :: "(string \<times> string) set \<Rightarrow> string set \<Rightarrow> bool" where
  "cycle_free E V \<longleftrightarrow> E `` V \<subseteq> V \<and> (\<forall>v\<in>V. (v, v) \<notin> E\<^sup>+)"

abbreviation cycle_error :: exn where
  "cycle_error \<equiv> Exn TemplateError ''Component dependencies contain a cycle''"

definition visit_result :: "(string, string list) dict \<Rightarrow> string set \<Rightarrow> string set \<Rightarrow> string set \<Rightarrow> string set res \<Rightarrow> bool" where
  "visit_result g path visited wanted r \<longleftrightarrow>
     (case r of
        Inl e \<Rightarrow> e = cycle_error \<and> \<not> acyclic (edges g)
      | Inr v \<Rightarrow> visited \<union> wanted \<subseteq> v \<and> cycle_free (edges g) v \<and> v \<inter> path = {})"

definition closed_graph :: "(string, string list) dict \<Rightarrow> bool" where
  "closed_graph g \<longleftrightarrow> (\<forall>n r. dget g n = Some r \<longrightarrow> set r \<subseteq> fst ` set g)"

lemma closed_trancl:
  assumes "(a, b) \<in> E\<^sup>+" and "E `` V \<subseteq> V" and "a \<in> V"
  shows "b \<in> V"
  using assms by (induction rule: trancl_induct) auto

text \<open>A component whose dependencies lie in a closed, cycle-free set outside of which it is itself
  joins that set.\<close>

lemma cycle_free_insert:
  assumes "cycle_free E V" and "n \<notin> V" and "E `` {n} \<subseteq> V"
  shows "cycle_free E (insert n V)"
proof -
  have "(n, n) \<notin> E\<^sup>+"
  proof
    assume "(n, n) \<in> E\<^sup>+"
    then obtain d where "(n, d) \<in> E" "(d, n) \<in> E\<^sup>*" by (meson tranclD)
    with assms(3) have "d \<in> V" by auto
    with \<open>(d, n) \<in> E\<^sup>*\<close> assms(1) have "n \<in> V"
      by (metis cycle_free_def closed_trancl rtranclD)
    then show False using assms(2) by simp
  qed
  then show ?thesis
    using assms by (auto simp: cycle_free_def)
qed

lemma visit_results:
  "closed_graph g \<Longrightarrow> cycle_free (edges g) visited \<Longrightarrow> visited \<inter> path = {} \<Longrightarrow> name \<in> fst ` set g \<Longrightarrow>
      \<forall>p\<in>path. (p, name) \<in> (edges g)\<^sup>+ \<Longrightarrow> visit_result g path visited {name} (visit g path visited name)"
  "closed_graph g \<Longrightarrow> cycle_free (edges g) visited \<Longrightarrow> visited \<inter> path = {} \<Longrightarrow> set names \<subseteq> fst ` set g \<Longrightarrow>
      \<forall>p\<in>path. \<forall>n\<in>set names. (p, n) \<in> (edges g)\<^sup>+ \<Longrightarrow>
      visit_result g path visited (set names) (visit_all g path visited names)"
proof (induction g path visited name and g path visited names rule: visit_visit_all.induct)
  case (1 g path visited name)
  consider "name \<in> path" | "name \<notin> path" "name \<in> visited" | "name \<notin> path" "name \<notin> visited" by blast
  then show ?case
  proof cases
    case 1
    then have "(name, name) \<in> (edges g)\<^sup>+" using "1.prems"(5) by blast
    then show ?thesis using 1 by (auto simp: visit_result_def acyclic_def)
  next
    case 2
    then show ?thesis using "1.prems"(2,3) by (auto simp: visit_result_def)
  next
    case 3
    obtain r where r: "dget g name = Some r"
      using "1.prems"(4) by (metis not_None_eq map_of_eq_None_iff)
    have step: "(name, n) \<in> edges g" if "n \<in> set r" for n
      using that r by (auto simp: edges_def)
    have res: "visit_result g (insert name path) visited (set r) (visit_all g (insert name path) visited r)"
    proof (rule "1.IH" [OF 3 r "1.prems"(1,2)])
      show "visited \<inter> insert name path = {}" using "1.prems"(3) 3 by auto
      show "set r \<subseteq> fst ` set g" using "1.prems"(1) r by (auto simp: closed_graph_def)
      show "\<forall>p\<in>insert name path. \<forall>n\<in>set r. (p, n) \<in> (edges g)\<^sup>+"
        using "1.prems"(5) step by (auto intro: trancl_into_trancl)
    qed
    have out: "edges g `` {name} = set r" using r by (auto simp: edges_def)
    show ?thesis
    proof (cases "visit_all g (insert name path) visited r")
      case (Inl e)
      then show ?thesis using res 3 r by (simp add: visit_result_def)
    next
      case (Inr v)
      then have v: "visited \<union> set r \<subseteq> v" "cycle_free (edges g) v" "v \<inter> insert name path = {}"
        using res by (simp_all add: visit_result_def)
      then have "cycle_free (edges g) (insert name v)"
        by (intro cycle_free_insert) (auto simp: out)
      then show ?thesis using v 3 r Inr by (auto simp: visit_result_def)
    qed
  qed
next
  case (2 g path visited)
  then show ?case by (simp add: visit_result_def)
next
  case (3 g path visited n ns)
  have first: "visit_result g path visited {n} (visit g path visited n)"
    using "3.prems" by (intro "3.IH"(1)) auto
  show ?case
  proof (cases "visit g path visited n")
    case (Inl e)
    then show ?thesis using first by (simp add: visit_result_def)
  next
    case (Inr v)
    then have v: "insert n visited \<subseteq> v" "cycle_free (edges g) v" "v \<inter> path = {}"
      using first by (auto simp: visit_result_def)
    have "visit_result g path v (set ns) (visit_all g path v ns)"
      using "3.prems" v by (intro "3.IH"(2)) auto
    then show ?thesis
      using v(1) Inr by (auto simp: visit_result_def split: sum.splits)
  qed
qed

definition dependency_edges :: "dependency_map \<Rightarrow> (string \<times> string) set" where
  "dependency_edges deps = {(n, d). \<exists>r. dget deps n = Some r \<and> d \<in> set (keys r)}"

lemma edges_of_dependencies: "edges (map (\<lambda>(n, r). (n, keys r)) deps) = dependency_edges deps"
  by (force simp: edges_def dependency_edges_def map_of_map)

lemma acyclic_check:
  assumes "set selected = set (keys deps)" and "\<forall>(n, r)\<in>set deps. set (keys r) \<subseteq> set selected"
  shows "assert_acyclic selected deps =
    (if acyclic (dependency_edges deps) then Inr ()
     else Inl (Exn TemplateError ''Component dependencies contain a cycle''))"
proof -
  let ?g = "map (\<lambda>(n, r). (n, keys r)) deps"
  have "keys ?g = keys deps"
    by (simp add: comp_def case_prod_beta)
  then have dom: "fst ` set ?g = set selected"
    using assms(1) by (metis set_map)
  have "closed_graph ?g"
    unfolding closed_graph_def dom using assms(2) by (fastforce dest: map_of_SomeD)
  then have res: "visit_result ?g {} {} (set selected) (visit_all ?g {} {} selected)"
    by (rule visit_results) (use dom in \<open>auto simp: cycle_free_def\<close>)
  show ?thesis
  proof (cases "visit_all ?g {} {} selected")
    case (Inl e)
    then show ?thesis using res by (simp add: assert_acyclic_def visit_result_def edges_of_dependencies)
  next
    case (Inr v)
    then have v: "set selected \<subseteq> v" "cycle_free (dependency_edges deps) v"
      using res by (simp_all add: visit_result_def edges_of_dependencies)
    have "acyclic (dependency_edges deps)"
      unfolding acyclic_def
    proof (intro allI notI)
      fix n assume c: "(n, n) \<in> (dependency_edges deps)\<^sup>+"
      then have "n \<in> Domain (dependency_edges deps)" by (meson tranclD Domain.intros)
      then have "n \<in> set selected"
        unfolding assms(1) dependency_edges_def by (auto dest: map_of_SomeD intro: rev_image_eqI)
      then show False using v c by (auto simp: cycle_free_def)
    qed
    then show ?thesis using Inr by (simp add: assert_acyclic_def)
  qed
qed

text \<open>What a fold keeps when each of its steps does.\<close>

lemma rfold_induct:
  assumes "rfold f xs s = Inr t" and "P s"
    and "\<And>x s s'. x \<in> set xs \<Longrightarrow> P s \<Longrightarrow> f x s = Inr s' \<Longrightarrow> P s'"
  shows "P t"
  using assms by (induction xs arbitrary: s) (auto simp: rbind_Inr_iff)

lemma keys_ordered_mapping [simp]: "fst ` set (ordered_mapping d) = fst ` set d"
  by (simp add: ordered_mapping_def)

lemma set_keys_ordered: "set (keys (ordered_mapping d)) = set (keys d)"
  by simp

lemma set_ordered_mapping [simp]: "set (ordered_mapping d) = set d"
  by (simp add: ordered_mapping_def)

lemma distinct_ordered_mapping [simp]: "distinct (keys (ordered_mapping d)) \<longleftrightarrow> distinct (keys d)"
proof -
  have "set (keys (ordered_mapping d)) = set (keys d)" "length (keys (ordered_mapping d)) = length (keys d)"
    by (simp_all add: ordered_mapping_def)
  then show ?thesis by (metis card_distinct distinct_card)
qed

lemma dget_ordered_mapping [simp]: "distinct (keys d) \<Longrightarrow> dget (ordered_mapping d) k = dget d k"
  using map_of_eqI [of "ordered_mapping d" d] by (metis distinct_ordered_mapping dget_SomeD dget_in
    keys_ordered_mapping map_of_eq_None_iff not_None_eq set_map set_ordered_mapping)

text \<open>Normalised dependencies are about exactly the selected components.\<close>

definition config_ok :: "mapping option \<Rightarrow> bool" where
  "config_ok config \<longleftrightarrow>
     (\<forall>d. config = Some d \<longrightarrow> (\<exists>s. mget d ''condition'' = VStr s \<and> s \<in> set DEPENDENCY_CONDITIONS))"

definition requirements_ok :: "string list \<Rightarrow> (string, mapping option) dict \<Rightarrow> bool" where
  "requirements_ok selected r \<longleftrightarrow> set (keys r) \<subseteq> set selected \<and> distinct (keys r) \<and> list_all config_ok (vals r)"

definition dependencies_closed :: "string list \<Rightarrow> dependency_map \<Rightarrow> bool" where
  "dependencies_closed selected deps \<longleftrightarrow> set (keys deps) = set selected \<and>
     (distinct selected \<longrightarrow> distinct (keys deps)) \<and> (\<forall>r\<in>set (vals deps). requirements_ok selected r)"

lemma normalize_dependency_config_Inr:
  assumes "normalize_dependency_config config = Inr c"
  shows "config_ok c"
proof (cases "config = VNull")
  case False
  then obtain d condition where d: "c = Some (mput d ''condition'' condition)"
      and known: "in_set condition DEPENDENCY_CONDITIONS = Inr True"
    using assms
    by (cases config)
       (auto simp: normalize_dependency_config_def Let_def rbind_Inr_iff split: if_splits)
  then show ?thesis
    by (auto simp: config_ok_def in_set_def is_str_iff split: if_splits)
qed (use assms in \<open>simp add: normalize_dependency_config_def config_ok_def\<close>)

lemma vals_dset: "set (vals (dset d k v)) \<subseteq> insert v (set (vals d))"
  by (induction d) auto

lemma add_dependency_keys:
  assumes "add_dependency ct selected item r = Inr r'" and "requirements_ok selected r"
  shows "requirements_ok selected r'"
proof -
  obtain name config where item: "item = (name, config)" by (cases item)
  obtain n c where r': "r' = dset r n c" and n: "n \<in> set selected" and c: "config_ok c"
    using assms(1) unfolding item add_dependency_def
    by (auto simp: Let_def rbind_Inr_iff dest: normalize_dependency_config_Inr split: if_splits)
  have "list_all config_ok (vals r')"
    using vals_dset [of n c r] assms(2) c unfolding r' requirements_ok_def list_all_iff by blast
  then show ?thesis using assms(2) n by (simp add: requirements_ok_def r')
qed

lemma add_dependencies_closed:
  assumes "add_dependencies ct selected item deps = Inr deps'" and "dependencies_closed selected deps"
  shows "dependencies_closed selected deps'"
proof -
  obtain name required where item: "item = (name, required)" by (cases item)
  define n where "n = canonical_component ct (the_str name)"
  define old where "old = (case dget deps n of None \<Rightarrow> [] | Some r \<Rightarrow> r)"
  obtain items r where n: "n \<in> set selected" and r: "rfold (add_dependency ct selected) items old = Inr r"
    and deps': "deps' = dset deps n r"
    using assms(1) unfolding item add_dependencies_def n_def old_def
    by (auto simp: Let_def rbind_Inr_iff split: if_splits option.splits)
  have "requirements_ok selected old"
  proof (cases "dget deps n")
    case (Some r)
    then have "r \<in> set (vals deps)" by (auto dest!: map_of_SomeD intro: rev_image_eqI)
    with Some assms(2) show ?thesis by (auto simp: old_def dependencies_closed_def)
  qed (simp add: old_def requirements_ok_def)
  then have "requirements_ok selected r"
    by (rule rfold_induct [OF r]) (rule add_dependency_keys)
  then show ?thesis
    using assms(2) n vals_dset [of n r deps] unfolding dependencies_closed_def deps'
    by (auto simp: insert_absorb simp del: set_map) (auto simp: insert_absorb)
qed

lemma ordered_requirements: "requirements_ok selected (ordered_mapping r) = requirements_ok selected r"
  by (auto simp: requirements_ok_def list_all_iff)

lemma normalize_dependencies_closed:
  assumes "normalize_dependencies ct selected d = Inr deps"
  shows "dependencies_closed selected deps"
proof -
  obtain items raw where raw: "rfold (add_dependencies ct selected) items (map (\<lambda>n. (n, [])) selected) = Inr raw"
    and deps: "deps = map (\<lambda>(n, r). (n, ordered_mapping r)) (ordered_mapping raw)"
  proof (cases "if d = VNull then VDict [] else d")
    case (VDict items)
    then obtain raw where "rfold (add_dependencies ct selected) items (map (\<lambda>n. (n, [])) selected) = Inr raw"
        "deps = map (\<lambda>(n, r). (n, ordered_mapping r)) (ordered_mapping raw)"
      using assms unfolding normalize_dependencies_def by (auto simp: rbind_Inr_iff simp del: rfold.simps)
    then show ?thesis by (rule that)
  qed (use assms in \<open>simp_all add: normalize_dependencies_def\<close>)
  have "dependencies_closed selected (map (\<lambda>n. (n, [])) selected)"
    by (auto simp: dependencies_closed_def comp_def image_image requirements_ok_def)
  then have raw_ok: "dependencies_closed selected raw"
    by (rule rfold_induct [OF raw]) (rule add_dependencies_closed)
  have "keys deps = keys (ordered_mapping raw)"
    by (simp add: deps comp_def case_prod_beta)
  moreover have "set (vals deps) = ordered_mapping ` set (vals raw)"
    unfolding deps by (force simp: image_image case_prod_beta)
  ultimately show ?thesis
    using raw_ok set_keys_ordered [of raw] unfolding dependencies_closed_def
    by (simp del: set_map add: ordered_requirements)
qed

text \<open>
  C27: the depth-first search over the normalised dependencies of a selection always ends, accepts
  them exactly when their relation has no cycle, and otherwise reports a cycle.
\<close>

theorem acyclic_check_correct:
  assumes "normalize_dependencies ct selected d = Inr deps"
  shows "assert_acyclic selected deps =
    (if acyclic (dependency_edges deps) then Inr ()
     else Inl (Exn TemplateError ''Component dependencies contain a cycle''))"
proof (rule acyclic_check)
  have c: "dependencies_closed selected deps" by (rule normalize_dependencies_closed [OF assms])
  show "set selected = set (keys deps)" using c by (simp add: dependencies_closed_def)
  show "\<forall>(n, r)\<in>set deps. set (keys r) \<subseteq> set selected"
    using c by (force simp: dependencies_closed_def requirements_ok_def)
qed

theorem acyclic_check_correct_witness:
  "\<exists>deps. normalize_dependencies \<lparr>ct_components = [], ct_aliases = []\<rparr> [''a'', ''b'']
       (VDict [(VStr ''a'', VList [VStr ''b'']), (VStr ''b'', VList [VStr ''a''])]) = Inr deps \<and>
     assert_acyclic [''a'', ''b''] deps = Inl (Exn TemplateError ''Component dependencies contain a cycle'')"
proof -
  let ?deps = "[(''a'', [(''b'', None)]), (''b'', [(''a'', None)])] :: dependency_map"
  have n: "normalize_dependencies \<lparr>ct_components = [], ct_aliases = []\<rparr> [''a'', ''b'']
       (VDict [(VStr ''a'', VList [VStr ''b'']), (VStr ''b'', VList [VStr ''a''])]) = Inr ?deps"
    by code_simp
  have "(''a'', ''b'') \<in> dependency_edges ?deps" "(''b'', ''a'') \<in> dependency_edges ?deps"
    by (simp_all add: dependency_edges_def)
  then have "(''a'', ''a'') \<in> (dependency_edges ?deps)\<^sup>+" by (meson trancl.intros)
  then have "\<not> acyclic (dependency_edges ?deps)" by (auto simp: acyclic_def)
  then show ?thesis using n acyclic_check_correct [OF n] by auto
qed


section \<open>Volume names\<close>

definition docker_char :: "char \<Rightarrow> bool" where
  "docker_char c \<longleftrightarrow> is_alnum c \<or> one_of ''_.-'' c"

lemma lang_DOCKER_NAME: "w \<in> lang DOCKER_NAME_RX \<longleftrightarrow>
  (case w of [] \<Rightarrow> False | c # v \<Rightarrow> is_alnum c \<and> (\<forall>d\<in>set v. docker_char d))"
  unfolding DOCKER_NAME_RX_def docker_char_def by (rule lang_Cls_Star_iff)

lemma docker_char_lower: "docker_char c \<Longrightarrow> docker_char (lower_char c)"
  by (auto simp: docker_char_def lower_char_def one_of_def char_class_defs)

lemma docker_char_hex: "is_hex c \<Longrightarrow> docker_char c"
  by (auto simp: docker_char_def is_hex_def char_class_defs)

lemma docker_name_chars: "fullmatch DOCKER_NAME_RX s \<Longrightarrow> c \<in> set s \<Longrightarrow> docker_char c"
  by (auto simp: fullmatch_iff lang_DOCKER_NAME docker_char_def split: list.splits)

lemma in_tl: "x \<in> set (tl xs) \<Longrightarrow> x \<in> set xs"
  by (cases xs) simp_all

lemma take_head: "s = c # tl s \<Longrightarrow> take 30 s = c # take 29 (tl s)"
  by (cases s) simp_all

lemma template_alias_is_name:
  assumes "template_volume_alias name source = Inr a"
  shows "fullmatch DOCKER_NAME_RX a"
proof -
  have m: "fullmatch DOCKER_NAME_RX name" "fullmatch DOCKER_NAME_RX source"
    and al: "a = volume_identity_name ''tplvol-v1'' name source"
    using assms by (auto simp: template_volume_alias_def rbind_Inr_iff rfor_Inr_iff)
  let ?r = "lower (''tplvol-v1'' @ ''-'' @ name @ ''-'' @ source)"
  have "\<forall>c\<in>set (''tplvol-v1'' @ ''-'' @ name @ ''-'' @ source). docker_char c"
    using docker_name_chars [OF m(1)] docker_name_chars [OF m(2)]
    by (auto simp: docker_char_def char_class_defs one_of_def)
  then have chars: "\<forall>c\<in>set ?r. docker_char c"
    by (auto simp: lower_def docker_char_lower)
  have "?r = CHR ''t'' # tl ?r"
    by (simp add: lower_def lower_char_def char_class_defs)
  then have "take 30 ?r = CHR ''t'' # take 29 (tl ?r)"
    by (rule take_head)
  then have "a = CHR ''t'' # take 29 (tl ?r) @ ''-'' @ take 32 (sha256_hex (json_strings '','' [name, source]))"
    unfolding al volume_identity_name_parts by simp
  moreover have "is_alnum (CHR ''t'')" by (simp add: char_class_defs)
  moreover have "docker_char (CHR ''-'')" by (simp add: docker_char_def one_of_def)
  moreover have "\<forall>c\<in>set (take 29 (tl ?r)). docker_char c"
    using chars by (metis in_set_takeD in_tl)
  moreover have "\<forall>c\<in>set (take 32 (sha256_hex (json_strings '','' [name, source]))). docker_char c"
    by (meson docker_char_hex in_set_takeD sha256_hex_hex)
  ultimately show ?thesis
    unfolding fullmatch_iff lang_DOCKER_NAME by auto
qed

definition namespace_ok :: "string \<Rightarrow> bool" where
  "namespace_ok ns \<longleftrightarrow> ns = [] \<or> is_docker_repository_component ns"

lemma template_namespace_ok:
  assumes "template_namespace appid = Inr ns"
  shows "namespace_ok ns"
proof (cases appid)
  case (Some a)
  then have "validate_appid a = Inr a" and "external_namespace a = Inr ns"
    using assms by (auto simp: template_namespace_def rbind_Inr_iff validate_appid_Inr_iff)
  then show ?thesis using external_namespace_total [of a] by (auto simp: namespace_ok_def)
qed (use assms in \<open>simp add: template_namespace_def namespace_ok_def\<close>)

lemma render_volume_total:
  assumes "volume_ok name v" and "namespace_ok ns"
  shows "\<exists>u. render_volume name ns v = Inr u"
proof -
  obtain source target where v: "v = (source, target)" by (cases v)
  then obtain a where al: "template_volume_alias name source = Inr a"
    using assms(1) by (auto simp: volume_ok_def is_ok_def split: sum.splits)
  show ?thesis
  proof (cases "ns = []")
    case False
    then have "managed_volume_name ns a = Inr (volume_identity_name ''vol-v1'' ns a)"
      using assms(2) template_alias_is_name [OF al] by (simp add: managed_volume_name_def namespace_ok_def)
    with False show ?thesis by (simp add: v render_volume_def al)
  qed (simp add: v render_volume_def al)
qed

lemma rmap_total: "list_all (\<lambda>x. \<exists>y. f x = Inr y) xs \<Longrightarrow> \<exists>ys. rmap f xs = Inr ys"
  by (induction xs) (auto simp: rbind_Inr_iff)

lemma render_volumes_total:
  assumes "component_ok name c" and "namespace_ok ns"
  shows "\<exists>u. render_volumes c name ns = Inr u"
proof -
  have "list_all (\<lambda>v. \<exists>u. render_volume name ns v = Inr u) (cp_volumes c)"
    using assms render_volume_total by (auto simp: component_ok_def list_all_iff)
  then obtain ys where "rmap (render_volume name ns) (cp_volumes c) = Inr ys"
    using rmap_total by blast
  then show ?thesis by (simp add: render_volumes_def)
qed

section \<open>Rendering one service\<close>

definition catalog_ok :: "catalog \<Rightarrow> bool" where
  "catalog_ok ct \<longleftrightarrow> (\<forall>n c. dget (ct_components ct) n = Some c \<longrightarrow> component_ok n c)"

text \<open>What \<open>select_components\<close> has established.\<close>

definition selection_ok :: "catalog \<Rightarrow> string list \<Rightarrow> selection \<Rightarrow> bool" where
  "selection_ok ct selected sl \<longleftrightarrow>
     selected \<noteq> [] \<and> distinct selected \<and> set selected \<subseteq> set (keys (ct_components ct)) \<and>
     keys (sl_services sl) = selected \<and> namespace_ok (sl_namespace sl) \<and>
     dependencies_closed selected (sl_dependencies sl)"

definition unhealthy :: "catalog \<Rightarrow> string \<times> mapping option \<Rightarrow> bool" where
  "unhealthy ct = (\<lambda>(dependency, config).
     case (config, dget (ct_components ct) dependency) of
       (Some d, Some c) \<Rightarrow> mget d ''condition'' = VStr ''service_healthy'' \<and> cp_healthcheck c = []
     | _ \<Rightarrow> False)"

lemma fetch_Some [simp]: "dget d k = Some v \<Longrightarrow> fetch d k = Inr v"
  by (simp add: fetch_def)

lemma rfold_total:
  assumes "\<And>x s. x \<in> set xs \<Longrightarrow> \<exists>s'. f x s = Inr s'"
  shows "\<exists>t. rfold f xs s = Inr t"
  using assms
proof (induction xs arbitrary: s)
  case (Cons x xs)
  then obtain s' where "f x s = Inr s'" by fastforce
  with Cons show ?case by simp
qed simp

lemma selected_lookup:
  assumes "selection_ok ct selected sl" and "n \<in> set selected"
  obtains c s r where "dget (ct_components ct) n = Some c" "dget (sl_services sl) n = Some s"
    "dget (sl_dependencies sl) n = Some r" "requirements_ok selected r"
proof -
  have "n \<in> fst ` set (ct_components ct)" "n \<in> fst ` set (sl_services sl)" "n \<in> fst ` set (sl_dependencies sl)"
    using assms by (auto simp: selection_ok_def dependencies_closed_def simp flip: set_map)
  then obtain c s r where "dget (ct_components ct) n = Some c" "dget (sl_services sl) n = Some s"
      and r: "dget (sl_dependencies sl) n = Some r"
    by (metis map_of_eq_None_iff not_None_eq)
  moreover have "r \<in> set (vals (sl_dependencies sl))"
    using r by (auto dest!: map_of_SomeD intro: rev_image_eqI)
  ultimately show thesis
    using assms(1) that by (auto simp: selection_ok_def dependencies_closed_def simp del: set_map)
qed

lemma service_values_total:
  assumes "selection_ok ct selected sl" and "set required \<subseteq> set selected"
  shows "\<exists>e. service_values ct sl name service c required = Inr e"
proof -
  have "\<exists>e. internal_connection_environment ct sl required = Inr e"
    unfolding internal_connection_environment_def
  proof (rule rfold_total)
    fix d e assume "d \<in> set required"
    then have "d \<in> set selected" using assms(2) by blast
    then obtain c s where "dget (ct_components ct) d = Some c" "dget (sl_services sl) d = Some s"
      using selected_lookup [OF assms(1)] by metis
    then show "\<exists>s'. rbind (connection_of ct sl d) (\<lambda>c. Inr (dmerge e c)) = Inr s'"
      by (simp add: connection_of_def)
  qed
  then show ?thesis by (auto simp: service_values_def Let_def)
qed

lemma rfold_decided:
  assumes "\<And>x s. x \<in> set xs \<Longrightarrow> if bad x then \<exists>m. f x s = template_error m else \<exists>s'. f x s = Inr s'"
  shows "if \<exists>x\<in>set xs. bad x then \<exists>m. rfold f xs s = template_error m else \<exists>t. rfold f xs s = Inr t"
  using assms
proof (induction xs arbitrary: s)
  case (Cons x xs)
  have x: "if bad x then \<exists>m. f x s = template_error m else \<exists>s'. f x s = Inr s'"
    by (rule Cons.prems) simp
  show ?case
  proof (cases "bad x")
    case False
    with x obtain s' where "f x s = Inr s'" by auto
    with False Cons.IH [of s'] Cons.prems show ?thesis by simp
  qed (use x in auto)
qed simp

definition config_of :: "component \<Rightarrow> mapping option \<Rightarrow> mapping" where
  "config_of c config =
     (case config of
        None \<Rightarrow> [(VStr ''condition'', VStr (if cp_healthcheck c \<noteq> [] then ''service_healthy'' else ''service_started''))]
      | Some d \<Rightarrow> d)"

lemma rendered_config_cases:
  "rendered_config name c dependency config =
     (if mget (config_of c config) ''condition'' = VStr ''service_healthy'' \<and> cp_healthcheck c = []
      then template_error (''Service '' @ name @ '' requires '' @ dependency @ '' to be healthy, but it has no healthcheck'')
      else Inr (config_of c config))"
  by (simp add: rendered_config_def config_of_def Let_def cong: option.case_cong)

lemma unhealthy_iff:
  assumes "dget (ct_components ct) d = Some c"
  shows "unhealthy ct (d, config) \<longleftrightarrow>
    mget (config_of c config) ''condition'' = VStr ''service_healthy'' \<and> cp_healthcheck c = []"
  using assms by (cases config) (auto simp: unhealthy_def config_of_def mget_def)

text \<open>A rendered entry of \<open>depends_on\<close> in long syntax.\<close>

definition entry_ok :: "catalog \<Rightarrow> selection \<Rightarrow> value \<times> value \<Rightarrow> bool" where
  "entry_ok ct sl = (\<lambda>(key, v).
     \<exists>d c service config s. dget (ct_components ct) d = Some c \<and> dget (sl_services sl) d = Some service \<and>
       key = VStr service \<and> v = VDict config \<and> mget config ''condition'' = VStr s \<and>
       s \<in> set DEPENDENCY_CONDITIONS \<and> (s = ''service_healthy'' \<longrightarrow> cp_healthcheck c \<noteq> []))"

lemma config_of_ok:
  "config_ok config \<Longrightarrow> \<exists>s. mget (config_of c config) ''condition'' = VStr s \<and> s \<in> set DEPENDENCY_CONDITIONS"
  by (cases config) (auto simp: config_ok_def config_of_def mget_def DEPENDENCY_CONDITIONS_def)

lemma long_dependency_step:
  assumes "dget (ct_components ct) d = Some c" and "dget (sl_services sl) d = Some s"
  shows "long_dependency ct sl name (d, config) m =
    (if unhealthy ct (d, config)
     then template_error (''Service '' @ name @ '' requires '' @ d @ '' to be healthy, but it has no healthcheck'')
     else Inr (mput m s (VDict (config_of c config))))"
  using assms by (simp add: long_dependency_def rendered_config_cases unhealthy_iff)

lemma required_lookup:
  assumes "selection_ok ct selected sl" and "requirements_ok selected r" and "(d, config) \<in> set r"
  obtains c s where "dget (ct_components ct) d = Some c" "dget (sl_services sl) d = Some s"
proof -
  have "d \<in> set (keys r)" using assms(3) by (force simp: image_iff)
  then have "d \<in> set selected" using assms(2) by (auto simp: requirements_ok_def simp del: set_map)
  then show thesis using selected_lookup [OF assms(1)] that by metis
qed

lemma render_dependencies_decided:
  assumes sel: "selection_ok ct selected sl" and req: "requirements_ok selected r"
  shows "if \<exists>x\<in>set r. unhealthy ct x then \<exists>m. render_dependencies ct sl name r = template_error m
    else \<exists>v. render_dependencies ct sl name r = Inr v"
proof -
  have long: "if \<exists>x\<in>set r. unhealthy ct x then \<exists>m. rfold (long_dependency ct sl name) r [] = template_error m
    else \<exists>t. rfold (long_dependency ct sl name) r [] = Inr t"
  proof (rule rfold_decided)
    fix x s assume x: "x \<in> set r"
    obtain d config where xd: "x = (d, config)" by (cases x)
    then obtain c service where "dget (ct_components ct) d = Some c" "dget (sl_services sl) d = Some service"
      using required_lookup [OF sel req] x by metis
    then show "if unhealthy ct x then \<exists>m. long_dependency ct sl name x s = template_error m
        else \<exists>s'. long_dependency ct sl name x s = Inr s'"
      by (simp add: xd long_dependency_step)
  qed
  have short: "\<exists>names. rmap (fetch (sl_services sl)) (keys r) = Inr names"
  proof (rule rmap_total, unfold list_all_iff, rule ballI)
    fix d assume "d \<in> set (keys r)"
    then obtain config where "(d, config) \<in> set r" by auto
    then show "\<exists>y. fetch (sl_services sl) d = Inr y"
      using required_lookup [OF sel req] fetch_Some by metis
  qed
  show ?thesis
  proof (cases "\<exists>x\<in>set r. unhealthy ct x")
    case True
    then have "r \<noteq> []" "\<exists>config\<in>set (vals r). config \<noteq> None"
      by (force simp: unhealthy_def split: option.splits)+
    then show ?thesis using True long by (auto simp: render_dependencies_def simp del: set_map)
  qed (use long short in \<open>auto simp: render_dependencies_def simp del: set_map\<close>)
qed

lemma set_dset: "set (dset d k v) \<subseteq> insert (k, v) (set d)"
  by (induction d) auto

definition depends_ok :: "catalog \<Rightarrow> selection \<Rightarrow> value \<Rightarrow> bool" where
  "depends_ok ct sl v \<longleftrightarrow> v = VNull \<or>
     (\<exists>names. v = text_list names \<and> distinct names \<and> set names \<subseteq> set (vals (sl_services sl))) \<or>
     (\<exists>m. v = VDict m \<and> list_all (entry_ok ct sl) m)"

lemma same_value_same_key:
  assumes "distinct (vals d)" and "dget d a = Some x" and "dget d b = Some x"
  shows "a = b"
proof -
  have "inj_on snd (set d)" using assms(1) by (simp add: distinct_map)
  then show ?thesis using inj_onD [of snd "set d" "(a, x)" "(b, x)"] dget_SomeD [OF assms(2)] dget_SomeD [OF assms(3)] by simp
qed

lemma render_dependencies_shape:
  assumes sel: "selection_ok ct selected sl" and req: "requirements_ok selected r"
    and names: "distinct (vals (sl_services sl))" and v: "render_dependencies ct sl name r = Inr v"
  shows "depends_ok ct sl v"
proof -
  consider "v = VNull" | m where "rfold (long_dependency ct sl name) r [] = Inr m" "v = VDict m"
    | ns where "rmap (fetch (sl_services sl)) (keys r) = Inr ns" "v = text_list ns"
    using v by (auto simp: render_dependencies_def rbind_Inr_iff split: if_splits simp del: set_map)
  then show ?thesis
  proof cases
    case (2 m)
    have "list_all (entry_ok ct sl) m"
    proof (rule rfold_induct [OF 2(1)])
      fix x u u' assume x: "x \<in> set r" and u: "list_all (entry_ok ct sl) u" and run: "long_dependency ct sl name x u = Inr u'"
      obtain d config where xd: "x = (d, config)" by (cases x)
      then obtain c service where c: "dget (ct_components ct) d = Some c" "dget (sl_services sl) d = Some service"
        using required_lookup [OF sel req] x by metis
      have "config_ok config" using x xd req by (force simp: requirements_ok_def list_all_iff)
      then obtain s where s: "mget (config_of c config) ''condition'' = VStr s" "s \<in> set DEPENDENCY_CONDITIONS"
        using config_of_ok by blast
      have step: "\<not> (mget (config_of c config) ''condition'' = VStr ''service_healthy'' \<and> cp_healthcheck c = [])"
          "u' = mput u service (VDict (config_of c config))"
        using run unfolding xd long_dependency_step [OF c] unhealthy_iff [OF c(1)] by (auto split: if_splits)
      have "entry_ok ct sl (VStr service, VDict (config_of c config))"
        unfolding entry_ok_def prod.case using c s step(1)
        by (intro exI [of _ d] exI [of _ c] exI [of _ service] exI [of _ "config_of c config"] exI [of _ s]) auto
      then show "list_all (entry_ok ct sl) u'"
        using u set_dset [of "VStr service" "VDict (config_of c config)" u]
        by (auto simp: step(2) mput_def list_all_iff)
    qed simp
    then show ?thesis using 2 by (simp add: depends_ok_def)
  next
    case (3 ns)
    have l: "list_all2 (\<lambda>k n. dget (sl_services sl) k = Some n) (keys r) ns"
      using 3(1) by (auto simp: rmap_Inr_iff fetch_def elim!: list_all2_mono split: option.splits)
    have "distinct (keys r)" using req by (simp add: requirements_ok_def)
    with l have "distinct ns"
      unfolding distinct_conv_nth list_all2_conv_all_nth
      by (metis same_value_same_key [OF names])
    moreover have "set ns \<subseteq> set (vals (sl_services sl))"
      using l by (force simp: list_all2_conv_all_nth in_set_conv_nth dest: map_of_SomeD)
    ultimately show ?thesis using 3(2) by (auto simp: depends_ok_def)
  qed (simp add: depends_ok_def)
qed

section \<open>The services of a document\<close>

definition unhealthy_service :: "catalog \<Rightarrow> selection \<Rightarrow> string \<Rightarrow> bool" where
  "unhealthy_service ct sl n \<longleftrightarrow>
     (case dget (sl_dependencies sl) n of None \<Rightarrow> False | Some r \<Rightarrow> \<exists>x\<in>set r. unhealthy ct x)"

text \<open>The entry a selected component has in a document.\<close>

definition rendered_entry :: "catalog \<Rightarrow> selection \<Rightarrow> string \<Rightarrow> value \<times> value \<Rightarrow> bool" where
  "rendered_entry ct sl n = (\<lambda>(key, v).
     \<exists>c service volumes environment depends_on.
       dget (ct_components ct) n = Some c \<and> dget (sl_services sl) n = Some service \<and>
       key = VStr service \<and> v = VDict (service_document sl n c volumes environment depends_on) \<and>
       depends_ok ct sl depends_on)"

lemma compose_service_decided:
  assumes sel: "selection_ok ct selected sl" and cat: "catalog_ok ct" and n: "n \<in> set selected"
  shows "if unhealthy_service ct sl n then \<exists>m. compose_service ct sl n u = template_error m
    else \<exists>s'. compose_service ct sl n u = Inr s'"
proof -
  obtain ss vs where u: "u = (ss, vs)" by (cases u)
  obtain c s r where l: "dget (ct_components ct) n = Some c" "dget (sl_services sl) n = Some s"
      "dget (sl_dependencies sl) n = Some r" "requirements_ok selected r"
    using selected_lookup [OF sel n] by metis
  have "component_ok n c" using cat l(1) by (simp add: catalog_ok_def)
  then obtain vols decl where v: "render_volumes c n (sl_namespace sl) = Inr (vols, decl)"
    using render_volumes_total [of n c "sl_namespace sl"] sel by (auto simp: selection_ok_def)
  obtain e where e: "service_values ct sl n s c (keys r) = Inr e"
    using service_values_total [OF sel, of "keys r" n s c] l(4) by (auto simp: requirements_ok_def simp del: set_map)
  show ?thesis
    using render_dependencies_decided [OF sel l(4), of n]
    by (auto simp: u compose_service_def l v e unhealthy_service_def split: if_splits)
qed

lemma compose_service_Inr:
  assumes sel: "selection_ok ct selected sl" and names: "distinct (vals (sl_services sl))" and n: "n \<in> set selected"
    and run: "compose_service ct sl n (ss, vs) = Inr (ss', vs')"
  shows "\<exists>s v. ss' = mput ss s v \<and> dget (sl_services sl) n = Some s \<and> rendered_entry ct sl n (VStr s, v)"
proof -
  obtain c s r where l: "dget (ct_components ct) n = Some c" "dget (sl_services sl) n = Some s"
      "dget (sl_dependencies sl) n = Some r" "requirements_ok selected r"
    using selected_lookup [OF sel n] by metis
  obtain vols decl e d where parts: "render_volumes c n (sl_namespace sl) = Inr (vols, decl)"
      "render_dependencies ct sl n r = Inr d"
      "ss' = mput ss s (VDict (service_document sl n c vols e d))"
    using run by (auto simp: compose_service_def l rbind_Inr_iff)
  have "depends_ok ct sl d"
    by (rule render_dependencies_shape [OF sel l(4) names parts(2)])
  then show ?thesis
    using l parts(3) by (auto simp: rendered_entry_def)
qed

lemma mput_fresh: "VStr k \<notin> set (keys d) \<Longrightarrow> mput d k v = d @ [(VStr k, v)]"
  unfolding mput_def by (induction d) auto

lemma compose_services_Inr:
  assumes sel: "selection_ok ct selected sl" and names: "distinct (vals (sl_services sl))"
  shows "set ns \<subseteq> set selected \<Longrightarrow> distinct ns \<Longrightarrow>
    \<forall>n\<in>set ns. \<forall>s. dget (sl_services sl) n = Some s \<longrightarrow> VStr s \<notin> set (keys ss) \<Longrightarrow>
    rfold (compose_service ct sl) ns (ss, vs) = Inr (ss', vs') \<Longrightarrow>
    \<exists>new. ss' = ss @ new \<and> list_all2 (rendered_entry ct sl) ns new"
proof (induction ns arbitrary: ss vs)
  case (Cons n ns)
  from Cons.prems(4) obtain ss1 vs1 where one: "compose_service ct sl n (ss, vs) = Inr (ss1, vs1)"
      and rest: "rfold (compose_service ct sl) ns (ss1, vs1) = Inr (ss', vs')"
    by (auto simp: rbind_Inr_iff)
  then obtain s v where s: "ss1 = mput ss s v" "dget (sl_services sl) n = Some s" "rendered_entry ct sl n (VStr s, v)"
    using compose_service_Inr [OF sel names _ one] Cons.prems(1) by auto
  have ss1: "ss1 = ss @ [(VStr s, v)]"
    using Cons.prems(3) s by (simp add: mput_fresh)
  have "\<exists>new. ss' = ss1 @ new \<and> list_all2 (rendered_entry ct sl) ns new"
  proof (rule Cons.IH [OF _ _ _ rest])
    show "\<forall>k\<in>set ns. \<forall>t. dget (sl_services sl) k = Some t \<longrightarrow> VStr t \<notin> set (keys ss1)"
    proof (intro ballI allI impI)
      fix k t assume k: "k \<in> set ns" "dget (sl_services sl) k = Some t"
      then have "t \<noteq> s" using same_value_same_key [OF names _ s(2)] Cons.prems(2) by auto
      moreover have "VStr t \<notin> set (keys ss)" using k Cons.prems(3) by (auto simp del: set_map)
      ultimately show "VStr t \<notin> set (keys ss1)" by (simp add: ss1)
    qed
  qed (use Cons.prems in auto)
  then show ?case using ss1 s(3) by auto
qed simp

section \<open>The final validation\<close>

lemma mget_field [simp]:
  "mget (field_if b k v @ d) k' = (if b \<and> k' = k then v else mget d k')"
  "mget (field_if b k v) k' = (if b \<and> k' = k then v else VNull)"
  "mget ((VStr k, v) # d) k' = (if k' = k then v else mget d k')"
  "mget [] k' = VNull"
  by (auto simp: field_if_def mget_def)

lemma service_fields [simp]:
  "mget (service_document sl n c vs e d) ''build'' = VDict (cp_build c)"
  "mget (service_document sl n c vs e d) ''image'' = VStr (hd (cp_images c))"
  "mget (service_document sl n c vs e d) ''depends_on'' = (if truthy d then d else VNull)"
  "mget (service_document sl n c vs e d) ''healthcheck'' = (if cp_healthcheck c \<noteq> [] then VDict (cp_healthcheck c) else VNull)"
  by (simp_all add: service_document_def)

lemma in_set_text [simp]: "in_set (VStr s) xs = Inr (s \<in> set xs)"
  by (simp add: in_set_def)

text \<open>The services of the document: one entry for each selected component, under its service name.\<close>

definition document_services :: "catalog \<Rightarrow> selection \<Rightarrow> string list \<Rightarrow> mapping \<Rightarrow> bool" where
  "document_services ct sl selected ss \<longleftrightarrow> list_all2 (rendered_entry ct sl) selected ss"

lemma services_keys:
  assumes "document_services ct sl selected ss" and "keys (sl_services sl) = selected" and "distinct selected"
  shows "keys ss = map VStr (vals (sl_services sl))"
proof (rule nth_equalityI)
  have len: "length ss = length selected"
    using assms(1) by (simp add: document_services_def list_all2_lengthD)
  have "length (sl_services sl) = length selected" using assms(2) by (metis length_map)
  then show "length (keys ss) = length (map VStr (vals (sl_services sl)))" using len by simp
  fix i assume i: "i < length (keys ss)"
  then have "rendered_entry ct sl (selected ! i) (ss ! i)"
    using assms(1) len by (simp add: document_services_def list_all2_conv_all_nth)
  then obtain s where s: "dget (sl_services sl) (selected ! i) = Some s" "fst (ss ! i) = VStr s"
    by (auto simp: rendered_entry_def split: prod.splits)
  have il: "i < length (sl_services sl)"
    using i len \<open>length (sl_services sl) = length selected\<close> by simp
  have "sl_services sl ! i \<in> set (sl_services sl)" "fst (sl_services sl ! i) = selected ! i"
    using il nth_map [OF il, of fst] assms(2) by simp_all
  then have "dget (sl_services sl) (selected ! i) = Some (snd (sl_services sl ! i))"
    using assms(2,3) by (metis map_of_is_SomeI prod.collapse)
  then show "keys ss ! i = map VStr (vals (sl_services sl)) ! i"
    using s i il by simp
qed

lemma service_lookup:
  assumes doc: "document_services ct sl selected ss" and sel: "selection_ok ct selected sl"
    and names: "distinct (vals (sl_services sl))"
    and d: "dget (ct_components ct) d = Some c" "dget (sl_services sl) d = Some s"
  shows "\<exists>vs e dep. map_of ss (VStr s) = Some (VDict (service_document sl d c vs e dep))"
proof -
  have "d \<in> set (keys (sl_services sl))" using d(2) by (force dest: map_of_SomeD)
  moreover have "keys (sl_services sl) = selected" using sel by (simp add: selection_ok_def)
  ultimately have "d \<in> set selected" by metis
  then obtain i where "i < length selected" "selected ! i = d" by (auto simp: in_set_conv_nth)
  then have i: "i < length ss" "rendered_entry ct sl d (ss ! i)"
    using doc by (auto simp: document_services_def list_all2_conv_all_nth)
  then obtain vs e dep where "ss ! i = (VStr s, VDict (service_document sl d c vs e dep))"
    using d by (auto simp: rendered_entry_def split: prod.splits)
  moreover have "distinct (keys ss)"
  proof -
    have "keys ss = map VStr (vals (sl_services sl))"
      using services_keys [OF doc] sel by (simp add: selection_ok_def)
    then show ?thesis using names by (simp add: distinct_map [of VStr] inj_on_def del: map_map)
  qed
  ultimately show ?thesis
    using i(1) by (metis map_of_is_SomeI nth_mem)
qed

lemma dependency_entry_accepted:
  assumes doc: "document_services ct sl selected ss" and sel: "selection_ok ct selected sl"
    and names: "distinct (vals (sl_services sl))" and entry: "entry_ok ct sl (k, v)"
  shows "dependency_config_ok name ss (k, v) = Inr ()"
proof -
  obtain d c service config s where e: "dget (ct_components ct) d = Some c" "dget (sl_services sl) d = Some service"
      "k = VStr service" "v = VDict config" "mget config ''condition'' = VStr s"
      "s \<in> set DEPENDENCY_CONDITIONS" "s = ''service_healthy'' \<longrightarrow> cp_healthcheck c \<noteq> []"
    using entry by (auto simp: entry_ok_def)
  obtain vs env dep where m: "map_of ss (VStr service) = Some (VDict (service_document sl d c vs env dep))"
    using service_lookup [OF doc sel names e(1,2)] by blast
  then have "VStr service \<in> set (keys ss)" by (force dest: map_of_SomeD)
  moreover have "mget_default config ''condition'' b = VStr s" for b
    using e(5) by (auto simp: mget_default_def mget_def split: option.splits)
  ultimately show ?thesis
    using e(6,7) m by (simp add: dependency_config_ok_def e(3,4) Let_def)
qed

lemma service_entry_accepted:
  assumes doc: "document_services ct sl selected ss" and sel: "selection_ok ct selected sl"
    and names: "distinct (vals (sl_services sl))" and cat: "catalog_ok ct" and x: "x \<in> set ss"
  shows "service_entry_ok ss x = Inr ()" and "local_build_service x = Inr ()"
proof -
  obtain n where n: "rendered_entry ct sl n x"
    using doc x unfolding document_services_def by (metis in_set_conv_nth list_all2_conv_all_nth)
  then obtain c s vs e d where e: "dget (ct_components ct) n = Some c" "depends_ok ct sl d"
      "x = (VStr s, VDict (service_document sl n c vs e d))"
    by (auto simp: rendered_entry_def split: prod.splits)
  have ok: "component_ok n c" using cat e(1) by (simp add: catalog_ok_def)
  then show "local_build_service x = Inr ()"
    by (simp add: e(3) local_build_service_Inr component_ok_def)
  have image: "hd (cp_images c) \<noteq> []"
    using ok by (cases "cp_images c") (auto simp: component_ok_def)
  consider "\<not> truthy d" | ns where "d = text_list ns" "distinct ns" "set ns \<subseteq> set (vals (sl_services sl))" "truthy d"
    | m where "d = VDict m" "list_all (entry_ok ct sl) m" "truthy d"
    by (cases "truthy d") (use e(2) in \<open>auto simp: depends_ok_def simp del: set_map\<close>)
  then show "service_entry_ok ss x = Inr ()"
  proof cases
    case (2 ns)
    have "keys ss = map VStr (vals (sl_services sl))"
      using services_keys [OF doc] sel by (simp add: selection_ok_def)
    then have "set (map VStr ns) \<subseteq> set (keys ss)"
      using 2(3) by (metis image_mono set_map)
    then have "dependency_names_ok s ss (map VStr ns) = Inr ()"
      using 2(2) by (auto simp: dependency_names_ok_def list_all_iff distinct_map inj_on_def)
    then show ?thesis using 2 image by (simp add: e(3) service_entry_ok_def nonempty_str_def text_list_def)
  next
    case (3 m)
    then have "rfor m (dependency_config_ok s ss) = Inr ()"
      by (auto simp: rfor_Inr_iff list_all_iff intro: dependency_entry_accepted [OF doc sel names])
    then show ?thesis using 3 image by (simp add: e(3) service_entry_ok_def nonempty_str_def)
  qed (use image in \<open>simp add: e(3) service_entry_ok_def nonempty_str_def\<close>)
qed

lemma document_accepted:
  assumes doc: "document_services ct sl selected ss" and sel: "selection_ok ct selected sl"
    and names: "distinct (vals (sl_services sl))" and cat: "catalog_ok ct"
  shows "validate_compose_document (VDict (document_value sl ss vols)) = Inr ()"
proof -
  let ?d = "document_value sl ss vols"
  have fields: "mget ?d ''version'' = VStr ''3.9''" "mget ?d ''services'' = VDict ss"
    by (simp_all add: document_value_def)
  have "ss \<noteq> []" using doc sel by (auto simp: document_services_def selection_ok_def)
  moreover have "rfor ss (service_entry_ok ss) = Inr ()" "rfor ss local_build_service = Inr ()"
    using service_entry_accepted [OF doc sel names cat] by (auto simp: rfor_Inr_iff)
  ultimately show ?thesis
    by (simp add: validate_compose_document_def validate_local_build_compose_def fields as_template_error_def)
qed

section \<open>The outcome of a composition\<close>

lemma validate_selection_Inr:
  assumes "validate_selection ct v = Inr selected"
  shows "selected \<noteq> []" and "distinct selected" and "set selected \<subseteq> set (keys (ct_components ct))"
proof -
  obtain names where names: "names \<noteq> []" "distinct (map (canonical_component ct) names)"
      "unknown_components ct names = []" "selected = sort (map (canonical_component ct) names)"
    using assms that [of "map the_str (the_list v)"]
    by (auto simp: validate_selection_def Let_def split: if_splits)
  then have "\<forall>n\<in>set names. canonical_component ct n \<in> set (keys (ct_components ct))"
    unfolding unknown_components_def by (metis (mono_tags, lifting) filter_empty_conv length_0_conv length_sort)
  then show "selected \<noteq> []" "distinct selected" "set selected \<subseteq> set (keys (ct_components ct))"
    using names by (auto simp: distinct_map) (metis length_0_conv length_map length_sort)
qed

lemma keys_named_services: "named_services selected ns = Inr services \<Longrightarrow> keys services = selected"
  unfolding named_services_def by (induction selected arbitrary: services) (auto simp: rbind_Inr_iff)

lemma select_components_ok:
  assumes "select_components ct rq = Inr (selected, sl)"
  shows "selection_ok ct selected sl"
proof -
  obtain conditions namespace services deps where
    s: "validate_selection ct (cr_components rq) = Inr selected" "template_namespace (cr_appid rq) = Inr namespace"
       "normalize_dependencies ct selected (cr_dependencies rq) = Inr deps"
       "named_services selected namespace = Inr services" and
    sl: "sl_namespace sl = namespace" "sl_services sl = services" "sl_dependencies sl = deps"
    using assms by (auto simp: select_components_def rbind_Inr_iff)
  have "keys services = selected"
    using s(4) by (rule keys_named_services)
  then show ?thesis
    using s validate_selection_Inr [OF s(1)] template_namespace_ok normalize_dependencies_closed
    by (auto simp: selection_ok_def sl simp del: set_map)
qed

text \<open>A catalog of two components, one with a health check, and a request for both.\<close>

definition sample_component :: "mapping \<Rightarrow> component" where
  "sample_component check = \<lparr>cp_images = [''app:1''],
     cp_build = [(VStr ''context'', VStr ''.''), (VStr ''dockerfile'', VStr ''Dockerfile'')],
     cp_ports = [8000], cp_publish_ports = True, cp_environment = [(''PORT'', ''{port}'')],
     cp_healthcheck = check, cp_connection = [], cp_volumes = [], cp_command = VNull,
     cp_working_dir = None, cp_restart = None\<rparr>"

definition sample_catalog :: catalog where
  "sample_catalog = \<lparr>ct_components = [(''api'', sample_component []), (''db'', sample_component [(VStr ''test'', VStr ''ok'')])],
     ct_aliases = [(''postgres'', ''db'')]\<rparr>"

definition sample_request :: compose_request where
  "sample_request = \<lparr>cr_components = VList [VStr ''Postgres'', VStr ''api''],
     cr_dependencies = VDict [(VStr ''api'', VDict [(VStr ''db'', VStr ''service_healthy'')])],
     cr_appid = None, cr_environment = VDict [(VStr ''PORT'', VInt 1)], cr_service_environment = VNull,
     cr_service_environments = VNull, cr_conditions = VBool False\<rparr>"

definition sample_selection :: selection where
  "sample_selection = \<lparr>sl_appid = None, sl_namespace = [], sl_resource_namespace = [],
     sl_services = [(''api'', ''api''), (''db'', ''db'')],
     sl_dependencies = [(''api'', [(''db'', Some [(VStr ''condition'', VStr ''service_healthy'')])]), (''db'', [])],
     sl_environment = [(''PORT'', ''1'')], sl_overrides = [], sl_conditions = False\<rparr>"

lemma sample_ok: "catalog_ok sample_catalog"
  unfolding catalog_ok_def
proof (intro allI impI)
  have build: "local_build_ok [(VStr ''context'', VStr ''.''), (VStr ''dockerfile'', VStr ''Dockerfile'')]"
    unfolding local_build_ok_def mget_def by (intro exI [of _ "''.''"] exI [of _ "''Dockerfile''"]) code_simp
  fix n c assume "dget (ct_components sample_catalog) n = Some c"
  then show "component_ok n c"
    using build by (auto simp: sample_catalog_def sample_component_def component_ok_def ends_with_def suffix_def split: if_splits)
qed

lemma sample_selected: "select_components sample_catalog sample_request = Inr ([''api'', ''db''], sample_selection)"
  by code_simp




section \<open>Determinism\<close>

lemma sort_map_mset: "mset xs = mset ys \<Longrightarrow> sort (map f xs) = sort (map f ys)" for f :: "'a \<Rightarrow> string"
  by (rule properties_for_sort) simp_all

text \<open>The order in which components are named does not matter, errors included.\<close>

lemma composition_ignores_order:
  assumes "mset names = mset names'"
  shows "compose ct (rq\<lparr>cr_components := VList names\<rparr>) = compose ct (rq\<lparr>cr_components := VList names'\<rparr>)"
proof -
  have s: "set names = set names'" using assms by (metis set_mset_mset)
  then have empty: "names = [] \<longleftrightarrow> names' = []" by auto
  have strings: "list_all is_str names \<longleftrightarrow> list_all is_str names'" using s by (simp add: list_all_iff)
  have "mset (map (canonical_component ct) (map the_str names)) = mset (map (canonical_component ct) (map the_str names'))"
    using assms by simp
  then have distinct: "distinct (map (canonical_component ct) (map the_str names)) \<longleftrightarrow>
      distinct (map (canonical_component ct) (map the_str names'))"
    by (metis mset_eq_imp_distinct_iff)
  have sel: "sort (map (canonical_component ct) (map the_str names)) = sort (map (canonical_component ct) (map the_str names'))"
    by (rule sort_map_mset) (simp add: assms)
  have unknown: "unknown_components ct (map the_str names) = unknown_components ct (map the_str names')"
  proof -
    have "mset (filter P (map the_str names)) = mset (filter P (map the_str names'))" for P
      using assms by (simp add: mset_filter)
    then show ?thesis unfolding unknown_components_def using sort_map_mset [where f = "\<lambda>x. x"] by simp
  qed
  have "validate_selection ct (VList names) = validate_selection ct (VList names')"
    using empty strings distinct sel unknown by (simp add: validate_selection_def Let_def del: map_map)
  then show ?thesis by (simp add: compose_def select_components_def)
qed

section \<open>Whose value a variable has\<close>

lemma distinct_dmerge: "distinct (keys d) \<Longrightarrow> distinct (keys (dmerge d e))"
proof -
  have "distinct (keys d) \<Longrightarrow> distinct (keys (foldl (\<lambda>acc (k, v). dset acc k v) d e))"
    by (induction e arbitrary: d) auto
  then show "distinct (keys d) \<Longrightarrow> distinct (keys (dmerge d e))" by (simp add: dmerge_def)
qed

lemma map_of_rev: "distinct (keys d) \<Longrightarrow> dget (rev d) k = dget d k"
  by (metis distinct_rev map_of_inject_set rev_map set_rev)

lemma dget_dmerge_distinct:
  "distinct (keys e) \<Longrightarrow> dget (dmerge d e) k = (case dget e k of None \<Rightarrow> dget d k | Some v \<Rightarrow> Some v)"
  by (simp add: dget_dmerge map_of_rev)

definition overriding :: "selection \<Rightarrow> string \<Rightarrow> (string, string) dict" where
  "overriding sl name = (case dget (sl_overrides sl) name of None \<Rightarrow> [] | Some e \<Rightarrow> e)"

definition first_of :: "'a option list \<Rightarrow> 'a option" where
  "first_of xs = (case filter (\<lambda>x. x \<noteq> None) xs of [] \<Rightarrow> None | x # _ \<Rightarrow> x)"

text \<open>An override of the service wins over the global environment, that over the connections to
  dependencies, and those over the template of the component.\<close>

lemma environment_precedence:
  assumes "service_values ct sl name service c required = Inr e"
    and "distinct (keys (cp_environment c))" and "distinct (keys (sl_environment sl))"
    and "distinct (keys (overriding sl name))"
  shows "\<exists>connections. internal_connection_environment ct sl required = Inr connections \<and>
    (\<forall>k. dget e k = first_of [dget (overriding sl name) k, dget (sl_environment sl) k, dget connections k,
       map_option (render_text (replacements sl name service c)) (dget (cp_environment c) k)])"
proof -
  let ?own = "render_environment_values (replacements sl name service c) (cp_environment c)"
  obtain con where con: "internal_connection_environment ct sl required = Inr con"
    and e: "e = ordered_mapping (dmerge (dmerge (dmerge ?own con) (sl_environment sl)) (overriding sl name))"
    using assms(1) by (auto simp: service_values_def overriding_def Let_def rbind_Inr_iff)
  have own: "distinct (keys ?own)" "dget ?own k = map_option (render_text (replacements sl name service c)) (dget (cp_environment c) k)" for k
    using assms(2) by (simp_all add: render_environment_values_def comp_def case_prod_beta map_of_map)
  have dcon: "distinct (keys con)"
    by (rule rfold_induct [OF con [unfolded internal_connection_environment_def]])
       (auto simp: rbind_Inr_iff intro: distinct_dmerge)
  have "\<forall>k. dget e k = first_of [dget (overriding sl name) k, dget (sl_environment sl) k, dget con k,
       map_option (render_text (replacements sl name service c)) (dget (cp_environment c) k)]"
    unfolding e using own dcon assms(3,4)
    by (auto simp: distinct_dmerge dget_dmerge_distinct first_of_def split: option.split)
  then show ?thesis using con by blast
qed


end
