(* ===== verification/TemplateComments.thy ===== *)
theory TemplateComments
  imports Templates
begin

text \<open>
  The comments of \<open>orchestrator/templates.py\<close>: the paths of a document (\<open>json_structure_paths\<close> of
  \<open>models.py\<close>), the comment the renderer writes for each of them, and the YAML text in which every
  comment stands before the line of its path. The Chinese comments are given by ASCII glosses.
\<close>

section \<open>Paths\<close>

definition child_path :: "string \<Rightarrow> value \<Rightarrow> string" where
  "child_path path key = path @ ''.'' @ py_str key"

definition element_path :: "string \<Rightarrow> nat \<Rightarrow> string" where
  "element_path path i = path @ ''['' @ str_nat i @ '']''"

text \<open>Every object and array element under its path, in the order of the visit.\<close>

function path_values :: "value \<Rightarrow> string \<Rightarrow> (string \<times> value) list"
  and path_values_items :: "mapping \<Rightarrow> string \<Rightarrow> (string \<times> value) list"
  and path_values_list :: "value list \<Rightarrow> string \<Rightarrow> nat \<Rightarrow> (string \<times> value) list" where
  "path_values v path =
     (path, v) #
     (case v of VDict d \<Rightarrow> path_values_items d path | VList xs \<Rightarrow> path_values_list xs path 0 | _ \<Rightarrow> [])"
| "path_values_items [] path = []"
| "path_values_items ((k, v) # d) path = path_values v (child_path path k) @ path_values_items d path"
| "path_values_list [] path i = []"
| "path_values_list (x # xs) path i = path_values x (element_path path i) @ path_values_list xs path (Suc i)"
  by pat_completeness auto
termination
  by (relation "measure (case_sum (\<lambda>(v, _). size v)
       (case_sum (\<lambda>(d, _). size_list (size_prod size size) d) (\<lambda>(xs, _, _). size_list size xs)))") auto

text \<open>\<open>_json_paths\<close> and \<open>json_structure_paths\<close>.\<close>

definition json_structure_paths :: "value \<Rightarrow> string list" where
  "json_structure_paths v = map fst (path_values v ''$'')"

section \<open>The comment of a path\<close>

definition SECRET_MARKERS :: "string list" where
  "SECRET_MARKERS = [''PASSWORD'', ''SECRET'', ''TOKEN'', ''KEY'']"

definition names_secret :: "string \<Rightarrow> bool" where
  "names_secret key = list_ex (\<lambda>m. contains key m) SECRET_MARKERS"

text \<open>\<open>path.rsplit(".", 1)[-1]\<close>.\<close>

definition last_name :: "string \<Rightarrow> string" where
  "last_name path = snd (rsplit_once (CHR ''.'') path)"

definition environment_comment :: "string \<Rightarrow> string" where
  "environment_comment path =
     (let key = upper (last_name path) in
      if names_secret key
      then ''Secret variable '' @ key @ ''; keep only the reference, never a real secret.''
      else ''Environment variable '' @ key @ ''; confirm its value from the sources and the start of the container.'')"

definition under :: "string \<Rightarrow> string \<Rightarrow> bool" where
  "under path field \<longleftrightarrow> ends_with path (''.'' @ field) \<or> contains path (''.'' @ field @ ''.'')"

definition listed :: "string \<Rightarrow> string \<Rightarrow> bool" where
  "listed path field \<longleftrightarrow> contains path (''.'' @ field @ ''['')"

definition describe_path :: "string \<Rightarrow> value \<Rightarrow> string" where
  "describe_path path v =
     (if path = ''$'' then ''The complete Compose delivery document; check services, ports, dependencies, persistence and secrets.''
      else if path = ''$.version'' then ''The Compose file version is fixed to \"3.9\".''
      else if path = ''$.name'' then ''The Compose name of the application; it isolates services and networks.''
      else if path = ''$.services'' then ''Declare the services the project needs and no others.''
      else if ends_with path ''.image'' then ''Pinned image; confirm architecture, runtime version and Harbor image.''
      else if ends_with path ''.build'' then ''Local source build; each service has its own build.context and build.dockerfile.''
      else if ends_with path ''.build.context'' then ''Relative build context inside the repository or the workspace.''
      else if ends_with path ''.build.dockerfile'' then ''A Dockerfile that exists in the build context of the service.''
      else if ends_with path ''.ports'' then ''External ports asked for; published ports are reassigned, target ports must be exact.''
      else if listed path ''ports'' then ''External port asked for; the host port may be rewritten, the container port must be the one listened on.''
      else if ends_with path ''.expose'' \<or> listed path ''expose'' then ''Internal network only; no entry for browsers.''
      else if ends_with path ''.environment'' then ''Environment of the service; real secrets are injected by the deployment.''
      else if contains path ''.environment.'' then environment_comment path
      else if ends_with path ''.volumes'' then ''Persistent mounts; confirm the directories of the container.''
      else if listed path ''volumes'' then ''Persistent volume; use named volumes of the application.''
      else if under path ''depends_on'' then ''Dependencies; declare real ones, health conditions need a healthcheck.''
      else if under path ''healthcheck'' then ''Health check; verify the protocol and readiness of the service.''
      else if ends_with path ''.working_dir'' then ''Working directory; /workspace holds the snapshot of the uploaded files.''
      else if ends_with path ''.command'' \<or> listed path ''command'' then ''Start command; must fit the entry point and the port.''
      else if ends_with path ''.restart'' then ''Restart policy of the service.''
      else if under path ''deploy'' then ''Swarm parameters; confirm replicas, resources and restarts.''
      else if is_mapping v then ''Configuration object; confirm its fields with the sources.''
      else if is_list v then ''Ordered list; keep the order and completeness the project needs.''
      else ''Generated Compose field; confirm it before delivery.'')"

text \<open>Of two equal paths, which only keys with dots or brackets can give, the later comment stays.\<close>

definition compose_line_comments :: "value \<Rightarrow> (string, string) dict" where
  "compose_line_comments document =
     dmerge [] (map (\<lambda>(path, v). (path, describe_path path v)) (path_values document ''$''))"

definition compose_json_with_comments :: "catalog \<Rightarrow> compose_request \<Rightarrow> (mapping \<times> (string, string) dict) res" where
  "compose_json_with_comments ct rq =
     rbind (compose ct rq) (\<lambda>document. Inr (document, compose_line_comments (VDict document)))"

section \<open>Commented YAML\<close>

text \<open>Blank lines are dropped, among them the empty piece inside a carriage return and line feed.\<close>

definition comment_lines :: "(string, string) dict \<Rightarrow> string \<Rightarrow> nat \<Rightarrow> string list" where
  "comment_lines comments path indent =
     (let comment = strip (case dget comments path of None \<Rightarrow> [] | Some c \<Rightarrow> c) in
      map (\<lambda>l. replicate indent (CHR '' '') @ ''# '' @ strip l)
        (filter (\<lambda>l. strip l \<noteq> []) (line_pieces comment)))"

text \<open>\<open>json.dumps(s, ensure_ascii=False)\<close>: the delete character is written as it is.\<close>

definition json_plain :: "string \<Rightarrow> string" where
  "json_plain s = CHR 0x22 # concat (map (\<lambda>c. if code c = 127 then [c] else json_char c) s) @ [CHR 0x22]"

text \<open>\<open>yaml.safe_dump(value, default_flow_style=True)\<close> of a value that is no text.\<close>

type_synonym flow_dump = "value \<Rightarrow> string"

definition rstrip :: "string \<Rightarrow> string" where
  "rstrip s = rev (lstrip (rev s))"

definition yaml_scalar :: "flow_dump \<Rightarrow> value \<Rightarrow> string" where
  "yaml_scalar dump v =
     (case v of
        VStr s \<Rightarrow> json_plain s
      | VNull \<Rightarrow> ''null''
      | _ \<Rightarrow>
          (let rendered = strip (dump v) in
           if ends_with rendered (CHR 0x0A # ''...'') then rstrip (take (length rendered - 4) rendered)
           else rendered))"

definition KEY_RX :: rx where
  "KEY_RX = Plus (Cls (\<lambda>c. is_alnum c \<or> one_of ''_.-'' c))"

definition yaml_key :: "flow_dump \<Rightarrow> value \<Rightarrow> string" where
  "yaml_key dump k = (if is_str k \<and> fullmatch KEY_RX (the_str k) then the_str k else yaml_scalar dump k)"

fun container :: "value \<Rightarrow> bool" where
  "container (VDict d) = (d \<noteq> [])" | "container (VList xs) = (xs \<noteq> [])" | "container _ = False"

text \<open>\<open>render\<close> without the comment of the value itself, which only the document writes.\<close>

function render_value :: "flow_dump \<Rightarrow> (string, string) dict \<Rightarrow> value \<Rightarrow> string \<Rightarrow> nat \<Rightarrow> string list"
  and render_items :: "flow_dump \<Rightarrow> (string, string) dict \<Rightarrow> mapping \<Rightarrow> string \<Rightarrow> nat \<Rightarrow> string list"
  and render_elements :: "flow_dump \<Rightarrow> (string, string) dict \<Rightarrow> value list \<Rightarrow> string \<Rightarrow> nat \<Rightarrow> nat \<Rightarrow> string list" where
  "render_value dump comments v path indent =
     (case v of
        VDict d \<Rightarrow>
          if d = [] then [replicate indent (CHR '' '') @ ''{}''] else render_items dump comments d path indent
      | VList xs \<Rightarrow>
          if xs = [] then [replicate indent (CHR '' '') @ ''[]''] else render_elements dump comments xs path indent 0
      | _ \<Rightarrow> [replicate indent (CHR '' '') @ yaml_scalar dump v])"
| "render_items dump comments [] path indent = []"
| "render_items dump comments ((k, v) # d) path indent =
     comment_lines comments (child_path path k) indent
     @ (if container v
        then (replicate indent (CHR '' '') @ yaml_key dump k @ '':'')
             # render_value dump comments v (child_path path k) (indent + 2)
        else [replicate indent (CHR '' '') @ yaml_key dump k @ '': '' @ yaml_scalar dump v])
     @ render_items dump comments d path indent"
| "render_elements dump comments [] path indent i = []"
| "render_elements dump comments (x # xs) path indent i =
     comment_lines comments (element_path path i) indent
     @ (if container x
        then (replicate indent (CHR '' '') @ ''-'')
             # render_value dump comments x (element_path path i) (indent + 2)
        else [replicate indent (CHR '' '') @ ''- '' @ yaml_scalar dump x])
     @ render_elements dump comments xs path indent (Suc i)"
  by pat_completeness auto
termination
  by (relation "measure (case_sum (\<lambda>(_, _, v, _). size v)
       (case_sum (\<lambda>(_, _, d, _). size_list (size_prod size size) d) (\<lambda>(_, _, xs, _). size_list size xs)))") auto

definition commented_lines :: "flow_dump \<Rightarrow> (string, string) dict \<Rightarrow> value \<Rightarrow> string list" where
  "commented_lines dump comments document =
     comment_lines comments ''$'' 0 @ render_value dump comments document ''$'' 0"

definition commented_text :: "flow_dump \<Rightarrow> (string, string) dict \<Rightarrow> value \<Rightarrow> string" where
  "commented_text dump comments document =
     join [CHR 0x0A] (commented_lines dump comments document) @ [CHR 0x0A]"

definition render_commented_data ::
  "yaml_library \<Rightarrow> flow_dump \<Rightarrow> value \<Rightarrow> (string, string) dict \<Rightarrow> string res" where
  "render_commented_data yl dump document comments =
     (if \<not> is_mapping document then template_error ''Commented YAML document must be a mapping''
      else
        (let rendered = commented_text dump comments document in
         case yl_load yl rendered of
           Inl m \<Rightarrow> template_error (''Generated commented YAML is invalid: '' @ m)
         | Inr parsed \<Rightarrow>
             if \<not> py_eq parsed document
             then template_error ''Generated commented YAML did not round-trip cleanly''
             else Inr rendered))"

definition render_commented_yaml ::
  "yaml_library \<Rightarrow> flow_dump \<Rightarrow> value \<Rightarrow> (string, string) dict \<Rightarrow> string res" where
  "render_commented_yaml yl dump document comments =
     rbind (validate_compose_document document) (\<lambda>_.
     render_commented_data yl dump document
       (if comments \<noteq> [] then comments else compose_line_comments document))"

end
