(* ===== verification/CommentSafety.thy ===== *)
theory CommentSafety
  imports TemplateComments
begin

text \<open>
  The YAML text in which every path of a document has its comment: its lines, and that comments only
  ever add comment lines to it.
\<close>

section \<open>Comments and the text of a document\<close>

definition is_comment :: "string \<Rightarrow> bool" where
  "is_comment l \<longleftrightarrow> (case lstrip l of [] \<Rightarrow> False | c # _ \<Rightarrow> c = CHR ''#'')"

definition one_line :: "string \<Rightarrow> bool" where
  "one_line l \<longleftrightarrow> (\<forall>c\<in>set l. \<not> line_break c)"

text \<open>One line with a first visible character other than the comment sign.\<close>

definition plain_line :: "string \<Rightarrow> bool" where
  "plain_line l \<longleftrightarrow> one_line l \<and> (case lstrip l of [] \<Rightarrow> False | c # _ \<Rightarrow> c \<noteq> CHR ''#'')"

lemma plain_lineD: "plain_line l \<Longrightarrow> one_line l \<and> \<not> is_comment l"
  by (auto simp: plain_line_def is_comment_def split: list.splits)

lemma lstrip_blanks [simp]: "lstrip (replicate n (CHR '' '') @ s) = lstrip s"
  by (induction n) (simp_all add: lstrip_def is_space_def code_def)

lemma lstrip_append: "lstrip s \<noteq> [] \<Longrightarrow> lstrip (s @ t) = lstrip s @ t"
  by (induction s) (auto simp: lstrip_def)

lemma one_line_append [simp]: "one_line (s @ t) \<longleftrightarrow> one_line s \<and> one_line t"
  by (auto simp: one_line_def)

lemma one_line_blanks [simp]: "one_line (replicate n (CHR '' ''))"
  by (simp add: one_line_def line_break_def code_def)

lemma plain_line_extend: "plain_line s \<Longrightarrow> one_line t \<Longrightarrow> plain_line (replicate n (CHR '' '') @ s @ t)"
  by (auto simp: plain_line_def lstrip_append split: list.splits)

lemma plain_line_indent: "plain_line s \<Longrightarrow> plain_line (replicate n (CHR '' '') @ s)"
  using plain_line_extend [of s "[]" n] by (simp add: one_line_def)

lemma lstrip_suffix: "suffix (lstrip s) s"
  unfolding lstrip_def by (rule suffix_dropWhile)

lemma set_strip: "set (strip s) \<subseteq> set s"
proof -
  have "set (lstrip t) \<subseteq> set t" for t by (rule set_mono_suffix [OF lstrip_suffix])
  then show ?thesis unfolding strip_def by (metis order_trans set_rev)
qed

lemma one_line_Cons: "one_line (c # s) \<longleftrightarrow> \<not> line_break c \<and> one_line s"
  by (auto simp: one_line_def)

lemma one_line_Nil: "one_line []"
  by (simp add: one_line_def)

lemma one_line_pieces: "\<forall>p\<in>set (line_pieces s). one_line p"
  by (induction s) (auto simp: one_line_Cons one_line_Nil split: list.split)

lemma comment_lines_comments:
  assumes "l \<in> set (comment_lines comments path indent)"
  shows "one_line l \<and> is_comment l"
proof -
  obtain p where p: "one_line p" "l = replicate indent (CHR '' '') @ ''# '' @ strip p"
    using assms one_line_pieces by (auto simp: comment_lines_def Let_def)
  have "one_line (strip p)" using p(1) set_strip by (auto simp: one_line_def)
  then have "one_line l" by (simp add: p(2)) (simp add: one_line_def line_break_def code_def)
  moreover have "is_comment l"
    unfolding p(2) is_comment_def lstrip_blanks by (simp add: lstrip_def is_space_def code_def)
  ultimately show ?thesis by simp
qed

lemma no_comment_lines [simp]: "comment_lines [] path indent = []"
  by (simp add: comment_lines_def strip_def lstrip_def)

text \<open>What is assumed of the YAML library: a value that is no text and holds nothing is written in one
  line.\<close>

definition flow_ok :: "flow_dump \<Rightarrow> bool" where
  "flow_ok dump \<longleftrightarrow> (\<forall>v. \<not> is_str v \<and> \<not> container v \<longrightarrow> plain_line (yaml_scalar dump v))"

lemma visible_no_break: "32 \<le> code d \<Longrightarrow> \<not> line_break d"
  by (simp add: line_break_def)

lemma literal_codes:
  "code (CHR 0x5C) = 92" "code (CHR 0x22) = 34" "code (CHR ''n'') = 110" "code (CHR ''r'') = 114"
  "code (CHR ''t'') = 116" "code (CHR ''f'') = 102" "code (CHR ''b'') = 98" "code (CHR ''u'') = 117"
  "code (CHR ''0'') = 48" "code (CHR ''l'') = 108" "code (CHR ''#'') = 35" "code (CHR '':'') = 58"
  "code (CHR '' '') = 32" "code (CHR ''-'') = 45" "code (CHR ''{'') = 123" "code (CHR ''}'') = 125"
  "code (CHR ''['') = 91" "code (CHR '']'') = 93" "code (CHR ''_'') = 95" "code (CHR ''.'') = 46"
  by (simp_all add: code_def)

lemma json_char_visible: "\<forall>d\<in>set (if code c = 127 then [c] else json_char c). 32 \<le> code d"
proof -
  have "\<forall>d\<in>set (hex_byte (code c)). 32 \<le> code d"
    using hex_byte_hex [OF code_less] by (fastforce simp: is_hex_def is_digit_def in_range_def)
  then show ?thesis by (simp add: json_char_def literal_codes)
qed

lemma plain_json: "plain_line (json_plain s)"
proof -
  let ?f = "\<lambda>c. if code c = 127 then [c] else json_char c"
  have "\<forall>d\<in>set (concat (map ?f s)). 32 \<le> code d"
  proof
    fix d assume "d \<in> set (concat (map ?f s))"
    then obtain c where "d \<in> set (?f c)" by (auto simp only: set_concat set_map)
    then show "32 \<le> code d" using json_char_visible by blast
  qed
  then have "\<forall>d\<in>set (json_plain s). 32 \<le> code d"
    unfolding json_plain_def by (auto simp only: set_append list.set literal_codes)
  then have "one_line (json_plain s)" by (simp add: one_line_def visible_no_break)
  moreover have "lstrip (json_plain s) = json_plain s"
    by (simp add: json_plain_def lstrip_def is_space_def literal_codes)
  ultimately show ?thesis by (simp add: plain_line_def json_plain_def)
qed

lemma plain_scalar: "flow_ok dump \<Longrightarrow> \<not> container v \<Longrightarrow> plain_line (yaml_scalar dump v)"
  by (cases v) (simp_all add: flow_ok_def, simp add: yaml_scalar_def plain_json)

definition name_char :: "char \<Rightarrow> bool" where
  "name_char c \<longleftrightarrow> is_alnum c \<or> one_of ''_.-'' c"

lemma name_char:
  assumes "name_char c"
  shows "\<not> line_break c" and "\<not> is_space c" and "c \<noteq> CHR ''#''"
proof -
  have "35 < code c"
    using assms by (auto simp: name_char_def is_alnum_def is_alpha_def is_upper_def is_lower_def is_digit_def
      in_range_def one_of_def literal_codes)
  then show "\<not> line_break c" "\<not> is_space c" "c \<noteq> CHR ''#''"
    by (auto simp: line_break_def is_space_def literal_codes)
qed

lemma plain_key:
  assumes "flow_ok dump" and "\<not> container k"
  shows "plain_line (yaml_key dump k)"
proof (cases "is_str k \<and> fullmatch KEY_RX (the_str k)")
  case True
  then have "the_str k \<in> lang KEY_RX" by (simp add: fullmatch_iff)
  then have "the_str k \<noteq> []" "\<forall>c\<in>set (the_str k). name_char c"
    by (auto simp: KEY_RX_def name_char_def)
  then have "plain_line (the_str k)"
    by (cases "the_str k") (auto simp: plain_line_def one_line_def lstrip_def dest: name_char)
  then show ?thesis using True by (simp add: yaml_key_def)
qed (use assms plain_scalar in \<open>auto simp: yaml_key_def\<close>)

text \<open>The keys of a mapping hold nothing: lists and mappings are no keys.\<close>

definition plain_keys :: "value \<Rightarrow> bool" where
  "plain_keys v \<longleftrightarrow> (\<forall>d. v = VDict d \<longrightarrow> list_all (\<lambda>k. \<not> container k) (keys d))"

abbreviation visible :: "string list \<Rightarrow> string list" where
  "visible \<equiv> filter (\<lambda>l. \<not> is_comment l)"

lemma visible_comments [simp]: "visible (comment_lines comments path indent) = []"
  by (auto simp: filter_empty_conv dest: comment_lines_comments)

lemma plain_marks: "plain_line ''-''" "plain_line ''{}''" "plain_line ''[]''"
  by (simp_all add: plain_line_def one_line_def lstrip_def is_space_def line_break_def literal_codes)

lemma one_line_marks: "one_line '':''" "one_line '': ''" "one_line '' ''"
  by (simp_all add: one_line_def line_break_def literal_codes)

lemma plain_entry:
  assumes "plain_line key"
  shows "plain_line (replicate n (CHR '' '') @ key @ '':'')"
    and "one_line s \<Longrightarrow> plain_line (replicate n (CHR '' '') @ key @ '': '' @ s)"
    and "one_line s \<Longrightarrow> plain_line (replicate n (CHR '' '') @ key @ '' '' @ s)"
  using assms one_line_marks by (simp_all only: plain_line_extend one_line_append)

lemma plain_item: "one_line s \<Longrightarrow> plain_line (replicate n (CHR '' '') @ ''- '' @ s)"
  using plain_entry(3) [OF plain_marks(1), of s n] by simp

text \<open>\<open>L\<close> is \<open>M\<close> with comment lines among its lines.\<close>

definition commented :: "string list \<Rightarrow> string list \<Rightarrow> bool" where
  "commented L M \<longleftrightarrow> visible L = M \<and> list_all one_line L"

lemma commented_append: "commented L M \<Longrightarrow> commented L' M' \<Longrightarrow> commented (L @ L') (M @ M')"
  by (auto simp: commented_def)

lemma commented_comments: "commented (comment_lines comments path i) []"
  by (auto simp: commented_def list_all_iff dest: comment_lines_comments)

lemma commented_plain: "plain_line l \<Longrightarrow> commented L M \<Longrightarrow> commented (l # L) (l # M)"
  by (auto simp: commented_def dest: plain_lineD)

lemma commented_Nil: "commented [] []"
  by (simp add: commented_def)

lemma commented_step:
  assumes "commented B B'" and "commented R R'"
  shows "commented (comment_lines comments path i @ B @ R) (B' @ R')"
  using commented_append [OF commented_comments commented_append [OF assms]] by simp

declare render_value.simps [simp del] path_values.simps [simp del]

definition keys_below :: "(string \<times> value) list \<Rightarrow> bool" where
  "keys_below ps \<longleftrightarrow> list_all (\<lambda>(_, v). plain_keys v) ps"

lemma keys_below_simps [simp]:
  "keys_below (p @ q) \<longleftrightarrow> keys_below p \<and> keys_below q" "keys_below []"
  by (auto simp: keys_below_def)

lemma keys_below_value:
  "keys_below (path_values (VDict d) path) \<longleftrightarrow>
     list_all (\<lambda>k. \<not> container k) (keys d) \<and> keys_below (path_values_items d path)"
  "keys_below (path_values (VList xs) path) \<longleftrightarrow> keys_below (path_values_list xs path 0)"
  by (simp_all add: path_values.simps keys_below_def plain_keys_def)

lemma render_commented:
  "flow_ok dump \<Longrightarrow> keys_below (path_values v path) \<Longrightarrow>
     commented (render_value dump comments v path i) (render_value dump [] v path i)"
  "flow_ok dump \<Longrightarrow> keys_below (path_values_items d path) \<Longrightarrow> list_all (\<lambda>k. \<not> container k) (keys d) \<Longrightarrow>
     commented (render_items dump comments d path i) (render_items dump [] d path i)"
  "flow_ok dump \<Longrightarrow> keys_below (path_values_list xs path j) \<Longrightarrow>
     commented (render_elements dump comments xs path i j) (render_elements dump [] xs path i j)"
proof (induction dump comments v path i and dump comments d path i and dump comments xs path i j
    rule: render_value_render_items_render_elements.induct)
  case (1 dump comments v path i)
  have scalar: "commented [replicate i (CHR '' '') @ yaml_scalar dump v] [replicate i (CHR '' '') @ yaml_scalar dump v]"
    if "\<not> container v"
    using that "1.prems"(1) by (intro commented_plain commented_Nil plain_line_indent plain_scalar)
  show ?case
  proof (cases v)
    case (VDict d)
    then show ?thesis using 1 plain_marks
      by (auto simp: render_value.simps keys_below_value intro!: commented_plain commented_Nil plain_line_indent)
  next
    case (VList xs)
    then show ?thesis using 1 plain_marks
      by (auto simp: render_value.simps keys_below_value intro!: commented_plain commented_Nil plain_line_indent)
  qed (use scalar in \<open>simp_all add: render_value.simps\<close>)
next
  case (3 dump comments k v d path i)
  have key: "plain_line (yaml_key dump k)" using 3 by (intro plain_key) auto
  have rest: "commented (render_items dump comments d path i) (render_items dump [] d path i)"
    using 3 by simp
  show ?case
  proof (cases "container v")
    case True
    then have "commented (render_value dump comments v (child_path path k) (i + 2)) (render_value dump [] v (child_path path k) (i + 2))"
      using 3 by simp
    then have "commented ((replicate i (CHR '' '') @ yaml_key dump k @ '':'') # render_value dump comments v (child_path path k) (i + 2))
        ((replicate i (CHR '' '') @ yaml_key dump k @ '':'') # render_value dump [] v (child_path path k) (i + 2))"
      by (intro commented_plain plain_entry(1) key)
    from commented_step [OF this rest] show ?thesis using True by simp
  next
    case False
    have "one_line (yaml_scalar dump v)" using plain_scalar [OF _ False] 3 plain_lineD by blast
    then have "commented [replicate i (CHR '' '') @ yaml_key dump k @ '': '' @ yaml_scalar dump v]
        [replicate i (CHR '' '') @ yaml_key dump k @ '': '' @ yaml_scalar dump v]"
      by (intro commented_plain commented_Nil plain_entry(2) key)
    from commented_step [OF this rest] show ?thesis using False by simp
  qed
next
  case (5 dump comments x xs path i j)
  have rest: "commented (render_elements dump comments xs path i (Suc j)) (render_elements dump [] xs path i (Suc j))"
    using 5 by simp
  show ?case
  proof (cases "container x")
    case True
    then have "commented (render_value dump comments x (element_path path j) (i + 2)) (render_value dump [] x (element_path path j) (i + 2))"
      using 5 by simp
    then have "commented ((replicate i (CHR '' '') @ ''-'') # render_value dump comments x (element_path path j) (i + 2))
        ((replicate i (CHR '' '') @ ''-'') # render_value dump [] x (element_path path j) (i + 2))"
      by (intro commented_plain plain_line_indent plain_marks)
    from commented_step [OF this rest] show ?thesis using True by simp
  next
    case False
    have "one_line (yaml_scalar dump x)" using plain_scalar [OF _ False] 5 plain_lineD by blast
    then have "commented [replicate i (CHR '' '') @ ''- '' @ yaml_scalar dump x]
        [replicate i (CHR '' '') @ ''- '' @ yaml_scalar dump x]"
      by (intro commented_plain commented_Nil plain_item)
    from commented_step [OF this rest] show ?thesis using False by simp
  qed
qed (simp_all add: commented_Nil)

lemma line_pieces_join:
  "list_all one_line ls \<Longrightarrow> ls \<noteq> [] \<Longrightarrow> line_pieces (join [CHR 0x0A] ls @ [CHR 0x0A]) = ls @ [[]]"
proof -
  have break: "line_break (CHR 0x0A)" by (simp add: line_break_def code_def)
  have piece: "one_line l \<Longrightarrow> line_pieces (l @ CHR 0x0A # t) = l # line_pieces t" for l t
    by (induction l) (simp_all add: one_line_Cons break)
  assume "list_all one_line ls" "ls \<noteq> []"
  then show ?thesis
    by (induction ls rule: induct_list012) (simp_all add: piece)
qed

lemma render_nonempty: "render_value dump comments v path i \<noteq> []"
  by (cases v; cases "the_dict v"; cases "the_list v") (auto simp: render_value.simps split: if_splits)

text \<open>
  C26: whatever the comments are, and however many lines they have, the commented text of a document
  is the text without comments with comment lines added: no comment can change the document.
\<close>

theorem comments_never_change_document:
  assumes "flow_ok dump" and "\<forall>(_, v)\<in>set (path_values document ''$''). plain_keys v"
  shows "filter (\<lambda>l. \<not> is_comment l) (line_pieces (commented_text dump comments document)) =
    line_pieces (commented_text dump [] document)"
proof -
  have all: "commented (commented_lines dump cs document) (render_value dump [] document ''$'' 0)" for cs
    using commented_append [OF commented_comments render_commented(1) [OF assms(1)]] assms(2)
    unfolding commented_lines_def keys_below_def list_all_iff by simp
  have pieces: "line_pieces (commented_text dump cs document) = commented_lines dump cs document @ [[]]" for cs
    unfolding commented_text_def
    by (rule line_pieces_join) (use all in \<open>simp_all add: commented_def commented_lines_def render_nonempty\<close>)
  show ?thesis
    using all [of comments] unfolding pieces by (simp add: commented_def is_comment_def lstrip_def commented_lines_def [of _ "[]"])
qed

theorem comments_never_change_document_witness:
  "filter (\<lambda>l. \<not> is_comment l) (line_pieces (commented_text (\<lambda>_. ''1'') [(''$.a'', ''one'' @ [CHR 0x0A] @ ''b: 2'')]
       (VDict [(VStr ''a'', VList [VInt 1])]))) = [''a:'', ''  - 1'', []]"
proof -
  have ok: "flow_ok (\<lambda>_. ''1'')"
    by (auto simp: flow_ok_def yaml_scalar_def plain_line_def one_line_def line_break_def strip_def lstrip_def
        is_space_def code_def ends_with_def suffix_def split: "value.split")
  have keys: "\<forall>(_, v)\<in>set (path_values (VDict [(VStr ''a'', VList [VInt 1])]) ''$''). plain_keys v"
    by (simp add: path_values.simps plain_keys_def)
  have "line_pieces (commented_text (\<lambda>_. ''1'') [] (VDict [(VStr ''a'', VList [VInt 1])])) = [''a:'', ''  - 1'', []]"
    by code_simp
  then show ?thesis using comments_never_change_document [OF ok keys] by simp
qed


end
