(* ===== verification/TechStacks.thy ===== *)
theory TechStacks
  imports TemplateComments Repository
begin

text \<open>
  \<open>TechStackService\<close> of \<open>orchestrator/services.py\<close>, with the documents \<open>TechStackCreate\<close> and
  \<open>TechStackUpdate\<close> of \<open>models.py\<close>: technology stacks are kept in the repository and projected into
  the catalog the Compose documents are rendered from. The state of the service is the repository's
  world and the catalog. The Chinese comments are given by ASCII glosses.
\<close>

type_synonym stack_state = "world \<times> catalog"

definition in_store :: "(world, 'a) action \<Rightarrow> (stack_state, 'a) action" where
  "in_store m = (\<lambda>(w, ct). case m w of (r, w') \<Rightarrow> (r, (w', ct)))"

definition in_catalog :: "(catalog, 'a) action \<Rightarrow> (stack_state, 'a) action" where
  "in_catalog m = (\<lambda>(w, ct). case m ct of (r, ct') \<Rightarrow> (r, (w, ct')))"

text \<open>The YAML library: \<open>safe_dump\<close> and \<open>safe_load\<close>, and \<open>safe_dump\<close> in flow style.\<close>

record stack_env =
  se_yaml :: yaml_library
  se_flow :: flow_dump

section \<open>Comments\<close>

text \<open>\<open>sorted(set(comments) - set(paths))\<close>.\<close>

definition unknown_paths :: "(string, string) dict \<Rightarrow> string list \<Rightarrow> string list" where
  "unknown_paths comments paths = sort (filter (\<lambda>p. p \<notin> set paths) (keys comments))"

definition aligned_comments :: "(string, string) dict \<Rightarrow> string list \<Rightarrow> (string, string) dict" where
  "aligned_comments comments paths =
     dmerge [] (map (\<lambda>p. (p, case dget comments p of None \<Rightarrow> [] | Some c \<Rightarrow> c)) paths)"

definition unknown_paths_text :: "(string, string) dict \<Rightarrow> string list \<Rightarrow> string" where
  "unknown_paths_text comments paths =
     ''line_comments contains unknown JSON paths: '' @ join '', '' (unknown_paths comments paths)"

definition stack_comments :: "value \<Rightarrow> (string, string) dict \<Rightarrow> (string, string) dict res" where
  "stack_comments json comments =
     (let paths = json_structure_paths json in
      if unknown_paths comments paths \<noteq> [] then template_error (unknown_paths_text comments paths)
      else Inr (aligned_comments comments paths))"

definition default_comment :: "string \<Rightarrow> string \<Rightarrow> value \<Rightarrow> string" where
  "default_comment stack path v =
     (if path = ''$'' then stack @ '' stack: the complete component; check it against the needs of the project.''
      else if path = ''$.images'' then ''Pinned base images to choose from for the Dockerfile.''
      else if starts_with path ''$.images['' then ''Candidate image '' @ py_str v @ ''; confirm architecture and runtime version.''
      else if path = ''$.build'' then ''Local source build; every service gives build.context and build.dockerfile.''
      else if path = ''$.build.context'' then ''Relative build context inside the repository or the workspace.''
      else if path = ''$.build.dockerfile'' then ''A Dockerfile that exists in the build context.''
      else if path = ''$.port'' then ''Main port the service listens on in the container.''
      else if path = ''$.ports'' then ''Ports of the container; confirm use and publication of each.''
      else if starts_with path ''$.ports['' then ''Container port '' @ py_str v @ ''; map it to the host only for external access.''
      else if path = ''$.publish_ports'' then ''Whether host ports are mapped; keep it off for databases.''
      else if path = ''$.working_dir'' then ''Working directory; /workspace holds the snapshot of the uploaded files.''
      else if path = ''$.restart'' then ''Restart policy of the container.''
      else if path = ''$.command'' then ''Arguments that replace the default command of the image.''
      else if starts_with path ''$.command['' then ''Command argument '' @ py_str v @ ''; the order matters.''
      else if path = ''$.environment'' then ''Environment of the service; secrets are injected by the deployment.''
      else if starts_with path ''$.environment.'' then
        (let variable = last_name path in
         if names_secret (upper variable)
         then ''Secret variable '' @ variable @ ''; keep only the reference.''
         else ''Environment variable '' @ variable @ ''; confirm its value.'')
      else if path = ''$.volumes'' then ''Persistent mounts; state must survive a new container.''
      else if listed path ''volumes'' \<and> ends_with path ''.source'' then ''Logical volume name; made unique for application and service.''
      else if listed path ''volumes'' \<and> ends_with path ''.target'' then ''Persistent directory '' @ py_str v @ '' of the container.''
      else if starts_with path ''$.volumes['' then ''One persistent mount: volume and target directory.''
      else if path = ''$.healthcheck'' then ''Readiness probe; dependents wait for it.''
      else if path = ''$.healthcheck.test'' then ''Health check command with its arguments.''
      else if starts_with path ''$.healthcheck.test['' then ''Part '' @ py_str v @ '' of the health check command.''
      else if path = ''$.healthcheck.interval'' then ''Time between two health checks.''
      else if path = ''$.healthcheck.timeout'' then ''Longest time of one health check.''
      else if path = ''$.healthcheck.retries'' then ''Failures in a row until the service is unhealthy.''
      else if path = ''$.healthcheck.start_period'' then ''Grace period after the start.''
      else if path = ''$.connection'' then ''How other services connect to this one.''
      else if path = ''$.connection.environment'' then ''Connection variables given to dependents.''
      else if starts_with path ''$.connection.environment.'' then
        ''Injects '' @ last_name path @ '' into dependents with the host and port of the service.''
      else if is_mapping v then stack @ '' stack: object at '' @ path @ ''; confirm its fields.''
      else if is_list v then stack @ '' stack: ordered list at '' @ path @ ''; keep a valid order.''
      else stack @ '' stack: field '' @ path @ '', suggested value '' @ py_str v @ ''; confirm it before delivery.'')"

definition default_comments :: "string \<Rightarrow> value \<Rightarrow> (string, string) dict" where
  "default_comments stack json =
     dmerge [] (map (\<lambda>(path, v). (path, default_comment stack path v)) (path_values json ''$''))"

definition merge_default_comments :: "string \<Rightarrow> value \<Rightarrow> (string, string) dict \<Rightarrow> (string, string) dict" where
  "merge_default_comments stack json own =
     foldl (\<lambda>comments (path, c).
        if path \<in> set (keys comments) \<and> strip c \<noteq> [] then dset comments path c else comments)
       (default_comments stack json) own"

section \<open>Records\<close>

record stack_payload =
  sp_id :: string
  sp_name :: string
  sp_yaml :: string
  sp_json :: "value"
  sp_comments :: "(string, string) dict"

text \<open>The fields of \<open>TechStackCreate\<close> and its validator; pydantic's error is a \<open>ValueError\<close>.\<close>

definition stack_fields_ok :: "stack_payload \<Rightarrow> bool" where
  "stack_fields_ok p \<longleftrightarrow>
     1 \<le> length (sp_id p) \<and> length (sp_id p) \<le> 64 \<and> fullmatch STACK_ID_PATTERN (sp_id p) \<and>
     1 \<le> length (sp_name p) \<and> length (sp_name p) \<le> 128 \<and> 1 \<le> length (sp_yaml p) \<and> is_mapping (sp_json p)"

definition new_payload :: "stack_env \<Rightarrow> stack_payload \<Rightarrow> stack_payload res" where
  "new_payload env p =
     (if \<not> stack_fields_ok p then Inl (Exn ValueError ''technology stack fields are invalid'')
      else
        (case yl_load (se_yaml env) (sp_yaml p) of
           Inl m \<Rightarrow> Inl (Exn ValueError (''yaml_original is invalid YAML: '' @ m))
         | Inr parsed \<Rightarrow>
             if \<not> py_eq parsed (sp_json p)
             then Inl (Exn ValueError ''yaml_original must parse to exactly json_data'')
             else
               (let paths = json_structure_paths (sp_json p) in
                if unknown_paths (sp_comments p) paths \<noteq> []
                then Inl (Exn ValueError (unknown_paths_text (sp_comments p) paths))
                else Inr (p\<lparr>sp_comments := aligned_comments (sp_comments p) paths\<rparr>))))"

definition chosen_comments :: "(string, string) dict \<Rightarrow> (string, string) dict \<Rightarrow> (string, string) dict" where
  "chosen_comments supplied defaults =
     map (\<lambda>(path, c). (path, case dget supplied path of
        Some s \<Rightarrow> if strip s \<noteq> [] then s else c | None \<Rightarrow> c)) defaults"

text \<open>\<open>_record\<close>: the record to store, and the component it stands for.\<close>

definition stack_record ::
  "stack_env \<Rightarrow> stack_payload \<Rightarrow> instant option \<Rightarrow> (stack_state, tech_stack \<times> component) action" where
  "stack_record env p now =
     bd (lift_res (validate_component (sp_id p) (sp_json p))) (\<lambda>c.
     let normalized = VDict (component_value c) in
     bd (lift_res (stack_comments normalized (sp_comments p))) (\<lambda>supplied.
     let comments = chosen_comments supplied (default_comments (sp_id p) normalized) in
     bd (lift_res (render_commented_data (se_yaml env) (se_flow env) normalized comments)) (\<lambda>yaml.
     bd (in_store utc_now) (\<lambda>t.
     let at = (case now of None \<Rightarrow> t | Some n \<Rightarrow> n) in
     ret (\<lparr>ts_id = sp_id p, ts_name = sp_name p, ts_yaml_original = yaml, ts_json_data = normalized,
           ts_line_comments = comments, ts_created_at = at, ts_updated_at = at\<rparr>, c)))))"

text \<open>The fields an update writes.\<close>

record stack_fields =
  sf_name :: "string option"
  sf_yaml :: "string option"
  sf_json :: "value option"
  sf_comments :: "(string, string) dict option"
  sf_updated_at :: "instant option"

definition no_fields :: stack_fields where
  "no_fields = \<lparr>sf_name = None, sf_yaml = None, sf_json = None, sf_comments = None, sf_updated_at = None\<rparr>"

definition or_else :: "'a option \<Rightarrow> 'a \<Rightarrow> 'a" where
  "or_else x d = (case x of None \<Rightarrow> d | Some y \<Rightarrow> y)"

definition with_fields :: "stack_fields \<Rightarrow> tech_stack \<Rightarrow> tech_stack" where
  "with_fields f s = s\<lparr>ts_name := or_else (sf_name f) (ts_name s),
     ts_yaml_original := or_else (sf_yaml f) (ts_yaml_original s),
     ts_json_data := or_else (sf_json f) (ts_json_data s),
     ts_line_comments := or_else (sf_comments f) (ts_line_comments s),
     ts_updated_at := or_else (sf_updated_at f) (ts_updated_at s)\<rparr>"

section \<open>Synchronisation with the catalog\<close>

definition seed_record :: "stack_env \<Rightarrow> catalog \<Rightarrow> string \<Rightarrow> (stack_state, tech_stack) action" where
  "seed_record env ct name =
     bd (lift_res (fetch (ct_components ct) name)) (\<lambda>c.
     let json = VDict (component_value c); comments = default_comments name json in
     bd (lift_res (render_commented_data (se_yaml env) (se_flow env) json comments)) (\<lambda>yaml.
     bd (in_store utc_now) (\<lambda>t.
     ret \<lparr>ts_id = name, ts_name = name, ts_yaml_original = yaml, ts_json_data = json,
          ts_line_comments = comments, ts_created_at = t, ts_updated_at = t\<rparr>)))"

text \<open>All seed records are made before the first is stored.\<close>

definition seed_stacks :: "stack_env \<Rightarrow> (stack_state, tech_stack list) action" where
  "seed_stacks env =
     bd (reading snd) (\<lambda>ct.
     bd (fold_each (catalog_names ct) (\<lambda>n seed. bd (seed_record env ct n) (\<lambda>s. ret (seed @ [s]))) []) (\<lambda>seed.
     andthen (for_each seed (\<lambda>s. bd (in_store (create_tech_stack s)) (\<lambda>_. ret ())))
       (ret seed)))"

text \<open>\<open>==\<close> of two dicts of texts, in whatever order.\<close>

definition same_comments :: "(string, string) dict \<Rightarrow> (string, string) dict \<Rightarrow> bool" where
  "same_comments d e \<longleftrightarrow> length d = length e \<and> list_all (\<lambda>(k, v). dget e k = Some v) d"

definition migrated_fields ::
  "tech_stack \<Rightarrow> value \<Rightarrow> (string, string) dict \<Rightarrow> string \<Rightarrow> stack_fields" where
  "migrated_fields s json comments yaml =
     no_fields\<lparr>sf_json := (if py_eq json (ts_json_data s) then None else Some json),
       sf_comments := (if same_comments comments (ts_line_comments s) then None else Some comments),
       sf_yaml := (if yaml = ts_yaml_original s then None else Some yaml)\<rparr>"

definition migrate_stack :: "stack_env \<Rightarrow> tech_stack \<Rightarrow> (stack_state, tech_stack) action" where
  "migrate_stack env s =
     bd (lift_res (validate_component (ts_id s) (ts_json_data s))) (\<lambda>c.
     let json = VDict (component_value c);
         comments = merge_default_comments (ts_id s) json (ts_line_comments s) in
     bd (lift_res (render_commented_data (se_yaml env) (se_flow env) json comments)) (\<lambda>yaml.
     let f = migrated_fields s json comments yaml in
     if f = no_fields then ret s
     else bd (in_store (update_tech_stack (ts_id s) (with_fields f))) (\<lambda>updated.
          ret (or_else updated (with_fields f s)))))"

definition synchronize_catalog :: "stack_env \<Rightarrow> (stack_state, unit) action" where
  "synchronize_catalog env =
     bd (in_store list_tech_stacks) (\<lambda>stored.
     bd (if stored = [] then seed_stacks env else ret stored) (\<lambda>records.
     bd (fold_each records (\<lambda>s done. bd (migrate_stack env s) (\<lambda>m. ret (done @ [m]))) []) (\<lambda>synchronized.
     in_catalog (load_components (dmerge [] (map (\<lambda>s. (ts_id s, ts_json_data s)) synchronized))))))"

section \<open>Operations\<close>

definition stack_list :: "(stack_state, tech_stack list) action" where
  "stack_list = in_store list_tech_stacks"

definition stack_get :: "string \<Rightarrow> (stack_state, tech_stack) action" where
  "stack_get i =
     bd (in_store (get_tech_stack i)) (\<lambda>found.
     case found of None \<Rightarrow> raise NotFoundError ''Technology stack not found'' | Some s \<Rightarrow> ret s)"

definition stack_create :: "stack_env \<Rightarrow> stack_payload \<Rightarrow> (stack_state, tech_stack) action" where
  "stack_create env p =
     bd (stack_record env p None) (\<lambda>(record, c).
     bd (in_store (create_tech_stack record)) (\<lambda>created.
     bd (in_catalog (upsert_component (sp_id p) (VDict (component_value c)))) (\<lambda>_. ret created)))"

record stack_change =
  sx_name :: "string option"
  sx_yaml :: "string option"
  sx_json :: "value option"
  sx_comments :: "(string, string) dict option"

definition changes_document :: "stack_change \<Rightarrow> bool" where
  "changes_document x \<longleftrightarrow> sx_yaml x \<noteq> None \<or> sx_json x \<noteq> None \<or> sx_comments x \<noteq> None"

text \<open>A text and a document given without the other are made from it; a YAML text of nothing leaves
  the document out.\<close>

definition paired_documents :: "stack_env \<Rightarrow> stack_change \<Rightarrow> (string option \<times> value option) res" where
  "paired_documents env x =
     (case (sx_yaml x, sx_json x) of
        (None, None) \<Rightarrow> Inr (None, None)
      | (None, Some json) \<Rightarrow> Inr (Some (yl_dump (se_yaml env) json), Some json)
      | (Some yaml, Some json) \<Rightarrow> Inr (Some yaml, Some json)
      | (Some yaml, None) \<Rightarrow>
          (case yl_load (se_yaml env) yaml of
             Inl m \<Rightarrow> template_error (''yaml_original is invalid YAML: '' @ m)
           | Inr json \<Rightarrow> Inr (Some yaml, if json = VNull then None else Some json)))"

definition kept_comments :: "tech_stack \<Rightarrow> value \<Rightarrow> (string, string) dict" where
  "kept_comments s json =
     (let paths = json_structure_paths json in filter (\<lambda>(p, _). p \<in> set paths) (ts_line_comments s))"

definition candidate_payload ::
  "string \<Rightarrow> tech_stack \<Rightarrow> stack_change \<Rightarrow> string option \<Rightarrow> value option \<Rightarrow> stack_payload" where
  "candidate_payload i s x yaml json =
     (let document = or_else json (ts_json_data s) in
      \<lparr>sp_id = i, sp_name = or_else (sx_name x) (ts_name s),
       sp_yaml = or_else yaml (ts_yaml_original s), sp_json = document,
       sp_comments = or_else (sx_comments x) (kept_comments s document)\<rparr>)"

definition stored_update :: "string \<Rightarrow> stack_fields \<Rightarrow> (stack_state, tech_stack) action" where
  "stored_update i f =
     bd (in_store utc_now) (\<lambda>now.
     bd (in_store (update_tech_stack i (with_fields (f\<lparr>sf_updated_at := Some now\<rparr>)))) (\<lambda>updated.
     case updated of None \<Rightarrow> raise NotFoundError ''Technology stack not found'' | Some s \<Rightarrow> ret s))"

definition update_document ::
  "stack_env \<Rightarrow> string \<Rightarrow> tech_stack \<Rightarrow> stack_change \<Rightarrow> (stack_state, tech_stack) action" where
  "update_document env i s x =
     bd (lift_res (paired_documents env x)) (\<lambda>(yaml, json).
     bd (lift_res (new_payload env (candidate_payload i s x yaml json))) (\<lambda>candidate.
     bd (stack_record env candidate (Some (ts_updated_at s))) (\<lambda>(record, c).
     bd (stored_update i (no_fields\<lparr>sf_name := sx_name x, sf_yaml := Some (ts_yaml_original record),
           sf_json := Some (ts_json_data record), sf_comments := Some (ts_line_comments record)\<rparr>)) (\<lambda>updated.
     bd (in_catalog (upsert_component i (VDict (component_value c)))) (\<lambda>_. ret updated)))))"

definition update_name :: "string \<Rightarrow> tech_stack \<Rightarrow> stack_change \<Rightarrow> (stack_state, tech_stack) action" where
  "update_name i s x =
     bd (stored_update i (no_fields\<lparr>sf_name := Some (or_else (sx_name x) (ts_name s))\<rparr>)) (\<lambda>updated.
     bd (reading snd) (\<lambda>ct.
     bd (lift_res (fetch (ct_components ct) i)) (\<lambda>c.
     bd (in_catalog (upsert_component i (VDict (component_value c)))) (\<lambda>_. ret updated))))"

definition stack_update :: "stack_env \<Rightarrow> string \<Rightarrow> stack_change \<Rightarrow> (stack_state, tech_stack) action" where
  "stack_update env i x =
     bd (stack_get i) (\<lambda>s. if changes_document x then update_document env i s x else update_name i s x)"

definition stack_delete :: "string \<Rightarrow> (stack_state, unit) action" where
  "stack_delete i =
     bd (stack_get i) (\<lambda>_.
     bd (in_store (delete_tech_stack i)) (\<lambda>deleted.
     andthen (if deleted then ret () else raise NotFoundError ''Technology stack not found'')
       (bd (in_catalog (remove_component i)) (\<lambda>_. ret ()))))"

end
