(* ===== verification/StackSafety.thy ===== *)
theory StackSafety
  imports ComponentSafety TechStacks
begin

text \<open>
  The service of technology stacks keeps its two stores in step: the catalog it renders documents
  from has exactly the components of the stacks in the repository, whatever operations run and
  however they end.
\<close>

section \<open>The catalog mirrors the stored stacks\<close>

lemma in_store_app [action_simps]: "in_store m (w, ct) = (case m w of (r, w') \<Rightarrow> (r, (w', ct)))"
  by (simp add: in_store_def)

lemma in_catalog_app [action_simps]: "in_catalog m (w, ct) = (case m ct of (r, ct') \<Rightarrow> (r, (w, ct')))"
  by (simp add: in_catalog_def)

lemma validate_again: "validate_component name v = Inr c \<Longrightarrow> validate_component name (VDict (component_value c)) = Inr c"
  by (auto simp: validate_component_def checked_component_ok component_fixed split: if_splits)

lemma upsert_valid:
  "validate_component name v = Inr c \<Longrightarrow>
   upsert_component name v ct = (Inr c, ct\<lparr>ct_components := dset (ct_components ct) name c\<rparr>)"
  by (simp add: upsert_component_def action_simps)

lemma upsert_invalid: "validate_component name v = Inl e \<Longrightarrow> upsert_component name v ct = (Inl e, ct)"
  by (simp add: upsert_component_def action_simps)

definition stack_mirrored :: "string \<Rightarrow> tech_stack option \<Rightarrow> component option \<Rightarrow> bool" where
  "stack_mirrored i stored component =
     (case stored of
        None \<Rightarrow> component = None
      | Some s \<Rightarrow> ts_id s = i \<and> (\<exists>c. component = Some c \<and> validate_component i (ts_json_data s) = Inr c))"

definition mirrors :: "stack_state \<Rightarrow> bool" where
  "mirrors = (\<lambda>(w, ct). \<forall>i. stack_mirrored i (dget (w_tech_stacks w) i) (dget (ct_components ct) i))"

lemma mirrors_put:
  assumes "mirrors (w, ct)" and "ts_id s = i" and "validate_component i (ts_json_data s) = Inr c"
  shows "mirrors (w\<lparr>w_tech_stacks := dset (w_tech_stacks w) i s\<rparr>, ct\<lparr>ct_components := dset (ct_components ct) i c\<rparr>)"
  using assms by (simp add: mirrors_def) (simp add: stack_mirrored_def)

lemma mirrors_delete:
  assumes "mirrors (w, ct)"
  shows "mirrors (w\<lparr>w_tech_stacks := ddel (w_tech_stacks w) i\<rparr>, ct\<lparr>ct_components := ddel (ct_components ct) i\<rparr>)"
  using assms by (simp add: mirrors_def) (simp add: stack_mirrored_def)

text \<open>Making a record changes nothing, and gives a document that validates to the component.\<close>

lemma stack_record_run:
  assumes "stack_record env p now (w, ct) = (r, st)"
  shows "st = (w, ct) \<and> (\<forall>s c. r = Inr (s, c) \<longrightarrow>
    ts_id s = sp_id p \<and> ts_json_data s = VDict (component_value c) \<and>
    validate_component (sp_id p) (VDict (component_value c)) = Inr c)"
  using assms unfolding stack_record_def
  by (auto simp: bd_app in_store_app Let_def split: sum.splits prod.splits dest: validate_again)

lemma stack_get_run: "stack_get i (w, ct) =
  ((case dget (w_tech_stacks w) i of None \<Rightarrow> Inl (Exn NotFoundError ''Technology stack not found'') | Some s \<Rightarrow> Inr s), (w, ct))"
  by (simp add: stack_get_def bd_app in_store_app get_tech_stack_def split: option.split)

lemma create_mirrors:
  assumes "mirrors (w, ct)"
  shows "mirrors (snd (stack_create env p (w, ct)))"
proof -
  obtain r st where Pair: "stack_record env p None (w, ct) = (r, st)" by (meson surj_pair)
  note run = stack_record_run [OF Pair]
  show ?thesis
  proof (cases r)
    case (Inl e)
    then show ?thesis using run Pair assms by (simp add: stack_create_def)
  next
    case (Inr sc)
    obtain s c where sc: "sc = (s, c)" by (cases sc)
    have s: "ts_id s = sp_id p" "validate_component (sp_id p) (ts_json_data s) = Inr c"
        "validate_component (sp_id p) (VDict (component_value c)) = Inr c"
      using run Inr sc by auto
    show ?thesis
    proof (cases "dget (w_tech_stacks w) (sp_id p)")
      case None
      then show ?thesis
        using run Pair Inr sc s mirrors_put [OF assms s(1,2)]
        by (simp add: stack_create_def bd_app in_store_app in_catalog_app create_tech_stack_def upsert_valid)
    next
      case (Some old)
      then show ?thesis
        using run Pair Inr sc s assms
        by (simp add: stack_create_def bd_app in_store_app create_tech_stack_def)
    qed
  qed
qed

lemma with_fields_simps [simp]:
  "ts_id (with_fields f s) = ts_id s" "ts_json_data (with_fields f s) = or_else (sf_json f) (ts_json_data s)"
  by (simp_all add: with_fields_def)

lemma stored_update_run:
  assumes "dget (w_tech_stacks w) i = Some s"
  shows "\<exists>t. stored_update i f (w, ct) =
    (Inr (with_fields (f\<lparr>sf_updated_at := Some t\<rparr>) s),
     (w\<lparr>w_tech_stacks := dset (w_tech_stacks w) i (with_fields (f\<lparr>sf_updated_at := Some t\<rparr>) s)\<rparr>, ct))"
  using assms by (intro exI [of _ "w_clock w"]) (simp add: stored_update_def bd_app in_store_app update_tech_stack_def)

lemma update_name_mirrors:
  assumes m: "mirrors (w, ct)" and s: "dget (w_tech_stacks w) i = Some s"
  shows "mirrors (snd (update_name i s x (w, ct)))"
proof -
  obtain c where c: "ts_id s = i" "dget (ct_components ct) i = Some c" "validate_component i (ts_json_data s) = Inr c"
    using m s by (force simp: mirrors_def stack_mirrored_def dest: spec [of _ i])
  let ?f = "no_fields\<lparr>sf_name := Some (or_else (sx_name x) (ts_name s))\<rparr>"
  obtain t where u: "stored_update i ?f (w, ct) = (Inr (with_fields (?f\<lparr>sf_updated_at := Some t\<rparr>) s),
      (w\<lparr>w_tech_stacks := dset (w_tech_stacks w) i (with_fields (?f\<lparr>sf_updated_at := Some t\<rparr>) s)\<rparr>, ct))"
    using stored_update_run [OF s] by blast
  have "validate_component i (ts_json_data (with_fields (?f\<lparr>sf_updated_at := Some t\<rparr>) s)) = Inr c"
    using c(3) by (simp add: no_fields_def or_else_def)
  from mirrors_put [OF m _ this] show ?thesis
    using c u validate_again [OF c(3)]
    by (simp add: update_name_def bd_app in_catalog_app upsert_valid fetch_def)
qed

lemma new_payload_id: "new_payload env p = Inr q \<Longrightarrow> sp_id q = sp_id p"
  by (auto simp: new_payload_def Let_def split: if_splits sum.splits)

lemma update_document_mirrors:
  assumes m: "mirrors (w, ct)" and s: "dget (w_tech_stacks w) i = Some s"
  shows "mirrors (snd (update_document env i s x (w, ct)))"
proof -
  have id: "ts_id s = i" using m s by (force simp: mirrors_def stack_mirrored_def dest: spec [of _ i])
  consider e where "snd (update_document env i s x (w, ct)) = (w, ct)"
    | yj q sc where "paired_documents env x = Inr yj" "new_payload env (candidate_payload i s x (fst yj) (snd yj)) = Inr q"
       "stack_record env q (Some (ts_updated_at s)) (w, ct) = (Inr sc, (w, ct))"
  proof (cases "paired_documents env x")
    case (Inr yj)
    show ?thesis
    proof (cases "new_payload env (candidate_payload i s x (fst yj) (snd yj))")
      case q: (Inr q)
      obtain r st where rec: "stack_record env q (Some (ts_updated_at s)) (w, ct) = (r, st)" by (meson surj_pair)
      then have "st = (w, ct)" using stack_record_run by blast
      then show ?thesis
        using that Inr q rec by (cases r; cases yj) (auto simp: update_document_def bd_app)
    qed (use that Inr in \<open>cases yj, auto simp: update_document_def bd_app\<close>)
  qed (use that in \<open>auto simp: update_document_def bd_app\<close>)
  then show ?thesis
  proof cases
    case (2 yj q sc)
    obtain y c where sc: "sc = (y, c)" by (cases sc)
    have q: "sp_id q = i" using new_payload_id [OF 2(2)] by (simp add: candidate_payload_def Let_def)
    have y: "ts_json_data y = VDict (component_value c)" "validate_component i (VDict (component_value c)) = Inr c"
      using stack_record_run [OF 2(3)] sc q by auto
    let ?f = "no_fields\<lparr>sf_name := sx_name x, sf_yaml := Some (ts_yaml_original y),
           sf_json := Some (ts_json_data y), sf_comments := Some (ts_line_comments y)\<rparr>"
    obtain t where u: "stored_update i ?f (w, ct) = (Inr (with_fields (?f\<lparr>sf_updated_at := Some t\<rparr>) s),
        (w\<lparr>w_tech_stacks := dset (w_tech_stacks w) i (with_fields (?f\<lparr>sf_updated_at := Some t\<rparr>) s)\<rparr>, ct))"
      using stored_update_run [OF s] by blast
    have "validate_component i (ts_json_data (with_fields (?f\<lparr>sf_updated_at := Some t\<rparr>) s)) = Inr c"
      using y by (simp add: or_else_def)
    from mirrors_put [OF m _ this] show ?thesis
      using 2 u y id sc by (simp add: update_document_def bd_app in_catalog_app upsert_valid case_prod_beta)
  qed (use m in simp)
qed

lemma update_mirrors:
  assumes "mirrors (w, ct)"
  shows "mirrors (snd (stack_update env i x (w, ct)))"
  using assms update_name_mirrors [OF assms] update_document_mirrors [OF assms]
  by (cases "dget (w_tech_stacks w) i") (simp_all add: stack_update_def bd_app stack_get_run)

lemma delete_mirrors:
  assumes "mirrors (w, ct)"
  shows "mirrors (snd (stack_delete i (w, ct)))"
  using assms mirrors_delete [OF assms]
  by (cases "dget (w_tech_stacks w) i")
     (simp_all add: stack_delete_def bd_app andthen_app stack_get_run in_store_app in_catalog_app delete_tech_stack_def
        remove_component_def)

subsection \<open>Synchronisation\<close>

definition stack_map :: "tech_stack list \<Rightarrow> string \<Rightarrow> tech_stack option" where
  "stack_map xs = map_of (map (\<lambda>s. (ts_id s, s)) xs)"

text \<open>The repository holds exactly these stacks.\<close>

definition store_holds :: "world \<Rightarrow> tech_stack list \<Rightarrow> bool" where
  "store_holds w xs \<longleftrightarrow> distinct (map ts_id xs) \<and> (\<forall>i. dget (w_tech_stacks w) i = stack_map xs i)"

lemma stack_map_middle:
  assumes "distinct (map ts_id (xs @ s # ys))" and "ts_id m = ts_id s"
  shows "stack_map (xs @ m # ys) = (stack_map (xs @ s # ys))(ts_id s \<mapsto> m)"
    and "stack_map (xs @ s # ys) (ts_id s) = Some s"
proof -
  have n: "map_of (map (\<lambda>s. (ts_id s, s)) xs) (ts_id s) = None"
    using assms(1) by (auto simp: map_of_eq_None_iff)
  then show "stack_map (xs @ s # ys) (ts_id s) = Some s"
    by (simp add: stack_map_def map_add_def)
  have "map_of (map (\<lambda>s. (ts_id s, s)) ys) (ts_id s) = None"
    using assms(1) by (auto simp: map_of_eq_None_iff)
  then show "stack_map (xs @ m # ys) = (stack_map (xs @ s # ys))(ts_id s \<mapsto> m)"
    using n assms(2) by (auto simp: stack_map_def map_add_def fun_eq_iff split: option.split)
qed

definition valid_stack :: "tech_stack \<Rightarrow> bool" where
  "valid_stack s \<longleftrightarrow> (\<exists>c. validate_component (ts_id s) (ts_json_data s) = Inr c)"

lemma migrate_stack_run:
  assumes holds: "store_holds w (xs @ s # ys)" and run: "migrate_stack env s (w, ct) = (Inr m, (w', ct'))"
  shows "ct' = ct \<and> store_holds w' (xs @ m # ys) \<and> valid_stack m"
proof -
  have stored: "dget (w_tech_stacks w) (ts_id s) = Some s"
    using holds stack_map_middle(2) [of xs s ys s] by (simp add: store_holds_def)
  obtain c where c: "validate_component (ts_id s) (ts_json_data s) = Inr c"
    using run by (cases "validate_component (ts_id s) (ts_json_data s)") (auto simp: migrate_stack_def)
  let ?j = "VDict (component_value c)"
  let ?cs = "merge_default_comments (ts_id s) ?j (ts_line_comments s)"
  obtain yaml where r: "render_commented_data (se_yaml env) (se_flow env) ?j ?cs = Inr yaml"
    using run c by (cases "render_commented_data (se_yaml env) (se_flow env) ?j ?cs") (simp_all add: migrate_stack_def Let_def)
  have cases: "if migrated_fields s ?j ?cs yaml = no_fields then m = s \<and> w' = w \<and> ct' = ct
      else m = with_fields (migrated_fields s ?j ?cs yaml) s \<and>
           w' = w\<lparr>w_tech_stacks := dset (w_tech_stacks w) (ts_id s) m\<rparr> \<and> ct' = ct"
    using run c r stored
    by (auto simp: migrate_stack_def Let_def bd_app in_store_app update_tech_stack_def or_else_def split: if_split_asm)
  show ?thesis
  proof (cases "migrated_fields s ?j ?cs yaml = no_fields")
    case True
    then show ?thesis using cases holds c by (auto simp: valid_stack_def)
  next
    case False
    then have m: "m = with_fields (migrated_fields s ?j ?cs yaml) s"
        and w: "w' = w\<lparr>w_tech_stacks := dset (w_tech_stacks w) (ts_id s) m\<rparr>" and ct: "ct' = ct"
      using cases by auto
    have "ts_json_data m = ts_json_data s \<or> ts_json_data m = ?j"
      by (simp add: m migrated_fields_def no_fields_def or_else_def)
    then have "valid_stack m"
      using c validate_again [OF c] by (auto simp: valid_stack_def m)
    moreover have "store_holds w' (xs @ m # ys)"
      using holds stack_map_middle(1) [of xs s ys m] by (simp add: store_holds_def w m)
    ultimately show ?thesis using ct by simp
  qed
qed

lemma migrate_all_run:
  "store_holds w (done @ xs) \<Longrightarrow> list_all valid_stack done \<Longrightarrow>
   fold_each xs (\<lambda>s done. bd (migrate_stack env s) (\<lambda>m. ret (done @ [m]))) done (w, ct) = (Inr synced, (w', ct')) \<Longrightarrow>
   ct' = ct \<and> store_holds w' synced \<and> list_all valid_stack synced" for "done"
proof (induction xs arbitrary: "done" w)
  case (Cons s xs)
  obtain m w1 ct1 where one: "migrate_stack env s (w, ct) = (Inr m, (w1, ct1))"
      and rest: "fold_each xs (\<lambda>s done. bd (migrate_stack env s) (\<lambda>m. ret (done @ [m]))) (done @ [m]) (w1, ct1) = (Inr synced, (w', ct'))"
    using Cons.prems(3) unfolding fold_each.simps by (elim bd_InrE) (auto simp: split_paired_all)
  have "ct1 = ct \<and> store_holds w1 (done @ m # xs) \<and> valid_stack m"
    by (rule migrate_stack_run [OF Cons.prems(1) one])
  then have k: "ct1 = ct" "store_holds w1 ((done @ [m]) @ xs)" "list_all valid_stack (done @ [m])"
    using Cons.prems(2) by simp_all
  show ?case by (rule Cons.IH [OF k(2,3) rest [unfolded k(1)]])
qed simp

lemma upsert_all_run:
  "for_each d (\<lambda>(name, v). bd (upsert_component name v) (\<lambda>_. ret ())) ct = (Inr u, ct') \<Longrightarrow> distinct (keys d) \<Longrightarrow>
   (case dget d i of None \<Rightarrow> dget (ct_components ct') i = dget (ct_components ct) i
    | Some v \<Rightarrow> \<exists>c. validate_component i v = Inr c \<and> dget (ct_components ct') i = Some c)"
proof (induction d arbitrary: ct)
  case (Cons p d)
  obtain n v where p: "p = (n, v)" by (cases p)
  obtain c where c: "validate_component n v = Inr c"
    using Cons.prems(1) upsert_invalid unfolding p for_each.simps prod.case
    by (cases "validate_component n v") (elim andthen_InrE bd_InrE, simp_all)
  have "for_each d (\<lambda>(name, v). bd (upsert_component name v) (\<lambda>_. ret ())) (ct\<lparr>ct_components := dset (ct_components ct) n c\<rparr>) = (Inr u, ct')"
    using Cons.prems(1) unfolding p for_each.simps prod.case
    by (elim andthen_InrE bd_InrE) (simp add: upsert_valid [OF c])
  from Cons.IH [OF this] have ih: "case dget d i of None \<Rightarrow> dget (ct_components ct') i = dget (dset (ct_components ct) n c) i
      | Some v \<Rightarrow> \<exists>c. validate_component i v = Inr c \<and> dget (ct_components ct') i = Some c"
    using Cons.prems(2) by (simp add: p cong: option.case_cong)
  show ?case
  proof (cases "i = n")
    case True
    then have "dget d i = None" using Cons.prems(2) by (simp add: p map_of_eq_None_iff)
    then show ?thesis using ih True c by (simp add: p)
  qed (use ih in \<open>simp add: p cong: option.case_cong\<close>)
qed simp

lemma update_append_fresh: "k \<notin> fst ` set d \<Longrightarrow> dset d k v = d @ [(k, v)]"
  by (induction d) auto

lemma dmerge_distinct: "distinct (keys (d @ e)) \<Longrightarrow> dmerge d e = d @ e"
proof (induction e arbitrary: d)
  case Nil
  then show ?case by (simp add: dmerge_def)
next
  case (Cons p e)
  obtain k v where p: "p = (k, v)" by (cases p)
  have "dset d k v = d @ [(k, v)]"
    using Cons.prems by (simp add: p update_append_fresh)
  then have "dmerge d (p # e) = dmerge (d @ [(k, v)]) e" by (simp add: dmerge_def p)
  also have "\<dots> = d @ p # e" using Cons by (simp add: p)
  finally show ?case .
qed

lemma stack_map_Some:
  assumes "distinct (map ts_id xs)"
  shows "stack_map xs i = Some s \<longleftrightarrow> s \<in> set xs \<and> ts_id s = i"
  using assms by (auto simp: stack_map_def comp_def)

lemma stack_map_None: "stack_map xs i = None \<longleftrightarrow> i \<notin> ts_id ` set xs"
  by (simp add: stack_map_def map_of_eq_None_iff image_image)

lemma stack_map_new: "stack_map xs (ts_id s) = None \<Longrightarrow> stack_map (xs @ [s]) = (stack_map xs)(ts_id s \<mapsto> s)"
  by (auto simp: stack_map_def map_add_def fun_eq_iff split: option.split)

definition store_ids_ok :: "world \<Rightarrow> bool" where
  "store_ids_ok w \<longleftrightarrow> distinct (keys (w_tech_stacks w)) \<and> (\<forall>(i, s)\<in>set (w_tech_stacks w). ts_id s = i)"

lemma listed_stacks:
  assumes ok: "store_ids_ok w" and run: "in_store list_tech_stacks (w, ct) = (Inr xs, st)"
  shows "st = (w, ct) \<and> store_holds w xs"
proof -
  have xs: "st = (w, ct)" "set xs = set (vals (w_tech_stacks w))" "length xs = length (w_tech_stacks w)"
    using run by (force simp: in_store_app list_tech_stacks_def)+
  have "map ts_id (vals (w_tech_stacks w)) = keys (w_tech_stacks w)"
    using ok by (auto simp: store_ids_ok_def)
  then have "set (map ts_id xs) = set (keys (w_tech_stacks w))"
    using xs(2) by (metis set_map)
  then have d: "distinct (map ts_id xs)"
    using ok xs(3) by (metis card_distinct distinct_card length_map store_ids_ok_def)
  have "dget (w_tech_stacks w) i = Some s \<longleftrightarrow> stack_map xs i = Some s" for i s
  proof -
    have ids: "\<And>j t. (j, t) \<in> set (w_tech_stacks w) \<Longrightarrow> ts_id t = j" using ok by (auto simp: store_ids_ok_def)
    have "(i, s) \<in> set (w_tech_stacks w) \<longleftrightarrow> s \<in> set xs \<and> ts_id s = i"
      unfolding xs(2) using ids by auto (force dest: ids)
    then show ?thesis using ok by (simp add: stack_map_Some [OF d] store_ids_ok_def)
  qed
  then have "\<forall>i. dget (w_tech_stacks w) i = stack_map xs i" by (metis not_None_eq)
  then show ?thesis using xs(1) d by (simp add: store_holds_def)
qed

lemma seed_record_run:
  assumes "seed_record env c0 n (w, ct) = (Inr s, st)"
  shows "st = (w, ct) \<and> ts_id s = n"
  using assms unfolding seed_record_def
  by (auto simp: bd_app in_store_app Let_def split: sum.splits)

lemma seeds_run:
  "fold_each names (\<lambda>n seed. bd (seed_record env c0 n) (\<lambda>s. ret (seed @ [s]))) seed0 (w, ct) = (Inr seed, st) \<Longrightarrow>
   st = (w, ct) \<and> map ts_id seed = map ts_id seed0 @ names"
proof (induction names arbitrary: seed0)
  case (Cons n names)
  obtain s st1 where one: "seed_record env c0 n (w, ct) = (Inr s, st1)"
    and rest: "fold_each names (\<lambda>n seed. bd (seed_record env c0 n) (\<lambda>s. ret (seed @ [s]))) (seed0 @ [s]) st1 = (Inr seed, st)"
    using Cons.prems unfolding fold_each.simps by (elim bd_InrE) auto
  have "st1 = (w, ct)" "ts_id s = n" using seed_record_run [OF one] by simp_all
  then show ?case using Cons.IH [OF rest [unfolded \<open>st1 = (w, ct)\<close>]] by simp
qed simp

lemma creates_run:
  "for_each ys (\<lambda>s. bd (in_store (create_tech_stack s)) (\<lambda>_. ret ())) (w, ct) = (Inr u, (w', ct')) \<Longrightarrow>
   store_holds w xs \<Longrightarrow> ct' = ct \<and> store_holds w' (xs @ ys)"
proof (induction ys arbitrary: w xs)
  case (Cons s ys)
  obtain r w1 ct1 where one: "in_store (create_tech_stack s) (w, ct) = (Inr r, (w1, ct1))"
    and rest: "for_each ys (\<lambda>s. bd (in_store (create_tech_stack s)) (\<lambda>_. ret ())) (w1, ct1) = (Inr u, (w', ct'))"
    using Cons.prems(1) unfolding for_each.simps by (elim andthen_InrE bd_InrE) (auto simp: split_paired_all)
  have new: "dget (w_tech_stacks w) (ts_id s) = None" "ct1 = ct"
      "w1 = w\<lparr>w_tech_stacks := dset (w_tech_stacks w) (ts_id s) s\<rparr>"
    using one by (auto simp: in_store_app create_tech_stack_def split: if_splits)
  then have "stack_map xs (ts_id s) = None" using Cons.prems(2) by (simp add: store_holds_def)
  then have "store_holds w1 (xs @ [s])"
    using Cons.prems(2) stack_map_new [of xs s] by (auto simp: store_holds_def new(3) stack_map_None)
  from Cons.IH [OF rest [unfolded new(2)] this] show ?case by simp
qed simp

lemma in_store_listed: "\<exists>xs. in_store list_tech_stacks (w, ct) = (Inr xs, (w, ct))"
  by (simp add: in_store_app list_tech_stacks_def)

lemma seed_stacks_run:
  assumes run: "seed_stacks env (w, ct) = (Inr xs, (w', ct'))" and empty: "store_holds w []"
    and d: "distinct (keys (ct_components ct))"
  shows "ct' = ct \<and> store_holds w' xs"
proof -
  obtain seed st1 where s: "fold_each (catalog_names ct) (\<lambda>n seed. bd (seed_record env ct n) (\<lambda>s. ret (seed @ [s]))) [] (w, ct) = (Inr seed, st1)"
    and c: "for_each seed (\<lambda>s. bd (in_store (create_tech_stack s)) (\<lambda>_. ret ())) st1 = (Inr (), (w', ct'))" and xs: "xs = seed"
    using run unfolding seed_stacks_def by (elim bd_InrE andthen_InrE) auto
  have "st1 = (w, ct)" using seeds_run [OF s] by simp
  then show ?thesis using creates_run [OF c [unfolded \<open>st1 = (w, ct)\<close>] empty] xs by simp
qed

lemma synchronize_mirrors:
  assumes run: "synchronize_catalog env (w, ct) = (Inr u, (w', ct'))" and ok: "store_ids_ok w"
    and d: "distinct (keys (ct_components ct))"
  shows "mirrors (w', ct')"
proof -
  obtain stored where l: "in_store list_tech_stacks (w, ct) = (Inr stored, (w, ct))"
    using in_store_listed by blast
  have h: "store_holds w stored" using listed_stacks [OF ok l] by simp
  obtain records w1 ct1 synced w2 ct2 where
    r: "(if stored = [] then seed_stacks env else ret stored) (w, ct) = (Inr records, (w1, ct1))" and
    m: "fold_each records (\<lambda>s done. bd (migrate_stack env s) (\<lambda>m. ret (done @ [m]))) [] (w1, ct1) = (Inr synced, (w2, ct2))" and
    c: "in_catalog (load_components (dmerge [] (map (\<lambda>s. (ts_id s, ts_json_data s)) synced))) (w2, ct2) = (Inr u, (w', ct'))"
    using run l unfolding synchronize_catalog_def by (elim bd_InrE) (auto simp: split_paired_all)
  have "store_holds w1 records"
    using r h seed_stacks_run [OF _ _ d] by (auto split: if_splits)
  then have s: "ct2 = ct1" "store_holds w2 synced" "list_all valid_stack synced"
    using migrate_all_run [of w1 "[]" records env ct1 synced w2 ct2] m by simp_all
  let ?d = "map (\<lambda>s. (ts_id s, ts_json_data s)) synced"
  have keys: "distinct (keys ?d)" using s(2) by (simp add: store_holds_def comp_def)
  then have "dmerge [] ?d = ?d" using dmerge_distinct [of "[]" ?d] by simp
  then have load: "for_each ?d (\<lambda>(name, v). bd (upsert_component name v) (\<lambda>_. ret ())) (ct2\<lparr>ct_components := []\<rparr>) = (Inr u, ct')"
    and w: "w' = w2"
    using c by (auto simp: in_catalog_app load_components_def split: prod.splits)
  have "stack_mirrored i (dget (w_tech_stacks w') i) (dget (ct_components ct') i)" for i
  proof -
    have look: "dget ?d i = map_option ts_json_data (stack_map synced i)"
      by (induction synced) (simp_all add: stack_map_def)
    have stored: "dget (w_tech_stacks w') i = stack_map synced i" using s(2) w by (simp add: store_holds_def)
    show ?thesis
    proof (cases "stack_map synced i")
      case None
      then show ?thesis using upsert_all_run [OF load keys, of i] look stored by (simp add: stack_mirrored_def)
    next
      case (Some x)
      then have "ts_id x = i" using s(2) by (simp add: store_holds_def stack_map_Some)
      then show ?thesis
        using upsert_all_run [OF load keys, of i] look stored Some by (auto simp: stack_mirrored_def)
    qed
  qed
  then show ?thesis by (simp add: mirrors_def)
qed

datatype stack_op = CreateStack stack_payload | UpdateStack string stack_change | DeleteStack string

fun stack_effect :: "stack_env \<Rightarrow> stack_op \<Rightarrow> stack_state \<Rightarrow> stack_state" where
  "stack_effect env (CreateStack p) st = snd (stack_create env p st)"
| "stack_effect env (UpdateStack i x) st = snd (stack_update env i x st)"
| "stack_effect env (DeleteStack i) st = snd (stack_delete i st)"

lemma effect_mirrors: "mirrors st \<Longrightarrow> mirrors (stack_effect env op st)"
  by (cases st; cases op) (simp_all add: create_mirrors update_mirrors delete_mirrors)

text \<open>A catalog of one component, and a YAML library that reads every text as that component.\<close>

definition stack_sample_component :: component where
  "stack_sample_component = \<lparr>cp_images = [''app:1''],
     cp_build = [(VStr ''context'', VStr ''.''), (VStr ''dockerfile'', VStr ''Dockerfile'')],
     cp_ports = [80], cp_publish_ports = True, cp_environment = [], cp_healthcheck = [], cp_connection = [],
     cp_volumes = [], cp_command = VNull, cp_working_dir = None, cp_restart = None\<rparr>"

definition stack_sample_catalog :: catalog where
  "stack_sample_catalog = \<lparr>ct_components = [(''api'', stack_sample_component)], ct_aliases = []\<rparr>"

definition stack_sample_env :: stack_env where
  "stack_sample_env = \<lparr>se_yaml = \<lparr>yl_dump = (\<lambda>_. []),
     yl_load = (\<lambda>_. Inr (VDict (component_value stack_sample_component)))\<rparr>, se_flow = (\<lambda>_. ''1'')\<rparr>"

definition stack_sample :: stack_payload where
  "stack_sample = \<lparr>sp_id = ''web'', sp_name = ''Web'', sp_yaml = ''{}'',
     sp_json = VDict (component_value stack_sample_component), sp_comments = []\<rparr>"

abbreviation sample_json :: "value" where
  "sample_json \<equiv> VDict (component_value stack_sample_component)"

lemma sample_valid: "validate_component ''api'' sample_json = Inr stack_sample_component"
  by code_simp

lemma sample_same: "py_eq sample_json sample_json"
  unfolding component_value_def stack_sample_component_def text_list_def text_dict_def by simp

lemma sample_renders:
  "render_commented_data (se_yaml stack_sample_env) (se_flow stack_sample_env) sample_json comments =
     Inr (commented_text (se_flow stack_sample_env) comments sample_json)"
  by (simp add: render_commented_data_def stack_sample_env_def sample_same Let_def del: py_eq.simps)

lemma sample_migrates:
  assumes "ts_id s = ''api''" and "ts_json_data s = sample_json" and "dget (w_tech_stacks w) ''api'' = Some s"
  shows "\<exists>m w'. migrate_stack stack_sample_env s (w, c0) = (Inr m, (w', c0)) \<and> ts_id m = ''api'' \<and> ts_json_data m = sample_json"
  using assms
  by (simp add: migrate_stack_def Let_def bd_app in_store_app update_tech_stack_def sample_valid sample_renders)
     (simp add: migrated_fields_def no_fields_def or_else_def sample_same del: py_eq.simps)

lemma sample_synchronizes:
  "\<exists>st. synchronize_catalog stack_sample_env (empty_world (\<lambda>_. []) 0, stack_sample_catalog) = (Inr (), st)"
proof -
  let ?w = "empty_world (\<lambda>_. []) 0"
  obtain yaml comments where seed: "seed_record stack_sample_env stack_sample_catalog ''api'' (?w, stack_sample_catalog) =
      (Inr \<lparr>ts_id = ''api'', ts_name = ''api'', ts_yaml_original = yaml, ts_json_data = sample_json,
          ts_line_comments = comments, ts_created_at = 0, ts_updated_at = 0\<rparr>, (?w, stack_sample_catalog))"
    by (simp add: seed_record_def bd_app in_store_app Let_def fetch_def stack_sample_catalog_def sample_renders empty_world_def)
  define s where "s = \<lparr>ts_id = ''api'', ts_name = ''api'', ts_yaml_original = yaml, ts_json_data = sample_json,
          ts_line_comments = comments, ts_created_at = 0, ts_updated_at = 0\<rparr>"
  have names: "catalog_names stack_sample_catalog = [''api'']"
    by (simp add: catalog_names_def stack_sample_catalog_def)
  have seeds: "seed_stacks stack_sample_env (?w, stack_sample_catalog) =
      (Inr [s], (?w\<lparr>w_tech_stacks := [(''api'', s)]\<rparr>, stack_sample_catalog))"
    by (simp add: seed_stacks_def bd_app andthen_app names seed [folded s_def] in_store_app create_tech_stack_def)
       (simp add: empty_world_def s_def)
  obtain m w' where m: "migrate_stack stack_sample_env s (?w\<lparr>w_tech_stacks := [(''api'', s)]\<rparr>, stack_sample_catalog) =
      (Inr m, (w', stack_sample_catalog))" "ts_id m = ''api''" "ts_json_data m = sample_json"
    using sample_migrates [of s "?w\<lparr>w_tech_stacks := [(''api'', s)]\<rparr>" stack_sample_catalog] by (auto simp: s_def)
  have "in_store list_tech_stacks (?w, stack_sample_catalog) = (Inr [], (?w, stack_sample_catalog))"
    by (simp add: in_store_app list_tech_stacks_def empty_world_def)
  then show ?thesis
    by (simp add: synchronize_catalog_def bd_app seeds m in_catalog_app load_components_def andthen_app dmerge_def
        upsert_valid [OF sample_valid])
qed

text \<open>
  C24: once the service has synchronised, and after any operations on technology stacks, successful
  or not, the catalog has a component exactly for the stored stacks, and it is the one the stored
  document validates to.
\<close>

theorem catalog_mirrors_store:
  assumes "synchronize_catalog env (w, ct) = (Inr u, st)" and "store_ids_ok w" and "distinct (keys (ct_components ct))"
  shows "mirrors (fold (stack_effect env) ops st)"
proof -
  have "mirrors st" using synchronize_mirrors [of env w ct u "fst st" "snd st"] assms by simp
  then show ?thesis by (induction ops arbitrary: st) (simp_all add: effect_mirrors)
qed

theorem catalog_mirrors_store_witness:
  "\<exists>st. synchronize_catalog stack_sample_env (empty_world (\<lambda>_. []) 0, stack_sample_catalog) = (Inr (), st) \<and>
     mirrors (fold (stack_effect stack_sample_env) [CreateStack stack_sample, DeleteStack ''api''] st)"
proof -
  obtain st where "synchronize_catalog stack_sample_env (empty_world (\<lambda>_. []) 0, stack_sample_catalog) = (Inr (), st)"
    using sample_synchronizes by blast
  moreover have "store_ids_ok (empty_world (\<lambda>_. []) 0)" "distinct (keys (ct_components stack_sample_catalog))"
    by (simp_all add: store_ids_ok_def empty_world_def stack_sample_catalog_def)
  ultimately show ?thesis using catalog_mirrors_store by blast
qed


end
