(* ===== verification/GitLab.thy ===== *)
theory GitLab
  imports Http
begin

text \<open>
  \<open>GitLabHttpAdapter\<close> of \<open>orchestrator/gitlab.py\<close>: the address of a project, the resolution of a
  reference to a commit, the full clone at that commit, and the choice of the Compose file. The
  HTTP transport, git, the file system and the YAML parser are parameters of the client. Texts are
  ASCII; an escape of a byte outside ASCII in a repository URL is kept as that byte.
\<close>

section \<open>The client\<close>

text \<open>How a run of git ended: git is missing, ran out of time, could not be run, or ended with an
  exit status and what it printed.\<close>

datatype git_outcome = GitMissing | GitTimeout | GitBroken | GitRan int string

type_synonym git_runner = "string list \<Rightarrow> (string, string) dict \<Rightarrow> (world, git_outcome) action"

text \<open>A checked out tree; a directory is None where it cannot be listed.\<close>

datatype fs_node = FsFile | FsLink | FsOther | FsDir "(string \<times> fs_node) list option"

record git_files =
  gf_temporary :: "(world, string) action"
  gf_discard :: "string \<Rightarrow> (world, unit) action"
  gf_prepare :: "string \<Rightarrow> (world, string) action"
  gf_tree :: "string \<Rightarrow> (world, fs_node) action"
  gf_text :: "string \<Rightarrow> (world, string option) action"

record gitlab_client =
  gl_base_url :: string
  gl_token :: string
  gl_clone_timeout :: int
  gl_api_url :: string
  gl_host :: "string option"
  gl_transport :: transport
  gl_git :: git_runner
  gl_environ :: "(string, string) dict"
  gl_files :: git_files
  gl_yaml :: "string \<Rightarrow> value option"

record gitlab_seams =
  gm_transport :: transport
  gm_git :: git_runner
  gm_environ :: "(string, string) dict"
  gm_files :: git_files
  gm_yaml :: "string \<Rightarrow> value option"

definition make_gitlab_client :: "string \<Rightarrow> string \<Rightarrow> int \<Rightarrow> gitlab_seams \<Rightarrow> gitlab_client res" where
  "make_gitlab_client base_url token clone_timeout m =
     rbind (normalise_base_url base_url) (\<lambda>base.
     if strip token = [] then Inl (Exn ValueError ''GitLab token must be configured'')
     else if clone_timeout \<le> 0 then Inl (Exn ValueError ''clone_timeout must be positive'')
     else rbind (urlsplit base) (\<lambda>u.
       Inr \<lparr>gl_base_url = base, gl_token = token, gl_clone_timeout = clone_timeout,
            gl_api_url = (if ends_with base ''/api/v4'' then base else base @ ''/api/v4''),
            gl_host = url_hostname u, gl_transport = gm_transport m, gl_git = gm_git m,
            gl_environ = gm_environ m, gl_files = gm_files m, gl_yaml = gm_yaml m\<rparr>))"

definition gitlab_from_settings :: "string option \<Rightarrow> string option \<Rightarrow> int \<Rightarrow> gitlab_seams \<Rightarrow> gitlab_client res" where
  "gitlab_from_settings url token clone_timeout m =
     (if \<not> truthy_opt url \<or> \<not> truthy_opt token
      then Inl (Exn ValueError ''GitLab URL and token must be configured'')
      else make_gitlab_client (the url) (the token) clone_timeout m)"

section \<open>Requests\<close>

definition gitlab_error :: "string \<Rightarrow> (world, 'a) action" where
  "gitlab_error m = raise GitLabError m"

definition gitlab_request :: "gitlab_client \<Rightarrow> string \<Rightarrow> string \<Rightarrow> (world, http_response) action" where
  "gitlab_request g path not_found =
     bd (catching
          (gl_transport g ''GET'' (gl_api_url g @ ''/'' @ lstrip_slashes path)
             [(''Accept'', ''application/json''), (''PRIVATE-TOKEN'', gl_token g)] None None)
          (\<lambda>e. if exn_class e \<in> gitlab_errors then reraise e else gitlab_error ''GitLab request failed'')) (\<lambda>r.
     if hs_status r = 404 then raise GitLabNotFoundError not_found
     else if \<not> (200 \<le> hs_status r \<and> hs_status r < 300)
     then gitlab_error (''GitLab request failed (HTTP '' @ str_int (hs_status r) @ '')'')
     else ret r)"

definition gitlab_json :: "gitlab_client \<Rightarrow> string \<Rightarrow> string \<Rightarrow> (world, mapping) action" where
  "gitlab_json g path not_found =
     bd (gitlab_request g path not_found) (\<lambda>r.
     case hs_json r of
       Some (VDict d) \<Rightarrow> ret d
     | _ \<Rightarrow> gitlab_error ''GitLab returned an invalid JSON response'')"

record gitlab_project =
  gp_id :: "value"
  gp_path :: string
  gp_web_url :: "string option"

record gitlab_ref =
  gr_project :: gitlab_project
  gr_git_ref :: string
  gr_commit :: string
  gr_url :: string

definition SCHEME_PREFIXES :: "string list" where
  "SCHEME_PREFIXES = [''http://'', ''https://'', ''ssh://'']"

text \<open>The host a repository URL names, if it names one, and the path: a URL, the form
  \<open>user@host:path\<close> of SCP, or a bare path.\<close>

definition repository_address :: "string \<Rightarrow> (string option \<times> string) res" where
  "repository_address raw =
     (if list_ex (starts_with raw) SCHEME_PREFIXES then
        (case urlsplit raw of
           Inl _ \<Rightarrow> Inl (Exn GitLabError ''Repository URL is invalid'')
         | Inr u \<Rightarrow>
             if http_scheme u \<and> has_credentials u
             then Inl (Exn GitLabError ''Repository URL must not embed credentials'')
             else Inr (url_hostname u, url_path u))
      else
        (case split_once (CHR ''@'') raw of
           (_, None) \<Rightarrow> Inr (None, raw)
         | (_, Some after) \<Rightarrow>
             (case split_once (CHR '':'') after of
                (_, None) \<Rightarrow> Inr (None, raw)
              | (host, Some path) \<Rightarrow> Inr (Some host, path))))"

definition project_path :: "gitlab_client \<Rightarrow> string \<Rightarrow> string res" where
  "project_path g repository_url =
     rbind (require_nonempty repository_url ''repository_url'') (\<lambda>raw.
     rbind (repository_address raw) (\<lambda>(host, path).
     if truthy_opt host \<and> truthy_opt (gl_host g) \<and> lower (the host) \<noteq> lower (the (gl_host g))
     then Inl (Exn GitLabError ''Repository host does not match configured GitLab'')
     else
       (let p = without_suffix ''.git'' (strip_slashes (unquote path)) in
        if p = [] \<or> (\<exists>c\<in>set (split_on (CHR ''/'') p). c \<in> {[], ''.'', ''..''})
        then Inl (Exn GitLabError ''Repository URL does not identify a GitLab project'')
        else Inr p)))"

definition get_project :: "gitlab_client \<Rightarrow> string \<Rightarrow> (world, gitlab_project) action" where
  "get_project g path =
     bd (gitlab_json g (''/projects/'' @ quote [] path) ''GitLab repository was not found'') (\<lambda>d.
     if mget d ''id'' = VNull \<or> \<not> nonempty_str (mget d ''path_with_namespace'')
     then gitlab_error ''GitLab returned an invalid project response''
     else ret \<lparr>gp_id = mget d ''id'', gp_path = the_str (mget d ''path_with_namespace''),
               gp_web_url = (case mget d ''web_url'' of VStr s \<Rightarrow> Some s | _ \<Rightarrow> None)\<rparr>)"

definition get_commit :: "gitlab_client \<Rightarrow> value \<Rightarrow> string \<Rightarrow> (world, mapping) action" where
  "get_commit g project_id git_ref =
     gitlab_json g (''/projects/'' @ quote [] (py_str project_id) @ ''/repository/commits/'' @ quote [] git_ref)
       ''GitLab reference was not found''"

definition any_hex :: "char \<Rightarrow> bool" where
  "any_hex c \<longleftrightarrow> is_hex c \<or> in_range 65 70 c"

definition COMMIT_SHA :: rx where
  "COMMIT_SHA = Cat (Rep 40 (Cls any_hex)) (Opt (Rep 24 (Cls any_hex)))"

definition validate_repository_ref :: "gitlab_client \<Rightarrow> string \<Rightarrow> string \<Rightarrow> (world, gitlab_ref) action" where
  "validate_repository_ref g repository_url git_ref =
     bd (lift_res (project_path g repository_url)) (\<lambda>path.
     bd (lift_res (require_nonempty git_ref ''git_ref'')) (\<lambda>r.
     bd (get_project g path) (\<lambda>project.
     bd (get_commit g (gp_id project) r) (\<lambda>commit.
     case mget commit ''id'' of
       VStr sha \<Rightarrow>
         if fullmatch COMMIT_SHA sha
         then ret \<lparr>gr_project = project, gr_git_ref = r, gr_commit = sha, gr_url = repository_url\<rparr>
         else gitlab_error ''GitLab returned an invalid commit response''
     | _ \<Rightarrow> gitlab_error ''GitLab returned an invalid commit response''))))"

section \<open>The clone\<close>

definition clone_failed :: "string \<Rightarrow> (world, 'a) action" where
  "clone_failed m = raise GitLabRepositoryCloneError m"

text \<open>\<open>_run_git\<close>: what git printed, when it succeeded.\<close>

definition run_git :: "gitlab_client \<Rightarrow> string list \<Rightarrow> (string, string) dict \<Rightarrow> (world, string) action" where
  "run_git g command env =
     bd (gl_git g command env) (\<lambda>outcome.
     case outcome of
       GitMissing \<Rightarrow> clone_failed
         ''Git is required for full repository cloning; the runtime must include Git and CA certificates''
     | GitTimeout \<Rightarrow> clone_failed ''Git repository cloning timed out''
     | GitBroken \<Rightarrow> clone_failed ''Unable to clone GitLab repository''
     | GitRan status out \<Rightarrow> if status = 0 then ret out else clone_failed ''Unable to clone GitLab repository'')"

definition effective_port :: "url \<Rightarrow> int res" where
  "effective_port u =
     rbind (url_port u) (\<lambda>p.
     Inr (case p of Some n \<Rightarrow> if n \<noteq> 0 then n else if url_scheme u = ''https'' then 443 else 80
          | None \<Rightarrow> if url_scheme u = ''https'' then 443 else 80))"

definition site_url :: "gitlab_client \<Rightarrow> string" where
  "site_url g = rstrip_slashes (without_suffix ''/api/v4'' (gl_base_url g))"

definition web_url_ok :: "gitlab_client \<Rightarrow> url \<Rightarrow> url \<Rightarrow> int \<Rightarrow> int \<Rightarrow> bool" where
  "web_url_ok g parsed configured port configured_port \<longleftrightarrow>
     http_scheme parsed \<and> url_hostname parsed \<noteq> None \<and> \<not> has_credentials parsed \<and>
     url_query parsed = [] \<and> url_fragment parsed = [] \<and>
     lower (tail_text (url_hostname parsed)) = lower (tail_text (gl_host g)) \<and>
     url_scheme parsed = url_scheme configured \<and> port = configured_port"

definition web_clone_url :: "gitlab_client \<Rightarrow> string \<Rightarrow> string res" where
  "web_clone_url g web_url =
     (case rbind (urlsplit web_url) (\<lambda>parsed.
           rbind (urlsplit (gl_base_url g)) (\<lambda>configured.
           rbind (effective_port parsed) (\<lambda>port.
           rbind (effective_port configured) (\<lambda>configured_port.
           Inr (parsed, configured, port, configured_port))))) of
        Inl _ \<Rightarrow> Inl (Exn GitLabError ''GitLab returned an invalid project URL'')
      | Inr (parsed, configured, port, configured_port) \<Rightarrow>
          if \<not> web_url_ok g parsed configured port configured_port
          then Inl (Exn GitLabError ''GitLab returned an invalid project URL'')
          else Inr (url_scheme parsed @ ''://'' @ url_netloc parsed @ rstrip_slashes (url_path parsed)))"

definition clone_url :: "gitlab_client \<Rightarrow> gitlab_ref \<Rightarrow> string res" where
  "clone_url g r =
     rbind (if truthy_opt (gp_web_url (gr_project r)) then web_clone_url g (the (gp_web_url (gr_project r)))
            else Inr (site_url g @ ''/'' @ quote ''/'' (strip_slashes (gp_path (gr_project r))))) (\<lambda>u.
     Inr (if ends_with u ''.git'' then u else u @ ''.git''))"

definition GIT_VARIABLES :: "string list" where
  "GIT_VARIABLES = [''GIT_DIR'', ''GIT_COMMON_DIR'', ''GIT_WORK_TREE'', ''GIT_INDEX_FILE'', ''GIT_OBJECT_DIRECTORY'',
     ''GIT_ALTERNATE_OBJECT_DIRECTORIES'', ''GIT_SHALLOW_FILE'', ''GIT_NAMESPACE'', ''GIT_CONFIG_PARAMETERS'']"

definition base_environment :: "gitlab_client \<Rightarrow> (string, string) dict" where
  "base_environment g =
     dmerge (foldl ddel (gl_environ g) GIT_VARIABLES)
       [(''GIT_TERMINAL_PROMPT'', ''0''), (''GIT_CONFIG_COUNT'', ''1''),
        (''GIT_CONFIG_KEY_0'', ''credential.helper''), (''GIT_CONFIG_VALUE_0'', [])]"

definition git_environment :: "gitlab_client \<Rightarrow> string \<Rightarrow> (string, string) dict res" where
  "git_environment g url =
     rbind (urlsplit url) (\<lambda>u.
     Inr (if http_scheme u \<and> url_hostname u \<noteq> None then
            dmerge (base_environment g)
              [(''GIT_CONFIG_COUNT'', ''2''),
               (''GIT_CONFIG_KEY_1'', ''http.'' @ url_scheme u @ ''://'' @ url_netloc u @ ''/.extraheader''),
               (''GIT_CONFIG_VALUE_1'', ''Authorization: Basic '' @ b64encode (''oauth2:'' @ gl_token g))]
          else base_environment g))"

definition in_checkout :: "string \<Rightarrow> string list \<Rightarrow> string list" where
  "in_checkout destination args = [''git'', ''-C'', destination] @ args"

text \<open>Does a line of the local configuration tell of a partial clone?\<close>

definition partial_setting :: "string \<Rightarrow> bool" where
  "partial_setting line =
     (case split_once (CHR ''='') line of
        (k, v) \<Rightarrow>
          let key = lower k in
          key \<in> {''extensions.partialclone'', ''remote.origin.partialclonefilter''} \<or>
          key = ''remote.origin.promisor'' \<and> lower (tail_text v) \<notin> {''false'', ''no'', ''off'', ''0''})"

definition verify_full_clone :: "gitlab_client \<Rightarrow> string \<Rightarrow> (string, string) dict \<Rightarrow> (world, unit) action" where
  "verify_full_clone g destination env =
     bd (run_git g (in_checkout destination [''rev-parse'', ''--is-shallow-repository'']) env) (\<lambda>shallow.
     if strip shallow \<noteq> ''false''
     then clone_failed ''A full clone is required; Git returned a shallow repository''
     else
       bd (run_git g (in_checkout destination [''config'', ''--local'', ''--list'']) env) (\<lambda>configuration.
       if list_ex partial_setting (line_pieces configuration)
       then clone_failed ''A full clone is required; Git returned a partial repository''
       else ret ()))"

definition has_commit :: "gitlab_client \<Rightarrow> string \<Rightarrow> string \<Rightarrow> (string, string) dict \<Rightarrow> (world, bool) action" where
  "has_commit g destination sha env =
     bd (gl_git g (in_checkout destination [''cat-file'', ''-e'', sha @ ''^{commit}'']) env) (\<lambda>outcome.
     case outcome of
       GitRan status _ \<Rightarrow> ret (status = 0)
     | _ \<Rightarrow> clone_failed ''Unable to clone GitLab repository'')"

definition fetch_commit :: "gitlab_client \<Rightarrow> string \<Rightarrow> string \<Rightarrow> (string, string) dict \<Rightarrow> (world, unit) action" where
  "fetch_commit g destination sha env =
     bd (has_commit g destination sha env) (\<lambda>there.
     if there then ret ()
     else
       bd (run_git g (in_checkout destination [''fetch'', ''--quiet'', ''origin'', sha]) env) (\<lambda>_.
       verify_full_clone g destination env))"

definition checkout_pinned :: "gitlab_client \<Rightarrow> string \<Rightarrow> string \<Rightarrow> (string, string) dict \<Rightarrow> (world, unit) action" where
  "checkout_pinned g destination sha env =
     bd (run_git g (in_checkout destination [''checkout'', ''--quiet'', ''--detach'', sha]) env) (\<lambda>_.
     bd (run_git g (in_checkout destination [''rev-parse'', ''HEAD'']) env) (\<lambda>actual.
     if lower (strip actual) \<noteq> lower sha
     then clone_failed ''Git clone did not check out the resolved GitLab commit''
     else ret ()))"

definition clone_repository :: "gitlab_client \<Rightarrow> gitlab_ref \<Rightarrow> string \<Rightarrow> (world, unit) action" where
  "clone_repository g r destination =
     bd (lift_res (clone_url g r)) (\<lambda>url.
     bd (lift_res (git_environment g url)) (\<lambda>env.
     bd (run_git g [''git'', ''clone'', ''--quiet'', ''--no-checkout'', ''--'', url, destination] env) (\<lambda>_.
     andthen (verify_full_clone g destination env)
     (andthen (fetch_commit g destination (gr_commit r) env)
       (checkout_pinned g destination (gr_commit r) env)))))"

definition checkout_commit :: "gitlab_client \<Rightarrow> gitlab_ref \<Rightarrow> string \<Rightarrow> (world, string) action" where
  "checkout_commit g r destination =
     bd (gf_prepare (gl_files g) destination) (\<lambda>path.
     andthen (clone_repository g r path) (ret path))"

section \<open>The Compose file\<close>

definition COMPOSE_FILENAMES :: "string list" where
  "COMPOSE_FILENAMES = [''compose.yaml'', ''compose.yml'', ''docker-compose.yml'', ''docker-compose.yaml'']"

text \<open>The walk over the checkout, as the paths of the Compose files below a directory: it neither
  enters \<open>.git\<close> nor follows symbolic links. None: some directory could not be listed.\<close>

fun scan_node :: "string \<Rightarrow> fs_node \<Rightarrow> string list option"
  and scan_entries :: "string \<Rightarrow> (string \<times> fs_node) list \<Rightarrow> string list option" where
  "scan_node at (FsDir None) = None"
| "scan_node at (FsDir (Some entries)) = scan_entries at entries"
| "scan_node at FsFile = Some []"
| "scan_node at FsLink = Some []"
| "scan_node at FsOther = Some []"
| "scan_entries at [] = Some []"
| "scan_entries at ((name, node) # entries) =
     (case (if node = FsFile then Some (if name \<in> set COMPOSE_FILENAMES then [at @ name] else [])
            else if name = ''.git'' then Some []
            else scan_node (at @ name @ ''/'') node) of
        None \<Rightarrow> None
      | Some found \<Rightarrow> map_option (\<lambda>more. found @ more) (scan_entries at entries))"

definition find_compose_path :: "fs_node \<Rightarrow> string res" where
  "find_compose_path tree =
     (case (case tree of FsDir _ \<Rightarrow> scan_node [] tree | _ \<Rightarrow> None) of
        None \<Rightarrow> Inl (Exn GitLabRepositoryCloneError ''Unable to scan the cloned GitLab repository'')
      | Some files \<Rightarrow>
          (case filter (\<lambda>f. f \<in> set files) COMPOSE_FILENAMES of
             f # _ \<Rightarrow> Inr f
           | [] \<Rightarrow>
               (case sort (remdups files) of
                  [] \<Rightarrow> Inl (Exn GitLabComposeNotFoundError
                           ''No conventional Docker Compose file was found in the repository'')
                | [f] \<Rightarrow> Inr f
                | _ \<Rightarrow> Inl (Exn GitLabComposeAmbiguousError
                         ''Multiple Docker Compose files were found in the repository''))))"

record gitlab_compose =
  gc_path :: string
  gc_compose :: mapping
  gc_commit :: string

definition compose_invalid :: "string \<Rightarrow> 'a res" where
  "compose_invalid m = Inl (Exn GitLabComposeInvalidError m)"

definition compose_document :: "gitlab_client \<Rightarrow> string option \<Rightarrow> mapping res" where
  "compose_document g raw =
     (case raw of
        None \<Rightarrow> compose_invalid ''Docker Compose file is not valid UTF-8''
      | Some rendered \<Rightarrow>
          (case gl_yaml g rendered of
             None \<Rightarrow> compose_invalid ''Docker Compose file contains invalid YAML''
           | Some (VDict d) \<Rightarrow>
               if is_mapping (mget d ''services'') \<and> the_dict (mget d ''services'') \<noteq> [] then Inr d
               else compose_invalid ''Docker Compose document must contain a non-empty services object''
           | Some _ \<Rightarrow> compose_invalid ''Docker Compose document must be an object''))"

definition clone_and_read :: "gitlab_client \<Rightarrow> gitlab_ref \<Rightarrow> string \<Rightarrow> (world, string \<times> string option) action" where
  "clone_and_read g r temporary =
     (let checkout = temporary @ ''/repository'' in
      andthen (clone_repository g r checkout)
        (bd (gf_tree (gl_files g) checkout) (\<lambda>tree.
         bd (lift_res (find_compose_path tree)) (\<lambda>path.
         bd (gf_text (gl_files g) (checkout @ ''/'' @ path)) (\<lambda>raw.
         ret (path, raw))))))"

definition discover_compose :: "gitlab_client \<Rightarrow> gitlab_ref \<Rightarrow> (world, gitlab_compose) action" where
  "discover_compose g r =
     (if \<not> fullmatch COMMIT_SHA (gr_commit r)
      then gitlab_error ''GitLab reference must contain a full commit SHA''
      else
        bd (bd (gf_temporary (gl_files g)) (\<lambda>temporary.
            finally_do (clone_and_read g r temporary) (gf_discard (gl_files g) temporary))) (\<lambda>(path, raw).
        bd (lift_res (compose_document g raw)) (\<lambda>document.
        ret \<lparr>gc_path = path, gc_compose = document, gc_commit = gr_commit r\<rparr>)))"

end
