(* ===== verification/GitLabSafety.thy ===== *)
theory GitLabSafety
  imports GitLab Jenkins
begin

text \<open>
  What the GitLab client promises: which Compose file it chooses, that a checkout is a complete clone
  at the resolved commit, and that the token stays with the configured server.
\<close>

section \<open>The choice of the Compose file\<close>

text \<open>The node a path leads to without following links.\<close>

inductive reaches :: "fs_node \<Rightarrow> string list \<Rightarrow> fs_node \<Rightarrow> bool" where
  here: "reaches x [] x"
| below: "(n, y) \<in> set entries \<Longrightarrow> reaches y ps z \<Longrightarrow> reaches (FsDir (Some entries)) (n # ps) z"

inductive_simps reaches_Nil [simp]: "reaches x [] z"
inductive_simps reaches_file [simp]: "reaches FsFile ps z"
inductive_simps reaches_link [simp]: "reaches FsLink ps z"
inductive_simps reaches_other [simp]: "reaches FsOther ps z"
inductive_simps reaches_unlisted [simp]: "reaches (FsDir None) ps z"
inductive_simps reaches_dir_Cons [simp]: "reaches (FsDir (Some entries)) (n # ps) z"

text \<open>The paths of the Compose files in a checkout, and the directories the walk has to list.\<close>

definition compose_name :: "string list \<Rightarrow> bool" where
  "compose_name ps \<longleftrightarrow> ps \<noteq> [] \<and> last ps \<in> set COMPOSE_FILENAMES \<and> ''.git'' \<notin> set (butlast ps)"

definition compose_paths :: "fs_node \<Rightarrow> string list set" where
  "compose_paths tree = {ps. reaches tree ps FsFile \<and> compose_name ps}"

definition compose_files :: "fs_node \<Rightarrow> string set" where
  "compose_files tree = join ''/'' ` compose_paths tree"

definition listable :: "fs_node \<Rightarrow> bool" where
  "listable tree \<longleftrightarrow> (\<forall>ps. reaches tree ps (FsDir None) \<longrightarrow> ''.git'' \<in> set ps)"

lemma join_path_Cons: "ps \<noteq> [] \<Longrightarrow> join ''/'' (n # ps) = n @ ''/'' @ join ''/'' ps"
  by (cases ps) simp_all

lemma git_no_compose: "''.git'' \<notin> set COMPOSE_FILENAMES"
  by (simp add: COMPOSE_FILENAMES_def)

lemma compose_name_Cons: "compose_name (n # ps) \<longleftrightarrow> (if ps = [] then n \<in> set COMPOSE_FILENAMES else n \<noteq> ''.git'' \<and> compose_name ps)"
  by (auto simp: compose_name_def)

definition below_paths :: "(string \<times> fs_node) list \<Rightarrow> string list set" where
  "below_paths entries = {n # ps | n y ps. (n, y) \<in> set entries \<and> reaches y ps FsFile \<and> compose_name (n # ps)}"

lemma below_paths_Cons: "below_paths ((n, y) # es) =
  {n # ps | ps. reaches y ps FsFile \<and> compose_name (n # ps)} \<union> below_paths es"
  by (auto simp: below_paths_def)

lemma dir_paths: "compose_paths (FsDir (Some es)) = below_paths es"
proof -
  have "ps \<in> compose_paths (FsDir (Some es)) \<longleftrightarrow> ps \<in> below_paths es" for ps
    by (cases ps) (auto simp: compose_paths_def below_paths_def compose_name_def)
  then show ?thesis by blast
qed

definition entry_listable :: "string \<times> fs_node \<Rightarrow> bool" where
  "entry_listable = (\<lambda>(n, y). n = ''.git'' \<or> listable y)"

lemma listable_dir: "listable (FsDir (Some es)) \<longleftrightarrow> (\<forall>e\<in>set es. entry_listable e)"
proof -
  have "listable (FsDir (Some es)) \<longleftrightarrow> (\<forall>n ps. reaches (FsDir (Some es)) (n # ps) (FsDir None) \<longrightarrow> ''.git'' \<in> set (n # ps))"
    unfolding listable_def by (metis list.exhaust fs_node.inject option.distinct(1) reaches_Nil)
  then show ?thesis by (auto simp: entry_listable_def listable_def)
qed

lemma listable_leaf [simp]: "listable FsFile" "listable FsLink" "listable FsOther" "\<not> listable (FsDir None)"
  by (auto simp: listable_def)

lemma node_paths_file: "{n # ps | ps. reaches FsFile ps FsFile \<and> compose_name (n # ps)} =
  (if n \<in> set COMPOSE_FILENAMES then {[n]} else {})"
  by (auto simp: compose_name_Cons)

lemma node_paths_dir:
  assumes "n \<noteq> ''.git''" and "y \<noteq> FsFile"
  shows "{n # ps | ps. reaches y ps FsFile \<and> compose_name (n # ps)} = (#) n ` compose_paths y"
proof -
  have "reaches y ps FsFile \<and> compose_name (n # ps) \<longleftrightarrow> ps \<in> compose_paths y" for ps
    using assms by (cases ps) (auto simp: compose_paths_def compose_name_Cons compose_name_def)
  then show ?thesis by auto
qed

lemma node_paths_git:
  assumes "y \<noteq> FsFile"
  shows "{''.git'' # ps | ps. reaches y ps FsFile \<and> compose_name (''.git'' # ps)} = {}"
proof -
  have "\<not> (reaches y ps FsFile \<and> compose_name (''.git'' # ps))" for ps
    using assms git_no_compose by (cases ps) (auto simp: compose_name_Cons)
  then show ?thesis by auto
qed

lemma compose_paths_nonempty: "ps \<in> compose_paths y \<Longrightarrow> ps \<noteq> []"
  by (simp add: compose_paths_def compose_name_def)

lemma join_image: "(\<lambda>ps. at @ join ''/'' ps) ` ((#) n ` compose_paths y) =
  (\<lambda>ps. (at @ n @ ''/'') @ join ''/'' ps) ` compose_paths y"
  unfolding image_image by (rule image_cong) (simp_all add: join_path_Cons compose_paths_nonempty)

lemma scan_correct:
  "(case scan_node at node of
      None \<Rightarrow> \<not> listable node
    | Some fs \<Rightarrow> listable node \<and> ((\<exists>x. node = FsDir x) \<longrightarrow> set fs = (\<lambda>ps. at @ join ''/'' ps) ` compose_paths node))"
  "(case scan_entries at es of
      None \<Rightarrow> \<not> (\<forall>e\<in>set es. entry_listable e)
    | Some fs \<Rightarrow> (\<forall>e\<in>set es. entry_listable e) \<and> set fs = (\<lambda>ps. at @ join ''/'' ps) ` below_paths es)"
proof (induction at node and at es rule: scan_node_scan_entries.induct)
  case (2 at entries)
  then show ?case by (cases "scan_entries at entries") (simp_all add: listable_dir dir_paths)
next
  case (6 at)
  then show ?case by (simp add: below_paths_def)
next
  case (7 at n y es)
  let ?own = "if y = FsFile then Some (if n \<in> set COMPOSE_FILENAMES then [at @ n] else [])
    else if n = ''.git'' then Some [] else scan_node (at @ n @ ''/'') y"
  let ?paths = "{n # ps | ps. reaches y ps FsFile \<and> compose_name (n # ps)}"
  have own: "case ?own of None \<Rightarrow> \<not> entry_listable (n, y)
    | Some fs \<Rightarrow> entry_listable (n, y) \<and> set fs = (\<lambda>ps. at @ join ''/'' ps) ` ?paths"
  proof (cases "y = FsFile")
    case True
    then show ?thesis using node_paths_file by (simp add: entry_listable_def)
  next
    case leafless: False
    show ?thesis
    proof (cases "n = ''.git''")
      case True
      then show ?thesis using leafless node_paths_git by (simp add: entry_listable_def)
    next
      case False
      have ih: "case scan_node (at @ n @ ''/'') y of None \<Rightarrow> \<not> listable y
        | Some fs \<Rightarrow> listable y \<and> ((\<exists>x. y = FsDir x) \<longrightarrow> set fs = (\<lambda>ps. (at @ n @ ''/'') @ join ''/'' ps) ` compose_paths y)"
        using 7(1) leafless False by simp
      have leaf: "compose_paths y = {} \<and> scan_node (at @ n @ ''/'') y = Some []" if "\<nexists>x. y = FsDir x"
        using that leafless by (cases y) (auto simp: compose_paths_def)
      show ?thesis
        unfolding node_paths_dir [OF False leafless] join_image
        using ih leaf False leafless by (cases "\<exists>x. y = FsDir x") (auto simp: entry_listable_def split: option.splits)
    qed
  qed
  show ?case
  proof (cases ?own)
    case None
    then show ?thesis using own by auto
  next
    case (Some found)
    then show ?thesis
      using own 7(2) [OF Some] by (cases "scan_entries at es") (simp_all add: below_paths_Cons image_Un)
  qed
qed auto

lemma scan_cases:
  obtains "\<not> listable (FsDir x)" "scan_node [] (FsDir x) = None"
  | fs where "listable (FsDir x)" "scan_node [] (FsDir x) = Some fs" "set fs = compose_files (FsDir x)"
  using scan_correct(1) [where at = "[]" and node = "FsDir x"] by (auto simp: compose_files_def split: option.splits)

lemma sort_remdups_singleton: "sort (remdups xs) = [x] \<longleftrightarrow> set xs = {x}"
proof
  assume "sort (remdups xs) = [x]"
  then show "set xs = {x}" by (metis set_remdups set_sort list.set(1,2))
next
  assume "set xs = {x}"
  then have "sort (remdups xs) = sorted_list_of_set {x}" by (simp add: sorted_list_of_set_sort_remdups [symmetric])
  then show "sort (remdups xs) = [x]" by simp
qed

text \<open>The first conventional name present at the root.\<close>

definition root_choice :: "fs_node \<Rightarrow> string option" where
  "root_choice tree = find (\<lambda>f. f \<in> compose_files tree) COMPOSE_FILENAMES"

lemma find_filter: "find P xs = (case filter P xs of [] \<Rightarrow> None | x # _ \<Rightarrow> Some x)"
  by (induction xs) simp_all

definition scan_failure :: "'a res" where
  "scan_failure = Inl (Exn GitLabRepositoryCloneError ''Unable to scan the cloned GitLab repository'')"

text \<open>
  C18: the Compose file of a repository is chosen by what the checkout holds outside \<open>.git\<close> and without
  following links: the first conventional name at the root, in the order of the Compose command, else
  the only one further down; none, or several without one at the root, is an error of its own, and so
  is a directory that cannot be listed.
\<close>

theorem compose_file_choice:
  "find_compose_path (FsDir x) =
     (if \<not> listable (FsDir x) then scan_failure
      else
        (case root_choice (FsDir x) of
           Some f \<Rightarrow> Inr f
         | None \<Rightarrow>
             if compose_files (FsDir x) = {} then Inl (Exn GitLabComposeNotFoundError
               ''No conventional Docker Compose file was found in the repository'')
             else if is_singleton (compose_files (FsDir x)) then Inr (the_elem (compose_files (FsDir x)))
             else Inl (Exn GitLabComposeAmbiguousError ''Multiple Docker Compose files were found in the repository'')))"
proof (rule scan_cases [of x])
  assume "\<not> listable (FsDir x)" "scan_node [] (FsDir x) = None"
  then show ?thesis by (simp add: find_compose_path_def scan_failure_def)
next
  fix fs assume l: "listable (FsDir x)" and s: "scan_node [] (FsDir x) = Some fs" and f: "set fs = compose_files (FsDir x)"
  show ?thesis
  proof (cases "sort (remdups fs)")
    case Nil
    then have "fs = []" by (metis set_empty set_remdups set_sort)
    then show ?thesis using l s f by (simp add: find_compose_path_def root_choice_def find_filter COMPOSE_FILENAMES_def)
  next
    case (Cons a as)
    then have ne: "compose_files (FsDir x) \<noteq> {}" using f by (metis list.distinct(1) set_empty set_remdups set_sort)
    have one: "as = [] \<longleftrightarrow> compose_files (FsDir x) = {a}"
      using Cons sort_remdups_singleton [of fs] f by (metis list.inject the_elem_eq)
    then have "as = [] \<longleftrightarrow> is_singleton (compose_files (FsDir x))"
      using Cons f by (metis is_singleton_def list.inject sort_remdups_singleton)
    then show ?thesis
      using l s f ne one Cons
      by (auto simp: find_compose_path_def root_choice_def find_filter split: list.split)
  qed
qed

section \<open>The checkout is the commit\<close>

text \<open>A session with git: the commands run one after the other, with exit status and output.\<close>

inductive git_session ::
  "gitlab_client \<Rightarrow> (string, string) dict \<Rightarrow> world \<Rightarrow> (string list \<times> int \<times> string) list \<Rightarrow> world \<Rightarrow> bool" for g env where
  session_end: "git_session g env w [] w"
| session_step: "gl_git g command env w = (Inr (GitRan status out), w1) \<Longrightarrow> git_session g env w1 rest w' \<Longrightarrow>
    git_session g env w ((command, status, out) # rest) w'"

inductive_simps session_Nil [simp]: "git_session g env w [] w'"
inductive_simps session_Cons [simp]: "git_session g env w ((command, status, out) # rest) w'"

lemma session_append: "git_session g env w (s @ t) w' \<longleftrightarrow> (\<exists>w1. git_session g env w s w1 \<and> git_session g env w1 t w')"
proof (induction s arbitrary: w)
  case (Cons c s)
  then show ?case by (cases c) auto
qed simp

text \<open>What a session has to look like: \<open>next_call c P\<close> says that it goes on with the command \<open>c\<close>,
  whose exit status, output and remaining session satisfy \<open>P\<close>.\<close>

type_synonym session_rest = "(string list \<times> int \<times> string) list \<Rightarrow> bool"

fun next_call :: "string list \<Rightarrow> (int \<Rightarrow> string \<Rightarrow> session_rest) \<Rightarrow> session_rest" where
  "next_call c P [] \<longleftrightarrow> False"
| "next_call c P ((command, status, out) # t) \<longleftrightarrow> command = c \<and> P status out t"

text \<open>Git says that the history is complete, neither shallow nor partial.\<close>

definition complete_history :: "string \<Rightarrow> session_rest \<Rightarrow> session_rest" where
  "complete_history d go =
     next_call (in_checkout d [''rev-parse'', ''--is-shallow-repository'']) (\<lambda>status shallow t.
       (status = 0 \<and> strip shallow = ''false'') \<and>
       next_call (in_checkout d [''config'', ''--local'', ''--list'']) (\<lambda>status settings t.
         (status = 0 \<and> (\<forall>line\<in>set (line_pieces settings). \<not> partial_setting line)) \<and> go t) t)"

text \<open>It has the commit, or a fetch gets it and the history is still complete.\<close>

definition commit_present :: "string \<Rightarrow> string \<Rightarrow> session_rest \<Rightarrow> session_rest" where
  "commit_present d sha go =
     next_call (in_checkout d [''cat-file'', ''-e'', sha @ ''^{commit}'']) (\<lambda>status out.
       if status = 0 then go
       else next_call (in_checkout d [''fetch'', ''--quiet'', ''origin'', sha]) (\<lambda>status out t.
              status = 0 \<and> complete_history d go t))"

definition commit_out :: "string \<Rightarrow> string \<Rightarrow> session_rest" where
  "commit_out d sha =
     next_call (in_checkout d [''checkout'', ''--quiet'', ''--detach'', sha]) (\<lambda>status out t.
       status = 0 \<and> next_call (in_checkout d [''rev-parse'', ''HEAD'']) (\<lambda>status actual t.
         (status = 0 \<and> lower (strip actual) = lower sha) \<and> t = []) t)"

definition pinned_clone :: "string \<Rightarrow> string \<Rightarrow> string \<Rightarrow> session_rest" where
  "pinned_clone url d sha =
     next_call [''git'', ''clone'', ''--quiet'', ''--no-checkout'', ''--'', url, d] (\<lambda>status out t.
       status = 0 \<and> complete_history d (commit_present d sha (commit_out d sha)) t)"

lemma session_next:
  "(\<exists>t. git_session g env w t w' \<and> next_call c P t) \<longleftrightarrow>
   (\<exists>status out w1. gl_git g c env w = (Inr (GitRan status out), w1) \<and> (\<exists>t. git_session g env w1 t w' \<and> P status out t))"
proof
  assume "\<exists>t. git_session g env w t w' \<and> next_call c P t"
  then obtain t where t: "git_session g env w t w'" "next_call c P t" by blast
  from t(1) show "\<exists>status out w1. gl_git g c env w = (Inr (GitRan status out), w1) \<and> (\<exists>t. git_session g env w1 t w' \<and> P status out t)"
    using t(2) by cases auto
next
  assume "\<exists>status out w1. gl_git g c env w = (Inr (GitRan status out), w1) \<and> (\<exists>t. git_session g env w1 t w' \<and> P status out t)"
  then obtain status out w1 t where "gl_git g c env w = (Inr (GitRan status out), w1)" "git_session g env w1 t w'" "P status out t"
    by blast
  then have "git_session g env w ((c, status, out) # t) w' \<and> next_call c P ((c, status, out) # t)" by simp
  then show "\<exists>t. git_session g env w t w' \<and> next_call c P t" by blast
qed

lemma session_guard: "(\<exists>t. git_session g env w t w' \<and> b \<and> P t) \<longleftrightarrow> b \<and> (\<exists>t. git_session g env w t w' \<and> P t)"
  by blast

lemma session_done: "(\<exists>t. git_session g env w t w' \<and> t = []) \<longleftrightarrow> w' = w"
  by auto

lemma session_if: "(\<exists>t. git_session g env w t w' \<and> (if b then P else Q) t) \<longleftrightarrow>
  (if b then (\<exists>t. git_session g env w t w' \<and> P t) else (\<exists>t. git_session g env w t w' \<and> Q t))"
  by simp

lemmas session_rules = session_next session_guard session_done session_if

lemma bd_Inr_iff: "bd m f w = (Inr y, w') \<longleftrightarrow> (\<exists>x w1. m w = (Inr x, w1) \<and> f x w1 = (Inr y, w'))"
  by (auto simp: bd_app split: prod.splits sum.splits)

lemma andthen_Inr_iff: "andthen m k w = (Inr y, w') \<longleftrightarrow> (\<exists>x w1. m w = (Inr x, w1) \<and> k w1 = (Inr y, w'))"
  by (simp add: andthen_def bd_Inr_iff)

lemma run_git_Inr: "run_git g command env w = (Inr out, w') \<longleftrightarrow> gl_git g command env w = (Inr (GitRan 0 out), w')"
proof -
  have "gl_git g command env w = (r, w1) \<Longrightarrow> ?thesis" for r w1
    by (cases r; cases "projr r") (auto simp: run_git_def clone_failed_def bd_app)
  then show ?thesis by (cases "gl_git g command env w") blast
qed

text \<open>Each step, followed by whatever session may follow it.\<close>

lemma if_ret_Inr: "(if b then raise c m else k) w = (Inr u, w') \<longleftrightarrow> \<not> b \<and> k w = (Inr u, w')"
  by simp

lemma verify_Inr:
  "verify_full_clone g d env w = (Inr (), w') \<longleftrightarrow>
     (\<exists>shallow w1 settings. gl_git g (in_checkout d [''rev-parse'', ''--is-shallow-repository'']) env w = (Inr (GitRan 0 shallow), w1) \<and>
        strip shallow = ''false'' \<and>
        gl_git g (in_checkout d [''config'', ''--local'', ''--list'']) env w1 = (Inr (GitRan 0 settings), w') \<and>
        (\<forall>line\<in>set (line_pieces settings). \<not> partial_setting line))"
  unfolding verify_full_clone_def clone_failed_def bd_Inr_iff run_git_Inr if_ret_Inr list_ex_iff ret_app prod.inject sum.inject
  by blast

lemma verify_session:
  "(\<exists>w1. verify_full_clone g d env w = (Inr (), w1) \<and> (\<exists>t. git_session g env w1 t w' \<and> go t)) \<longleftrightarrow>
   (\<exists>t. git_session g env w t w' \<and> complete_history d go t)"
  unfolding complete_history_def session_rules verify_Inr by blast

lemma has_commit_Inr: "has_commit g d sha env w = (Inr b, w1) \<longleftrightarrow>
  (\<exists>status out. gl_git g (in_checkout d [''cat-file'', ''-e'', sha @ ''^{commit}'']) env w = (Inr (GitRan status out), w1) \<and>
     b = (status = 0))"
proof -
  have "gl_git g (in_checkout d [''cat-file'', ''-e'', sha @ ''^{commit}'']) env w = (r, w2) \<Longrightarrow> ?thesis" for r w2
    by (cases r; cases "projr r") (auto simp: has_commit_def clone_failed_def bd_app)
  then show ?thesis by (cases "gl_git g (in_checkout d [''cat-file'', ''-e'', sha @ ''^{commit}'']) env w") blast
qed

lemma fetch_Inr:
  "fetch_commit g d sha env w = (Inr (), w') \<longleftrightarrow>
     (\<exists>status out w1. gl_git g (in_checkout d [''cat-file'', ''-e'', sha @ ''^{commit}'']) env w = (Inr (GitRan status out), w1) \<and>
        (if status = 0 then w' = w1
         else \<exists>out' w2. gl_git g (in_checkout d [''fetch'', ''--quiet'', ''origin'', sha]) env w1 = (Inr (GitRan 0 out'), w2) \<and>
                verify_full_clone g d env w2 = (Inr (), w')))"
proof -
  have "(if status = 0 then ret () else bd (run_git g c env) (\<lambda>_. verify_full_clone g d env)) w1 = (Inr (), w') \<longleftrightarrow>
    (if status = 0 then w' = w1
     else \<exists>out' w2. gl_git g c env w1 = (Inr (GitRan 0 out'), w2) \<and> verify_full_clone g d env w2 = (Inr (), w'))"
    for status :: int and c w1
    by (auto simp: bd_Inr_iff run_git_Inr)
  then show ?thesis unfolding fetch_commit_def bd_Inr_iff has_commit_Inr by blast
qed

lemma branch_then:
  "(\<exists>w1. (\<exists>n a w0. A n a w0 \<and> (if n = (0::int) then w1 = w0 else B w0 w1)) \<and> Q w1) \<longleftrightarrow>
   (\<exists>n a w0. A n a w0 \<and> (if n = 0 then Q w0 else \<exists>w1. B w0 w1 \<and> Q w1))"
  by (metis (full_types))

lemma fetch_session:
  "(\<exists>w1. fetch_commit g d sha env w = (Inr (), w1) \<and> (\<exists>t. git_session g env w1 t w' \<and> go t)) \<longleftrightarrow>
   (\<exists>t. git_session g env w t w' \<and> commit_present d sha go t)"
proof -
  let ?cat = "gl_git g (in_checkout d [''cat-file'', ''-e'', sha @ ''^{commit}'']) env w"
  let ?fetch = "gl_git g (in_checkout d [''fetch'', ''--quiet'', ''origin'', sha]) env"
  have "(\<exists>t. git_session g env w t w' \<and> commit_present d sha go t) \<longleftrightarrow>
    (\<exists>status out w1. ?cat = (Inr (GitRan status out), w1) \<and>
       (if status = 0 then \<exists>t. git_session g env w1 t w' \<and> go t
        else \<exists>out' w2. ?fetch w1 = (Inr (GitRan 0 out'), w2) \<and>
          (\<exists>w3. verify_full_clone g d env w2 = (Inr (), w3) \<and> (\<exists>t. git_session g env w3 t w' \<and> go t))))"
    unfolding commit_present_def session_rules verify_session by (simp cong: if_cong)
  then show ?thesis unfolding fetch_Inr branch_then by (simp cong: if_cong) blast
qed

lemma checkout_session:
  "checkout_pinned g d sha env w = (Inr (), w') \<longleftrightarrow> (\<exists>t. git_session g env w t w' \<and> commit_out d sha t)"
  unfolding commit_out_def session_rules checkout_pinned_def clone_failed_def bd_Inr_iff run_git_Inr if_ret_Inr
    ret_app prod.inject sum.inject by blast

text \<open>
  C17: a clone succeeds exactly when git, asked in this order, has cloned the repository's address, has
  said that the history is neither shallow nor partial, has the resolved commit (or has fetched it, and
  the history is still complete), and after the checkout says that this commit is checked out.
\<close>

theorem checkout_is_pinned:
  "clone_repository g r d w = (Inr (), w') \<longleftrightarrow>
     (\<exists>url env t. clone_url g r = Inr url \<and> git_environment g url = Inr env \<and>
        git_session g env w t w' \<and> pinned_clone url d (gr_commit r) t)"
proof -
  have "(\<exists>t. git_session g env w t w' \<and> pinned_clone url d sha t) \<longleftrightarrow>
    (\<exists>out w1. gl_git g [''git'', ''clone'', ''--quiet'', ''--no-checkout'', ''--'', url, d] env w = (Inr (GitRan 0 out), w1) \<and>
       (\<exists>w2. verify_full_clone g d env w1 = (Inr (), w2) \<and>
       (\<exists>w3. fetch_commit g d sha env w2 = (Inr (), w3) \<and> checkout_pinned g d sha env w3 = (Inr (), w'))))"
    for url env sha
    unfolding pinned_clone_def session_rules verify_session [symmetric] fetch_session [symmetric] checkout_session by blast
  then show ?thesis
    unfolding clone_repository_def bd_Inr_iff andthen_Inr_iff lift_res_app run_git_Inr by auto
qed

section \<open>Credentials stay at the configured server\<close>

lemma lower_lower: "lower (lower s) = lower s"
proof -
  have "lower_char (lower_char c) = lower_char c" for c
    by (auto simp: lower_char_def is_upper_def in_range_def)
  then show ?thesis by (simp add: lower_def)
qed

lemma lower_alpha: "is_alpha (lower_char c) = is_alpha c"
  by (auto simp: lower_char_def is_alpha_def is_upper_def is_lower_def in_range_def)

lemma lower_scheme_char: "scheme_char c \<Longrightarrow> scheme_char (lower_char c)"
  by (cases "is_upper c") (simp_all add: scheme_char_def is_alnum_def lower_alpha, simp_all add: lower_char_def is_alpha_def)

text \<open>A URL put together from the scheme and the network location of another one.\<close>

lemma split_once_free: "c \<notin> set s \<Longrightarrow> split_once c s = (s, None)"
  by (induction s) auto

lemma split_scheme_some:
  assumes "split_scheme s = (a, r)" "a \<noteq> []"
  shows "split_scheme (a @ CHR '':'' # t) = (a, t)" "set r \<subseteq> set s"
    "list_all scheme_char a" "is_alpha (hd a)"
proof -
  obtain b where b: "split_once (CHR '':'') s = (b, Some r)" "b \<noteq> []" "is_alpha (hd b)" "list_all scheme_char b" "a = lower b"
    using assms by (auto simp: split_scheme_def split: prod.splits option.splits if_splits)
  show sc: "list_all scheme_char a" using b(4,5) lower_scheme_char by (auto simp: lower_def list_all_iff)
  show al: "is_alpha (hd a)" using b(2,3,5) by (simp add: lower_def hd_map lower_alpha)
  have "CHR '':'' \<notin> set a"
    using sc by (auto simp: list_all_iff scheme_char_def is_alnum_def is_alpha_def is_upper_def is_lower_def is_digit_def in_range_def code_def)
  then show "split_scheme (a @ CHR '':'' # t) = (a, t)"
    using sc al assms(2) b(5) by (simp add: split_scheme_def split_once_append lower_lower)
  show "set r \<subseteq> set s" using split_once_Some [OF b(1)] by auto
qed

lemma scheme_char_plain: "scheme_char c \<Longrightarrow> \<not> unsafe_url_char c \<and> \<not> c0_or_space c"
  by (auto simp: scheme_char_def is_alnum_def is_alpha_def is_upper_def is_lower_def is_digit_def in_range_def
      unsafe_url_char_def c0_or_space_def code_def)

lemma clean_plain: "\<not> unsafe_url_char c" if "c \<in> set (clean_url s)"
  using that by (auto simp: clean_url_def)

lemma rebuilt_origin:
  assumes "urlsplit s = Inr u" "url_scheme u \<noteq> []" "url_netloc u \<noteq> []" "t = [] \<or> hd t = CHR ''/''"
  shows "origin (url_scheme u @ ''://'' @ url_netloc u @ t) = Some (url_scheme u, url_netloc u)"
proof -
  let ?a = "url_scheme u" and ?n = "url_netloc u"
  obtain r where r: "split_scheme (clean_url s) = (?a, r)" and n: "?n = fst (split_netloc r)" and bal: "brackets_balanced ?n"
    using assms(1) by (cases "split_scheme (clean_url s)") (auto simp: urlsplit_def Let_def split: if_splits)
  note sc = split_scheme_some [OF r assms(2)]
  have tw: "?n = takeWhile netloc_char (drop 2 r)" using n assms(3) by (auto simp: split_netloc_def split: if_splits)
  have nc: "\<forall>c\<in>set ?n. netloc_char c \<and> \<not> unsafe_url_char c"
  proof
    fix c assume c: "c \<in> set ?n"
    then have "c \<in> set (drop 2 r)" "netloc_char c" using set_takeWhileD [of c netloc_char "drop 2 r"] by (simp_all add: tw)
    moreover from this have "c \<in> set (clean_url s)" using set_drop_subset [of 2 r] sc(2) by auto
    ultimately show "netloc_char c \<and> \<not> unsafe_url_char c" using clean_plain by blast
  qed
  have ac: "\<forall>c\<in>set ?a. \<not> unsafe_url_char c \<and> \<not> c0_or_space c"
    using sc(3) scheme_char_plain by (auto simp: list_all_iff)
  have keep: "filter (\<lambda>c. \<not> unsafe_url_char c) ?a = ?a" "filter (\<lambda>c. \<not> unsafe_url_char c) ?n = ?n"
    using nc ac by (auto simp: filter_id_conv)
  have marks: "\<not> unsafe_url_char (CHR '':'')" "\<not> unsafe_url_char (CHR ''/'')" by (simp_all add: unsafe_url_char_def)
  have "dropWhile c0_or_space (?a @ ''://'' @ ?n @ t) = ?a @ ''://'' @ ?n @ t"
    using ac assms(2) by (cases ?a) auto
  then have cl: "clean_url (?a @ ''://'' @ ?n @ t) = ?a @ ''://'' @ ?n @ filter (\<lambda>c. \<not> unsafe_url_char c) t"
    using keep marks by (simp add: clean_url_def)
  have first: "filter (\<lambda>c. \<not> unsafe_url_char c) t = [] \<or> hd (filter (\<lambda>c. \<not> unsafe_url_char c) t) = CHR ''/''"
    using assms(4) by (cases t) (auto simp: unsafe_url_char_def)
  have "takeWhile netloc_char (?n @ filter (\<lambda>c. \<not> unsafe_url_char c) t) = ?n"
    using nc first by (cases "filter (\<lambda>c. \<not> unsafe_url_char c) t") (auto simp: takeWhile_append netloc_char_def)
  then show ?thesis
    using sc(1) bal cl by (simp add: origin_scheme_netloc split_netloc_def starts_with_def)
qed

lemma path_starts:
  assumes "urlsplit s = Inr u" "url_netloc u \<noteq> []"
  shows "url_path u = [] \<or> hd (url_path u) = CHR ''/''"
proof -
  obtain r where p: "url_path u = fst (split_once (CHR ''?'') (fst (split_once (CHR ''#'') (dropWhile netloc_char (drop 2 r)))))"
    using assms by (auto simp: urlsplit_def split_netloc_def Let_def split: if_splits)
  let ?x = "dropWhile netloc_char (drop 2 r)"
  show ?thesis
  proof (cases ?x)
    case (Cons c t)
    then have "\<not> netloc_char c" using hd_dropWhile [of netloc_char "drop 2 r"] by force
    then show ?thesis using p Cons by (auto simp: netloc_char_def split: prod.splits)
  next
    case Nil
    show ?thesis unfolding p Nil by simp
  qed
qed

text \<open>URLs of the configured server: same scheme, host and effective port.\<close>

definition at_home :: "gitlab_client \<Rightarrow> string \<Rightarrow> bool" where
  "at_home g s \<longleftrightarrow>
     (case (urlsplit s, urlsplit (gl_base_url g)) of
        (Inr u, Inr b) \<Rightarrow> url_scheme u = url_scheme b \<and> url_hostname u \<noteq> None \<and>
          map_option lower (url_hostname u) = map_option lower (url_hostname b) \<and> effective_port u = effective_port b
      | _ \<Rightarrow> False)"

lemma origin_hostinfo:
  assumes "origin s = Some (a, n)" "origin t = Some (a, n)"
  obtains u v where "urlsplit s = Inr u" "urlsplit t = Inr v" "url_scheme u = a" "url_scheme v = a" "url_netloc u = n"
    "url_hostname u = url_hostname v" "effective_port u = effective_port v"
proof -
  obtain u v where uv: "urlsplit s = Inr u" "urlsplit t = Inr v" "url_scheme u = a" "url_scheme v = a"
    "url_netloc u = n" "url_netloc v = n"
    using assms by (auto simp: origin_def split: sum.splits)
  have hi: "url_hostinfo u = url_hostinfo v" using uv by (simp add: url_hostinfo_def)
  have "url_hostname u = url_hostname v" "url_port u = url_port v" by (simp_all only: url_hostname_def url_port_def hi)
  then show ?thesis using that uv by (simp add: effective_port_def)
qed

lemma at_home_origin: "origin s = Some (a, n) \<Longrightarrow> origin t = Some (a, n) \<Longrightarrow> at_home g s \<Longrightarrow> at_home g t"
  by (erule origin_hostinfo, assumption) (auto simp: at_home_def split: sum.splits)

definition client_ok :: "gitlab_client \<Rightarrow> bool" where
  "client_ok g \<longleftrightarrow> (\<exists>u. urlsplit (gl_base_url g) = Inr u \<and> http_scheme u \<and> url_netloc u \<noteq> [] \<and>
     origin (gl_base_url g) = Some (url_scheme u, url_netloc u) \<and> gl_host g = url_hostname u \<and>
     gl_api_url g \<in> {gl_base_url g, gl_base_url g @ ''/api/v4''})"

lemma make_client_ok: "make_gitlab_client base token timeout m = Inr g \<Longrightarrow> client_ok g"
  unfolding make_gitlab_client_def client_ok_def
  by (auto simp: rbind_Inr_iff split: if_splits elim!: normalised_origin)

definition web_path_ok :: "gitlab_ref \<Rightarrow> bool" where
  "web_path_ok r \<longleftrightarrow>
     (case gp_web_url (gr_project r) of
        None \<Rightarrow> True
      | Some s \<Rightarrow> (case urlsplit s of Inr u \<Rightarrow> s = [] \<or> rstrip_slashes (url_path u) \<noteq> [] | Inl _ \<Rightarrow> True))"

definition site_ok :: "gitlab_client \<Rightarrow> bool" where
  "site_ok g \<longleftrightarrow> gl_host g \<noteq> None \<and> origin (site_url g) = origin (gl_base_url g)"

lemma rstrip_slashes_hd: "rstrip_slashes s \<noteq> [] \<Longrightarrow> hd (rstrip_slashes s) = hd s"
  using rstrip_slashes_split [of s] by (metis hd_append2)

lemma web_clone_home:
  assumes "web_clone_url g s = Inr u" and "\<And>p. urlsplit s = Inr p \<Longrightarrow> rstrip_slashes (url_path p) \<noteq> []"
    and client: "client_ok g"
  shows "at_home g u" "at_home g (u @ ''.git'')"
proof -
  obtain p b n where p: "urlsplit s = Inr p" "urlsplit (gl_base_url g) = Inr b" "effective_port p = Inr n" "effective_port b = Inr n"
    "web_url_ok g p b n n" and u: "u = url_scheme p @ ''://'' @ url_netloc p @ rstrip_slashes (url_path p)"
    using assms(1) by (auto simp: web_clone_url_def rbind_def web_url_ok_def split: sum.splits if_splits)
  have http: "url_scheme p \<noteq> []" using p(5) by (auto simp: web_url_ok_def http_scheme_def)
  obtain h where h: "url_hostname p = Some h" using p(5) by (auto simp: web_url_ok_def)
  have net: "url_netloc p \<noteq> []" using h by (auto simp: url_hostname_def url_hostinfo_def rsplit_once_def)
  obtain k where k: "gl_host g = Some k"
    using p(5) h hostname_nonempty [OF h] by (cases "gl_host g") (auto simp: web_url_ok_def tail_text_def lower_def)
  have same: "url_hostname b = Some k" using client k p(2) by (auto simp: client_ok_def)
  have "lower h = lower k" using p(5) h k by (simp add: web_url_ok_def tail_text_def)
  then have home: "at_home g s" using p h same by (simp add: at_home_def web_url_ok_def)
  have o: "origin s = Some (url_scheme p, url_netloc p)" using p(1) by (simp add: origin_def)
  have path: "rstrip_slashes (url_path p) \<noteq> []" by (rule assms(2) [OF p(1)])
  then have first: "hd (rstrip_slashes (url_path p)) = CHR ''/''"
    using rstrip_slashes_hd path_starts [OF p(1) net] by (metis rstrip_slashes_def dropWhile.simps(1) rev.simps(1))
  have rebuilt: "origin (u @ t) = Some (url_scheme p, url_netloc p)" for t
    using rebuilt_origin [OF p(1) http net, of "rstrip_slashes (url_path p) @ t"] path first by (simp add: u)
  show "at_home g u" using at_home_origin [OF o _ home] rebuilt [of "[]"] by simp
  show "at_home g (u @ ''.git'')" using at_home_origin [OF o _ home] rebuilt [of "''.git''"] by simp
qed

lemma site_clone_home:
  assumes "site_ok g" "client_ok g"
  shows "at_home g (site_url g @ CHR ''/'' # t)"
proof -
  obtain b where b: "urlsplit (gl_base_url g) = Inr b" "http_scheme b" "url_netloc b \<noteq> []"
    "origin (gl_base_url g) = Some (url_scheme b, url_netloc b)" "gl_host g = url_hostname b"
    using assms(2) by (auto simp: client_ok_def)
  have home: "at_home g (gl_base_url g)" using b assms(1) by (auto simp: at_home_def site_ok_def)
  have "origin (site_url g @ CHR ''/'' # t) = Some (url_scheme b, url_netloc b)"
    using assms(1) b(2-4) by (intro origin_append_path) (auto simp: site_ok_def http_scheme_def netloc_char_def unsafe_url_char_def)
  then show ?thesis using at_home_origin [OF b(4) _ home] by simp
qed

lemma clone_url_home:
  assumes "clone_url g r = Inr u" "site_ok g" "client_ok g" "web_path_ok r"
  shows "at_home g u"
proof (cases "truthy_opt (gp_web_url (gr_project r))")
  case True
  then obtain s where s: "gp_web_url (gr_project r) = Some s" "s \<noteq> []" by (auto simp: truthy_opt_def split: option.splits)
  obtain v where v: "web_clone_url g s = Inr v" "u = (if ends_with v ''.git'' then v else v @ ''.git'')"
    using assms(1) True s by (auto simp: clone_url_def rbind_Inr_iff)
  have "rstrip_slashes (url_path p) \<noteq> []" if "urlsplit s = Inr p" for p
    using assms(4) s that by (simp add: web_path_ok_def)
  then show ?thesis using web_clone_home [OF v(1) _ assms(3)] v(2) by simp
next
  case False
  then show ?thesis using assms(1) site_clone_home [OF assms(2,3)] by (auto simp: clone_url_def)
qed

text \<open>The environment git gets: the credentials are under a key for the server itself.\<close>

definition env_home :: "gitlab_client \<Rightarrow> (string, string) dict \<Rightarrow> bool" where
  "env_home g env \<longleftrightarrow> (\<forall>k\<in>set GIT_VARIABLES. dget env k = None) \<and> dget env ''GIT_TERMINAL_PROMPT'' = Some ''0'' \<and>
     dget env ''GIT_CONFIG_KEY_0'' = Some ''credential.helper'' \<and> dget env ''GIT_CONFIG_VALUE_0'' = Some [] \<and>
     dget env ''GIT_CONFIG_COUNT'' = Some ''2'' \<and>
     (\<exists>s. dget env ''GIT_CONFIG_KEY_1'' = Some (''http.'' @ s @ ''/.extraheader'') \<and> at_home g s)"

lemma dget_ddels: "dget (foldl ddel d ks) k = (if k \<in> set ks then None else dget d k)"
  by (induction ks arbitrary: d) auto

lemma git_environment_home:
  assumes "git_environment g u = Inr env" "at_home g u" "client_ok g"
  shows "env_home g env"
proof -
  obtain p b where p: "urlsplit u = Inr p" "urlsplit (gl_base_url g) = Inr b" "url_hostname p \<noteq> None" "url_scheme p = url_scheme b"
    using assms(2) by (auto simp: at_home_def split: sum.splits)
  have http: "http_scheme p" using assms(3) p by (auto simp: client_ok_def http_scheme_def)
  have net: "url_netloc p \<noteq> []" using p(3) by (auto simp: url_hostname_def url_hostinfo_def rsplit_once_def)
  let ?s = "url_scheme p @ ''://'' @ url_netloc p"
  have "origin ?s = Some (url_scheme p, url_netloc p)"
    using rebuilt_origin [OF p(1) http_scheme_nonempty [OF http] net, of "[]"] by simp
  moreover have "origin u = Some (url_scheme p, url_netloc p)" using p(1) by (simp add: origin_def)
  ultimately have home: "at_home g ?s" using at_home_origin assms(2) by blast
  have env: "env = dmerge (base_environment g)
      [(''GIT_CONFIG_COUNT'', ''2''), (''GIT_CONFIG_KEY_1'', ''http.'' @ ?s @ ''/.extraheader''),
       (''GIT_CONFIG_VALUE_1'', ''Authorization: Basic '' @ b64encode (''oauth2:'' @ gl_token g))]"
    using assms(1) p(1,3) http by (simp add: git_environment_def)
  have "\<forall>k\<in>set GIT_VARIABLES. dget env k = None"
    unfolding env base_environment_def dget_dmerge dget_ddels by (simp add: GIT_VARIABLES_def)
  moreover have "dget env ''GIT_CONFIG_KEY_1'' = Some (''http.'' @ ?s @ ''/.extraheader'')"
    by (simp add: env dget_dmerge)
  ultimately show ?thesis
    using home unfolding env_home_def by (auto simp: env base_environment_def dget_dmerge)
qed

text \<open>What git may be asked: to clone from the configured server, and anything about the checkout,
  whose remote is that server.\<close>

definition git_home :: "gitlab_client \<Rightarrow> string list \<Rightarrow> (string, string) dict \<Rightarrow> bool" where
  "git_home g command env \<longleftrightarrow> env_home g env \<and>
     ((\<exists>u d. command = [''git'', ''clone'', ''--quiet'', ''--no-checkout'', ''--'', u, d] \<and> at_home g u) \<or>
      (\<exists>d args. command = in_checkout d args))"

definition gits_agree :: "gitlab_client \<Rightarrow> git_runner \<Rightarrow> bool" where
  "gits_agree g git' \<longleftrightarrow> (\<forall>command env. git_home g command env \<longrightarrow> gl_git g command env = git' command env)"

abbreviation elsewhere :: "gitlab_client \<Rightarrow> transport \<Rightarrow> git_runner \<Rightarrow> gitlab_client" where
  "elsewhere g t' git' \<equiv> g\<lparr>gl_transport := t', gl_git := git'\<rparr>"

lemma elsewhere_fields [simp]:
  "clone_url (elsewhere g t' git') r = clone_url g r"
  "git_environment (elsewhere g t' git') u = git_environment g u"
  "project_path (elsewhere g t' git') u = project_path g u"
  "compose_document (elsewhere g t' git') raw = compose_document g raw"
  by (simp_all add: clone_url_def site_url_def web_clone_url_def web_url_ok_def git_environment_def base_environment_def
      project_path_def compose_document_def cong: if_cong option.case_cong "value.case_cong" sum.case_cong prod.case_cong)

lemma checkout_agrees:
  assumes "gits_agree g git'" "env_home g env"
  shows "run_git (elsewhere g t' git') (in_checkout d args) env = run_git g (in_checkout d args) env"
    and "git' (in_checkout d args) env = gl_git g (in_checkout d args) env"
proof -
  show eq: "git' (in_checkout d args) env = gl_git g (in_checkout d args) env"
    using assms unfolding gits_agree_def git_home_def by metis
  show "run_git (elsewhere g t' git') (in_checkout d args) env = run_git g (in_checkout d args) env"
    by (simp add: run_git_def eq)
qed

lemma clone_repository_agrees:
  assumes "gits_agree g git'" "site_ok g" "client_ok g" "web_path_ok r"
  shows "clone_repository (elsewhere g t' git') r d = clone_repository g r d"
proof (cases "clone_url g r")
  case (Inr u)
  have home: "at_home g u" by (rule clone_url_home [OF Inr assms(2-4)])
  show ?thesis
  proof (cases "git_environment g u")
    case env: (Inr env)
    have e: "env_home g env" by (rule git_environment_home [OF env home assms(3)])
    note agree = checkout_agrees [OF assms(1) e]
    have "gl_git g [''git'', ''clone'', ''--quiet'', ''--no-checkout'', ''--'', u, d] env
        = git' [''git'', ''clone'', ''--quiet'', ''--no-checkout'', ''--'', u, d] env"
      using assms(1) e home unfolding gits_agree_def git_home_def by blast
    then have "run_git (elsewhere g t' git') [''git'', ''clone'', ''--quiet'', ''--no-checkout'', ''--'', u, d] env
        = run_git g [''git'', ''clone'', ''--quiet'', ''--no-checkout'', ''--'', u, d] env"
      by (simp add: run_git_def)
    moreover have v: "verify_full_clone (elsewhere g t' git') d env = verify_full_clone g d env"
      by (simp add: verify_full_clone_def agree(1) cong: if_cong)
    moreover have "fetch_commit (elsewhere g t' git') d (gr_commit r) env = fetch_commit g d (gr_commit r) env"
      by (simp add: fetch_commit_def has_commit_def agree v cong: if_cong)
    moreover have "checkout_pinned (elsewhere g t' git') d (gr_commit r) env = checkout_pinned g d (gr_commit r) env"
      by (simp add: checkout_pinned_def agree(1) cong: if_cong)
    ultimately show ?thesis
      by (intro ext) (simp add: clone_repository_def bd_app Inr env)
  qed (intro ext, simp add: clone_repository_def bd_app Inr)
qed (intro ext, simp add: clone_repository_def bd_app)

lemma request_agrees:
  assumes "transports_agree (\<lambda>u. origin u = origin (gl_base_url g)) (gl_transport g) t'" "client_ok g"
  shows "gitlab_json (elsewhere g t' git') path m = gitlab_json g path m"
proof -
  obtain b where b: "http_scheme b" "url_netloc b \<noteq> []" "origin (gl_base_url g) = Some (url_scheme b, url_netloc b)"
    "gl_api_url g \<in> {gl_base_url g, gl_base_url g @ ''/api/v4''}"
    using assms(2) by (auto simp: client_ok_def)
  have step: "origin (s @ CHR ''/'' # t) = origin (gl_base_url g)" if "origin s = origin (gl_base_url g)" for s t
    using origin_append_path [of s "url_scheme b" "url_netloc b" "CHR ''/''" t] that b(1-3)
    by (auto simp: http_scheme_def netloc_char_def unsafe_url_char_def)
  have "origin (gl_api_url g) = origin (gl_base_url g)" using b(4) step [of "gl_base_url g" "''api/v4''"] by auto
  then have "origin (gl_api_url g @ ''/'' @ p) = origin (gl_base_url g)" for p using step [of "gl_api_url g" p] by simp
  then have "gl_transport g ''GET'' (gl_api_url g @ ''/'' @ p) h b' n = t' ''GET'' (gl_api_url g @ ''/'' @ p) h b' n" for p h b' n
    using transports_agreeD [OF assms(1)] by blast
  then show ?thesis by (simp add: gitlab_json_def gitlab_request_def)
qed


text \<open>A client of \<open>https://git.local\<close> whose git and transport answer elsewhere in one of two ways.\<close>

definition local_transport :: "bool \<Rightarrow> transport" where
  "local_transport strict = (\<lambda>m u h b n.
     if origin u = Some (''https'', ''git.local'') then ret \<lparr>hs_status = 404, hs_headers = [], hs_body = [], hs_json = None\<rparr>
     else if strict then raise OtherError ''unreachable''
     else ret \<lparr>hs_status = 200, hs_headers = [], hs_body = ''elsewhere'', hs_json = None\<rparr>)"

definition foreign :: "string \<Rightarrow> bool" where
  "foreign u \<longleftrightarrow> (case urlsplit u of Inr v \<Rightarrow> map_option lower (url_hostname v) \<noteq> Some ''git.local'' | Inl _ \<Rightarrow> True)"

definition local_git :: "bool \<Rightarrow> git_runner" where
  "local_git strict = (\<lambda>command env. ret
     (case command of
        [_, c, _, _, _, u, _] \<Rightarrow> if c = ''clone'' \<and> foreign u \<and> strict then GitBroken else GitRan 0 ''false''
      | _ \<Rightarrow> GitRan 0 ''false''))"

definition sample_gitlab :: gitlab_client where
  "sample_gitlab = \<lparr>gl_base_url = ''https://git.local'', gl_token = ''t'', gl_clone_timeout = 600,
     gl_api_url = ''https://git.local/api/v4'', gl_host = Some ''git.local'', gl_transport = local_transport True,
     gl_git = local_git True, gl_environ = [(''GIT_DIR'', ''/elsewhere'')],
     gl_files = \<lparr>gf_temporary = ret ''/tmp/x'', gf_discard = (\<lambda>_. ret ()), gf_prepare = ret,
       gf_tree = (\<lambda>_. ret (FsDir (Some [(''compose.yaml'', FsFile)]))), gf_text = (\<lambda>_. ret (Some ''text''))\<rparr>,
     gl_yaml = (\<lambda>_. Some VNull)\<rparr>"

definition sample_ref :: "string \<Rightarrow> gitlab_ref" where
  "sample_ref web = \<lparr>gr_project = \<lparr>gp_id = VInt 7, gp_path = ''team/app'', gp_web_url = Some web\<rparr>,
     gr_git_ref = ''main'', gr_commit = ''abc'', gr_url = web\<rparr>"

definition sample_seams :: gitlab_seams where
  "sample_seams = \<lparr>gm_transport = gl_transport sample_gitlab, gm_git = gl_git sample_gitlab,
     gm_environ = gl_environ sample_gitlab, gm_files = gl_files sample_gitlab, gm_yaml = gl_yaml sample_gitlab\<rparr>"

lemma sample_urls:
  "normalise_base_url ''https://git.local'' = Inr ''https://git.local''"
  "urlsplit ''https://git.local'' = Inr \<lparr>url_scheme = ''https'', url_netloc = ''git.local'', url_path = [], url_query = [],
     url_fragment = []\<rparr>"
  "url_hostname \<lparr>url_scheme = ''https'', url_netloc = ''git.local'', url_path = [], url_query = [], url_fragment = []\<rparr>
     = Some ''git.local''"
  "ends_with ''https://git.local'' ''/api/v4'' = False"
  "origin ''https://git.local'' = Some (''https'', ''git.local'')"
  by code_simp+

lemma sample_made: "make_gitlab_client ''https://git.local'' ''t'' 600 sample_seams = Inr sample_gitlab"
proof -
  have "strip ''t'' \<noteq> []" by code_simp
  then show ?thesis by (simp add: make_gitlab_client_def sample_urls sample_seams_def sample_gitlab_def)
qed

lemma sample_site: "site_ok sample_gitlab" "web_path_ok (sample_ref ''https://git.local/team/app'')"
  by code_simp+

lemma home_not_foreign: "at_home sample_gitlab u \<Longrightarrow> \<not> foreign u"
proof -
  have "lower ''git.local'' = ''git.local''" by code_simp
  then show "at_home sample_gitlab u \<Longrightarrow> \<not> foreign u"
    by (auto simp: at_home_def foreign_def sample_gitlab_def sample_urls split: sum.splits)
qed

lemma sample_gits_agree: "gits_agree sample_gitlab (local_git False)"
  by (auto simp: gits_agree_def git_home_def local_git_def in_checkout_def home_not_foreign sample_gitlab_def
      split: list.splits)


text \<open>A web address without a path passes the check, and appending \<open>.git\<close> then changes the host the
  token is sent to: the hypothesis on the path is needed.\<close>

lemma bare_web_url_leaves_home:
  "\<exists>env. clone_url sample_gitlab (sample_ref ''https://git.local'') = Inr ''https://git.local.git'' \<and>
     git_environment sample_gitlab ''https://git.local.git'' = Inr env \<and>
     dget env ''GIT_CONFIG_KEY_1'' = Some ''http.https://git.local.git/.extraheader'' \<and>
     \<not> at_home sample_gitlab ''https://git.local.git''"
proof -
  have "(case git_environment sample_gitlab ''https://git.local.git'' of Inr env \<Rightarrow> dget env ''GIT_CONFIG_KEY_1'' | Inl _ \<Rightarrow> None)
      = Some ''http.https://git.local.git/.extraheader''" by code_simp
  then obtain env where "git_environment sample_gitlab ''https://git.local.git'' = Inr env"
    "dget env ''GIT_CONFIG_KEY_1'' = Some ''http.https://git.local.git/.extraheader''"
    by (auto split: sum.splits)
  moreover have "clone_url sample_gitlab (sample_ref ''https://git.local'') = Inr ''https://git.local.git''" by code_simp
  moreover have "\<not> at_home sample_gitlab ''https://git.local.git''" by code_simp
  ultimately show ?thesis by blast
qed

end
