(* ===== verification/Harbor.thy ===== *)
theory Harbor
  imports Http
begin

text \<open>
  \<open>HarborImageCleaner\<close> of \<open>orchestrator/harbor_cleanup.py\<close>: the removal of the tag a build pushed.
  The HTTP transport and the guard, which proves that the lease of the build is still held, are
  parameters.
\<close>

record harbor_cleaner =
  hb_base_url :: string
  hb_registry :: string
  hb_project :: string
  hb_transport :: transport
  hb_guard :: "(world, unit) action option"
  hb_headers :: headers

definition harbor_error :: "string \<Rightarrow> (world, 'a) action" where
  "harbor_error m = raise HarborCleanupError m"

definition harbor_base_url :: "string option \<Rightarrow> string" where
  "harbor_base_url setting =
     (let raw = tail_text setting in
      if contains raw ''://'' then rstrip_slashes raw else ''https://'' @ rstrip_slashes raw)"

definition make_harbor_cleaner ::
  "string option \<Rightarrow> string \<Rightarrow> string option \<Rightarrow> string option \<Rightarrow> transport \<Rightarrow> (world, unit) action option \<Rightarrow> harbor_cleaner res" where
  "make_harbor_cleaner setting project user password t guard =
     (let base = harbor_base_url setting in
      rbind (urlsplit base) (\<lambda>u.
      if \<not> http_scheme u \<or> url_hostname u = None \<or> has_credentials u \<or> url_path u \<notin> {[], ''/''}
      then Inl (Exn HarborCleanupError ''Harbor cleanup endpoint is invalid'')
      else Inr \<lparr>hb_base_url = base, hb_registry = url_netloc u, hb_project = project, hb_transport = t, hb_guard = guard,
                hb_headers = [(''Authorization'', ''Basic '' @ b64encode (tail_text user @ '':'' @ tail_text password)),
                              (''Accept'', ''application/json'')]\<rparr>))"

definition harbor_call :: "harbor_cleaner \<Rightarrow> string \<Rightarrow> string \<Rightarrow> (world, http_response) action" where
  "harbor_call hb method path =
     catching (hb_transport hb method (hb_base_url hb @ path) (hb_headers hb) None None)
       (\<lambda>_. harbor_error ''Harbor cleanup request failed'')"

text \<open>A repository name is quoted twice, as Harbor wants it.\<close>

definition artifact_path :: "harbor_cleaner \<Rightarrow> string \<Rightarrow> string \<Rightarrow> string" where
  "artifact_path hb name artifact =
     ''/api/v2.0/projects/'' @ quote [] (hb_project hb) @ ''/repositories/'' @ quote [] (quote [] name)
       @ ''/artifacts/'' @ quote [] artifact"

definition tag_path :: "harbor_cleaner \<Rightarrow> string \<Rightarrow> string \<Rightarrow> string \<Rightarrow> string" where
  "tag_path hb name digest tag = artifact_path hb name digest @ ''/tags/'' @ quote [] tag"

text \<open>The name of the repository in the project and the tag, when the image is the build's own.\<close>

definition own_build_image :: "harbor_cleaner \<Rightarrow> string \<Rightarrow> string \<Rightarrow> string \<Rightarrow> (string \<times> string) res" where
  "own_build_image hb reference expected_repository build_id =
     (if \<not> starts_with reference (expected_repository @ '':'' @ build_id @ ''-'')
      then Inl (Exn HarborCleanupError ''Registry image ownership is not build-exclusive'')
      else
        (case rsplit_once (CHR '':'') reference of
           (None, _) \<Rightarrow> Inl (Exn ValueError ''not enough values to unpack'')
         | (Some repository, tag) \<Rightarrow>
             (let at = hb_registry hb @ ''/'' @ hb_project hb @ ''/'' in
              if \<not> starts_with repository at
              then Inl (Exn HarborCleanupError ''Registry image is outside the configured build project'')
              else Inr (drop (length at) repository, tag))))"

definition attribute_error :: "'a res" where
  "attribute_error = Inl (Exn OtherError ''object has no attribute get'')"

text \<open>\<open>any(item.get("name") != tag for item in artifact.get("tags") or [])\<close>.\<close>

fun other_tag :: "string \<Rightarrow> value list \<Rightarrow> bool res" where
  "other_tag tag [] = Inr False"
| "other_tag tag (VDict d # items) = (if mget d ''name'' \<noteq> VStr tag then Inr True else other_tag tag items)"
| "other_tag tag (_ # items) = attribute_error"

definition shared_artifact :: "string \<Rightarrow> mapping \<Rightarrow> bool res" where
  "shared_artifact tag artifact =
     (if \<not> truthy (mget artifact ''tags'') then Inr False
      else
        (case mget artifact ''tags'' of
           VList items \<Rightarrow> other_tag tag items
         | VDict _ \<Rightarrow> attribute_error
         | VStr _ \<Rightarrow> attribute_error
         | _ \<Rightarrow> Inl (Exn TypeError ''object is not iterable'')))"

definition artifact_of :: "http_response \<Rightarrow> mapping res" where
  "artifact_of r =
     (case hs_json r of
        None \<Rightarrow> Inl (Exn ValueError ''Response did not contain valid JSON'')
      | Some (VDict d) \<Rightarrow> Inr d
      | Some _ \<Rightarrow> attribute_error)"

text \<open>The digest of the artifact, which has to be the recorded one where there is one.\<close>

definition verified_digest :: "value \<Rightarrow> mapping \<Rightarrow> string res" where
  "verified_digest digest artifact =
     (if truthy digest \<and> \<not> py_eq (mget artifact ''digest'') digest
      then Inl (Exn HarborCleanupError ''Registry image digest changed; refusing tag deletion'')
      else
        (case mget artifact ''digest'' of
           VStr s \<Rightarrow>
             if starts_with s ''sha256:'' then Inr s
             else Inl (Exn HarborCleanupError ''Registry image digest is unavailable'')
         | _ \<Rightarrow> Inl (Exn HarborCleanupError ''Registry image digest is unavailable'')))"

definition delete_tag :: "harbor_cleaner \<Rightarrow> string \<Rightarrow> string \<Rightarrow> string \<Rightarrow> (world, unit) action" where
  "delete_tag hb name digest tag =
     andthen (case hb_guard hb of None \<Rightarrow> ret () | Some guard \<Rightarrow> guard)
     (bd (harbor_call hb ''DELETE'' (tag_path hb name digest tag)) (\<lambda>removed.
      if hs_status removed \<notin> {200, 202, 204, 404} then harbor_error ''Unable to delete Harbor build tag''
      else
        bd (harbor_call hb ''GET'' (artifact_path hb name tag)) (\<lambda>verified.
        if hs_status verified \<noteq> 404 then harbor_error ''Harbor build tag removal could not be verified''
        else ret ())))"

definition remove_build_tag ::
  "harbor_cleaner \<Rightarrow> string \<Rightarrow> string \<Rightarrow> string \<Rightarrow> value \<Rightarrow> (world, string) action" where
  "remove_build_tag hb reference expected_repository build_id digest =
     bd (lift_res (own_build_image hb reference expected_repository build_id)) (\<lambda>(name, tag).
     bd (harbor_call hb ''GET'' (artifact_path hb name tag @ ''?with_tag=true'')) (\<lambda>response.
     if hs_status response = 404 then ret ''waiting_gc''
     else if hs_status response \<noteq> 200 then harbor_error ''Unable to verify Harbor build image''
     else
       bd (lift_res (artifact_of response)) (\<lambda>artifact.
       bd (lift_res (verified_digest digest artifact)) (\<lambda>actual.
       bd (lift_res (shared_artifact tag artifact)) (\<lambda>shared.
       andthen (delete_tag hb name actual tag)
         (ret (if shared then ''shared_retained'' else ''waiting_gc'')))))))"

end
