(* ===== verification/HarborSafety.thy ===== *)
theory HarborSafety
  imports Harbor
begin

text \<open>
  What the clean-up of Harbor promises: it deletes no tag but the one it is given, at the digest
  recorded for it, only while the guard lets it, and reports success only when Harbor has said that the
  tag is gone.
\<close>

section \<open>Quoted segments\<close>

text \<open>Undoing the quoting gives the text back.\<close>

definition nibble :: "char \<Rightarrow> nat" where
  "nibble a = (if code a < 58 then code a - 48 else code a - 55)"

fun unescape :: "string \<Rightarrow> string" where
  "unescape (c # a # b # s) =
     (if c = CHR ''%'' then char_of (16 * nibble a + nibble b) # unescape s else c # unescape (a # b # s))"
| "unescape [c, a] = [c, a]"
| "unescape [c] = [c]"
| "unescape [] = []"

lemma unescape_plain: "c \<noteq> CHR ''%'' \<Longrightarrow> unescape (c # s) = c # unescape s"
  by (cases s; cases "tl s") simp_all

lemma code_upper_hex: "m < 16 \<Longrightarrow> code (upper_char (hex_digit m)) = (if m < 10 then 48 + m else 55 + m)"
  by (auto simp: hex_digit_def upper_char_def is_lower_def in_range_def)

lemma reserved_marks: "\<not> unreserved (CHR ''%'')" "\<not> unreserved (CHR ''/'')"
  by code_simp+

lemma quote_cases:
  obtains "quote_char [] c = [c]" "c \<noteq> CHR ''%''" "c \<noteq> CHR ''/''"
  | a b where "quote_char [] c = [CHR ''%'', a, b]" "a \<noteq> CHR ''/''" "b \<noteq> CHR ''/''" "16 * nibble a + nibble b = code c"
proof (cases "unreserved c")
  case True
  then show ?thesis using that(1) reserved_marks by (metis quote_char_def)
next
  case False
  let ?a = "upper_char (hex_digit (code c div 16))" and ?b = "upper_char (hex_digit (code c mod 16))"
  have "code c div 16 < 16" "code c mod 16 < 16" using code_less [of c] by linarith+
  note ab = code_upper_hex [OF this(1)] code_upper_hex [OF this(2)]
  have slash: "code (CHR ''/'') = 47" by (simp add: code_def)
  show ?thesis
  proof (rule that(2))
    show "quote_char [] c = [CHR ''%'', ?a, ?b]" using False by (simp add: quote_char_def hex_byte_def upper_def)
    have "code ?a \<noteq> 47" "code ?b \<noteq> 47" using ab by simp_all
    then show "?a \<noteq> CHR ''/''" "?b \<noteq> CHR ''/''" using slash by metis+
    show "16 * nibble ?a + nibble ?b = code c" using ab by (auto simp: nibble_def)
  qed
qed

lemma quote_Cons: "quote s (c # t) = quote_char s c @ quote s t"
  by (simp add: quote_def)

lemma unescape_quote: "unescape (quote [] s) = s"
proof (induction s)
  case (Cons c s)
  show ?case
    by (rule quote_cases [of c]) (simp_all add: quote_Cons unescape_plain Cons.IH code_def)
qed (simp add: quote_def)

lemma quote_inject: "quote [] s = quote [] t \<longleftrightarrow> s = t"
  by (metis unescape_quote)

lemma quote_no_slash: "CHR ''/'' \<notin> set (quote [] s)"
proof -
  have "CHR ''/'' \<notin> set (quote_char [] c)" for c by (rule quote_cases [of c]) auto
  then show ?thesis by (auto simp: quote_def)
qed

lemma segment_inject:
  assumes "quote [] a @ CHR ''/'' # s = quote [] b @ CHR ''/'' # t"
  shows "a = b \<and> s = t"
proof -
  have "split_once (CHR ''/'') (quote [] a @ CHR ''/'' # s) = (quote [] a, Some s)"
    "split_once (CHR ''/'') (quote [] b @ CHR ''/'' # t) = (quote [] b, Some t)"
    by (rule split_once_append [OF quote_no_slash])+
  then have "quote [] a = quote [] b \<and> s = t" using assms by (metis option.inject prod.inject)
  then show ?thesis unfolding quote_inject .
qed

text \<open>A path addresses one tag of one artifact of one repository.\<close>

lemma tag_path_inject:
  assumes "tag_path hb name digest tag = tag_path hb name' digest' tag'"
  shows "name = name' \<and> digest = digest' \<and> tag = tag'"
proof -
  have slash: "x @ ''/artifacts/'' @ y = x @ CHR ''/'' # (''artifacts/'' @ y)" "x @ ''/tags/'' @ y = x @ CHR ''/'' # (''tags/'' @ y)"
    for x y :: string by simp_all
  have "quote [] (quote [] name) @ ''/artifacts/'' @ (quote [] digest @ ''/tags/'' @ quote [] tag) =
      quote [] (quote [] name') @ ''/artifacts/'' @ (quote [] digest' @ ''/tags/'' @ quote [] tag')"
    using assms unfolding tag_path_def artifact_path_def append_assoc same_append_eq .
  note first = segment_inject [OF this [unfolded slash(1)], unfolded same_append_eq quote_inject]
  note rest = segment_inject [OF conjunct2 [OF first, unfolded slash(2)], unfolded same_append_eq quote_inject]
  show ?thesis using first rest by blast
qed

section \<open>The removal of a tag\<close>

definition names_image :: "harbor_cleaner \<Rightarrow> string \<Rightarrow> string \<Rightarrow> string \<Rightarrow> bool" where
  "names_image hb name tag reference \<longleftrightarrow>
     reference = hb_registry hb @ ''/'' @ hb_project hb @ ''/'' @ name @ '':'' @ tag"

text \<open>The deletions a removal may ask for.\<close>

definition own_deletion :: "harbor_cleaner \<Rightarrow> string \<Rightarrow> value \<Rightarrow> string \<Rightarrow> bool" where
  "own_deletion hb reference recorded u \<longleftrightarrow>
     (\<exists>name tag digest. u = hb_base_url hb @ tag_path hb name digest tag \<and> names_image hb name tag reference \<and>
        starts_with digest ''sha256:'' \<and> (truthy recorded \<longrightarrow> py_eq (VStr digest) recorded))"

definition alike_but_deletions :: "harbor_cleaner \<Rightarrow> string \<Rightarrow> value \<Rightarrow> transport \<Rightarrow> bool" where
  "alike_but_deletions hb reference recorded t' \<longleftrightarrow>
     (\<forall>m u h b n. m = ''GET'' \<or> m = ''DELETE'' \<and> own_deletion hb reference recorded u \<longrightarrow>
        hb_transport hb m u h b n = t' m u h b n)"

text \<open>The last answer of a successful removal says that the tag is gone.\<close>

definition said_gone :: "harbor_cleaner \<Rightarrow> string \<Rightarrow> world \<Rightarrow> bool" where
  "said_gone hb reference w' \<longleftrightarrow>
     (\<exists>name tag query w1 r. names_image hb name tag reference \<and> query \<in> {[], ''?with_tag=true''} \<and>
        hb_transport hb ''GET'' (hb_base_url hb @ artifact_path hb name tag @ query) (hb_headers hb) None None w1 = (Inr r, w') \<and>
        hs_status r = 404)"

lemma rsplit_once_Some: "rsplit_once c s = (Some a, b) \<Longrightarrow> s = a @ c # b"
proof -
  assume "rsplit_once c s = (Some a, b)"
  then obtain x y where xy: "split_once c (rev s) = (x, Some y)" "a = rev y" "b = rev x"
    by (auto simp: rsplit_once_def split: prod.splits)
  then have "rev s = x @ c # y" using split_once_Some by blast
  then have "rev (rev s) = rev y @ c # rev x" by simp
  then show ?thesis using xy by simp
qed

lemma own_build_image_names:
  assumes "own_build_image hb reference expected b = Inr (name, tag)"
  shows "names_image hb name tag reference"
proof -
  let ?at = "hb_registry hb @ ''/'' @ hb_project hb @ ''/''"
  obtain repository where r: "rsplit_once (CHR '':'') reference = (Some repository, tag)"
    "starts_with repository ?at" "name = drop (length ?at) repository"
    using assms by (auto simp: own_build_image_def Let_def split: if_splits prod.splits option.splits)
  then have "repository = ?at @ name" by (auto simp: starts_with_def prefix_def)
  then show ?thesis using rsplit_once_Some [OF r(1)] by (simp add: names_image_def)
qed

lemma verified_digest_Inr:
  "verified_digest recorded artifact = Inr digest \<Longrightarrow>
   starts_with digest ''sha256:'' \<and> (truthy recorded \<longrightarrow> py_eq (VStr digest) recorded)"
  by (auto simp: verified_digest_def split: if_splits "value.splits")

lemma harbor_call_Inr:
  "harbor_call hb m path w = (Inr r, w') \<longleftrightarrow> hb_transport hb m (hb_base_url hb @ path) (hb_headers hb) None None w = (Inr r, w')"
  by (auto simp: harbor_call_def catching_app harbor_error_def split: prod.splits sum.splits)

abbreviation other_harbor :: "harbor_cleaner \<Rightarrow> transport \<Rightarrow> harbor_cleaner" where
  "other_harbor hb t' \<equiv> hb\<lparr>hb_transport := t'\<rparr>"

lemma other_fields [simp]:
  "own_build_image (other_harbor hb t') = own_build_image hb" "artifact_path (other_harbor hb t') = artifact_path hb"
  "tag_path (other_harbor hb t') = tag_path hb"
  by (simp_all add: fun_eq_iff own_build_image_def artifact_path_def tag_path_def cong: option.case_cong prod.case_cong)

lemma get_alike: "alike_but_deletions hb reference recorded t' \<Longrightarrow>
  harbor_call (other_harbor hb t') ''GET'' path = harbor_call hb ''GET'' path"
  by (simp add: alike_but_deletions_def harbor_call_def)

lemma delete_alike:
  assumes "alike_but_deletions hb reference recorded t'" "names_image hb name tag reference"
    "verified_digest recorded artifact = Inr digest"
  shows "delete_tag (other_harbor hb t') name digest tag = delete_tag hb name digest tag"
proof -
  have "own_deletion hb reference recorded (hb_base_url hb @ tag_path hb name digest tag)"
    using assms(2) verified_digest_Inr [OF assms(3)] unfolding own_deletion_def by blast
  then have "harbor_call (other_harbor hb t') ''DELETE'' (tag_path hb name digest tag) = harbor_call hb ''DELETE'' (tag_path hb name digest tag)"
    using assms(1) by (simp add: alike_but_deletions_def harbor_call_def)
  then show ?thesis by (simp add: delete_tag_def get_alike [OF assms(1)] cong: if_cong)
qed

lemma removal_alike:
  assumes "alike_but_deletions hb reference recorded t'"
  shows "remove_build_tag (other_harbor hb t') reference expected b recorded w = remove_build_tag hb reference expected b recorded w"
proof (cases "own_build_image hb reference expected b")
  case (Inr image)
  obtain name tag where image: "image = (name, tag)" by (cases image)
  have names: "names_image hb name tag reference" using own_build_image_names Inr image by blast
  have "bd (lift_res (verified_digest recorded artifact)) (\<lambda>actual.
      bd (lift_res (shared_artifact tag artifact)) (\<lambda>shared. andthen (delete_tag (other_harbor hb t') name actual tag) (k shared))) =
    bd (lift_res (verified_digest recorded artifact)) (\<lambda>actual.
      bd (lift_res (shared_artifact tag artifact)) (\<lambda>shared. andthen (delete_tag hb name actual tag) (k shared)))"
    for artifact and k :: "bool \<Rightarrow> (world, string) action"
    by (cases "verified_digest recorded artifact")
      (simp_all add: fun_eq_iff bd_app delete_alike [OF assms names])
  then show ?thesis
    by (simp add: remove_build_tag_def bd_app Inr image get_alike [OF assms] cong: if_cong)
qed (simp add: remove_build_tag_def bd_app)

lemma said_goneI:
  assumes "harbor_call hb ''GET'' (artifact_path hb name tag @ query) w1 = (Inr r, w')" "hs_status r = 404"
    "names_image hb name tag reference" "query = [] \<or> query = ''?with_tag=true''"
  shows "said_gone hb reference w'"
  using assms unfolding said_gone_def harbor_call_Inr by blast

lemma delete_tag_gone:
  assumes "delete_tag hb name digest tag w = (Inr u, w')" "names_image hb name tag reference"
  shows "said_gone hb reference w'"
proof -
  obtain r w1 where "harbor_call hb ''GET'' (artifact_path hb name tag) w1 = (Inr r, w')" "hs_status r = 404"
    using assms(1) unfolding delete_tag_def harbor_error_def
    by (auto elim!: bd_InrE andthen_InrE split: if_splits)
  then show ?thesis using said_goneI [of hb name tag "[]"] assms(2) by simp
qed

lemma removal_gone:
  assumes "remove_build_tag hb reference expected b recorded w = (Inr s, w')"
  shows "starts_with reference (expected @ '':'' @ b @ ''-'') \<and> said_gone hb reference w'"
proof -
  obtain name tag where image: "own_build_image hb reference expected b = Inr (name, tag)"
    using assms by (auto simp: remove_build_tag_def elim!: bd_InrE)
  note names = own_build_image_names [OF image]
  have gone: "said_gone hb reference w1" if "harbor_call hb ''GET'' (artifact_path hb name tag @ ''?with_tag=true'') w = (Inr r, w1)"
    "hs_status r = 404" for r w1
    using said_goneI [OF that names] by simp
  have "said_gone hb reference w'"
    using assms unfolding remove_build_tag_def image harbor_error_def
    by (auto elim!: bd_InrE andthen_InrE split: if_splits) (rule gone delete_tag_gone [OF _ names], assumption+)+
  moreover have "starts_with reference (expected @ '':'' @ b @ ''-'')"
    using image by (auto simp: own_build_image_def split: if_splits)
  ultimately show ?thesis by blast
qed

text \<open>
  C19: the clean-up of Harbor deletes no tag but the one it is given. A transport that differs only on
  other deletions (another repository, tag or artifact, or another digest than the recorded one)
  cannot be told apart; a deletion addresses one tag only; and a removal succeeds only for an image
  tagged for the build, when Harbor's last answer has said that the tag is gone.
\<close>

theorem only_the_own_tag_is_removed:
  assumes "alike_but_deletions hb reference recorded t'"
  shows "remove_build_tag (hb\<lparr>hb_transport := t'\<rparr>) reference expected b recorded w
      = remove_build_tag hb reference expected b recorded w \<and>
    (\<forall>name tag digest. own_deletion hb reference recorded (hb_base_url hb @ tag_path hb name digest tag) \<longrightarrow>
       names_image hb name tag reference \<and> (truthy recorded \<longrightarrow> py_eq (VStr digest) recorded)) \<and>
    (\<forall>s w'. remove_build_tag hb reference expected b recorded w = (Inr s, w') \<longrightarrow>
       starts_with reference (expected @ '':'' @ b @ ''-'') \<and> said_gone hb reference w')"
proof (intro conjI allI impI)
  show "remove_build_tag (hb\<lparr>hb_transport := t'\<rparr>) reference expected b recorded w
      = remove_build_tag hb reference expected b recorded w" by (rule removal_alike [OF assms])
next
  fix name tag digest assume "own_deletion hb reference recorded (hb_base_url hb @ tag_path hb name digest tag)"
  then obtain n t d where at: "tag_path hb name digest tag = tag_path hb n d t" "names_image hb n t reference"
    "truthy recorded \<longrightarrow> py_eq (VStr d) recorded" by (auto simp: own_deletion_def)
  then show "names_image hb name tag reference" using tag_path_inject [OF at(1)] by simp
  show "py_eq (VStr digest) recorded" if "truthy recorded" using tag_path_inject [OF at(1)] at(3) that by simp
next
  fix s w' assume r: "remove_build_tag hb reference expected b recorded w = (Inr s, w')"
  show "starts_with reference (expected @ '':'' @ b @ ''-'')" "said_gone hb reference w'"
    using removal_gone [OF r] by blast+
qed

text \<open>A Harbor with one image of the build \<open>b1\<close>, which refuses or accepts to delete a tag of \<open>b2\<close>.\<close>

definition answer :: "int \<Rightarrow> value option \<Rightarrow> http_response" where
  "answer status json = \<lparr>hs_status = status, hs_headers = [], hs_body = [], hs_json = json\<rparr>"

definition foreign_tag :: string where
  "foreign_tag = ''https://h/api/v2.0/projects/p/repositories/app/artifacts/sha256%3A0/tags/b2-api''"

definition sample_transport :: "bool \<Rightarrow> transport" where
  "sample_transport strict = (\<lambda>m u h b n.
     if m = ''GET'' then
       (if ends_with u ''?with_tag=true'' then ret (answer 200 (Some (VDict [(VStr ''digest'', VStr ''sha256:0'')])))
        else ret (answer 404 None))
     else if strict \<and> u = foreign_tag then raise OtherError ''refused''
     else ret (answer 200 None))"

definition sample_harbor :: harbor_cleaner where
  "sample_harbor = \<lparr>hb_base_url = ''https://h'', hb_registry = ''h'', hb_project = ''p'', hb_transport = sample_transport True,
     hb_guard = Some (ret ()), hb_headers = []\<rparr>"

lemma foreign_path: "foreign_tag = hb_base_url sample_harbor @ tag_path sample_harbor ''app'' ''sha256:0'' ''b2-api''"
  by code_simp

lemma foreign_not_own: "\<not> own_deletion sample_harbor ''h/p/app:b1-api'' recorded foreign_tag"
proof
  assume "own_deletion sample_harbor ''h/p/app:b1-api'' recorded foreign_tag"
  then have "names_image sample_harbor ''app'' ''b2-api'' ''h/p/app:b1-api''"
    unfolding own_deletion_def foreign_path using tag_path_inject by blast
  moreover have "\<not> names_image sample_harbor ''app'' ''b2-api'' ''h/p/app:b1-api''" by code_simp
  ultimately show False by blast
qed

lemma sample_steps:
  "own_build_image sample_harbor ''h/p/app:b1-api'' ''h/p/app'' ''b1'' = Inr (''app'', ''b1-api'')"
  "ends_with (''https://h'' @ artifact_path sample_harbor ''app'' ''b1-api'' @ ''?with_tag=true'') ''?with_tag=true''"
  "\<not> ends_with (''https://h'' @ artifact_path sample_harbor ''app'' ''b1-api'') ''?with_tag=true''"
  "''https://h'' @ tag_path sample_harbor ''app'' ''sha256:0'' ''b1-api'' \<noteq> foreign_tag"
  "verified_digest (VStr ''sha256:0'') [(VStr ''digest'', VStr ''sha256:0'')] = Inr ''sha256:0''"
  "shared_artifact ''b1-api'' [(VStr ''digest'', VStr ''sha256:0'')] = Inr False"
  by code_simp+

lemma sample_fields:
  "hb_base_url sample_harbor = ''https://h''" "hb_transport sample_harbor = sample_transport True"
  "hb_guard sample_harbor = Some (ret ())"
  by (simp_all add: sample_harbor_def)

lemma harbor_sample_calls:
  "harbor_call sample_harbor ''GET'' (artifact_path sample_harbor ''app'' ''b1-api'' @ ''?with_tag=true'') w
     = (Inr (answer 200 (Some (VDict [(VStr ''digest'', VStr ''sha256:0'')]))), w)"
  "harbor_call sample_harbor ''GET'' (artifact_path sample_harbor ''app'' ''b1-api'') w = (Inr (answer 404 None), w)"
  "harbor_call sample_harbor ''DELETE'' (tag_path sample_harbor ''app'' ''sha256:0'' ''b1-api'') w = (Inr (answer 200 None), w)"
  by (simp_all only: harbor_call_def sample_fields sample_transport_def sample_steps catching_app ret_app if_True if_False
      simp_thms prod.case sum.case) (simp_all add: catching_app)

lemma sample_removed:
  "remove_build_tag sample_harbor ''h/p/app:b1-api'' ''h/p/app'' ''b1'' (VStr ''sha256:0'') w = (Inr ''waiting_gc'', w)"
  by (simp add: remove_build_tag_def delete_tag_def bd_app andthen_app sample_steps sample_fields harbor_sample_calls answer_def
      artifact_of_def)

theorem only_the_own_tag_is_removed_witness:
  "\<forall>w. remove_build_tag (sample_harbor\<lparr>hb_transport := sample_transport False\<rparr>) ''h/p/app:b1-api'' ''h/p/app'' ''b1''
       (VStr ''sha256:0'') w = (Inr ''waiting_gc'', w) \<and>
   said_gone sample_harbor ''h/p/app:b1-api'' w" (is "\<forall>w. ?P w")
proof
  fix w
  have "alike_but_deletions sample_harbor ''h/p/app:b1-api'' (VStr ''sha256:0'') (sample_transport False)"
    using foreign_not_own by (auto simp: alike_but_deletions_def sample_harbor_def sample_transport_def)
  from only_the_own_tag_is_removed [OF this, of "''h/p/app''" "''b1''" w] show "?P w"
    unfolding sample_removed by simp
qed

end
