(* ===== verification/Registry.thy ===== *)
theory Registry
  imports Models Urls Regex
begin

text \<open>
  \<open>DockerRegistrySynchronizer\<close> of \<open>orchestrator/registry.py\<close>: base images with a pinned tag are
  pulled, tagged and pushed into a project of Harbor. The Docker client and the parser of JSON are
  parameters; the answer to a push is a document, a list of them, or a text with one on each line.
\<close>

section \<open>References\<close>

definition is_any_hex :: "char \<Rightarrow> bool" where
  "is_any_hex c \<longleftrightarrow> is_digit c \<or> in_range 97 102 c \<or> in_range 65 70 c"

definition PUSH_DIGEST_RX :: rx where
  "PUSH_DIGEST_RX = Seqs [Plus (Cls (\<lambda>c. is_alnum c \<or> c \<in> set ''_+.-'')), Chr (CHR '':''), Rep 6 (Cls is_any_hex), Star (Cls is_any_hex)]"

definition TAG_RX :: rx where
  "TAG_RX = Cat (Cls (\<lambda>c. is_alnum c \<or> c = CHR ''_'')) (UpTo 127 (Cls (\<lambda>c. is_alnum c \<or> c \<in> set ''_.-'')))"

definition PROJECT_RX :: rx where
  "PROJECT_RX = Cat (Cls is_alnum) (Star (Cls (\<lambda>c. is_alnum c \<or> c \<in> set ''_.-'')))"

record image_reference =
  ir_repository :: string
  ir_tag :: string

definition tagged_reference :: "image_reference \<Rightarrow> string" where
  "tagged_reference r = ir_repository r @ '':'' @ ir_tag r"

definition sync_error :: "string \<Rightarrow> 'a res" where
  "sync_error m = Inl (Exn RegistrySyncError m)"

text \<open>The image without its digest, which may follow a stable tag.\<close>

definition image_name_of :: "string \<Rightarrow> string res" where
  "image_name_of source =
     (case rsplit_once (CHR ''@'') source of
        (None, _) \<Rightarrow> Inr source
      | (Some name, digest) \<Rightarrow>
          if fullmatch PUSH_DIGEST_RX digest then Inr name else sync_error ''Base image digest is invalid'')"

definition parse_stable_reference :: "string \<Rightarrow> image_reference res" where
  "parse_stable_reference source =
     (if source = [] \<or> source \<noteq> strip source then sync_error ''Base image reference must be a non-empty string''
      else
        rbind (image_name_of source) (\<lambda>name.
        if list_ex is_space name \<or> contains name ''://'' then sync_error ''Base image reference is invalid''
        else
          (case rsplit_once (CHR '':'') name of
             (None, _) \<Rightarrow> sync_error ''Base image must use an explicit stable tag''
           | (Some repository, tag) \<Rightarrow>
               if CHR ''/'' \<in> set tag then sync_error ''Base image must use an explicit stable tag''
               else if repository = [] \<or> \<not> fullmatch TAG_RX tag \<or> lower tag = ''latest''
               then sync_error ''Base image must use an explicit stable tag''
               else Inr \<lparr>ir_repository = repository, ir_tag = tag\<rparr>)))"

definition mirror_path :: "string \<Rightarrow> string" where
  "mirror_path repository =
     (if starts_with repository ''docker.io/library/'' then without_prefix ''docker.io/library/'' repository
      else if starts_with repository ''docker.io/'' then without_prefix ''docker.io/'' repository
      else repository)"

section \<open>The client\<close>

record registry_docker =
  rk_connect :: "(world, unit) action"
  rk_login :: "string \<Rightarrow> string \<Rightarrow> string \<Rightarrow> (world, unit) action"
  rk_pull :: "string \<Rightarrow> (world, value) action"
  rk_tag :: "string \<Rightarrow> string \<Rightarrow> string \<Rightarrow> (world, value) action"
  rk_push :: "string \<Rightarrow> string \<Rightarrow> (world, value) action"
  rk_json :: "string \<Rightarrow> value option"

record synchronizer =
  sr_registry :: string
  sr_credentials :: "(string \<times> string) option"
  sr_project :: string
  sr_docker :: registry_docker

definition registry_host :: "string \<Rightarrow> string res" where
  "registry_host harbor_url =
     (if strip harbor_url = [] then Inl (Exn ValueError ''Harbor URL must be a non-empty URL or registry host'')
      else
        (let v = rstrip_slashes (strip harbor_url) in
         rbind (urlsplit (if contains v ''://'' then v else ''//'' @ v)) (\<lambda>u.
         case split_params (url_path u) of
           (path, params) \<Rightarrow>
             if url_netloc u = [] \<or> path \<notin> {[], ''/''} \<or> params \<noteq> [] \<or> url_query u \<noteq> [] \<or> url_fragment u \<noteq> []
             then Inl (Exn ValueError ''Harbor URL must identify a registry host without a path'')
             else if has_credentials u then Inl (Exn ValueError ''Harbor URL must not contain credentials'')
             else Inr (url_netloc u))))"

definition project_name :: "string \<Rightarrow> string res" where
  "project_name project =
     (if fullmatch PROJECT_RX project then Inr project else Inl (Exn ValueError ''Harbor project name is invalid''))"

definition make_synchronizer ::
  "string \<Rightarrow> string option \<Rightarrow> string option \<Rightarrow> string \<Rightarrow> registry_docker \<Rightarrow> synchronizer res" where
  "make_synchronizer harbor_url username password project dk =
     rbind (registry_host harbor_url) (\<lambda>host.
     rbind (project_name project) (\<lambda>p.
     case (username, password) of
       (Some u, Some pw) \<Rightarrow> Inr \<lparr>sr_registry = host, sr_credentials = Some (u, pw), sr_project = p, sr_docker = dk\<rparr>
     | (None, None) \<Rightarrow> Inr \<lparr>sr_registry = host, sr_credentials = None, sr_project = p, sr_docker = dk\<rparr>
     | _ \<Rightarrow> Inl (Exn ValueError ''Harbor credentials require both a username and password'')))"

definition synchronizer_from_settings ::
  "string option \<Rightarrow> string option \<Rightarrow> string option \<Rightarrow> string \<Rightarrow> registry_docker \<Rightarrow> synchronizer res" where
  "synchronizer_from_settings harbor_url username password project dk =
     (if \<not> truthy_opt harbor_url
      then Inl (Exn ValueError ''Harbor URL is required for base-image synchronization'')
      else make_synchronizer (the harbor_url) username password project dk)"

text \<open>Where an image goes.\<close>

definition mirror_target :: "synchronizer \<Rightarrow> image_reference \<Rightarrow> image_reference" where
  "mirror_target sr source =
     \<lparr>ir_repository = sr_registry sr @ ''/'' @ sr_project sr @ ''/'' @ mirror_path (ir_repository source), ir_tag = ir_tag source\<rparr>"

definition harbor_reference :: "synchronizer \<Rightarrow> string \<Rightarrow> string res" where
  "harbor_reference sr source =
     rbind (parse_stable_reference source) (\<lambda>r. Inr (tagged_reference (mirror_target sr r)))"

section \<open>The answer to a push\<close>

definition mappings :: "value list \<Rightarrow> mapping list" where
  "mappings vs = map the_dict (filter is_mapping vs)"

definition line_event :: "(string \<Rightarrow> value option) \<Rightarrow> string \<Rightarrow> value list" where
  "line_event json line =
     (let item = strip line in
      if item = [] then []
      else
        (case json item of
           Some v \<Rightarrow> [v]
         | None \<Rightarrow> if fullmatch PUSH_DIGEST_RX item then [VDict [(VStr ''digest'', VStr item)]] else []))"

definition push_events :: "(string \<Rightarrow> value option) \<Rightarrow> value \<Rightarrow> mapping list" where
  "push_events json response =
     (case response of
        VDict d \<Rightarrow> [d]
      | VStr s \<Rightarrow> mappings (concat (map (line_event json) (line_pieces s)))
      | VList vs \<Rightarrow> mappings vs
      | _ \<Rightarrow> [])"

definition event_error :: "mapping \<Rightarrow> bool" where
  "event_error event \<longleftrightarrow> truthy (mget event ''error'') \<or>
     (case mget event ''errorDetail'' of VDict d \<Rightarrow> truthy (mget d ''message'') | _ \<Rightarrow> False)"

definition event_digest :: "mapping \<Rightarrow> string option" where
  "event_digest event =
     (let candidates = [mget event ''digest'', mget event ''Digest'']
            @ (case mget event ''aux'' of VDict d \<Rightarrow> [mget d ''Digest'', mget d ''digest''] | _ \<Rightarrow> [])
      in map_option the_str (find (\<lambda>v. is_str v \<and> fullmatch PUSH_DIGEST_RX (the_str v)) candidates))"

text \<open>The last digest of the events, unless one of them is an error.\<close>

fun pushed_digest :: "mapping list \<Rightarrow> string option \<Rightarrow> string option res" where
  "pushed_digest [] digest = Inr digest"
| "pushed_digest (event # events) digest =
     (if event_error event then sync_error ''Harbor rejected the base image push''
      else pushed_digest events (case event_digest event of None \<Rightarrow> digest | Some d \<Rightarrow> Some d))"

definition repository_digest :: "string \<Rightarrow> value \<Rightarrow> string option" where
  "repository_digest target v =
     (case v of
        VStr s \<Rightarrow>
          (case rsplit_once (CHR ''@'') s of
             (Some repository, digest) \<Rightarrow>
               if repository = target \<and> fullmatch PUSH_DIGEST_RX digest then Some digest else None
           | (None, _) \<Rightarrow> None)
      | _ \<Rightarrow> None)"

definition image_digest :: "value \<Rightarrow> string \<Rightarrow> string option" where
  "image_digest attrs target =
     (case attrs of
        VDict d \<Rightarrow>
          (case mget_default d ''RepoDigests'' (VList []) of
             VList items \<Rightarrow>
               (case List.map_filter (repository_digest target) items of [] \<Rightarrow> None | digest # _ \<Rightarrow> Some digest)
           | _ \<Rightarrow> None)
      | _ \<Rightarrow> None)"

section \<open>Synchronisation\<close>

definition push_image :: "synchronizer \<Rightarrow> image_reference \<Rightarrow> (world, string option) action" where
  "push_image sr target =
     bd (rk_push (sr_docker sr) (ir_repository target) (ir_tag target)) (\<lambda>response.
     lift_res (pushed_digest (push_events (rk_json (sr_docker sr)) response) None))"

definition registry_login :: "synchronizer \<Rightarrow> (world, unit) action" where
  "registry_login sr =
     (case sr_credentials sr of
        None \<Rightarrow> ret ()
      | Some (username, password) \<Rightarrow> rk_login (sr_docker sr) username password (sr_registry sr))"

definition mirror_image :: "synchronizer \<Rightarrow> string \<Rightarrow> image_reference \<Rightarrow> (world, base_image) action" where
  "mirror_image sr source target =
     andthen (rk_connect (sr_docker sr))
     (andthen (registry_login sr)
     (bd (rk_pull (sr_docker sr) source) (\<lambda>attrs.
      bd (rk_tag (sr_docker sr) source (ir_repository target) (ir_tag target)) (\<lambda>tagged.
      if tagged = VBool False then raise RegistrySyncError ''Docker could not tag the base image''
      else
        bd (push_image sr target) (\<lambda>pushed.
        bd utc_now (\<lambda>now.
        bd utc_now (\<lambda>updated.
        ret \<lparr>bm_source_image = source, bm_harbor_reference = tagged_reference target,
             bm_digest = (case pushed of None \<Rightarrow> image_digest attrs (ir_repository target) | Some d \<Rightarrow> Some d),
             bm_status = ''synced'', bm_error = None, bm_synced_at = Some now, bm_updated_at = updated\<rparr>)))))))"

definition sync_image :: "synchronizer \<Rightarrow> string \<Rightarrow> (world, base_image) action" where
  "sync_image sr source =
     bd (lift_res (parse_stable_reference source)) (\<lambda>r.
     catching (mirror_image sr source (mirror_target sr r))
       (\<lambda>e. if exn_class e = RegistrySyncError then reraise e
            else raise RegistrySyncError ''Unable to synchronize base image with Harbor''))"

definition push_base_image :: "synchronizer \<Rightarrow> string \<Rightarrow> (world, string) action" where
  "push_base_image sr source = bd (sync_image sr source) (\<lambda>b. ret (bm_harbor_reference b))"

definition failed_image :: "synchronizer \<Rightarrow> string \<Rightarrow> exn \<Rightarrow> (world, base_image) action" where
  "failed_image sr source e =
     bd (case harbor_reference sr source of
           Inr t \<Rightarrow> ret t
         | Inl f \<Rightarrow> if exn_class f = RegistrySyncError then ret [] else reraise f) (\<lambda>reference.
     bd utc_now (\<lambda>now.
     bd utc_now (\<lambda>updated.
     ret \<lparr>bm_source_image = source, bm_harbor_reference = reference, bm_digest = None, bm_status = ''failed'',
          bm_error = Some (exn_msg e), bm_synced_at = Some now, bm_updated_at = updated\<rparr>)))"

definition sync_next :: "synchronizer \<Rightarrow> string \<Rightarrow> base_image list \<Rightarrow> (world, base_image list) action" where
  "sync_next sr source results =
     bd (attempt (sync_image sr source)) (\<lambda>outcome.
     case outcome of
       Inr b \<Rightarrow> ret (results @ [b])
     | Inl e \<Rightarrow>
         if exn_class e = RegistrySyncError then bd (failed_image sr source e) (\<lambda>b. ret (results @ [b]))
         else reraise e)"

definition sync_many :: "synchronizer \<Rightarrow> string list \<Rightarrow> (world, base_image list) action" where
  "sync_many sr sources = fold_each sources (sync_next sr) []"

end
