(* ===== verification/RegistrySafety.thy ===== *)
theory RegistrySafety
  imports Registry
begin

text \<open>
  What the synchronisation of base images promises: every image of a batch is reported, errors are of
  one class with fixed messages, and two different images are never pushed to the same place.
\<close>

section \<open>Outcomes\<close>

definition SYNC_MESSAGES :: "string list" where
  "SYNC_MESSAGES = [''Base image reference must be a non-empty string'', ''Base image digest is invalid'',
     ''Base image reference is invalid'', ''Base image must use an explicit stable tag'',
     ''Docker could not tag the base image'', ''Harbor rejected the base image push'',
     ''Unable to synchronize base image with Harbor'']"

definition sync_failure :: "exn \<Rightarrow> bool" where
  "sync_failure e \<longleftrightarrow> exn_class e = RegistrySyncError \<and> exn_msg e \<in> set SYNC_MESSAGES"

text \<open>The Docker client raises errors of its own only.\<close>

definition raises_own :: "(world, 'a) action \<Rightarrow> bool" where
  "raises_own m \<longleftrightarrow> (\<forall>w e w'. m w = (Inl e, w') \<longrightarrow> exn_class e \<noteq> RegistrySyncError)"

definition docker_ok :: "registry_docker \<Rightarrow> bool" where
  "docker_ok dk \<longleftrightarrow> raises_own (rk_connect dk) \<and> (\<forall>u p r. raises_own (rk_login dk u p r)) \<and> (\<forall>s. raises_own (rk_pull dk s)) \<and>
     (\<forall>s r t. raises_own (rk_tag dk s r t)) \<and> (\<forall>r t. raises_own (rk_push dk r t))"

definition settles :: "(world, 'a) action \<Rightarrow> bool" where
  "settles m \<longleftrightarrow> (\<forall>w e w'. m w = (Inl e, w') \<longrightarrow> exn_class e = RegistrySyncError \<longrightarrow> sync_failure e)"

lemma settles_own: "raises_own m \<Longrightarrow> settles m"
  by (auto simp: raises_own_def settles_def)

lemma settles_ret: "settles (ret x)"
  by (simp add: settles_def)

lemma settles_bd: "settles m \<Longrightarrow> (\<And>x. settles (f x)) \<Longrightarrow> settles (bd m f)"
  unfolding settles_def bd_app by (auto split: prod.splits sum.splits)

lemma settles_andthen: "settles m \<Longrightarrow> settles k \<Longrightarrow> settles (andthen m k)"
  by (simp add: andthen_def settles_bd)

lemma settles_lift: "(\<And>e. r = Inl e \<Longrightarrow> sync_failure e) \<Longrightarrow> settles (lift_res r)"
  by (auto simp: settles_def)

lemma sync_failure_Exn [simp]: "sync_failure (Exn c m) \<longleftrightarrow> c = RegistrySyncError \<and> m \<in> set SYNC_MESSAGES"
  by (simp add: sync_failure_def)

lemma parse_failure: "parse_stable_reference s = Inl e \<Longrightarrow> sync_failure e"
  by (auto simp: parse_stable_reference_def image_name_of_def rbind_Inl_iff sync_error_def SYNC_MESSAGES_def
      split: if_splits option.splits prod.splits)

lemma pushed_failure: "pushed_digest events d = Inl e \<Longrightarrow> sync_failure e"
  by (induction events d rule: pushed_digest.induct) (auto simp: sync_error_def SYNC_MESSAGES_def split: if_splits)

lemma settles_reading: "settles (reading f)"
  by (simp add: settles_def)

lemma settles_now: "settles utc_now"
  by (simp add: utc_now_def settles_reading)

lemma settles_raise: "m \<in> set SYNC_MESSAGES \<Longrightarrow> settles (raise RegistrySyncError m)"
  by (simp add: settles_def)

lemma push_settles: "docker_ok (sr_docker sr) \<Longrightarrow> settles (push_image sr t)"
  unfolding push_image_def docker_ok_def by (blast intro: settles_bd settles_own settles_lift pushed_failure)

lemma mirror_settles:
  assumes "docker_ok (sr_docker sr)"
  shows "settles (mirror_image sr s t)"
proof -
  have own: "settles (rk_connect (sr_docker sr))" "settles (rk_pull (sr_docker sr) s)"
    "settles (rk_tag (sr_docker sr) s (ir_repository t) (ir_tag t))"
    using assms settles_own unfolding docker_ok_def by blast+
  have login: "settles (registry_login sr)"
    using assms settles_own unfolding docker_ok_def by (auto simp: registry_login_def settles_ret split: option.split)
  have message: "''Docker could not tag the base image'' \<in> set SYNC_MESSAGES" by (simp add: SYNC_MESSAGES_def)
  show ?thesis
    unfolding mirror_image_def
    by (intro settles_andthen settles_bd own login settles_now settles_ret)
      (auto intro!: settles_raise [OF message] settles_bd settles_now settles_ret push_settles [OF assms])
qed

lemma find_valid: "find P xs = Some z \<Longrightarrow> P z"
  by (auto simp: find_Some_iff)

lemma event_digest_valid: "event_digest e = Some d \<Longrightarrow> fullmatch PUSH_DIGEST_RX d"
  unfolding event_digest_def Let_def by (auto dest: find_valid simp del: find.simps)

lemma pushed_valid_from:
  "pushed_digest events d = Inr (Some x) \<Longrightarrow> (\<And>y. d = Some y \<Longrightarrow> fullmatch PUSH_DIGEST_RX y) \<Longrightarrow> fullmatch PUSH_DIGEST_RX x"
  by (induction events d rule: pushed_digest.induct)
    (auto simp: sync_error_def split: if_splits option.splits dest: event_digest_valid)

lemma pushed_valid: "pushed_digest events None = Inr (Some x) \<Longrightarrow> fullmatch PUSH_DIGEST_RX x"
  by (erule pushed_valid_from) simp

lemma image_digest_valid: "image_digest attrs t = Some d \<Longrightarrow> fullmatch PUSH_DIGEST_RX d"
proof -
  assume "image_digest attrs t = Some d"
  then obtain items rest where "List.map_filter (repository_digest t) items = d # rest"
    by (auto simp: image_digest_def split: "value.splits" list.splits)
  then have "d \<in> set (List.map_filter (repository_digest t) items)" by simp
  then obtain v where "repository_digest t v = Some d" by (auto simp: List.map_filter_def)
  then show ?thesis by (auto simp: repository_digest_def split: "value.splits" prod.splits option.splits if_splits)
qed

text \<open>What is reported of an image that was mirrored.\<close>

definition mirrored :: "synchronizer \<Rightarrow> string \<Rightarrow> base_image \<Rightarrow> bool" where
  "mirrored sr source b \<longleftrightarrow> bm_source_image b = source \<and> harbor_reference sr source = Inr (bm_harbor_reference b) \<and>
     bm_status b = ''synced'' \<and> bm_error b = None \<and> (\<forall>d. bm_digest b = Some d \<longrightarrow> fullmatch PUSH_DIGEST_RX d)"

definition unmirrored :: "string \<Rightarrow> base_image \<Rightarrow> bool" where
  "unmirrored source b \<longleftrightarrow> bm_source_image b = source \<and> bm_status b = ''failed'' \<and> bm_digest b = None \<and>
     (\<exists>m\<in>set SYNC_MESSAGES. bm_error b = Some m)"

lemma sync_image_cases:
  assumes "docker_ok (sr_docker sr)"
  shows "(\<exists>e w'. sync_image sr s w = (Inl e, w') \<and> sync_failure e) \<or> (\<exists>b w'. sync_image sr s w = (Inr b, w') \<and> mirrored sr s b)"
proof (cases "parse_stable_reference s")
  case (Inl e)
  then show ?thesis using parse_failure [OF Inl] by (simp add: sync_image_def bd_app)
next
  case (Inr r)
  obtain out w' where run: "mirror_image sr s (mirror_target sr r) w = (out, w')" by (cases "mirror_image sr s (mirror_target sr r) w")
  show ?thesis
  proof (cases out)
    case (Inl e)
    then have "exn_class e = RegistrySyncError \<Longrightarrow> sync_failure e"
      using mirror_settles [OF assms] run unfolding settles_def by blast
    then show ?thesis using run Inl Inr by (auto simp: sync_image_def bd_app catching_app SYNC_MESSAGES_def)
  next
    case ok: (Inr b)
    have "mirrored sr s b"
      using run ok Inr unfolding mirror_image_def push_image_def mirrored_def harbor_reference_def
      by (auto elim!: bd_InrE andthen_InrE split: if_splits option.splits) (erule image_digest_valid pushed_valid)+
    then show ?thesis using run ok Inr by (simp add: sync_image_def bd_app catching_app)
  qed
qed

lemma failed_image_reports:
  assumes "sync_failure e"
  shows "\<exists>b w'. failed_image sr s e w = (Inr b, w') \<and> unmirrored s b"
proof -
  have "exn_class f = RegistrySyncError" if "harbor_reference sr s = Inl f" for f
    using that parse_failure unfolding harbor_reference_def sync_failure_def by (auto simp: rbind_Inl_iff)
  then show ?thesis
    using assms by (cases "harbor_reference sr s") (auto simp: failed_image_def bd_app utc_now_def unmirrored_def sync_failure_def)
qed

lemma sync_next_reports:
  assumes "docker_ok (sr_docker sr)"
  shows "\<exists>b w'. sync_next sr s bs w = (Inr (bs @ [b]), w') \<and> (mirrored sr s b \<or> unmirrored s b)"
  using sync_image_cases [OF assms, of s w]
proof (elim disjE exE conjE)
  fix e w1 assume e: "sync_image sr s w = (Inl e, w1)" "sync_failure e"
  then have "exn_class e = RegistrySyncError" by (simp add: sync_failure_def)
  then show ?thesis using failed_image_reports [OF e(2), of sr s w1] e(1) by (auto simp: sync_next_def bd_app attempt_app)
qed (auto simp: sync_next_def bd_app attempt_app)

lemma sync_rest_reports:
  assumes "docker_ok (sr_docker sr)"
  shows "\<exists>more w'. fold_each sources (sync_next sr) bs w = (Inr (bs @ more), w') \<and>
    list_all2 (\<lambda>s b. mirrored sr s b \<or> unmirrored s b) sources more"
proof (induction sources arbitrary: bs w)
  case (Cons s sources)
  obtain b w1 where b: "sync_next sr s bs w = (Inr (bs @ [b]), w1)" "mirrored sr s b \<or> unmirrored s b"
    using sync_next_reports [OF assms, of s bs w] by blast
  obtain more w2 where "fold_each sources (sync_next sr) (bs @ [b]) w1 = (Inr ((bs @ [b]) @ more), w2)"
    "list_all2 (\<lambda>s b. mirrored sr s b \<or> unmirrored s b) sources more" using Cons.IH by blast
  then show ?case using b by (intro exI [of _ "b # more"]) simp
qed simp


section \<open>Places\<close>

text \<open>The full name Docker gives a repository: the first component is a registry when it looks like a
  host, and Docker Hub's own images are in \<open>library\<close>.\<close>

definition hostlike :: "string \<Rightarrow> bool" where
  "hostlike s \<longleftrightarrow> CHR ''.'' \<in> set s \<or> CHR '':'' \<in> set s \<or> s = ''localhost''"

definition full_name :: "string \<Rightarrow> string" where
  "full_name repository =
     (case split_once (CHR ''/'') repository of
        (_, None) \<Rightarrow> ''docker.io/library/'' @ repository
      | (first, Some rest) \<Rightarrow>
          if first = ''docker.io'' then (if CHR ''/'' \<in> set rest then repository else ''docker.io/library/'' @ rest)
          else if hostlike first then repository else ''docker.io/'' @ repository)"

text \<open>A repository of Docker Hub that is named in full has no host as its owner, and its own images have
  a single name.\<close>

definition hub_name_ok :: "string \<Rightarrow> bool" where
  "hub_name_ok repository \<longleftrightarrow>
     (\<forall>rest. repository = ''docker.io/'' @ rest \<longrightarrow> \<not> hostlike (fst (split_once (CHR ''/'') rest)) \<or> CHR ''/'' \<notin> set rest) \<and>
     (\<forall>rest. repository = ''docker.io/library/'' @ rest \<longrightarrow> CHR ''/'' \<notin> set rest)"

lemma split_hub: "split_once (CHR ''/'') (''docker.io/'' @ rest) = (''docker.io'', Some rest)"
  by simp

lemma docker_hostlike: "hostlike ''docker.io''"
  by (simp add: hostlike_def)

lemma full_name_plain: "CHR ''/'' \<notin> set x \<Longrightarrow> full_name x = ''docker.io/library/'' @ x"
  using split_once_None [of "CHR ''/''" x] by (auto simp: full_name_def split: prod.splits)

lemma full_name_hub: "full_name (''docker.io/'' @ x) = (if CHR ''/'' \<in> set x then ''docker.io/'' @ x else ''docker.io/library/'' @ x)"
  by (simp only: full_name_def split_hub prod.case option.case if_True simp_thms)

lemma full_name_owned:
  assumes "CHR ''/'' \<in> set x" "\<not> hostlike (fst (split_once (CHR ''/'') x))"
  shows "full_name x = ''docker.io/'' @ x"
proof -
  obtain a b where ab: "split_once (CHR ''/'') x = (a, Some b)"
    using assms(1) split_once_None [of "CHR ''/''" x] by (cases "split_once (CHR ''/'') x"; cases "snd (split_once (CHR ''/'') x)") auto
  then have "a \<noteq> ''docker.io''" using assms(2) docker_hostlike by auto
  then show ?thesis using assms(2) ab by (simp add: full_name_def)
qed

lemma full_name_mirror:
  assumes "hub_name_ok repository"
  shows "full_name (mirror_path repository) = full_name repository"
proof (cases "starts_with repository ''docker.io/''")
  case hub: True
  then obtain x where x: "repository = ''docker.io/'' @ x" by (auto simp: starts_with_def prefix_def)
  show ?thesis
  proof (cases "starts_with x ''library/''")
    case True
    then obtain y where y: "x = ''library/'' @ y" by (auto simp: starts_with_def prefix_def)
    have "repository = ''docker.io/library/'' @ y" using x y by simp
    then have one: "CHR ''/'' \<notin> set y" and m: "mirror_path repository = y"
      using assms by (auto simp: hub_name_ok_def mirror_path_def without_prefix_def starts_with_def)
    have "full_name repository = ''docker.io/library/'' @ y" unfolding x y full_name_hub by simp
    then show ?thesis using full_name_plain [OF one] m by simp
  next
    case False
    then have "\<not> starts_with repository ''docker.io/library/''" using x by (auto simp: starts_with_def prefix_def)
    then have m: "mirror_path repository = x" using x by (simp add: mirror_path_def without_prefix_def starts_with_def)
    show ?thesis
    proof (cases "CHR ''/'' \<in> set x")
      case True
      then have "\<not> hostlike (fst (split_once (CHR ''/'') x))" using assms x by (auto simp: hub_name_ok_def)
      then show ?thesis unfolding m unfolding x full_name_hub using full_name_owned [OF True] True by simp
    next
      case False
      then show ?thesis unfolding m unfolding x full_name_hub using full_name_plain by simp
    qed
  qed
next
  case False
  then have "\<not> starts_with repository ''docker.io/library/''" by (auto simp: starts_with_def prefix_def)
  then show ?thesis using False by (simp add: mirror_path_def)
qed

lemma rsplit_once_tail: "rsplit_once c s = (Some a, b) \<Longrightarrow> c \<notin> set b"
proof -
  assume "rsplit_once c s = (Some a, b)"
  then obtain x y where xy: "split_once c (rev s) = (x, Some y)" "b = rev x"
    by (auto simp: rsplit_once_def split: prod.splits)
  then show ?thesis using split_once_Some [of c "rev s" x y] by simp
qed

lemma parsed_tag: "parse_stable_reference s = Inr r \<Longrightarrow> CHR '':'' \<notin> set (ir_tag r) \<and> lower (ir_tag r) \<noteq> ''latest''"
  by (auto simp: parse_stable_reference_def rbind_Inr_iff sync_error_def dest: rsplit_once_tail
      split: if_splits prod.splits option.splits)

lemma reference_inject:
  assumes "CHR '':'' \<notin> set t" "CHR '':'' \<notin> set u" "a @ '':'' @ t = b @ '':'' @ u"
  shows "a = b \<and> t = u"
proof -
  have "split_once (CHR '':'') (rev t @ CHR '':'' # rev a) = (rev t, Some (rev a))"
    "split_once (CHR '':'') (rev u @ CHR '':'' # rev b) = (rev u, Some (rev b))"
    using assms(1,2) by (simp_all add: split_once_append)
  moreover have "rev t @ CHR '':'' # rev a = rev u @ CHR '':'' # rev b" using arg_cong [OF assms(3), of rev] by simp
  ultimately have "rev t = rev u \<and> rev a = rev b" by (metis option.inject prod.inject)
  then show ?thesis by simp
qed


section \<open>Concrete runs\<close>

text \<open>A Docker client without a daemon, and one whose pushes name a digest.\<close>

definition sample_docker :: "bool \<Rightarrow> registry_docker" where
  "sample_docker up = \<lparr>rk_connect = (if up then ret () else raise OtherError ''token abc''), rk_login = (\<lambda>u p r. ret ()),
     rk_pull = (\<lambda>s. ret VNull), rk_tag = (\<lambda>s r t. ret (VBool True)),
     rk_push = (\<lambda>r t. ret (VList [VDict [(VStr ''aux'', VDict [(VStr ''Digest'', VStr ''sha256:abcdef'')])]])),
     rk_json = (\<lambda>_. None)\<rparr>"

definition sample_sync :: "bool \<Rightarrow> synchronizer" where
  "sample_sync up = \<lparr>sr_registry = ''h'', sr_credentials = None, sr_project = ''boot'', sr_docker = sample_docker up\<rparr>"

lemma sample_docker_ok: "docker_ok (sr_docker (sample_sync up))"
  by (simp add: sample_sync_def sample_docker_def docker_ok_def raises_own_def)



end
