(* ===== verification/Utf8.thy ===== *)
theory Utf8
  imports Main
begin

text \<open>
  Texts with characters outside ASCII, as lists of code points, and their UTF-8 form, as lists of
  bytes: \<open>str.encode\<close> with the handler \<open>replace\<close>, \<open>bytes.decode\<close> with \<open>replace\<close> and \<open>ignore\<close>, and
  \<open>str.splitlines(keepends=True)\<close>. The lemmas show the round trip, that decoding with \<open>ignore\<close> never
  makes a text longer than its bytes, and what cutting a text does to its lines.
\<close>

type_synonym points = "nat list"
type_synonym bytes = "nat list"

section \<open>Encoding\<close>

definition surrogate :: "nat \<Rightarrow> bool" where
  "surrogate c \<longleftrightarrow> 0xD800 \<le> c \<and> c \<le> 0xDFFF"

definition scalar :: "nat \<Rightarrow> bool" where
  "scalar c \<longleftrightarrow> c < 0x110000 \<and> \<not> surrogate c"

definition encode_point :: "nat \<Rightarrow> bytes" where
  "encode_point c =
     (if surrogate c then [63]
      else if c < 0x80 then [c]
      else if c < 0x800 then [0xC0 + c div 64, 0x80 + c mod 64]
      else if c < 0x10000 then [0xE0 + c div 4096, 0x80 + c div 64 mod 64, 0x80 + c mod 64]
      else [0xF0 + c div 262144, 0x80 + c div 4096 mod 64, 0x80 + c div 64 mod 64, 0x80 + c mod 64])"

definition utf8_encode :: "points \<Rightarrow> bytes" where
  "utf8_encode s = concat (map encode_point s)"

section \<open>Decoding\<close>

definition continuation :: "nat \<Rightarrow> bool" where
  "continuation b \<longleftrightarrow> 0x80 \<le> b \<and> b \<le> 0xBF"

text \<open>How many bytes follow a first byte, and the range of the second: it excludes forms that are too
  long, surrogates and numbers too large.\<close>

definition followers :: "nat \<Rightarrow> nat" where
  "followers b = (if b < 0x80 then 0 else if 0xC2 \<le> b \<and> b \<le> 0xDF then 1 else if 0xE0 \<le> b \<and> b \<le> 0xEF then 2 else 3)"

definition starts_sequence :: "nat \<Rightarrow> bool" where
  "starts_sequence b \<longleftrightarrow> b < 0x80 \<or> (0xC2 \<le> b \<and> b \<le> 0xF4)"

definition second_ok :: "nat \<Rightarrow> nat \<Rightarrow> bool" where
  "second_ok b c \<longleftrightarrow> continuation c \<and> (b = 0xE0 \<longrightarrow> 0xA0 \<le> c) \<and> (b = 0xED \<longrightarrow> c \<le> 0x9F) \<and>
     (b = 0xF0 \<longrightarrow> 0x90 \<le> c) \<and> (b = 0xF4 \<longrightarrow> c \<le> 0x8F)"

text \<open>The character at the start, if there is one, and the number of bytes after the first that belong
  to it or to the broken sequence.\<close>

definition utf8_step :: "nat \<Rightarrow> bytes \<Rightarrow> nat option \<times> nat" where
  "utf8_step b rest =
     (if \<not> starts_sequence b then (None, 0)
      else if followers b = 0 then (Some b, 0)
      else
        (case rest of
           [] \<Rightarrow> (None, 0)
         | c # rest2 \<Rightarrow>
             if \<not> second_ok b c then (None, 0)
             else if followers b = 1 then (Some ((b - 0xC0) * 64 + (c - 0x80)), 1)
             else
               (case rest2 of
                  [] \<Rightarrow> (None, 1)
                | d # rest3 \<Rightarrow>
                    if \<not> continuation d then (None, 1)
                    else if followers b = 2
                    then (Some ((b - 0xE0) * 4096 + (c - 0x80) * 64 + (d - 0x80)), 2)
                    else
                      (case rest3 of
                         [] \<Rightarrow> (None, 2)
                       | e # _ \<Rightarrow>
                           if \<not> continuation e then (None, 2)
                           else (Some ((b - 0xF0) * 262144 + (c - 0x80) * 4096 + (d - 0x80) * 64 + (e - 0x80)), 3)))))"

text \<open>\<open>bad\<close> is what a broken sequence becomes: the replacement character or nothing.\<close>

function utf8_decode :: "points \<Rightarrow> bytes \<Rightarrow> points" where
  "utf8_decode bad [] = []"
| "utf8_decode bad (b # rest) =
     (case utf8_step b rest of
        (Some c, n) \<Rightarrow> c # utf8_decode bad (drop n rest)
      | (None, n) \<Rightarrow> bad @ utf8_decode bad (drop n rest))"
  by pat_completeness auto
termination
  by (relation "measure (length \<circ> snd)") auto

definition decode_replace :: "bytes \<Rightarrow> points" where
  "decode_replace = utf8_decode [0xFFFD]"

definition decode_ignore :: "bytes \<Rightarrow> points" where
  "decode_ignore = utf8_decode []"

section \<open>Lines\<close>

definition breaks_line :: "nat \<Rightarrow> bool" where
  "breaks_line c \<longleftrightarrow> (10 \<le> c \<and> c \<le> 13) \<or> (28 \<le> c \<and> c \<le> 30) \<or> c \<in> {0x85, 0x2028, 0x2029}"

fun lines_keep :: "points \<Rightarrow> points list" where
  "lines_keep [] = []"
| "lines_keep (c # s) =
     (if c = 13 \<and> s \<noteq> [] \<and> hd s = 10 then [13, 10] # lines_keep (tl s)
      else if breaks_line c then [c] # lines_keep s
      else (case lines_keep s of [] \<Rightarrow> [[c]] | l # ls \<Rightarrow> (c # l) # ls))"

section \<open>Lemmas\<close>

lemma utf8_encode_Cons [simp]: "utf8_encode (c # s) = encode_point c @ utf8_encode s"
  by (simp add: utf8_encode_def)

lemma utf8_encode_Nil [simp]: "utf8_encode [] = []"
  by (simp add: utf8_encode_def)

lemma utf8_encode_append: "utf8_encode (s @ t) = utf8_encode s @ utf8_encode t"
  by (simp add: utf8_encode_def)

lemmas range_defs = surrogate_def scalar_def continuation_def followers_def starts_sequence_def second_ok_def

lemma digit: "(y::nat) < 64 \<Longrightarrow> (x * 64 + y) div 64 = x" "(y::nat) < 64 \<Longrightarrow> (x * 64 + y) mod 64 = y"
  by simp_all

lemma div_digits: "(n::nat) div 4096 = n div 64 div 64" "(n::nat) div 262144 = n div 64 div 64 div 64"
  by (simp_all add: div_mult2_eq [symmetric])

lemma horner:
  "x * 4096 + z * 64 + y = (x * 64 + z) * 64 + (y::nat)"
  "x * 262144 + v * 4096 + z * 64 + y = ((x * 64 + v) * 64 + z) * 64 + (y::nat)"
  by simp_all

lemma digits_three:
  assumes "(z::nat) < 64" "(y::nat) < 64"
  shows "(x * 4096 + z * 64 + y) div 4096 = x" "(x * 4096 + z * 64 + y) div 64 mod 64 = z"
    "(x * 4096 + z * 64 + y) mod 64 = y"
  by (simp_all only: div_digits horner digit assms)

lemma digits_four:
  assumes "(v::nat) < 64" "(z::nat) < 64" "(y::nat) < 64"
  shows "(x * 262144 + v * 4096 + z * 64 + y) div 262144 = x" "(x * 262144 + v * 4096 + z * 64 + y) div 4096 mod 64 = v"
    "(x * 262144 + v * 4096 + z * 64 + y) div 64 mod 64 = z" "(x * 262144 + v * 4096 + z * 64 + y) mod 64 = y"
  by (simp_all only: div_digits horner digit assms)

lemma encode_two:
  assumes "2 \<le> x" "x < 32" "y < 64"
  shows "encode_point (x * 64 + y) = [0xC0 + x, 0x80 + y]"
  using assms by (simp add: encode_point_def surrogate_def)

lemma encode_three:
  assumes "x < 16" "z < 64" "y < 64" "x = 0 \<Longrightarrow> 32 \<le> z" "x = 13 \<Longrightarrow> z < 32"
  shows "encode_point (x * 4096 + z * 64 + y) = [0xE0 + x, 0x80 + z, 0x80 + y]"
proof -
  define c where "c = x * 4096 + z * 64 + y"
  have "x \<le> 12 \<or> x = 13 \<or> 14 \<le> x" by linarith
  then have "\<not> surrogate c" using assms unfolding surrogate_def c_def by (elim disjE) auto
  moreover have "0x800 \<le> c" using assms(4) unfolding c_def by (cases "x = 0") auto
  moreover have "c < 0x10000" using assms(1-3) unfolding c_def by linarith
  ultimately show ?thesis using digits_three [OF assms(2,3), of x] by (simp add: encode_point_def c_def [symmetric])
qed

lemma encode_four:
  assumes "x < 5" "v < 64" "z < 64" "y < 64" "x = 0 \<Longrightarrow> 16 \<le> v"
  shows "encode_point (x * 262144 + v * 4096 + z * 64 + y) = [0xF0 + x, 0x80 + v, 0x80 + z, 0x80 + y]"
proof -
  define c where "c = x * 262144 + v * 4096 + z * 64 + y"
  have "0x10000 \<le> c" using assms(5) unfolding c_def by (cases "x = 0") auto
  then show ?thesis using digits_four [OF assms(2-4), of x] by (simp add: encode_point_def surrogate_def c_def [symmetric])
qed

text \<open>A step that finds a character consumes exactly the bytes of that character.\<close>

lemma minus_digit: "continuation b \<Longrightarrow> 0x80 + (b - 0x80) = b \<and> b - 0x80 < 64"
  by (auto simp: continuation_def)

lemma step_two:
  assumes "0xC2 \<le> b" "b \<le> 0xDF" "continuation c"
  shows "encode_point ((b - 0xC0) * 64 + (c - 0x80)) = [b, c]"
  using assms encode_two [of "b - 0xC0" "c - 0x80"] minus_digit [OF assms(3)] by simp

lemma step_three:
  assumes "0xE0 \<le> b" "b \<le> 0xEF" "second_ok b c" "continuation d"
  shows "encode_point ((b - 0xE0) * 4096 + (c - 0x80) * 64 + (d - 0x80)) = [b, c, d]"
proof -
  have c: "continuation c" "b = 0xE0 \<longrightarrow> 0xA0 \<le> c" "b = 0xED \<longrightarrow> c \<le> 0x9F" using assms(3) by (auto simp: second_ok_def)
  have "encode_point ((b - 0xE0) * 4096 + (c - 0x80) * 64 + (d - 0x80)) = [0xE0 + (b - 0xE0), 0x80 + (c - 0x80), 0x80 + (d - 0x80)]"
    by (rule encode_three) (use assms(1,2) c minus_digit [OF assms(4)] minus_digit [OF c(1)] in auto)
  then show ?thesis using assms(1) minus_digit [OF assms(4)] minus_digit [OF c(1)] by simp
qed

lemma step_four:
  assumes "0xF0 \<le> b" "b \<le> 0xF4" "second_ok b c" "continuation d" "continuation e"
  shows "encode_point ((b - 0xF0) * 262144 + (c - 0x80) * 4096 + (d - 0x80) * 64 + (e - 0x80)) = [b, c, d, e]"
proof -
  have c: "continuation c" "b = 0xF0 \<longrightarrow> 0x90 \<le> c" using assms(3) by (auto simp: second_ok_def)
  have "encode_point ((b - 0xF0) * 262144 + (c - 0x80) * 4096 + (d - 0x80) * 64 + (e - 0x80))
      = [0xF0 + (b - 0xF0), 0x80 + (c - 0x80), 0x80 + (d - 0x80), 0x80 + (e - 0x80)]"
    by (rule encode_four) (use assms(1,2) c minus_digit [OF assms(4)] minus_digit [OF assms(5)] minus_digit [OF c(1)] in auto)
  then show ?thesis using assms(1) minus_digit [OF assms(4)] minus_digit [OF assms(5)] minus_digit [OF c(1)] by simp
qed

lemma followers_range:
  assumes "starts_sequence b"
  shows "followers b = 0 \<longleftrightarrow> b < 0x80" "followers b = 1 \<longleftrightarrow> 0xC2 \<le> b \<and> b \<le> 0xDF"
    "followers b = 2 \<longleftrightarrow> 0xE0 \<le> b \<and> b \<le> 0xEF" "followers b \<notin> {0, 1, 2} \<longleftrightarrow> 0xF0 \<le> b \<and> b \<le> 0xF4"
  using assms by (auto simp: followers_def starts_sequence_def split: if_splits)

lemma step_consumes:
  assumes "utf8_step b rest = (Some c, n)"
  shows "encode_point c = b # take n rest \<and> n \<le> length rest"
proof -
  have start: "starts_sequence b" using assms by (auto simp: utf8_step_def split: if_splits)
  note range = followers_range [OF start]
  consider (1) "followers b = 0" | (2) "followers b = 1" | (3) "followers b = 2" | (4) "followers b \<notin> {0, 1, 2}" by auto
  then show ?thesis
  proof cases
    case 1
    then show ?thesis using assms start range(1) by (auto simp: utf8_step_def encode_point_def surrogate_def)
  next
    case 2
    then obtain x more where "rest = x # more" "second_ok b x" "c = (b - 0xC0) * 64 + (x - 0x80)" "n = 1"
      using assms start by (auto simp: utf8_step_def split: list.splits if_splits)
    then show ?thesis using step_two [of b x] range(2) 2 by (simp add: second_ok_def)
  next
    case 3
    then obtain x y more where "rest = x # y # more" "second_ok b x" "continuation y"
      "c = (b - 0xE0) * 4096 + (x - 0x80) * 64 + (y - 0x80)" "n = 2"
      using assms start by (auto simp: utf8_step_def split: list.splits if_splits)
    then show ?thesis using step_three [of b x y] range(3) 3 by simp
  next
    case 4
    then obtain x y z more where "rest = x # y # z # more" "second_ok b x" "continuation y" "continuation z"
      "c = (b - 0xF0) * 262144 + (x - 0x80) * 4096 + (y - 0x80) * 64 + (z - 0x80)" "n = 3"
      using assms start by (auto simp: utf8_step_def split: list.splits if_splits)
    then show ?thesis using step_four [of b x y z] range(4) 4 by simp
  qed
qed

lemma encode_decode_length: "length (utf8_encode (decode_ignore bs)) \<le> length bs"
  unfolding decode_ignore_def
proof (induction bs rule: length_induct)
  case (1 bs)
  show ?case
  proof (cases bs)
    case (Cons b rest)
    obtain oc n where step: "utf8_step b rest = (oc, n)" by (cases "utf8_step b rest")
    have rec: "length (utf8_encode (utf8_decode [] (drop n rest))) \<le> length (drop n rest)"
      by (rule 1 [rule_format]) (simp add: Cons)
    show ?thesis
    proof (cases oc)
      case None
      then show ?thesis using rec step Cons by simp
    next
      case (Some c)
      then have c: "encode_point c = b # take n rest" "n \<le> length rest" using step_consumes [of b rest c n] step by auto
      show ?thesis using rec step Some Cons c by simp
    qed
  qed simp
qed

text \<open>Cutting a text at the end of a line cuts its list of lines.\<close>

lemma lines_keep_Nil_iff [simp]: "lines_keep s = [] \<longleftrightarrow> s = []"
  by (cases s) (auto split: list.split)

lemma lines_cases:
  obtains (crlf) t where "c = 13" "s = 10 # t" "lines_keep (c # s) = [13, 10] # lines_keep t"
  | (brk) "\<not> (c = 13 \<and> s \<noteq> [] \<and> hd s = 10)" "breaks_line c" "lines_keep (c # s) = [c] # lines_keep s"
  | (last) "s = []" "\<not> breaks_line c" "lines_keep (c # s) = [[c]]"
  | (inside) l ls where "\<not> breaks_line c" "lines_keep s = l # ls" "lines_keep (c # s) = (c # l) # ls"
proof (cases "c = 13 \<and> s \<noteq> [] \<and> hd s = 10")
  case True
  then obtain t where "s = 10 # t" by (cases s) auto
  then show ?thesis using crlf True by simp
next
  case no: False
  have thirteen: "breaks_line 13" by (simp add: breaks_line_def)
  show ?thesis
  proof (cases "breaks_line c")
    case True
    then show ?thesis using brk no by simp
  next
    case False
    have "c \<noteq> 13" using False thirteen by auto
    then show ?thesis using last inside False by (cases "lines_keep s") auto
  qed
qed

lemma not_crlf:
  assumes "\<not> (c = 13 \<and> s \<noteq> [] \<and> hd s = 10)"
  shows "lines_keep (c # s) = (if breaks_line c then [c] # lines_keep s
     else (case lines_keep s of [] \<Rightarrow> [[c]] | l # ls \<Rightarrow> (c # l) # ls))"
  using assms by (simp only: lines_keep.simps if_False)

lemma inside_not_crlf: "\<not> breaks_line c \<Longrightarrow> \<not> (c = 13 \<and> s \<noteq> [] \<and> hd s = 10)"
  by (auto simp: breaks_line_def)

lemma lines_keep_concat: "concat (lines_keep s) = s"
proof (induction s rule: length_induct)
  case (1 s)
  show ?case
  proof (cases s)
    case (Cons c t)
    show ?thesis unfolding Cons
    proof (cases c t rule: lines_cases)
      case (crlf u)
      then have "concat (lines_keep u) = u" using 1 Cons by simp
      then show "concat (lines_keep (c # t)) = c # t" using crlf by simp
    next
      case brk
      have "concat (lines_keep t) = t" using 1 Cons by simp
      then show "concat (lines_keep (c # t)) = c # t" by (simp add: brk)
    next
      case last
      then show "concat (lines_keep (c # t)) = c # t" by simp
    next
      case (inside l ls)
      have "concat (lines_keep t) = t" using 1 Cons by simp
      then show "concat (lines_keep (c # t)) = c # t" using inside by simp
    qed
  qed simp
qed

lemma lines_keep_take: "lines_keep (concat (take n (lines_keep s))) = take n (lines_keep s)"
proof (induction s arbitrary: n rule: length_induct)
  case (1 s)
  show ?case
  proof (cases "s = [] \<or> n = 0")
    case False
    then obtain c t m where s: "s = c # t" and n: "n = Suc m" by (cases s; cases n) auto
    have IH: "lines_keep (concat (take k (lines_keep t))) = take k (lines_keep t)" for k
      using 1 s by simp
    show ?thesis unfolding s n
    proof (cases c t rule: lines_cases)
      case (crlf u)
      then have "lines_keep (concat (take m (lines_keep u))) = take m (lines_keep u)" using 1 s by simp
      then show "lines_keep (concat (take (Suc m) (lines_keep (c # t)))) = take (Suc m) (lines_keep (c # t))"
        using crlf by simp
    next
      case brk
      let ?u = "concat (take m (lines_keep t))"
      have "t = ?u @ concat (drop m (lines_keep t))"
        by (metis append_take_drop_id concat_append lines_keep_concat)
      then have "?u \<noteq> [] \<Longrightarrow> t \<noteq> [] \<and> hd t = hd ?u" by (metis append_is_Nil_conv hd_append2)
      then have "\<not> (c = 13 \<and> ?u \<noteq> [] \<and> hd ?u = 10)" using brk(1) by (metis (no_types))
      from not_crlf [OF this]
      show "lines_keep (concat (take (Suc m) (lines_keep (c # t)))) = take (Suc m) (lines_keep (c # t))"
        by (simp only: brk(2,3) take_Suc_Cons concat.simps append.simps IH if_True)
    next
      case last
      then show "lines_keep (concat (take (Suc m) (lines_keep (c # t)))) = take (Suc m) (lines_keep (c # t))"
        by (simp add: not_crlf)
    next
      case (inside l ls)
      have u: "lines_keep (l @ concat (take m ls)) = l # take m ls" using IH [of "Suc m"] inside(2) by simp
      from not_crlf [OF inside_not_crlf [OF inside(1)], of "l @ concat (take m ls)"]
      show "lines_keep (concat (take (Suc m) (lines_keep (c # t)))) = take (Suc m) (lines_keep (c # t))"
        by (simp only: inside(1,3) take_Suc_Cons concat.simps append.simps u if_False list.case)
    qed
  qed auto
qed

lemma lines_keep_drop: "lines_keep (concat (drop n (lines_keep s))) = drop n (lines_keep s)"
proof (induction s arbitrary: n rule: length_induct)
  case (1 s)
  show ?case
  proof (cases "s = [] \<or> n = 0")
    case True
    then show ?thesis by (auto simp: lines_keep_concat)
  next
    case False
    then obtain c t m where s: "s = c # t" and n: "n = Suc m" by (cases s; cases n) auto
    have IH: "lines_keep (concat (drop k (lines_keep t))) = drop k (lines_keep t)" for k
      using 1 s by simp
    show ?thesis unfolding s n
    proof (cases c t rule: lines_cases)
      case (crlf u)
      then have "lines_keep (concat (drop m (lines_keep u))) = drop m (lines_keep u)" using 1 s by simp
      then show "lines_keep (concat (drop (Suc m) (lines_keep (c # t)))) = drop (Suc m) (lines_keep (c # t))"
        using crlf by simp
    next
      case brk
      show "lines_keep (concat (drop (Suc m) (lines_keep (c # t)))) = drop (Suc m) (lines_keep (c # t))"
        by (simp only: brk(3) drop_Suc_Cons IH)
    next
      case last
      then show "lines_keep (concat (drop (Suc m) (lines_keep (c # t)))) = drop (Suc m) (lines_keep (c # t))"
        by simp
    next
      case (inside l ls)
      then show "lines_keep (concat (drop (Suc m) (lines_keep (c # t)))) = drop (Suc m) (lines_keep (c # t))"
        using IH [of "Suc m"] by simp
    qed
  qed
qed

lemma lines_keep_longer: "length (lines_keep s) \<le> length (lines_keep (c # s))"
proof (cases c s rule: lines_cases)
  case (crlf t)
  have "lines_keep s = [10] # lines_keep t" using crlf(2) by (simp add: breaks_line_def)
  then show ?thesis using crlf by simp
qed simp_all

lemma lines_keep_suffix: "length (lines_keep (drop k s)) \<le> length (lines_keep s)"
proof (induction s arbitrary: k)
  case (Cons c s)
  show ?case using Cons.IH lines_keep_longer [of s c] le_trans by (cases k) (fastforce simp del: lines_keep.simps)+
qed simp


text \<open>Decoding what was encoded gives it back, and cutting bytes off the front cuts characters off
  the front.\<close>

lemma digits_of: "(c::nat) div 64 * 64 + c mod 64 = c"
  "c div 4096 * 4096 + c div 64 mod 64 * 64 + c mod 64 = c"
  "c div 262144 * 262144 + c div 4096 mod 64 * 4096 + c div 64 mod 64 * 64 + c mod 64 = c"
proof -
  have a: "(n::nat) div 64 * 64 + n mod 64 = n" for n by simp
  show "c div 64 * 64 + c mod 64 = c" by (rule a)
  show "c div 4096 * 4096 + c div 64 mod 64 * 64 + c mod 64 = c"
    using a [of c] a [of "c div 64"] by (simp only: div_digits)
  show "c div 262144 * 262144 + c div 4096 mod 64 * 4096 + c div 64 mod 64 * 64 + c mod 64 = c"
    using a [of c] a [of "c div 64"] a [of "c div 64 div 64"] by (simp only: div_digits)
qed

lemma step_encode:
  assumes "scalar c" "encode_point c = b # more"
  shows "utf8_step b (more @ rest) = (Some c, length more)"
proof -
  have ns: "\<not> surrogate c" and top: "c < 0x110000" using assms(1) by (auto simp: scalar_def)
  have lt: "c mod 64 < 64" "c div 64 mod 64 < 64" "c div 4096 mod 64 < 64" by simp_all
  consider (1) "c < 0x80" | (2) "0x80 \<le> c" "c < 0x800" | (3) "0x800 \<le> c" "c < 0x10000" | (4) "0x10000 \<le> c" by linarith
  then show ?thesis
  proof cases
    case 1
    then show ?thesis using assms(2) ns
      by (auto simp: encode_point_def utf8_step_def starts_sequence_def followers_def)
  next
    case 2
    then have x: "2 \<le> c div 64" "c div 64 < 32" by auto
    have e: "b = 0xC0 + c div 64" "more = [0x80 + c mod 64]" using assms(2) ns 2 by (auto simp: encode_point_def)
    show ?thesis unfolding e utf8_step_def using x lt digits_of(1) [of c]
      by (simp add: starts_sequence_def followers_def second_ok_def continuation_def)
  next
    case 3
    then have x: "c div 4096 < 16" by auto
    have e: "b = 0xE0 + c div 4096" "more = [0x80 + c div 64 mod 64, 0x80 + c mod 64]"
      using assms(2) ns 3 by (auto simp: encode_point_def)
    have low: "32 \<le> c div 64 mod 64" if "c div 4096 = 0"
      using that 3(1) digits_of(2) [of c] lt by simp
    have sur: "c div 64 mod 64 < 32" if "c div 4096 = 13"
      using that ns digits_of(2) [of c] lt unfolding surrogate_def by linarith
    show ?thesis unfolding e utf8_step_def using x lt digits_of(2) [of c] low sur
      by (auto simp: starts_sequence_def followers_def second_ok_def continuation_def)
  next
    case 4
    then have x: "c div 262144 < 5" using top by auto
    have e: "b = 0xF0 + c div 262144" "more = [0x80 + c div 4096 mod 64, 0x80 + c div 64 mod 64, 0x80 + c mod 64]"
      using assms(2) ns 4 by (auto simp: encode_point_def)
    have low: "16 \<le> c div 4096 mod 64" if "c div 262144 = 0"
      using that 4 digits_of(3) [of c] lt by linarith
    have high: "c div 4096 mod 64 < 16" if "c div 262144 = 4"
      using that top digits_of(3) [of c] lt by linarith
    have le: "c div 64 mod 64 \<le> 63" "c div 4096 mod 64 \<le> 63" using lt(2,3) by linarith+
    show ?thesis unfolding e utf8_step_def using x lt digits_of(3) [of c] low high
      by (auto simp: starts_sequence_def followers_def second_ok_def continuation_def intro: le)
  qed
qed

lemma encode_point_shape: "\<exists>b more. encode_point c = b # more \<and> list_all continuation more"
proof -
  have lt: "c mod 64 < 64" "c div 64 mod 64 < 64" "c div 4096 mod 64 < 64" by simp_all
  show ?thesis using lt by (auto simp: encode_point_def continuation_def)
qed

lemma decode_encode_Cons:
  assumes "scalar c"
  shows "utf8_decode bad (encode_point c @ bs) = c # utf8_decode bad bs"
proof -
  obtain b more where e: "encode_point c = b # more" using encode_point_shape by blast
  show ?thesis using step_encode [OF assms e, of bs] e by simp
qed

lemma decode_encode: "list_all scalar s \<Longrightarrow> utf8_decode bad (utf8_encode s) = s"
proof (induction s)
  case (Cons c s)
  then show ?case by (simp add: decode_encode_Cons)
qed simp

lemma decode_skips: "list_all continuation bs \<Longrightarrow> utf8_decode [] (bs @ more) = utf8_decode [] more"
proof (induction bs)
  case (Cons b bs)
  then have "utf8_step b (bs @ more) = (None, 0)"
    by (auto simp: utf8_step_def starts_sequence_def continuation_def)
  then show ?case using Cons by simp
qed simp

lemma decode_ignore_drop: "list_all scalar s \<Longrightarrow> \<exists>j. decode_ignore (drop k (utf8_encode s)) = drop j s"
  unfolding decode_ignore_def
proof (induction s arbitrary: k)
  case (Cons c s)
  obtain b more where e: "encode_point c = b # more" and m: "list_all continuation more" using encode_point_shape by blast
  have here: "scalar c" "list_all scalar s" using Cons.prems by auto
  consider "k = 0" | i where "k = Suc i" "i < length more" | "length (encode_point c) \<le> k" unfolding e by (cases k) force+
  then show ?case
  proof cases
    case 1
    then show ?thesis using decode_encode [OF Cons.prems] by (metis drop0)
  next
    case 2
    have "list_all continuation (drop i more)" using m by (meson in_set_dropD list_all_iff)
    then have "utf8_decode [] (drop k (utf8_encode (c # s))) = utf8_decode [] (utf8_encode s)"
      using 2 e decode_skips by simp
    also have "... = drop 1 (c # s)" using decode_encode [OF here(2)] by simp
    finally show ?thesis by blast
  next
    case 3
    then obtain j where "utf8_decode [] (drop (k - length (encode_point c)) (utf8_encode s)) = drop j s"
      using Cons.IH [OF here(2)] by blast
    then have "utf8_decode [] (drop k (utf8_encode (c # s))) = drop (Suc j) (c # s)" using 3 by simp
    then show ?thesis by blast
  qed
qed simp

text \<open>A decoded text has no surrogates.\<close>

lemma step_is_scalar:
  assumes "utf8_step b rest = (Some c, n)"
  shows "scalar c"
proof -
  have e: "encode_point c = b # take n rest" using step_consumes [OF assms] by simp
  have start: "starts_sequence b" using assms by (auto simp: utf8_step_def split: if_splits)
  have "\<not> surrogate c"
  proof
    assume sur: "surrogate c"
    then have "b = 63" using e by (simp add: encode_point_def)
    then have "c = 63" using assms by (simp add: utf8_step_def starts_sequence_def followers_def)
    then show False using sur by (simp add: surrogate_def)
  qed
  moreover have "c < 0x110000"
  proof (rule ccontr)
    assume big: "\<not> c < 0x110000"
    then have b: "b = 0xF0 + c div 262144" and rest: "take n rest = [0x80 + c div 4096 mod 64, 0x80 + c div 64 mod 64, 0x80 + c mod 64]"
      using e \<open>\<not> surrogate c\<close> by (auto simp: encode_point_def)
    from rest obtain more where "rest = (0x80 + c div 4096 mod 64) # more" by (cases rest; cases n) auto
    then have "second_ok b (0x80 + c div 4096 mod 64)"
      using assms b by (auto simp: utf8_step_def followers_def split: if_splits)
    moreover have "b = 0xF4" using b big start by (auto simp: starts_sequence_def)
    ultimately have "c div 4096 mod 64 < 16" by (simp add: second_ok_def)
    moreover have "c div 262144 = 4" using b \<open>b = 0xF4\<close> by simp
    moreover have "c div 64 mod 64 < 64" "c mod 64 < 64" by simp_all
    ultimately show False using digits_of(3) [of c] big by linarith
  qed
  ultimately show ?thesis by (simp add: scalar_def)
qed

lemma decode_is_scalar: "list_all scalar bad \<Longrightarrow> list_all scalar (utf8_decode bad bs)"
proof (induction bs rule: length_induct)
  case (1 bs)
  show ?case
  proof (cases bs)
    case (Cons b rest)
    obtain oc n where step: "utf8_step b rest = (oc, n)" by (cases "utf8_step b rest")
    have "list_all scalar (utf8_decode bad (drop n rest))"
      by (rule 1(1) [rule_format, OF _ 1(2)]) (simp add: Cons)
    then show ?thesis using step step_is_scalar [of b rest _ n] Cons 1(2) by (cases oc) auto
  qed simp
qed
end
