(* ===== verification/RouteLogs.thy ===== *)
theory RouteLogs
  imports DockerCleanup Utf8
begin

text \<open>
  \<open>orchestrator/route_logs.py\<close>: \<open>BuildLogCollector\<close>, which reads the logs of a build's own
  services for the agent that looks into a failed route, within bounds on lines and bytes. The
  Docker daemon is the parameter of DockerCleanup; what \<open>Service.logs\<close> answers and the closing of
  the clients are parameters too, and may raise. Logs are bytes and texts of code points (Utf8).
\<close>

section \<open>Streams\<close>

datatype log_data = LogBytes bytes | LogText points

text \<open>What an iterator yields: data, an object of another type, or its end.\<close>

datatype log_chunk = LogChunk log_data | LogForeign | LogEnd

text \<open>The answer to \<open>logs\<close>: data, an iterator with its \<open>close\<close>, or something that cannot be iterated. The
  iterator is told how many chunks it has yielded.\<close>

datatype log_stream =
    LogOnce log_data
  | LogStream "nat \<Rightarrow> (world, log_chunk) action" "(world, unit) action"
  | LogUnreadable

record log_collector =
  lc_docker :: docker_env
  lc_logs :: "string \<Rightarrow> docker_object \<Rightarrow> nat \<Rightarrow> (world, log_stream) action"
  lc_timeout :: int
  lc_close :: "(world, unit) action"

definition SERVICE_LINES :: nat where "SERVICE_LINES = 100"
definition TOTAL_LINES :: nat where "TOTAL_LINES = 200"
definition TOTAL_BYTES :: nat where "TOTAL_BYTES = 65536"
definition SCAN_CHUNKS :: nat where "SCAN_CHUNKS = 4096"
definition SCAN_BYTES :: nat where "SCAN_BYTES = 4 * 1024 * 1024"

definition swallow :: "(world, unit) action \<Rightarrow> (world, unit) action" where
  "swallow m = catching m (\<lambda>_. ret ())"

text \<open>\<open>xs[-n:]\<close> for a positive number, which all callers give.\<close>

definition keep_last :: "nat \<Rightarrow> 'a list \<Rightarrow> 'a list" where
  "keep_last n xs = drop (length xs - n) xs"

fun chunk_bytes :: "log_data \<Rightarrow> bytes" where
  "chunk_bytes (LogBytes b) = b"
| "chunk_bytes (LogText s) = utf8_encode s"

definition scan_exceeded :: "(world, 'a) action" where
  "scan_exceeded = raise ValueError ''Docker log scan exceeded its bound''"

definition foreign_chunk :: "(world, 'a) action" where
  "foreign_chunk = raise ValueError ''Unexpected Docker log data''"

text \<open>The loop over the chunks. The first argument counts the chunks that may still come: the one
  after the last exceeds the bound.\<close>

primrec read_chunks ::
  "nat \<Rightarrow> (nat \<Rightarrow> (world, log_chunk) action) \<Rightarrow> nat \<Rightarrow> instant \<Rightarrow> nat \<Rightarrow> bytes \<Rightarrow> (world, bytes) action" where
  "read_chunks 0 next_chunk max_bytes deadline scanned tail =
     bd (next_chunk SCAN_CHUNKS) (\<lambda>chunk.
     case chunk of LogEnd \<Rightarrow> ret tail | LogForeign \<Rightarrow> foreign_chunk | LogChunk _ \<Rightarrow> scan_exceeded)"
| "read_chunks (Suc left) next_chunk max_bytes deadline scanned tail =
     bd (next_chunk (SCAN_CHUNKS - Suc left)) (\<lambda>chunk.
     case chunk of
       LogEnd \<Rightarrow> ret tail
     | LogForeign \<Rightarrow> foreign_chunk
     | LogChunk d \<Rightarrow>
         (let data = chunk_bytes d; scanned' = scanned + length data in
          bd utc_now (\<lambda>now.
          if SCAN_BYTES < scanned' \<or> deadline < now then scan_exceeded
          else read_chunks left next_chunk max_bytes deadline scanned'
                 (keep_last max_bytes (tail @ keep_last max_bytes data)))))"

definition last_lines :: "nat \<Rightarrow> bytes \<Rightarrow> points" where
  "last_lines max_lines tail = concat (keep_last max_lines (lines_keep (decode_replace tail)))"

definition scan_log ::
  "log_collector \<Rightarrow> (nat \<Rightarrow> (world, log_chunk) action) \<Rightarrow> nat \<Rightarrow> nat \<Rightarrow> instant \<Rightarrow> (world, points) action" where
  "scan_log lc next_chunk max_lines max_bytes deadline =
     bd (read_chunks SCAN_CHUNKS next_chunk max_bytes deadline 0 []) (\<lambda>tail. ret (last_lines max_lines tail))"

definition read_log :: "log_collector \<Rightarrow> log_stream \<Rightarrow> nat \<Rightarrow> nat \<Rightarrow> (world, points) action" where
  "read_log lc stream max_lines max_bytes =
     (case stream of
        LogUnreadable \<Rightarrow> raise ValueError ''Unexpected Docker log stream''
      | LogOnce d \<Rightarrow>
          bd utc_now (\<lambda>now.
          scan_log lc (\<lambda>i. ret (if i = 0 then LogChunk d else LogEnd)) max_lines max_bytes (now + lc_timeout lc))
      | LogStream next_chunk close \<Rightarrow>
          bd utc_now (\<lambda>now.
          finally_do (scan_log lc next_chunk max_lines max_bytes (now + lc_timeout lc)) (swallow close)))"

section \<open>One service\<close>

definition plain :: "string \<Rightarrow> points" where
  "plain s = map of_char s"

definition service_log ::
  "log_collector \<Rightarrow> build_resources \<Rightarrow> build_resource \<Rightarrow> nat \<Rightarrow> nat \<Rightarrow> (world, points) action" where
  "service_log lc m r max_lines max_bytes =
     (if \<not> truthy_opt (rs_native_id r) then conflict ''Service has no recorded immutable identity''
      else
        bd (target_client (lc_docker lc) (rs_target r)) (\<lambda>client.
        bd (docker_find (lc_docker lc) client Services r) (\<lambda>service.
        case service of
          None \<Rightarrow> ret (plain ''Tracked Swarm service is no longer present'')
        | Some s \<Rightarrow>
            bd (lift_res (assert_owner s m (Some r))) (\<lambda>_.
            bd (lc_logs lc client s max_lines) (\<lambda>stream.
            bd (read_log lc stream max_lines max_bytes) (\<lambda>t.
            ret (if t = [] then plain ''Swarm service has not emitted stdout/stderr logs'' else t)))))))"

definition safe_service_log ::
  "log_collector \<Rightarrow> build_resources \<Rightarrow> build_resource \<Rightarrow> nat \<Rightarrow> nat \<Rightarrow> (world, points) action" where
  "safe_service_log lc m r max_lines max_bytes =
     catching (service_log lc m r max_lines max_bytes) (\<lambda>e.
       if exn_class e = ResourceConflict
       then ret (plain ''Swarm service identity or build ownership could not be verified; no logs were read'')
       else ret (plain ''Swarm stdout/stderr logs could not be read from the controlled Docker endpoint''))"

text \<open>The lines of a text that are kept.\<close>

definition limited_lines :: "nat \<Rightarrow> nat \<Rightarrow> points \<Rightarrow> points list" where
  "limited_lines max_lines max_bytes t =
     take max_lines (lines_keep (decode_ignore (keep_last max_bytes (utf8_encode t))))"

section \<open>\<open>collect\<close>\<close>

text \<open>What has been collected and how many bytes and lines may follow. The subtractions never go below
  zero, as a text is cut to what is left before it is counted.\<close>

record log_progress =
  lg_output :: "(string, points) dict"
  lg_bytes :: nat
  lg_lines :: nat

definition log_key :: "build_resource \<Rightarrow> (string, points) dict \<Rightarrow> string" where
  "log_key r output = (if rs_name r \<in> set (keys output) then rs_name r @ ''@'' @ rs_target r else rs_name r)"

definition collect_service :: "log_collector \<Rightarrow> build_resources \<Rightarrow> build_resource \<Rightarrow> log_progress \<Rightarrow> (world, log_progress) action" where
  "collect_service lc m r st =
     (if lg_bytes st = 0 \<or> lg_lines st = 0 then ret st
      else
        bd (safe_service_log lc m r (min SERVICE_LINES (lg_lines st)) (lg_bytes st)) (\<lambda>t.
        let lines = limited_lines (lg_lines st) (lg_bytes st) t; kept = concat lines in
        ret \<lparr>lg_output = dset (lg_output st) (log_key r (lg_output st)) kept,
             lg_bytes = lg_bytes st - length (utf8_encode kept), lg_lines = lg_lines st - length lines\<rparr>))"

definition collector_note :: "string \<Rightarrow> (string, points) dict" where
  "collector_note s = [(''_collector'', plain s)]"

definition log_services :: "build_resources \<Rightarrow> build_resource list" where
  "log_services m = filter (\<lambda>r. rs_kind r = KService \<and> rs_managed r \<and> rs_state r \<noteq> Removed) (map snd (br_resources m))"

definition log_manifest :: "string \<Rightarrow> (world, (string, points) dict + build_resources) action" where
  "log_manifest build_id =
     bd (get_build_resources build_id) (\<lambda>manifest.
     case manifest of
       None \<Rightarrow> ret (Inl (collector_note ''Build resource manifest is unavailable; no logs were read''))
     | Some m \<Rightarrow>
         if br_build_id m \<noteq> build_id
         then ret (Inl (collector_note ''Build resource manifest is unavailable; no logs were read''))
         else
           bd (get_build build_id) (\<lambda>build.
           case build of
             None \<Rightarrow> ret (Inl (collector_note ''Build ownership could not be verified; no logs were read''))
           | Some b \<Rightarrow>
               if bj_appid b \<noteq> br_appid m
               then ret (Inl (collector_note ''Build ownership could not be verified; no logs were read''))
               else ret (Inr m)))"

definition collect_services :: "log_collector \<Rightarrow> build_resources \<Rightarrow> (world, (string, points) dict) action" where
  "collect_services lc m =
     bd (attempt (open_cleaner (lc_docker lc))) (\<lambda>opened.
     case opened of
       Inl _ \<Rightarrow> andthen (swallow (lc_close lc)) (ret (collector_note ''Controlled Docker log endpoint is unavailable''))
     | Inr _ \<Rightarrow>
         finally_do
           (bd (fold_each (log_services m) (collect_service lc m)
                 \<lparr>lg_output = [], lg_bytes = TOTAL_BYTES, lg_lines = TOTAL_LINES\<rparr>) (\<lambda>st. ret (lg_output st)))
           (swallow (lc_close lc)))"

definition collect_logs :: "log_collector \<Rightarrow> string \<Rightarrow> (world, (string, points) dict) action" where
  "collect_logs lc build_id =
     bd (catching (log_manifest build_id)
          (\<lambda>_. ret (Inl (collector_note ''Build resource manifest could not be read'')))) (\<lambda>source.
     case source of
       Inl output \<Rightarrow> ret output
     | Inr m \<Rightarrow>
         if log_services m = [] then ret (collector_note ''No managed Swarm services are recorded for this build'')
         else collect_services lc m)"

end
