(* ===== verification/RouteLogsSafety.thy ===== *)
theory RouteLogsSafety
  imports RouteLogs DockerSafety
begin

text \<open>
  What the collector of logs promises: it never raises, its output stays within the bounds its
  class documents whatever the daemon answers, and it reads logs of the build's own services only.
\<close>

section \<open>Bounds\<close>

definition log_text_ok :: "nat \<Rightarrow> points \<Rightarrow> bool" where
  "log_text_ok n t \<longleftrightarrow> list_all scalar t \<and> length (lines_keep t) \<le> n"

definition texts_within :: "nat \<Rightarrow> (world, points) action \<Rightarrow> bool" where
  "texts_within n a \<longleftrightarrow> (\<forall>w t w'. a w = (Inr t, w') \<longrightarrow> log_text_ok n t)"

lemma keep_last_length: "length (keep_last n xs) \<le> n"
  by (simp add: keep_last_def)

lemma keep_last_part: "set (concat (keep_last n (lines_keep s))) \<subseteq> set s"
proof -
  have "set (keep_last n (lines_keep s)) \<subseteq> set (lines_keep s)" by (simp add: keep_last_def set_drop_subset)
  then have "set (concat (keep_last n (lines_keep s))) \<subseteq> set (concat (lines_keep s))" by auto
  then show ?thesis by (simp only: lines_keep_concat)
qed

lemma last_lines_ok: "log_text_ok n (last_lines n tail)"
proof -
  let ?s = "decode_replace tail"
  have "list_all scalar ?s" unfolding decode_replace_def
    by (rule decode_is_scalar) (simp add: scalar_def surrogate_def)
  then have "list_all scalar (last_lines n tail)"
    using keep_last_part [of n ?s] by (auto simp: last_lines_def list_all_iff)
  moreover have "length (lines_keep (last_lines n tail)) \<le> n"
    using keep_last_length [of n "lines_keep ?s"] by (simp add: last_lines_def keep_last_def lines_keep_drop)
  ultimately show ?thesis by (simp add: log_text_ok_def)
qed

lemma message_scalar: "scalar (of_char c)"
proof -
  have "(of_char c :: nat) < 256" by simp
  then show ?thesis unfolding scalar_def surrogate_def by linarith
qed

lemma unbroken_line: "list_all (\<lambda>c. \<not> breaks_line c) s \<Longrightarrow> length (lines_keep s) \<le> 1"
proof (induction s)
  case (Cons c s)
  then have "\<not> breaks_line c" "length (lines_keep s) \<le> 1" by auto
  then show ?case by (cases "lines_keep s") (simp_all add: not_crlf inside_not_crlf)
qed simp

lemma message_ok: "list_all (\<lambda>c. \<not> breaks_line c) (plain s) \<Longrightarrow> 0 < n \<Longrightarrow> log_text_ok n (plain s)"
  using unbroken_line [of "plain s"] message_scalar by (auto simp: log_text_ok_def plain_def list_all_iff)

lemma messages_ok:
  assumes "0 < n"
  shows "log_text_ok n (plain ''Tracked Swarm service is no longer present'')"
    "log_text_ok n (plain ''Swarm service has not emitted stdout/stderr logs'')"
    "log_text_ok n (plain ''Swarm service identity or build ownership could not be verified; no logs were read'')"
    "log_text_ok n (plain ''Swarm stdout/stderr logs could not be read from the controlled Docker endpoint'')"
  by (rule message_ok [OF _ assms], simp add: plain_def breaks_line_def)+

lemma read_log_ok:
  assumes "read_log lc stream n k w = (Inr t, w')"
  shows "log_text_ok n t"
  using assms last_lines_ok [of n]
  by (auto simp: read_log_def scan_log_def bd_app finally_do_app split: log_stream.splits prod.splits sum.splits)

lemma service_log_ok:
  assumes "0 < n" "service_log lc m r n k w = (Inr t, w')"
  shows "log_text_ok n t"
  using assms(2) messages_ok [OF assms(1)]
  by (auto simp: service_log_def conflict_def elim!: bd_InrE split: if_splits option.splits) (rule read_log_ok, assumption)+

lemma safe_service_log_ok:
  assumes "0 < n"
  obtains t w' where "safe_service_log lc m r n k w = (Inr t, w')" "log_text_ok n t"
proof (cases "service_log lc m r n k w")
  case (Pair outcome w')
  show ?thesis
  proof (cases outcome)
    case (Inl e)
    then show ?thesis using that messages_ok(3,4) [OF assms] Pair
      by (cases "exn_class e = ResourceConflict") (simp_all add: safe_service_log_def catching_app)
  next
    case (Inr t)
    then show ?thesis using that Pair service_log_ok [OF assms, of lc m r k w t w'] by (simp add: safe_service_log_def catching_app)
  qed
qed

text \<open>What is kept of a text.\<close>

lemma limited_bytes: "length (utf8_encode (concat (limited_lines n k t))) \<le> k"
proof -
  let ?s = "decode_ignore (keep_last k (utf8_encode t))"
  have "?s = concat (limited_lines n k t) @ concat (drop n (lines_keep ?s))"
    by (metis append_take_drop_id concat_append lines_keep_concat limited_lines_def)
  then have "length (utf8_encode (concat (limited_lines n k t))) \<le> length (utf8_encode ?s)"
    by (metis le_add1 length_append utf8_encode_append)
  also have "... \<le> length (keep_last k (utf8_encode t))" by (rule encode_decode_length)
  also have "... \<le> k" by (rule keep_last_length)
  finally show ?thesis .
qed

lemma limited_count:
  "lines_keep (concat (limited_lines n k t)) = limited_lines n k t" "length (limited_lines n k t) \<le> n"
  by (simp_all add: limited_lines_def lines_keep_take)

lemma limited_service_lines:
  assumes "log_text_ok i t"
  shows "length (limited_lines n k t) \<le> i"
proof -
  obtain j where "decode_ignore (keep_last k (utf8_encode t)) = drop j t"
    using decode_ignore_drop assms by (metis keep_last_def log_text_ok_def)
  then have "length (limited_lines n k t) \<le> length (lines_keep (drop j t))" by (simp add: limited_lines_def)
  also have "... \<le> i" using lines_keep_suffix [of j t] assms by (simp add: log_text_ok_def)
  finally show ?thesis .
qed

section \<open>The bounds of a collection\<close>

definition total_of :: "(points \<Rightarrow> nat) \<Rightarrow> (string, points) dict \<Rightarrow> nat" where
  "total_of f d = sum_list (map (\<lambda>(k, t). f t) d)"

abbreviation byte_count :: "points \<Rightarrow> nat" where
  "byte_count t \<equiv> length (utf8_encode t)"

abbreviation line_count :: "points \<Rightarrow> nat" where
  "line_count t \<equiv> length (lines_keep t)"

lemma total_dset: "total_of f (dset d k v) \<le> total_of f d + f v"
  by (induction d) (auto simp: total_of_def)

definition progress_ok :: "log_progress \<Rightarrow> bool" where
  "progress_ok st \<longleftrightarrow> total_of byte_count (lg_output st) + lg_bytes st \<le> TOTAL_BYTES \<and>
     total_of line_count (lg_output st) + lg_lines st \<le> TOTAL_LINES \<and>
     list_all (\<lambda>(k, t). line_count t \<le> SERVICE_LINES) (lg_output st)"

lemma logs_all_dset: "list_all (\<lambda>(k, t). P t) d \<Longrightarrow> P v \<Longrightarrow> list_all (\<lambda>(k, t). P t) (dset d k v)"
  by (induction d) auto

lemma collect_service_ok:
  assumes "progress_ok st"
  shows "\<exists>st' w'. collect_service lc m r st w = (Inr st', w') \<and> progress_ok st'"
proof (cases "lg_bytes st = 0 \<or> lg_lines st = 0")
  case True
  then show ?thesis using assms by (auto simp: collect_service_def)
next
  case False
  then have "0 < min SERVICE_LINES (lg_lines st)" by (simp add: SERVICE_LINES_def)
  then obtain t w' where t: "safe_service_log lc m r (min SERVICE_LINES (lg_lines st)) (lg_bytes st) w = (Inr t, w')"
    "log_text_ok (min SERVICE_LINES (lg_lines st)) t"
    using safe_service_log_ok by blast
  let ?lines = "limited_lines (lg_lines st) (lg_bytes st) t"
  let ?out = "dset (lg_output st) (log_key r (lg_output st)) (concat ?lines)"
  let ?st = "\<lparr>lg_output = ?out, lg_bytes = lg_bytes st - byte_count (concat ?lines), lg_lines = lg_lines st - length ?lines\<rparr>"
  have run: "collect_service lc m r st w = (Inr ?st, w')"
    using False t(1) by (simp add: collect_service_def Let_def)
  have "line_count (concat ?lines) \<le> SERVICE_LINES"
    using limited_service_lines [OF t(2), of "lg_lines st" "lg_bytes st"] limited_count(1) by simp
  then have "progress_ok ?st"
    using assms limited_bytes [of "lg_lines st" "lg_bytes st" t] limited_count [of "lg_lines st" "lg_bytes st" t]
      total_dset [where f = byte_count and d = "lg_output st" and k = "log_key r (lg_output st)" and v = "concat ?lines"]
      total_dset [where f = line_count and d = "lg_output st" and k = "log_key r (lg_output st)" and v = "concat ?lines"]
    by (auto simp: progress_ok_def logs_all_dset)
  then show ?thesis using run by blast
qed

lemma collect_fold_ok:
  "progress_ok st \<Longrightarrow> \<exists>st' w'. fold_each rs (collect_service lc m) st w = (Inr st', w') \<and> progress_ok st'"
proof (induction rs arbitrary: st w)
  case (Cons r rs)
  obtain st1 w1 where "collect_service lc m r st w = (Inr st1, w1)" "progress_ok st1"
    using collect_service_ok [OF Cons.prems] by blast
  then show ?case using Cons.IH [of st1 w1] by simp
qed simp

definition logs_bounded :: "(string, points) dict \<Rightarrow> bool" where
  "logs_bounded output \<longleftrightarrow> total_of byte_count output \<le> 65536 \<and> total_of line_count output \<le> 200 \<and>
     list_all (\<lambda>(service, t). line_count t \<le> 100) output"

lemma progress_bounded: "progress_ok st \<Longrightarrow> logs_bounded (lg_output st)"
  by (simp add: progress_ok_def logs_bounded_def TOTAL_BYTES_def TOTAL_LINES_def SERVICE_LINES_def)

lemma note_bounded: "list_all (\<lambda>c. \<not> breaks_line c) (plain s) \<Longrightarrow> byte_count (plain s) \<le> 65536 \<Longrightarrow> logs_bounded (collector_note s)"
  using unbroken_line [of "plain s"] by (simp add: logs_bounded_def collector_note_def total_of_def)

lemma notes_bounded:
  "logs_bounded (collector_note ''Build resource manifest is unavailable; no logs were read'')"
  "logs_bounded (collector_note ''Build ownership could not be verified; no logs were read'')"
  "logs_bounded (collector_note ''No managed Swarm services are recorded for this build'')"
  "logs_bounded (collector_note ''Controlled Docker log endpoint is unavailable'')"
  by (rule note_bounded; simp add: plain_def breaks_line_def encode_point_def surrogate_def)+

lemma swallow_returns: "\<exists>w'. swallow m w = (Inr (), w')"
  by (auto simp: swallow_def catching_app split: prod.split sum.split)

lemma collect_services_bounded: "\<exists>out w'. collect_services lc m w = (Inr out, w') \<and> logs_bounded out"
proof -
  obtain o1 w1 where o1: "open_cleaner (lc_docker lc) w = (o1, w1)" by fastforce
  show ?thesis
  proof (cases o1)
    case (Inl e)
    then show ?thesis using o1 notes_bounded(4) swallow_returns [of "lc_close lc" w1]
      by (auto simp: collect_services_def bd_app attempt_app andthen_app)
  next
    case (Inr u)
    let ?st = "\<lparr>lg_output = [], lg_bytes = TOTAL_BYTES, lg_lines = TOTAL_LINES\<rparr>"
    have "progress_ok ?st" by (simp add: progress_ok_def total_of_def)
    from collect_fold_ok [OF this] obtain st w2 where
      st: "fold_each (log_services m) (collect_service lc m) ?st w1 = (Inr st, w2)" "progress_ok st" by blast
    then show ?thesis using o1 Inr progress_bounded [OF st(2)] swallow_returns [of "lc_close lc" w2]
      by (auto simp: collect_services_def bd_app attempt_app finally_do_app)
  qed
qed

lemma log_manifest_returns:
  "\<exists>source. log_manifest b w = (Inr source, w) \<and>
     (\<forall>out. source = Inl out \<longrightarrow> logs_bounded out) \<and> (\<forall>m. source = Inr m \<longrightarrow> look_resources w b = Some m \<and> br_build_id m = b)"
  using notes_bounded by (auto simp: log_manifest_def get_build_resources_def get_build_def look_resources_def bd_app split: option.split)

text \<open>C22: collecting the logs of a build never raises, whatever the daemon answers: it returns at most 64 KiB
  of text and 200 lines in all, at most 100 lines of each service.\<close>

theorem build_logs_are_bounded:
  "\<exists>out w'. collect_logs lc b w = (Inr out, w') \<and>
     sum_list (map (\<lambda>(service, t). length (utf8_encode t)) out) \<le> 65536 \<and>
     sum_list (map (\<lambda>(service, t). length (lines_keep t)) out) \<le> 200 \<and>
     list_all (\<lambda>(service, t). length (lines_keep t) \<le> 100) out"
proof -
  obtain source where s: "log_manifest b w = (Inr source, w)" "\<And>out. source = Inl out \<Longrightarrow> logs_bounded out"
    using log_manifest_returns [of b w] by blast
  have "\<exists>out w'. collect_logs lc b w = (Inr out, w') \<and> logs_bounded out"
    using s notes_bounded(3) collect_services_bounded [of lc _ w]
    by (cases source) (auto simp: collect_logs_def bd_app catching_app)
  then show ?thesis by (simp add: logs_bounded_def total_of_def)
qed

section \<open>Whose logs are read\<close>

text \<open>A service with a recorded identity in the manifest and the labels of this very build.\<close>

definition own_service :: "world \<Rightarrow> string \<Rightarrow> docker_object \<Rightarrow> bool" where
  "own_service w b s \<longleftrightarrow>
     (case look_resources w b of
        None \<Rightarrow> False
      | Some m \<Rightarrow> br_build_id m = b \<and> label_owner s m = Inr () \<and>
          list_ex (\<lambda>r. truthy_opt (rs_native_id r) \<and> ob_id s = rs_native_id r) (log_services m))"

abbreviation other_logs :: "log_collector \<Rightarrow> (string \<Rightarrow> docker_object \<Rightarrow> nat \<Rightarrow> (world, log_stream) action) \<Rightarrow> log_collector" where
  "other_logs lc l \<equiv> lc\<lparr>lc_logs := l\<rparr>"

lemma read_log_other: "read_log (other_logs lc l) = read_log lc"
  by (intro ext) (simp add: read_log_def scan_log_def cong: log_stream.case_cong)

lemma found_identity:
  assumes "docker_find env e c r w = (Inr (Some s), w')" "truthy_opt (rs_native_id r)"
  shows "ob_id s = rs_native_id r"
  using assms
  by (auto simp: docker_find_def Let_def str_or_def truthy_opt_def conflict_def elim!: bd_InrE split: option.splits if_splits)

lemma service_log_other:
  assumes "\<And>e s n. label_owner s m = Inr () \<Longrightarrow> truthy_opt (rs_native_id r) \<Longrightarrow> ob_id s = rs_native_id r \<Longrightarrow> l e s n = lc_logs lc e s n"
  shows "service_log (other_logs lc l) m r i k = service_log lc m r i k"
proof (cases "truthy_opt (rs_native_id r)")
  case True
  show ?thesis unfolding service_log_def read_log_other
  proof (rule ext, simp add: True, intro bd_cong_step refl)
    fix w client w1 service w2
    assume f: "docker_find (lc_docker lc) client Services r w1 = (Inr service, w2)"
    show "(case service of
          None \<Rightarrow> ret (plain ''Tracked Swarm service is no longer present'')
        | Some s \<Rightarrow>
            bd (lift_res (assert_owner s m (Some r))) (\<lambda>_.
            bd (l client s i) (\<lambda>stream.
            bd (read_log lc stream i k) (\<lambda>t.
            ret (if t = [] then plain ''Swarm service has not emitted stdout/stderr logs'' else t))))) w2
      = (case service of
          None \<Rightarrow> ret (plain ''Tracked Swarm service is no longer present'')
        | Some s \<Rightarrow>
            bd (lift_res (assert_owner s m (Some r))) (\<lambda>_.
            bd (lc_logs lc client s i) (\<lambda>stream.
            bd (read_log lc stream i k) (\<lambda>t.
            ret (if t = [] then plain ''Swarm service has not emitted stdout/stderr logs'' else t))))) w2"
    proof (cases service)
      case (Some s)
      have id: "ob_id s = rs_native_id r" using found_identity f True Some by blast
      show ?thesis
      proof (cases "assert_owner s m (Some r)")
        case (Inr u)
        then have "label_owner s m = Inr ()" by (auto simp: assert_owner_def rbind_Inr_iff)
        then show ?thesis using assms True id Some by simp
      qed (simp add: Some bd_app)
    qed simp
  qed
qed (simp add: service_log_def)

lemma collect_service_other:
  assumes "\<And>e s n. label_owner s m = Inr () \<Longrightarrow> truthy_opt (rs_native_id r) \<Longrightarrow> ob_id s = rs_native_id r \<Longrightarrow> l e s n = lc_logs lc e s n"
  shows "collect_service (other_logs lc l) m r = collect_service lc m r"
proof -
  have "service_log (other_logs lc l) m r = service_log lc m r"
    by (intro ext) (simp add: service_log_other [OF assms])
  then show ?thesis by (intro ext) (simp add: collect_service_def safe_service_log_def)
qed

lemma fold_each_cong: "(\<And>x. x \<in> set xs \<Longrightarrow> f x = g x) \<Longrightarrow> fold_each xs f = fold_each xs g"
proof (induction xs)
  case (Cons x xs)
  then have "fold_each xs f = fold_each xs g" "f x = g x" by auto
  then show ?case by (intro ext) simp
qed (intro ext, simp)

text \<open>C23: only the logs of the build's own services are read: services that the build's manifest records
  as managed, found under their recorded identity and labelled for this very build. Logs of any
  other service could read differently without a difference to the outcome.\<close>

theorem only_own_logs_are_read:
  assumes "\<And>e s n. own_service w b s \<Longrightarrow> l e s n = lc_logs lc e s n"
  shows "collect_logs (lc\<lparr>lc_logs := l\<rparr>) b w = collect_logs lc b w"
proof -
  obtain source where s: "log_manifest b w = (Inr source, w)"
    and m: "\<And>m. source = Inr m \<Longrightarrow> look_resources w b = Some m \<and> br_build_id m = b"
    using log_manifest_returns [of b w] by blast
  show ?thesis
  proof (cases source)
    case (Inr m)
    have "collect_service (other_logs lc l) m r = collect_service lc m r" if "r \<in> set (log_services m)" for r
      by (rule collect_service_other, rule assms) (use m [OF Inr] that in \<open>auto simp: own_service_def list_ex_iff\<close>)
    then have "fold_each (log_services m) (collect_service (other_logs lc l) m) = fold_each (log_services m) (collect_service lc m)"
      by (rule fold_each_cong)
    then have "collect_services (other_logs lc l) m = collect_services lc m"
      by (simp add: collect_services_def cong: sum.case_cong)
    then show ?thesis using s Inr by (simp add: collect_logs_def bd_app catching_app)
  qed (use s in \<open>simp add: collect_logs_def bd_app catching_app\<close>)
qed

text \<open>A build with one service, and a daemon that answers for others in one of two ways.\<close>

definition log_sample_world :: world where
  "log_sample_world = (empty_world str_nat 10)\<lparr>
     w_builds := [(''b1'', new_build_job ''b1'' ''shop'' ''main'' 5)],
     w_build_resources := [(''b1'', (new_build_resources ''b1'' ''shop'' 1 5)\<lparr>
        br_resources := [(''k1'', (new_build_resource ''k1'' KService ''web'' ''docker:n1'' 5)\<lparr>rs_native_id := Some ''svc1''\<rparr>)]\<rparr>)]\<rparr>"

definition sample_logs :: "bool \<Rightarrow> string \<Rightarrow> docker_object \<Rightarrow> nat \<Rightarrow> (world, log_stream) action" where
  "sample_logs strict e s n =
     (if ob_id s = Some ''svc1'' then ret (LogOnce (LogBytes [104, 105, 10]))
      else if strict then raise OtherError ''refused'' else ret (LogOnce (LogBytes [110, 111])))"

definition sample_collector :: log_collector where
  "sample_collector = \<lparr>lc_docker = docker_sample_env, lc_logs = sample_logs True, lc_timeout = 30, lc_close = ret ()\<rparr>"

lemma sample_own: "own_service log_sample_world ''b1'' s \<Longrightarrow> ob_id s = Some ''svc1''"
  by (simp add: own_service_def log_sample_world_def look_resources_def log_services_def new_build_resource_def
      new_build_resources_def split: if_splits)

theorem only_own_logs_are_read_witness:
  "collect_logs (sample_collector\<lparr>lc_logs := sample_logs False\<rparr>) ''b1'' log_sample_world
     = collect_logs sample_collector ''b1'' log_sample_world"
  by (rule only_own_logs_are_read) (simp add: sample_own sample_logs_def sample_collector_def)

end
