(* ===== verification/Spec2Isabelle.thy ===== *)
theory Spec2Isabelle
  imports Applications Jenkins RouteProbes RouteChecks DockerSafety DynamicSafety ComposeSafety SwarmExamples SwarmBuild
    WorkspaceSafety WorkerSafety ComponentSafety TemplateSafety CommentSafety StackSafety
    GitLabSafety HarborSafety RegistrySafety RouteLogsSafety
begin

text \<open>
  A verification library for the orchestrator: a service that takes an application's Compose
  document through static checks, a Jenkins build, a Docker Swarm deployment, dynamic checks of
  the deployed routes, and the removal of everything a build created.

  How the parts interact. Documents (builds, static checks, the manifest of a build's resources,
  agent roles, alerts) live in a repository that several workers share. A worker changes a
  document by a compare-and-swap, and holds a lease on a build's manifest while it works on the
  build. Jenkins, Docker, the registry, the agents and the broker are reached through clients.

  The model. An operation is an action \<open>w \<Rightarrow> (exn + 'a) \<times> w\<close> on the world of Prelude and
  Models: an exception is a value, and what was written before a raise stays written. The clock,
  the identifiers drawn and the requests made are part of the world. Other workers are explicit:
  where a theorem is about interleaving, arbitrary steps of the other workers' operations occur
  between two steps. Clients of other systems are parameters: functions that may do anything
  the hypothesis of the theorem does not exclude. Exception classes are the source's; a
  message that embeds a field name is sometimes abbreviated, as no code branches on it.

  The theories and the files under src/orchestrator they model:
  Prelude, Regex, Sha256, Values, Urls, Store: the action combinators, the derivative matcher for
  the patterns the code uses with \<open>fullmatch\<close>, SHA-256 on words of 32 bits, the values of YAML and
  JSON documents with Python's equality, \<open>urlsplit\<close> and \<open>urljoin\<close>, and the contract of a document
  store (locales \<open>store\<close>, \<open>document_history\<close>, \<open>step_guarantee\<close>, interpreted on builds, checks and
  manifests). Polling: the shape of the polling loops (locale \<open>polling\<close>, interpreted on the three of them).
  Naming: \<open>naming.py\<close>. Models: \<open>models.py\<close>. Repository: the in-memory repository of
  \<open>repository.py\<close>, the only one whose code is in the repository and not in a database.
  Builds, Applications: the build state machine, \<open>ApplicationService\<close> and \<open>queue_build\<close> of
  \<open>services.py\<close>. Leases, Cleanup, CleanupSafety: \<open>build_resources.py\<close>. DockerCleanup,
  DockerSafety: \<open>docker_cleanup.py\<close>. RouteChecks: \<open>route_checks.py\<close>. RouteProbes:
  \<open>route_probes.py\<close>. Redaction, DynamicChecks, DynamicSafety: \<open>dynamic_checks.py\<close>.
  Http, Jenkins: the HTTP responses of the clients and \<open>jenkins.py\<close>. Diagnostics: the records of
  \<open>jenkins_diagnostics.py\<close>. Workspaces, WorkspaceSafety: paths and mounts of \<open>workspaces.py\<close>.
  \<open>docker_services.py\<close>: ComposeFields and Compose (the pure part), ComposeSafety, SwarmPorts (Docker
  objects and ports), SwarmDeploy (the deployment), SwarmBuild (isolated deployments and single
  services), SwarmSafety, SwarmRemoval, SwarmExamples (what they promise, and concrete runs).
  \<open>worker_runtime.py\<close>: ComposeInputs (the checks of documents), Worker (everything else), BuildFrame
  (what its operations do to stored builds; locale \<open>build_frame\<close>), WorkerSafety.
  BuildContract: \<open>compose_contract.py\<close>. Templates (the catalog of components and the documents
  composed from it), TemplateComments (comments and commented YAML): \<open>templates.py\<close>; ComponentSafety,
  TemplateSafety and CommentSafety have their theorems. TechStacks, StackSafety: \<open>TechStackService\<close>
  of \<open>services.py\<close>, which stores editable components and projects them into the catalog. The
  YAML library is a parameter of all of them.
  GitLab, GitLabSafety: \<open>GitLabHttpAdapter\<close> of \<open>gitlab.py\<close>, over an HTTP transport, a runner of git
  commands and a file system. Harbor, HarborSafety: \<open>harbor_cleanup.py\<close>. Registry,
  RegistrySafety: \<open>registry.py\<close>, over the calls of the Docker SDK. RouteLogs, RouteLogsSafety:
  \<open>route_logs.py\<close>, with Utf8: texts beyond ASCII as code points, their bytes and their lines.

  What the theorems show. Leases exclude other workers under every interleaving and are given
  back however their block ends. The build state machine accepts exactly the allowed
  transitions, and of two workers one wins. Every task of a worker refines an abstract machine in which builds
  move one at a time along those transitions; a build is sent to Jenkins only through an
  open gate and with the request reserved, and succeeds exactly when its dynamic check has passed. A
  clean-up that reports success left nothing, never touches what the build does not own
  exclusively, nor data when discovery failed. A build passes the gate only with a current
  passed check of its own key. Probe requests are confined to their route. A dynamic check
  reserves every external call before it makes it, repeats none when resumed, and always
  decides. A Compose document that passes validation converts without error, has a dependency
  order unless services block each other, and well-formed ports. A deployment removes only
  what it may, a build mounts only what is its own, and of the host only what is read-only. Jenkins'
  credentials stay at its origin. Names are bounded, and injective where the code claims it. A
  selection of templates is refused exactly when its dependencies have a cycle, and composes to a valid
  document unless it waits for the health of a service without a health check; comments never
  change a document; the catalog mirrors the stored stacks. A repository is used only as a complete
  clone at the resolved commit, its Compose file is chosen without ambiguity, and the GitLab token
  stays at its site, with the exception the lemma \<open>bare_web_url_leaves_home\<close> shows. Of Harbor only
  the build's own tag is removed; every base image is reported, and no two share a place in Harbor.
  Logs handed to an agent are of the build's own services and bounded.

  Bounds and fuel. Loops of the code are structural or measured recursions. Only polling loops
  carry a number of rounds: \<open>wait_rounds\<close>, \<open>ready_rounds\<close> and \<open>port_rounds\<close> get \<open>Suc (nat timeout)\<close>,
  enough because every round sleeps for at least a second of the clock, as the lemma
  \<open>rounds_enough\<close> of Polling and its interpretations show. Where the code sleeps a fraction of a
  second the clock of the model counts in units of its interval.
  Compare-and-swap loops have the bounds of the code.

  Not modelled: routing, settings and wiring of the HTTP API and of Celery, sockets, TLS and
  git themselves, the subprocesses of agents, the writing of workspaces to disk, the patterns that read Jenkins
  consoles, encryption, the Mongo repository (its atomic
  updates are taken as the in-memory one performs them), scripts, and the effects of threads
  within one process other than the renewal of a lease.
\<close>

end
